(* ===== verification/Prelude.thy ===== *)
theory Prelude
  imports Main "HOL-Library.State_Monad"
begin

text \<open>
  The prelude of the library: what every other theory shares.

  The Go code of this repository is a sequence of calls, each of which may change the
  state and returns a value together with an error that the caller tests. A Go function
  with effects is modelled by a value of the type \<open>('s, 'a) state\<close> of the library's
  state monad; a Go result pair \<open>(T, error)\<close> of which exactly one part is meaningful
  by the sum \<open>'e + 'a\<close>, and a lone \<open>error\<close> by \<open>'e option\<close> with \<open>None\<close> for \<open>nil\<close>.

  The theory also holds the small Hoare logic the invariant proofs use: \<open>holds P m Q\<close>,
  and \<open>keeps I m\<close> for "every run of \<open>m\<close> from a state that satisfies \<open>I\<close> ends in one".
  Their rules are collected in \<open>keeps_rules\<close>.
\<close>

named_theorems keeps_rules \<open>introduction rules that take a program apart\<close>

section \<open>The program monad\<close>

abbreviation ret :: "'a \<Rightarrow> ('s, 'a) state" where
  "ret \<equiv> State_Monad.return"

text \<open>\<open>if err != nil { ... }\<close> after a call that returns a value and an error.\<close>

definition on_err ::
  "('s, 'e + 'a) state \<Rightarrow> ('e \<Rightarrow> ('s, 'b) state) \<Rightarrow> ('a \<Rightarrow> ('s, 'b) state) \<Rightarrow> ('s, 'b) state" where
  "on_err m h k = do { r \<leftarrow> m; case r of Inl e \<Rightarrow> h e | Inr x \<Rightarrow> k x }"

text \<open>\<open>if err := call(); err != nil { ... }\<close> for a call that returns an error only.\<close>

definition if_err ::
  "('s, 'e option) state \<Rightarrow> ('e \<Rightarrow> ('s, 'b) state) \<Rightarrow> ('s, 'b) state \<Rightarrow> ('s, 'b) state" where
  "if_err m h k = do { r \<leftarrow> m; case r of Some e \<Rightarrow> h e | None \<Rightarrow> k }"

definition get_state :: "('s, 's) state" where
  "get_state = State (\<lambda>s. (s, s))"

definition modify_state :: "('s \<Rightarrow> 's) \<Rightarrow> ('s, unit) state" where
  "modify_state f = State (\<lambda>s. ((), f s))"

text \<open>A loop \<open>for _, x := range xs\<close> whose body contributes to a slice of errors.\<close>

fun for_each :: "('x \<Rightarrow> ('s, 'e list) state) \<Rightarrow> 'x list \<Rightarrow> ('s, 'e list) state" where
  "for_each f [] = ret []"
| "for_each f (x # xs) = do { e \<leftarrow> f x; es \<leftarrow> for_each f xs; ret (e @ es) }"

text \<open>A loop whose body only has effects.\<close>

fun run_each :: "('x \<Rightarrow> ('s, unit) state) \<Rightarrow> 'x list \<Rightarrow> ('s, unit) state" where
  "run_each f [] = ret ()"
| "run_each f (x # xs) = do { f x; run_each f xs }"

lemma run_get_state [simp]: "run_state get_state s = (s, s)"
  by (simp add: get_state_def)

lemma run_modify_state [simp]: "run_state (modify_state f) s = ((), f s)"
  by (simp add: modify_state_def)

lemma run_on_err:
  "run_state (on_err m h k) s =
     (case run_state m s of
        (Inl e, s') \<Rightarrow> run_state (h e) s'
      | (Inr x, s') \<Rightarrow> run_state (k x) s')"
  by (simp add: on_err_def split: prod.splits sum.splits)

lemma run_if_err:
  "run_state (if_err m h k) s =
     (case run_state m s of
        (Some e, s') \<Rightarrow> run_state (h e) s'
      | (None, s') \<Rightarrow> run_state k s')"
  by (simp add: if_err_def split: prod.splits option.splits)

lemmas run_err = run_on_err run_if_err

section \<open>A Hoare logic for the program monad\<close>

definition holds :: "('s \<Rightarrow> bool) \<Rightarrow> ('s, 'a) state \<Rightarrow> ('a \<Rightarrow> 's \<Rightarrow> bool) \<Rightarrow> bool" where
  "holds P m Q \<longleftrightarrow> (\<forall>s. P s \<longrightarrow> (case run_state m s of (a, s') \<Rightarrow> Q a s'))"

definition keeps :: "('s \<Rightarrow> bool) \<Rightarrow> ('s, 'a) state \<Rightarrow> bool" where
  "keeps I m \<longleftrightarrow> holds I m (\<lambda>_. I)"

lemma holdsI: "(\<And>s a s'. P s \<Longrightarrow> run_state m s = (a, s') \<Longrightarrow> Q a s') \<Longrightarrow> holds P m Q"
  by (auto simp: holds_def split: prod.splits)

lemma holdsD: "holds P m Q \<Longrightarrow> P s \<Longrightarrow> run_state m s = (a, s') \<Longrightarrow> Q a s'"
  by (auto simp: holds_def split: prod.splits)

lemma keepsI: "(\<And>s a s'. I s \<Longrightarrow> run_state m s = (a, s') \<Longrightarrow> I s') \<Longrightarrow> keeps I m"
  by (auto simp: keeps_def intro: holdsI)

lemma keepsD: "keeps I m \<Longrightarrow> I s \<Longrightarrow> run_state m s = (a, s') \<Longrightarrow> I s'"
  unfolding keeps_def by (rule holdsD)

lemma keeps_snd: "keeps I m \<Longrightarrow> I s \<Longrightarrow> I (snd (run_state m s))"
  by (cases "run_state m s") (auto dest: keepsD)

lemma holds_bind:
  assumes "holds P m R" and "\<And>a. holds (R a) (f a) Q"
  shows "holds P (State_Monad.bind m f) Q"
proof (rule holdsI)
  fix s b t
  assume P: "P s" and run: "run_state (State_Monad.bind m f) s = (b, t)"
  obtain a s' where m: "run_state m s = (a, s')"
    by (cases "run_state m s")
  with run have "run_state (f a) s' = (b, t)"
    by simp
  with holdsD [OF assms(1) P m] assms(2) show "Q b t"
    by (blast dest: holdsD)
qed

lemma holds_return: "(\<And>s. P s \<Longrightarrow> Q a s) \<Longrightarrow> holds P (ret a) Q"
  by (auto intro: holdsI)

lemma holds_pre: "holds P m Q \<Longrightarrow> (\<And>s. P' s \<Longrightarrow> P s) \<Longrightarrow> holds P' m Q"
  by (auto simp: holds_def)

lemma holds_post: "holds P m Q \<Longrightarrow> (\<And>a s. Q a s \<Longrightarrow> Q' a s) \<Longrightarrow> holds P m Q'"
  by (auto simp: holds_def split: prod.splits)

lemma holds_on_err:
  assumes "holds P m (\<lambda>x s. case x of Inl e \<Rightarrow> R e s | Inr a \<Rightarrow> T a s)"
    and "\<And>e. holds (R e) (h e) Q" and "\<And>a. holds (T a) (k a) Q"
  shows "holds P (on_err m h k) Q"
  unfolding on_err_def
proof (rule holds_bind [OF assms(1)])
  show "holds (\<lambda>s. case x of Inl e \<Rightarrow> R e s | Inr a \<Rightarrow> T a s) (case x of Inl e \<Rightarrow> h e | Inr a \<Rightarrow> k a) Q" for x
    using assms(2,3) by (cases x) simp_all
qed

lemma holds_if_err:
  assumes "holds P m (\<lambda>x s. case x of Some e \<Rightarrow> R e s | None \<Rightarrow> T s)"
    and "\<And>e. holds (R e) (h e) Q" and "holds T k Q"
  shows "holds P (if_err m h k) Q"
  unfolding if_err_def
proof (rule holds_bind [OF assms(1)])
  show "holds (\<lambda>s. case x of Some e \<Rightarrow> R e s | None \<Rightarrow> T s) (case x of Some e \<Rightarrow> h e | None \<Rightarrow> k) Q" for x
    using assms(2,3) by (cases x) simp_all
qed

lemma keeps_return [keeps_rules]: "keeps I (ret a)"
  by (simp add: keeps_def holds_return)

lemma keeps_bind [keeps_rules]:
  "keeps I m \<Longrightarrow> (\<And>a. keeps I (f a)) \<Longrightarrow> keeps I (State_Monad.bind m f)"
  unfolding keeps_def by (rule holds_bind)

lemma keeps_if [keeps_rules]:
  "(b \<Longrightarrow> keeps I m) \<Longrightarrow> (\<not> b \<Longrightarrow> keeps I n) \<Longrightarrow> keeps I (if b then m else n)"
  by simp

lemma keeps_case_option [keeps_rules]:
  "(x = None \<Longrightarrow> keeps I m) \<Longrightarrow> (\<And>y. x = Some y \<Longrightarrow> keeps I (f y))
    \<Longrightarrow> keeps I (case x of None \<Rightarrow> m | Some y \<Rightarrow> f y)"
  by (cases x) simp_all

lemma keeps_case_sum [keeps_rules]:
  "(\<And>e. x = Inl e \<Longrightarrow> keeps I (f e)) \<Longrightarrow> (\<And>y. x = Inr y \<Longrightarrow> keeps I (g y))
    \<Longrightarrow> keeps I (case x of Inl e \<Rightarrow> f e | Inr y \<Rightarrow> g y)"
  by (cases x) simp_all

lemma keeps_case_prod [keeps_rules]:
  "(\<And>a b. p = (a, b) \<Longrightarrow> keeps I (f a b)) \<Longrightarrow> keeps I (case p of (a, b) \<Rightarrow> f a b)"
  by (cases p) simp

lemma keeps_on_err [keeps_rules]:
  "keeps I m \<Longrightarrow> (\<And>e. keeps I (h e)) \<Longrightarrow> (\<And>x. keeps I (k x)) \<Longrightarrow> keeps I (on_err m h k)"
  unfolding on_err_def by (intro keeps_rules)

lemma keeps_if_err [keeps_rules]:
  "keeps I m \<Longrightarrow> (\<And>e. keeps I (h e)) \<Longrightarrow> keeps I k \<Longrightarrow> keeps I (if_err m h k)"
  unfolding if_err_def by (intro keeps_rules)

lemma keeps_get_state [keeps_rules]: "keeps I get_state"
  by (auto intro: keepsI)

lemma keeps_for_each [keeps_rules]: "(\<And>x. keeps I (f x)) \<Longrightarrow> keeps I (for_each f xs)"
  by (induction xs) (auto intro!: keeps_rules)

lemma keeps_run_each [keeps_rules]: "(\<And>x. keeps I (f x)) \<Longrightarrow> keeps I (run_each f xs)"
  by (induction xs) (auto intro!: keeps_rules)

lemma keeps_Let [keeps_rules]: "keeps I (f x) \<Longrightarrow> keeps I (let y = x in f y)"
  by simp

section \<open>Generic facts on lists\<close>

lemma find_map_None_iff: "List.find P xs = None \<longleftrightarrow> (\<forall>x \<in> set xs. \<not> P x)"
  by (auto simp: find_None_iff)

lemma find_SomeD: "List.find P xs = Some x \<Longrightarrow> x \<in> set xs \<and> P x"
  by (auto simp: find_Some_iff)

lemma find_distinct_key:
  assumes "distinct (map f xs)" and "x \<in> set xs"
  shows "List.find (\<lambda>y. f y = f x) xs = Some x"
  using assms by (induction xs) (auto simp: image_iff)

lemma map_key_update:
  "(\<And>x. x \<in> set xs \<Longrightarrow> P x \<Longrightarrow> g (f x) = g x) \<Longrightarrow>
    map g (map (\<lambda>x. if P x then f x else x) xs) = map g xs"
  by (induction xs) auto

end
