(* ===== verification/Go_Error.thy ===== *)
theory Go_Error
  imports Go_Strings
begin

text \<open>
  Go error values and how the reconciler classifies them: \<open>providers/providerapi/errors.go\<close>
  and \<open>internal/core/errors.go\<close>.

  An error is a chain. The sentinels the code tests with \<open>errors.Is\<close> are constructors of
  their own; an error made by \<open>errors.New\<close> or by \<open>fmt.Errorf\<close> without \<open>%w\<close> is \<open>Opaque\<close>
  with its text; \<open>fmt.Errorf\<close> with one \<open>%w\<close> is \<open>Wrap\<close> with the text before and after it;
  \<open>errors.Join\<close> is \<open>Joined\<close>. \<open>nil\<close> is \<open>None\<close> of the \<open>option\<close> type.

  \<open>Diverges\<close> is no Go error: it is the value of the one unbounded loop of the model when
  its fuel is spent; \<open>Health_Wait\<close> shows that enough fuel exists for the health wait.
\<close>

datatype error =
    Opaque string
  | Wrap string error string
  | Joined "error list"
  | ErrPermanent
  | PermanentError error
  | TerminalError error
  | ErrRecordAlreadyAbsent
  | ErrInvalidWebhookSignature
  | ErrUnhandledWebhookEvent
  | ErrNotFound
  | ErrConflict
  | ErrInvalidTransition
  | ErrInvalidEnvironmentAction
  | Diverges

text \<open>\<open>fmt.Errorf("prefix: %w", err)\<close>.\<close>

definition wrapf :: "string \<Rightarrow> error \<Rightarrow> error" where
  "wrapf p e = Wrap p e []"

text \<open>\<open>err.Error()\<close>.\<close>

fun error_text :: "error \<Rightarrow> string" where
  "error_text (Opaque s) = s"
| "error_text (Wrap p e s) = p @ error_text e @ s"
| "error_text (Joined es) = strings_Join (map error_text es) [CHR 0x0A]"
| "error_text ErrPermanent = ''providerapi: permanent failure''"
| "error_text (PermanentError e) = error_text e"
| "error_text (TerminalError e) = error_text e"
| "error_text ErrRecordAlreadyAbsent = ''providerapi: dns record already absent''"
| "error_text ErrInvalidWebhookSignature = ''providerapi: invalid webhook signature''"
| "error_text ErrUnhandledWebhookEvent = ''providerapi: unhandled webhook event''"
| "error_text ErrNotFound = ''store: not found''"
| "error_text ErrConflict = ''store: conflict''"
| "error_text ErrInvalidTransition = ''store: invalid status transition''"
| "error_text ErrInvalidEnvironmentAction =
     ''core: action not valid for environment's current status''"
| "error_text Diverges = []"

text \<open>
  \<open>errors.Is\<close>: the error itself or anything its \<open>Unwrap\<close> reaches; a permanent error
  unwraps to both the error it marks and \<open>ErrPermanent\<close>.
\<close>

fun errors_Is :: "error \<Rightarrow> error \<Rightarrow> bool" where
  "errors_Is (Wrap p e s) t = (Wrap p e s = t \<or> errors_Is e t)"
| "errors_Is (Joined es) t = (Joined es = t \<or> list_ex (\<lambda>e. errors_Is e t) es)"
| "errors_Is (PermanentError e) t =
     (PermanentError e = t \<or> errors_Is e t \<or> t = ErrPermanent)"
| "errors_Is (TerminalError e) t = (TerminalError e = t \<or> errors_Is e t)"
| "errors_Is e t = (e = t)"

text \<open>\<open>errors.As(err, &terminal)\<close> for \<open>var terminal terminalError\<close>.\<close>

fun as_terminal :: "error \<Rightarrow> bool" where
  "as_terminal (Wrap p e s) = as_terminal e"
| "as_terminal (Joined es) = list_ex as_terminal es"
| "as_terminal (PermanentError e) = as_terminal e"
| "as_terminal (TerminalError e) = True"
| "as_terminal _ = False"

definition Permanent :: "error option \<Rightarrow> error option" where
  "Permanent err = (case err of None \<Rightarrow> None | Some e \<Rightarrow> Some (PermanentError e))"

definition Terminal :: "error option \<Rightarrow> error option" where
  "Terminal err = (case err of None \<Rightarrow> None | Some e \<Rightarrow> Some (TerminalError e))"

definition IsTerminal :: "error option \<Rightarrow> bool" where
  "IsTerminal err = (case err of None \<Rightarrow> False | Some e \<Rightarrow> as_terminal e \<or> errors_Is e ErrPermanent)"

section \<open>Facts\<close>

lemma errors_Is_refl [simp]: "errors_Is e e"
  by (cases e) auto

lemma wrapf_Is [simp]:
  "errors_Is (wrapf p e) t \<longleftrightarrow> wrapf p e = t \<or> errors_Is e t"
  by (simp add: wrapf_def)

lemma wrapf_neq [simp]:
  "wrapf p e \<noteq> ErrPermanent" "wrapf p e \<noteq> ErrNotFound" "wrapf p e \<noteq> ErrConflict"
  "wrapf p e \<noteq> ErrInvalidTransition" "wrapf p e \<noteq> ErrInvalidEnvironmentAction"
  "wrapf p e \<noteq> ErrRecordAlreadyAbsent" "wrapf p e \<noteq> Diverges"
  "wrapf p e \<noteq> ErrInvalidWebhookSignature" "wrapf p e \<noteq> ErrUnhandledWebhookEvent"
  by (simp_all add: wrapf_def)

lemma IsTerminal_wrapf [simp]: "IsTerminal (Some (wrapf p e)) = IsTerminal (Some e)"
  by (simp add: IsTerminal_def wrapf_def)

lemma IsTerminal_Wrap [simp]: "IsTerminal (Some (Wrap p e s)) = IsTerminal (Some e)"
  by (simp add: IsTerminal_def)

lemma IsTerminal_simps [simp]:
  "\<not> IsTerminal None" "IsTerminal (Some (TerminalError e))" "\<not> IsTerminal (Some (Opaque m))"
  "IsTerminal (Some (PermanentError e))" "IsTerminal (Some ErrPermanent)"
  "\<not> IsTerminal (Some ErrNotFound)" "\<not> IsTerminal (Some ErrConflict)"
  by (auto simp: IsTerminal_def)

lemma IsTerminal_Joined:
  "IsTerminal (Some (Joined es)) \<longleftrightarrow> (\<exists>e \<in> set es. IsTerminal (Some e))"
  by (auto simp: IsTerminal_def list_ex_iff)

text \<open>An error chain read as the list of the causes \<open>fmt.Errorf\<close> wrapped around it.\<close>

fun wrap_all :: "(string \<times> string) list \<Rightarrow> error \<Rightarrow> error" where
  "wrap_all [] e = e"
| "wrap_all ((p, s) # ps) e = Wrap p (wrap_all ps e) s"

lemma IsTerminal_wrap_all [simp]: "IsTerminal (Some (wrap_all ps e)) = IsTerminal (Some e)"
  by (induction ps) auto

text \<open>
  However many times \<open>fmt.Errorf\<close> wraps it on the way up, an error is classified as it
  was when it was raised: \<open>Terminal\<close> and a provider's \<open>Permanent\<close> mark survive every wrapping,
  an unmarked error stays retryable, and an \<open>errors.Join\<close> is permanent exactly when one of
  its members is.
\<close>

theorem is_terminal_stable:
  "IsTerminal (Some (wrap_all ps e)) = IsTerminal (Some e)
   \<and> IsTerminal (Terminal err) = (err \<noteq> None)
   \<and> IsTerminal (Permanent err) = (err \<noteq> None)
   \<and> IsTerminal (Some (wrap_all ps (Opaque m))) = False
   \<and> IsTerminal (Some (wrapf p (Joined es))) = (\<exists>x \<in> set es. IsTerminal (Some x))"
  by (cases err) (auto simp: Terminal_def Permanent_def IsTerminal_Joined)

end
