(* ===== verification/Status_Transitions.thy ===== *)
theory Status_Transitions
  imports Go_Error
begin

text \<open>
  \<open>internal/store/transitions.go\<close>: the lifecycle graph of an environment. A status is the
  string the database holds, as in the code.
\<close>

abbreviation StatusPending :: string where "StatusPending \<equiv> ''pending''"
abbreviation StatusDeploying :: string where "StatusDeploying \<equiv> ''deploying''"
abbreviation StatusReady :: string where "StatusReady \<equiv> ''ready''"
abbreviation StatusFailed :: string where "StatusFailed \<equiv> ''failed''"
abbreviation StatusSleeping :: string where "StatusSleeping \<equiv> ''sleeping''"
abbreviation StatusDestroying :: string where "StatusDestroying \<equiv> ''destroying''"
abbreviation StatusDestroyed :: string where "StatusDestroyed \<equiv> ''destroyed''"
abbreviation StatusDegraded :: string where "StatusDegraded \<equiv> ''degraded''"

definition allowedTransitions :: "(string \<times> string list) list" where
  "allowedTransitions =
    [(StatusPending, [StatusDeploying, StatusDestroying, StatusFailed]),
     (StatusDeploying, [StatusReady, StatusDegraded, StatusFailed, StatusDestroying]),
     (StatusReady, [StatusDeploying, StatusSleeping, StatusDestroying, StatusFailed, StatusDegraded]),
     (StatusFailed, [StatusDeploying, StatusDestroying]),
     (StatusSleeping, [StatusDeploying, StatusReady, StatusDestroying]),
     (StatusDestroying, [StatusDestroyed, StatusFailed]),
     (StatusDestroyed, [StatusDeploying, StatusDestroying]),
     (StatusDegraded, [StatusDeploying, StatusDestroying])]"

definition CanTransition :: "string \<Rightarrow> string \<Rightarrow> bool" where
  "CanTransition from_st to =
     (if from_st = to then map_of allowedTransitions from_st \<noteq> None
      else (case map_of allowedTransitions from_st of
              None \<Rightarrow> False
            | Some nexts \<Rightarrow> list_ex (\<lambda>a. a = to) nexts))"

definition validateTransition :: "string \<Rightarrow> string \<Rightarrow> error option" where
  "validateTransition from_st to =
     (if CanTransition from_st to then None
      else Some (Wrap [] ErrInvalidTransition ('': '' @ from_st @ '' -> '' @ to)))"

section \<open>Facts\<close>

definition known_status :: "string \<Rightarrow> bool" where
  "known_status st \<longleftrightarrow> st \<in> set (map fst allowedTransitions)"

lemma known_status_iff:
  "known_status st \<longleftrightarrow> st \<in> {StatusPending, StatusDeploying, StatusReady, StatusFailed,
     StatusSleeping, StatusDestroying, StatusDestroyed, StatusDegraded}"
  by (simp add: known_status_def allowedTransitions_def)

lemma map_of_allowed: "map_of allowedTransitions st \<noteq> None \<longleftrightarrow> known_status st"
  by (simp add: known_status_def map_of_eq_None_iff)

lemma validateTransition_None [simp]: "validateTransition a b = None \<longleftrightarrow> CanTransition a b"
  by (simp add: validateTransition_def)

lemma CanTransition_known: "CanTransition a b \<Longrightarrow> known_status a \<and> known_status b"
proof -
  have "\<forall>(x, ys) \<in> set allowedTransitions. list_all known_status ys"
    by (simp add: allowedTransitions_def known_status_iff)
  then show "CanTransition a b \<Longrightarrow> known_status a \<and> known_status b"
    using map_of_allowed [of a]
    by (auto simp: CanTransition_def list_ex_iff list_all_iff split: if_splits option.splits
        dest!: map_of_SomeD)
qed

lemma CanTransition_refl: "known_status a \<Longrightarrow> CanTransition a a"
  using map_of_allowed [of a] by (simp add: CanTransition_def)

lemma CanTransition_self: "CanTransition a a \<longleftrightarrow> known_status a"
  using CanTransition_refl CanTransition_known by blast

lemma into_destroyed: "CanTransition a StatusDestroyed \<longleftrightarrow> a \<in> {StatusDestroying, StatusDestroyed}"
  by (auto simp: CanTransition_def allowedTransitions_def)

lemma into_sleeping: "CanTransition a StatusSleeping \<longleftrightarrow> a \<in> {StatusReady, StatusSleeping}"
  by (auto simp: CanTransition_def allowedTransitions_def)

lemma out_of_destroyed:
  "CanTransition StatusDestroyed a \<longleftrightarrow> a \<in> {StatusDestroyed, StatusDeploying, StatusDestroying}"
  by (auto simp: CanTransition_def allowedTransitions_def)

lemma into_ready: "CanTransition a StatusReady \<longleftrightarrow> a \<in> {StatusDeploying, StatusSleeping, StatusReady}"
  by (auto simp: CanTransition_def allowedTransitions_def)

lemma into_destroying:
  "CanTransition a StatusDestroying \<longleftrightarrow> known_status a"
  by (auto simp: CanTransition_def allowedTransitions_def known_status_iff)

text \<open>A history of the statuses an environment took, each by a legal move from the one before.\<close>

fun legal_history :: "string list \<Rightarrow> bool" where
  "legal_history [] = True"
| "legal_history [s] = known_status s"
| "legal_history (s # t # h) = (CanTransition s t \<and> legal_history (t # h))"

lemma legal_history_pair:
  "legal_history (h @ a # b # t) \<Longrightarrow> CanTransition a b"
  by (induction h rule: legal_history.induct) (auto split: list.splits)

lemma legal_history_known: "legal_history h \<Longrightarrow> s \<in> set h \<Longrightarrow> known_status s"
proof (induction h rule: legal_history.induct)
  case (3 s' t h)
  then show ?case using CanTransition_known by auto
qed auto

lemma legal_history_suffix: "legal_history (h @ t) \<Longrightarrow> legal_history t"
proof (induction h rule: legal_history.induct)
  case (2 s)
  then show ?case by (cases t) auto
qed auto

lemma history_enters:
  assumes "legal_history (h @ [b])" and "b \<notin> set h" and "h \<noteq> []"
  shows "CanTransition (last h) b"
proof -
  have "h @ [b] = butlast h @ last h # b # []"
    using assms(3) by simp
  with assms(1) show ?thesis using legal_history_pair by metis
qed

text \<open>
  The lifecycle of an environment. A write is accepted exactly when it keeps a known
  status or follows an edge of the graph, otherwise it is rejected with
  \<open>ErrInvalidTransition\<close>; tearing down is possible from every status; an environment is
  marked destroyed only while it is being destroyed, sleeps only from ready and becomes ready
  only by a deployment or by waking; from destroyed it comes back only through a new
  deployment (or a repeated teardown), never directly to a serving status; and statuses
  outside the eight are unreachable.
\<close>

theorem lifecycle_graph:
  "(validateTransition a b = None) = CanTransition a b
   \<and> (case validateTransition a b of None \<Rightarrow> True | Some e \<Rightarrow> errors_Is e ErrInvalidTransition)
   \<and> CanTransition a StatusDestroying = known_status a
   \<and> CanTransition a StatusDestroyed = (a \<in> {StatusDestroying, StatusDestroyed})
   \<and> CanTransition a StatusSleeping = (a \<in> {StatusReady, StatusSleeping})
   \<and> CanTransition a StatusReady = (a \<in> {StatusDeploying, StatusSleeping, StatusReady})
   \<and> CanTransition StatusDestroyed a = (a \<in> {StatusDestroyed, StatusDeploying, StatusDestroying})
   \<and> (CanTransition a a = known_status a) \<and> \<not> (CanTransition a b \<and> \<not> (known_status a \<and> known_status b))"
  using CanTransition_known [of a b] CanTransition_self [of a]
  by (auto simp: into_destroying into_destroyed into_sleeping into_ready out_of_destroyed
      validateTransition_def split: option.splits)

text \<open>The statuses of an environment that is down: not serving, and no deployment under way.\<close>

definition down_status :: "string \<Rightarrow> bool" where
  "down_status st \<longleftrightarrow> st \<in> {StatusDestroyed, StatusDestroying, StatusFailed}"

lemma down_step: "down_status a \<Longrightarrow> CanTransition a b \<Longrightarrow> down_status b \<or> b = StatusDeploying"
  by (auto simp: down_status_def CanTransition_def allowedTransitions_def split: if_splits)

lemma down_until_deploying:
  "legal_history (a # h @ [b]) \<Longrightarrow> down_status a \<Longrightarrow> \<not> down_status b \<Longrightarrow> b \<noteq> StatusDeploying \<Longrightarrow>
    StatusDeploying \<in> set h"
proof (induction h arbitrary: a)
  case Nil
  then show ?case using down_step by auto
next
  case (Cons c h)
  then show ?case using down_step [of a c] by auto
qed

text \<open>
  No resurrection without a deployment. In every history of legal moves, an environment
  that was destroyed, is being destroyed or failed serves again (ready, degraded) or sleeps
  only after it has been deploying in between; so no sequence of accepted writes can wake or
  publish the deployment of an environment that was torn down.
\<close>

theorem no_resurrection:
  assumes "legal_history (a # h @ [b])"
    and "a \<in> {StatusDestroyed, StatusDestroying, StatusFailed}"
    and "b \<in> {StatusReady, StatusDegraded, StatusSleeping}"
  shows "StatusDeploying \<in> set h"
proof (rule down_until_deploying [OF assms(1)])
  show "down_status a" "\<not> down_status b" "b \<noteq> StatusDeploying"
    using assms(2, 3) by (auto simp: down_status_def)
qed

theorem no_resurrection_witness:
  "legal_history [StatusDestroyed, StatusDestroying, StatusFailed, StatusDeploying, StatusReady]
   \<and> StatusDeploying \<in> set [StatusDestroying, StatusFailed, StatusDeploying]"
proof -
  have l: "legal_history (StatusDestroyed # [StatusDestroying, StatusFailed, StatusDeploying] @ [StatusReady])"
    by (simp add: CanTransition_def allowedTransitions_def known_status_iff)
  show ?thesis
    using l no_resurrection [OF l] by simp
qed

end
