(* ===== verification/Provider_Api.thy ===== *)
theory Provider_Api
  imports Go_Error
begin

text \<open>
  The data that crosses the provider interfaces (\<open>providers/providerapi\<close>): webhook events,
  deployment specifications and results, DNS records, certificates and notifications.
  Field names carry a prefix because Isabelle's record fields are global.
\<close>

type_synonym bytes = string

text \<open>An instant, in nanoseconds since the epoch; \<open>time.Duration\<close> is a difference of two.\<close>

type_synonym time = int

record Event =
  pe_Kind :: string
  pe_Project :: string
  pe_Branch :: string
  pe_PRNumber :: int
  pe_Artifact :: string
  pe_Labels :: "string list"
  pe_LabelsKnown :: bool

definition empty_Event :: Event where
  "empty_Event = \<lparr>pe_Kind = [], pe_Project = [], pe_Branch = [], pe_PRNumber = 0,
     pe_Artifact = [], pe_Labels = [], pe_LabelsKnown = False\<rparr>"

record EnvSpec =
  sp_Project :: string
  sp_Branch :: string
  sp_Subdomain :: string
  sp_ArtifactRef :: string
  sp_PreviousRef :: string

record Deployment =
  dep_Ref :: string
  dep_InternalAddr :: string

record Status =
  st_Healthy :: bool
  st_Detail :: string

record PDNSRecord =
  pr_Zone :: string
  pr_Name :: string
  pr_Type :: string
  pr_Value :: string
  pr_OwnershipTag :: string

record CertRef =
  cr_Domain :: string
  cr_ExpiresAt :: string
  cr_CertificatePEM :: bytes
  cr_PrivateKeyPEM :: bytes

record NotifyEvent =
  ne_Kind :: string
  ne_URL :: string
  ne_Detail :: string

section \<open>The provider interfaces\<close>

text \<open>
  An implementation of an interface is a record of its methods over a world \<open>'w\<close> that
  holds everything outside the process. Optional capabilities, which Go finds with a type
  assertion, are fields of type \<open>option\<close>.
\<close>

record 'w DeployProvider =
  dp_Apply :: "EnvSpec \<Rightarrow> ('w, error + Deployment) state"
  dp_Sleep :: "string \<Rightarrow> ('w, error option) state"
  dp_Wake :: "string \<Rightarrow> ('w, error option) state"
  dp_Destroy :: "string \<Rightarrow> ('w, error option) state"
  dp_HealthCheck :: "string \<Rightarrow> ('w, error + Status) state"
  dp_CertificateInstaller :: "(string \<Rightarrow> bytes \<Rightarrow> bytes \<Rightarrow> ('w, error option) state) option"
  dp_CertificateRemover :: "(string \<Rightarrow> ('w, error option) state) option"
  dp_LogFetcher :: "(string \<Rightarrow> ('w, error + string) state) option"

record 'w DNSProvider =
  dns_EnsureRecord :: "PDNSRecord \<Rightarrow> ('w, error option) state"
  dns_DeleteRecord :: "PDNSRecord \<Rightarrow> ('w, error option) state"
  dns_ListManagedRecords :: "string \<Rightarrow> ('w, error + PDNSRecord list) state"

record 'w CertificateProvider =
  cp_EnsureCertificate :: "string \<Rightarrow> ('w, error + CertRef) state"
  cp_RevokeCertificate :: "string \<Rightarrow> ('w, error option) state"

record 'w NotifierProvider =
  np_Notify :: "string \<Rightarrow> int \<Rightarrow> NotifyEvent \<Rightarrow> ('w, error option) state"

end
