(* ===== verification/Sqlite_Tables.thy ===== *)
theory Sqlite_Tables
  imports Status_Transitions Provider_Api
    "HOL-Library.List_Lexorder" "HOL-Library.Product_Lexorder" "HOL-Library.Char_ord"
begin

text \<open>
  The three tables of the database (\<open>internal/store/migrations\<close>) as lists of rows in row-id
  order, the Go structs read from them (\<open>internal/store/store.go\<close>) and the SQL statements of
  \<open>internal/store/sqlite.go\<close> as functions on the tables. A statement that violates a primary
  key, a \<open>UNIQUE\<close> constraint or a foreign key leaves the tables as they were and returns the
  driver's error. Instants are compared as instants, and \<open>ORDER BY\<close> is a stable sort, so rows
  the statement does not order keep their row-id order.
\<close>

section \<open>The structs of the store\<close>

record Environment =
  env_ID :: string
  env_Project :: string
  env_Branch :: string
  env_PRNumber :: int
  env_Subdomain :: string
  env_ArtifactRef :: string
  env_DeployRef :: string
  env_Status :: string
  env_LastGoodArtifactRef :: string
  env_LastGoodDeployRef :: string
  env_Pinned :: bool
  env_TTLExpiresAt :: "time option"
  env_CreatedAt :: time
  env_UpdatedAt :: time

definition empty_Environment :: Environment where
  "empty_Environment = \<lparr>env_ID = [], env_Project = [], env_Branch = [], env_PRNumber = 0,
     env_Subdomain = [], env_ArtifactRef = [], env_DeployRef = [], env_Status = [],
     env_LastGoodArtifactRef = [], env_LastGoodDeployRef = [], env_Pinned = False,
     env_TTLExpiresAt = None, env_CreatedAt = 0, env_UpdatedAt = 0\<rparr>"

record DNSRecord =
  dr_ID :: string
  dr_EnvironmentID :: string
  dr_RecordType :: string
  dr_Name :: string
  dr_Value :: string
  dr_OwnershipTag :: string
  dr_CreatedAt :: time

record StoreEvent =
  ev_ID :: string
  ev_EnvironmentID :: string
  ev_Kind :: string
  ev_DedupeKey :: string
  ev_Payload :: string
  ev_Attempts :: int
  ev_NextAttemptAt :: "time option"
  ev_LastError :: string
  ev_ProcessedAt :: "time option"
  ev_DeadLetteredAt :: "time option"
  ev_CreatedAt :: time

definition empty_StoreEvent :: StoreEvent where
  "empty_StoreEvent = \<lparr>ev_ID = [], ev_EnvironmentID = [], ev_Kind = [], ev_DedupeKey = [],
     ev_Payload = [], ev_Attempts = 0, ev_NextAttemptAt = None, ev_LastError = [],
     ev_ProcessedAt = None, ev_DeadLetteredAt = None, ev_CreatedAt = 0\<rparr>"

abbreviation DefaultListLimit :: int where "DefaultListLimit \<equiv> 100"
abbreviation MaxListLimit :: int where "MaxListLimit \<equiv> 500"
abbreviation maxQueryLimit :: int where "maxQueryLimit \<equiv> MaxListLimit + 1"

record ListOptions =
  lo_Project :: string
  lo_Branch :: string
  lo_Limit :: int
  lo_Offset :: int

definition normalized :: "ListOptions \<Rightarrow> ListOptions" where
  "normalized opts0 =
     (let opts = (if lo_Limit opts0 \<le> 0 then opts0\<lparr>lo_Limit := DefaultListLimit\<rparr>
                  else if lo_Limit opts0 > maxQueryLimit then opts0\<lparr>lo_Limit := maxQueryLimit\<rparr>
                  else opts0)
      in if lo_Offset opts < 0 then opts\<lparr>lo_Offset := 0\<rparr> else opts)"

section \<open>The tables\<close>

record environment_row =
  er_id :: string
  er_project :: string
  er_branch :: string
  er_pr_number :: "int option"
  er_subdomain :: string
  er_artifact_ref :: string
  er_deploy_ref :: string
  er_status :: string
  er_last_good_artifact_ref :: string
  er_last_good_deploy_ref :: string
  er_pinned :: int
  er_ttl_expires_at :: "time option"
  er_created_at :: time
  er_updated_at :: time

record event_row =
  vr_id :: string
  vr_environment_id :: "string option"
  vr_kind :: string
  vr_dedupe_key :: "string option"
  vr_payload :: string
  vr_processed_at :: "time option"
  vr_created_at :: time
  vr_attempts :: int
  vr_next_attempt_at :: "time option"
  vr_last_error :: string
  vr_dead_lettered_at :: "time option"

record database =
  db_environments :: "environment_row list"
  db_dns_records :: "DNSRecord list"
  db_events :: "event_row list"

definition empty_database :: database where
  "empty_database = \<lparr>db_environments = [], db_dns_records = [], db_events = []\<rparr>"

definition nullableInt :: "int \<Rightarrow> int option" where
  "nullableInt v = (if v = 0 then None else Some v)"

definition nullableString :: "string \<Rightarrow> string option" where
  "nullableString v = (if v = [] then None else Some v)"

text \<open>The parameters bound by the \<open>INSERT\<close> and \<open>UPDATE\<close> statements of an environment.\<close>

definition environment_args :: "Environment \<Rightarrow> environment_row" where
  "environment_args env = \<lparr>er_id = env_ID env, er_project = env_Project env,
     er_branch = env_Branch env, er_pr_number = nullableInt (env_PRNumber env),
     er_subdomain = env_Subdomain env, er_artifact_ref = env_ArtifactRef env,
     er_deploy_ref = env_DeployRef env, er_status = env_Status env,
     er_last_good_artifact_ref = env_LastGoodArtifactRef env,
     er_last_good_deploy_ref = env_LastGoodDeployRef env,
     er_pinned = (if env_Pinned env then 1 else 0),
     er_ttl_expires_at = env_TTLExpiresAt env, er_created_at = env_CreatedAt env,
     er_updated_at = env_UpdatedAt env\<rparr>"

definition scanEnvironment :: "environment_row \<Rightarrow> Environment" where
  "scanEnvironment row = \<lparr>env_ID = er_id row, env_Project = er_project row,
     env_Branch = er_branch row,
     env_PRNumber = (case er_pr_number row of None \<Rightarrow> 0 | Some n \<Rightarrow> n),
     env_Subdomain = er_subdomain row, env_ArtifactRef = er_artifact_ref row,
     env_DeployRef = er_deploy_ref row, env_Status = er_status row,
     env_LastGoodArtifactRef = er_last_good_artifact_ref row,
     env_LastGoodDeployRef = er_last_good_deploy_ref row,
     env_Pinned = (er_pinned row \<noteq> 0), env_TTLExpiresAt = er_ttl_expires_at row,
     env_CreatedAt = er_created_at row, env_UpdatedAt = er_updated_at row\<rparr>"

definition event_args :: "StoreEvent \<Rightarrow> event_row" where
  "event_args ev = \<lparr>vr_id = ev_ID ev, vr_environment_id = nullableString (ev_EnvironmentID ev),
     vr_kind = ev_Kind ev, vr_dedupe_key = nullableString (ev_DedupeKey ev),
     vr_payload = ev_Payload ev, vr_processed_at = ev_ProcessedAt ev,
     vr_created_at = ev_CreatedAt ev, vr_attempts = ev_Attempts ev,
     vr_next_attempt_at = ev_NextAttemptAt ev, vr_last_error = ev_LastError ev,
     vr_dead_lettered_at = None\<rparr>"

definition scanEvent :: "event_row \<Rightarrow> StoreEvent" where
  "scanEvent row = \<lparr>ev_ID = vr_id row,
     ev_EnvironmentID = (case vr_environment_id row of None \<Rightarrow> [] | Some s \<Rightarrow> s),
     ev_Kind = vr_kind row,
     ev_DedupeKey = (case vr_dedupe_key row of None \<Rightarrow> [] | Some s \<Rightarrow> s),
     ev_Payload = vr_payload row, ev_Attempts = vr_attempts row,
     ev_NextAttemptAt = vr_next_attempt_at row, ev_LastError = vr_last_error row,
     ev_ProcessedAt = vr_processed_at row, ev_DeadLetteredAt = vr_dead_lettered_at row,
     ev_CreatedAt = vr_created_at row\<rparr>"

section \<open>Statements on environments\<close>

text \<open>The driver's text for a violated constraint.\<close>

definition unique_error :: "string \<Rightarrow> error" where
  "unique_error cols = Opaque (''constraint failed: UNIQUE constraint failed: '' @ cols)"

definition foreign_key_error :: error where
  "foreign_key_error = Opaque ''constraint failed: FOREIGN KEY constraint failed''"

definition same_branch :: "environment_row \<Rightarrow> environment_row \<Rightarrow> bool" where
  "same_branch r r' \<longleftrightarrow> er_project r = er_project r' \<and> er_branch r = er_branch r'"

definition insert_environment :: "environment_row \<Rightarrow> database \<Rightarrow> error + database" where
  "insert_environment row d =
     (if list_ex (\<lambda>r. er_id r = er_id row) (db_environments d) then
        Inl (unique_error ''environments.id'')
      else if list_ex (same_branch row) (db_environments d) then
        Inl (unique_error ''environments.project, environments.branch'')
      else Inr (d\<lparr>db_environments := db_environments d @ [row]\<rparr>))"

definition select_environment :: "string \<Rightarrow> database \<Rightarrow> environment_row option" where
  "select_environment rid d = List.find (\<lambda>r. er_id r = rid) (db_environments d)"

definition select_by_branch :: "string \<Rightarrow> string \<Rightarrow> database \<Rightarrow> environment_row option" where
  "select_by_branch project branch d =
     List.find (\<lambda>r. er_project r = project \<and> er_branch r = branch) (db_environments d)"

text \<open>\<open>UPDATE environments SET ...\<close> assigns every column but the id and \<open>created_at\<close>.\<close>

definition set_columns :: "environment_row \<Rightarrow> environment_row \<Rightarrow> environment_row" where
  "set_columns row r = row\<lparr>er_id := er_id r, er_created_at := er_created_at r\<rparr>"

definition update_environment :: "environment_row \<Rightarrow> database \<Rightarrow> error + nat \<times> database" where
  "update_environment row d =
     (if \<not> list_ex (\<lambda>r. er_id r = er_id row) (db_environments d) then Inr (0, d)
      else if list_ex (\<lambda>r. er_id r \<noteq> er_id row \<and> same_branch row r) (db_environments d) then
        Inl (unique_error ''environments.project, environments.branch'')
      else Inr (length (filter (\<lambda>r. er_id r = er_id row) (db_environments d)),
        d\<lparr>db_environments := map (\<lambda>r. if er_id r = er_id row then set_columns row r else r)
           (db_environments d)\<rparr>))"

definition page :: "ListOptions \<Rightarrow> 'a list \<Rightarrow> 'a list" where
  "page opts rows = take (nat (lo_Limit opts)) (drop (nat (lo_Offset opts)) rows)"

definition select_environments :: "ListOptions \<Rightarrow> database \<Rightarrow> environment_row list" where
  "select_environments opts d =
     page opts (sort_key (\<lambda>r. (er_created_at r, er_id r))
       (filter (\<lambda>r. (lo_Project opts \<noteq> [] \<longrightarrow> er_project r = lo_Project opts)
                  \<and> (lo_Branch opts \<noteq> [] \<longrightarrow> er_branch r = lo_Branch opts))
         (db_environments d)))"

definition count_live :: "database \<Rightarrow> int" where
  "count_live d = int (length (filter (\<lambda>r. er_status r \<noteq> StatusDestroyed) (db_environments d)))"

definition expired :: "time \<Rightarrow> environment_row \<Rightarrow> bool" where
  "expired now r \<longleftrightarrow> er_pinned r = 0 \<and>
     (case er_ttl_expires_at r of None \<Rightarrow> False | Some t \<Rightarrow> t \<le> now)"

definition select_expired :: "time \<Rightarrow> database \<Rightarrow> environment_row list" where
  "select_expired now d =
     sort_key (\<lambda>r. case er_ttl_expires_at r of None \<Rightarrow> 0 | Some t \<Rightarrow> t)
       (filter (expired now) (db_environments d))"

section \<open>Statements on DNS records\<close>

definition insert_dns_record :: "DNSRecord \<Rightarrow> database \<Rightarrow> error + database" where
  "insert_dns_record rec d =
     (if list_ex (\<lambda>r. dr_ID r = dr_ID rec) (db_dns_records d) then
        Inl (unique_error ''dns_records.id'')
      else if \<not> list_ex (\<lambda>r. er_id r = dr_EnvironmentID rec) (db_environments d) then
        Inl foreign_key_error
      else Inr (d\<lparr>db_dns_records := db_dns_records d @ [rec]\<rparr>))"

definition select_dns_records :: "string \<Rightarrow> database \<Rightarrow> DNSRecord list" where
  "select_dns_records environmentID d =
     sort_key dr_CreatedAt (filter (\<lambda>r. dr_EnvironmentID r = environmentID) (db_dns_records d))"

definition delete_dns_record :: "string \<Rightarrow> database \<Rightarrow> database" where
  "delete_dns_record rid d = d\<lparr>db_dns_records := filter (\<lambda>r. dr_ID r \<noteq> rid) (db_dns_records d)\<rparr>"

section \<open>Statements on events\<close>

definition insert_event :: "event_row \<Rightarrow> database \<Rightarrow> error + database" where
  "insert_event row d =
     (if list_ex (\<lambda>r. vr_id r = vr_id row) (db_events d) then Inl (unique_error ''events.id'')
      else if vr_dedupe_key row \<noteq> None
        \<and> list_ex (\<lambda>r. vr_kind r = vr_kind row \<and> vr_dedupe_key r = vr_dedupe_key row) (db_events d) then
        Inl (unique_error ''events.kind, events.dedupe_key'')
      else if (case vr_environment_id row of None \<Rightarrow> False
               | Some i \<Rightarrow> \<not> list_ex (\<lambda>r. er_id r = i) (db_environments d)) then
        Inl foreign_key_error
      else Inr (d\<lparr>db_events := db_events d @ [row]\<rparr>))"

text \<open>\<open>processed_at IS NULL AND dead_lettered_at IS NULL\<close>\<close>

definition pending_event :: "event_row \<Rightarrow> bool" where
  "pending_event r \<longleftrightarrow> vr_processed_at r = None \<and> vr_dead_lettered_at r = None"

definition due_event :: "time \<Rightarrow> event_row \<Rightarrow> bool" where
  "due_event now r \<longleftrightarrow> pending_event r \<and>
     (case vr_next_attempt_at r of None \<Rightarrow> True | Some t \<Rightarrow> t \<le> now)"

text \<open>An \<open>UPDATE events\<close> on the rows that satisfy a condition: rows affected and new table.\<close>

definition update_events ::
  "(event_row \<Rightarrow> bool) \<Rightarrow> (event_row \<Rightarrow> event_row) \<Rightarrow> database \<Rightarrow> nat \<times> database" where
  "update_events P f d =
     (length (filter P (db_events d)),
      d\<lparr>db_events := map (\<lambda>r. if P r then f r else r) (db_events d)\<rparr>)"

definition claim_event :: "string \<Rightarrow> time \<Rightarrow> time \<Rightarrow> database \<Rightarrow> nat \<times> database" where
  "claim_event rid now leaseUntil =
     update_events (\<lambda>r. vr_id r = rid \<and> due_event now r)
       (\<lambda>r. r\<lparr>vr_next_attempt_at := Some leaseUntil\<rparr>)"

definition mark_processed :: "string \<Rightarrow> time \<Rightarrow> database \<Rightarrow> nat \<times> database" where
  "mark_processed rid at = update_events (\<lambda>r. vr_id r = rid) (\<lambda>r. r\<lparr>vr_processed_at := Some at\<rparr>)"

definition mark_dead_lettered :: "string \<Rightarrow> time \<Rightarrow> string \<Rightarrow> database \<Rightarrow> nat \<times> database" where
  "mark_dead_lettered rid at lastError =
     update_events (\<lambda>r. vr_id r = rid \<and> pending_event r)
       (\<lambda>r. r\<lparr>vr_attempts := vr_attempts r + 1, vr_dead_lettered_at := Some at,
              vr_next_attempt_at := None, vr_last_error := lastError\<rparr>)"

definition mark_retry :: "string \<Rightarrow> time \<Rightarrow> string \<Rightarrow> database \<Rightarrow> nat \<times> database" where
  "mark_retry rid nextAttempt lastError =
     update_events (\<lambda>r. vr_id r = rid \<and> pending_event r)
       (\<lambda>r. r\<lparr>vr_attempts := vr_attempts r + 1, vr_next_attempt_at := Some nextAttempt,
              vr_last_error := lastError\<rparr>)"

definition select_unprocessed :: "database \<Rightarrow> event_row list" where
  "select_unprocessed d = sort_key vr_created_at (filter pending_event (db_events d))"

definition select_due :: "time \<Rightarrow> int \<Rightarrow> database \<Rightarrow> event_row list" where
  "select_due now limit d =
     take (nat limit) (sort_key vr_created_at (filter (due_event now) (db_events d)))"

definition select_dead_lettered :: "int \<Rightarrow> database \<Rightarrow> event_row list" where
  "select_dead_lettered limit d =
     take (nat limit)
       (sort_key (\<lambda>r. case vr_dead_lettered_at r of None \<Rightarrow> 0 | Some t \<Rightarrow> - t)
         (filter (\<lambda>r. vr_dead_lettered_at r \<noteq> None) (db_events d)))"

definition count_dead_lettered :: "database \<Rightarrow> int" where
  "count_dead_lettered d = int (length (filter (\<lambda>r. vr_dead_lettered_at r \<noteq> None) (db_events d)))"

definition prune_events :: "time \<Rightarrow> int \<Rightarrow> database \<Rightarrow> nat \<times> database" where
  "prune_events before limit d =
     (let ids = map vr_id (take (nat limit) (sort_key vr_created_at
                  (filter (\<lambda>r. vr_processed_at r \<noteq> None \<and> vr_created_at r < before) (db_events d))))
      in (length (filter (\<lambda>r. vr_id r \<in> set ids) (db_events d)),
          d\<lparr>db_events := filter (\<lambda>r. vr_id r \<notin> set ids) (db_events d)\<rparr>))"

end
