(* ===== verification/Sqlite_Invariant.thy ===== *)
theory Sqlite_Invariant
  imports Sqlite_Tables
begin

text \<open>
  The well-formedness of the database: primary keys and unique columns are unique, foreign
  keys point to rows that exist. Every statement the store issues preserves it. The lemmas
  on single statements (what a lookup returns after a write) are here too.
\<close>

definition envs_wf :: "environment_row list \<Rightarrow> bool" where
  "envs_wf es \<longleftrightarrow> distinct (map er_id es) \<and> distinct (map (\<lambda>r. (er_project r, er_branch r)) es)"

definition events_wf :: "event_row list \<Rightarrow> bool" where
  "events_wf vs \<longleftrightarrow> distinct (map vr_id vs)
     \<and> distinct (map (\<lambda>r. (vr_kind r, vr_dedupe_key r)) (filter (\<lambda>r. vr_dedupe_key r \<noteq> None) vs))"

definition refs_wf :: "environment_row list \<Rightarrow> DNSRecord list \<Rightarrow> event_row list \<Rightarrow> bool" where
  "refs_wf es ds vs \<longleftrightarrow>
     (\<forall>r \<in> set ds. dr_EnvironmentID r \<in> er_id ` set es)
   \<and> (\<forall>r \<in> set vs. \<forall>i. vr_environment_id r = Some i \<longrightarrow> i \<in> er_id ` set es)"

definition db_wf :: "database \<Rightarrow> bool" where
  "db_wf d \<longleftrightarrow> envs_wf (db_environments d) \<and> distinct (map dr_ID (db_dns_records d))
     \<and> events_wf (db_events d)
     \<and> refs_wf (db_environments d) (db_dns_records d) (db_events d)"

lemma db_wf_empty: "db_wf empty_database"
  by (simp add: db_wf_def envs_wf_def events_wf_def refs_wf_def empty_database_def)

lemma list_ex_key: "list_ex (\<lambda>r. f r = k) xs \<longleftrightarrow> k \<in> f ` set xs"
  by (auto simp: list_ex_iff)

section \<open>Environments\<close>

lemma same_branch_refl [simp]: "same_branch r r"
  by (simp add: same_branch_def)

lemma set_columns_simps [simp]:
  "er_id (set_columns row r) = er_id r" "er_created_at (set_columns row r) = er_created_at r"
  "er_status (set_columns row r) = er_status row" "er_project (set_columns row r) = er_project row"
  "er_branch (set_columns row r) = er_branch row"
  by (simp_all add: set_columns_def)

lemma insert_environment_Inr:
  "insert_environment row d = Inr d' \<longleftrightarrow>
     er_id row \<notin> er_id ` set (db_environments d)
   \<and> (er_project row, er_branch row) \<notin> (\<lambda>r. (er_project r, er_branch r)) ` set (db_environments d)
   \<and> d' = d\<lparr>db_environments := db_environments d @ [row]\<rparr>"
  by (auto simp: insert_environment_def list_ex_iff same_branch_def image_iff eq_commute [of "er_id row"])

lemma db_wf_insert_environment:
  "db_wf d \<Longrightarrow> insert_environment row d = Inr d' \<Longrightarrow> db_wf d'"
  by (auto simp: insert_environment_Inr db_wf_def envs_wf_def refs_wf_def)

lemma map_id_update:
  "map er_id (map (\<lambda>r. if er_id r = er_id row then set_columns row r else r) es) = map er_id es"
  by (induction es) auto

lemma distinct_branch_update:
  assumes "distinct (map er_id es)" and "distinct (map (\<lambda>r. (er_project r, er_branch r)) es)"
    and "\<forall>r \<in> set es. er_id r \<noteq> er_id row \<longrightarrow> \<not> same_branch row r"
  shows "distinct (map (\<lambda>r. (er_project r, er_branch r))
           (map (\<lambda>r. if er_id r = er_id row then set_columns row r else r) es))"
  using assms
proof (induction es)
  case (Cons e es)
  have same: "map (\<lambda>r. if er_id r = er_id row then set_columns row r else r) es = es"
    if "er_id e = er_id row"
    using that Cons.prems(1) by (intro map_idI) (auto simp: image_iff)
  show ?case
  proof (cases "er_id e = er_id row")
    case True
    have "\<forall>r \<in> set es. er_id r \<noteq> er_id row"
      using Cons.prems(1) True by (metis distinct.simps(2) image_eqI image_set list.simps(9))
    then have "\<forall>r \<in> set es. \<not> same_branch row r"
      using Cons.prems(3) by simp
    with True Cons.prems(2) show ?thesis
      using same by (auto simp: same_branch_def)
  next
    case False
    with Cons show ?thesis by (auto simp: same_branch_def split: if_splits)
  qed
qed simp

lemma db_wf_update_environment:
  assumes "db_wf d" and "update_environment row d = Inr (n, d')"
  shows "db_wf d'"
proof (cases "list_ex (\<lambda>r. er_id r = er_id row) (db_environments d)")
  case False
  with assms show ?thesis by (simp add: update_environment_def)
next
  case True
  let ?es = "map (\<lambda>r. if er_id r = er_id row then set_columns row r else r) (db_environments d)"
  from True assms(2) have d': "d' = d\<lparr>db_environments := ?es\<rparr>"
    and other: "\<forall>r \<in> set (db_environments d). er_id r \<noteq> er_id row \<longrightarrow> \<not> same_branch row r"
    by (auto simp: update_environment_def list_ex_iff split: if_splits)
  have ids: "map er_id ?es = map er_id (db_environments d)"
    by (rule map_id_update)
  then have "er_id ` set ?es = er_id ` set (db_environments d)"
    by (metis list.set_map)
  moreover have "envs_wf ?es"
    unfolding envs_wf_def ids using assms(1) other distinct_branch_update
    by (auto simp: db_wf_def envs_wf_def simp del: map_map)
  ultimately show ?thesis
    using assms(1) by (simp add: d' db_wf_def refs_wf_def del: set_map)
qed

lemma select_environment_None:
  "select_environment rid d = None \<longleftrightarrow> rid \<notin> er_id ` set (db_environments d)"
  by (auto simp: select_environment_def find_map_None_iff)

lemma select_environment_SomeD:
  "select_environment rid d = Some r \<Longrightarrow> r \<in> set (db_environments d) \<and> er_id r = rid"
  by (auto simp: select_environment_def dest: find_SomeD)

lemma select_environment_Some:
  "db_wf d \<Longrightarrow> r \<in> set (db_environments d) \<Longrightarrow> select_environment (er_id r) d = Some r"
  unfolding select_environment_def
  by (rule find_distinct_key) (auto simp: db_wf_def envs_wf_def)

lemma select_by_branch_SomeD:
  "select_by_branch p b d = Some r \<Longrightarrow>
     r \<in> set (db_environments d) \<and> er_project r = p \<and> er_branch r = b"
  by (auto simp: select_by_branch_def dest: find_SomeD)

lemma find_map_update:
  "List.find (\<lambda>r. er_id r = rid) (map (\<lambda>r. if er_id r = i then f r else r) es) =
     map_option (\<lambda>r. if rid = i then f r else r) (List.find (\<lambda>r. er_id r = rid) es)"
  if "\<And>r. er_id (f r) = er_id r"
  by (induction es) (auto simp: that)

lemma select_after_update:
  assumes "update_environment row d = Inr (n, d')" and "n \<noteq> 0"
  shows "select_environment rid d' =
     map_option (\<lambda>r. if rid = er_id row then set_columns row r else r) (select_environment rid d)"
  using assms
  by (auto simp: update_environment_def select_environment_def find_map_update split: if_splits)

lemma update_environment_count:
  "update_environment row d = Inr (n, d') \<Longrightarrow> (n = 0) = (select_environment (er_id row) d = None)"
  by (auto simp: update_environment_def select_environment_None list_ex_iff filter_empty_conv image_iff
      eq_commute [of "er_id row"] split: if_splits)

lemma update_environment_others [simp]:
  "update_environment row d = Inr (n, d') \<Longrightarrow>
     db_dns_records d' = db_dns_records d \<and> db_events d' = db_events d"
  by (auto simp: update_environment_def split: if_splits)

lemma find_append: "List.find P (xs @ ys) = (case List.find P xs of None \<Rightarrow> List.find P ys | Some x \<Rightarrow> Some x)"
  by (induction xs) auto

lemma select_after_insert:
  assumes "insert_environment row d = Inr d'"
  shows "select_environment rid d' = (if rid = er_id row then Some row else select_environment rid d)"
proof -
  from assms have d': "d' = d\<lparr>db_environments := db_environments d @ [row]\<rparr>"
    and new: "select_environment (er_id row) d = None"
    by (simp_all add: insert_environment_Inr select_environment_None)
  have "select_environment rid d' =
      (case select_environment rid d of None \<Rightarrow> if er_id row = rid then Some row else None | Some x \<Rightarrow> Some x)"
    by (simp add: d' select_environment_def find_append split: option.splits)
  with new show ?thesis
    by (auto split: option.splits)
qed

lemma scanEnvironment_args [simp]: "scanEnvironment (environment_args env) = env"
  by (cases env) (simp add: scanEnvironment_def environment_args_def nullableInt_def)

lemma environment_args_simps [simp]:
  "er_id (environment_args env) = env_ID env" "er_status (environment_args env) = env_Status env"
  "er_project (environment_args env) = env_Project env" "er_branch (environment_args env) = env_Branch env"
  "er_pinned (environment_args env) = 0 \<longleftrightarrow> \<not> env_Pinned env"
  "er_ttl_expires_at (environment_args env) = env_TTLExpiresAt env"
  by (simp_all add: environment_args_def)

section \<open>DNS records\<close>

lemma db_wf_insert_dns_record: "db_wf d \<Longrightarrow> insert_dns_record rec d = Inr d' \<Longrightarrow> db_wf d'"
  by (auto simp: insert_dns_record_def db_wf_def refs_wf_def list_ex_key split: if_splits)

lemma db_wf_delete_dns_record: "db_wf d \<Longrightarrow> db_wf (delete_dns_record rid d)"
  by (auto simp: delete_dns_record_def db_wf_def refs_wf_def distinct_map_filter)

section \<open>Events\<close>

lemma list_ex_pair:
  "list_ex (\<lambda>r. f r = k \<and> g r = l) xs \<longleftrightarrow> (k, l) \<in> (\<lambda>r. (f r, g r)) ` set xs"
  by (auto simp: list_ex_iff)

lemma db_wf_insert_event: "db_wf d \<Longrightarrow> insert_event row d = Inr d' \<Longrightarrow> db_wf d'"
  by (auto simp: insert_event_def db_wf_def events_wf_def refs_wf_def list_ex_key list_ex_pair
      split: if_splits option.splits)

lemma update_events_wf:
  assumes "\<And>r. vr_id (f r) = vr_id r" "\<And>r. vr_kind (f r) = vr_kind r"
    "\<And>r. vr_dedupe_key (f r) = vr_dedupe_key r" "\<And>r. vr_environment_id (f r) = vr_environment_id r"
    and "db_wf d" and "update_events P f d = (n, d')"
  shows "db_wf d'"
proof -
  let ?u = "\<lambda>r. if P r then f r else r"
  have e: "db_events d' = map ?u (db_events d)" "db_environments d' = db_environments d"
      "db_dns_records d' = db_dns_records d"
    using assms(6) by (auto simp: update_events_def)
  have k: "filter (\<lambda>r. vr_dedupe_key r \<noteq> None) (map ?u vs) = map ?u (filter (\<lambda>r. vr_dedupe_key r \<noteq> None) vs)" for vs
    using assms(3) by (induction vs) auto
  have "map vr_id (map ?u vs) = map vr_id vs"
    "map (\<lambda>r. (vr_kind r, vr_dedupe_key r)) (map ?u vs) = map (\<lambda>r. (vr_kind r, vr_dedupe_key r)) vs" for vs
    using assms(1-3) by (induction vs) auto
  then have "events_wf (map ?u (db_events d))"
    using assms(5) unfolding events_wf_def db_wf_def k by metis
  with assms(4,5) show ?thesis
    by (auto simp: db_wf_def refs_wf_def e)
qed

lemma db_wf_claim_event: "db_wf d \<Longrightarrow> claim_event rid now l d = (n, d') \<Longrightarrow> db_wf d'"
  unfolding claim_event_def by (rule update_events_wf [rotated 5], assumption) auto

lemma db_wf_mark_processed: "db_wf d \<Longrightarrow> mark_processed rid at d = (n, d') \<Longrightarrow> db_wf d'"
  unfolding mark_processed_def by (rule update_events_wf [rotated 5], assumption) auto

lemma db_wf_mark_dead_lettered: "db_wf d \<Longrightarrow> mark_dead_lettered rid at e d = (n, d') \<Longrightarrow> db_wf d'"
  unfolding mark_dead_lettered_def by (rule update_events_wf [rotated 5], assumption) auto

lemma db_wf_mark_retry: "db_wf d \<Longrightarrow> mark_retry rid at e d = (n, d') \<Longrightarrow> db_wf d'"
  unfolding mark_retry_def by (rule update_events_wf [rotated 5], assumption) auto

lemma events_wf_filter: "events_wf vs \<Longrightarrow> events_wf (filter Q vs)"
proof -
  have "filter D (filter Q vs) = filter Q (filter D vs)" for D
    by (simp add: conj_commute)
  then show "events_wf vs \<Longrightarrow> events_wf (filter Q vs)"
    by (simp only: events_wf_def distinct_map_filter simp_thms)
qed

lemma db_wf_prune_events: "db_wf d \<Longrightarrow> prune_events before l d = (n, d') \<Longrightarrow> db_wf d'"
  by (auto simp: prune_events_def Let_def db_wf_def refs_wf_def intro!: events_wf_filter)

lemmas db_wf_intros = db_wf_insert_environment db_wf_update_environment db_wf_insert_dns_record
  db_wf_delete_dns_record db_wf_insert_event db_wf_claim_event db_wf_mark_processed
  db_wf_mark_dead_lettered db_wf_mark_retry db_wf_prune_events

end
