(* ===== verification/Ramify_System.thy ===== *)
theory Ramify_System
  imports Sqlite_Invariant
begin

unbundle bit_operations_syntax

text \<open>
  The state a modelled operation runs in: the world outside the process (an arbitrary type
  \<open>'w\<close>), the database, the counters of \<open>internal/metrics/metrics.go\<close>, and a ghost log of the
  calls made, newest first. The program never reads the log; the theorems on the order of
  operations are stated on it.
\<close>

record Metrics =
  WebhookReceived :: int
  WebhookRejected :: int
  WebhookDuplicates :: int
  Reconciliations :: int
  ReconciliationFailures :: int
  Retries :: int
  CleanupRuns :: int
  CleanupFailures :: int
  InboxPending :: int
  DeadLettered :: int
  WorkerHeartbeat :: int

definition zero_Metrics :: Metrics where
  "zero_Metrics = \<lparr>WebhookReceived = 0, WebhookRejected = 0, WebhookDuplicates = 0,
     Reconciliations = 0, ReconciliationFailures = 0, Retries = 0, CleanupRuns = 0,
     CleanupFailures = 0, InboxPending = 0, DeadLettered = 0, WorkerHeartbeat = 0\<rparr>"

datatype call =
    Applied EnvSpec "error + Deployment"
  | HealthChecked string "error + Status"
  | RecordEnsured PDNSRecord "error option"
  | RecordDeleted PDNSRecord "error option"
  | CertificateEnsured string "error + CertRef"
  | CertificateInstalled string "error option"
  | CertificateRevoked string "error option"
  | CertificateRemoved string "error option"
  | DeploymentSlept string "error option"
  | DeploymentWoken string "error option"
  | DeploymentDestroyed string "error option"
  | Notified string int NotifyEvent
  | Locked string
  | Unlocked string
  | AdmissionLocked
  | AdmissionUnlocked
  | EnvStored string string
  | EventStored string string string

record 'w sys =
  ext :: 'w
  db :: database
  metrics :: Metrics
  log :: "call list"

text \<open>The world is updated first.\<close>

lemma ext_inside [simp]:
  "s\<lparr>db := d, ext := w\<rparr> = s\<lparr>ext := w, db := d\<rparr>"
  "s\<lparr>log := l, ext := w\<rparr> = s\<lparr>ext := w, log := l\<rparr>"
  "s\<lparr>metrics := m, ext := w\<rparr> = s\<lparr>ext := w, metrics := m\<rparr>"
  by simp_all

section \<open>The runtime\<close>

text \<open>
  What the Go runtime and the SQL driver decide: the wall clock, random bytes (\<open>newID\<close> reads
  sixteen), whether a statement, a begin or a commit fails, and the uniform random number of
  \<open>rand.Int64N\<close>.
\<close>

record 'w runtime =
  rt_Now :: "('w, time) state"
  rt_rand_Read :: "('w, error + nat list) state"
  rt_sql :: "('w, error option) state"
  rt_Int64N :: "int \<Rightarrow> ('w, int) state"

text \<open>A concrete runtime, for examples: a clock that stands still and no fault.\<close>

definition zero_runtime :: "unit runtime" where
  "zero_runtime = \<lparr>rt_Now = ret 0, rt_rand_Read = ret (Inr (replicate 16 0)), rt_sql = ret None,
     rt_Int64N = (\<lambda>n. ret (n - 1))\<rparr>"

definition outside :: "('w, 'a) state \<Rightarrow> ('w sys, 'a) state" where
  "outside m = State (\<lambda>s. case run_state m (ext s) of (a, w) \<Rightarrow> (a, s\<lparr>ext := w\<rparr>))"

definition log_call :: "call \<Rightarrow> ('w sys, unit) state" where
  "log_call c = modify_state (\<lambda>s. s\<lparr>log := c # log s\<rparr>)"

definition set_db :: "database \<Rightarrow> ('w sys, unit) state" where
  "set_db d = modify_state (\<lambda>s. s\<lparr>db := d\<rparr>)"

definition count :: "(Metrics \<Rightarrow> Metrics) \<Rightarrow> ('w sys, unit) state" where
  "count f = modify_state (\<lambda>s. s\<lparr>metrics := f (metrics s)\<rparr>)"

text \<open>A call of a method of a provider, with its result in the log.\<close>

definition provider_call :: "('r \<Rightarrow> call) \<Rightarrow> ('w, 'r) state \<Rightarrow> ('w sys, 'r) state" where
  "provider_call c m = do { r \<leftarrow> outside m; log_call (c r); ret r }"

lemma run_outside [simp]:
  "run_state (outside m) s = (case run_state m (ext s) of (a, w) \<Rightarrow> (a, s\<lparr>ext := w\<rparr>))"
  by (simp add: outside_def)

lemma run_log_call [simp]: "run_state (log_call c) s = ((), s\<lparr>log := c # log s\<rparr>)"
  by (simp add: log_call_def)

lemma run_set_db [simp]: "run_state (set_db d) s = ((), s\<lparr>db := d\<rparr>)"
  by (simp add: set_db_def)

lemma run_count [simp]: "run_state (count f) s = ((), s\<lparr>metrics := f (metrics s)\<rparr>)"
  by (simp add: count_def)

lemma run_provider_call [simp]:
  "run_state (provider_call c m) s =
     (case run_state m (ext s) of (r, w) \<Rightarrow> (r, s\<lparr>ext := w, log := c r # log s\<rparr>))"
  by (simp add: provider_call_def split: prod.splits)

section \<open>Identifiers\<close>

text \<open>\<open>internal/store/id.go\<close>: a version 4 UUID.\<close>

definition newID :: "'w runtime \<Rightarrow> ('w sys, error + string) state" where
  "newID rt =
     on_err (outside (rt_rand_Read rt))
       (\<lambda>e. ret (Inl (wrapf ''store: reading random bytes for id: '' e)))
       (\<lambda>b0. let b1 = b0[6 := (b0 ! 6 AND 0x0f) OR 0x40];
                 b = b1[8 := (b1 ! 8 AND 0x3f) OR 0x80]
              in ret (Inr (EncodeToString (take 4 b) @ ''-'' @ EncodeToString (take 2 (drop 4 b)) @ ''-''
                   @ EncodeToString (take 2 (drop 6 b)) @ ''-'' @ EncodeToString (take 2 (drop 8 b)) @ ''-''
                   @ EncodeToString (take 6 (drop 10 b)))))"

end
