(* ===== verification/Sqlite_Store.thy ===== *)
theory Sqlite_Store
  imports Ramify_System
begin

text \<open>
  The operations of \<open>sqliteStore\<close> (\<open>internal/store/sqlite.go\<close>) on the system state. Every
  statement, begin and commit first asks the runtime whether the driver fails; a failed
  statement or a transaction that is not committed changes no table. The tables a
  transaction works on are passed along and become the database at its commit, since the one
  connection of the pool admits no other statement in between.
\<close>

section \<open>Statements with driver faults\<close>

definition fails :: "string \<Rightarrow> error \<Rightarrow> ('w sys, error + 'a) state" where
  "fails p e = ret (Inl (wrapf p e))"

definition fails_with :: "string \<Rightarrow> error \<Rightarrow> ('w sys, error option) state" where
  "fails_with p e = ret (Some (wrapf p e))"

definition query :: "'w runtime \<Rightarrow> (database \<Rightarrow> 'r) \<Rightarrow> ('w sys, error + 'r) state" where
  "query rt sel =
     if_err (outside (rt_sql rt)) (\<lambda>e. ret (Inl e)) (do { s \<leftarrow> get_state; ret (Inr (sel (db s))) })"

definition exec_insert :: "'w runtime \<Rightarrow> (database \<Rightarrow> error + database) \<Rightarrow> ('w sys, error option) state" where
  "exec_insert rt stmt =
     if_err (outside (rt_sql rt)) (\<lambda>e. ret (Some e))
       (do { s \<leftarrow> get_state;
             case stmt (db s) of
               Inl e \<Rightarrow> ret (Some e)
             | Inr d \<Rightarrow> do { set_db d; ret None } })"

text \<open>\<open>ExecContext\<close> and the \<open>RowsAffected\<close> of its result.\<close>

definition exec_rows ::
  "'w runtime \<Rightarrow> (database \<Rightarrow> nat \<times> database) \<Rightarrow> ('w sys, error + nat) state" where
  "exec_rows rt stmt =
     if_err (outside (rt_sql rt)) (\<lambda>e. ret (Inl e))
       (do { s \<leftarrow> get_state;
             case stmt (db s) of
               (n, d) \<Rightarrow> do { set_db d;
                             if_err (outside (rt_sql rt)) (\<lambda>e. ret (Inl e)) (ret (Inr n)) } })"

definition isUniqueConstraintErr :: "error \<Rightarrow> bool" where
  "isUniqueConstraintErr e = Contains (error_text e) ''UNIQUE constraint failed''"

text \<open>The identifier a struct has, or a fresh one.\<close>

definition id_or_new :: "'w runtime \<Rightarrow> string \<Rightarrow> ('w sys, error + string) state" where
  "id_or_new rt i = (if i = [] then newID rt else ret (Inr i))"

section \<open>Environments\<close>

definition CreateEnvironment :: "'w runtime \<Rightarrow> Environment \<Rightarrow> ('w sys, error + Environment) state" where
  "CreateEnvironment rt env0 =
     (let op = ''creating environment '' @ env_Project env0 @ ''/'' @ env_Branch env0 @ '': ''
      in on_err (id_or_new rt (env_ID env0)) (fails op)
        (\<lambda>i. do {
          now \<leftarrow> outside (rt_Now rt);
          let env = env0\<lparr>env_ID := i, env_CreatedAt := now, env_UpdatedAt := now\<rparr>;
          if_err (exec_insert rt (insert_environment (environment_args env)))
            (\<lambda>e. if isUniqueConstraintErr e then fails op ErrConflict else fails op e)
            (do { log_call (EnvStored (env_ID env) (env_Status env)); ret (Inr env) }) }))"

definition GetEnvironment :: "'w runtime \<Rightarrow> string \<Rightarrow> ('w sys, error + Environment) state" where
  "GetEnvironment rt i =
     (let op = ''getting environment '' @ i @ '': ''
      in on_err (query rt (select_environment i)) (fails op)
        (\<lambda>row. case row of None \<Rightarrow> fails op ErrNotFound | Some r \<Rightarrow> ret (Inr (scanEnvironment r))))"

definition GetEnvironmentByProjectBranch ::
  "'w runtime \<Rightarrow> string \<Rightarrow> string \<Rightarrow> ('w sys, error + Environment) state" where
  "GetEnvironmentByProjectBranch rt project branch =
     (let op = ''getting environment '' @ project @ ''/'' @ branch @ '': ''
      in on_err (query rt (select_by_branch project branch)) (fails op)
        (\<lambda>row. case row of None \<Rightarrow> fails op ErrNotFound | Some r \<Rightarrow> ret (Inr (scanEnvironment r))))"

text \<open>The commit of an update, after which the row is read again.\<close>

definition commit_update ::
  "'w runtime \<Rightarrow> string \<Rightarrow> Environment \<Rightarrow> nat \<Rightarrow> database \<Rightarrow> ('w sys, error + Environment) state" where
  "commit_update rt op env n d =
     if_err (outside (rt_sql rt))
       (fails (''checking update result for environment '' @ env_ID env @ '': ''))
       (if n = 0 then fails op ErrNotFound
        else if_err (outside (rt_sql rt)) (fails op)
          (do { set_db d; log_call (EnvStored (env_ID env) (env_Status env));
                GetEnvironment rt (env_ID env) }))"

definition UpdateEnvironment :: "'w runtime \<Rightarrow> Environment \<Rightarrow> ('w sys, error + Environment) state" where
  "UpdateEnvironment rt env0 = do {
     now \<leftarrow> outside (rt_Now rt);
     let env = env0\<lparr>env_UpdatedAt := now\<rparr>;
     let op = ''updating environment '' @ env_ID env @ '': '';
     if_err (outside (rt_sql rt)) (fails op)
       (on_err (query rt (select_environment (env_ID env))) (fails op)
         (\<lambda>row. case row of
             None \<Rightarrow> fails op ErrNotFound
           | Some current \<Rightarrow>
               (case validateTransition (er_status current) (env_Status env) of
                  Some e \<Rightarrow> fails op e
                | None \<Rightarrow>
                    if_err (outside (rt_sql rt))
                      (\<lambda>e. if isUniqueConstraintErr e then fails op ErrConflict else fails op e)
                      (do { s \<leftarrow> get_state;
                            case update_environment (environment_args env) (db s) of
                              Inl e \<Rightarrow> (if isUniqueConstraintErr e then fails op ErrConflict else fails op e)
                            | Inr (n, d) \<Rightarrow> commit_update rt op env n d })))) }"

definition ListEnvironments :: "'w runtime \<Rightarrow> ListOptions \<Rightarrow> ('w sys, error + Environment list) state" where
  "ListEnvironments rt opts0 =
     (let opts = normalized opts0
      in on_err (query rt (select_environments opts)) (fails ''listing environments: '')
           (\<lambda>rows. ret (Inr (map scanEnvironment rows))))"

definition CountLiveEnvironments :: "'w runtime \<Rightarrow> ('w sys, error + int) state" where
  "CountLiveEnvironments rt =
     on_err (query rt count_live) (fails ''counting live environments: '') (\<lambda>n. ret (Inr n))"

definition ListExpiredEnvironments :: "'w runtime \<Rightarrow> time \<Rightarrow> ('w sys, error + Environment list) state" where
  "ListExpiredEnvironments rt now =
     on_err (query rt (select_expired now)) (fails ''listing expired environments: '')
       (\<lambda>rows. ret (Inr (map scanEnvironment rows)))"

section \<open>DNS records\<close>

definition CreateDNSRecord :: "'w runtime \<Rightarrow> DNSRecord \<Rightarrow> ('w sys, error + DNSRecord) state" where
  "CreateDNSRecord rt rec0 =
     (let op = ''creating dns record for environment '' @ dr_EnvironmentID rec0 @ '': ''
      in on_err (id_or_new rt (dr_ID rec0)) (fails op)
        (\<lambda>i. do {
          now \<leftarrow> outside (rt_Now rt);
          let rec = rec0\<lparr>dr_ID := i, dr_CreatedAt := now\<rparr>;
          if_err (exec_insert rt (insert_dns_record rec)) (fails op) (ret (Inr rec)) }))"

definition ListDNSRecords :: "'w runtime \<Rightarrow> string \<Rightarrow> ('w sys, error + DNSRecord list) state" where
  "ListDNSRecords rt environmentID =
     on_err (query rt (select_dns_records environmentID))
       (fails (''listing dns records for environment '' @ environmentID @ '': ''))
       (\<lambda>rows. ret (Inr rows))"

definition DeleteDNSRecord :: "'w runtime \<Rightarrow> string \<Rightarrow> ('w sys, error option) state" where
  "DeleteDNSRecord rt i =
     if_err (exec_insert rt (\<lambda>d. Inr (delete_dns_record i d)))
       (fails_with (''deleting dns record '' @ i @ '': '')) (ret None)"

section \<open>Events\<close>

definition CreateEvent :: "'w runtime \<Rightarrow> StoreEvent \<Rightarrow> ('w sys, error + StoreEvent) state" where
  "CreateEvent rt ev0 =
     (let op = ''creating event '' @ ev_Kind ev0 @ '': ''
      in on_err (id_or_new rt (ev_ID ev0)) (fails op)
        (\<lambda>i. do {
          now \<leftarrow> outside (rt_Now rt);
          let ev = ev0\<lparr>ev_ID := i, ev_CreatedAt := now\<rparr>;
          if_err (exec_insert rt (insert_event (event_args ev)))
            (\<lambda>e. if isUniqueConstraintErr e then fails op ErrConflict else fails op e)
            (do { log_call (EventStored (ev_ID ev) (ev_EnvironmentID ev) (ev_Kind ev)); ret (Inr ev) }) }))"

definition scanEvents :: "string \<Rightarrow> ('w sys, error + event_row list) state \<Rightarrow> ('w sys, error + StoreEvent list) state" where
  "scanEvents op q = on_err q (fails (op @ '': '')) (\<lambda>rows. ret (Inr (map scanEvent rows)))"

definition ListUnprocessedEvents :: "'w runtime \<Rightarrow> ('w sys, error + StoreEvent list) state" where
  "ListUnprocessedEvents rt = scanEvents ''listing unprocessed events'' (query rt select_unprocessed)"

definition ListDueEvents :: "'w runtime \<Rightarrow> time \<Rightarrow> int \<Rightarrow> ('w sys, error + StoreEvent list) state" where
  "ListDueEvents rt now limit =
     scanEvents ''listing due events'' (query rt (select_due now (if limit \<le> 0 then 100 else limit)))"

definition ListDeadLetteredEvents :: "'w runtime \<Rightarrow> int \<Rightarrow> ('w sys, error + StoreEvent list) state" where
  "ListDeadLetteredEvents rt limit =
     scanEvents ''listing dead-lettered events''
       (query rt (select_dead_lettered (if limit \<le> 0 then DefaultListLimit else limit)))"

definition CountDeadLetteredEvents :: "'w runtime \<Rightarrow> ('w sys, error + int) state" where
  "CountDeadLetteredEvents rt =
     on_err (query rt count_dead_lettered) (fails ''counting dead-lettered events: '') (\<lambda>n. ret (Inr n))"

definition ClaimEvent :: "'w runtime \<Rightarrow> string \<Rightarrow> time \<Rightarrow> time \<Rightarrow> ('w sys, error + bool) state" where
  "ClaimEvent rt i now leaseUntil =
     on_err (exec_rows rt (claim_event i now leaseUntil))
       (fails (''claiming event '' @ i @ '': '')) (\<lambda>n. ret (Inr (n = 1)))"

text \<open>The three updates that report \<open>ErrNotFound\<close> when no row was affected.\<close>

definition exec_mark ::
  "'w runtime \<Rightarrow> string \<Rightarrow> (database \<Rightarrow> nat \<times> database) \<Rightarrow> ('w sys, error option) state" where
  "exec_mark rt op stmt =
     on_err (exec_rows rt stmt) (fails_with op)
       (\<lambda>n. if n = 0 then fails_with op ErrNotFound else ret None)"

definition MarkEventProcessed :: "'w runtime \<Rightarrow> string \<Rightarrow> time \<Rightarrow> ('w sys, error option) state" where
  "MarkEventProcessed rt i processedAt =
     exec_mark rt (''marking event '' @ i @ '' processed: '') (mark_processed i processedAt)"

definition MarkEventDeadLettered ::
  "'w runtime \<Rightarrow> string \<Rightarrow> time \<Rightarrow> string \<Rightarrow> ('w sys, error option) state" where
  "MarkEventDeadLettered rt i at lastError =
     exec_mark rt (''dead-lettering event '' @ i @ '': '') (mark_dead_lettered i at lastError)"

definition MarkEventRetry ::
  "'w runtime \<Rightarrow> string \<Rightarrow> time \<Rightarrow> string \<Rightarrow> ('w sys, error option) state" where
  "MarkEventRetry rt i nextAttempt lastError =
     exec_mark rt (''marking event '' @ i @ '' retryable: '') (mark_retry i nextAttempt lastError)"

definition PruneProcessedEvents :: "'w runtime \<Rightarrow> time \<Rightarrow> int \<Rightarrow> ('w sys, error + int) state" where
  "PruneProcessedEvents rt before limit =
     if_err (outside (rt_sql rt)) (fails ''pruning processed events: '')
       (do { s \<leftarrow> get_state;
             case prune_events before (if limit \<le> 0 then 5000 else limit) (db s) of
               (n, d) \<Rightarrow> do { set_db d;
                 if_err (outside (rt_sql rt)) (fails ''counting pruned events: '') (ret (Inr (int n))) } })"

end
