(* ===== verification/Glob_Match.thy ===== *)
theory Glob_Match
  imports Go_Strings
begin

text \<open>
  \<open>path.Match\<close> of Go's standard library, which the admission policy evaluates branch
  patterns with: \<open>scanChunk\<close>, \<open>matchChunk\<close>, \<open>getEsc\<close> and the loop of \<open>Match\<close>, on bytes, with
  UTF-8 decoding where the library decodes a rune. \<open>None\<close> is \<open>ErrBadPattern\<close>.
\<close>

section \<open>UTF-8\<close>

definition RuneError :: nat where
  "RuneError = 0xFFFD"

definition in_range :: "nat \<Rightarrow> nat \<Rightarrow> nat \<Rightarrow> bool" where
  "in_range lo hi b \<longleftrightarrow> lo \<le> b \<and> b \<le> hi"

text \<open>\<open>utf8.DecodeRuneInString\<close>: the rune and its width in bytes.\<close>

definition DecodeRune :: "string \<Rightarrow> nat \<times> nat" where
  "DecodeRune s =
     (let b = (\<lambda>i. if i < length s then byte (s ! i) else 0)
      in if s = [] then (RuneError, 0)
         else if b 0 < 0x80 then (b 0, 1)
         else if in_range 0xC2 0xDF (b 0) \<and> in_range 0x80 0xBF (b 1)
           then ((b 0 - 0xC0) * 64 + (b 1 - 0x80), 2)
         else if in_range 0xE0 0xEF (b 0)
             \<and> in_range (if b 0 = 0xE0 then 0xA0 else 0x80) (if b 0 = 0xED then 0x9F else 0xBF) (b 1)
             \<and> in_range 0x80 0xBF (b 2)
           then ((b 0 - 0xE0) * 4096 + (b 1 - 0x80) * 64 + (b 2 - 0x80), 3)
         else if in_range 0xF0 0xF4 (b 0)
             \<and> in_range (if b 0 = 0xF0 then 0x90 else 0x80) (if b 0 = 0xF4 then 0x8F else 0xBF) (b 1)
             \<and> in_range 0x80 0xBF (b 2) \<and> in_range 0x80 0xBF (b 3)
           then ((b 0 - 0xF0) * 262144 + (b 1 - 0x80) * 4096 + (b 2 - 0x80) * 64 + (b 3 - 0x80), 4)
         else (RuneError, 1))"

lemma width_if: "0 < snd (if b then x else y) \<longleftrightarrow> (if b then 0 < snd x else (0::nat) < snd y)"
  by simp

lemma DecodeRune_width: "s \<noteq> [] \<Longrightarrow> 0 < snd (DecodeRune s)"
  by (simp only: DecodeRune_def Let_def width_if snd_conv zero_less_one zero_less_numeral
      if_cancel if_False)

section \<open>Character classes\<close>

definition getEsc :: "string \<Rightarrow> (nat \<times> string) option" where
  "getEsc chunk =
     (if chunk = [] \<or> hd chunk = CHR ''-'' \<or> hd chunk = CHR '']'' then None
      else (let ch = (if hd chunk = CHR 0x5C then tl chunk else chunk)
            in if ch = [] then None
               else (case DecodeRune ch of
                 (r, n) \<Rightarrow> if r = RuneError \<and> n = 1 \<or> drop n ch = [] then None
                           else Some (r, drop n ch))))"

lemma getEsc_shorter: "getEsc chunk = Some (r, rest) \<Longrightarrow> length rest < length chunk \<and> rest \<noteq> []"
  using DecodeRune_width [of chunk] DecodeRune_width [of "tl chunk"]
  by (cases chunk) (auto simp: getEsc_def Let_def split: if_splits prod.splits)

text \<open>The upper end of a range \<open>lo-hi\<close>, or \<open>lo\<close> again when no dash follows.\<close>

definition range_end :: "nat \<Rightarrow> string \<Rightarrow> (nat \<times> string) option" where
  "range_end lo chunk = (if hd chunk = CHR ''-'' then getEsc (tl chunk) else Some (lo, chunk))"

lemma range_end_shorter:
  "range_end lo chunk = Some (hi, rest) \<Longrightarrow> chunk \<noteq> [] \<Longrightarrow> length rest \<le> length chunk"
  by (cases chunk) (auto simp: range_end_def dest: getEsc_shorter split: if_splits)

text \<open>The loop over the ranges of a class: whether one of them held the rune.\<close>

function class_ranges :: "nat \<Rightarrow> bool \<Rightarrow> bool \<Rightarrow> string \<Rightarrow> (bool \<times> string) option" where
  "class_ranges r found some chunk =
     (if some \<and> chunk \<noteq> [] \<and> hd chunk = CHR '']'' then Some (found, tl chunk)
      else (case getEsc chunk of
              None \<Rightarrow> None
            | Some (lo, ch1) \<Rightarrow>
                (case range_end lo ch1 of
                   None \<Rightarrow> None
                 | Some (hi, ch2) \<Rightarrow> class_ranges r (found \<or> (lo \<le> r \<and> r \<le> hi)) True ch2)))"
  by pat_completeness auto
termination
  by (relation "measure (\<lambda>(r, f, s, chunk). length chunk)")
    (auto dest!: getEsc_shorter range_end_shorter)

declare class_ranges.simps [simp del]

text \<open>The optional \<open>^\<close> of a class.\<close>

definition class_negated :: "string \<Rightarrow> bool \<times> string" where
  "class_negated chunk =
     (if chunk \<noteq> [] \<and> hd chunk = CHR ''^'' then (True, tl chunk) else (False, chunk))"

lemma class_negated_length: "class_negated chunk = (n, rest) \<Longrightarrow> length rest \<le> length chunk"
  by (auto simp: class_negated_def split: if_splits)

lemma class_ranges_shorter:
  "class_ranges r f k chunk = Some (m, rest) \<Longrightarrow> length rest < length chunk"
proof (induction r f k chunk rule: class_ranges.induct)
  case (1 r f k chunk)
  show ?case
  proof (cases "k \<and> chunk \<noteq> [] \<and> hd chunk = CHR '']''")
    case True
    with "1.prems" show ?thesis
      by (subst (asm) class_ranges.simps) (cases chunk, auto)
  next
    case False
    with "1.prems" obtain lo ch1 hi ch2 where *: "getEsc chunk = Some (lo, ch1)"
        "range_end lo ch1 = Some (hi, ch2)"
        "class_ranges r (f \<or> (lo \<le> r \<and> r \<le> hi)) True ch2 = Some (m, rest)"
      by (subst (asm) class_ranges.simps) (auto split: option.splits prod.splits)
    then have "length rest < length ch2"
      using "1.IH" [OF False *(1) refl *(2) refl] by blast
    with * show ?thesis
      using getEsc_shorter range_end_shorter by fastforce
  qed
qed

lemma class_shorter:
  assumes "(negated, ch) = class_negated chunk" and "class_ranges r f k ch = Some (found, ch')"
  shows "length ch' < Suc (length chunk)"
  using assms class_negated_length [OF assms(1) [symmetric]] class_ranges_shorter [OF assms(2)]
  by simp

section \<open>One chunk\<close>

text \<open>
  \<open>failed\<close> is the library's: once the match has failed, the rest of the chunk is still read to
  see that it is well formed.
\<close>

function matchChunk :: "bool \<Rightarrow> string \<Rightarrow> string \<Rightarrow> (string \<times> bool) option" where
  "matchChunk failed [] s = (if failed then Some ([], False) else Some (s, True))"
| "matchChunk failed0 (c # chunk) s =
     (let failed = (failed0 \<or> s = []) in
      if c = CHR ''['' then
        (let (r, n) = (if failed then (0, 0) else DecodeRune s);
             (negated, ch) = class_negated chunk
         in case class_ranges r False False ch of
              None \<Rightarrow> None
            | Some (found, ch') \<Rightarrow> matchChunk (failed \<or> found = negated) ch' (drop n s))
      else if c = CHR ''?'' then
        (if failed then matchChunk True chunk s
         else matchChunk (hd s = CHR ''/'') chunk (drop (snd (DecodeRune s)) s))
      else if c = CHR 0x5C then
        (case chunk of
           [] \<Rightarrow> None
         | d # ch \<Rightarrow> if failed then matchChunk True ch s else matchChunk (d \<noteq> hd s) ch (tl s))
      else (if failed then matchChunk True chunk s else matchChunk (c \<noteq> hd s) chunk (tl s)))"
  by pat_completeness auto
termination
  by (relation "measure (\<lambda>(f, chunk, s). length chunk)") (auto dest: class_shorter)

declare matchChunk.simps [simp del]

lemma matchChunk_Nil [simp]: "matchChunk failed [] s = (if failed then Some ([], False) else Some (s, True))"
  by (simp add: matchChunk.simps)

section \<open>The pattern\<close>

text \<open>Where \<open>scanChunk\<close> stops: at the first star outside brackets.\<close>

fun scan_end :: "bool \<Rightarrow> string \<Rightarrow> nat" where
  "scan_end inrange [] = 0"
| "scan_end inrange (c # p) =
     (if c = CHR 0x5C then (case p of [] \<Rightarrow> 1 | d # q \<Rightarrow> 2 + scan_end inrange q)
      else if c = CHR ''['' then 1 + scan_end True p
      else if c = CHR '']'' then 1 + scan_end False p
      else if c = CHR ''*'' \<and> \<not> inrange then 0
      else 1 + scan_end inrange p)"

definition scanChunk :: "string \<Rightarrow> bool \<times> string \<times> string" where
  "scanChunk pattern =
     (let p = dropWhile (\<lambda>c. c = CHR ''*'') pattern; i = scan_end False p
      in (p \<noteq> pattern, take i p, drop i p))"

lemma scan_end_pos: "p \<noteq> [] \<Longrightarrow> hd p \<noteq> CHR ''*'' \<Longrightarrow> 0 < scan_end r p"
  by (cases p) (auto split: list.splits)

lemma scanChunk_shorter:
  "scanChunk pattern = (star, chunk, rest) \<Longrightarrow> pattern \<noteq> [] \<Longrightarrow> length rest < length pattern"
proof -
  assume sc: "scanChunk pattern = (star, chunk, rest)" and ne: "pattern \<noteq> []"
  let ?p = "dropWhile (\<lambda>c. c = CHR ''*'') pattern"
  have rest: "rest = drop (scan_end False ?p) ?p"
    using sc by (auto simp: scanChunk_def Let_def)
  show ?thesis
  proof (cases "hd pattern = CHR ''*''")
    case True
    with ne have "length ?p < length pattern"
      by (cases pattern) (auto simp: le_imp_less_Suc length_dropWhile_le)
    with rest show ?thesis by (simp add: le_less_trans)
  next
    case False
    with ne have "?p = pattern" by (cases pattern) auto
    with False ne rest scan_end_pos show ?thesis by simp
  qed
qed

lemma scanChunk_shorter':
  "(star, chunk, rest) = scanChunk pattern \<Longrightarrow> pattern \<noteq> [] \<Longrightarrow> length rest < length pattern"
  using scanChunk_shorter [of pattern star chunk rest] by simp

text \<open>After a star: the first later position at which the chunk matches.\<close>

fun star_search :: "string \<Rightarrow> bool \<Rightarrow> string \<Rightarrow> string option option" where
  "star_search chunk final [] = Some None"
| "star_search chunk final (c # name) =
     (if c = CHR ''/'' then Some None
      else (case matchChunk False chunk name of
              None \<Rightarrow> None
            | Some (t, ok) \<Rightarrow>
                if ok \<and> \<not> (final \<and> t \<noteq> []) then Some (Some t) else star_search chunk final name))"

text \<open>The rest of a pattern that has already failed is only checked for its form.\<close>

function valid_rest :: "string \<Rightarrow> bool" where
  "valid_rest pattern =
     (if pattern = [] then True
      else (case scanChunk pattern of
              (star, chunk, rest) \<Rightarrow> matchChunk False chunk [] \<noteq> None \<and> valid_rest rest))"
  by pat_completeness auto
termination
  by (relation "measure length") (auto dest: scanChunk_shorter')

declare valid_rest.simps [simp del]

function path_Match :: "string \<Rightarrow> string \<Rightarrow> bool option" where
  "path_Match pattern name =
     (if pattern = [] then Some (name = [])
      else (case scanChunk pattern of
        (star, chunk, rest) \<Rightarrow>
          if star \<and> chunk = [] then Some (CHR ''/'' \<notin> set name)
          else (case matchChunk False chunk name of
            None \<Rightarrow> None
          | Some (t, ok) \<Rightarrow>
              if ok \<and> (t = [] \<or> rest \<noteq> []) then path_Match rest t
              else if star then
                (case star_search chunk (rest = []) name of
                   None \<Rightarrow> None
                 | Some (Some t') \<Rightarrow> path_Match rest t'
                 | Some None \<Rightarrow> if valid_rest rest then Some False else None)
              else if valid_rest rest then Some False else None)))"
  by pat_completeness auto
termination
  by (relation "measure (\<lambda>(pattern, name). length pattern)") (auto dest: scanChunk_shorter')

declare path_Match.simps [simp del]

section \<open>Literal patterns\<close>

text \<open>A pattern without any of the characters the library reads specially.\<close>

definition literal :: "string \<Rightarrow> bool" where
  "literal p \<longleftrightarrow> (\<forall>c \<in> set p. c \<notin> {CHR ''*'', CHR ''?'', CHR ''['', CHR '']'', CHR 0x5C})"

lemma literal_Cons:
  "literal (c # p) \<longleftrightarrow> c \<notin> {CHR ''*'', CHR ''?'', CHR ''['', CHR '']'', CHR 0x5C} \<and> literal p"
  by (auto simp: literal_def)

lemma scan_end_literal: "literal p \<Longrightarrow> scan_end r p = length p"
  by (induction p) (auto simp: literal_Cons)

lemma scan_end_literal_star: "literal p \<Longrightarrow> scan_end False (p @ CHR ''*'' # q) = length p"
  by (induction p) (auto simp: literal_Cons)

lemma dropWhile_literal: "literal p \<Longrightarrow> dropWhile (\<lambda>c. c = CHR ''*'') (p @ q) = (if p = [] then dropWhile (\<lambda>c. c = CHR ''*'') q else p @ q)"
  by (cases p) (auto simp: literal_Cons)

lemma scanChunk_literal: "literal p \<Longrightarrow> scanChunk p = (False, p, [])"
  using dropWhile_literal [of p "[]"] by (auto simp: scanChunk_def Let_def scan_end_literal)

lemma scanChunk_literal_star:
  "literal p \<Longrightarrow> p \<noteq> [] \<Longrightarrow> scanChunk (p @ CHR ''*'' # q) = (False, p, CHR ''*'' # q)"
  by (auto simp: scanChunk_def Let_def scan_end_literal_star dropWhile_literal)

lemma matchChunk_failed: "literal p \<Longrightarrow> matchChunk True p s = Some ([], False)"
  by (induction p) (auto simp: literal_Cons matchChunk.simps)

lemma matchChunk_literal:
  "literal p \<Longrightarrow> matchChunk False p s =
    (if HasPrefix s p then Some (drop (length p) s, True) else Some ([], False))"
proof (induction p arbitrary: s)
  case (Cons c p)
  then show ?case
    by (cases s; cases "c = hd s")
      (auto simp: literal_Cons HasPrefix_def matchChunk_failed matchChunk.simps(2))
qed (simp add: HasPrefix_def)

lemma path_Match_literal: "literal p \<Longrightarrow> path_Match p name = Some (name = p)"
proof (cases "p = []")
  case False
  assume "literal p"
  with False show ?thesis
    using path_Match.simps [of p name]
    by (auto simp: scanChunk_literal matchChunk_literal path_Match.simps [of "[]"]
        valid_rest.simps [of "[]"] HasPrefix_iff)
qed (simp add: path_Match.simps)

lemma scanChunk_star: "scanChunk ''*'' = (True, [], [])"
  by (simp add: scanChunk_def)

lemma path_Match_star: "path_Match ''*'' name = Some (CHR ''/'' \<notin> set name)"
  using path_Match.simps [of "''*''" name] by (simp add: scanChunk_star)

lemma matchChunk_empty: "matchChunk False [] s = Some (s, True)"
  by simp

lemma path_Match_literal_star:
  assumes "literal p"
  shows "path_Match (p @ ''*'') name = Some (\<exists>t. name = p @ t \<and> CHR ''/'' \<notin> set t)"
proof (cases "p = []")
  case True
  then show ?thesis by (simp add: path_Match_star)
next
  case False
  have v: "valid_rest ''*''"
    using valid_rest.simps [of "''*''"] by (simp add: scanChunk_star valid_rest.simps [of "[]"] ex_bool_eq)
  show ?thesis
    using assms False v path_Match.simps [of "p @ ''*''" name]
    by (auto simp: scanChunk_literal_star matchChunk_literal path_Match_star HasPrefix_iff)
qed

end
