(* ===== verification/Go_Json.thy ===== *)
theory Go_Json
  imports Glob_Match
begin

text \<open>
  The part of \<open>encoding/json\<close> the event payloads use: \<open>Marshal\<close> of strings, integers,
  booleans, string slices and structs, and \<open>Unmarshal\<close> as a parser to a tree of values
  followed by the decoding of the fields. The wording of a syntax or type error is not kept:
  both are \<open>invalid JSON\<close>. \<open>Unmarshal\<close>'s limit of ten thousand nested values is not modelled.
\<close>

datatype json =
    JNull
  | JBool bool
  | JNum string
  | JStr string
  | JArr "json list"
  | JObj "(string \<times> json) list"

section \<open>Strings\<close>

definition EncodeRune :: "nat \<Rightarrow> string" where
  "EncodeRune r0 =
     (let r = (if r0 > 0x10FFFF \<or> in_range 0xD800 0xDFFF r0 then RuneError else r0)
      in if r < 0x80 then [char_of r]
         else if r < 0x800 then [char_of (0xC0 + r div 64), char_of (0x80 + r mod 64)]
         else if r < 0x10000 then
           [char_of (0xE0 + r div 4096), char_of (0x80 + r div 64 mod 64), char_of (0x80 + r mod 64)]
         else [char_of (0xF0 + r div 262144), char_of (0x80 + r div 4096 mod 64),
               char_of (0x80 + r div 64 mod 64), char_of (0x80 + r mod 64)])"

text \<open>A byte below 0x80 that is written as it is, with HTML escaping on.\<close>

definition html_safe :: "char \<Rightarrow> bool" where
  "html_safe c \<longleftrightarrow> 0x20 \<le> byte c \<and> byte c < 0x80 \<and>
     c \<noteq> CHR 0x22 \<and> c \<noteq> CHR 0x5C \<and> c \<noteq> CHR ''<'' \<and> c \<noteq> CHR ''>'' \<and> c \<noteq> CHR ''&''"

definition escape_byte :: "char \<Rightarrow> string" where
  "escape_byte c =
     (if html_safe c then [c]
      else if c = CHR 0x22 \<or> c = CHR 0x5C then [CHR 0x5C, c]
      else if c = CHR 0x08 then [CHR 0x5C, CHR ''b'']
      else if c = CHR 0x0C then [CHR 0x5C, CHR ''f'']
      else if c = CHR 0x0A then [CHR 0x5C, CHR ''n'']
      else if c = CHR 0x0D then [CHR 0x5C, CHR ''r'']
      else if c = CHR 0x09 then [CHR 0x5C, CHR ''t'']
      else [CHR 0x5C, CHR ''u'', CHR ''0'', CHR ''0''] @ hex_byte (byte c))"

function escape_string :: "string \<Rightarrow> string" where
  "escape_string [] = []"
| "escape_string (c # s) =
     (if byte c < (0x80::nat) then escape_byte c @ escape_string s
      else (case DecodeRune (c # s) of (r, n) \<Rightarrow>
        if r = RuneError \<and> n = 1 then [CHR 0x5C] @ ''ufffd'' @ escape_string s
        else if r = 0x2028 \<or> r = 0x2029 then
          [CHR 0x5C] @ ''u202'' @ [hex_digit (r mod 16)] @ escape_string (drop (n - 1) s)
        else c # take (n - 1) s @ escape_string (drop (n - 1) s)))"
  by pat_completeness auto
termination
  by (relation "measure length") auto

definition json_string :: "string \<Rightarrow> string" where
  "json_string s = [CHR 0x22] @ escape_string s @ [CHR 0x22]"

definition json_int :: "int \<Rightarrow> string" where
  "json_int i = Itoa i"

definition json_bool :: "bool \<Rightarrow> string" where
  "json_bool b = (if b then ''true'' else ''false'')"

text \<open>A slice: \<open>nil\<close> is \<open>null\<close>; the model does not tell an empty slice from \<open>nil\<close>.\<close>

definition json_strings :: "string list \<Rightarrow> string" where
  "json_strings ss = (if ss = [] then ''null'' else ''['' @ strings_Join (map json_string ss) '','' @ '']'')"

definition json_object :: "(string \<times> string) list \<Rightarrow> string" where
  "json_object fs = ''{'' @ strings_Join (map (\<lambda>(k, v). json_string k @ '':'' @ v) fs) '','' @ ''}''"

section \<open>Reading a string literal\<close>

definition hex_value :: "char \<Rightarrow> nat option" where
  "hex_value c =
     (let b = byte c in
      if 48 \<le> b \<and> b \<le> 57 then Some (b - 48)
      else if 97 \<le> b \<and> b \<le> 102 then Some (b - 87)
      else if 65 \<le> b \<and> b \<le> 70 then Some (b - 55) else None)"

text \<open>The four hexadecimal digits after \<open>\u\<close>.\<close>

fun hex4 :: "string \<Rightarrow> (nat \<times> string) option" where
  "hex4 (a # b # c # d # s) =
     (case (hex_value a, hex_value b, hex_value c, hex_value d) of
        (Some w, Some x, Some y, Some z) \<Rightarrow> Some (((w * 16 + x) * 16 + y) * 16 + z, s)
      | _ \<Rightarrow> None)"
| "hex4 _ = None"

lemma hex4_shorter: "hex4 s = Some (r, t) \<Longrightarrow> length t < length s"
  by (cases s rule: hex4.cases) (auto split: option.splits)

text \<open>After a first surrogate: the rune of a valid pair, and the rest.\<close>

definition second_surrogate :: "nat \<Rightarrow> string \<Rightarrow> (nat \<times> string) option" where
  "second_surrogate r s =
     (case s of
        b # u # s' \<Rightarrow>
          (if b = CHR 0x5C \<and> u = CHR ''u'' then
             (case hex4 s' of
                None \<Rightarrow> None
              | Some (r2, t) \<Rightarrow>
                  if in_range 0xD800 0xDBFF r \<and> in_range 0xDC00 0xDFFF r2
                  then Some ((r - 0xD800) * 1024 + (r2 - 0xDC00) + 0x10000, t) else None)
           else None)
      | _ \<Rightarrow> None)"

lemma second_surrogate_shorter: "second_surrogate r s = Some (r', t) \<Longrightarrow> length t < length s"
  by (auto simp: second_surrogate_def split: list.splits if_splits option.splits dest!: hex4_shorter)

definition simple_escape :: "char \<Rightarrow> char option" where
  "simple_escape c =
     (if c = CHR 0x22 \<or> c = CHR 0x5C \<or> c = CHR ''/'' then Some c
      else if c = CHR ''b'' then Some (CHR 0x08)
      else if c = CHR ''f'' then Some (CHR 0x0C)
      else if c = CHR ''n'' then Some (CHR 0x0A)
      else if c = CHR ''r'' then Some (CHR 0x0D)
      else if c = CHR ''t'' then Some (CHR 0x09)
      else None)"

definition prepend :: "string \<Rightarrow> (string \<times> 'a) option \<Rightarrow> (string \<times> 'a) option" where
  "prepend p r = map_option (\<lambda>(s, t). (p @ s, t)) r"

text \<open>The characters up to the closing quote, unquoted, and what follows it.\<close>

function unquote :: "string \<Rightarrow> (string \<times> string) option" where
  "unquote [] = None"
| "unquote (c # s) =
     (if c = CHR 0x22 then Some ([], s)
      else if c = CHR 0x5C then
        (case s of
           [] \<Rightarrow> None
         | e # s' \<Rightarrow>
             (if e = CHR ''u'' then
                (case hex4 s' of
                   None \<Rightarrow> None
                 | Some (r, t) \<Rightarrow>
                     if in_range 0xD800 0xDFFF r then
                       (case second_surrogate r t of
                          Some (r', t') \<Rightarrow> prepend (EncodeRune r') (unquote t')
                        | None \<Rightarrow> prepend (EncodeRune RuneError) (unquote t))
                     else prepend (EncodeRune r) (unquote t))
              else (case simple_escape e of None \<Rightarrow> None | Some d \<Rightarrow> prepend [d] (unquote s'))))
      else if byte c < (0x20::nat) then None
      else if byte c < (0x80::nat) then prepend [c] (unquote s)
      else (case DecodeRune (c # s) of (r, n) \<Rightarrow>
        if r = RuneError \<and> n = 1 then prepend (EncodeRune RuneError) (unquote s)
        else prepend (c # take (n - 1) s) (unquote (drop (n - 1) s))))"
  by pat_completeness auto
termination
  by (relation "measure length") (auto dest!: hex4_shorter second_surrogate_shorter)

section \<open>The parser\<close>

definition is_space :: "char \<Rightarrow> bool" where
  "is_space c \<longleftrightarrow> c = CHR '' '' \<or> c = CHR 0x09 \<or> c = CHR 0x0A \<or> c = CHR 0x0D"

definition skip_space :: "string \<Rightarrow> string" where
  "skip_space s = dropWhile is_space s"

definition digits :: "string \<Rightarrow> string \<times> string" where
  "digits s = (takeWhile is_digit s, dropWhile is_digit s)"

text \<open>A number literal: integer part, fraction, exponent.\<close>

definition lex_fraction :: "string \<Rightarrow> (string \<times> string) option" where
  "lex_fraction s =
     (if s \<noteq> [] \<and> hd s = CHR ''.'' then
        (case digits (tl s) of (ds, t) \<Rightarrow> if ds = [] then None else Some (''.'' @ ds, t))
      else Some ([], s))"

definition lex_exponent :: "string \<Rightarrow> (string \<times> string) option" where
  "lex_exponent s =
     (if s \<noteq> [] \<and> (hd s = CHR ''e'' \<or> hd s = CHR ''E'') then
        (let s1 = tl s;
             sign = (if s1 \<noteq> [] \<and> (hd s1 = CHR ''+'' \<or> hd s1 = CHR ''-'') then [hd s1] else [])
         in case digits (drop (length sign) s1) of
              (ds, t) \<Rightarrow> if ds = [] then None else Some (hd s # sign @ ds, t))
      else Some ([], s))"

definition lex_number :: "string \<Rightarrow> (string \<times> string) option" where
  "lex_number s =
     (let sign = (if s \<noteq> [] \<and> hd s = CHR ''-'' then ''-'' else []);
          (ds, t) = digits (drop (length sign) s);
          (ip, t1) = (if ds \<noteq> [] \<and> hd ds = CHR ''0'' then (''0'', tl ds @ t) else (ds, t))
      in if ip = [] then None
         else (case lex_fraction t1 of
                 None \<Rightarrow> None
               | Some (f, t2) \<Rightarrow>
                   (case lex_exponent t2 of
                      None \<Rightarrow> None
                    | Some (e, t3) \<Rightarrow> Some (sign @ ip @ f @ e, t3))))"

fun parse_value :: "nat \<Rightarrow> string \<Rightarrow> (json \<times> string) option"
  and parse_elements :: "nat \<Rightarrow> string \<Rightarrow> (json list \<times> string) option"
  and parse_members :: "nat \<Rightarrow> string \<Rightarrow> ((string \<times> json) list \<times> string) option" where
  "parse_value 0 s = None"
| "parse_value (Suc n) s =
     (case skip_space s of
        [] \<Rightarrow> None
      | c # t \<Rightarrow>
          (if c = CHR ''{'' then
             (case skip_space t of
                [] \<Rightarrow> None
              | d # u \<Rightarrow> if d = CHR ''}'' then Some (JObj [], u)
                         else map_option (\<lambda>(ms, v). (JObj ms, v)) (parse_members n (d # u)))
           else if c = CHR ''['' then
             (case skip_space t of
                [] \<Rightarrow> None
              | d # u \<Rightarrow> if d = CHR '']'' then Some (JArr [], u)
                         else map_option (\<lambda>(vs, v). (JArr vs, v)) (parse_elements n (d # u)))
           else if c = CHR 0x22 then map_option (\<lambda>(x, v). (JStr x, v)) (unquote t)
           else if HasPrefix (c # t) ''null'' then Some (JNull, drop 3 t)
           else if HasPrefix (c # t) ''true'' then Some (JBool True, drop 3 t)
           else if HasPrefix (c # t) ''false'' then Some (JBool False, drop 4 t)
           else map_option (\<lambda>(x, v). (JNum x, v)) (lex_number (c # t))))"
| "parse_elements 0 s = None"
| "parse_elements (Suc n) s =
     (case parse_value n s of
        None \<Rightarrow> None
      | Some (v, t) \<Rightarrow>
          (case skip_space t of
             [] \<Rightarrow> None
           | c # u \<Rightarrow> if c = CHR '']'' then Some ([v], u)
                      else if c = CHR '','' then map_option (\<lambda>(vs, w). (v # vs, w)) (parse_elements n u)
                      else None))"
| "parse_members 0 s = None"
| "parse_members (Suc n) s =
     (case skip_space s of
        [] \<Rightarrow> None
      | q # t \<Rightarrow>
          if q \<noteq> CHR 0x22 then None
          else (case unquote t of
                  None \<Rightarrow> None
                | Some (k, t1) \<Rightarrow>
                    (case skip_space t1 of
                       [] \<Rightarrow> None
                     | c # t2 \<Rightarrow>
                         if c \<noteq> CHR '':'' then None
                         else (case parse_value n t2 of
                                 None \<Rightarrow> None
                               | Some (v, t3) \<Rightarrow>
                                   (case skip_space t3 of
                                      [] \<Rightarrow> None
                                    | d # u \<Rightarrow>
                                        if d = CHR ''}'' then Some ([(k, v)], u)
                                        else if d = CHR '','' then
                                          map_option (\<lambda>(ms, w). ((k, v) # ms, w)) (parse_members n u)
                                        else None)))))"

text \<open>A whole document. Every call reads a byte before it calls on, so the length is fuel enough.\<close>

definition parse_json :: "string \<Rightarrow> json option" where
  "parse_json s =
     (case parse_value (2 * length s + 2) s of
        None \<Rightarrow> None
      | Some (v, t) \<Rightarrow> if skip_space t = [] then Some v else None)"

section \<open>Decoding into a struct\<close>

text \<open>
  The value of a field: the last member whose key is the field's name, up to ASCII case;
  \<open>null\<close> leaves a field as it is.
\<close>

definition fold_name :: "string \<Rightarrow> string" where
  "fold_name s = map (\<lambda>c. if is_upper c then char_of (byte c + (32::nat)) else c) s"

definition members_of :: "string \<Rightarrow> (string \<times> json) list \<Rightarrow> json list" where
  "members_of name ms =
     filter (\<lambda>v. v \<noteq> JNull) (map snd (filter (\<lambda>(k, v). fold_name k = fold_name name) ms))"

text \<open>Each member decodes into the field in turn; one of the wrong type is an error.\<close>

definition decode_field :: "(json \<Rightarrow> 'a option) \<Rightarrow> string \<Rightarrow> (string \<times> json) list \<Rightarrow> 'a \<Rightarrow> 'a option" where
  "decode_field dec name ms zero =
     fold (\<lambda>v acc. case acc of None \<Rightarrow> None | Some _ \<Rightarrow> dec v) (members_of name ms) (Some zero)"

fun decode_string :: "json \<Rightarrow> string option" where
  "decode_string (JStr s) = Some s"
| "decode_string _ = None"

definition parse_digits :: "string \<Rightarrow> nat" where
  "parse_digits s = fold (\<lambda>c a. a * 10 + (byte c - 48)) s 0"

definition ParseInt :: "string \<Rightarrow> int option" where
  "ParseInt s =
     (let (neg, ds) = (if s \<noteq> [] \<and> hd s = CHR ''-'' then (True, tl s) else (False, s));
          n = int (parse_digits ds); i = (if neg then - n else n)
      in if ds = [] \<or> \<not> list_all is_digit ds \<or> i < - (2 ^ 63) \<or> i \<ge> 2 ^ 63 then None else Some i)"

fun decode_int :: "json \<Rightarrow> int option" where
  "decode_int (JNum s) = ParseInt s"
| "decode_int _ = None"

fun decode_bool :: "json \<Rightarrow> bool option" where
  "decode_bool (JBool b) = Some b"
| "decode_bool _ = None"

definition element_string :: "json \<Rightarrow> string option" where
  "element_string v = (if v = JNull then Some [] else decode_string v)"

fun decode_strings :: "json \<Rightarrow> string list option" where
  "decode_strings (JArr vs) = those (map element_string vs)"
| "decode_strings _ = None"

end
