(* ===== verification/Event_Payload.thy ===== *)
theory Event_Payload
  imports Go_Json Provider_Api
begin

text \<open>
  \<open>internal/core/event.go\<close>: the event kinds, the apply request and the JSON payloads of the
  durable events, with the round trip of what a replay reads back.
\<close>

abbreviation EventKindApplyRequested :: string where "EventKindApplyRequested \<equiv> ''apply_requested''"
abbreviation EventKindDestroyRequested :: string where "EventKindDestroyRequested \<equiv> ''destroy_requested''"
abbreviation EventKindSleepRequested :: string where "EventKindSleepRequested \<equiv> ''sleep_requested''"
abbreviation EventKindWakeRequested :: string where "EventKindWakeRequested \<equiv> ''wake_requested''"
abbreviation EventKindWebhookReceived :: string where "EventKindWebhookReceived \<equiv> ''webhook_received''"

record ApplyRequest =
  ar_Project :: string
  ar_Branch :: string
  ar_PRNumber :: int
  ar_Subdomain :: string
  ar_ArtifactRef :: string

definition ApplyRequestFromEvent :: "Event \<Rightarrow> string \<Rightarrow> ApplyRequest" where
  "ApplyRequestFromEvent ev subdomain = \<lparr>ar_Project = pe_Project ev, ar_Branch = pe_Branch ev,
     ar_PRNumber = pe_PRNumber ev, ar_Subdomain = subdomain, ar_ArtifactRef = pe_Artifact ev\<rparr>"

definition invalid_json :: error where
  "invalid_json = Opaque ''invalid JSON''"

definition marshalApplyPayload :: "ApplyRequest \<Rightarrow> string" where
  "marshalApplyPayload req = json_object
     [(''project'', json_string (ar_Project req)), (''branch'', json_string (ar_Branch req)),
      (''pr_number'', json_int (ar_PRNumber req)), (''subdomain'', json_string (ar_Subdomain req)),
      (''artifact_ref'', json_string (ar_ArtifactRef req))]"

text \<open>The payload of the events that only name their target.\<close>

record projectBranchPayload =
  pb_Project :: string
  pb_Branch :: string

definition json_project_branch :: "projectBranchPayload \<Rightarrow> string" where
  "json_project_branch p = json_object [(''project'', json_string (pb_Project p)), (''branch'', json_string (pb_Branch p))]"

definition marshalDestroyPayload :: "string \<Rightarrow> string \<Rightarrow> string" where
  "marshalDestroyPayload project branch = json_project_branch \<lparr>pb_Project = project, pb_Branch = branch\<rparr>"

definition marshalSleepPayload :: "string \<Rightarrow> string \<Rightarrow> string" where
  "marshalSleepPayload project branch = json_project_branch \<lparr>pb_Project = project, pb_Branch = branch\<rparr>"

definition marshalWakePayload :: "string \<Rightarrow> string \<Rightarrow> string" where
  "marshalWakePayload project branch = json_project_branch \<lparr>pb_Project = project, pb_Branch = branch\<rparr>"

definition decode_apply :: "(string \<times> json) list \<Rightarrow> ApplyRequest option" where
  "decode_apply ms =
     (case (decode_field decode_string ''project'' ms [], decode_field decode_string ''branch'' ms [],
            decode_field decode_int ''pr_number'' ms 0, decode_field decode_string ''subdomain'' ms [],
            decode_field decode_string ''artifact_ref'' ms []) of
        (Some p, Some b, Some n, Some s, Some a) \<Rightarrow>
          Some \<lparr>ar_Project = p, ar_Branch = b, ar_PRNumber = n, ar_Subdomain = s, ar_ArtifactRef = a\<rparr>
      | _ \<Rightarrow> None)"

text \<open>A JSON document decoded into a struct: \<open>null\<close> leaves it empty, anything but an object fails.\<close>

definition unmarshal_struct :: "((string \<times> json) list \<Rightarrow> 'a option) \<Rightarrow> string \<Rightarrow> 'a option" where
  "unmarshal_struct dec payload =
     (case parse_json payload of
        Some (JObj ms) \<Rightarrow> dec ms
      | Some JNull \<Rightarrow> dec []
      | _ \<Rightarrow> None)"

definition unmarshalApplyPayload :: "string \<Rightarrow> error + ApplyRequest" where
  "unmarshalApplyPayload payload =
     (case unmarshal_struct decode_apply payload of
        None \<Rightarrow> Inl (wrapf ''unmarshaling apply event payload: '' invalid_json)
      | Some r \<Rightarrow> Inr r)"

definition json_event :: "Event \<Rightarrow> string" where
  "json_event ev = json_object
     [(''Kind'', json_string (pe_Kind ev)), (''Project'', json_string (pe_Project ev)),
      (''Branch'', json_string (pe_Branch ev)), (''PRNumber'', json_int (pe_PRNumber ev)),
      (''Artifact'', json_string (pe_Artifact ev)), (''Labels'', json_strings (pe_Labels ev)),
      (''LabelsKnown'', json_bool (pe_LabelsKnown ev))]"

definition MarshalWebhookPayload :: "Event \<Rightarrow> string" where
  "MarshalWebhookPayload ev = json_object [(''event'', json_event ev)]"

definition decode_event :: "(string \<times> json) list \<Rightarrow> Event option" where
  "decode_event ms =
     (case (decode_field decode_string ''Kind'' ms [], decode_field decode_string ''Project'' ms [],
            decode_field decode_string ''Branch'' ms [], decode_field decode_int ''PRNumber'' ms 0,
            decode_field decode_string ''Artifact'' ms [], decode_field decode_strings ''Labels'' ms [],
            decode_field decode_bool ''LabelsKnown'' ms False) of
        (Some k, Some p, Some b, Some n, Some a, Some l, Some lk) \<Rightarrow>
          Some \<lparr>pe_Kind = k, pe_Project = p, pe_Branch = b, pe_PRNumber = n, pe_Artifact = a,
                pe_Labels = l, pe_LabelsKnown = lk\<rparr>
      | _ \<Rightarrow> None)"

definition decode_event_value :: "json \<Rightarrow> Event option" where
  "decode_event_value v = (case v of JObj ms \<Rightarrow> decode_event ms | _ \<Rightarrow> None)"

definition UnmarshalWebhookPayload :: "string \<Rightarrow> error + Event" where
  "UnmarshalWebhookPayload payload =
     (case unmarshal_struct (\<lambda>ms. decode_field decode_event_value ''event'' ms empty_Event) payload of
        None \<Rightarrow> Inl (wrapf ''unmarshaling webhook event payload: '' invalid_json)
      | Some ev \<Rightarrow> Inr ev)"

section \<open>Round trip\<close>

definition ascii :: "string \<Rightarrow> bool" where
  "ascii s \<longleftrightarrow> list_all (\<lambda>c. byte c < (0x80::nat)) s"

lemma ascii_simps [simp]: "ascii []" "ascii (c # s) \<longleftrightarrow> byte c < (0x80::nat) \<and> ascii s"
  by (simp_all add: ascii_def)

lemma hex_value_digit: "d < 16 \<Longrightarrow> hex_value (hex_digit d) = Some d"
  by (auto simp: hex_value_def hex_digit_def Let_def)

lemma hex4_byte:
  "b < 256 \<Longrightarrow> hex4 (CHR ''0'' # CHR ''0'' # hex_byte b @ s) = Some (b, s)"
proof -
  have "hex_value (CHR ''0'') = Some 0" by (simp add: hex_value_def)
  then show "b < 256 \<Longrightarrow> ?thesis"
    by (simp add: hex_byte_def hex_value_digit div_mult_mod_eq less_mult_imp_div_less)
qed

lemma EncodeRune_ascii: "r < 0x80 \<Longrightarrow> EncodeRune r = [char_of r]"
  by (simp add: EncodeRune_def in_range_def)

lemma unquote_escape_byte:
  assumes "byte c < (0x80::nat)"
  shows "unquote (escape_byte c @ s) = prepend [c] (unquote s)"
proof (cases "html_safe c")
  case True
  with assms show ?thesis
    by (auto simp: escape_byte_def html_safe_def)
next
  case False
  have u: "unquote ([CHR 0x5C, CHR ''u'', CHR ''0'', CHR ''0''] @ hex_byte (byte c) @ s) = prepend [c] (unquote s)"
  proof -
    have "byte c < (256::nat)" using assms by simp
    then show ?thesis
      using assms hex4_byte [of "byte c" s]
      by (simp add: EncodeRune_ascii in_range_def)
  qed
  show ?thesis
    using False u by (auto simp: escape_byte_def simple_escape_def)
qed

lemma unquote_escape_string:
  "ascii s \<Longrightarrow> unquote (escape_string s @ CHR 0x22 # t) = Some (s, t)"
  by (induction s) (simp_all add: unquote_escape_byte prepend_def)

text \<open>
  \<open>prints d v j\<close>: the text \<open>v\<close> is read as \<open>j\<close> in front of a comma or a closing bracket, with any
  fuel from \<open>d\<close> on.
\<close>

definition prints :: "nat \<Rightarrow> string \<Rightarrow> json \<Rightarrow> bool" where
  "prints d v j \<longleftrightarrow> (\<forall>n \<ge> d. \<forall>c r. c \<in> {CHR '','', CHR '']'', CHR ''}''} \<longrightarrow>
     parse_value n (v @ c # r) = Some (j, c # r))"

lemma printsD:
  "prints d v j \<Longrightarrow> d \<le> n \<Longrightarrow> c \<in> {CHR '','', CHR '']'', CHR ''}''} \<Longrightarrow>
    parse_value n (v @ c # r) = Some (j, c # r)"
  unfolding prints_def by blast

lemma prints_mono: "prints d v j \<Longrightarrow> d \<le> d' \<Longrightarrow> prints d' v j"
  unfolding prints_def by simp

lemma prints_string: "ascii s \<Longrightarrow> prints 1 (json_string s) (JStr s)"
  unfolding prints_def
proof (intro allI impI)
  fix n :: nat and c r
  assume "ascii s" and "1 \<le> n"
  then show "parse_value n (json_string s @ c # r) = Some (JStr s, c # r)"
    by (cases n) (simp_all add: json_string_def skip_space_def is_space_def unquote_escape_string)
qed

lemma prints_bool: "prints 1 (json_bool b) (JBool b)"
  unfolding prints_def
proof (intro allI impI)
  fix n :: nat and c r
  assume "1 \<le> n"
  then show "parse_value n (json_bool b @ c # r) = Some (JBool b, c # r)"
    by (cases n) (simp_all add: json_bool_def skip_space_def is_space_def HasPrefix_def)
qed

section \<open>Numbers\<close>

lemma is_digit_char [simp]: "d < 10 \<Longrightarrow> is_digit (digit_char d)"
  by (simp add: is_digit_def digit_char_def)

lemma byte_digit_char [simp]: "d < 10 \<Longrightarrow> byte (digit_char d) = 48 + d"
  by (simp add: digit_char_def)

lemma nat_digits_facts:
  "nat_digits n \<noteq> [] \<and> list_all is_digit (nat_digits n) \<and> parse_digits (nat_digits n) = n
   \<and> (byte (hd (nat_digits n)) = (48::nat) \<longrightarrow> n = 0)"
proof (induction n rule: nat_digits.induct)
  case (1 n)
  show ?case
  proof (cases "n < 10")
    case True
    then show ?thesis
      by (simp add: nat_digits.simps [of n] parse_digits_def)
  next
    case False
    with 1 [OF False] show ?thesis
      by (auto simp: nat_digits.simps [of n] parse_digits_def)
  qed
qed

lemma digits_append:
  "list_all is_digit ds \<Longrightarrow> t = [] \<or> \<not> is_digit (hd t) \<Longrightarrow> digits (ds @ t) = (ds, t)"
  by (cases t) (auto simp: digits_def list_all_iff takeWhile_append2 dropWhile_append2
      takeWhile_eq_all_conv)

lemma digit_not_minus: "is_digit c \<Longrightarrow> c \<noteq> CHR ''-''"
  by (auto simp: is_digit_def)

lemma zero_char: "byte c = (48::nat) \<longleftrightarrow> c = CHR ''0''"
proof -
  have "of_char (CHR ''0'') = (48::nat)" by simp
  then show ?thesis by (metis of_char_eq_iff)
qed

lemma lex_nat:
  assumes "c \<in> {CHR '','', CHR '']'', CHR ''}''}" and "sign = [] \<or> sign = ''-''"
  shows "lex_number (sign @ nat_digits n @ c # r) = Some (sign @ nat_digits n, c # r)"
proof -
  have nd: "\<not> is_digit c" "c \<noteq> CHR ''.''" "c \<noteq> CHR ''e''" "c \<noteq> CHR ''E''"
    using assms(1) by (auto simp: is_digit_def)
  obtain d ds where nn: "nat_digits n = d # ds"
    using nat_digits_facts [of n] by (cases "nat_digits n") auto
  have dg: "is_digit d" "list_all is_digit ds"
    using nat_digits_facts [of n] by (simp_all add: nn)
  have z: "ds = []" if "d = CHR ''0''"
    using that nat_digits_facts [of n] nn nat_digits.simps [of 0] by (auto simp: zero_char)
  have "digits (nat_digits n @ c # r) = (nat_digits n, c # r)"
    using nat_digits_facts [of n] nd by (intro digits_append) auto
  then have D: "digits (d # ds @ c # r) = (d # ds, c # r)"
    by (simp add: nn)
  have L: "lex_fraction (c # r) = Some ([], c # r)" "lex_exponent (c # r) = Some ([], c # r)"
    using nd by (simp_all add: lex_fraction_def lex_exponent_def)
  show ?thesis
    using assms(2) dg digit_not_minus [of d] D L z
    by (auto simp: lex_number_def Let_def nn)
qed

lemma prints_int: "prints 1 (json_int i) (JNum (Itoa i))"
  unfolding prints_def
proof (intro allI impI)
  fix n :: nat and c r
  assume n: "1 \<le> n" and c: "c \<in> {CHR '','', CHR '']'', CHR ''}''}"
  define sign where "sign = (if i < 0 then ''-'' else [])"
  have it: "Itoa i = sign @ nat_digits (nat \<bar>i\<bar>)"
    by (simp add: Itoa_def sign_def)
  have lex: "lex_number (Itoa i @ c # r) = Some (Itoa i, c # r)"
    unfolding it append_assoc by (rule lex_nat [OF c]) (simp add: sign_def)
  obtain d ds where dd: "Itoa i = d # ds"
    using nat_digits_facts [of "nat \<bar>i\<bar>"] by (cases "Itoa i") (auto simp: it)
  have "d = CHR ''-'' \<or> is_digit d"
    using dd nat_digits_facts [of "nat \<bar>i\<bar>"]
    by (cases "nat_digits (nat \<bar>i\<bar>)") (auto simp: it sign_def split: if_splits)
  then have "d \<noteq> CHR ''{''" "d \<noteq> CHR ''[''" "d \<noteq> CHR 0x22" "\<not> is_space d"
      "d \<noteq> CHR ''n''" "d \<noteq> CHR ''t''" "d \<noteq> CHR ''f''"
    by (auto simp: is_digit_def is_space_def)
  then show "parse_value n (json_int i @ c # r) = Some (JNum (Itoa i), c # r)"
    using n lex by (cases n) (simp_all add: json_int_def dd skip_space_def HasPrefix_def)
qed

lemma ParseInt_Itoa: "- (2 ^ 63) \<le> i \<Longrightarrow> i < 2 ^ 63 \<Longrightarrow> ParseInt (Itoa i) = Some i"
proof -
  obtain d ds where nn: "nat_digits (nat \<bar>i\<bar>) = d # ds"
    using nat_digits_facts [of "nat \<bar>i\<bar>"] by (cases "nat_digits (nat \<bar>i\<bar>)") auto
  then have "d \<noteq> CHR ''-''"
    using nat_digits_facts [of "nat \<bar>i\<bar>"] digit_not_minus by simp
  then show "- (2 ^ 63) \<le> i \<Longrightarrow> i < 2 ^ 63 \<Longrightarrow> ?thesis"
    using nat_digits_facts [of "nat \<bar>i\<bar>"] nn
    by (auto simp: ParseInt_def Itoa_def Let_def)
qed

section \<open>Arrays and objects\<close>

lemma parse_member:
  assumes "ascii k" and "prints d v j" and "d \<le> n" and "c \<in> {CHR '','', CHR ''}''}"
  shows "parse_members (Suc n) (json_string k @ CHR '':'' # v @ c # u) =
     (if c = CHR ''}'' then Some ([(k, j)], u) else map_option (\<lambda>(ms, w). ((k, j) # ms, w)) (parse_members n u))"
  using assms printsD [OF assms(2,3), of c u]
  by (auto simp: json_string_def skip_space_def is_space_def unquote_escape_string)

lemma parse_members_fields:
  assumes "\<forall>(k, v, j) \<in> set fs. ascii k \<and> prints d v j" and "fs \<noteq> []" and "d + length fs \<le> n"
  shows "parse_members n (strings_Join (map (\<lambda>(k, v, j). json_string k @ '':'' @ v) fs) '','' @ CHR ''}'' # r)
     = Some (map (\<lambda>(k, v, j). (k, j)) fs, r)"
  using assms
proof (induction fs arbitrary: n)
  case (Cons f fs)
  obtain k v j where f: "f = (k, v, j)" by (cases f)
  obtain m where m: "n = Suc m" "d + length fs \<le> m" using Cons.prems(3) by (cases n) auto
  have kv: "ascii k" "prints d v j" "d \<le> m" using Cons.prems(1) m by (auto simp: f)
  show ?case
  proof (cases fs)
    case Nil
    then show ?thesis
      using parse_member [OF kv, of "CHR ''}''" r] by (simp add: f m)
  next
    case (Cons g gs)
    then have "parse_members m (strings_Join (map (\<lambda>(k, v, j). json_string k @ '':'' @ v) fs) '','' @ CHR ''}'' # r)
       = Some (map (\<lambda>(k, v, j). (k, j)) fs, r)"
      using Cons.prems m Cons.IH [of m] by (auto simp: f)
    then show ?thesis
      using parse_member [OF kv, of "CHR '',''"] by (simp add: f m Cons)
  qed
qed simp

lemma parse_object:
  assumes "\<forall>(k, v, j) \<in> set fs. ascii k \<and> prints d v j" and "fs \<noteq> []" and "d + length fs < n"
  shows "parse_value n (json_object (map (\<lambda>(k, v, j). (k, v)) fs) @ r)
     = Some (JObj (map (\<lambda>(k, v, j). (k, j)) fs), r)"
proof -
  obtain m where m: "n = Suc m" "d + length fs \<le> m" using assms(3) by (cases n) auto
  have fm: "map ((\<lambda>(k, v). json_string k @ CHR '':'' # v) \<circ> (\<lambda>(k, v, j). (k, v))) fs
     = map (\<lambda>(k, v, j). json_string k @ CHR '':'' # v) fs"
    by auto
  obtain u where u: "strings_Join (map (\<lambda>(k, v, j). json_string k @ CHR '':'' # v) fs) '','' = CHR 0x22 # u"
    using assms(2) by (cases fs; cases "tl fs") (auto simp: json_string_def split: prod.splits)
  show ?thesis
    using parse_members_fields [OF assms(1,2) m(2), of r]
    by (simp add: json_object_def fm u m skip_space_def is_space_def)
qed

lemma prints_object:
  assumes "\<forall>(k, v, j) \<in> set fs. ascii k \<and> prints d v j" and "fs \<noteq> []"
  shows "prints (Suc (d + length fs)) (json_object (map (\<lambda>(k, v, j). (k, v)) fs))
    (JObj (map (\<lambda>(k, v, j). (k, j)) fs))"
  using parse_object [OF assms] by (simp add: prints_def)

lemma parse_string_elements:
  assumes "list_all ascii ss" and "ss \<noteq> []" and "length ss < n"
  shows "parse_elements n (strings_Join (map json_string ss) '','' @ CHR '']'' # r) = Some (map JStr ss, r)"
  using assms
proof (induction ss arbitrary: n)
  case (Cons s ss)
  obtain m where m: "n = Suc m" "1 \<le> m" "length ss < m" using Cons.prems(3) by (cases n) auto
  have p: "parse_value m (json_string s @ c # u) = Some (JStr s, c # u)"
    if "c \<in> {CHR '','', CHR '']''}" for c u
    using Cons.prems(1) m that by (intro printsD [OF prints_string]) auto
  show ?case
    using Cons p m by (cases ss) (auto simp: skip_space_def is_space_def)
qed simp

lemma prints_strings:
  assumes "list_all ascii ss"
  shows "prints (length ss + 2) (json_strings ss) (if ss = [] then JNull else JArr (map JStr ss))"
  unfolding prints_def
proof (intro allI impI)
  fix n :: nat and c r
  assume n: "length ss + 2 \<le> n"
  then obtain m where m: "n = Suc m" "length ss < m" by (cases n) auto
  show "parse_value n (json_strings ss @ c # r) = Some (if ss = [] then JNull else JArr (map JStr ss), c # r)"
  proof (cases "ss = []")
    case True
    then show ?thesis by (simp add: json_strings_def m skip_space_def is_space_def HasPrefix_def)
  next
    case False
    then obtain u where u: "strings_Join (map json_string ss) '','' = CHR 0x22 # u"
      by (cases ss; cases "tl ss") (auto simp: json_string_def)
    show ?thesis
      using parse_string_elements [OF assms False m(2), of "c # r"] False
      by (simp add: json_strings_def u m skip_space_def is_space_def)
  qed
qed

lemma decode_field_simps:
  "decode_field dec name [] z = Some z"
  "decode_field dec name ((k, v) # ms) z =
     (if fold_name k = fold_name name \<and> v \<noteq> JNull
      then (case dec v of None \<Rightarrow> None | Some x \<Rightarrow> decode_field dec name ms x)
      else decode_field dec name ms z)"
proof -
  have n: "fold (\<lambda>v acc. case acc of None \<Rightarrow> None | Some _ \<Rightarrow> dec v) vs None = None" for vs
    by (induction vs) auto
  show "decode_field dec name [] z = Some z"
    by (simp add: decode_field_def members_of_def)
  show "decode_field dec name ((k, v) # ms) z =
     (if fold_name k = fold_name name \<and> v \<noteq> JNull
      then (case dec v of None \<Rightarrow> None | Some x \<Rightarrow> decode_field dec name ms x)
      else decode_field dec name ms z)"
    by (auto simp: decode_field_def members_of_def n split: option.splits)
qed

lemmas prints_atoms = prints_string [unfolded One_nat_def] prints_int [unfolded One_nat_def]
  prints_bool [unfolded One_nat_def]

section \<open>The payloads a replay reads back\<close>

text \<open>A Go string the JSON encoding keeps (the proof covers ASCII) and a 64-bit number.\<close>

definition plain_request :: "ApplyRequest \<Rightarrow> bool" where
  "plain_request req \<longleftrightarrow> ascii (ar_Project req) \<and> ascii (ar_Branch req) \<and> ascii (ar_Subdomain req)
     \<and> ascii (ar_ArtifactRef req) \<and> - (2 ^ 63) \<le> ar_PRNumber req \<and> ar_PRNumber req < 2 ^ 63"

definition plain_event :: "Event \<Rightarrow> bool" where
  "plain_event ev \<longleftrightarrow> ascii (pe_Kind ev) \<and> ascii (pe_Project ev) \<and> ascii (pe_Branch ev)
     \<and> ascii (pe_Artifact ev) \<and> list_all ascii (pe_Labels ev)
     \<and> - (2 ^ 63) \<le> pe_PRNumber ev \<and> pe_PRNumber ev < 2 ^ 63"

lemma fold_name_simps [simp]:
  "fold_name [] = []" "fold_name (c # s) = (if is_upper c then char_of (byte c + (32::nat)) else c) # fold_name s"
  by (simp_all add: fold_name_def)

lemma parse_json_object:
  assumes "\<forall>(k, v, j) \<in> set fs. ascii k \<and> prints d v j" and "fs \<noteq> []"
    and "d + length fs < 2 * length (json_object (map (\<lambda>(k, v, j). (k, v)) fs)) + 2"
  shows "parse_json (json_object (map (\<lambda>(k, v, j). (k, v)) fs)) = Some (JObj (map (\<lambda>(k, v, j). (k, j)) fs))"
  using parse_object [OF assms, of "[]"] by (simp add: parse_json_def skip_space_def)

text \<open>
  An apply request survives the inbox. For every request whose strings are ASCII and whose
  number fits 64 bits, the payload \<open>Apply\<close> persists decodes to the same request on replay,
  whatever quotes, control characters or markup the strings hold.
\<close>

theorem apply_payload_round_trip:
  assumes "plain_request req"
  shows "unmarshalApplyPayload (marshalApplyPayload req) = Inr req"
proof -
  let ?fs = "[(''project'', json_string (ar_Project req), JStr (ar_Project req)),
      (''branch'', json_string (ar_Branch req), JStr (ar_Branch req)),
      (''pr_number'', json_int (ar_PRNumber req), JNum (Itoa (ar_PRNumber req))),
      (''subdomain'', json_string (ar_Subdomain req), JStr (ar_Subdomain req)),
      (''artifact_ref'', json_string (ar_ArtifactRef req), JStr (ar_ArtifactRef req))]"
  have fs: "\<forall>(k, v, j) \<in> set ?fs. ascii k \<and> prints 1 v j"
    using assms by (simp add: plain_request_def prints_atoms)
  have "1 + length ?fs < 2 * length (json_object (map (\<lambda>(k, v, j). (k, v)) ?fs)) + 2"
    by (simp add: json_object_def json_string_def)
  from parse_json_object [OF fs _ this]
  have "parse_json (marshalApplyPayload req) = Some (JObj (map (\<lambda>(k, v, j). (k, j)) ?fs))"
    by (simp add: marshalApplyPayload_def)
  moreover have "ParseInt (Itoa (ar_PRNumber req)) = Some (ar_PRNumber req)"
    using assms by (intro ParseInt_Itoa) (simp_all add: plain_request_def)
  ultimately show ?thesis
    by (simp add: unmarshalApplyPayload_def unmarshal_struct_def decode_apply_def decode_field_simps is_upper_def)
qed

theorem apply_payload_round_trip_witness:
  "unmarshalApplyPayload (marshalApplyPayload
     \<lparr>ar_Project = ''acme/web'', ar_Branch = [CHR 0x22, CHR 0x0A, CHR ''<''], ar_PRNumber = 7,
      ar_Subdomain = ''x'', ar_ArtifactRef = ''img:1''\<rparr>)
   = Inr \<lparr>ar_Project = ''acme/web'', ar_Branch = [CHR 0x22, CHR 0x0A, CHR ''<''], ar_PRNumber = 7,
      ar_Subdomain = ''x'', ar_ArtifactRef = ''img:1''\<rparr>"
  by (rule apply_payload_round_trip) (simp add: plain_request_def)

lemma those_strings: "those (map element_string (map JStr ss)) = Some ss"
  by (induction ss) (simp_all add: element_string_def)

lemma length_json_strings: "length ss \<le> length (json_strings ss)"
proof -
  have "length ss \<le> length (strings_Join (map json_string ss) '','')" for ss
    by (induction ss rule: induct_list012) (auto simp: json_string_def)
  from this [of ss] show ?thesis by (simp add: json_strings_def)
qed

text \<open>The members of the webhook payload, and what they are read as.\<close>

definition event_members :: "Event \<Rightarrow> (string \<times> string \<times> json) list" where
  "event_members ev =
     [(''Kind'', json_string (pe_Kind ev), JStr (pe_Kind ev)),
      (''Project'', json_string (pe_Project ev), JStr (pe_Project ev)),
      (''Branch'', json_string (pe_Branch ev), JStr (pe_Branch ev)),
      (''PRNumber'', json_int (pe_PRNumber ev), JNum (Itoa (pe_PRNumber ev))),
      (''Artifact'', json_string (pe_Artifact ev), JStr (pe_Artifact ev)),
      (''Labels'', json_strings (pe_Labels ev), if pe_Labels ev = [] then JNull else JArr (map JStr (pe_Labels ev))),
      (''LabelsKnown'', json_bool (pe_LabelsKnown ev), JBool (pe_LabelsKnown ev))]"

lemma event_members_print:
  assumes "plain_event ev"
  shows "\<forall>(k, v, j) \<in> set (event_members ev). ascii k \<and> prints (length (pe_Labels ev) + 2) v j"
proof -
  have s: "prints (length (pe_Labels ev) + 2) (json_string x) (JStr x)" if "ascii x" for x
    using that by (intro prints_mono [OF prints_string]) simp_all
  have i: "prints (length (pe_Labels ev) + 2) (json_int x) (JNum (Itoa x))" for x
    by (rule prints_mono [OF prints_int]) simp
  have b: "prints (length (pe_Labels ev) + 2) (json_bool x) (JBool x)" for x
    by (rule prints_mono [OF prints_bool]) simp
  have l: "prints (length (pe_Labels ev) + 2) (json_strings (pe_Labels ev))
      (if pe_Labels ev = [] then JNull else JArr (map JStr (pe_Labels ev)))"
    using assms by (intro prints_strings) (simp add: plain_event_def)
  show ?thesis
    using assms s i b l unfolding plain_event_def event_members_def
    by (simp del: add_2_eq_Suc add_2_eq_Suc')
qed

lemma decode_event_members:
  assumes "plain_event ev"
  shows "decode_event (map (\<lambda>(k, v, j). (k, j)) (event_members ev)) = Some ev"
proof -
  have n: "ParseInt (Itoa (pe_PRNumber ev)) = Some (pe_PRNumber ev)"
    using assms by (intro ParseInt_Itoa) (simp_all add: plain_event_def)
  have l: "those (map (\<lambda>x. element_string (JStr x)) (pe_Labels ev)) = Some (pe_Labels ev)"
    using those_strings [of "pe_Labels ev"] by (simp add: comp_def)
  show ?thesis
    using n l by (cases "pe_Labels ev = []")
      (simp_all add: decode_event_def event_members_def decode_field_simps is_upper_def comp_def)
qed

text \<open>
  A webhook event survives the durable inbox: for every normalized event whose strings are
  ASCII, whatever its labels, the payload stored before the delivery is acknowledged decodes
  to the same event when the worker processes it.
\<close>

theorem webhook_payload_round_trip:
  assumes "plain_event ev"
  shows "UnmarshalWebhookPayload (MarshalWebhookPayload ev) = Inr ev"
proof -
  let ?d = "length (pe_Labels ev) + 2"
  let ?fs = "[(''event'', json_event ev, JObj (map (\<lambda>(k, v, j). (k, j)) (event_members ev)))]"
  have je: "json_event ev = json_object (map (\<lambda>(k, v, j). (k, v)) (event_members ev))"
    by (simp add: json_event_def event_members_def)
  have "prints (Suc (?d + length (event_members ev))) (json_event ev)
      (JObj (map (\<lambda>(k, v, j). (k, j)) (event_members ev)))"
    unfolding je by (rule prints_object [OF event_members_print [OF assms]]) (simp add: event_members_def)
  then have fs: "\<forall>(k, v, j) \<in> set ?fs. ascii k \<and> prints (Suc (?d + length (event_members ev))) v j"
    by simp
  have "Suc (?d + length (event_members ev)) + length ?fs < 2 * length (json_object (map (\<lambda>(k, v, j). (k, v)) ?fs)) + 2"
    using length_json_strings [of "pe_Labels ev"]
    by (simp add: je event_members_def json_object_def json_string_def)
  from parse_json_object [OF fs _ this]
  have "parse_json (MarshalWebhookPayload ev) = Some (JObj (map (\<lambda>(k, v, j). (k, j)) ?fs))"
    by (simp add: MarshalWebhookPayload_def)
  then show ?thesis
    using decode_event_members [OF assms]
    by (simp add: UnmarshalWebhookPayload_def unmarshal_struct_def decode_field_simps decode_event_value_def)
qed

theorem webhook_payload_round_trip_witness:
  "UnmarshalWebhookPayload (MarshalWebhookPayload
     (empty_Event\<lparr>pe_Kind := ''pr_synchronized'', pe_Labels := [''preview'', [CHR 0x22]], pe_PRNumber := -3\<rparr>))
   = Inr (empty_Event\<lparr>pe_Kind := ''pr_synchronized'', pe_Labels := [''preview'', [CHR 0x22]], pe_PRNumber := -3\<rparr>)"
  by (rule webhook_payload_round_trip) (simp add: plain_event_def empty_Event_def)

end
