(* ===== verification/Admission_Policy.thy ===== *)
theory Admission_Policy
  imports Provider_Api Glob_Match
begin

text \<open>
  \<open>internal/core/policy/policy.go\<close>: which webhook events may create or update an
  environment. Strings are bytes; \<open>EqualFold\<close> folds the ASCII letters and compares every other
  byte as it is, which is \<open>strings.EqualFold\<close> on labels written in ASCII.
\<close>

record Policy =
  po_PROnly :: bool
  po_AllowBranches :: "string list"
  po_DenyBranches :: "string list"
  po_RequiredLabels :: "string list"

record Decision =
  Allowed :: bool
  Reason :: string

definition allowed :: Decision where
  "allowed = \<lparr>Allowed = True, Reason = []\<rparr>"

definition denied :: "string \<Rightarrow> Decision" where
  "denied reason = \<lparr>Allowed = False, Reason = reason\<rparr>"

definition fold_byte :: "char \<Rightarrow> char" where
  "fold_byte c = (if is_upper c then char_of (byte c + 32) else c)"

definition EqualFold :: "string \<Rightarrow> string \<Rightarrow> bool" where
  "EqualFold s t \<longleftrightarrow> map fold_byte s = map fold_byte t"

definition matches :: "string \<Rightarrow> string \<Rightarrow> bool" where
  "matches pattern branch =
     (if HasSuffix pattern ''/**'' then HasPrefix branch (TrimSuffix pattern ''**'')
      else if pattern = ''**'' then True
      else (case path_Match pattern branch of None \<Rightarrow> False | Some ok \<Rightarrow> ok))"

fun matchesAny :: "string list \<Rightarrow> string \<Rightarrow> bool" where
  "matchesAny [] branch = False"
| "matchesAny (pattern # patterns) branch =
     (if matches pattern branch then True else matchesAny patterns branch)"

text \<open>The inner loop of \<open>hasAny\<close>, over the labels the request has.\<close>

fun hasLabel :: "string \<Rightarrow> string list \<Rightarrow> bool" where
  "hasLabel w [] = False"
| "hasLabel w (h # have) = (if EqualFold w h then True else hasLabel w have)"

fun hasAny :: "string list \<Rightarrow> string list \<Rightarrow> bool" where
  "hasAny [] have = False"
| "hasAny (w # want) have = (if hasLabel w have then True else hasAny want have)"

text \<open>The rules after the loop over the deny patterns.\<close>

definition decide_allow :: "Policy \<Rightarrow> Event \<Rightarrow> Decision" where
  "decide_allow p ev =
     (if po_AllowBranches p \<noteq> [] \<and> \<not> matchesAny (po_AllowBranches p) (pe_Branch ev) then
        denied (''skipped: branch '' @ Quote (pe_Branch ev) @ '' matches no allow pattern (''
          @ strings_Join (po_AllowBranches p) '', '' @ '')'')
      else if po_RequiredLabels p \<noteq> [] \<and> pe_LabelsKnown ev \<and> \<not> hasAny (po_RequiredLabels p) (pe_Labels ev) then
        denied (''skipped: pull request carries none of the required labels (''
          @ strings_Join (po_RequiredLabels p) '', '' @ '')'')
      else allowed)"

text \<open>The loop over the deny patterns.\<close>

fun decide_deny :: "Policy \<Rightarrow> Event \<Rightarrow> string list \<Rightarrow> Decision" where
  "decide_deny p ev [] = decide_allow p ev"
| "decide_deny p ev (pattern # patterns) =
     (if matches pattern (pe_Branch ev) then
        denied (''skipped: branch '' @ Quote (pe_Branch ev) @ '' matches deny pattern '' @ Quote pattern)
      else decide_deny p ev patterns)"

definition Decide :: "Policy \<Rightarrow> Event \<Rightarrow> Decision" where
  "Decide p ev =
     (if po_PROnly p \<and> pe_PRNumber ev = 0 then
        denied ''skipped: pr_only is set and this event has no pull request''
      else decide_deny p ev (po_DenyBranches p))"

section \<open>Facts\<close>

lemma Allowed_simps [simp]: "Allowed allowed" "\<not> Allowed (denied r)" "Reason allowed = []"
  "Reason (denied r) = r"
  by (simp_all add: allowed_def denied_def)

lemma matchesAny_iff: "matchesAny ps b \<longleftrightarrow> (\<exists>p \<in> set ps. matches p b)"
  by (induction ps) auto

lemma hasLabel_iff: "hasLabel w have \<longleftrightarrow> (\<exists>h \<in> set have. EqualFold w h)"
  by (induction "have") auto

lemma hasAny_iff: "hasAny want have \<longleftrightarrow> (\<exists>w \<in> set want. \<exists>h \<in> set have. EqualFold w h)"
  by (induction want) (auto simp: hasLabel_iff)

lemma decide_deny_allowed:
  "Allowed (decide_deny p ev ps) \<longleftrightarrow> \<not> matchesAny ps (pe_Branch ev) \<and> Allowed (decide_allow p ev)"
  by (induction ps) auto

lemma decide_allow_reason: "Reason (decide_allow p ev) = [] \<longleftrightarrow> Allowed (decide_allow p ev)"
  by (simp add: decide_allow_def)

lemma decide_deny_reason: "Reason (decide_deny p ev ps) = [] \<longleftrightarrow> Allowed (decide_deny p ev ps)"
  by (induction ps) (auto simp: decide_allow_reason)

lemma Decide_reason: "Reason (Decide p ev) = [] \<longleftrightarrow> Allowed (Decide p ev)"
  by (simp add: Decide_def decide_deny_reason)

lemma Decide_allowed:
  "Allowed (Decide p ev) \<longleftrightarrow>
     (po_PROnly p \<longrightarrow> pe_PRNumber ev \<noteq> 0)
     \<and> \<not> matchesAny (po_DenyBranches p) (pe_Branch ev)
     \<and> (po_AllowBranches p = [] \<or> matchesAny (po_AllowBranches p) (pe_Branch ev))
     \<and> (po_RequiredLabels p = [] \<or> \<not> pe_LabelsKnown ev \<or> hasAny (po_RequiredLabels p) (pe_Labels ev))"
  by (auto simp: Decide_def decide_deny_allowed decide_allow_def)

lemma TrimSuffix_stars: "TrimSuffix (p @ ''/**'') ''**'' = p @ ''/''"
proof -
  have "p @ ''/**'' = (p @ ''/'') @ ''**''"
    by simp
  then show ?thesis
    by (simp only: TrimSuffix_def HasSuffix_def) simp
qed

lemma matches_stars: "matches (p @ ''/**'') b \<longleftrightarrow> (\<exists>t. b = p @ ''/'' @ t)"
  by (simp add: matches_def TrimSuffix_stars HasSuffix_def HasPrefix_iff)

lemma literal_no_star: "literal p \<Longrightarrow> CHR ''*'' \<notin> set p"
  by (auto simp only: literal_def insert_iff)

lemma literal_no_stars: "literal p \<Longrightarrow> \<not> HasSuffix p ''/**''"
  using literal_no_star [of p] unfolding HasSuffix_iff by force

lemma literal_slash: "literal (p @ ''/'') = literal p"
  by (simp add: literal_def ball_Un)

lemma matches_literal: "literal p \<Longrightarrow> matches p b \<longleftrightarrow> b = p"
  using literal_no_star [of p] by (auto simp: matches_def literal_no_stars path_Match_literal)

lemma HasSuffix_one_star: "\<not> HasSuffix (p @ ''/*'') ''/**''"
proof
  assume "HasSuffix (p @ ''/*'') ''/**''"
  then obtain q where "p @ ''/*'' = q @ ''/**''"
    by (auto simp: HasSuffix_iff)
  from arg_cong [OF this, of rev] show False
    by simp
qed

lemma matches_star:
  "literal p \<Longrightarrow> matches (p @ ''/*'') b \<longleftrightarrow> (\<exists>t. b = p @ ''/'' @ t \<and> CHR ''/'' \<notin> set t)"
  using path_Match_literal_star [of "p @ ''/''" b]
  by (simp add: matches_def HasSuffix_one_star literal_slash)

text \<open>
  An event may produce an environment exactly when it passes the four rules of the
  policy (a pull request where one is demanded, no deny pattern matching the branch, some
  allow pattern matching it when there are any, one of the required labels when the host
  tells the labels), a skipped event always carries a reason for the operator and an
  admitted one never does; the empty policy admits everything, and a deny pattern more
  never admits an event that was skipped.
\<close>

theorem decide_admits_by_the_rules:
  "(Allowed (Decide p ev) \<longleftrightarrow>
      \<not> (po_PROnly p \<and> pe_PRNumber ev = 0)
      \<and> \<not> (\<exists>d \<in> set (po_DenyBranches p). matches d (pe_Branch ev))
      \<and> (po_AllowBranches p = [] \<or> (\<exists>a \<in> set (po_AllowBranches p). matches a (pe_Branch ev)))
      \<and> (po_RequiredLabels p = [] \<or> pe_LabelsKnown ev = False
          \<or> (\<exists>w \<in> set (po_RequiredLabels p). \<exists>h \<in> set (pe_Labels ev). EqualFold w h)))
   \<and> (Reason (Decide p ev) = []) = Allowed (Decide p ev)
   \<and> Allowed (Decide (p\<lparr>po_DenyBranches := d # po_DenyBranches p\<rparr>) ev)
       = (Allowed (Decide p ev) \<and> \<not> matches d (pe_Branch ev))
   \<and> Allowed (Decide \<lparr>po_PROnly = False, po_AllowBranches = [], po_DenyBranches = [],
        po_RequiredLabels = []\<rparr> ev)"
  by (auto simp: Decide_allowed Decide_reason matchesAny_iff hasAny_iff)

text \<open>
  What the branch patterns of the policy mean. For a prefix without special characters
  \<open>p/**\<close> matches every branch below \<open>p\<close> at any depth and \<open>p/*\<close> only those with no further
  slash; a pattern without special characters matches the branch of that name alone, and
  \<open>**\<close> matches every branch.
\<close>

theorem pattern_meaning:
  "literal p \<Longrightarrow>
     matches (p @ ''/**'') b = (\<exists>t. b = p @ ''/'' @ t)
   \<and> matches (p @ ''/*'') b = (\<exists>t. b = p @ ''/'' @ t \<and> CHR ''/'' \<notin> set t)
   \<and> matches p b = (b = p)
   \<and> matches ''**'' b"
  by (simp add: matches_stars matches_star matches_literal) (simp add: matches_def HasSuffix_def)

theorem pattern_meaning_witness:
  "matches ''feat/**'' ''feat/a/b'' \<and> \<not> matches ''feat/*'' ''feat/a/b'' \<and> \<not> matches ''feat'' ''feat/a/b''"
  using pattern_meaning [of "''feat''" "''feat/a/b''"]
  by (simp add: literal_def)

text \<open>
  A malformed pattern (an unclosed character class) matches no branch: as an allow
  pattern it admits nothing, but as a deny pattern it denies nothing, so every branch it was
  meant to keep out is admitted.
\<close>

theorem malformed_deny_pattern_admits:
  "path_Match ''secret/['' ''secret/x'' = None
   \<and> matches ''secret/['' ''secret/x'' = False
   \<and> Allowed (Decide \<lparr>po_PROnly = False, po_AllowBranches = [], po_DenyBranches = [''secret/[''],
        po_RequiredLabels = []\<rparr> (empty_Event\<lparr>pe_Branch := ''secret/x''\<rparr>))
   \<and> \<not> Allowed (Decide \<lparr>po_PROnly = False, po_AllowBranches = [''secret/[''], po_DenyBranches = [],
        po_RequiredLabels = []\<rparr> (empty_Event\<lparr>pe_Branch := ''secret/x''\<rparr>))"
proof -
  have m: "path_Match ''secret/['' ''secret/x'' = None" by code_simp
  then have "\<not> matches ''secret/['' ''secret/x''"
    by (simp add: matches_def HasSuffix_def)
  with m show ?thesis
    by (simp add: Decide_allowed empty_Event_def)
qed

end
