(* ===== verification/Retry_Backoff.thy ===== *)
theory Retry_Backoff
  imports Ramify_System
begin

text \<open>
  The delays of \<open>internal/core/reconciler.go\<close>: \<open>retryDelay\<close> and \<open>fullJitter\<close> for events,
  \<open>applyBackoff\<close> for the attempts of one apply. Arithmetic is on signed 64-bit values; a shift
  by 64 or more, which a negative count converted to \<open>uint\<close> is, gives 0.
\<close>

abbreviation maxApplyAttempts :: int where "maxApplyAttempts \<equiv> 5"
abbreviation maxEventAttempts :: int where "maxEventAttempts \<equiv> 10"
abbreviation defaultReadinessTimeout :: time where "defaultReadinessTimeout \<equiv> 2 * Minute"
abbreviation defaultReadinessPollInterval :: time where "defaultReadinessPollInterval \<equiv> 2 * Second"
abbreviation defaultMaxEventWorkers :: int where "defaultMaxEventWorkers \<equiv> 8"

text \<open>\<open>1 << uint(n)\<close> on \<open>int\<close>.\<close>

definition shift_one :: "int \<Rightarrow> int" where
  "shift_one n = (if n < 0 \<or> n \<ge> 64 then 0 else wrap64 (2 ^ nat n))"

definition retryDelay :: "int \<Rightarrow> time" where
  "retryDelay attempt0 =
     (let attempt = (if attempt0 < 1 then 1 else attempt0);
          d = wrap64 (shift_one (min (attempt - 1) 8) * Second)
      in if d > 5 * Minute then 5 * Minute else d)"

text \<open>\<open>fullJitter\<close> draws from the process-wide generator.\<close>

definition fullJitter :: "'w runtime \<Rightarrow> time \<Rightarrow> ('w, time) state" where
  "fullJitter rt d =
     (if d \<le> 0 then ret 0
      else (let half = d div 2
            in do { x \<leftarrow> rt_Int64N rt (wrap64 (d - half + 1)); ret (wrap64 (half + x)) }))"

definition applyBackoff :: "int \<Rightarrow> time" where
  "applyBackoff attempt =
     (let d = wrap64 (shift_one (attempt - 2) * Second)
      in if d > 30 * Second then 30 * Second else d)"

section \<open>Facts\<close>

lemma shift_one_small: "0 \<le> n \<Longrightarrow> n \<le> 62 \<Longrightarrow> shift_one n = 2 ^ nat n"
proof -
  assume n: "0 \<le> n" "n \<le> 62"
  then have "(2::int) ^ nat n \<le> 2 ^ 62"
    by (intro power_increasing) auto
  then obtain x :: int where x: "x = 2 ^ nat n" "0 \<le> x" "x \<le> 2 ^ 62"
    by simp
  from x(2,3) have "wrap64 x = x"
    by (intro wrap64_id) simp_all
  with n x(1) show ?thesis
    by (simp add: shift_one_def)
qed

lemma shifted_seconds:
  assumes "0 \<le> n" and "n \<le> 33"
  shows "wrap64 (shift_one n * Second) = 2 ^ nat n * Second"
proof -
  have "(2::int) ^ nat n \<le> 2 ^ 33"
    using assms by (intro power_increasing) auto
  then obtain x :: int where x: "x = 2 ^ nat n" "0 \<le> x" "x \<le> 2 ^ 33"
    by simp
  from x(2,3) have "wrap64 (x * Second) = x * Second"
    by (intro wrap64_id) simp_all
  with assms x(1) show ?thesis
    by (simp add: shift_one_small)
qed

lemma retryDelay_eq:
  "retryDelay a = min (5 * Minute) (2 ^ nat (min (max a 1 - 1) 8) * Second)"
  by (simp add: retryDelay_def Let_def shifted_seconds max_def min_def)

lemma retryDelay_mono: "a \<le> b \<Longrightarrow> retryDelay a \<le> retryDelay b"
  unfolding retryDelay_eq
  by (intro min.mono order_refl mult_right_mono power_increasing nat_mono) auto

lemma power2_ge1: "(1::int) \<le> 2 ^ n"
  by simp

lemma retryDelay_bounds: "1 * Second \<le> retryDelay a \<and> retryDelay a \<le> 256 * Second"
proof -
  have "(2::int) ^ nat (min (max a 1 - 1) 8) \<le> 2 ^ 8"
    by (intro power_increasing) auto
  then show ?thesis
    using power2_ge1 [of "nat (min (max a 1 - 1) 8)"] by (simp add: retryDelay_eq)
qed

lemma applyBackoff_eq:
  "2 \<le> a \<Longrightarrow> a \<le> 35 \<Longrightarrow> applyBackoff a = min (30 * Second) (2 ^ nat (a - 2) * Second)"
  by (simp add: applyBackoff_def Let_def shifted_seconds min_def)

text \<open>
  The back-off between event attempts. The delay never shrinks as attempts go up, starts
  at one second for the first attempt (and for any count below it), doubles up to the ninth and
  stays at 256 seconds from then on, since the shift is limited to 8; the five-minute cap of
  the code is never reached, and nothing overflows, whatever the count.
\<close>

theorem retry_delay_curve:
  "1 * Second \<le> retryDelay a \<and> retryDelay a \<le> 256 * Second
   \<and> retryDelay (min a b) \<le> retryDelay (max a b)
   \<and> map retryDelay [-1, 0, 1, 2, 3, 4, 5, 6, 7, 8, 9]
       = map ((*) Second) [1, 1, 1, 2, 4, 8, 16, 32, 64, 128, 256]
   \<and> retryDelay (max 9 a) = 256 * Second"
proof -
  have "retryDelay (min a b) \<le> retryDelay (max a b)"
    by (rule retryDelay_mono) simp
  moreover have "retryDelay (max 9 a) = 256 * Second"
    by (simp add: retryDelay_eq max_def min_def)
  moreover have "map retryDelay [-1, 0, 1, 2, 3, 4, 5, 6, 7, 8, 9]
       = map ((*) Second) [1, 1, 1, 2, 4, 8, 16, 32, 64, 128, 256]"
    by (simp add: retryDelay_eq)
  ultimately show ?thesis
    using retryDelay_bounds [of a] by simp
qed

text \<open>The contract of \<open>rand.Int64N\<close>: for a positive bound, a value from 0 below it.\<close>

definition uniform_law :: "'w runtime \<Rightarrow> bool" where
  "uniform_law rt \<longleftrightarrow>
     (\<forall>n w. 0 < n \<longrightarrow> 0 \<le> fst (run_state (rt_Int64N rt n) w) \<and> fst (run_state (rt_Int64N rt n) w) < n)"

lemma jitter_within:
  assumes "uniform_law rt"
  shows "retryDelay a div 2 \<le> fst (run_state (fullJitter rt (retryDelay a)) w)
     \<and> fst (run_state (fullJitter rt (retryDelay a)) w) \<le> retryDelay a"
proof -
  let ?d = "retryDelay a" and ?h = "retryDelay a div 2"
  have b: "1 * Second \<le> ?d" "?d \<le> 256 * Second"
    using retryDelay_bounds by auto
  then have n: "0 < ?d - ?h + 1" and wn: "wrap64 (?d - ?h + 1) = ?d - ?h + 1"
    by (auto intro!: wrap64_id)
  obtain x w' where x: "run_state (rt_Int64N rt (?d - ?h + 1)) w = (x, w')"
    by (cases "run_state (rt_Int64N rt (?d - ?h + 1)) w")
  then have bx: "0 \<le> x" "x < ?d - ?h + 1"
    using assms n unfolding uniform_law_def by (metis fst_conv)+
  then have "wrap64 (?h + x) = ?h + x"
    using b by (intro wrap64_id) auto
  with b bx show ?thesis
    by (simp add: fullJitter_def Let_def wn x)
qed

text \<open>
  The jittered delay of a failed event lies between half the back-off and the back-off
  itself, for every attempt number: a retry is never earlier than half a second after the
  failure and never later than 256 seconds.
\<close>

theorem jitter_bounds:
  assumes "uniform_law rt"
  shows "retryDelay a div 2 \<le> fst (run_state (fullJitter rt (retryDelay a)) w)
     \<and> fst (run_state (fullJitter rt (retryDelay a)) w) \<le> retryDelay a"
  using jitter_within [OF assms] .

theorem jitter_bounds_witness:
  "retryDelay 3 div 2 \<le> fst (run_state (fullJitter zero_runtime (retryDelay 3)) ())
     \<and> fst (run_state (fullJitter zero_runtime (retryDelay 3)) ()) \<le> retryDelay 3"
  by (rule jitter_bounds) (simp add: uniform_law_def zero_runtime_def)

text \<open>
  The pauses between the attempts of one apply are 1, 2, 4 and 8 seconds, as the comment
  of \<open>applyBackoff\<close> says, and for every attempt number from 2 to 35 the value is the capped
  power of two; from attempt 36 on the product overflows and the pause becomes negative, a
  case the five attempts of the code never reach.
\<close>

theorem apply_backoff_schedule:
  "map applyBackoff [2, 3, 4, 5, 6, 7] = map ((*) Second) [1, 2, 4, 8, 16, 30]
   \<and> applyBackoff (max 2 (min 35 a)) = min (30 * Second) (2 ^ nat (max 2 (min 35 a) - 2) * Second)
   \<and> applyBackoff 36 < 0"
proof -
  have "applyBackoff 36 < 0"
    by (simp add: applyBackoff_def Let_def shift_one_def wrap64_def)
  then show ?thesis
    by (simp add: applyBackoff_eq)
qed

end
