(* ===== verification/Sha256.thy ===== *)
theory Sha256
  imports Go_Strings "HOL-Library.Word"
begin

unbundle bit_operations_syntax

text \<open>
  \<open>crypto/sha256.Sum256\<close> (FIPS 180-4), which the code calls for the suffix of a shortened
  subdomain label, for DNS ownership tags and for object names. Only the facts that the
  digest is 32 bytes long and that its hexadecimal form is made of lower-case hexadecimal
  digits are used by the proofs; the definition itself is executable.
\<close>

type_synonym u32 = "32 word"

definition sha_K :: "u32 list" where
  "sha_K = [
   0x428a2f98, 0x71374491, 0xb5c0fbcf, 0xe9b5dba5, 0x3956c25b, 0x59f111f1, 0x923f82a4, 0xab1c5ed5,
   0xd807aa98, 0x12835b01, 0x243185be, 0x550c7dc3, 0x72be5d74, 0x80deb1fe, 0x9bdc06a7, 0xc19bf174,
   0xe49b69c1, 0xefbe4786, 0x0fc19dc6, 0x240ca1cc, 0x2de92c6f, 0x4a7484aa, 0x5cb0a9dc, 0x76f988da,
   0x983e5152, 0xa831c66d, 0xb00327c8, 0xbf597fc7, 0xc6e00bf3, 0xd5a79147, 0x06ca6351, 0x14292967,
   0x27b70a85, 0x2e1b2138, 0x4d2c6dfc, 0x53380d13, 0x650a7354, 0x766a0abb, 0x81c2c92e, 0x92722c85,
   0xa2bfe8a1, 0xa81a664b, 0xc24b8b70, 0xc76c51a3, 0xd192e819, 0xd6990624, 0xf40e3585, 0x106aa070,
   0x19a4c116, 0x1e376c08, 0x2748774c, 0x34b0bcb5, 0x391c0cb3, 0x4ed8aa4a, 0x5b9cca4f, 0x682e6ff3,
   0x748f82ee, 0x78a5636f, 0x84c87814, 0x8cc70208, 0x90befffa, 0xa4506ceb, 0xbef9a3f7, 0xc67178f2]"

type_synonym sha_state = "u32 \<times> u32 \<times> u32 \<times> u32 \<times> u32 \<times> u32 \<times> u32 \<times> u32"

definition sha_init :: sha_state where
  "sha_init = (0x6a09e667, 0xbb67ae85, 0x3c6ef372, 0xa54ff53a,
               0x510e527f, 0x9b05688c, 0x1f83d9ab, 0x5be0cd19)"

definition be32 :: "nat list \<Rightarrow> u32" where
  "be32 bs = foldl (\<lambda>acc b. push_bit 8 acc OR of_nat b) 0 bs"

fun sha_words :: "nat list \<Rightarrow> u32 list" where
  "sha_words (a # b # c # d # bs) = be32 [a, b, c, d] # sha_words bs"
| "sha_words _ = []"

text \<open>The message schedule, the newest word first.\<close>

fun sha_schedule :: "nat \<Rightarrow> u32 list \<Rightarrow> u32 list" where
  "sha_schedule 0 ws = rev ws"
| "sha_schedule (Suc n) ws =
     (let x15 = ws ! 14; x2 = ws ! 1;
          s0 = word_rotr 7 x15 XOR word_rotr 18 x15 XOR drop_bit 3 x15;
          s1 = word_rotr 17 x2 XOR word_rotr 19 x2 XOR drop_bit 10 x2
      in sha_schedule n ((ws ! 15 + s0 + ws ! 6 + s1) # ws))"

fun sha_round :: "u32 \<times> u32 \<Rightarrow> sha_state \<Rightarrow> sha_state" where
  "sha_round (k, w) (a, b, c, d, e, f, g, h) =
     (let s1 = word_rotr 6 e XOR word_rotr 11 e XOR word_rotr 25 e;
          ch = (e AND f) XOR (NOT e AND g);
          t1 = h + s1 + ch + k + w;
          s0 = word_rotr 2 a XOR word_rotr 13 a XOR word_rotr 22 a;
          maj = (a AND b) XOR (a AND c) XOR (b AND c)
      in (t1 + s0 + maj, a, b, c, d + t1, e, f, g))"

fun sha_add :: "sha_state \<Rightarrow> sha_state \<Rightarrow> sha_state" where
  "sha_add (a, b, c, d, e, f, g, h) (a', b', c', d', e', f', g', h') =
     (a + a', b + b', c + c', d + d', e + e', f + f', g + g', h + h')"

definition sha_block :: "nat list \<Rightarrow> sha_state \<Rightarrow> sha_state" where
  "sha_block bs st =
     sha_add st (fold sha_round (zip sha_K (sha_schedule 48 (rev (sha_words bs)))) st)"

fun sha_blocks :: "nat \<Rightarrow> nat list \<Rightarrow> sha_state \<Rightarrow> sha_state" where
  "sha_blocks 0 bs st = st"
| "sha_blocks (Suc n) bs st = sha_blocks n (drop 64 bs) (sha_block (take 64 bs) st)"

definition be64_bytes :: "nat \<Rightarrow> nat list" where
  "be64_bytes n =
     (let w = (of_nat n :: 64 word)
      in map (\<lambda>i. unat (drop_bit (8 * i) w AND 255)) [7, 6, 5, 4, 3, 2, 1, 0])"

definition sha_pad :: "nat list \<Rightarrow> nat list" where
  "sha_pad bs =
     bs @ [0x80] @ replicate ((119 - length bs mod 64) mod 64) 0 @ be64_bytes (8 * length bs)"

definition word_bytes :: "u32 \<Rightarrow> nat list" where
  "word_bytes w = map (\<lambda>i. unat (drop_bit (8 * i) w AND 255)) [3, 2, 1, 0]"

definition Sum256 :: "string \<Rightarrow> nat list" where
  "Sum256 s =
     (let m = sha_pad (map of_char s)
      in case sha_blocks (length m div 64) m sha_init of
           (a, b, c, d, e, f, g, h) \<Rightarrow> concat (map word_bytes [a, b, c, d, e, f, g, h]))"

lemma length_word_bytes [simp]: "length (word_bytes w) = 4"
  by (simp add: word_bytes_def)

lemma unat_and_255: "unat (w AND 255 :: 'a::len word) \<le> 255"
proof -
  have "unat (w AND 255) \<le> unat (255 :: 'a word)"
    by (rule word_and_le1 [THEN word_le_nat_alt [THEN iffD1]])
  also have "\<dots> \<le> 255"
    by (metis of_nat_numeral unat_of_nat mod_less_eq_dividend)
  finally show ?thesis .
qed

lemma word_bytes_lt: "b \<in> set (word_bytes w) \<Longrightarrow> b < 256"
  by (auto simp: word_bytes_def intro: le_less_trans [OF unat_and_255])

lemma length_Sum256 [simp]: "length (Sum256 s) = 32"
  by (auto simp: Sum256_def Let_def split: prod.splits)

lemma Sum256_lt: "b \<in> set (Sum256 s) \<Longrightarrow> b < 256"
  by (auto simp: Sum256_def Let_def dest!: word_bytes_lt split: prod.splits)

text \<open>The digest in hexadecimal, of which the code takes a prefix.\<close>

lemma hex_digit_is_hex: "d < 16 \<Longrightarrow> is_hex (hex_digit d)"
  by (auto simp: is_hex_def is_digit_def hex_digit_def)

lemma hex_byte_is_hex: "b < 256 \<Longrightarrow> c \<in> set (hex_byte b) \<Longrightarrow> is_hex c"
  by (auto simp: hex_byte_def intro!: hex_digit_is_hex)

lemma EncodeToString_is_hex:
  "(\<And>b. b \<in> set bs \<Longrightarrow> b < 256) \<Longrightarrow> c \<in> set (EncodeToString bs) \<Longrightarrow> is_hex c"
  by (auto simp: EncodeToString_def intro: hex_byte_is_hex)

lemma Sum256_hex: "c \<in> set (EncodeToString (Sum256 s)) \<Longrightarrow> is_hex c"
  by (rule EncodeToString_is_hex) (auto dest: Sum256_lt)

end
