(* ===== verification/Domain_Normalize.thy ===== *)
theory Domain_Normalize
  imports Sha256
begin

text \<open>
  \<open>internal/core/domain/normalize.go\<close>: branch names become DNS labels.

  The model works on the bytes of the branch. \<open>strings.ToLower\<close> is exact for ASCII and for
  the two other characters whose lower case is ASCII (U+0130, bytes \<open>C4 B0\<close>, and the Kelvin
  sign U+212A, bytes \<open>E2 84 AA\<close>); every other byte from \<open>0x80\<close> on belongs to a character that
  lower-casing leaves outside ASCII, which the next step strips whichever it is.
\<close>

definition lower_byte :: "char \<Rightarrow> char" where
  "lower_byte c = (if is_upper c then char_of (byte c + 32) else c)"

fun ToLower :: "string \<Rightarrow> string" where
  "ToLower (a # b # c # s) =
     (if a = CHR 0xE2 \<and> b = CHR 0x84 \<and> c = CHR 0xAA then CHR ''k'' # ToLower s
      else if a = CHR 0xC4 \<and> b = CHR 0xB0 then CHR ''i'' # ToLower (c # s)
      else lower_byte a # ToLower (b # c # s))"
| "ToLower [a, b] =
     (if a = CHR 0xC4 \<and> b = CHR 0xB0 then [CHR ''i''] else [lower_byte a, lower_byte b])"
| "ToLower [a] = [lower_byte a]"
| "ToLower [] = []"

text \<open>\<open>strings.NewReplacer("/", "-", "_", "-")\<close>.\<close>

definition replace_seps :: "string \<Rightarrow> string" where
  "replace_seps s = map (\<lambda>c. if c = CHR ''/'' \<or> c = CHR ''_'' then CHR ''-'' else c) s"

text \<open>\<open>invalidChars.ReplaceAllString(s, "")\<close> for the class \<open>[^a-z0-9-]\<close>.\<close>

definition label_char :: "char \<Rightarrow> bool" where
  "label_char c \<longleftrightarrow> is_lower c \<or> is_digit c \<or> c = CHR ''-''"

definition strip_invalid :: "string \<Rightarrow> string" where
  "strip_invalid s = filter label_char s"

text \<open>\<open>multiDash.ReplaceAllString(s, "-")\<close>.\<close>

fun collapse_dashes :: "string \<Rightarrow> string" where
  "collapse_dashes (a # b # s) =
     (if a = CHR ''-'' \<and> b = CHR ''-'' then collapse_dashes (b # s) else a # collapse_dashes (b # s))"
| "collapse_dashes s = s"

definition shortHash :: "string \<Rightarrow> string" where
  "shortHash s = take 6 (EncodeToString (Sum256 s))"

text \<open>Steps 1 to 4 of \<open>Normalize\<close>, before the length is looked at.\<close>

definition slug :: "string \<Rightarrow> string" where
  "slug branch = Trim (collapse_dashes (strip_invalid (replace_seps (ToLower branch)))) (CHR ''-'')"

definition Normalize :: "string \<Rightarrow> int \<Rightarrow> string" where
  "Normalize branch maxLength =
     (let hash = shortHash branch;
          s = slug branch
      in if s = [] then hash
         else if int (length s) \<le> maxLength then s
         else (let suffix = ''-'' @ hash;
                   truncateTo = maxLength - int (length suffix)
               in if truncateTo \<le> 0 then hash
                  else TrimRight (take (nat truncateTo) s) (CHR ''-'') @ suffix))"

section \<open>What a label is\<close>

text \<open>An RFC 1123 label as far as characters go: no dash at either end, and none doubled.\<close>

fun no_double_dash :: "string \<Rightarrow> bool" where
  "no_double_dash (a # b # s) = (\<not> (a = CHR ''-'' \<and> b = CHR ''-'') \<and> no_double_dash (b # s))"
| "no_double_dash _ = True"

definition dns_label :: "string \<Rightarrow> bool" where
  "dns_label s \<longleftrightarrow> s \<noteq> [] \<and> list_all label_char s \<and> no_double_dash s
     \<and> hd s \<noteq> CHR ''-'' \<and> last s \<noteq> CHR ''-''"

section \<open>Lemmas\<close>

lemma is_hex_label: "is_hex c \<Longrightarrow> label_char c \<and> c \<noteq> CHR ''-''"
  by (auto simp: is_hex_def label_char_def is_lower_def is_digit_def)

lemma length_shortHash [simp]: "length (shortHash s) = 6"
  by (simp add: shortHash_def)

lemma shortHash_hex: "c \<in> set (shortHash s) \<Longrightarrow> is_hex c"
  unfolding shortHash_def by (rule Sum256_hex) (rule in_set_takeD)

lemma no_double_dash_no_dash: "CHR ''-'' \<notin> set s \<Longrightarrow> no_double_dash s"
  by (induction s rule: no_double_dash.induct) auto

lemma no_double_dash_append:
  "no_double_dash s \<Longrightarrow> no_double_dash t \<Longrightarrow> s = [] \<or> t = [] \<or> last s \<noteq> CHR ''-'' \<or> hd t \<noteq> CHR ''-''
    \<Longrightarrow> no_double_dash (s @ t)"
  by (induction s rule: no_double_dash.induct; cases t) auto

lemma no_double_dash_prefix: "no_double_dash (s @ t) \<Longrightarrow> no_double_dash s"
  by (induction s rule: no_double_dash.induct) auto

lemma no_double_dash_suffix: "no_double_dash (s @ t) \<Longrightarrow> no_double_dash t"
proof (induction s)
  case (Cons a s)
  then show ?case by (cases "s @ t") auto
qed simp

lemma no_double_dash_take: "no_double_dash s \<Longrightarrow> no_double_dash (take n s)"
  using no_double_dash_prefix [of "take n s" "drop n s"] by simp

lemma hd_collapse: "s \<noteq> [] \<Longrightarrow> hd (collapse_dashes s) = hd s"
  by (induction s rule: collapse_dashes.induct) auto

lemma collapse_Nil [simp]: "collapse_dashes s = [] \<longleftrightarrow> s = []"
  by (induction s rule: collapse_dashes.induct) auto

lemma no_double_dash_collapse: "no_double_dash (collapse_dashes s)"
proof (induction s rule: collapse_dashes.induct)
  case (1 a b s)
  then show ?case
    using hd_collapse [of "b # s"] by (cases "collapse_dashes (b # s)") auto
qed auto

lemma set_collapse: "set (collapse_dashes s) \<subseteq> set s"
  by (induction s rule: collapse_dashes.induct) auto

lemma set_Trim: "set (Trim s c) \<subseteq> set s"
  unfolding Trim_def using set_TrimRight set_TrimLeft by blast

lemma TrimLeft_hd: "TrimLeft s c \<noteq> [] \<Longrightarrow> hd (TrimLeft s c) \<noteq> c"
  unfolding TrimLeft_def by (metis (mono_tags) hd_dropWhile)

lemma TrimRight_hd: "TrimRight s c \<noteq> [] \<Longrightarrow> hd (TrimRight s c) = hd s"
  by (metis TrimRight_prefix hd_append2)

lemma no_double_dash_TrimRight: "no_double_dash s \<Longrightarrow> no_double_dash (TrimRight s c)"
  by (metis TrimRight_prefix no_double_dash_prefix)

lemma no_double_dash_TrimLeft: "no_double_dash s \<Longrightarrow> no_double_dash (TrimLeft s c)"
  unfolding TrimLeft_def by (metis no_double_dash_suffix takeWhile_dropWhile_id)

lemma slug_chars: "c \<in> set (slug b) \<Longrightarrow> label_char c"
  using set_Trim set_collapse by (fastforce simp: slug_def strip_invalid_def)

lemma slug_label: "slug b \<noteq> [] \<Longrightarrow> dns_label (slug b)"
  unfolding dns_label_def
proof (intro conjI)
  assume ne: "slug b \<noteq> []"
  show "list_all label_char (slug b)"
    by (simp add: list_all_iff slug_chars)
  show "no_double_dash (slug b)"
    by (simp add: slug_def Trim_def no_double_dash_TrimRight no_double_dash_TrimLeft
        no_double_dash_collapse)
  show "hd (slug b) \<noteq> CHR ''-''"
    using ne unfolding slug_def Trim_def
    by (metis TrimLeft_hd TrimRight_hd TrimRight_prefix append_is_Nil_conv)
  show "last (slug b) \<noteq> CHR ''-''"
    using ne unfolding slug_def Trim_def by (rule TrimRight_last)
qed

lemma shortHash_label: "dns_label (shortHash s)"
proof -
  have ne: "shortHash s \<noteq> []"
    by (metis length_shortHash list.size(3) zero_neq_numeral)
  moreover have "CHR ''-'' \<notin> set (shortHash s)"
    using shortHash_hex is_hex_label by blast
  ultimately show ?thesis
    unfolding dns_label_def list_all_iff
    by (metis hd_in_set is_hex_label last_in_set no_double_dash_no_dash shortHash_hex)
qed

lemma truncated_label:
  assumes "dns_label s" and "0 < n"
  shows "dns_label (TrimRight (take n s) (CHR ''-'') @ ''-'' @ shortHash b)"
proof -
  let ?t = "TrimRight (take n s) (CHR ''-'')"
  from assms obtain c s' where s: "s = c # s'" "c \<noteq> CHR ''-''"
    by (cases s) (auto simp: dns_label_def)
  then have "hd (take n s) \<noteq> CHR ''-''" and "take n s \<noteq> []"
    using assms by (cases n; simp)+
  then have tne: "?t \<noteq> []"
    by (metis TrimRight_prefix append_Nil hd_replicate replicate_empty)
  have hd: "hd ?t \<noteq> CHR ''-''"
    using tne \<open>hd (take n s) \<noteq> CHR ''-''\<close> by (simp add: TrimRight_hd)
  have sub: "set ?t \<subseteq> set s"
    using set_TrimRight set_take_subset by fastforce
  have h: "dns_label (shortHash b)"
    by (rule shortHash_label)
  have dd: "no_double_dash (''-'' @ shortHash b)"
    by (rule no_double_dash_append) (use h in \<open>auto simp: dns_label_def\<close>)
  have "no_double_dash (?t @ ''-'' @ shortHash b)"
    by (rule no_double_dash_append)
      (use assms dd tne TrimRight_last in
        \<open>auto simp: dns_label_def intro!: no_double_dash_TrimRight no_double_dash_take\<close>)
  moreover have "list_all label_char (?t @ ''-'' @ shortHash b)"
    using assms(1) sub h by (auto simp: dns_label_def list_all_iff label_char_def)
  ultimately show ?thesis
    using tne hd h by (simp add: dns_label_def)
qed

text \<open>
  Whatever the branch name, the subdomain \<open>Normalize\<close> derives from it is a DNS label: it
  is not empty, holds only lower-case letters, digits and single inner dashes, starts and
  ends with neither, and is no longer than the limit, as soon as the limit leaves room for
  the six hexadecimal digits of the fallback (the code calls it with 63 and 56).
\<close>

theorem normalize_is_dns_label:
  "dns_label (Normalize branch maxLength)
   \<and> int (length (Normalize branch maxLength)) \<le> max 6 maxLength"
proof -
  have len: "length (TrimRight (take (nat (maxLength - 7)) (slug branch)) (CHR ''-'')) \<le> nat (maxLength - 7)"
    by (rule order_trans [OF length_TrimRight]) simp
  have "length (''-'' @ shortHash branch) = 7"
    by simp
  then show ?thesis
    using len shortHash_label slug_label truncated_label
    by (auto simp: Normalize_def Let_def)
qed

end
