(* ===== verification/Reconciler_Model.thy ===== *)
theory Reconciler_Model
  imports Sqlite_Store Event_Payload Admission_Policy Retry_Backoff Domain_Normalize Sha256
begin

text \<open>
  \<open>internal/core/reconciler.go\<close>: the operations that drive an environment to its desired
  state. Each definition is the method of the same name; logging is left out, and a Go
  method that returns a value with an error is a sum, except \<open>attemptApply\<close>, whose caller
  uses the environment it returns also when it fails.

  \<open>rc_fuel\<close> is no field of the Go struct: it bounds the iterations of the polling loop of
  \<open>waitUntilHealthy\<close>, and running out of it is the error \<open>Diverges\<close>.
\<close>

text \<open>\<open>Clock\<close> of \<open>clock.go\<close>, and the real one, over what the \<open>time\<close> package does.\<close>

record 'w Clock =
  ck_Now :: "('w, time) state"
  ck_Sleep :: "time \<Rightarrow> ('w, unit) state"

definition NewRealClock :: "('w, time) state \<Rightarrow> (time \<Rightarrow> ('w, unit) state) \<Rightarrow> 'w Clock" where
  "NewRealClock time_Now time_Sleep = \<lparr>ck_Now = time_Now, ck_Sleep = time_Sleep\<rparr>"

record 'w Reconciler =
  rc_store :: "'w runtime"
  rc_deploy :: "'w DeployProvider"
  rc_dns :: "'w DNSProvider"
  rc_cert :: "'w CertificateProvider"
  rc_notify :: "'w NotifierProvider"
  rc_Now :: "('w, time) state"
  rc_clock_Sleep :: "time \<Rightarrow> ('w, unit) state"
  rc_ctx_Err :: "('w, error option) state"
  rc_baseDomain :: string
  rc_defaultTTL :: time
  rc_policy :: Policy
  rc_maxConcurrent :: int
  rc_jitter :: "time \<Rightarrow> ('w, time) state"
  rc_readinessTimeout :: time
  rc_readinessPollInterval :: time
  rc_maxEventWorkers :: int
  rc_fuel :: nat

section \<open>Construction\<close>

definition WithAdmission :: "Policy \<Rightarrow> int \<Rightarrow> 'w Reconciler \<Rightarrow> 'w Reconciler" where
  "WithAdmission p maxConcurrent r = r\<lparr>rc_policy := p, rc_maxConcurrent := maxConcurrent\<rparr>"

definition WithReadiness :: "time \<Rightarrow> time \<Rightarrow> 'w Reconciler \<Rightarrow> 'w Reconciler" where
  "WithReadiness timeout pollInterval r =
     (let r1 = (if timeout > 0 then r\<lparr>rc_readinessTimeout := timeout\<rparr> else r)
      in if pollInterval > 0 then r1\<lparr>rc_readinessPollInterval := pollInterval\<rparr> else r1)"

definition WithEventConcurrency :: "int \<Rightarrow> 'w Reconciler \<Rightarrow> 'w Reconciler" where
  "WithEventConcurrency maxWorkers r =
     (if maxWorkers > 0 then r\<lparr>rc_maxEventWorkers := maxWorkers\<rparr> else r)"

definition NewReconciler ::
  "'w runtime \<Rightarrow> 'w DeployProvider \<Rightarrow> 'w DNSProvider \<Rightarrow> 'w CertificateProvider
   \<Rightarrow> 'w NotifierProvider \<Rightarrow> 'w Clock \<Rightarrow> ('w, error option) state
   \<Rightarrow> string \<Rightarrow> time \<Rightarrow> nat \<Rightarrow> ('w Reconciler \<Rightarrow> 'w Reconciler) list \<Rightarrow> 'w Reconciler" where
  "NewReconciler st deploy dns cert notify clock ctx_err baseDomain defaultTTL fuel opts =
     fold (\<lambda>opt r. opt r) opts
       \<lparr>rc_store = st, rc_deploy = deploy, rc_dns = dns, rc_cert = cert, rc_notify = notify,
        rc_Now = ck_Now clock, rc_clock_Sleep = ck_Sleep clock, rc_ctx_Err = ctx_err, rc_baseDomain = baseDomain,
        rc_defaultTTL = defaultTTL,
        rc_policy = \<lparr>po_PROnly = False, po_AllowBranches = [], po_DenyBranches = [], po_RequiredLabels = []\<rparr>,
        rc_maxConcurrent = 0, rc_jitter = fullJitter st,
        rc_readinessTimeout = defaultReadinessTimeout,
        rc_readinessPollInterval = defaultReadinessPollInterval,
        rc_maxEventWorkers = defaultMaxEventWorkers, rc_fuel = fuel\<rparr>"

definition OwnershipTag :: "string \<Rightarrow> string \<Rightarrow> string" where
  "OwnershipTag project branch =
     ''ramify-'' @ take 16 (EncodeToString (Sum256 (project @ ''/'' @ branch)))"

definition fqdn :: "'w Reconciler \<Rightarrow> string \<Rightarrow> string" where
  "fqdn r subdomain = subdomain @ ''.'' @ rc_baseDomain r"

section \<open>Locks and the result of a Go call\<close>

definition lock_key :: "string \<Rightarrow> string \<Rightarrow> string" where
  "lock_key project branch = project @ [CHR 0x00] @ branch"

text \<open>\<open>unlock := r.lock(project, branch); defer unlock()\<close> around a body.\<close>

definition with_lock :: "string \<Rightarrow> string \<Rightarrow> ('w sys, 'a) state \<Rightarrow> ('w sys, 'a) state" where
  "with_lock project branch m = do {
     log_call (Locked (lock_key project branch));
     x \<leftarrow> m;
     log_call (Unlocked (lock_key project branch));
     ret x }"

definition ignore :: "('w sys, 'a) state \<Rightarrow> ('w sys, unit) state" where
  "ignore m = do { _ \<leftarrow> m; ret () }"

definition notify :: "'w Reconciler \<Rightarrow> string \<Rightarrow> int \<Rightarrow> NotifyEvent \<Rightarrow> ('w sys, unit) state" where
  "notify r project prNumber ev =
     ignore (provider_call (\<lambda>_. Notified project prNumber ev) (np_Notify (rc_notify r) project prNumber ev))"

section \<open>Retry bookkeeping\<close>

definition markProcessed :: "'w Reconciler \<Rightarrow> StoreEvent \<Rightarrow> ('w sys, unit) state" where
  "markProcessed r ev = do {
     now \<leftarrow> outside (rc_Now r);
     ignore (MarkEventProcessed (rc_store r) (ev_ID ev) now) }"

definition scheduleRetry :: "'w Reconciler \<Rightarrow> StoreEvent \<Rightarrow> error \<Rightarrow> ('w sys, unit) state" where
  "scheduleRetry r ev cause =
     (let attempt = ev_Attempts ev + 1
      in if IsTerminal (Some cause) \<or> attempt \<ge> maxEventAttempts then do {
           now \<leftarrow> outside (rc_Now r);
           ignore (MarkEventDeadLettered (rc_store r) (ev_ID ev) now (error_text cause)) }
         else do {
           delay \<leftarrow> outside (rc_jitter r (retryDelay attempt));
           now \<leftarrow> outside (rc_Now r);
           ignore (MarkEventRetry (rc_store r) (ev_ID ev) (now + delay) (error_text cause)) })"

definition classifyLookup :: "error \<Rightarrow> string \<Rightarrow> error" where
  "classifyLookup err op =
     (let wrapped = wrapf (op @ '': '') err
      in if errors_Is err ErrNotFound then TerminalError wrapped else wrapped)"

section \<open>Creating the row\<close>

definition upsertPendingEnvironment ::
  "'w Reconciler \<Rightarrow> ApplyRequest \<Rightarrow> ('w sys, error + Environment) state" where
  "upsertPendingEnvironment r req =
     on_err (GetEnvironmentByProjectBranch (rc_store r) (ar_Project req) (ar_Branch req))
       (\<lambda>err. if errors_Is err ErrNotFound then
            CreateEnvironment (rc_store r)
              (empty_Environment\<lparr>env_Project := ar_Project req, env_Branch := ar_Branch req,
                 env_PRNumber := ar_PRNumber req, env_Subdomain := ar_Subdomain req,
                 env_ArtifactRef := ar_ArtifactRef req, env_Status := StatusPending\<rparr>)
          else fails ''looking up environment: '' err)
       (\<lambda>env. ret (Inr env))"

section \<open>One attempt\<close>

text \<open>The loop of \<open>waitUntilHealthy\<close>; \<open>None\<close> is a healthy deployment.\<close>

fun poll_health :: "'w Reconciler \<Rightarrow> string \<Rightarrow> time \<Rightarrow> nat \<Rightarrow> ('w sys, error option) state" where
  "poll_health r ref deadline 0 = ret (Some Diverges)"
| "poll_health r ref deadline (Suc n) =
     if_err (outside (rc_ctx_Err r)) (\<lambda>err. ret (Some err))
       (on_err (provider_call (HealthChecked ref) (dp_HealthCheck (rc_deploy r) ref))
         (fails_with ''health check: '')
         (\<lambda>status.
           if st_Healthy status then ret None
           else do {
             now \<leftarrow> outside (rc_Now r);
             if \<not> now < deadline then
               ret (Some (Opaque (''readiness timed out after '' @ Duration_String (rc_readinessTimeout r)
                 @ '': '' @ st_Detail status)))
             else do {
               outside (rc_clock_Sleep r (rc_readinessPollInterval r));
               poll_health r ref deadline n } }))"

definition waitUntilHealthy :: "'w Reconciler \<Rightarrow> string \<Rightarrow> ('w sys, error option) state" where
  "waitUntilHealthy r ref = do {
     now \<leftarrow> outside (rc_Now r);
     poll_health r ref (now + rc_readinessTimeout r) (rc_fuel r) }"

definition recordDNSRow :: "'w Reconciler \<Rightarrow> string \<Rightarrow> PDNSRecord \<Rightarrow> ('w sys, error option) state" where
  "recordDNSRow r environmentID rec =
     on_err (ListDNSRecords (rc_store r) environmentID) (fails_with ''listing dns records: '')
       (\<lambda>existing.
         if list_ex (\<lambda>e. dr_Name e = pr_Name rec) existing then ret None
         else on_err (CreateDNSRecord (rc_store r)
                \<lparr>dr_ID = [], dr_EnvironmentID = environmentID, dr_RecordType = pr_Type rec,
                 dr_Name = pr_Name rec, dr_Value = pr_Value rec,
                 dr_OwnershipTag = pr_OwnershipTag rec, dr_CreatedAt = 0\<rparr>)
              (fails_with ''recording dns record: '') (\<lambda>_. ret None))"

text \<open>The environment and the error \<open>attemptApply\<close> returns when a step before the last fails.\<close>

definition attempt_fails :: "Environment \<Rightarrow> string \<Rightarrow> error \<Rightarrow> ('w sys, Environment \<times> error option) state" where
  "attempt_fails env p err = ret (env, Some (wrapf p err))"

definition installCertificate :: "'w Reconciler \<Rightarrow> string \<Rightarrow> CertRef \<Rightarrow> ('w sys, error option) state" where
  "installCertificate r name certRef =
     (case dp_CertificateInstaller (rc_deploy r) of
        None \<Rightarrow> ret None
      | Some install \<Rightarrow>
          if cr_CertificatePEM certRef \<noteq> [] \<and> cr_PrivateKeyPEM certRef \<noteq> [] then
            provider_call (CertificateInstalled name)
              (install name (cr_CertificatePEM certRef) (cr_PrivateKeyPEM certRef))
          else ret None)"

text \<open>The last part of an attempt: the row of the environment becomes ready.\<close>

definition persist_ready ::
  "'w Reconciler \<Rightarrow> Environment \<Rightarrow> ApplyRequest \<Rightarrow> string \<Rightarrow> ('w sys, Environment \<times> error option) state" where
  "persist_ready r env req ref =
     (let env1 = env\<lparr>env_DeployRef := ref, env_Status := StatusReady,
                     env_LastGoodArtifactRef := ar_ArtifactRef req, env_LastGoodDeployRef := ref\<rparr>
      in do {
        env2 \<leftarrow> (if rc_defaultTTL r > 0 then do {
                   now \<leftarrow> outside (rc_Now r);
                   ret (env1\<lparr>env_TTLExpiresAt := Some (now + rc_defaultTTL r)\<rparr>) }
                 else ret env1);
        on_err (UpdateEnvironment (rc_store r) env2)
          (attempt_fails empty_Environment ''marking environment ready: '')
          (\<lambda>env3. ret (env3, None)) })"

definition attemptApply ::
  "'w Reconciler \<Rightarrow> Environment \<Rightarrow> ApplyRequest \<Rightarrow> string \<Rightarrow> string
   \<Rightarrow> ('w sys, Environment \<times> error option) state" where
  "attemptApply r env req name tag =
     (let spec = \<lparr>sp_Project = ar_Project req, sp_Branch = ar_Branch req,
                  sp_Subdomain = ar_Subdomain req, sp_ArtifactRef = ar_ArtifactRef req,
                  sp_PreviousRef = env_DeployRef env\<rparr>
      in on_err (provider_call (Applied spec) (dp_Apply (rc_deploy r) spec))
        (attempt_fails env ''deploy apply: '')
        (\<lambda>deployment.
          if_err (waitUntilHealthy r (dep_Ref deployment)) (attempt_fails env ''readiness check: '')
          (let rec = \<lparr>pr_Zone = rc_baseDomain r, pr_Name = name, pr_Type = ''A'',
                      pr_Value = dep_InternalAddr deployment, pr_OwnershipTag = tag\<rparr>
           in if_err (provider_call (RecordEnsured rec) (dns_EnsureRecord (rc_dns r) rec))
             (attempt_fails env ''dns ensure record: '')
             (on_err (provider_call (CertificateEnsured name) (cp_EnsureCertificate (rc_cert r) name))
               (attempt_fails env ''ensure certificate: '')
               (\<lambda>certRef.
                 if_err (installCertificate r name certRef) (attempt_fails env ''install certificate: '')
                 (if_err (recordDNSRow r (env_ID env) rec) (\<lambda>err. ret (env, Some err))
                   (persist_ready r env req (dep_Ref deployment))))))))"

section \<open>Apply\<close>

text \<open>
  The loop over the attempts: the ready environment, or what the last attempt left and its
  error.
\<close>

fun apply_attempts ::
  "'w Reconciler \<Rightarrow> ApplyRequest \<Rightarrow> string \<Rightarrow> string \<Rightarrow> nat \<Rightarrow> int \<Rightarrow> Environment \<Rightarrow> error
   \<Rightarrow> ('w sys, (Environment \<times> error) + Environment) state" where
  "apply_attempts r req name tag 0 attempt env lastErr = ret (Inl (env, lastErr))"
| "apply_attempts r req name tag (Suc n) attempt env lastErr = do {
     _ \<leftarrow> (if attempt > 1 then outside (rc_clock_Sleep r (applyBackoff attempt)) else ret ());
     res \<leftarrow> attemptApply r env req name tag;
     (case res of
        (env', None) \<Rightarrow> ret (Inr env')
      | (env', Some err) \<Rightarrow> apply_attempts r req name tag n (attempt + 1) env' err) }"

text \<open>The environment is marked failed, the failure reported.\<close>

definition apply_failed ::
  "'w Reconciler \<Rightarrow> ApplyRequest \<Rightarrow> Environment \<Rightarrow> error \<Rightarrow> ('w sys, error + Environment) state" where
  "apply_failed r req env lastErr = do {
     ignore (UpdateEnvironment (rc_store r) (env\<lparr>env_Status := StatusFailed\<rparr>));
     notify r (ar_Project req) (ar_PRNumber req)
       \<lparr>ne_Kind = ''failed'', ne_URL = [], ne_Detail = error_text lastErr\<rparr>;
     fails (''apply failed after '' @ Itoa maxApplyAttempts @ '' attempts: '') lastErr }"

text \<open>The compensating redeploy came up: the environment serves the old revision.\<close>

definition rolled_back ::
  "'w Reconciler \<Rightarrow> ApplyRequest \<Rightarrow> Environment \<Rightarrow> Environment \<Rightarrow> error \<Rightarrow> ('w sys, error + Environment) state" where
  "rolled_back r req env back lastErr = do {
     ignore (UpdateEnvironment (rc_store r)
       (back\<lparr>env_Status := StatusDegraded, env_ArtifactRef := ar_ArtifactRef req\<rparr>));
     notify r (ar_Project req) (ar_PRNumber req)
       \<lparr>ne_Kind = ''degraded'', ne_URL = [],
        ne_Detail = ''update to '' @ ar_ArtifactRef req @ '' failed after '' @ Itoa maxApplyAttempts
          @ '' attempts, rolled back to last known-good '' @ env_LastGoodArtifactRef env @ '': ''
          @ error_text lastErr\<rparr>;
     fails (''apply failed after '' @ Itoa maxApplyAttempts
       @ '' attempts, rolled back to last known-good revision '' @ env_LastGoodArtifactRef env @ '': '') lastErr }"

definition doApply ::
  "'w Reconciler \<Rightarrow> Environment \<Rightarrow> ApplyRequest \<Rightarrow> ('w sys, error + Environment) state" where
  "doApply r env0 req =
     (let isUpdate = (env_Status env0 = StatusReady \<or> env_Status env0 = StatusDegraded \<or> env_DeployRef env0 \<noteq> []);
          env1 = env0\<lparr>env_PRNumber := ar_PRNumber req, env_Subdomain := ar_Subdomain req,
                      env_ArtifactRef := ar_ArtifactRef req, env_Status := StatusDeploying\<rparr>;
          name = fqdn r (ar_Subdomain req);
          tag = OwnershipTag (ar_Project req) (ar_Branch req)
      in on_err (UpdateEnvironment (rc_store r) env1) (fails ''marking environment deploying: '')
        (\<lambda>env2. do {
          res \<leftarrow> apply_attempts r req name tag (nat maxApplyAttempts) 1 env2 Diverges;
          (case res of
             Inr env \<Rightarrow> do {
               notify r (ar_Project req) (ar_PRNumber req)
                 \<lparr>ne_Kind = (if isUpdate then ''updated'' else ''ready''), ne_URL = ''https://'' @ name, ne_Detail = []\<rparr>;
               ret (Inr env) }
           | Inl (env, lastErr) \<Rightarrow>
               if env_LastGoodArtifactRef env \<noteq> [] \<and> env_LastGoodArtifactRef env \<noteq> ar_ArtifactRef req then do {
                 back \<leftarrow> attemptApply r env (req\<lparr>ar_ArtifactRef := env_LastGoodArtifactRef env\<rparr>) name tag;
                 (case back of
                    (back', None) \<Rightarrow> rolled_back r req env back' lastErr
                  | (_, Some rollbackErr) \<Rightarrow>
                      apply_failed r req env
                        (Wrap ''update failed: '' lastErr
                          (''; rollback to last known-good revision '' @ env_LastGoodArtifactRef env
                           @ '' also failed: '' @ error_text rollbackErr))) }
               else apply_failed r req env lastErr) }))"

definition applyLocked :: "'w Reconciler \<Rightarrow> ApplyRequest \<Rightarrow> ('w sys, error + Environment) state" where
  "applyLocked r req =
     (let op = ''reconciler: apply '' @ ar_Project req @ ''/'' @ ar_Branch req @ '': ''
      in on_err (upsertPendingEnvironment r req) (fails op)
        (\<lambda>env. on_err (CreateEvent (rc_store r)
            (empty_StoreEvent\<lparr>ev_EnvironmentID := env_ID env, ev_Kind := EventKindApplyRequested,
               ev_Payload := marshalApplyPayload req\<rparr>)) (fails op)
          (\<lambda>ev. do {
            res \<leftarrow> doApply r env req;
            (case res of
               Inr env' \<Rightarrow> do { markProcessed r ev; ret (Inr env') }
             | Inl applyErr \<Rightarrow> do { scheduleRetry r ev applyErr; ret (Inl applyErr) }) })))"

definition Apply :: "'w Reconciler \<Rightarrow> ApplyRequest \<Rightarrow> ('w sys, error + Environment) state" where
  "Apply r req = with_lock (ar_Project req) (ar_Branch req) (applyLocked r req)"

definition applyWithoutEvent :: "'w Reconciler \<Rightarrow> ApplyRequest \<Rightarrow> ('w sys, error option) state" where
  "applyWithoutEvent r req =
     on_err (upsertPendingEnvironment r req) (fails_with ''reconciler: webhook apply: '')
       (\<lambda>env. on_err (doApply r env req) (\<lambda>err. ret (Some err)) (\<lambda>_. ret None))"

section \<open>Destroy\<close>

text \<open>One record: deleted at the provider, then its row.\<close>

definition destroyRecord :: "'w Reconciler \<Rightarrow> DNSRecord \<Rightarrow> ('w sys, error list) state" where
  "destroyRecord r rec =
     (let prec = \<lparr>pr_Zone = rc_baseDomain r, pr_Name = dr_Name rec, pr_Type = dr_RecordType rec,
                  pr_Value = dr_Value rec, pr_OwnershipTag = dr_OwnershipTag rec\<rparr>;
          delete_row = if_err (DeleteDNSRecord (rc_store r) (dr_ID rec))
            (\<lambda>err. ret [wrapf (''removing dns record row '' @ dr_ID rec @ '': '') err]) (ret [])
      in if_err (provider_call (RecordDeleted prec) (dns_DeleteRecord (rc_dns r) prec))
           (\<lambda>err. if \<not> errors_Is err ErrRecordAlreadyAbsent
                  then ret [wrapf (''deleting dns record '' @ dr_Name rec @ '': '') err]
                  else delete_row)
           delete_row)"

text \<open>A step of the teardown whose error is collected.\<close>

definition teardown_step :: "string \<Rightarrow> ('w sys, error option) state \<Rightarrow> ('w sys, error list) state" where
  "teardown_step p m = if_err m (\<lambda>err. ret [wrapf p err]) (ret [])"

definition removeCertificate :: "'w Reconciler \<Rightarrow> string \<Rightarrow> ('w sys, error option) state" where
  "removeCertificate r name =
     (case dp_CertificateRemover (rc_deploy r) of
        None \<Rightarrow> ret None
      | Some remove \<Rightarrow> provider_call (CertificateRemoved name) (remove name))"

definition destroyDeployment :: "'w Reconciler \<Rightarrow> string \<Rightarrow> ('w sys, error option) state" where
  "destroyDeployment r ref =
     (if ref \<noteq> [] then provider_call (DeploymentDestroyed ref) (dp_Destroy (rc_deploy r) ref) else ret None)"

definition teardown :: "'w Reconciler \<Rightarrow> Environment \<Rightarrow> ('w sys, error list) state" where
  "teardown r env = do {
     listed \<leftarrow> ListDNSRecords (rc_store r) (env_ID env);
     let (errs0, records) = (case listed of Inl err \<Rightarrow> ([wrapf ''listing dns records: '' err], [])
                                         | Inr rs \<Rightarrow> ([], rs));
     errs1 \<leftarrow> for_each (destroyRecord r) records;
     errs2 \<leftarrow> teardown_step ''revoking certificate: ''
       (provider_call (CertificateRevoked (fqdn r (env_Subdomain env)))
         (cp_RevokeCertificate (rc_cert r) (fqdn r (env_Subdomain env))));
     errs3 \<leftarrow> teardown_step ''removing deployed certificate: ''
       (removeCertificate r (fqdn r (env_Subdomain env)));
     errs4 \<leftarrow> teardown_step ''destroying deployment: '' (destroyDeployment r (env_DeployRef env));
     ret (errs0 @ errs1 @ errs2 @ errs3 @ errs4) }"

definition doDestroy :: "'w Reconciler \<Rightarrow> Environment \<Rightarrow> ('w sys, error option) state" where
  "doDestroy r env = do {
     errs \<leftarrow> teardown r env;
     (if errs \<noteq> [] then fails_with ''doDestroy: '' (Joined errs)
      else on_err (UpdateEnvironment (rc_store r) (env\<lparr>env_Status := StatusDestroyed\<rparr>))
        (fails_with ''marking environment destroyed: '')
        (\<lambda>_. do {
          notify r (env_Project env) (env_PRNumber env) \<lparr>ne_Kind = ''destroyed'', ne_URL = [], ne_Detail = []\<rparr>;
          ret None })) }"

text \<open>The environment with the status \<open>destroying\<close> persisted, unless it has it already.\<close>

definition mark_destroying :: "'w Reconciler \<Rightarrow> Environment \<Rightarrow> ('w sys, error + Environment) state" where
  "mark_destroying r env =
     (if env_Status env \<noteq> StatusDestroying
      then UpdateEnvironment (rc_store r) (env\<lparr>env_Status := StatusDestroying\<rparr>)
      else ret (Inr env))"

definition destroyLocked :: "'w Reconciler \<Rightarrow> Environment \<Rightarrow> ('w sys, error option) state" where
  "destroyLocked r env0 =
     (let op = ''reconciler: destroy '' @ env_ID env0 @ '': ''
      in on_err (CreateEvent (rc_store r)
          (empty_StoreEvent\<lparr>ev_EnvironmentID := env_ID env0, ev_Kind := EventKindDestroyRequested,
             ev_Payload := marshalDestroyPayload (env_Project env0) (env_Branch env0)\<rparr>)) (fails_with op)
        (\<lambda>ev. on_err (mark_destroying r env0)
           (fails_with (''reconciler: destroy '' @ (if env_Status env0 \<noteq> StatusDestroying then [] else env_ID env0)
              @ '': marking destroying: ''))
           (\<lambda>env. do {
             destroyErr \<leftarrow> doDestroy r env;
             (case destroyErr of
                None \<Rightarrow> do { markProcessed r ev; ret None }
              | Some err \<Rightarrow> do { scheduleRetry r ev err;
                  fails_with (''reconciler: destroy '' @ env_ID env @ '': '') err }) })))"

definition Destroy :: "'w Reconciler \<Rightarrow> Environment \<Rightarrow> ('w sys, error option) state" where
  "Destroy r env = with_lock (env_Project env) (env_Branch env) (destroyLocked r env)"

definition destroyWithoutEvent :: "'w Reconciler \<Rightarrow> Environment \<Rightarrow> ('w sys, error option) state" where
  "destroyWithoutEvent r env0 =
     on_err (mark_destroying r env0) (fails_with ''marking environment destroying: '') (doDestroy r)"

section \<open>Sleep and Wake\<close>

definition invalid_action :: "string \<Rightarrow> string \<Rightarrow> error" where
  "invalid_action verb st =
     Wrap [] ErrInvalidEnvironmentAction ('': cannot '' @ verb @ '' environment in status '' @ Quote st)"

definition doSleep :: "'w Reconciler \<Rightarrow> Environment \<Rightarrow> ('w sys, error + Environment) state" where
  "doSleep r env =
     (if env_Status env \<noteq> StatusReady then ret (Inl (TerminalError (invalid_action ''sleep'' (env_Status env))))
      else if env_DeployRef env = [] then
        ret (Inl (TerminalError (Opaque (''environment '' @ env_ID env @ '' has no deployment to sleep''))))
      else if_err (provider_call (DeploymentSlept (env_DeployRef env)) (dp_Sleep (rc_deploy r) (env_DeployRef env)))
        (fails ''deploy sleep: '')
        (on_err (UpdateEnvironment (rc_store r) (env\<lparr>env_Status := StatusSleeping\<rparr>))
          (fails ''marking environment sleeping: '') (\<lambda>env'. ret (Inr env'))))"

definition doWake :: "'w Reconciler \<Rightarrow> Environment \<Rightarrow> ('w sys, error + Environment) state" where
  "doWake r env =
     (if env_Status env \<noteq> StatusSleeping then ret (Inl (TerminalError (invalid_action ''wake'' (env_Status env))))
      else if env_DeployRef env = [] then
        ret (Inl (TerminalError (Opaque (''environment '' @ env_ID env @ '' has no deployment to wake''))))
      else if_err (provider_call (DeploymentWoken (env_DeployRef env)) (dp_Wake (rc_deploy r) (env_DeployRef env)))
        (fails ''deploy wake: '')
        (on_err (UpdateEnvironment (rc_store r) (env\<lparr>env_Status := StatusReady\<rparr>))
          (fails ''marking environment ready: '') (\<lambda>env'. ret (Inr env'))))"

text \<open>What \<open>Sleep\<close> and \<open>Wake\<close> share: the durable event before the call, its outcome after it.\<close>

definition durable_action ::
  "'w Reconciler \<Rightarrow> string \<Rightarrow> string \<Rightarrow> (string \<Rightarrow> string \<Rightarrow> string)
   \<Rightarrow> (Environment \<Rightarrow> ('w sys, error + Environment) state) \<Rightarrow> Environment
   \<Rightarrow> ('w sys, error + Environment) state" where
  "durable_action r op kind marshal act env =
     on_err (CreateEvent (rc_store r)
         (empty_StoreEvent\<lparr>ev_EnvironmentID := env_ID env, ev_Kind := kind,
            ev_Payload := marshal (env_Project env) (env_Branch env)\<rparr>)) (fails op)
       (\<lambda>ev. do {
         res \<leftarrow> act env;
         (case res of
            Inr env' \<Rightarrow> do { markProcessed r ev; ret (Inr env') }
          | Inl err \<Rightarrow> do { scheduleRetry r ev err; fails op err }) })"

definition Sleep :: "'w Reconciler \<Rightarrow> Environment \<Rightarrow> ('w sys, error + Environment) state" where
  "Sleep r env = with_lock (env_Project env) (env_Branch env)
     (if env_Status env \<noteq> StatusReady then ret (Inl (invalid_action ''sleep'' (env_Status env)))
      else durable_action r (''reconciler: sleep '' @ env_ID env @ '': '') EventKindSleepRequested
        marshalSleepPayload (doSleep r) env)"

definition Wake :: "'w Reconciler \<Rightarrow> Environment \<Rightarrow> ('w sys, error + Environment) state" where
  "Wake r env = with_lock (env_Project env) (env_Branch env)
     (if env_Status env \<noteq> StatusSleeping then ret (Inl (invalid_action ''wake'' (env_Status env)))
      else durable_action r (''reconciler: wake '' @ env_ID env @ '': '') EventKindWakeRequested
        marshalWakePayload (doWake r) env)"

section \<open>Webhook events\<close>

definition admission_reserve :: "'w Reconciler \<Rightarrow> ApplyRequest \<Rightarrow> ('w sys, error + string) state" where
  "admission_reserve r req =
     on_err (GetEnvironmentByProjectBranch (rc_store r) (ar_Project req) (ar_Branch req))
       (\<lambda>err. if \<not> errors_Is err ErrNotFound then
            fails (''reconciler: admission lookup '' @ ar_Project req @ ''/'' @ ar_Branch req @ '': '') err
          else on_err (CountLiveEnvironments (rc_store r)) (fails ''reconciler: counting live environments: '')
            (\<lambda>live. if live \<ge> rc_maxConcurrent r then
                ret (Inr (''skipped: max_concurrent_envs reached ('' @ Itoa live @ '' of ''
                  @ Itoa (rc_maxConcurrent r)
                  @ '' live); destroy an environment or let one expire to free a slot''))
              else on_err (upsertPendingEnvironment r req)
                (fails (''reconciler: reserving slot for '' @ ar_Project req @ ''/'' @ ar_Branch req @ '': ''))
                (\<lambda>_. ret (Inr []))))
       (\<lambda>_. ret (Inr []))"

definition admit :: "'w Reconciler \<Rightarrow> Event \<Rightarrow> ApplyRequest \<Rightarrow> ('w sys, error + string) state" where
  "admit r ev req =
     (let decision = Decide (rc_policy r) ev
      in if \<not> Allowed decision then ret (Inr (Reason decision))
         else if rc_maxConcurrent r \<le> 0 then ret (Inr [])
         else do {
           log_call AdmissionLocked;
           x \<leftarrow> admission_reserve r req;
           log_call AdmissionUnlocked;
           ret x })"

definition ProcessWebhookEvent :: "'w Reconciler \<Rightarrow> Event \<Rightarrow> ('w sys, error option) state" where
  "ProcessWebhookEvent r ev =
     (if pe_Kind ev = ''branch_pushed'' \<or> pe_Kind ev = ''pr_synchronized'' then
        (let subdomain = Normalize (pe_Branch ev) 63;
             req = ApplyRequestFromEvent ev subdomain
         in with_lock (ar_Project req) (ar_Branch req)
           (on_err (admit r ev req) (\<lambda>err. ret (Some err))
             (\<lambda>reason. if reason \<noteq> [] then ret None else applyWithoutEvent r req)))
      else if pe_Kind ev = ''pr_closed'' \<or> pe_Kind ev = ''branch_deleted'' then
        on_err (GetEnvironmentByProjectBranch (rc_store r) (pe_Project ev) (pe_Branch ev))
          (\<lambda>err. if errors_Is err ErrNotFound then ret None else ret (Some err))
          (\<lambda>env. with_lock (env_Project env) (env_Branch env) (destroyWithoutEvent r env))
      else ret (Some (Opaque (''unsupported webhook event kind '' @ Quote (pe_Kind ev)))))"

section \<open>Replay\<close>

text \<open>An event that names an environment: looked up, then acted on under its lock.\<close>

definition replay_on_env ::
  "'w Reconciler \<Rightarrow> StoreEvent \<Rightarrow> string \<Rightarrow> (Environment \<Rightarrow> ('w sys, error option) state)
   \<Rightarrow> ('w sys, error option) state" where
  "replay_on_env r ev op act =
     on_err (GetEnvironment (rc_store r) (ev_EnvironmentID ev))
       (\<lambda>err. ret (Some (classifyLookup err op))) act"

definition error_only :: "('w sys, error + 'a) state \<Rightarrow> ('w sys, error option) state" where
  "error_only m = on_err m (\<lambda>err. ret (Some err)) (\<lambda>_. ret None)"

text \<open>
  The dispatch on the kind: \<open>Inl\<close> for the two cases that schedule the retry and return at
  once, without counting the attempt.
\<close>

definition dispatchEvent :: "'w Reconciler \<Rightarrow> StoreEvent \<Rightarrow> ('w sys, error + error option) state" where
  "dispatchEvent r ev =
     (if ev_Kind ev = EventKindApplyRequested then
        (case unmarshalApplyPayload (ev_Payload ev) of
           Inl err \<Rightarrow> ret (Inl (TerminalError (wrapf ''replay: bad apply payload: '' err)))
         | Inr req \<Rightarrow> do {
             e \<leftarrow> replay_on_env r ev ''replay: apply: loading environment''
               (\<lambda>env. with_lock (ar_Project req) (ar_Branch req) (error_only (doApply r env req)));
             ret (Inr e) })
      else if ev_Kind ev = EventKindDestroyRequested then do {
        e \<leftarrow> replay_on_env r ev ''replay: destroy: loading environment''
          (\<lambda>env. with_lock (env_Project env) (env_Branch env) (doDestroy r env));
        ret (Inr e) }
      else if ev_Kind ev = EventKindSleepRequested then do {
        e \<leftarrow> replay_on_env r ev ''replay: sleep: loading environment''
          (\<lambda>env. with_lock (env_Project env) (env_Branch env) (error_only (doSleep r env)));
        ret (Inr e) }
      else if ev_Kind ev = EventKindWakeRequested then do {
        e \<leftarrow> replay_on_env r ev ''replay: wake: loading environment''
          (\<lambda>env. with_lock (env_Project env) (env_Branch env) (error_only (doWake r env)));
        ret (Inr e) }
      else if ev_Kind ev = EventKindWebhookReceived then
        (case UnmarshalWebhookPayload (ev_Payload ev) of
           Inl err \<Rightarrow> ret (Inr (Some (TerminalError (wrapf ''replay: bad webhook payload: '' err))))
         | Inr webhookEvent \<Rightarrow> do { e \<leftarrow> ProcessWebhookEvent r webhookEvent; ret (Inr e) })
      else ret (Inl (TerminalError (Opaque (''replay: unknown event kind '' @ Quote (ev_Kind ev))))))"

definition ProcessEvent :: "'w Reconciler \<Rightarrow> StoreEvent \<Rightarrow> ('w sys, unit) state" where
  "ProcessEvent r ev = do {
     now \<leftarrow> outside (rc_Now r);
     now2 \<leftarrow> outside (rc_Now r);
     on_err (ClaimEvent (rc_store r) (ev_ID ev) now (now2 + 10 * Minute)) (\<lambda>_. ret ())
       (\<lambda>claimed.
         if \<not> claimed then ret ()
         else do {
           res \<leftarrow> dispatchEvent r ev;
           (case res of
              Inl err \<Rightarrow> scheduleRetry r ev err
            | Inr (Some replayErr) \<Rightarrow> do {
                count (\<lambda>m. m\<lparr>ReconciliationFailures := ReconciliationFailures m + 1\<rparr>);
                scheduleRetry r ev replayErr }
            | Inr None \<Rightarrow> do {
                count (\<lambda>m. m\<lparr>Reconciliations := Reconciliations m + 1\<rparr>);
                markProcessed r ev }) }) }"

text \<open>
  The batch, in the order given: the goroutines are run one after the other. \<open>Replay_Pool\<close> has them
  side by side.
\<close>

definition ReplayEvents :: "'w Reconciler \<Rightarrow> StoreEvent list \<Rightarrow> ('w sys, unit) state" where
  "ReplayEvents r events = run_each (ProcessEvent r) events"

definition ReplayUnprocessedEvents :: "'w Reconciler \<Rightarrow> ('w sys, error option) state" where
  "ReplayUnprocessedEvents r = do {
     now \<leftarrow> outside (rc_Now r);
     on_err (ListDueEvents (rc_store r) now 1000)
       (fails_with ''reconciler: replay: listing unprocessed events: '')
       (\<lambda>events. do { ReplayEvents r events; ret None }) }"

end
