(* ===== verification/Store_Effects.thy ===== *)
theory Store_Effects
  imports Sqlite_Store
begin

text \<open>
  The effect of each operation of the store on the system state: which rows it writes, when
  it writes nothing, and what it returns. The theorems on the store itself are here; the
  invariants of the reconciler rest on the case rules \<open>*_effect\<close>.
\<close>

section \<open>Reads\<close>

lemma ext_twice [simp]: "(s\<lparr>ext := w\<rparr>)\<lparr>ext := w'\<rparr> = s\<lparr>ext := w'\<rparr>"
  by simp

lemma query_effect:
  "run_state (query rt sel) s = (res, s') \<Longrightarrow>
     (\<exists>w. s' = s\<lparr>ext := w\<rparr>) \<and> (\<forall>x. res = Inr x \<longrightarrow> x = sel (db s))"
  by (auto simp: query_def run_err split: prod.splits option.splits)

lemma GetEnvironment_effect:
  assumes "run_state (GetEnvironment rt i) s = (res, s')"
  shows "(\<exists>w. s' = s\<lparr>ext := w\<rparr>)
    \<and> (\<forall>env. res = Inr env \<longrightarrow> (\<exists>r. select_environment i (db s) = Some r \<and> env = scanEnvironment r))"
proof -
  obtain q s1 where q: "run_state (query rt (select_environment i)) s = (q, s1)"
    by (cases "run_state (query rt (select_environment i)) s")
  show ?thesis
    using assms query_effect [OF q]
    by (auto simp: GetEnvironment_def run_err q fails_def Let_def
        split: sum.splits option.splits prod.splits)
qed

lemma GetEnvironmentByProjectBranch_effect:
  assumes "run_state (GetEnvironmentByProjectBranch rt p b) s = (res, s')"
  shows "(\<exists>w. s' = s\<lparr>ext := w\<rparr>)
    \<and> (\<forall>env. res = Inr env \<longrightarrow> (\<exists>r. select_by_branch p b (db s) = Some r \<and> env = scanEnvironment r))"
proof -
  obtain q s1 where q: "run_state (query rt (select_by_branch p b)) s = (q, s1)"
    by (cases "run_state (query rt (select_by_branch p b)) s")
  show ?thesis
    using assms query_effect [OF q]
    by (auto simp: GetEnvironmentByProjectBranch_def run_err q fails_def Let_def
        split: sum.splits option.splits prod.splits)
qed

section \<open>Writes\<close>

lemma exec_insert_effect:
  "run_state (exec_insert rt stmt) s = (res, s') \<Longrightarrow>
     (\<exists>w. s' = s\<lparr>ext := w\<rparr> \<and> res \<noteq> None) \<or> (\<exists>w d. stmt (db s) = Inr d \<and> s' = s\<lparr>ext := w, db := d\<rparr> \<and> res = None)"
  by (auto simp: exec_insert_def run_err split: prod.splits option.splits sum.splits)

lemma exec_rows_effect:
  "run_state (exec_rows rt stmt) s = (res, s') \<Longrightarrow>
     (\<exists>w. s' = s\<lparr>ext := w\<rparr> \<and> isl res)
   \<or> (\<exists>w n d. stmt (db s) = (n, d) \<and> s' = s\<lparr>ext := w, db := d\<rparr> \<and> (isl res \<or> res = Inr n))"
  by (auto simp: exec_rows_def run_err split: prod.splits option.splits)

lemma newID_effect: "run_state (newID rt) s = (res, s') \<Longrightarrow> \<exists>w. s' = s\<lparr>ext := w\<rparr>"
  by (auto simp: newID_def run_err Let_def split: prod.splits sum.splits)

lemma id_or_new_effect: "run_state (id_or_new rt i) s = (res, s') \<Longrightarrow> \<exists>w. s' = s\<lparr>ext := w\<rparr>"
  by (auto simp: id_or_new_def dest: newID_effect split: if_splits intro: exI [of _ "ext s"])

lemma CreateEnvironment_effect:
  assumes "run_state (CreateEnvironment rt env) s = (res, s')"
  shows "(\<exists>w. s' = s\<lparr>ext := w\<rparr> \<and> isl res) \<or>
    (\<exists>w i now d. insert_environment (environment_args (env\<lparr>env_ID := i, env_CreatedAt := now, env_UpdatedAt := now\<rparr>)) (db s) = Inr d
      \<and> s' = s\<lparr>ext := w, db := d, log := EnvStored i (env_Status env) # log s\<rparr>
      \<and> res = Inr (env\<lparr>env_ID := i, env_CreatedAt := now, env_UpdatedAt := now\<rparr>))"
proof -
  obtain q s1 where q: "run_state (id_or_new rt (env_ID env)) s = (q, s1)"
    by (cases "run_state (id_or_new rt (env_ID env)) s")
  then obtain w where s1: "s1 = s\<lparr>ext := w\<rparr>"
    using id_or_new_effect by blast
  show ?thesis
  proof (cases q)
    case (Inl e)
    with assms s1 show ?thesis
      by (auto simp: CreateEnvironment_def run_err q fails_def Let_def)
  next
    case (Inr i)
    obtain now w1 where n: "run_state (rt_Now rt) w = (now, w1)"
      by (cases "run_state (rt_Now rt) w")
    let ?env = "env\<lparr>env_ID := i, env_CreatedAt := now, env_UpdatedAt := now\<rparr>"
    obtain x s2 where x: "run_state (exec_insert rt (insert_environment (environment_args ?env))) (s\<lparr>ext := w1\<rparr>) = (x, s2)"
      by (cases "run_state (exec_insert rt (insert_environment (environment_args ?env))) (s\<lparr>ext := w1\<rparr>)")
    show ?thesis
    proof (cases x)
      case (Some e)
      with assms exec_insert_effect [OF x] show ?thesis
        by (auto simp: CreateEnvironment_def run_err q Inr s1 n x fails_def Let_def split: if_splits)
    next
      case None
      with exec_insert_effect [OF x] obtain w2 d where
        "insert_environment (environment_args ?env) (db s) = Inr d" "s2 = s\<lparr>ext := w2, db := d\<rparr>"
        by auto
      with assms None show ?thesis
        by (intro disjI2 exI [of _ w2] exI [of _ i] exI [of _ now] exI [of _ d])
          (simp add: CreateEnvironment_def run_err q Inr s1 n x Let_def)
    qed
  qed
qed

lemma commit_update_effect:
  assumes "run_state (commit_update rt op env n d) s = (res, s')"
  shows "(\<exists>w. s' = s\<lparr>ext := w\<rparr> \<and> isl res) \<or>
    (\<exists>w. n \<noteq> 0 \<and> s' = s\<lparr>ext := w, db := d, log := EnvStored (env_ID env) (env_Status env) # log s\<rparr>
      \<and> (\<forall>env'. res = Inr env' \<longrightarrow>
            (\<exists>r. select_environment (env_ID env) d = Some r \<and> env' = scanEnvironment r)))"
  using assms
  by (auto simp: commit_update_def run_err fails_def split: prod.splits option.splits if_splits
      dest!: GetEnvironment_effect)

lemma UpdateEnvironment_effect:
  assumes "run_state (UpdateEnvironment rt env) s = (res, s')"
  shows "(\<exists>w. s' = s\<lparr>ext := w\<rparr> \<and> isl res) \<or>
    (\<exists>w now cur n d. select_environment (env_ID env) (db s) = Some cur
      \<and> CanTransition (er_status cur) (env_Status env)
      \<and> update_environment (environment_args (env\<lparr>env_UpdatedAt := now\<rparr>)) (db s) = Inr (n, d) \<and> n \<noteq> 0
      \<and> s' = s\<lparr>ext := w, db := d, log := EnvStored (env_ID env) (env_Status env) # log s\<rparr>
      \<and> (\<forall>env'. res = Inr env' \<longrightarrow>
            (\<exists>r. select_environment (env_ID env) d = Some r \<and> env' = scanEnvironment r)))"
proof -
  obtain now w1 where n: "run_state (rt_Now rt) (ext s) = (now, w1)"
    by (cases "run_state (rt_Now rt) (ext s)")
  obtain b w2 where b: "run_state (rt_sql rt) w1 = (b, w2)"
    by (cases "run_state (rt_sql rt) w1")
  obtain q s3 where q: "run_state (query rt (select_environment (env_ID env))) (s\<lparr>ext := w2\<rparr>) = (q, s3)"
    by (cases "run_state (query rt (select_environment (env_ID env))) (s\<lparr>ext := w2\<rparr>)")
  obtain w3 where s3: "s3 = s\<lparr>ext := w3\<rparr>" and sel: "\<And>x. q = Inr x \<Longrightarrow> x = select_environment (env_ID env) (db s)"
    using query_effect [OF q] by auto
  obtain e w4 where e: "run_state (rt_sql rt) w3 = (e, w4)"
    by (cases "run_state (rt_sql rt) w3")
  show ?thesis
  proof (cases "b = None \<and> e = None \<and> (\<exists>cur n d. q = Inr (Some cur) \<and> CanTransition (er_status cur) (env_Status env)
      \<and> update_environment (environment_args (env\<lparr>env_UpdatedAt := now\<rparr>)) (db s) = Inr (n, d))")
    case False
    with assms show ?thesis
      by (auto simp: UpdateEnvironment_def run_err n b q s3 e fails_def Let_def
          split: option.splits sum.splits if_splits)
  next
    case True
    then obtain cur m d where t: "b = None" "e = None" "q = Inr (Some cur)"
      "CanTransition (er_status cur) (env_Status env)"
      "update_environment (environment_args (env\<lparr>env_UpdatedAt := now\<rparr>)) (db s) = Inr (m, d)"
      by blast
    then have "run_state (commit_update rt (''updating environment '' @ env_ID env @ '': '')
        (env\<lparr>env_UpdatedAt := now\<rparr>) m d) (s\<lparr>ext := w4\<rparr>) = (res, s')"
      using assms t by (simp add: UpdateEnvironment_def run_err n b q s3 e Let_def validateTransition_def)
    from commit_update_effect [OF this] show ?thesis
    proof (elim disjE exE)
      fix w
      assume *: "m \<noteq> 0 \<and> s' = s\<lparr>ext := w4, ext := w, db := d,
          log := EnvStored (env_ID (env\<lparr>env_UpdatedAt := now\<rparr>)) (env_Status (env\<lparr>env_UpdatedAt := now\<rparr>))
            # log (s\<lparr>ext := w4\<rparr>)\<rparr>
        \<and> (\<forall>env'. res = Inr env' \<longrightarrow>
            (\<exists>r. select_environment (env_ID (env\<lparr>env_UpdatedAt := now\<rparr>)) d = Some r \<and> env' = scanEnvironment r))"
      show ?thesis
        by (intro disjI2 exI [of _ w] exI [of _ now] exI [of _ cur] exI [of _ m] exI [of _ d])
          (use * t sel [OF t(3)] in simp)
    qed auto
  qed
qed

lemma CreateDNSRecord_effect:
  assumes "run_state (CreateDNSRecord rt rec) s = (res, s')"
  shows "(\<exists>w. s' = s\<lparr>ext := w\<rparr> \<and> isl res) \<or>
    (\<exists>w i now d. insert_dns_record (rec\<lparr>dr_ID := i, dr_CreatedAt := now\<rparr>) (db s) = Inr d
      \<and> s' = s\<lparr>ext := w, db := d\<rparr> \<and> res = Inr (rec\<lparr>dr_ID := i, dr_CreatedAt := now\<rparr>))"
proof -
  obtain q s1 where q: "run_state (id_or_new rt (dr_ID rec)) s = (q, s1)"
    by (cases "run_state (id_or_new rt (dr_ID rec)) s")
  then obtain w where s1: "s1 = s\<lparr>ext := w\<rparr>"
    using id_or_new_effect by blast
  show ?thesis
  proof (cases q)
    case (Inl e)
    with assms s1 show ?thesis
      by (auto simp: CreateDNSRecord_def run_err q fails_def Let_def)
  next
    case (Inr i)
    obtain now w1 where n: "run_state (rt_Now rt) w = (now, w1)"
      by (cases "run_state (rt_Now rt) w")
    let ?rec = "rec\<lparr>dr_ID := i, dr_CreatedAt := now\<rparr>"
    obtain x s2 where x: "run_state (exec_insert rt (insert_dns_record ?rec)) (s\<lparr>ext := w1\<rparr>) = (x, s2)"
      by (cases "run_state (exec_insert rt (insert_dns_record ?rec)) (s\<lparr>ext := w1\<rparr>)")
    show ?thesis
    proof (cases x)
      case (Some e)
      with assms exec_insert_effect [OF x] show ?thesis
        by (auto simp: CreateDNSRecord_def run_err q Inr s1 n x fails_def Let_def)
    next
      case None
      with exec_insert_effect [OF x] obtain w2 d where
        "insert_dns_record ?rec (db s) = Inr d" "s2 = s\<lparr>ext := w2, db := d\<rparr>"
        by auto
      with assms None show ?thesis
        by (intro disjI2 exI [of _ w2] exI [of _ i] exI [of _ now] exI [of _ d])
          (simp add: CreateDNSRecord_def run_err q Inr s1 n x Let_def)
    qed
  qed
qed

lemma DeleteDNSRecord_effect:
  assumes "run_state (DeleteDNSRecord rt i) s = (res, s')"
  shows "(\<exists>w. s' = s\<lparr>ext := w\<rparr> \<and> res \<noteq> None) \<or>
    (\<exists>w. s' = s\<lparr>ext := w, db := delete_dns_record i (db s)\<rparr> \<and> res = None)"
  using assms
  by (auto simp: DeleteDNSRecord_def exec_insert_def run_err fails_with_def split: prod.splits option.splits)

lemma CreateEvent_effect:
  assumes "run_state (CreateEvent rt ev) s = (res, s')"
  shows "(\<exists>w. s' = s\<lparr>ext := w\<rparr> \<and> isl res) \<or>
    (\<exists>w i now d. insert_event (event_args (ev\<lparr>ev_ID := i, ev_CreatedAt := now\<rparr>)) (db s) = Inr d
      \<and> s' = s\<lparr>ext := w, db := d, log := EventStored i (ev_EnvironmentID ev) (ev_Kind ev) # log s\<rparr>
      \<and> res = Inr (ev\<lparr>ev_ID := i, ev_CreatedAt := now\<rparr>))"
proof -
  obtain q s1 where q: "run_state (id_or_new rt (ev_ID ev)) s = (q, s1)"
    by (cases "run_state (id_or_new rt (ev_ID ev)) s")
  then obtain w where s1: "s1 = s\<lparr>ext := w\<rparr>"
    using id_or_new_effect by blast
  show ?thesis
  proof (cases q)
    case (Inl e)
    with assms s1 show ?thesis
      by (auto simp: CreateEvent_def run_err q fails_def Let_def)
  next
    case (Inr i)
    obtain now w1 where n: "run_state (rt_Now rt) w = (now, w1)"
      by (cases "run_state (rt_Now rt) w")
    let ?ev = "ev\<lparr>ev_ID := i, ev_CreatedAt := now\<rparr>"
    obtain x s2 where x: "run_state (exec_insert rt (insert_event (event_args ?ev))) (s\<lparr>ext := w1\<rparr>) = (x, s2)"
      by (cases "run_state (exec_insert rt (insert_event (event_args ?ev))) (s\<lparr>ext := w1\<rparr>)")
    show ?thesis
    proof (cases x)
      case (Some e)
      with assms exec_insert_effect [OF x] show ?thesis
        by (auto simp: CreateEvent_def run_err q Inr s1 n x fails_def Let_def split: if_splits)
    next
      case None
      with exec_insert_effect [OF x] obtain w2 d where
        "insert_event (event_args ?ev) (db s) = Inr d" "s2 = s\<lparr>ext := w2, db := d\<rparr>"
        by auto
      with assms None show ?thesis
        by (intro disjI2 exI [of _ w2] exI [of _ i] exI [of _ now] exI [of _ d])
          (simp add: CreateEvent_def run_err q Inr s1 n x Let_def)
    qed
  qed
qed

lemma ClaimEvent_effect:
  assumes "run_state (ClaimEvent rt i now later) s = (res, s')"
  shows "(\<exists>w. s' = s\<lparr>ext := w\<rparr> \<and> isl res) \<or>
    (\<exists>w n d. claim_event i now later (db s) = (n, d) \<and> s' = s\<lparr>ext := w, db := d\<rparr>
      \<and> (isl res \<or> res = Inr (n = 1)))"
proof -
  obtain x s1 where x: "run_state (exec_rows rt (claim_event i now later)) s = (x, s1)"
    by (cases "run_state (exec_rows rt (claim_event i now later)) s")
  show ?thesis
    using assms exec_rows_effect [OF x]
    by (auto simp: ClaimEvent_def run_err x fails_def split: sum.splits)
qed

lemma exec_mark_effect:
  assumes "run_state (exec_mark rt op stmt) s = (res, s')"
  shows "(\<exists>w. s' = s\<lparr>ext := w\<rparr> \<and> res \<noteq> None) \<or>
    (\<exists>w n d. stmt (db s) = (n, d) \<and> s' = s\<lparr>ext := w, db := d\<rparr> \<and> (res = None \<longrightarrow> n \<noteq> 0))"
proof -
  obtain x s1 where x: "run_state (exec_rows rt stmt) s = (x, s1)"
    by (cases "run_state (exec_rows rt stmt) s")
  show ?thesis
    using assms exec_rows_effect [OF x]
    by (auto simp: exec_mark_def run_err x fails_with_def split: sum.splits if_splits)
qed

lemma PruneProcessedEvents_effect:
  assumes "run_state (PruneProcessedEvents rt before limit) s = (res, s')"
  shows "(db s' = db s \<or> db s' = snd (prune_events before (if limit \<le> 0 then 5000 else limit) (db s)))
    \<and> log s' = log s"
proof -
  obtain n d where p: "prune_events before (if limit \<le> 0 then 5000 else limit) (db s) = (n, d)"
    by (cases "prune_events before (if limit \<le> 0 then 5000 else limit) (db s)")
  have "(db s' = db s \<or> db s' = d) \<and> log s' = log s"
    using assms by (auto simp: PruneProcessedEvents_def run_err fails_def p simp del: if_split
        split: prod.splits option.splits)
  then show ?thesis by (simp only: p snd_conv)
qed

section \<open>Invariants of the tables\<close>

text \<open>An invariant of the tables that every statement of the store keeps.\<close>

locale table_contract =
  fixes J :: "database \<Rightarrow> bool"
  assumes insert_environment_J:
      "J d \<Longrightarrow> er_status row = StatusPending \<Longrightarrow> insert_environment row d = Inr d' \<Longrightarrow> J d'"
    and update_environment_J:
      "J d \<Longrightarrow> select_environment (er_id row) d = Some cur \<Longrightarrow> CanTransition (er_status cur) (er_status row)
        \<Longrightarrow> update_environment row d = Inr (n, d') \<Longrightarrow> J d'"
    and insert_dns_record_J: "J d \<Longrightarrow> insert_dns_record rec d = Inr d' \<Longrightarrow> J d'"
    and delete_dns_record_J: "J d \<Longrightarrow> J (delete_dns_record i d)"
    and insert_event_J: "J d \<Longrightarrow> insert_event row' d = Inr d' \<Longrightarrow> J d'"
    and claim_event_J: "J d \<Longrightarrow> claim_event i now later d = (n, d') \<Longrightarrow> J d'"
    and mark_processed_J: "J d \<Longrightarrow> Sqlite_Tables.mark_processed i now d = (n, d') \<Longrightarrow> J d'"
    and mark_dead_lettered_J: "J d \<Longrightarrow> Sqlite_Tables.mark_dead_lettered i now text d = (n, d') \<Longrightarrow> J d'"
    and mark_retry_J: "J d \<Longrightarrow> Sqlite_Tables.mark_retry i now text d = (n, d') \<Longrightarrow> J d'"
    and prune_events_J: "J d \<Longrightarrow> prune_events before limit d = (n, d') \<Longrightarrow> J d'"
begin

lemma environment_writes_J:
  "env_Status env = StatusPending \<Longrightarrow> keeps (\<lambda>s. J (db s)) (CreateEnvironment rt env)"
  "keeps (\<lambda>s. J (db s)) (UpdateEnvironment rt env)"
proof -
  show "keeps (\<lambda>s. J (db s)) (CreateEnvironment rt env)" if "env_Status env = StatusPending"
  proof (rule keepsI)
    fix s a s'
    assume "J (db s)" and "run_state (CreateEnvironment rt env) s = (a, s')"
    then show "J (db s')"
      using CreateEnvironment_effect [of rt env s a s'] that
      by (auto dest: insert_environment_J [rotated 2])
  qed
  show "keeps (\<lambda>s. J (db s)) (UpdateEnvironment rt env)"
  proof (rule keepsI)
    fix s a s'
    assume J: "J (db s)" and run: "run_state (UpdateEnvironment rt env) s = (a, s')"
    have "J d" if "select_environment (env_ID env) (db s) = Some cur"
        "CanTransition (er_status cur) (env_Status env)"
        "update_environment (environment_args (env\<lparr>env_UpdatedAt := now\<rparr>)) (db s) = Inr (n, d)" for cur now n d
      by (rule update_environment_J [OF J _ _ that(3)]) (use that in simp_all)
    with J UpdateEnvironment_effect [OF run] show "J (db s')"
      by auto
  qed
qed

lemma record_writes_J:
  "keeps (\<lambda>s. J (db s)) (CreateDNSRecord rt rec)" "keeps (\<lambda>s. J (db s)) (DeleteDNSRecord rt i)"
  by (rule keepsI, drule CreateDNSRecord_effect, auto intro: insert_dns_record_J)
    (rule keepsI, drule DeleteDNSRecord_effect, auto intro: delete_dns_record_J)

lemma event_writes_J:
  "keeps (\<lambda>s. J (db s)) (CreateEvent rt ev)" "keeps (\<lambda>s. J (db s)) (ClaimEvent rt i now later)"
  "keeps (\<lambda>s. J (db s)) (MarkEventProcessed rt i now)"
  "keeps (\<lambda>s. J (db s)) (MarkEventDeadLettered rt i now text)"
  "keeps (\<lambda>s. J (db s)) (MarkEventRetry rt i now text)"
  unfolding MarkEventProcessed_def MarkEventDeadLettered_def MarkEventRetry_def
  by (rule keepsI, drule CreateEvent_effect, auto intro: insert_event_J)
    (rule keepsI, drule ClaimEvent_effect, auto intro: claim_event_J,
     (rule keepsI, drule exec_mark_effect,
       auto intro: mark_processed_J mark_dead_lettered_J mark_retry_J)+)

lemma prune_J: "keeps (\<lambda>s. J (db s)) (PruneProcessedEvents rt before limit)"
proof (rule keepsI)
  fix s a s'
  assume "J (db s)" and "run_state (PruneProcessedEvents rt before limit) s = (a, s')"
  then show "J (db s')"
    using PruneProcessedEvents_effect [of rt before limit s a s'] prune_events_J prod.collapse
    by metis
qed

end

interpretation tables: table_contract db_wf
  by unfold_locales (auto intro: db_wf_intros)

end
