(* ===== verification/Store_Theorems.thy ===== *)
theory Store_Theorems
  imports Store_Effects
begin

text \<open>What the operations of the store guarantee to their callers.\<close>

text \<open>A driver that never fails, for the statements of what happens then.\<close>

definition healthy_driver :: "'w runtime \<Rightarrow> bool" where
  "healthy_driver rt \<longleftrightarrow> (\<forall>w. fst (run_state (rt_sql rt) w) = None)"

lemma healthy_sql: "healthy_driver rt \<Longrightarrow> \<exists>w'. run_state (rt_sql rt) w = (None, w')"
  unfolding healthy_driver_def by (metis prod.collapse)

section \<open>Environments\<close>

lemma update_environment_cases:
  assumes "run_state (UpdateEnvironment rt env) s = (res, s')"
  shows "case res of
      Inr env' \<Rightarrow> (\<exists>cur now. select_environment (env_ID env) (db s) = Some cur
          \<and> CanTransition (er_status cur) (env_Status env)
          \<and> env' = env\<lparr>env_CreatedAt := er_created_at cur, env_UpdatedAt := now\<rparr>
          \<and> select_environment (env_ID env) (db s') = Some (environment_args env'))
        \<and> (\<forall>i. i = env_ID env \<or> select_environment i (db s') = select_environment i (db s))
        \<and> db_dns_records (db s') = db_dns_records (db s) \<and> db_events (db s') = db_events (db s)
    | Inl e \<Rightarrow> db s' = db s \<or>
        (\<exists>cur now. select_environment (env_ID env) (db s) = Some cur
          \<and> CanTransition (er_status cur) (env_Status env)
          \<and> select_environment (env_ID env) (db s')
              = Some (environment_args (env\<lparr>env_CreatedAt := er_created_at cur, env_UpdatedAt := now\<rparr>)))"
  using UpdateEnvironment_effect [OF assms]
proof (elim disjE exE)
  fix w
  assume "s' = s\<lparr>ext := w\<rparr> \<and> isl res"
  then show ?thesis by (auto split: sum.splits)
next
  fix w now cur n d
  assume *: "select_environment (env_ID env) (db s) = Some cur
      \<and> CanTransition (er_status cur) (env_Status env)
      \<and> update_environment (environment_args (env\<lparr>env_UpdatedAt := now\<rparr>)) (db s) = Inr (n, d) \<and> n \<noteq> 0
      \<and> s' = s\<lparr>ext := w, db := d, log := EnvStored (env_ID env) (env_Status env) # log s\<rparr>
      \<and> (\<forall>env'. res = Inr env' \<longrightarrow>
            (\<exists>r. select_environment (env_ID env) d = Some r \<and> env' = scanEnvironment r))"
  let ?env' = "env\<lparr>env_CreatedAt := er_created_at cur, env_UpdatedAt := now\<rparr>"
  have "er_id cur = env_ID env"
    using * select_environment_SomeD by blast
  then have row: "set_columns (environment_args (env\<lparr>env_UpdatedAt := now\<rparr>)) cur = environment_args ?env'"
    by (simp add: set_columns_def environment_args_def)
  have sel: "select_environment i d = (if i = env_ID env then Some (environment_args ?env')
      else select_environment i (db s))" for i
    using select_after_update [of "environment_args (env\<lparr>env_UpdatedAt := now\<rparr>)" "db s" n d i] * row
    by (auto simp: option.map_ident)
  have d: "db s' = d" "db_dns_records d = db_dns_records (db s)" "db_events d = db_events (db s)"
    using * update_environment_others by auto
  show ?thesis
  proof (cases res)
    case (Inl e)
    with * sel d(1) show ?thesis by auto
  next
    case (Inr env')
    with * sel [of "env_ID env"] have e: "env' = ?env'"
      by simp
    have "\<exists>cur now. select_environment (env_ID env) (db s) = Some cur
        \<and> CanTransition (er_status cur) (env_Status env)
        \<and> env' = env\<lparr>env_CreatedAt := er_created_at cur, env_UpdatedAt := now\<rparr>
        \<and> select_environment (env_ID env) d = Some (environment_args env')"
      using * sel [of "env_ID env"] e by (intro exI [of _ cur] exI [of _ now]) simp
    with sel d show ?thesis
      unfolding Inr sum.case d by simp
  qed
qed

lemma update_environment_effect_Inr:
  assumes "run_state (UpdateEnvironment rt env) s = (Inr env', s')"
  shows "\<exists>cur now. select_environment (env_ID env) (db s) = Some cur
    \<and> CanTransition (er_status cur) (env_Status env)
    \<and> env' = env\<lparr>env_CreatedAt := er_created_at cur, env_UpdatedAt := now\<rparr>
    \<and> select_environment (env_ID env) (db s') = Some (environment_args env')"
  using update_environment_cases [OF assms] by simp

text \<open>
  C14: an update of an environment is all or nothing. When it succeeds, the environment it
  returns is what the row now holds: the status moved along an edge of the lifecycle graph,
  every field is the caller's except the creation time, which is kept, and the update time;
  the rows of every other environment, the DNS records and the events are untouched. When it
  fails, either no table changed, or the row was committed as asked and only reading it back
  failed.
\<close>

theorem update_environment_atomic:
  assumes "run_state (UpdateEnvironment rt env) s = (res, s')"
  shows "case res of
      Inr env' \<Rightarrow> (\<exists>cur now. select_environment (env_ID env) (db s) = Some cur
          \<and> CanTransition (er_status cur) (env_Status env)
          \<and> env' = env\<lparr>env_CreatedAt := er_created_at cur, env_UpdatedAt := now\<rparr>
          \<and> select_environment (env_ID env) (db s') = Some (environment_args env'))
        \<and> (\<forall>i. i = env_ID env \<or> select_environment i (db s') = select_environment i (db s))
        \<and> db_dns_records (db s') = db_dns_records (db s) \<and> db_events (db s') = db_events (db s)
    | Inl e \<Rightarrow> db s' = db s \<or>
        (\<exists>cur now. select_environment (env_ID env) (db s) = Some cur
          \<and> CanTransition (er_status cur) (env_Status env)
          \<and> select_environment (env_ID env) (db s')
              = Some (environment_args (env\<lparr>env_CreatedAt := er_created_at cur, env_UpdatedAt := now\<rparr>)))"
  using update_environment_cases [OF assms] .

definition example_db :: database where
  "example_db = \<lparr>db_environments =
       [environment_args (empty_Environment\<lparr>env_ID := ''e1'', env_Project := ''p'', env_Branch := ''b'',
          env_Status := StatusReady, env_DeployRef := ''d1''\<rparr>)],
     db_dns_records = [], db_events = []\<rparr>"

definition example_sys :: "unit sys" where
  "example_sys = \<lparr>ext = (), db = example_db, metrics = zero_Metrics, log = []\<rparr>"

lemma example_db_wf: "db_wf example_db"
  by (simp add: example_db_def db_wf_def envs_wf_def events_wf_def refs_wf_def)

theorem update_environment_atomic_witness:
  "\<exists>res s' . run_state (UpdateEnvironment zero_runtime (empty_Environment\<lparr>env_ID := ''e1'',
      env_Project := ''p'', env_Branch := ''b'', env_Status := StatusSleeping\<rparr>)) example_sys = (Inr res, s')
    \<and> select_environment ''e1'' (db s') = Some (environment_args res)"
proof -
  let ?env = "empty_Environment\<lparr>env_ID := ''e1'', env_Project := ''p'', env_Branch := ''b'', env_Status := StatusSleeping\<rparr>"
  obtain res s' where r: "run_state (UpdateEnvironment zero_runtime ?env) example_sys = (Inr res, s')"
    by (simp add: UpdateEnvironment_def commit_update_def GetEnvironment_def query_def run_err zero_runtime_def
        example_sys_def example_db_def select_environment_def update_environment_def validateTransition_def
        CanTransition_def allowedTransitions_def same_branch_def set_columns_def empty_Environment_def Let_def)
  with update_environment_atomic [OF r] show ?thesis
    by (auto simp: empty_Environment_def)
qed

text \<open>
  An environment is found where it was created: when \<open>CreateEnvironment\<close> succeeds, both the
  lookup by id and the lookup by project and branch, on a driver that does not fail, return
  exactly the environment it returned; when the project and branch are taken, it creates
  nothing.
\<close>

theorem create_then_get:
  assumes "db_wf (db s)" and "run_state (CreateEnvironment rt env) s = (res, s')" and "healthy_driver rt"
  shows "case res of
      Inr env' \<Rightarrow> fst (run_state (GetEnvironment rt (env_ID env')) s') = Inr env'
        \<and> fst (run_state (GetEnvironmentByProjectBranch rt (env_Project env) (env_Branch env)) s') = Inr env'
        \<and> select_by_branch (env_Project env) (env_Branch env) (db s) = None
    | Inl e \<Rightarrow> db s' = db s \<and> log s' = log s"
  using CreateEnvironment_effect [OF assms(2)]
proof (elim disjE exE)
  fix w
  assume "s' = s\<lparr>ext := w\<rparr> \<and> isl res"
  then show ?thesis by (auto split: sum.splits)
next
  fix w i now d
  let ?env = "env\<lparr>env_ID := i, env_CreatedAt := now, env_UpdatedAt := now\<rparr>"
  assume *: "insert_environment (environment_args ?env) (db s) = Inr d
      \<and> s' = s\<lparr>ext := w, db := d, log := EnvStored i (env_Status env) # log s\<rparr> \<and> res = Inr ?env"
  then have d: "d = db s\<lparr>db_environments := db_environments (db s) @ [environment_args ?env]\<rparr>"
    and new: "(env_Project env, env_Branch env) \<notin> (\<lambda>r. (er_project r, er_branch r)) ` set (db_environments (db s))"
    by (auto simp: insert_environment_Inr)
  have none: "select_by_branch (env_Project env) (env_Branch env) (db s) = None"
    using new by (auto simp: select_by_branch_def find_map_None_iff image_iff)
  then have br: "select_by_branch (env_Project env) (env_Branch env) d = Some (environment_args ?env)"
    by (simp add: d select_by_branch_def find_append)
  have byid: "select_environment i d = Some (environment_args ?env)"
    using * select_after_insert by fastforce
  obtain w1 where w1: "run_state (rt_sql rt) w = (None, w1)"
    using healthy_sql [OF assms(3)] by blast
  show ?thesis
    using * none br byid w1
    by (simp add: GetEnvironment_def GetEnvironmentByProjectBranch_def query_def run_err Let_def)
qed

lemma zero_healthy [simp]: "healthy_driver zero_runtime"
  by (simp add: healthy_driver_def zero_runtime_def)

lemma example_sys_wf [simp]: "db_wf (db example_sys)"
  by (simp add: example_sys_def example_db_wf)

theorem create_then_get_witness:
  "\<exists>env' s'. run_state (CreateEnvironment zero_runtime
       (empty_Environment\<lparr>env_ID := ''e2'', env_Project := ''p'', env_Branch := ''c''\<rparr>)) example_sys = (Inr env', s')
     \<and> fst (run_state (GetEnvironment zero_runtime ''e2'') s') = Inr env'"
proof -
  let ?env = "empty_Environment\<lparr>env_ID := ''e2'', env_Project := ''p'', env_Branch := ''c''\<rparr>"
  obtain env' s' where r: "run_state (CreateEnvironment zero_runtime ?env) example_sys = (Inr env', s')"
    and i: "env_ID env' = ''e2''"
    by (simp add: CreateEnvironment_def id_or_new_def exec_insert_def run_err zero_runtime_def example_sys_def
        example_db_def insert_environment_def same_branch_def empty_Environment_def environment_args_def Let_def)
  with create_then_get [OF _ r] show ?thesis by auto
qed

section \<open>Leases on events\<close>

lemma update_events_set:
  "update_events P f d = (n, d') \<Longrightarrow>
     set (db_events d') = (\<lambda>r. if P r then f r else r) ` set (db_events d)"
  unfolding update_events_def by (metis (no_types, lifting) database.select_convs(3) database.surjective
      database.update_convs(3) list.set_map prod.inject)

lemma claim_rows:
  assumes "claim_event i now later d = (n, d')" and "n = 1"
  shows "\<exists>r \<in> set (db_events d). vr_id r = i \<and> due_event now r"
proof -
  have "filter (\<lambda>r. vr_id r = i \<and> due_event now r) (db_events d) \<noteq> []"
    using assms by (auto simp: claim_event_def update_events_def)
  then show ?thesis by (auto simp: filter_empty_conv)
qed

lemma claimed_not_due:
  assumes "claim_event i now later d = (n, d')" and "now' < later" and "n = 1"
    and "distinct (map vr_id (db_events d))"
  shows "filter (\<lambda>r. vr_id r = i \<and> due_event now' r) (db_events d') = []"
proof -
  let ?P = "\<lambda>r. vr_id r = i \<and> due_event now r"
  obtain r0 where r0: "r0 \<in> set (db_events d)" "?P r0"
    using claim_rows [OF assms(1,3)] by blast
  have only: "r = r0" if "r \<in> set (db_events d)" "vr_id r = i" for r
    using that r0 assms(4) by (metis (no_types) distinct_map inj_onD)
  have ev: "set (db_events d') = (\<lambda>r. if ?P r then r\<lparr>vr_next_attempt_at := Some later\<rparr> else r) ` set (db_events d)"
    using assms(1) unfolding claim_event_def by (rule update_events_set)
  show ?thesis
    unfolding filter_empty_conv
  proof (intro ballI notI)
    fix r'
    assume "r' \<in> set (db_events d')" and due: "vr_id r' = i \<and> due_event now' r'"
    from this(1)[unfolded ev] obtain r where r: "r \<in> set (db_events d)" "r' = (if ?P r then r\<lparr>vr_next_attempt_at := Some later\<rparr> else r)"
      by (rule imageE)
    with due have "vr_id r = i"
      by (cases "?P r") simp_all
    with r only r0 have "r' = r0\<lparr>vr_next_attempt_at := Some later\<rparr>"
      by simp
    with due assms(2) show False
      by (simp add: due_event_def)
  qed
qed

text \<open>
  A lease is exclusive. An event is claimed only when it is pending and due; and from the
  moment a worker has claimed it until the lease it took runs out, every other claim of the
  same event, by whatever worker, is refused. This is what makes two dispatchers of the same
  inbox safe.
\<close>

theorem claim_is_exclusive:
  assumes "db_wf (db s)"
    and "run_state (ClaimEvent rt i now lease) s = (Inr True, s1)"
    and "run_state (ClaimEvent rt' i now' lease') (s1\<lparr>ext := w\<rparr>) = (res, s2)"
    and "now' < lease"
  shows "(\<exists>r \<in> set (db_events (db s)). vr_id r = i \<and> due_event now r) \<and> res \<noteq> Inr True"
proof -
  obtain w1 n d where c: "claim_event i now lease (db s) = (n, d)" "s1 = s\<lparr>ext := w1, db := d\<rparr>" "n = 1"
    using ClaimEvent_effect [OF assms(2)] by auto
  have wf: "events_wf (db_events (db s))"
    using assms(1) by (simp add: db_wf_def)
  have "filter (\<lambda>r. vr_id r = i \<and> due_event now' r) (db_events d) = []"
    using claimed_not_due [OF c(1) assms(4) c(3)] wf by (simp add: events_wf_def)
  then have "res \<noteq> Inr True"
    using ClaimEvent_effect [OF assms(3)] c(2)
    by (auto simp: claim_event_def update_events_def)
  with claim_rows [OF c(1,3)] show ?thesis by blast
qed

definition example_event :: event_row where
  "example_event = event_args (empty_StoreEvent\<lparr>ev_ID := ''v1'', ev_Kind := ''webhook_received''\<rparr>)"

definition inbox_sys :: "unit sys" where
  "inbox_sys = example_sys\<lparr>db := example_db\<lparr>db_events := [example_event]\<rparr>\<rparr>"

lemma inbox_sys_wf [simp]: "db_wf (db inbox_sys)"
  by (simp add: inbox_sys_def example_sys_def example_db_def example_event_def db_wf_def envs_wf_def
      events_wf_def refs_wf_def event_args_def nullableString_def empty_StoreEvent_def)

theorem claim_is_exclusive_witness:
  "\<exists>s1 res s2. run_state (ClaimEvent zero_runtime ''v1'' 5 600) inbox_sys = (Inr True, s1)
     \<and> run_state (ClaimEvent zero_runtime ''v1'' 6 700) (s1\<lparr>ext := ()\<rparr>) = (res, s2) \<and> res \<noteq> Inr True"
proof -
  obtain s1 where a: "run_state (ClaimEvent zero_runtime ''v1'' 5 600) inbox_sys = (Inr True, s1)"
    by (simp add: ClaimEvent_def exec_rows_def run_err zero_runtime_def inbox_sys_def example_sys_def example_db_def
        claim_event_def update_events_def example_event_def event_args_def due_event_def pending_event_def
        empty_StoreEvent_def nullableString_def)
  obtain res s2 where b: "run_state (ClaimEvent zero_runtime ''v1'' 6 700) (s1\<lparr>ext := ()\<rparr>) = (res, s2)"
    by (cases "run_state (ClaimEvent zero_runtime ''v1'' 6 700) (s1\<lparr>ext := ()\<rparr>)")
  from claim_is_exclusive [OF inbox_sys_wf a b] a b show ?thesis by auto
qed

section \<open>Retiring events\<close>

text \<open>Every row with the identifier is retired, in the given tables.\<close>

definition retired :: "string \<Rightarrow> database \<Rightarrow> bool" where
  "retired i d \<longleftrightarrow> (\<forall>r \<in> set (db_events d). vr_id r = i \<longrightarrow> \<not> pending_event r)"

lemma retired_not_selected:
  assumes "retired i d"
  shows "i \<notin> vr_id ` set (select_due now limit d)" and "i \<notin> vr_id ` set (select_unprocessed d)"
    and "fst (claim_event i now later d) = 0"
proof -
  have no: "\<not> (vr_id r = i \<and> pending_event r)" if "r \<in> set (db_events d)" for r
    using assms that by (auto simp: retired_def)
  have "\<not> (vr_id r = i \<and> due_event now r)" if "r \<in> set (db_events d)" for r
    using no [OF that] by (auto simp: due_event_def)
  then show "fst (claim_event i now later d) = 0"
    by (simp add: claim_event_def update_events_def filter_empty_conv)
  show "i \<notin> vr_id ` set (select_unprocessed d)"
    using no by (auto simp: select_unprocessed_def)
  show "i \<notin> vr_id ` set (select_due now limit d)"
    using no by (auto simp: select_due_def due_event_def dest!: in_set_takeD)
qed

text \<open>
  A dead-lettered event is retired for good. Once \<open>MarkEventDeadLettered\<close> has succeeded
  the event is still in the table for the operator, with the time and the error, but it is in
  no list of due or unprocessed events at any later time, no claim of it succeeds, and a
  second attempt to retry or retire it is refused.
\<close>

theorem dead_letter_is_final:
  assumes "run_state (MarkEventDeadLettered rt i at text) s = (None, s')"
  shows "(\<exists>r \<in> set (db_events (db s')). vr_id r = i \<and> vr_dead_lettered_at r = Some at \<and> vr_last_error r = text)
    \<and> i \<notin> vr_id ` set (select_due now limit (db s'))
    \<and> i \<notin> vr_id ` set (select_unprocessed (db s'))
    \<and> fst (claim_event i now later (db s')) = 0
    \<and> fst (Sqlite_Tables.mark_retry i now text' (db s')) = 0
    \<and> fst (Sqlite_Tables.mark_dead_lettered i now text' (db s')) = 0"
proof -
  let ?P = "\<lambda>r. vr_id r = i \<and> pending_event r"
  let ?f = "\<lambda>r. r\<lparr>vr_attempts := vr_attempts r + 1, vr_dead_lettered_at := Some at,
              vr_next_attempt_at := None, vr_last_error := text\<rparr>"
  obtain w n d where m: "Sqlite_Tables.mark_dead_lettered i at text (db s) = (n, d)" "db s' = d" "n \<noteq> 0"
    using exec_mark_effect [OF assms [unfolded MarkEventDeadLettered_def]] by auto
  have ev: "set (db_events d) = (\<lambda>r. if ?P r then ?f r else r) ` set (db_events (db s))"
    using m(1) unfolding mark_dead_lettered_def by (rule update_events_set)
  have "filter ?P (db_events (db s)) \<noteq> []"
    using m(1,3) by (auto simp: mark_dead_lettered_def update_events_def)
  then obtain r0 where r0: "r0 \<in> set (db_events (db s))" "?P r0"
    by (auto simp: filter_empty_conv)
  have "?f r0 \<in> set (db_events d)"
    unfolding ev using r0 by (intro image_eqI [of _ _ r0]) auto
  then have here: "\<exists>r \<in> set (db_events d). vr_id r = i \<and> vr_dead_lettered_at r = Some at \<and> vr_last_error r = text"
    using r0 by (intro bexI [of _ "?f r0"]) auto
  have ret: "retired i d"
    unfolding retired_def ev
  proof (intro ballI impI)
    fix r
    assume "r \<in> (\<lambda>r. if ?P r then ?f r else r) ` set (db_events (db s))" and "vr_id r = i"
    then obtain q where "r = (if ?P q then ?f q else q)"
      by (elim imageE)
    with \<open>vr_id r = i\<close> show "\<not> pending_event r"
      by (cases "?P q") (auto simp: pending_event_def)
  qed
  then have "\<not> ?P r" if "r \<in> set (db_events d)" for r
    using that by (auto simp: retired_def)
  then have marks: "fst (Sqlite_Tables.mark_retry i now text' d) = 0"
      "fst (Sqlite_Tables.mark_dead_lettered i now text' d) = 0"
    by (simp_all add: mark_retry_def mark_dead_lettered_def update_events_def filter_empty_conv)
  show ?thesis
    unfolding m(2) by (intro conjI here marks retired_not_selected [OF ret])
qed

theorem dead_letter_is_final_witness:
  "\<exists>s'. run_state (MarkEventDeadLettered zero_runtime ''v1'' 9 ''gone'') inbox_sys = (None, s')
     \<and> ''v1'' \<notin> vr_id ` set (select_due 100 10 (db s'))"
proof -
  obtain s' where a: "run_state (MarkEventDeadLettered zero_runtime ''v1'' 9 ''gone'') inbox_sys = (None, s')"
    by (simp add: MarkEventDeadLettered_def exec_mark_def exec_rows_def run_err zero_runtime_def inbox_sys_def
        example_sys_def example_db_def Sqlite_Tables.mark_dead_lettered_def update_events_def example_event_def event_args_def
        pending_event_def empty_StoreEvent_def nullableString_def)
  from dead_letter_is_final [OF a, of 100 10] a show ?thesis by blast
qed

section \<open>The inbox\<close>

lemma unique_error_Is [simp]: "isUniqueConstraintErr (unique_error cols)"
proof -
  have "\<exists>a b. ''constraint failed: UNIQUE constraint failed: '' @ cols = a @ ''UNIQUE constraint failed'' @ b"
    by (intro exI [of _ "''constraint failed: ''"] exI [of _ "'': '' @ cols"]) simp
  then show ?thesis
    unfolding isUniqueConstraintErr_def unique_error_def error_text.simps Contains_iff .
qed

text \<open>
  Deliveries are deduplicated. On a driver that does not fail, an event whose kind and
  delivery key are already in the table (processed, pending or retired) is refused with
  \<open>ErrConflict\<close> and no row is written, whatever its payload and identifier.
\<close>

theorem duplicate_delivery_refused:
  assumes "healthy_driver rt" and "ev_ID ev \<noteq> []" and "ev_DedupeKey ev \<noteq> []"
    and "r \<in> set (db_events (db s))" and "vr_kind r = ev_Kind ev" and "vr_dedupe_key r = Some (ev_DedupeKey ev)"
    and "run_state (CreateEvent rt ev) s = (res, s')"
  shows "res = Inl (wrapf (''creating event '' @ ev_Kind ev @ '': '') ErrConflict) \<and> db s' = db s \<and> log s' = log s"
proof -
  obtain now w where n: "run_state (rt_Now rt) (ext s) = (now, w)"
    by (cases "run_state (rt_Now rt) (ext s)")
  obtain w' where q: "run_state (rt_sql rt) w = (None, w')"
    using healthy_sql [OF assms(1)] by blast
  let ?row = "event_args (ev\<lparr>ev_ID := ev_ID ev, ev_CreatedAt := now\<rparr>)"
  have "list_ex (\<lambda>q. vr_kind q = vr_kind ?row \<and> vr_dedupe_key q = vr_dedupe_key ?row) (db_events (db s))"
    "vr_dedupe_key ?row \<noteq> None"
    using assms(3-6) by (auto simp: list_ex_iff event_args_def nullableString_def)
  then have "\<exists>cols. insert_event ?row (db s) = Inl (unique_error cols)"
    by (auto simp: insert_event_def)
  then show ?thesis
    using assms(2,7) n q
    by (auto simp: CreateEvent_def id_or_new_def exec_insert_def run_err fails_def Let_def)
qed

theorem duplicate_delivery_refused_witness:
  "\<exists>res s'. run_state (CreateEvent zero_runtime
       (empty_StoreEvent\<lparr>ev_ID := ''v3'', ev_Kind := ''webhook_received'', ev_DedupeKey := ''k''\<rparr>))
       (inbox_sys\<lparr>db := (db inbox_sys)\<lparr>db_events := [example_event\<lparr>vr_dedupe_key := Some ''k''\<rparr>]\<rparr>\<rparr>) = (res, s')
     \<and> res = Inl (wrapf (''creating event webhook_received: '') ErrConflict)"
proof -
  let ?ev = "empty_StoreEvent\<lparr>ev_ID := ''v3'', ev_Kind := ''webhook_received'', ev_DedupeKey := ''k''\<rparr>"
  let ?s = "inbox_sys\<lparr>db := (db inbox_sys)\<lparr>db_events := [example_event\<lparr>vr_dedupe_key := Some ''k''\<rparr>]\<rparr>\<rparr>"
  obtain res s' where r: "run_state (CreateEvent zero_runtime ?ev) ?s = (res, s')"
    by (cases "run_state (CreateEvent zero_runtime ?ev) ?s")
  have "res = Inl (wrapf (''creating event '' @ ev_Kind ?ev @ '': '') ErrConflict) \<and> db s' = db ?s \<and> log s' = log ?s"
    by (rule duplicate_delivery_refused [OF zero_healthy _ _ _ _ _ r, of "example_event\<lparr>vr_dedupe_key := Some ''k''\<rparr>"])
      (simp_all add: empty_StoreEvent_def example_event_def event_args_def)
  with r show ?thesis
    by (simp add: empty_StoreEvent_def)
qed

text \<open>
  Pruning loses no work. \<open>PruneProcessedEvents\<close> deletes processed events created before
  the given time and nothing else: every event that is pending, retired without success or
  younger is still in the table afterwards, unchanged.
\<close>

theorem prune_keeps_work:
  assumes "db_wf (db s)" and "run_state (PruneProcessedEvents rt before limit) s = (res, s')"
    and "r \<in> set (db_events (db s))" and "vr_processed_at r = None \<or> before \<le> vr_created_at r"
  shows "r \<in> set (db_events (db s')) \<and> set (db_events (db s')) \<subseteq> set (db_events (db s))
    \<and> db_environments (db s') = db_environments (db s)"
proof -
  define l where "l = (if limit \<le> 0 then 5000 else limit)"
  let ?old = "take (nat l) (sort_key vr_created_at
      (filter (\<lambda>r. vr_processed_at r \<noteq> None \<and> vr_created_at r < before) (db_events (db s))))"
  have "vr_id r \<notin> vr_id ` set ?old"
  proof
    assume "vr_id r \<in> vr_id ` set ?old"
    then obtain q where q: "q \<in> set ?old" "vr_id q = vr_id r" by (elim imageE) simp
    from in_set_takeD [OF q(1)]
    have "q \<in> set (db_events (db s))" "vr_processed_at q \<noteq> None" "vr_created_at q < before"
      by simp_all
    moreover have "inj_on vr_id (set (db_events (db s)))"
      using assms(1) by (simp add: db_wf_def events_wf_def distinct_map)
    ultimately have "q = r" "vr_processed_at q \<noteq> None" "vr_created_at q < before"
      using q(2) assms(3) by (simp_all add: inj_onD)
    with assms(4) show False by simp
  qed
  then have "r \<in> set (db_events (snd (prune_events before l (db s))))"
    using assms(3) by (simp add: prune_events_def Let_def)
  moreover have "set (db_events (snd (prune_events before l (db s)))) \<subseteq> set (db_events (db s))"
    "db_environments (snd (prune_events before l (db s))) = db_environments (db s)"
    by (simp_all add: prune_events_def Let_def)
  moreover have "db s' = db s \<or> db s' = snd (prune_events before l (db s))"
    using PruneProcessedEvents_effect [OF assms(2)] by (simp only: l_def)
  ultimately show ?thesis
    using assms(3) by (elim disjE) simp_all
qed

theorem prune_keeps_work_witness:
  "\<exists>res s'. run_state (PruneProcessedEvents zero_runtime 1000 0) inbox_sys = (res, s')
     \<and> example_event \<in> set (db_events (db s'))"
proof -
  obtain res s' where r: "run_state (PruneProcessedEvents zero_runtime 1000 0) inbox_sys = (res, s')"
    by (cases "run_state (PruneProcessedEvents zero_runtime 1000 0) inbox_sys")
  have "example_event \<in> set (db_events (db inbox_sys))" "vr_processed_at example_event = None"
    by (simp_all add: inbox_sys_def example_event_def event_args_def empty_StoreEvent_def)
  with prune_keeps_work [OF inbox_sys_wf r] r show ?thesis by blast
qed

end
