(* ===== verification/Reconciler_Invariants.thy ===== *)
theory Reconciler_Invariants
  imports Reconciler_Model Store_Theorems
begin

text \<open>
  The interfaces between the reconciler and what it calls, as locales, and what follows for
  every operation of the reconciler once for all invariants.

  \<open>store_contract\<close> is an invariant of the system state the store's writes keep, whatever the
  world and the counters do. \<open>reconciler_contract\<close> adds that one whole attempt of an apply
  keeps it, and \<open>free_log_contract\<close> that it does not depend on the provider calls in the log,
  which gives the attempt. \<open>table_contract\<close> is an invariant of the tables alone, kept by every
  SQL statement. Each is interpreted on the definitions of the model.
\<close>

text \<open>The kinds of the notifications that are sent.\<close>

definition sent_kinds :: "string list" where
  "sent_kinds = [''ready'', ''updated'', ''failed'', ''degraded'', ''destroyed'']"

text \<open>The log entries of calls that no part of an attempt makes and that write no row.\<close>

definition background :: "call \<Rightarrow> bool" where
  "background c = (case c of
       Applied _ _ \<Rightarrow> False | HealthChecked _ _ \<Rightarrow> False | RecordEnsured _ _ \<Rightarrow> False
     | CertificateEnsured _ _ \<Rightarrow> False | CertificateInstalled _ _ \<Rightarrow> False
     | EnvStored _ _ \<Rightarrow> False | EventStored _ _ _ \<Rightarrow> False
     | Notified _ _ ev \<Rightarrow> ne_Kind ev \<in> set sent_kinds | _ \<Rightarrow> True)"

definition stored_call :: "call \<Rightarrow> bool" where
  "stored_call c = (case c of EnvStored _ _ \<Rightarrow> True | EventStored _ _ _ \<Rightarrow> True | _ \<Rightarrow> False)"

text \<open>
  How the counters may move: the retry counter never does, and the gauge of pending events is
  left alone or set to the size of a batch, which is at most a hundred.
\<close>

definition counters_move :: "Metrics \<Rightarrow> Metrics \<Rightarrow> bool" where
  "counters_move m m' \<longleftrightarrow> Retries m' = Retries m
     \<and> (InboxPending m' = InboxPending m \<or> 0 \<le> InboxPending m' \<and> InboxPending m' \<le> 100)"

section \<open>The contract of the store\<close>

locale store_contract =
  fixes I :: "'w sys \<Rightarrow> bool" and r :: "'w Reconciler"
  assumes world: "I s \<Longrightarrow> I (s\<lparr>ext := w\<rparr>)"
    and counters: "counters_move (metrics s) m \<Longrightarrow> I s \<Longrightarrow> I (s\<lparr>metrics := m\<rparr>)"
    and create_environment: "env_Status env = StatusPending \<Longrightarrow> keeps I (CreateEnvironment (rc_store r) env)"
    and update_environment: "keeps I (UpdateEnvironment (rc_store r) env)"
    and create_dns_record: "keeps I (CreateDNSRecord (rc_store r) rec)"
    and delete_dns_record: "keeps I (DeleteDNSRecord (rc_store r) i)"
    and create_event: "keeps I (CreateEvent (rc_store r) ev)"
    and claim_event: "keeps I (ClaimEvent (rc_store r) i now later)"
    and mark_processed: "keeps I (MarkEventProcessed (rc_store r) i at)"
    and mark_dead_lettered: "keeps I (MarkEventDeadLettered (rc_store r) i at text)"
    and mark_retry: "keeps I (MarkEventRetry (rc_store r) i at text)"
    and prune: "keeps I (PruneProcessedEvents (rc_store r) before limit)"
begin

lemma outside_keeps [keeps_rules]: "keeps I (outside m)"
  by (auto intro!: keepsI world split: prod.splits)

lemma count_keeps: "(\<And>m. counters_move m (f m)) \<Longrightarrow> keeps I (count f)"
  by (auto intro!: keepsI counters)

lemma fails_keeps [keeps_rules]: "keeps I (fails p e)" "keeps I (fails_with p e)"
  by (auto simp: fails_def fails_with_def intro: keeps_rules)

lemma ignore_keeps [keeps_rules]: "keeps I m \<Longrightarrow> keeps I (ignore m)"
  unfolding ignore_def by (intro keeps_rules)

lemma query_keeps [keeps_rules]: "keeps I (query rt sel)"
  unfolding query_def by (intro keeps_rules)

lemma reads_keep [keeps_rules]:
  "keeps I (GetEnvironment rt i)"
  "keeps I (GetEnvironmentByProjectBranch rt p b)"
  "keeps I (CountLiveEnvironments rt)"
  "keeps I (ListExpiredEnvironments rt now)"
  "keeps I (ListDNSRecords rt i)"
  "keeps I (ListDueEvents rt now l)"
  "keeps I (ListUnprocessedEvents rt)"
  "keeps I (CountDeadLetteredEvents rt)"
  "keeps I (ListEnvironments rt opts)"
  unfolding ListUnprocessedEvents_def CountDeadLetteredEvents_def ListEnvironments_def GetEnvironment_def GetEnvironmentByProjectBranch_def CountLiveEnvironments_def
    ListExpiredEnvironments_def ListDNSRecords_def ListDueEvents_def scanEvents_def Let_def
  by (intro keeps_rules)+

lemmas writes_keep [keeps_rules] = update_environment create_dns_record delete_dns_record
  create_event claim_event mark_processed mark_dead_lettered mark_retry prune

lemma upsert_keeps [keeps_rules]: "keeps I (upsertPendingEnvironment r req)"
  unfolding upsertPendingEnvironment_def by (intro keeps_rules create_environment) simp

lemma bookkeeping_keeps [keeps_rules]: "keeps I (markProcessed r ev)" "keeps I (scheduleRetry r ev e)"
  unfolding markProcessed_def scheduleRetry_def Let_def by (intro keeps_rules)+

lemma recordDNSRow_keeps [keeps_rules]: "keeps I (recordDNSRow r i rec)"
  unfolding recordDNSRow_def by (intro keeps_rules)

lemma persist_ready_keeps [keeps_rules]: "keeps I (persist_ready r env req ref)"
  unfolding persist_ready_def attempt_fails_def Let_def by (intro keeps_rules)

end

section \<open>The contract of an attempt\<close>

locale reconciler_contract = store_contract I r for I :: "'w sys \<Rightarrow> bool" and r :: "'w Reconciler" +
  assumes quiet: "background c \<Longrightarrow> I s \<Longrightarrow> I (s\<lparr>log := c # log s\<rparr>)"
    and attempt: "keeps I (attemptApply r env req name tag)"
begin

lemma log_keeps: "background c \<Longrightarrow> keeps I (log_call c)"
  by (auto intro!: keepsI quiet)

lemma provider_keeps: "(\<And>x. background (c x)) \<Longrightarrow> keeps I (provider_call c m)"
  unfolding provider_call_def by (intro keeps_rules log_keeps)

lemma locked_keeps [keeps_rules]: "keeps I m \<Longrightarrow> keeps I (with_lock p b m)"
  unfolding with_lock_def by (intro keeps_rules log_keeps) (simp_all add: background_def)

lemma notify_keeps [keeps_rules]: "ne_Kind ev \<in> set sent_kinds \<Longrightarrow> keeps I (notify r p n ev)"
  unfolding notify_def by (intro keeps_rules provider_keeps) (simp add: background_def)

lemma attempts_keep [keeps_rules]: "keeps I (apply_attempts r req name tag n a env e)"
  by (induction n arbitrary: a env e) (auto intro!: keeps_rules attempt)

lemma doApply_keeps [keeps_rules]: "keeps I (doApply r env req)"
  unfolding doApply_def rolled_back_def apply_failed_def Let_def
  by (intro keeps_rules attempt) (simp_all add: sent_kinds_def)

lemma Apply_keeps [keeps_rules]: "keeps I (Apply r req)"
  unfolding Apply_def applyLocked_def Let_def by (intro keeps_rules)

lemma applyWithoutEvent_keeps [keeps_rules]: "keeps I (applyWithoutEvent r req)"
  unfolding applyWithoutEvent_def by (intro keeps_rules)

lemma teardown_keeps [keeps_rules]: "keeps I (teardown r env)"
  unfolding teardown_def teardown_step_def destroyRecord_def removeCertificate_def
    destroyDeployment_def Let_def
  by (intro keeps_rules provider_keeps) (simp_all add: background_def)

lemma doDestroy_keeps [keeps_rules]: "keeps I (doDestroy r env)"
  unfolding doDestroy_def by (intro keeps_rules) (simp add: sent_kinds_def)

lemma mark_destroying_keeps [keeps_rules]: "keeps I (mark_destroying r env)"
  unfolding mark_destroying_def by (intro keeps_rules)

lemma Destroy_keeps [keeps_rules]: "keeps I (Destroy r env)" "keeps I (destroyWithoutEvent r env)"
  unfolding Destroy_def destroyLocked_def destroyWithoutEvent_def Let_def by (intro keeps_rules)+

lemma doSleep_keeps [keeps_rules]: "keeps I (doSleep r env)"
  unfolding doSleep_def by (intro keeps_rules provider_keeps) (simp add: background_def)

lemma doWake_keeps [keeps_rules]: "keeps I (doWake r env)"
  unfolding doWake_def by (intro keeps_rules provider_keeps) (simp add: background_def)

lemma Sleep_keeps [keeps_rules]: "keeps I (Sleep r env)"
  unfolding Sleep_def durable_action_def by (intro keeps_rules)

lemma Wake_keeps [keeps_rules]: "keeps I (Wake r env)"
  unfolding Wake_def durable_action_def by (intro keeps_rules)

lemma admit_keeps [keeps_rules]: "keeps I (admit r ev req)"
  unfolding admit_def admission_reserve_def Let_def
  by (intro keeps_rules log_keeps) (simp_all add: background_def)

lemma ProcessWebhookEvent_keeps [keeps_rules]: "keeps I (ProcessWebhookEvent r ev)"
  unfolding ProcessWebhookEvent_def Let_def by (intro keeps_rules)

lemma dispatch_keeps [keeps_rules]: "keeps I (dispatchEvent r ev)"
  unfolding dispatchEvent_def replay_on_env_def error_only_def by (intro keeps_rules)

lemma ProcessEvent_keeps [keeps_rules]: "keeps I (ProcessEvent r ev)"
  unfolding ProcessEvent_def by (intro keeps_rules count_keeps) (simp_all add: counters_move_def)

lemma Replay_keeps [keeps_rules]: "keeps I (ReplayEvents r evs)" "keeps I (ReplayUnprocessedEvents r)"
  unfolding ReplayUnprocessedEvents_def ReplayEvents_def by (intro keeps_rules)+

end

section \<open>Invariants that ignore the provider calls\<close>

locale free_log_contract = store_contract I r for I :: "'w sys \<Rightarrow> bool" and r :: "'w Reconciler" +
  assumes any_call: "\<not> stored_call c \<Longrightarrow> I s \<Longrightarrow> I (s\<lparr>log := c # log s\<rparr>)"
begin

lemma any_provider_keeps: "(\<And>x. \<not> stored_call (c x)) \<Longrightarrow> keeps I (provider_call c m)"
  unfolding provider_call_def by (intro keeps_rules) (auto intro!: keepsI any_call)

lemma poll_health_keeps: "keeps I (poll_health r ref d n)"
  by (induction n) (auto intro!: keeps_rules any_provider_keeps simp: stored_call_def)

lemma attempt_keeps: "keeps I (attemptApply r env req name tag)"
  unfolding attemptApply_def attempt_fails_def waitUntilHealthy_def installCertificate_def Let_def
  by (intro keeps_rules any_provider_keeps poll_health_keeps) (simp_all add: stored_call_def)

end

sublocale free_log_contract \<subseteq> reconciler_contract I r
proof unfold_locales
  show "I (s\<lparr>log := c # log s\<rparr>)" if "background c" "I s" for c s
    using that by (intro any_call) (auto simp: background_def stored_call_def split: call.splits)
  show "keeps I (attemptApply r env req name tag)" for env req name tag
    by (rule attempt_keeps)
qed

section \<open>Invariants of the tables\<close>

sublocale table_contract \<subseteq> sys: free_log_contract "\<lambda>s :: 'w sys. J (db s)" r for r :: "'w Reconciler"
  by unfold_locales (simp_all add: environment_writes_J record_writes_J event_writes_J prune_J)

end
