(* ===== verification/Environment_History.thy ===== *)
theory Environment_History
  imports Reconciler_Invariants
begin

text \<open>
  The life of the environments across the operations of the reconciler: the tables stay well
  formed and the statuses an environment takes, read off the log of committed writes, form a
  legal history of the lifecycle graph that ends in the status of its row.
\<close>

section \<open>The statuses written\<close>

text \<open>The statuses written for one environment, newest first.\<close>

fun stored :: "string \<Rightarrow> call list \<Rightarrow> string list" where
  "stored i [] = []"
| "stored i (EnvStored j st # l) = (if i = j then st # stored i l else stored i l)"
| "stored i (_ # l) = stored i l"

text \<open>The status of an environment before the log begins, if its row is there.\<close>

definition status_in :: "database \<Rightarrow> string \<Rightarrow> string list" where
  "status_in d i = (case select_environment i d of None \<Rightarrow> [] | Some r \<Rightarrow> [er_status r])"

text \<open>The history of an environment since the database was \<open>d0\<close>, oldest first.\<close>

definition history :: "database \<Rightarrow> 'w sys \<Rightarrow> string \<Rightarrow> string list" where
  "history d0 s i = status_in d0 i @ rev (stored i (log s))"

definition legal_system :: "database \<Rightarrow> 'w sys \<Rightarrow> bool" where
  "legal_system d0 s \<longleftrightarrow> (\<forall>i. legal_history (history d0 s i) \<and>
     (case select_environment i (db s) of
        None \<Rightarrow> history d0 s i = []
      | Some r \<Rightarrow> history d0 s i \<noteq> [] \<and> last (history d0 s i) = er_status r))"

lemma stored_call_skip: "\<not> stored_call c \<Longrightarrow> stored i (c # l) = stored i l"
  by (cases c) (auto simp: stored_call_def)

lemma legal_history_snoc:
  "legal_history (h @ [t]) \<longleftrightarrow> legal_history h \<and> (if h = [] then known_status t else CanTransition (last h) t)"
proof (induction h rule: legal_history.induct)
  case (2 s)
  then show ?case using CanTransition_known by auto
qed auto

lemma legal_step:
  assumes leg: "legal_system d0 s" and st: "\<And>j. stored j (log s') = (if j = i then st # stored j (log s) else stored j (log s))"
    and sel: "\<And>j. j \<noteq> i \<Longrightarrow> map_option er_status (select_environment j (db s')) = map_option er_status (select_environment j (db s))"
    and new: "map_option er_status (select_environment i (db s')) = Some st"
    and move: "case select_environment i (db s) of None \<Rightarrow> known_status st | Some r \<Rightarrow> CanTransition (er_status r) st"
  shows "legal_system d0 s'"
  unfolding legal_system_def
proof (intro allI)
  fix j
  have old: "legal_history (history d0 s j) \<and> (case select_environment j (db s) of
        None \<Rightarrow> history d0 s j = []
      | Some r \<Rightarrow> history d0 s j \<noteq> [] \<and> last (history d0 s j) = er_status r)"
    using leg unfolding legal_system_def by blast
  show "legal_history (history d0 s' j) \<and> (case select_environment j (db s') of
        None \<Rightarrow> history d0 s' j = []
      | Some r \<Rightarrow> history d0 s' j \<noteq> [] \<and> last (history d0 s' j) = er_status r)"
  proof (cases "j = i")
    case False
    then have h: "history d0 s' j = history d0 s j"
      by (simp add: history_def st)
    show ?thesis
      using old sel [OF False] unfolding h by (auto split: option.splits)
  next
    case True
    then have h: "history d0 s' j = history d0 s j @ [st]"
      by (simp add: history_def st)
    obtain r' where r': "select_environment j (db s') = Some r'" "er_status r' = st"
      using new True by auto
    have "legal_history (history d0 s j @ [st])"
      using old move True by (auto simp: legal_history_snoc split: option.splits)
    with h r' show ?thesis by simp
  qed
qed

lemma legal_same:
  assumes "legal_system d0 s" and "\<And>j. stored j (log s') = stored j (log s)"
    and "\<And>j. select_environment j (db s') = select_environment j (db s)"
  shows "legal_system d0 s'"
proof -
  have h: "history d0 s' = history d0 s"
    using assms(2) by (simp add: history_def fun_eq_iff)
  show ?thesis
    using assms(1) unfolding legal_system_def assms(3) h .
qed

lemma select_environments_same:
  "db_environments d' = db_environments d \<Longrightarrow> select_environment j d' = select_environment j d"
  by (simp add: select_environment_def)

lemma event_statement_environments:
  "claim_event i now later d = (n, d') \<Longrightarrow> db_environments d' = db_environments d"
  "Sqlite_Tables.mark_processed i now d = (n, d') \<Longrightarrow> db_environments d' = db_environments d"
  "Sqlite_Tables.mark_dead_lettered i now text d = (n, d') \<Longrightarrow> db_environments d' = db_environments d"
  "Sqlite_Tables.mark_retry i now text d = (n, d') \<Longrightarrow> db_environments d' = db_environments d"
  "insert_event row d = Inr d' \<Longrightarrow> db_environments d' = db_environments d"
  "insert_dns_record rec d = Inr d' \<Longrightarrow> db_environments d' = db_environments d"
  by (auto simp: claim_event_def mark_processed_def mark_dead_lettered_def mark_retry_def update_events_def
      insert_event_def insert_dns_record_def split: if_splits option.splits)

lemma delete_dns_record_environments: "db_environments (delete_dns_record k d) = db_environments d"
  by (simp add: delete_dns_record_def)

lemma legal_create:
  "env_Status env = StatusPending \<Longrightarrow> keeps (legal_system d0) (CreateEnvironment rt env)"
proof (rule keepsI)
  fix s a s'
  assume p: "env_Status env = StatusPending" and l: "legal_system d0 s"
    and run: "run_state (CreateEnvironment rt env) s = (a, s')"
  show "legal_system d0 s'"
    using CreateEnvironment_effect [OF run]
  proof (elim disjE exE conjE)
    fix w assume "s' = s\<lparr>ext := w\<rparr>"
    with l show ?thesis by (auto intro: legal_same)
  next
    fix w i now d
    let ?row = "environment_args (env\<lparr>env_ID := i, env_CreatedAt := now, env_UpdatedAt := now\<rparr>)"
    assume ins: "insert_environment ?row (db s) = Inr d"
      and s': "s' = s\<lparr>ext := w, db := d, log := EnvStored i (env_Status env) # log s\<rparr>"
    have "select_environment i (db s) = None"
      using ins by (auto simp: insert_environment_Inr select_environment_None)
    then show ?thesis
      using l select_after_insert [OF ins] p s'
      by (intro legal_step [of d0 s s' i "env_Status env"]) (auto simp: known_status_iff)
  qed
qed

lemma legal_update: "keeps (legal_system d0) (UpdateEnvironment rt env)"
proof (rule keepsI)
  fix s a s'
  assume l: "legal_system d0 s" and run: "run_state (UpdateEnvironment rt env) s = (a, s')"
  show "legal_system d0 s'"
    using UpdateEnvironment_effect [OF run]
  proof (elim disjE exE conjE)
    fix w assume "s' = s\<lparr>ext := w\<rparr>"
    with l show ?thesis by (auto intro: legal_same)
  next
    fix w now cur n d
    let ?row = "environment_args (env\<lparr>env_UpdatedAt := now\<rparr>)"
    assume sel: "select_environment (env_ID env) (db s) = Some cur"
      and move: "CanTransition (er_status cur) (env_Status env)"
      and upd: "update_environment ?row (db s) = Inr (n, d)" "n \<noteq> 0"
      and s': "s' = s\<lparr>ext := w, db := d, log := EnvStored (env_ID env) (env_Status env) # log s\<rparr>"
    show ?thesis
      using l select_after_update [OF upd] sel move s'
      by (intro legal_step [of d0 s s' "env_ID env" "env_Status env"]) (auto simp: option.map_comp comp_def)
  qed
qed

interpretation legal: free_log_contract "legal_system d0 :: 'w sys \<Rightarrow> bool" r for d0 and r :: "'w Reconciler"
proof unfold_locales
  fix s :: "'w sys"
  show "legal_system d0 s \<Longrightarrow> legal_system d0 (s\<lparr>ext := w\<rparr>)" for w
    by (erule legal_same) simp_all
  show "legal_system d0 s \<Longrightarrow> legal_system d0 (s\<lparr>metrics := m\<rparr>)" for m
    by (erule legal_same) simp_all
  show "\<not> stored_call c \<Longrightarrow> legal_system d0 s \<Longrightarrow> legal_system d0 (s\<lparr>log := c # log s\<rparr>)" for c
    by (rule legal_same) (simp_all add: stored_call_skip)
next
  show "env_Status env = StatusPending \<Longrightarrow> keeps (legal_system d0) (CreateEnvironment (rc_store r) env)" for env
    by (rule legal_create)
  show "keeps (legal_system d0) (UpdateEnvironment (rc_store r) env)" for env
    by (rule legal_update)
  show "keeps (legal_system d0) (CreateDNSRecord (rc_store r) rec)" for rec
    by (rule keepsI, drule CreateDNSRecord_effect)
      (auto intro: legal_same dest!: event_statement_environments intro!: select_environments_same)
  show "keeps (legal_system d0) (DeleteDNSRecord (rc_store r) i)" for i
    by (rule keepsI, drule DeleteDNSRecord_effect)
      (auto intro: legal_same intro!: select_environments_same simp: delete_dns_record_environments)
  show "keeps (legal_system d0) (CreateEvent (rc_store r) ev)" for ev
    by (rule keepsI, drule CreateEvent_effect)
      (auto intro: legal_same dest!: event_statement_environments intro!: select_environments_same)
  show "keeps (legal_system d0) (ClaimEvent (rc_store r) i now later)" for i now later
    by (rule keepsI, drule ClaimEvent_effect)
      (auto intro: legal_same dest!: event_statement_environments intro!: select_environments_same)
  show "keeps (legal_system d0) (MarkEventProcessed (rc_store r) i at)" for i at
    unfolding MarkEventProcessed_def by (rule keepsI, drule exec_mark_effect)
      (auto intro: legal_same dest!: event_statement_environments intro!: select_environments_same)
  show "keeps (legal_system d0) (MarkEventDeadLettered (rc_store r) i at msg)" for i at msg
    unfolding MarkEventDeadLettered_def by (rule keepsI, drule exec_mark_effect)
      (auto intro: legal_same dest!: event_statement_environments intro!: select_environments_same)
  show "keeps (legal_system d0) (MarkEventRetry (rc_store r) i at msg)" for i at msg
    unfolding MarkEventRetry_def by (rule keepsI, drule exec_mark_effect)
      (auto intro: legal_same dest!: event_statement_environments intro!: select_environments_same)
  show "keeps (legal_system d0) (PruneProcessedEvents (rc_store r) before limit)" for before limit
    by (rule keepsI, drule PruneProcessedEvents_effect)
      (auto intro: legal_same intro!: select_environments_same simp: prune_events_def Let_def)
qed

end
