(* ===== verification/Reaper_Model.thy ===== *)
theory Reaper_Model
  imports Environment_History
begin

text \<open>
  \<open>internal/core/reaper.go\<close>: the sweep that destroys expired environments. Its invariants are
  those of \<open>Destroy\<close>, through the contract of the reconciler.
\<close>

record 'w Reaper =
  rp_store :: "'w runtime"
  rp_reconciler :: "'w Reconciler"
  rp_Now :: "('w, time) state"

definition NewReaper :: "'w runtime \<Rightarrow> 'w Reconciler \<Rightarrow> 'w Clock \<Rightarrow> 'w Reaper" where
  "NewReaper st reconciler clock =
     \<lparr>rp_store = st, rp_reconciler = reconciler, rp_Now = ck_Now clock\<rparr>"

definition sweepOne :: "'w Reaper \<Rightarrow> Environment \<Rightarrow> ('w sys, error list) state" where
  "sweepOne rp env =
     if_err (Destroy (rp_reconciler rp) env)
       (\<lambda>err. ret [wrapf (''environment '' @ env_ID env @ '': '') err]) (ret [])"

definition Sweep :: "'w Reaper \<Rightarrow> ('w sys, error option) state" where
  "Sweep rp = do {
     count (\<lambda>m. m\<lparr>CleanupRuns := CleanupRuns m + 1\<rparr>);
     now \<leftarrow> outside (rp_Now rp);
     on_err (ListExpiredEnvironments (rp_store rp) now)
       (\<lambda>err. do {
         count (\<lambda>m. m\<lparr>CleanupFailures := CleanupFailures m + 1\<rparr>);
         fails_with ''reaper: listing expired environments: '' err })
       (\<lambda>expired. do {
         errs \<leftarrow> for_each (sweepOne rp) expired;
         (if errs \<noteq> [] then do {
            count (\<lambda>m. m\<lparr>CleanupFailures := CleanupFailures m + int (length errs)\<rparr>);
            fails_with ''reaper: sweep: '' (Joined errs) }
          else ret None) }) }"

context reconciler_contract
begin

lemma Sweep_keeps: "rp_reconciler rp = r \<Longrightarrow> keeps I (Sweep rp)"
  unfolding Sweep_def sweepOne_def by (intro keeps_rules count_keeps) (simp_all add: Destroy_keeps counters_move_def)

end

end
