(* ===== verification/Http_Api.thy ===== *)
theory Http_Api
  imports Reaper_Model
begin

text \<open>
  \<open>internal/api\<close>: the handlers of the control API on the system state, the bearer-token guard
  of its TCP listener and its routes. A request holds what the handlers read of an
  \<open>http.Request\<close>; a response is a status, the headers and the value the body encodes. The
  bounded webhook queue is a list that the handlers take and return.
\<close>

section \<open>Requests and responses\<close>

record request =
  rq_Path :: string
  rq_Query :: "string \<Rightarrow> string"
  rq_Header :: "string \<Rightarrow> string"
  rq_id :: string
  rq_Body :: bytes
  rq_body_err :: "error option"

datatype body =
    NoBody
  | JsonEnvironment Environment
  | JsonEnvironments "Environment list"
  | JsonError string
  | JsonConfig string
  | PlainText string

record response =
  rs_Status :: int
  rs_Headers :: "(string \<times> string) list"
  rs_Body :: body

abbreviation StatusOK :: int where "StatusOK \<equiv> 200"
abbreviation StatusCreated :: int where "StatusCreated \<equiv> 201"
abbreviation StatusAccepted :: int where "StatusAccepted \<equiv> 202"
abbreviation StatusNoContent :: int where "StatusNoContent \<equiv> 204"
abbreviation StatusPermanentRedirect :: int where "StatusPermanentRedirect \<equiv> 308"
abbreviation StatusBadRequest :: int where "StatusBadRequest \<equiv> 400"
abbreviation StatusUnauthorized :: int where "StatusUnauthorized \<equiv> 401"
abbreviation StatusNotFound :: int where "StatusNotFound \<equiv> 404"
abbreviation StatusConflict :: int where "StatusConflict \<equiv> 409"
abbreviation StatusInternalServerError :: int where "StatusInternalServerError \<equiv> 500"
abbreviation StatusNotImplemented :: int where "StatusNotImplemented \<equiv> 501"
abbreviation StatusServiceUnavailable :: int where "StatusServiceUnavailable \<equiv> 503"

definition WriteHeader :: "int \<Rightarrow> response" where
  "WriteHeader status = \<lparr>rs_Status = status, rs_Headers = [], rs_Body = NoBody\<rparr>"

definition writeJSON :: "(string \<times> string) list \<Rightarrow> int \<Rightarrow> body \<Rightarrow> response" where
  "writeJSON headers status v =
     \<lparr>rs_Status = status, rs_Headers = headers @ [(''Content-Type'', ''application/json'')], rs_Body = v\<rparr>"

definition writeError :: "int \<Rightarrow> string \<Rightarrow> response" where
  "writeError status message = writeJSON [] status (JsonError message)"

text \<open>\<open>http.MaxBytesReader\<close>: how a body longer than the limit, or one whose connection fails, reads.\<close>

definition ReadAll_limited :: "nat \<Rightarrow> request \<Rightarrow> error + bytes" where
  "ReadAll_limited limit r =
     (if length (rq_Body r) > limit then Inl (Opaque ''http: request body too large'')
      else case rq_body_err r of Some e \<Rightarrow> Inl e | None \<Rightarrow> Inr (rq_Body r))"

text \<open>
  \<open>json.NewDecoder(r.Body).Decode\<close> into a struct: the first value of what the reader yields;
  bytes after it are not looked at. A literal \<open>null\<close> needs the byte after it, or the end of
  the body, to be complete.
\<close>

definition decode_body :: "nat \<Rightarrow> ((string \<times> json) list \<Rightarrow> 'a option) \<Rightarrow> request \<Rightarrow> 'a option" where
  "decode_body limit dec r =
     (let seen = take limit (rq_Body r);
          complete = (length (rq_Body r) \<le> limit \<and> rq_body_err r = None)
      in case parse_value (2 * length seen + 2) seen of
           Some (JObj ms, _) \<Rightarrow> dec ms
         | Some (JNull, rest) \<Rightarrow> if rest = [] \<and> \<not> complete then None else dec []
         | _ \<Rightarrow> None)"

text \<open>\<open>strconv.Atoi\<close>: an optional sign and decimal digits, in the range of \<open>int\<close>.\<close>

definition Atoi :: "string \<Rightarrow> int option" where
  "Atoi s = (if s \<noteq> [] \<and> hd s = CHR ''+'' \<and> \<not> HasPrefix (tl s) ''-'' then ParseInt (tl s) else ParseInt s)"

section \<open>The server\<close>

text \<open>\<open>sv_assets\<close> stands for the file server over the embedded dashboard.\<close>

record 'w GitProvider =
  gp_ParseWebhook :: "bytes \<Rightarrow> string \<Rightarrow> ('w, error + Event) state"
  gp_HeaderNamer :: "(string \<times> string) option"

record 'w Server =
  sv_store :: "'w runtime"
  sv_reconciler :: "'w Reconciler"
  sv_git :: "'w GitProvider"
  sv_deploy :: "'w DeployProvider"
  sv_baseDomain :: string
  sv_subdomainMax :: int
  sv_assets :: "string \<Rightarrow> response"

definition NewServer ::
  "'w runtime \<Rightarrow> 'w Reconciler \<Rightarrow> 'w GitProvider \<Rightarrow> 'w DeployProvider \<Rightarrow> string
   \<Rightarrow> (string \<Rightarrow> response) \<Rightarrow> 'w Server" where
  "NewServer st reconciler git deploy baseDomain assets =
     \<lparr>sv_store = st, sv_reconciler = reconciler, sv_git = git, sv_deploy = deploy,
      sv_baseDomain = baseDomain, sv_subdomainMax = 63, sv_assets = assets\<rparr>"

abbreviation maxWebhookBody :: nat where "maxWebhookBody \<equiv> 2 * 1024 * 1024"
abbreviation maxAPIRequestBody :: nat where "maxAPIRequestBody \<equiv> 1024 * 1024"
abbreviation readyMaxHeartbeatAge :: time where "readyMaxHeartbeatAge \<equiv> 30 * Second"
abbreviation readyMaxInboxBacklog :: int where "readyMaxInboxBacklog \<equiv> 1000"
abbreviation webhookQueueSize :: nat where "webhookQueueSize \<equiv> 256"

definition lookupEnvironment :: "'w Server \<Rightarrow> request \<Rightarrow> ('w sys, response + Environment) state" where
  "lookupEnvironment sv r =
     on_err (GetEnvironment (sv_store sv) (rq_id r))
       (\<lambda>err. ret (Inl (if errors_Is err ErrNotFound then writeError StatusNotFound ''environment not found''
                        else writeError StatusInternalServerError ''looking up environment'')))
       (\<lambda>env. ret (Inr env))"

text \<open>\<open>env, ok := s.lookupEnvironment(w, r); if !ok { return }\<close>\<close>

definition with_environment ::
  "'w Server \<Rightarrow> request \<Rightarrow> (Environment \<Rightarrow> ('w sys, response) state) \<Rightarrow> ('w sys, response) state" where
  "with_environment sv r k = on_err (lookupEnvironment sv r) (\<lambda>w. ret w) k"

section \<open>Health, readiness and metrics\<close>

definition handleHealthz :: "'w Server \<Rightarrow> request \<Rightarrow> ('w sys, response) state" where
  "handleHealthz sv r =
     on_err (ListEnvironments (sv_store sv) \<lparr>lo_Project = [], lo_Branch = [], lo_Limit = 1, lo_Offset = 0\<rparr>)
       (\<lambda>_. ret (writeError StatusServiceUnavailable ''store unavailable''))
       (\<lambda>_. ret (WriteHeader StatusOK))"

definition handleReadyz :: "'w Server \<Rightarrow> request \<Rightarrow> ('w sys, response) state" where
  "handleReadyz sv r =
     on_err (ListUnprocessedEvents (sv_store sv))
       (\<lambda>_. ret (writeError StatusServiceUnavailable ''event store unavailable''))
       (\<lambda>_. do {
         s \<leftarrow> get_state;
         now \<leftarrow> (if WorkerHeartbeat (metrics s) = 0 then ret 0 else outside (rt_Now (sv_store sv)));
         if WorkerHeartbeat (metrics s) = 0 \<or> now - WorkerHeartbeat (metrics s) > readyMaxHeartbeatAge then
           ret (writeError StatusServiceUnavailable ''event worker heartbeat stale'')
         else if InboxPending (metrics s) > readyMaxInboxBacklog then
           ret (writeError StatusServiceUnavailable ''event backlog exceeds threshold'')
         else ret (WriteHeader StatusOK) })"

text \<open>One metric in the exposition format.\<close>

definition metric_text :: "string \<Rightarrow> string \<times> string \<times> int \<Rightarrow> string" where
  "metric_text kind m = (case m of (name, help, v) \<Rightarrow>
     ''# HELP '' @ name @ '' '' @ help @ [CHR 0x0A] @ ''# TYPE '' @ name @ '' '' @ kind @ [CHR 0x0A]
       @ name @ '' '' @ Itoa v @ [CHR 0x0A])"

definition WritePrometheus :: "Metrics \<Rightarrow> string" where
  "WritePrometheus m =
     concat (map (metric_text ''counter'')
       [(''ramify_webhook_received_total'', ''Webhook deliveries accepted for processing'', WebhookReceived m),
        (''ramify_webhook_rejected_total'', ''Webhook deliveries rejected'', WebhookRejected m),
        (''ramify_webhook_duplicates_total'', ''Duplicate webhook deliveries'', WebhookDuplicates m),
        (''ramify_reconciliations_total'', ''Reconciliation attempts'', Reconciliations m),
        (''ramify_reconciliation_failures_total'', ''Failed reconciliations'', ReconciliationFailures m),
        (''ramify_retries_total'', ''Retry attempts'', Retries m),
        (''ramify_cleanup_runs_total'', ''Reaper cleanup runs'', CleanupRuns m),
        (''ramify_cleanup_failures_total'', ''Failed reaper cleanup runs'', CleanupFailures m)])
     @ concat (map (metric_text ''gauge'')
       [(''ramify_inbox_pending'', ''Durable webhook inbox events pending processing'', InboxPending m),
        (''ramify_events_dead_lettered'', ''Events retired without succeeding; requires operator attention'', DeadLettered m),
        (''ramify_worker_heartbeat_unixtime'',
         ''Unix timestamp (seconds) the durable event worker last completed a poll iteration'',
         (if WorkerHeartbeat m < 0 then - (- WorkerHeartbeat m div 1000000000) else WorkerHeartbeat m div 1000000000))])"

definition handleMetrics :: "'w Server \<Rightarrow> request \<Rightarrow> ('w sys, response) state" where
  "handleMetrics sv r = do {
     s \<leftarrow> get_state;
     ret \<lparr>rs_Status = StatusOK, rs_Headers = [(''Content-Type'', ''text/plain; version=0.0.4'')],
          rs_Body = PlainText (WritePrometheus (metrics s))\<rparr> }"

section \<open>The webhook receiver\<close>

definition webhookHeaders :: "'w Server \<Rightarrow> string \<times> string" where
  "webhookHeaders sv =
     (case gp_HeaderNamer (sv_git sv) of
        Some names \<Rightarrow> names
      | None \<Rightarrow> (''X-Hub-Signature-256'', ''X-GitHub-Delivery''))"

text \<open>The send on the buffered channel: dropped when it is full.\<close>

definition offer_webhook :: "StoreEvent \<Rightarrow> StoreEvent list \<Rightarrow> StoreEvent list" where
  "offer_webhook ev queue = (if length queue < webhookQueueSize then queue @ [ev] else queue)"

text \<open>After the payload is encoded: the delivery is stored, counted and handed to the pool.\<close>

definition accept_webhook ::
  "'w Server \<Rightarrow> string \<Rightarrow> string \<Rightarrow> StoreEvent list \<Rightarrow> ('w sys, response \<times> StoreEvent list) state" where
  "accept_webhook sv payload deliveryID queue =
     (if deliveryID = [] then ret (writeError StatusBadRequest ''missing webhook delivery ID'', queue)
      else do {
        firstRetry \<leftarrow> outside (rt_Now (sv_store sv));
        on_err (CreateEvent (sv_store sv)
            (empty_StoreEvent\<lparr>ev_Kind := EventKindWebhookReceived, ev_DedupeKey := deliveryID,
               ev_Payload := payload, ev_NextAttemptAt := Some firstRetry\<rparr>))
          (\<lambda>err. if errors_Is err ErrConflict then do {
               count (\<lambda>m. m\<lparr>WebhookDuplicates := WebhookDuplicates m + 1\<rparr>);
               ret (WriteHeader StatusOK, queue) }
             else do {
               count (\<lambda>m. m\<lparr>WebhookRejected := WebhookRejected m + 1\<rparr>);
               ret (writeError StatusServiceUnavailable ''persisting webhook event'', queue) })
          (\<lambda>inbox. ret (WriteHeader StatusAccepted, offer_webhook inbox queue)) })"

definition handleWebhook ::
  "'w Server \<Rightarrow> request \<Rightarrow> StoreEvent list \<Rightarrow> ('w sys, response \<times> StoreEvent list) state" where
  "handleWebhook sv r queue = do {
     count (\<lambda>m. m\<lparr>WebhookReceived := WebhookReceived m + 1\<rparr>);
     case ReadAll_limited maxWebhookBody r of
       Inl _ \<Rightarrow> ret (writeError StatusBadRequest ''reading request body'', queue)
     | Inr body \<Rightarrow>
         (case webhookHeaders sv of (signatureHeader, deliveryHeader) \<Rightarrow>
           on_err (outside (gp_ParseWebhook (sv_git sv) body (rq_Header r signatureHeader)))
             (\<lambda>err. if errors_Is err ErrInvalidWebhookSignature then do {
                  count (\<lambda>m. m\<lparr>WebhookRejected := WebhookRejected m + 1\<rparr>);
                  ret (writeError StatusUnauthorized ''invalid webhook signature'', queue) }
                else if errors_Is err ErrUnhandledWebhookEvent then ret (WriteHeader StatusOK, queue)
                else do {
                  count (\<lambda>m. m\<lparr>WebhookRejected := WebhookRejected m + 1\<rparr>);
                  ret (writeError StatusBadRequest ''invalid webhook payload'', queue) })
             (\<lambda>ev. accept_webhook sv (MarshalWebhookPayload ev) (rq_Header r deliveryHeader) queue)) }"

text \<open>One turn of a worker of the pool; with an empty queue it waits.\<close>

definition runWebhookWorker :: "'w Server \<Rightarrow> StoreEvent list \<Rightarrow> ('w sys, StoreEvent list) state" where
  "runWebhookWorker sv queue =
     (case queue of
        [] \<Rightarrow> ret []
      | ev # rest \<Rightarrow> do { ProcessEvent (sv_reconciler sv) ev; ret rest })"

section \<open>Environments\<close>

definition nextOffsetHeader :: string where
  "nextOffsetHeader = ''X-Ramify-Next-Offset''"

definition intParam :: "request \<Rightarrow> string \<Rightarrow> error + int" where
  "intParam r name =
     (let raw = rq_Query r name
      in if raw = [] then Inr 0
         else case Atoi raw of
                None \<Rightarrow> Inl (Opaque (''invalid '' @ name @ '' parameter''))
              | Some v \<Rightarrow> if v < 0 then Inl (Opaque (''invalid '' @ name @ '' parameter'')) else Inr v)"

text \<open>The page of rows a list request asks the store for: one more than it returns.\<close>

definition lookahead :: "ListOptions \<Rightarrow> ListOptions" where
  "lookahead opts =
     (if lo_Limit opts = 0 then opts\<lparr>lo_Limit := DefaultListLimit + 1\<rparr>
      else opts\<lparr>lo_Limit := min (max (lo_Limit opts) 1) MaxListLimit + 1\<rparr>)"

definition listed_page :: "ListOptions \<Rightarrow> Environment list \<Rightarrow> response" where
  "listed_page pg envs =
     (if int (length envs) = lo_Limit pg then
        (let kept = take (nat (lo_Limit pg - 1)) envs
         in writeJSON [(nextOffsetHeader, Itoa (wrap64 (lo_Offset pg + int (length kept))))]
              StatusOK (JsonEnvironments kept))
      else writeJSON [] StatusOK (JsonEnvironments envs))"

definition handleListEnvironments :: "'w Server \<Rightarrow> request \<Rightarrow> ('w sys, response) state" where
  "handleListEnvironments sv r =
     (case intParam r ''limit'' of
        Inl _ \<Rightarrow> ret (writeError StatusBadRequest ''invalid limit'')
      | Inr limit \<Rightarrow>
          (case intParam r ''offset'' of
             Inl _ \<Rightarrow> ret (writeError StatusBadRequest ''invalid offset'')
           | Inr offset \<Rightarrow>
               (let pg = lookahead \<lparr>lo_Project = rq_Query r ''project'', lo_Branch = rq_Query r ''branch'',
                                      lo_Limit = limit, lo_Offset = offset\<rparr>
                in on_err (ListEnvironments (sv_store sv) pg)
                     (\<lambda>_. ret (writeError StatusInternalServerError ''listing environments''))
                     (\<lambda>envs. ret (listed_page pg envs)))))"

definition handleGetEnvironment :: "'w Server \<Rightarrow> request \<Rightarrow> ('w sys, response) state" where
  "handleGetEnvironment sv r =
     with_environment sv r (\<lambda>env. ret (writeJSON [] StatusOK (JsonEnvironment env)))"

record createEnvironmentRequest =
  cq_Project :: string
  cq_Branch :: string
  cq_Subdomain :: string
  cq_ArtifactRef :: string
  cq_PRNumber :: int

definition decode_create :: "(string \<times> json) list \<Rightarrow> createEnvironmentRequest option" where
  "decode_create ms =
     (case (decode_field decode_string ''project'' ms [], decode_field decode_string ''branch'' ms [],
            decode_field decode_string ''subdomain'' ms [], decode_field decode_string ''artifact_ref'' ms [],
            decode_field decode_int ''pr_number'' ms 0) of
        (Some p, Some b, Some s, Some a, Some n) \<Rightarrow>
          Some \<lparr>cq_Project = p, cq_Branch = b, cq_Subdomain = s, cq_ArtifactRef = a, cq_PRNumber = n\<rparr>
      | _ \<Rightarrow> None)"

text \<open>The call of \<open>Apply\<close> the three writing handlers share, with the status of its success.\<close>

definition respond_apply ::
  "'w Server \<Rightarrow> string \<Rightarrow> int \<Rightarrow> ApplyRequest \<Rightarrow> ('w sys, response) state" where
  "respond_apply sv op status req =
     on_err (Apply (sv_reconciler sv) req)
       (\<lambda>err. ret (writeError StatusInternalServerError (op @ error_text err)))
       (\<lambda>env. ret (writeJSON [] status (JsonEnvironment env)))"

definition handleCreateEnvironment :: "'w Server \<Rightarrow> request \<Rightarrow> ('w sys, response) state" where
  "handleCreateEnvironment sv r =
     (case decode_body maxAPIRequestBody decode_create r of
        None \<Rightarrow> ret (writeError StatusBadRequest ''invalid request body'')
      | Some body \<Rightarrow>
          if cq_Project body = [] \<or> cq_Branch body = [] \<or> cq_ArtifactRef body = [] then
            ret (writeError StatusBadRequest ''project, branch, and artifact_ref are required'')
          else if length (cq_Project body) > 256 \<or> length (cq_Branch body) > 256
              \<or> length (cq_ArtifactRef body) > 1024 \<or> length (cq_Subdomain body) > 63 then
            ret (writeError StatusBadRequest ''request fields exceed maximum length'')
          else respond_apply sv ''creating environment: '' StatusCreated
            \<lparr>ar_Project = cq_Project body, ar_Branch = cq_Branch body, ar_PRNumber = cq_PRNumber body,
             ar_Subdomain = Normalize (if cq_Subdomain body = [] then cq_Branch body else cq_Subdomain body)
               (sv_subdomainMax sv),
             ar_ArtifactRef = cq_ArtifactRef body\<rparr>)"

text \<open>The request that redeploys an existing environment at another revision.\<close>

definition redeploy :: "Environment \<Rightarrow> string \<Rightarrow> ApplyRequest" where
  "redeploy env artifact = \<lparr>ar_Project = env_Project env, ar_Branch = env_Branch env,
     ar_PRNumber = env_PRNumber env, ar_Subdomain = env_Subdomain env, ar_ArtifactRef = artifact\<rparr>"

definition handleUpdateEnvironment :: "'w Server \<Rightarrow> request \<Rightarrow> ('w sys, response) state" where
  "handleUpdateEnvironment sv r = with_environment sv r (\<lambda>existing.
     case decode_body maxAPIRequestBody (\<lambda>ms. decode_field decode_string ''artifact_ref'' ms []) r of
       None \<Rightarrow> ret (writeError StatusBadRequest ''invalid request body'')
     | Some artifact \<Rightarrow>
         if artifact = [] then ret (writeError StatusBadRequest ''artifact_ref is required'')
         else if length artifact > 1024 then
           ret (writeError StatusBadRequest ''artifact_ref exceeds maximum length'')
         else respond_apply sv ''updating environment: '' StatusOK (redeploy existing artifact))"

definition handleDeleteEnvironment :: "'w Server \<Rightarrow> request \<Rightarrow> ('w sys, response) state" where
  "handleDeleteEnvironment sv r = with_environment sv r (\<lambda>env.
     if_err (Destroy (sv_reconciler sv) env)
       (\<lambda>err. ret (writeError StatusInternalServerError (''destroying environment: '' @ error_text err)))
       (ret (WriteHeader StatusNoContent)))"

definition handleRollbackEnvironment :: "'w Server \<Rightarrow> request \<Rightarrow> ('w sys, response) state" where
  "handleRollbackEnvironment sv r = with_environment sv r (\<lambda>env.
     if env_LastGoodArtifactRef env = [] then
       ret (writeError StatusConflict ''environment has no known-good revision to roll back to'')
     else respond_apply sv ''rolling back environment: '' StatusOK (redeploy env (env_LastGoodArtifactRef env)))"

text \<open>Sleep and wake: an action the status does not allow is a conflict.\<close>

definition respond_action ::
  "string \<Rightarrow> ('w sys, error + Environment) state \<Rightarrow> ('w sys, response) state" where
  "respond_action op m =
     on_err m
       (\<lambda>err. ret (if errors_Is err ErrInvalidEnvironmentAction then writeError StatusConflict (error_text err)
                   else writeError StatusInternalServerError (op @ error_text err)))
       (\<lambda>updated. ret (writeJSON [] StatusOK (JsonEnvironment updated)))"

definition handleSleepEnvironment :: "'w Server \<Rightarrow> request \<Rightarrow> ('w sys, response) state" where
  "handleSleepEnvironment sv r =
     with_environment sv r (\<lambda>env. respond_action ''sleeping environment: '' (Sleep (sv_reconciler sv) env))"

definition handleWakeEnvironment :: "'w Server \<Rightarrow> request \<Rightarrow> ('w sys, response) state" where
  "handleWakeEnvironment sv r =
     with_environment sv r (\<lambda>env. respond_action ''waking environment: '' (Wake (sv_reconciler sv) env))"

definition handleLogs :: "'w Server \<Rightarrow> request \<Rightarrow> ('w sys, response) state" where
  "handleLogs sv r = with_environment sv r (\<lambda>env.
     if env_DeployRef env = [] then ret (writeError StatusConflict ''environment has no deployment'')
     else case dp_LogFetcher (sv_deploy sv) of
       None \<Rightarrow> ret (writeError StatusNotImplemented
                 ''the configured deploy provider does not support log retrieval'')
     | Some Logs \<Rightarrow>
         on_err (outside (Logs (env_DeployRef env)))
           (\<lambda>err. ret (writeError StatusInternalServerError (''fetching logs: '' @ error_text err)))
           (\<lambda>logs. ret \<lparr>rs_Status = StatusOK, rs_Headers = [(''Content-Type'', ''text/plain; charset=utf-8'')],
                         rs_Body = PlainText logs\<rparr>))"

definition handleDashboard :: "'w Server \<Rightarrow> request \<Rightarrow> ('w sys, response) state" where
  "handleDashboard sv r =
     (if rq_Path r = ''/dashboard'' then
        ret \<lparr>rs_Status = StatusPermanentRedirect, rs_Headers = [(''Location'', ''/dashboard/'')], rs_Body = NoBody\<rparr>
      else ret (sv_assets sv (TrimPrefix (rq_Path r) ''/dashboard'')))"

definition handleDashboardConfig :: "'w Server \<Rightarrow> request \<Rightarrow> ('w sys, response) state" where
  "handleDashboardConfig sv r = ret (writeJSON [] StatusOK (JsonConfig (sv_baseDomain sv)))"

section \<open>Routes and the token guard\<close>

datatype endpoint =
    Healthz | Readyz | MetricsPage | Dashboard | DashboardConfig | Webhook
  | ListEnvs | CreateEnv | GetEnv | UpdateEnv | DeleteEnv | SleepEnv | WakeEnv | RollbackEnv | LogsOfEnv

definition routes :: "(string \<times> string \<times> endpoint) list" where
  "routes =
     [(''GET'', ''/healthz'', Healthz), (''GET'', ''/readyz'', Readyz), (''GET'', ''/metrics'', MetricsPage),
      (''GET'', ''/dashboard'', Dashboard), (''HEAD'', ''/dashboard'', Dashboard),
      (''GET'', ''/dashboard/config'', DashboardConfig),
      (''GET'', ''/dashboard/*'', Dashboard), (''HEAD'', ''/dashboard/*'', Dashboard),
      (''POST'', ''/webhooks/{provider}'', Webhook),
      (''GET'', ''/environments/'', ListEnvs), (''POST'', ''/environments/'', CreateEnv),
      (''GET'', ''/environments/{id}/'', GetEnv), (''PUT'', ''/environments/{id}/'', UpdateEnv),
      (''DELETE'', ''/environments/{id}/'', DeleteEnv), (''POST'', ''/environments/{id}/sleep'', SleepEnv),
      (''POST'', ''/environments/{id}/wake'', WakeEnv), (''POST'', ''/environments/{id}/rollback'', RollbackEnv),
      (''GET'', ''/environments/{id}/logs'', LogsOfEnv)]"

text \<open>The handler of each endpoint; only the webhook receiver touches the queue.\<close>

definition handle :: "'w Server \<Rightarrow> endpoint \<Rightarrow> request \<Rightarrow> ('w sys, response) state" where
  "handle sv e r =
     (case e of
        Healthz \<Rightarrow> handleHealthz sv r | Readyz \<Rightarrow> handleReadyz sv r | MetricsPage \<Rightarrow> handleMetrics sv r
      | Dashboard \<Rightarrow> handleDashboard sv r | DashboardConfig \<Rightarrow> handleDashboardConfig sv r
      | Webhook \<Rightarrow> do { x \<leftarrow> handleWebhook sv r []; ret (fst x) }
      | ListEnvs \<Rightarrow> handleListEnvironments sv r | CreateEnv \<Rightarrow> handleCreateEnvironment sv r
      | GetEnv \<Rightarrow> handleGetEnvironment sv r | UpdateEnv \<Rightarrow> handleUpdateEnvironment sv r
      | DeleteEnv \<Rightarrow> handleDeleteEnvironment sv r | SleepEnv \<Rightarrow> handleSleepEnvironment sv r
      | WakeEnv \<Rightarrow> handleWakeEnvironment sv r | RollbackEnv \<Rightarrow> handleRollbackEnvironment sv r
      | LogsOfEnv \<Rightarrow> handleLogs sv r)"

definition isDashboardAsset :: "string \<Rightarrow> bool" where
  "isDashboardAsset path \<longleftrightarrow> path = ''/dashboard'' \<or> HasPrefix path ''/dashboard/''"

text \<open>The middleware of the TCP listener around the next handler.\<close>

definition tokenAuth ::
  "string \<Rightarrow> (request \<Rightarrow> ('w sys, response) state) \<Rightarrow> request \<Rightarrow> ('w sys, response) state" where
  "tokenAuth token nxt r =
     (if isDashboardAsset (rq_Path r) then nxt r
      else if token = [] \<or> rq_Header r ''Authorization'' \<noteq> ''Bearer '' @ token then
        ret \<lparr>rs_Status = StatusUnauthorized, rs_Headers = [(''Content-Type'', ''text/plain; charset=utf-8''),
               (''X-Content-Type-Options'', ''nosniff'')],
             rs_Body = PlainText (''unauthorized'' @ [CHR 0x0A])\<rparr>
      else nxt r)"

text \<open>A keyword source of a content security policy, in its single quotes.\<close>

definition csp_keyword :: "string \<Rightarrow> string" where
  "csp_keyword w = [CHR 0x27] @ w @ [CHR 0x27]"

definition security_headers :: "(string \<times> string) list" where
  "security_headers =
     [(''X-Content-Type-Options'', ''nosniff''), (''X-Frame-Options'', ''DENY''),
      (''Referrer-Policy'', ''no-referrer''),
      (''Content-Security-Policy'',
       ''default-src '' @ csp_keyword ''self''
       @ ''; script-src '' @ csp_keyword ''self'' @ '' '' @ csp_keyword ''unsafe-inline''
       @ ''; style-src '' @ csp_keyword ''self'' @ '' '' @ csp_keyword ''unsafe-inline''
       @ ''; img-src '' @ csp_keyword ''self'' @ '' data:; connect-src '' @ csp_keyword ''self''
       @ ''; frame-ancestors '' @ csp_keyword ''none'' @ ''; base-uri '' @ csp_keyword ''none'')]"

definition securityHeaders ::
  "(request \<Rightarrow> ('w sys, response) state) \<Rightarrow> request \<Rightarrow> ('w sys, response) state" where
  "securityHeaders nxt r = do { w \<leftarrow> nxt r; ret (w\<lparr>rs_Headers := security_headers @ rs_Headers w\<rparr>) }"

section \<open>Invariants\<close>

context reconciler_contract
begin

lemma with_environment_keeps [keeps_rules]:
  "(\<And>env. keeps I (k env)) \<Longrightarrow> keeps I (with_environment sv rq k)"
  unfolding with_environment_def lookupEnvironment_def by (intro keeps_rules)

lemma respond_keeps:
  "sv_reconciler sv = r \<Longrightarrow> keeps I (respond_apply sv op st req)"
  "keeps I m \<Longrightarrow> keeps I (respond_action op m)"
  unfolding respond_apply_def respond_action_def by (intro keeps_rules; simp add: Apply_keeps)+

lemma handleWebhook_keeps:
  assumes "sv_store sv = rc_store r"
  shows "keeps I (handleWebhook sv rq queue)"
  unfolding handleWebhook_def accept_webhook_def assms
  by (intro keeps_rules count_keeps) (simp_all add: counters_move_def)

lemma worker_keeps: "sv_reconciler sv = r \<Longrightarrow> keeps I (runWebhookWorker sv queue)"
  unfolding runWebhookWorker_def by (cases queue; simp; intro keeps_rules)

lemma handle_keeps:
  assumes "sv_store sv = rc_store r" "sv_reconciler sv = r"
  shows "keeps I (handle sv e rq)"
proof -
  have "keeps I (handleHealthz sv rq)" "keeps I (handleReadyz sv rq)" "keeps I (handleMetrics sv rq)"
      "keeps I (handleDashboard sv rq)" "keeps I (handleDashboardConfig sv rq)" "keeps I (handleListEnvironments sv rq)"
      "keeps I (handleGetEnvironment sv rq)" "keeps I (handleLogs sv rq)"
    unfolding handleHealthz_def handleReadyz_def handleMetrics_def handleDashboard_def handleDashboardConfig_def
      handleListEnvironments_def handleGetEnvironment_def handleLogs_def Let_def
    by (intro keeps_rules keeps_get_state)+
  moreover have "keeps I (handleCreateEnvironment sv rq)" "keeps I (handleUpdateEnvironment sv rq)"
      "keeps I (handleDeleteEnvironment sv rq)" "keeps I (handleRollbackEnvironment sv rq)"
      "keeps I (handleSleepEnvironment sv rq)" "keeps I (handleWakeEnvironment sv rq)"
    unfolding handleCreateEnvironment_def handleUpdateEnvironment_def handleDeleteEnvironment_def
      handleRollbackEnvironment_def handleSleepEnvironment_def handleWakeEnvironment_def assms(2)
    by (intro keeps_rules respond_keeps assms(2))+
  ultimately show ?thesis
    unfolding handle_def by (cases e) (auto intro!: keeps_rules handleWebhook_keeps assms(1))
qed

end

end
