(* ===== verification/Daemon_Loop.thy ===== *)
theory Daemon_Loop
  imports Http_Api
begin

text \<open>
  \<open>cmd/ramifyd/main.go\<close>: one tick of the durable event worker and of the reaper loop.
  The tickers, the signal handling and the logging around them are not modelled.
\<close>

text \<open>
  A tick of \<open>runEventLoop\<close>; the argument and the result are \<open>lastPrune\<close>, with \<open>None\<close> for
  the zero time.
\<close>

definition prune_due :: "time \<Rightarrow> time \<Rightarrow> time option \<Rightarrow> bool" where
  "prune_due eventRetention now lastPrune \<longleftrightarrow> eventRetention > 0
     \<and> (case lastPrune of None \<Rightarrow> True | Some t \<Rightarrow> now - t \<ge> Hour)"

definition event_tick ::
  "'w runtime \<Rightarrow> 'w Reconciler \<Rightarrow> time \<Rightarrow> time option \<Rightarrow> ('w sys, time option) state" where
  "event_tick st r eventRetention lastPrune = do {
     now \<leftarrow> outside (rt_Now st);
     count (\<lambda>m. m\<lparr>WorkerHeartbeat := now\<rparr>);
     on_err (ListDueEvents st now 100) (\<lambda>_. ret lastPrune)
       (\<lambda>events. do {
         count (\<lambda>m. m\<lparr>InboxPending := int (length events)\<rparr>);
         on_err (CountDeadLetteredEvents st) (\<lambda>_. ret ()) (\<lambda>dead. count (\<lambda>m. m\<lparr>DeadLettered := dead\<rparr>));
         ReplayEvents r events;
         (if prune_due eventRetention now lastPrune then do {
            ignore (PruneProcessedEvents st (now - eventRetention) 5000);
            ret (Some now) }
          else ret lastPrune) }) }"

definition reaper_interval :: "time \<Rightarrow> time" where
  "reaper_interval interval = (if interval \<le> 0 then 5 * Minute else interval)"

text \<open>A tick of \<open>runReaperLoop\<close>: a failed sweep is logged and the loop goes on.\<close>

definition reaper_tick :: "'w Reaper \<Rightarrow> ('w sys, unit) state" where
  "reaper_tick rp = ignore (Sweep rp)"

section \<open>Invariants\<close>

lemma due_batch_bound:
  "run_state (ListDueEvents rt now 100) s = (Inr evs, s') \<Longrightarrow> length evs \<le> 100"
  by (auto simp: ListDueEvents_def scanEvents_def query_def run_err fails_def select_due_def
      split: prod.splits option.splits sum.splits)

context reconciler_contract
begin

lemma event_tick_keeps:
  assumes st: "st = rc_store r"
  shows "keeps I (event_tick st r eventRetention lastPrune)"
proof -
  have batch: "holds I (on_err (ListDueEvents st now 100) (\<lambda>_. ret lastPrune) k) (\<lambda>_. I)"
    if "\<And>evs. length evs \<le> 100 \<Longrightarrow> keeps I (k evs)" for now and k :: "StoreEvent list \<Rightarrow> ('w sys, time option) state"
  proof (rule holds_on_err [where R = "\<lambda>_. I" and T = "\<lambda>evs s. I s \<and> length evs \<le> 100"])
    show "holds I (ListDueEvents st now 100) (\<lambda>x s. case x of Inl e \<Rightarrow> I s | Inr evs \<Rightarrow> I s \<and> length evs \<le> 100)"
    proof (rule holdsI)
      fix s x s'
      assume "I s" and run: "run_state (ListDueEvents st now 100) s = (x, s')"
      then have "I s'"
        using keepsD [OF reads_keep(6)] by blast
      then show "case x of Inl e \<Rightarrow> I s' | Inr evs \<Rightarrow> I s' \<and> length evs \<le> 100"
        using run due_batch_bound by (auto split: sum.splits)
    qed
    show "holds I (ret lastPrune) (\<lambda>_. I)"
      using keeps_return [of I] unfolding keeps_def .
    show "holds (\<lambda>s. I s \<and> length evs \<le> 100) (k evs) (\<lambda>_. I)" for evs
      using that [of evs] by (auto simp: keeps_def holds_def)
  qed
  show ?thesis
    unfolding event_tick_def
    by (intro keeps_rules count_keeps batch [folded keeps_def])
      (auto simp: counters_move_def st intro!: prune)
qed

lemma reaper_tick_keeps: "rp_reconciler rp = r \<Longrightarrow> keeps I (reaper_tick rp)"
  unfolding reaper_tick_def by (intro keeps_rules Sweep_keeps)

end

end
