(* ===== verification/System_Steps.thy ===== *)
theory System_Steps
  imports Daemon_Loop Transition_System
begin

text \<open>
  The running daemon as a transition system: each step is one request to the control API, a turn
  of a webhook worker, a tick of the event worker or of the reaper, or one operation of the
  reconciler, the inbox or the pruning of old events, on whatever arguments, in between
  which the world outside may change arbitrarily. The invariants proved for the contract of
  the reconciler hold in every reachable state.
\<close>

inductive daemon_step :: "'w Reconciler \<Rightarrow> 'w Reaper \<Rightarrow> 'w sys \<Rightarrow> 'w sys \<Rightarrow> bool" for r rp where
  world_changes: "daemon_step r rp s (s\<lparr>ext := w\<rparr>)"
| apply_step: "daemon_step r rp s (snd (run_state (Apply r req) s))"
| destroy_step: "daemon_step r rp s (snd (run_state (Destroy r env) s))"
| sleep_step: "daemon_step r rp s (snd (run_state (Sleep r env) s))"
| wake_step: "daemon_step r rp s (snd (run_state (Wake r env) s))"
| webhook_step: "daemon_step r rp s (snd (run_state (ProcessWebhookEvent r ev) s))"
| event_step: "daemon_step r rp s (snd (run_state (ProcessEvent r sev) s))"
| replay_step: "daemon_step r rp s (snd (run_state (ReplayUnprocessedEvents r) s))"
| inbox_step: "daemon_step r rp s (snd (run_state (CreateEvent (rc_store r) sev) s))"
| prune_step: "daemon_step r rp s (snd (run_state (PruneProcessedEvents (rc_store r) before limit) s))"
| http_step: "sv_store sv = rc_store r \<Longrightarrow> sv_reconciler sv = r
    \<Longrightarrow> daemon_step r rp s (snd (run_state (handle sv e rq) s))"
| receive_step: "sv_store sv = rc_store r \<Longrightarrow> daemon_step r rp s (snd (run_state (handleWebhook sv rq queue) s))"
| worker_step: "sv_reconciler sv = r \<Longrightarrow> daemon_step r rp s (snd (run_state (runWebhookWorker sv queue) s))"
| tick_step: "daemon_step r rp s (snd (run_state (event_tick (rc_store r) r eventRetention lastPrune) s))"
| sweep_step: "rp_reconciler rp = r \<Longrightarrow> daemon_step r rp s (snd (run_state (Sweep rp) s))"

inductive_cases daemon_stepE: "daemon_step r rp s s'"

context reconciler_contract
begin

lemma daemon_step_keeps: "I s \<Longrightarrow> daemon_step r rp s s' \<Longrightarrow> I s'"
  by (erule daemon_stepE)
    (auto simp: world intro!: keeps_snd Apply_keeps Destroy_keeps Sleep_keeps Wake_keeps
      ProcessWebhookEvent_keeps ProcessEvent_keeps Replay_keeps create_event prune Sweep_keeps
      handle_keeps handleWebhook_keeps worker_keeps event_tick_keeps)

end

text \<open>
  The daemon starts with an empty log and zero counters on some well-formed database whose rows
  have known statuses.
\<close>

definition daemon_start :: "database \<Rightarrow> 'w sys \<Rightarrow> bool" where
  "daemon_start d0 s \<longleftrightarrow> db s = d0 \<and> log s = [] \<and> metrics s = zero_Metrics \<and> db_wf d0
     \<and> (\<forall>row \<in> set (db_environments d0). known_status (er_status row))"

lemma start_legal: "daemon_start d0 s \<Longrightarrow> legal_system d0 s"
  by (auto simp: daemon_start_def legal_system_def history_def status_in_def
      split: option.splits dest!: select_environment_SomeD)

interpretation daemon: inductive_invariant
  "daemon_start d0" "daemon_step r rp" "\<lambda>s. db_wf (db s) \<and> legal_system d0 s"
  for d0 and r :: "'w Reconciler" and rp
proof unfold_locales
  show "db_wf (db s) \<and> legal_system d0 s" if "daemon_start d0 s" for s :: "'w sys"
    using that start_legal by (auto simp: daemon_start_def)
  show "db_wf (db s') \<and> legal_system d0 s'" if "db_wf (db s) \<and> legal_system d0 s" "daemon_step r rp s s'"
    for s s'
    using that tables.sys.daemon_step_keeps legal.daemon_step_keeps by blast
qed

text \<open>
  C2: the integrity of the database over every run of the daemon. Whatever operations run on
  whatever arguments, whatever the providers, the SQL driver and the clock answer, in every
  reachable state the identifiers of environments, DNS records and events are unique, no two
  environments share a project and branch, no two events of a kind a delivery key, and every
  DNS record and event refers to an environment that exists.
\<close>

theorem daemon_keeps_integrity:
  assumes "reachable (daemon_start d0) (daemon_step r rp) s"
  shows "db_wf (db s)"
  using daemon.reachable_inv [OF assms] by blast

text \<open>
  C1: the lifecycle over every run of the daemon. In every reachable state the statuses
  committed for an environment since the start form a legal history of the lifecycle graph,
  which ends in the status its row has; so each environment is in one of the eight statuses,
  and one that was destroyed or failed serves or sleeps again only after a new deployment was
  begun in between.
\<close>

theorem daemon_follows_lifecycle:
  assumes "reachable (daemon_start d0) (daemon_step r rp) s"
    and "row \<in> set (db_environments (db s))"
  shows "legal_history (history d0 s (er_id row))
    \<and> last (history d0 s (er_id row)) = er_status row \<and> known_status (er_status row)
    \<and> (\<forall>pre a mid. history d0 s (er_id row) = pre @ a # mid @ [er_status row]
        \<longrightarrow> a \<in> {StatusDestroyed, StatusDestroying, StatusFailed}
        \<longrightarrow> er_status row \<in> {StatusReady, StatusDegraded, StatusSleeping}
        \<longrightarrow> StatusDeploying \<in> set mid)"
proof -
  have inv: "db_wf (db s)" "legal_system d0 s"
    using daemon.reachable_inv [OF assms(1)] by blast+
  have h: "legal_history (history d0 s (er_id row))" "history d0 s (er_id row) \<noteq> []"
      "last (history d0 s (er_id row)) = er_status row"
    using inv(2) select_environment_Some [OF inv(1) assms(2)] unfolding legal_system_def
    by (metis (mono_tags, lifting) option.simps(5))+
  have "StatusDeploying \<in> set mid"
    if "history d0 s (er_id row) = pre @ a # mid @ [er_status row]"
      "a \<in> {StatusDestroyed, StatusDestroying, StatusFailed}"
      "er_status row \<in> {StatusReady, StatusDegraded, StatusSleeping}" for pre a mid
  proof -
    have "legal_history (a # mid @ [er_status row])"
      using h(1) unfolding that(1) by (rule legal_history_suffix)
    then show ?thesis
      by (rule down_until_deploying) (use that(2,3) in \<open>auto simp: down_status_def\<close>)
  qed
  moreover have "known_status (er_status row)"
    using legal_history_known [OF h(1)] h(2,3) last_in_set by metis
  ultimately show ?thesis
    using h by blast
qed

section \<open>The counters\<close>

lemma effect_metrics:
  "keeps (\<lambda>s :: 'w sys. Q (metrics s)) (CreateEnvironment rt env)"
  "keeps (\<lambda>s :: 'w sys. Q (metrics s)) (UpdateEnvironment rt env)"
  "keeps (\<lambda>s :: 'w sys. Q (metrics s)) (CreateDNSRecord rt rec)"
  "keeps (\<lambda>s :: 'w sys. Q (metrics s)) (DeleteDNSRecord rt i)"
  "keeps (\<lambda>s :: 'w sys. Q (metrics s)) (CreateEvent rt ev)"
  "keeps (\<lambda>s :: 'w sys. Q (metrics s)) (ClaimEvent rt i now later)"
  "keeps (\<lambda>s :: 'w sys. Q (metrics s)) (exec_mark rt op stmt)"
  by (rule keepsI; drule CreateEnvironment_effect UpdateEnvironment_effect CreateDNSRecord_effect
      DeleteDNSRecord_effect CreateEvent_effect ClaimEvent_effect exec_mark_effect; auto)+

lemma prune_metrics: "keeps (\<lambda>s :: 'w sys. Q (metrics s)) (PruneProcessedEvents rt before limit)"
  by (rule keepsI)
    (auto simp: PruneProcessedEvents_def run_err fails_def split: prod.splits option.splits if_splits)

definition quiet_gauges :: "Metrics \<Rightarrow> bool" where
  "quiet_gauges m \<longleftrightarrow> Retries m = 0 \<and> 0 \<le> InboxPending m \<and> InboxPending m \<le> 100"

interpretation counting: free_log_contract "\<lambda>s :: 'w sys. quiet_gauges (metrics s)" r for r :: "'w Reconciler"
proof unfold_locales
  show "quiet_gauges (metrics (s\<lparr>metrics := m\<rparr>))" if "counters_move (metrics s) m" "quiet_gauges (metrics s)"
    for m and s :: "'w sys"
    using that by (auto simp: quiet_gauges_def counters_move_def)
qed (simp_all add: effect_metrics prune_metrics MarkEventProcessed_def MarkEventDeadLettered_def MarkEventRetry_def)

interpretation gauges: inductive_invariant "daemon_start d0" "daemon_step r rp" "\<lambda>s. quiet_gauges (metrics s)"
  for d0 and r :: "'w Reconciler" and rp
proof unfold_locales
  show "quiet_gauges (metrics s)" if "daemon_start d0 s" for s :: "'w sys"
    using that by (simp add: daemon_start_def zero_Metrics_def quiet_gauges_def)
qed (rule counting.daemon_step_keeps)

lemma unprocessed_metrics: "run_state (ListUnprocessedEvents rt) s = (x, s') \<Longrightarrow> metrics s' = metrics s"
  by (cases "run_state (query rt select_unprocessed) s")
    (auto simp: ListUnprocessedEvents_def scanEvents_def run_err fails_def dest!: query_effect split: sum.splits)

text \<open>
  C39: two alarms that cannot ring. In every reachable state of the daemon the retry counter is
  zero, however many events were retried, and the gauge of pending events is at most one
  hundred, the size of a batch, however long the inbox is; so \<open>/readyz\<close>, which asks for more
  than a thousand, never reports a backlog.
\<close>

theorem alarms_stay_silent:
  assumes "reachable (daemon_start d0) (daemon_step r rp) s"
  shows "Retries (metrics s) = 0 \<and> InboxPending (metrics s) \<le> 100
    \<and> rs_Body (fst (run_state (handleReadyz sv rq) s)) \<noteq> JsonError ''event backlog exceeds threshold''"
proof -
  have q: "Retries (metrics s) = 0" "InboxPending (metrics s) \<le> 100"
    using gauges.reachable_inv [OF assms] by (simp_all add: quiet_gauges_def)
  obtain x s1 where l: "run_state (ListUnprocessedEvents (sv_store sv)) s = (x, s1)"
    by (cases "run_state (ListUnprocessedEvents (sv_store sv)) s")
  then have m: "metrics s1 = metrics s"
    by (rule unprocessed_metrics)
  have "rs_Body (fst (run_state (handleReadyz sv rq) s)) \<noteq> JsonError ''event backlog exceeds threshold''"
    using q(2) by (simp add: handleReadyz_def run_err l m writeError_def writeJSON_def WriteHeader_def split: sum.splits prod.splits)
  with q show ?thesis by blast
qed

end
