(* ===== verification/Example_World.thy ===== *)
theory Example_World
  imports System_Steps
begin

text \<open>
  A concrete world for the witnesses: a clock that \<open>Sleep\<close> advances, identifiers from a
  counter, a SQL driver without faults, and providers that succeed. The fields the witnesses
  change (a provider that fails, a deployment that never becomes healthy) are updated there.
\<close>

type_synonym example_world = "int \<times> nat"

definition ex_runtime :: "example_world runtime" where
  "ex_runtime = \<lparr>rt_Now = State (\<lambda>w. (fst w, w)),
     rt_rand_Read = State (\<lambda>w. (Inr (replicate 15 0 @ [snd w mod 256]), (fst w, snd w + 1))),
     rt_sql = State (\<lambda>w. (None, w)), rt_Int64N = (\<lambda>n. State (\<lambda>w. (n - 1, w)))\<rparr>"

definition ex_deploy :: "example_world DeployProvider" where
  "ex_deploy = \<lparr>dp_Apply = (\<lambda>spec. ret (Inr \<lparr>dep_Ref = ''d-'' @ sp_ArtifactRef spec, dep_InternalAddr = ''10.0.0.1''\<rparr>)),
     dp_Sleep = (\<lambda>_. ret None), dp_Wake = (\<lambda>_. ret None), dp_Destroy = (\<lambda>_. ret None),
     dp_HealthCheck = (\<lambda>_. ret (Inr \<lparr>st_Healthy = True, st_Detail = []\<rparr>)),
     dp_CertificateInstaller = None, dp_CertificateRemover = None, dp_LogFetcher = None\<rparr>"

definition ex_clock :: "example_world Clock" where
  "ex_clock = \<lparr>ck_Now = State (\<lambda>w. (fst w, w)), ck_Sleep = (\<lambda>d. State (\<lambda>w. ((), (fst w + d, snd w))))\<rparr>"

definition ex_reconciler :: "example_world Reconciler" where
  "ex_reconciler = NewReconciler ex_runtime ex_deploy
     \<lparr>dns_EnsureRecord = (\<lambda>_. ret None), dns_DeleteRecord = (\<lambda>_. ret None), dns_ListManagedRecords = (\<lambda>_. ret (Inr []))\<rparr>
     \<lparr>cp_EnsureCertificate = (\<lambda>d. ret (Inr \<lparr>cr_Domain = d, cr_ExpiresAt = [], cr_CertificatePEM = [], cr_PrivateKeyPEM = []\<rparr>)),
      cp_RevokeCertificate = (\<lambda>_. ret None)\<rparr>
     \<lparr>np_Notify = (\<lambda>_ _ _. ret None)\<rparr>
     ex_clock (ret None)
     ''preview.dev'' Hour 10 []"

definition ex_reaper :: "example_world Reaper" where
  "ex_reaper = NewReaper ex_runtime ex_reconciler ex_clock"

text \<open>One environment that is ready.\<close>

definition ex_env :: Environment where
  "ex_env = empty_Environment\<lparr>env_ID := ''e1'', env_Project := ''p'', env_Branch := ''b'',
     env_Status := StatusReady, env_DeployRef := ''d1''\<rparr>"

definition ex_db :: database where
  "ex_db = empty_database\<lparr>db_environments := [environment_args ex_env]\<rparr>"

definition ex_sys :: "example_world sys" where
  "ex_sys = \<lparr>ext = (1000, 0), db = ex_db, metrics = zero_Metrics, log = []\<rparr>"

lemma ex_db_wf: "db_wf ex_db"
  by (simp add: ex_db_def empty_database_def db_wf_def envs_wf_def events_wf_def refs_wf_def)

lemma ex_start: "daemon_start ex_db ex_sys"
  by (simp add: daemon_start_def ex_sys_def ex_db_wf) (simp add: ex_db_def empty_database_def ex_env_def known_status_iff)

lemma ex_reachable: "reachable (daemon_start ex_db) (daemon_step ex_reconciler ex_reaper)
    (snd (run_state (Sleep ex_reconciler ex_env) ex_sys))"
  by (rule reachable.advance [OF reachable.start [where s = ex_sys]]) (simp_all add: ex_start sleep_step)

lemma ex_clock_simps [simp]:
  "ck_Now ex_clock = State (\<lambda>w. (fst w, w))" "ck_Sleep ex_clock = (\<lambda>d. State (\<lambda>w. ((), (fst w + d, snd w))))"
  by (simp_all add: ex_clock_def)

lemmas ex_defs = ex_reconciler_def NewReconciler_def ex_runtime_def ex_deploy_def ex_sys_def ex_db_def
  ex_env_def empty_database_def empty_Environment_def empty_StoreEvent_def zero_Metrics_def

lemmas store_op_defs = CreateEnvironment_def GetEnvironment_def GetEnvironmentByProjectBranch_def
  UpdateEnvironment_def commit_update_def CreateEvent_def exec_insert_def exec_rows_def exec_mark_def
  query_def fails_def fails_with_def id_or_new_def newID_def MarkEventProcessed_def ClaimEvent_def
  MarkEventDeadLettered_def MarkEventRetry_def ListDNSRecords_def CreateDNSRecord_def
  ListExpiredEnvironments_def CountLiveEnvironments_def

lemmas table_op_defs = environment_args_def event_args_def scanEnvironment_def nullableString_def nullableInt_def
  insert_environment_def insert_event_def insert_dns_record_def update_environment_def select_environment_def
  select_by_branch_def select_dns_records_def select_expired_def expired_def count_live_def
  claim_event_def mark_processed_def update_events_def same_branch_def set_columns_def
  validateTransition_def CanTransition_def allowedTransitions_def

theorem daemon_keeps_integrity_witness:
  "db_wf (db (snd (run_state (Sleep ex_reconciler ex_env) ex_sys)))"
  by (rule daemon_keeps_integrity [OF ex_reachable])

theorem daemon_follows_lifecycle_witness:
  "\<exists>row \<in> set (db_environments (db ex_sys)). last (history ex_db ex_sys (er_id row)) = er_status row"
proof -
  have "reachable (daemon_start ex_db) (daemon_step ex_reconciler ex_reaper) ex_sys"
    by (rule reachable.start) (rule ex_start)
  moreover have "environment_args ex_env \<in> set (db_environments (db ex_sys))"
    by (simp add: ex_sys_def ex_db_def)
  ultimately show ?thesis
    using daemon_follows_lifecycle by blast
qed

theorem alarms_stay_silent_witness:
  "InboxPending (metrics (snd (run_state (Sleep ex_reconciler ex_env) ex_sys))) \<le> 100"
  using alarms_stay_silent [OF ex_reachable] by blast

end
