(* ===== verification/Publish_Gate.thy ===== *)
theory Publish_Gate
  imports Example_World
begin

text \<open>
  Nothing is published before it is healthy: the order of the calls of an attempt, as a
  property of the log that every operation of the daemon keeps.
\<close>

text \<open>The deployment a health check of \<open>ref\<close> belongs to serves at the address of the record.\<close>

fun deployed_at :: "string \<Rightarrow> string \<Rightarrow> call list \<Rightarrow> bool" where
  "deployed_at ref addr (HealthChecked ref' _ # l) = (ref' = ref \<and> deployed_at ref addr l)"
| "deployed_at ref addr (Applied _ (Inr d) # l) = (dep_Ref d = ref \<and> dep_InternalAddr d = addr)"
| "deployed_at ref addr _ = False"

text \<open>The call before the publication of a record is a health check that found its deployment healthy.\<close>

fun healthy_before :: "PDNSRecord \<Rightarrow> call list \<Rightarrow> bool" where
  "healthy_before rec (HealthChecked ref (Inr st) # l) = (st_Healthy st \<and> deployed_at ref (pr_Value rec) l)"
| "healthy_before rec _ = False"

text \<open>The call before a certificate is ordered published the record of its domain.\<close>

fun record_before :: "string \<Rightarrow> call list \<Rightarrow> bool" where
  "record_before name (RecordEnsured rec None # l) = (pr_Name rec = name)"
| "record_before name _ = False"

text \<open>The call before a certificate is installed obtained it.\<close>

fun certificate_before :: "string \<Rightarrow> call list \<Rightarrow> bool" where
  "certificate_before name (CertificateEnsured name' (Inr _) # l) = (name' = name)"
| "certificate_before name _ = False"

fun gated :: "call list \<Rightarrow> bool" where
  "gated [] = True"
| "gated (RecordEnsured rec res # l) = (healthy_before rec l \<and> gated l)"
| "gated (CertificateEnsured name res # l) = (record_before name l \<and> gated l)"
| "gated (CertificateInstalled name res # l) = (certificate_before name l \<and> gated l)"
| "gated (_ # l) = gated l"

abbreviation gated_sys :: "'w sys \<Rightarrow> bool" where
  "gated_sys s \<equiv> gated (log s)"

lemma gated_other: "background c \<or> stored_call c \<Longrightarrow> gated (c # l) = gated l"
  by (cases c) (auto simp: background_def stored_call_def)

interpretation gate: store_contract "gated_sys :: 'w sys \<Rightarrow> bool" r for r :: "'w Reconciler"
proof unfold_locales
  show "keeps gated_sys (CreateEnvironment (rc_store r) env)" for env
    by (rule keepsI, drule CreateEnvironment_effect) auto
  show "keeps gated_sys (UpdateEnvironment (rc_store r) env)" for env
    by (rule keepsI, drule UpdateEnvironment_effect) auto
  show "keeps gated_sys (CreateDNSRecord (rc_store r) rec)" for rec
    by (rule keepsI, drule CreateDNSRecord_effect) auto
  show "keeps gated_sys (DeleteDNSRecord (rc_store r) i)" for i
    by (rule keepsI, drule DeleteDNSRecord_effect) auto
  show "keeps gated_sys (CreateEvent (rc_store r) ev)" for ev
    by (rule keepsI, drule CreateEvent_effect) auto
  show "keeps gated_sys (ClaimEvent (rc_store r) i now later)" for i now later
    by (rule keepsI, drule ClaimEvent_effect) auto
  show "keeps gated_sys (MarkEventProcessed (rc_store r) i at)" for i at
    unfolding MarkEventProcessed_def by (rule keepsI, drule exec_mark_effect) auto
  show "keeps gated_sys (MarkEventDeadLettered (rc_store r) i at msg)" for i at msg
    unfolding MarkEventDeadLettered_def by (rule keepsI, drule exec_mark_effect) auto
  show "keeps gated_sys (MarkEventRetry (rc_store r) i at msg)" for i at msg
    unfolding MarkEventRetry_def by (rule keepsI, drule exec_mark_effect) auto
  show "keeps gated_sys (PruneProcessedEvents (rc_store r) before limit)" for before limit
    by (rule keepsI, drule PruneProcessedEvents_effect) simp
qed auto

section \<open>One attempt\<close>

lemma holds_provider_call:
  "holds P (provider_call c m) Q"
  if "\<And>s x w. P s \<Longrightarrow> Q x (s\<lparr>ext := w, log := c x # log s\<rparr>)"
  using that by (auto intro!: holdsI split: prod.splits)

lemma holds_keeps: "keeps I m \<Longrightarrow> (\<And>s. P s \<Longrightarrow> I s) \<Longrightarrow> (\<And>x s. I s \<Longrightarrow> Q x s) \<Longrightarrow> holds P m Q"
  unfolding keeps_def by (rule holds_pre [OF holds_post])

lemma holds_world: "(\<And>s w. P s \<Longrightarrow> P (s\<lparr>ext := w\<rparr>)) \<Longrightarrow> holds P (outside m) (\<lambda>_. P)"
  by (auto intro!: holdsI split: prod.splits)

lemma holds_weaken: "holds P m Q \<Longrightarrow> (\<And>s. P' s \<Longrightarrow> P s) \<Longrightarrow> (\<And>a s. Q a s \<Longrightarrow> Q' a s) \<Longrightarrow> holds P' m Q'"
  by (rule holds_pre [OF holds_post])

text \<open>While polling: the deployment was applied and only its health was asked for since.\<close>

definition polling :: "string \<Rightarrow> string \<Rightarrow> 'w sys \<Rightarrow> bool" where
  "polling ref addr s \<longleftrightarrow> gated (log s) \<and> deployed_at ref addr (log s)"

definition found_healthy :: "string \<Rightarrow> string \<Rightarrow> 'w sys \<Rightarrow> bool" where
  "found_healthy ref addr s \<longleftrightarrow> gated (log s) \<and>
     (\<exists>st l. log s = HealthChecked ref (Inr st) # l \<and> st_Healthy st \<and> deployed_at ref addr l)"

lemma poll_health_gate:
  "holds (polling ref addr) (poll_health r ref deadline n)
     (\<lambda>x s. case x of None \<Rightarrow> found_healthy ref addr s | Some _ \<Rightarrow> gated (log s))"
proof (induction n)
  case 0
  then show ?case by (auto intro!: holds_return simp: polling_def)
next
  case (Suc n)
  let ?Q = "\<lambda>x s. case x of None \<Rightarrow> found_healthy ref addr s | Some _ \<Rightarrow> gated (log s)"
  have world: "holds (polling ref addr) (outside m) (\<lambda>_. polling ref addr)" for m
    by (rule holds_world) (simp add: polling_def)
  have check: "holds (polling ref addr) (provider_call (HealthChecked ref) (dp_HealthCheck (rc_deploy r) ref))
      (\<lambda>x s. case x of Inl e \<Rightarrow> gated (log s)
         | Inr st \<Rightarrow> if st_Healthy st then found_healthy ref addr s else polling ref addr s)"
    by (rule holds_provider_call) (auto simp: polling_def found_healthy_def split: sum.splits)
  have wait: "holds (polling ref addr) (do { now \<leftarrow> outside (rc_Now r);
      if \<not> now < deadline then ret (Some e)
      else do { outside (rc_clock_Sleep r (rc_readinessPollInterval r)); poll_health r ref deadline n } }) ?Q" for e
  proof (rule holds_bind [OF world])
    show "holds (polling ref addr) (if \<not> now < deadline then ret (Some e)
      else do { outside (rc_clock_Sleep r (rc_readinessPollInterval r)); poll_health r ref deadline n }) ?Q" for now
      using holds_bind [OF world Suc] by (auto intro!: holds_return simp: polling_def)
  qed
  show ?case
    unfolding poll_health.simps
  proof (rule holds_if_err [where R = "\<lambda>_ s. gated (log s)" and T = "polling ref addr"])
    show "holds (polling ref addr) (outside (rc_ctx_Err r))
        (\<lambda>x s. case x of None \<Rightarrow> polling ref addr s | Some e \<Rightarrow> gated (log s))"
      by (rule holds_weaken [OF world]) (auto simp: polling_def split: option.splits)
    show "holds gated_sys (ret (Some e)) ?Q" for e :: error
      by (rule holds_return) simp
    show "holds (polling ref addr) (on_err (provider_call (HealthChecked ref) (dp_HealthCheck (rc_deploy r) ref))
        (fails_with ''health check: '') (\<lambda>status. if st_Healthy status then ret None
          else do { now \<leftarrow> outside (rc_Now r);
            if \<not> now < deadline then ret (Some (Opaque (''readiness timed out after ''
                @ Duration_String (rc_readinessTimeout r) @ '': '' @ st_Detail status)))
            else do { outside (rc_clock_Sleep r (rc_readinessPollInterval r)); poll_health r ref deadline n } })) ?Q"
    proof (rule holds_on_err [OF check])
      show "holds gated_sys (fails_with ''health check: '' e) ?Q" for e
        unfolding fails_with_def by (rule holds_return) simp
      show "holds (\<lambda>s. if st_Healthy st then found_healthy ref addr s else polling ref addr s)
        (if st_Healthy st then ret None else do { now \<leftarrow> outside (rc_Now r);
            if \<not> now < deadline then ret (Some (Opaque (''readiness timed out after ''
                @ Duration_String (rc_readinessTimeout r) @ '': '' @ st_Detail st)))
            else do { outside (rc_clock_Sleep r (rc_readinessPollInterval r)); poll_health r ref deadline n } }) ?Q" for st
        using wait by (cases "st_Healthy st") (auto intro!: holds_return)
    qed
  qed
qed

lemma wait_gate:
  "holds (polling ref addr) (waitUntilHealthy r ref)
     (\<lambda>x s. case x of None \<Rightarrow> found_healthy ref addr s | Some _ \<Rightarrow> gated (log s))"
  unfolding waitUntilHealthy_def
  by (rule holds_bind [OF holds_world poll_health_gate]) (simp add: polling_def)

lemma attempt_fails_gate: "holds gated_sys (attempt_fails env p e) (\<lambda>_. gated_sys)"
  unfolding attempt_fails_def by (rule holds_return)

lemma install_gate:
  "holds (\<lambda>s. gated (log s) \<and> certificate_before name (log s)) (installCertificate r name certRef)
      (\<lambda>x s. case x of None \<Rightarrow> gated (log s) | Some _ \<Rightarrow> gated (log s))"
  unfolding installCertificate_def
  by (cases "dp_CertificateInstaller (rc_deploy r)")
    (auto intro!: holds_return holds_provider_call split: option.splits)

lemma certificate_stage:
  assumes tail: "\<And>certRef. holds gated_sys (tail_of certRef) (\<lambda>_. gated_sys)"
  shows "holds (\<lambda>s. gated (log s) \<and> record_before name (log s))
    (on_err (provider_call (CertificateEnsured name) (cp_EnsureCertificate (rc_cert r) name))
       (attempt_fails env p)
       (\<lambda>certRef. if_err (installCertificate r name certRef) (attempt_fails env q) (tail_of certRef)))
    (\<lambda>_. gated_sys)"
proof (rule holds_on_err [where R = "\<lambda>_. gated_sys" and T = "\<lambda>_ s. gated (log s) \<and> certificate_before name (log s)"])
  show "holds (\<lambda>s. gated (log s) \<and> record_before name (log s))
     (provider_call (CertificateEnsured name) (cp_EnsureCertificate (rc_cert r) name))
     (\<lambda>x s. case x of Inl e \<Rightarrow> gated (log s) | Inr a \<Rightarrow> gated (log s) \<and> certificate_before name (log s))"
    by (rule holds_provider_call) (auto split: sum.splits)
  show "holds (\<lambda>s. gated (log s) \<and> certificate_before name (log s))
     (if_err (installCertificate r name certRef) (attempt_fails env q) (tail_of certRef)) (\<lambda>_. gated_sys)" for certRef
    by (rule holds_if_err [OF install_gate attempt_fails_gate tail])
qed (rule attempt_fails_gate)

lemma record_stage:
  assumes tail: "holds (\<lambda>s. gated (log s) \<and> record_before (pr_Name rec) (log s)) k (\<lambda>_. gated_sys)"
  shows "holds (found_healthy ref (pr_Value rec))
    (if_err (provider_call (RecordEnsured rec) (dns_EnsureRecord (rc_dns r) rec)) (attempt_fails env p) k) (\<lambda>_. gated_sys)"
proof (rule holds_if_err [where R = "\<lambda>_. gated_sys" and T = "\<lambda>s. gated (log s) \<and> record_before (pr_Name rec) (log s)"])
  show "holds (found_healthy ref (pr_Value rec)) (provider_call (RecordEnsured rec) (dns_EnsureRecord (rc_dns r) rec))
     (\<lambda>x s. case x of None \<Rightarrow> gated (log s) \<and> record_before (pr_Name rec) (log s) | Some e \<Rightarrow> gated (log s))"
    by (rule holds_provider_call) (auto simp: found_healthy_def split: option.splits)
qed (rule attempt_fails_gate tail)+

lemma attempt_gate: "keeps gated_sys (attemptApply r env req name tag)"
proof -
  have tail: "holds gated_sys (if_err (recordDNSRow r i rec) (\<lambda>err. ret (env, Some err)) (persist_ready r env req ref))
      (\<lambda>_. gated_sys)" for i rec ref
    unfolding keeps_def [symmetric]
    by (intro keeps_rules gate.recordDNSRow_keeps gate.persist_ready_keeps)
  let ?rec = "\<lambda>d. \<lparr>pr_Zone = rc_baseDomain r, pr_Name = name, pr_Type = ''A'',
      pr_Value = dep_InternalAddr d, pr_OwnershipTag = tag\<rparr>"
  let ?spec = "\<lparr>sp_Project = ar_Project req, sp_Branch = ar_Branch req, sp_Subdomain = ar_Subdomain req,
      sp_ArtifactRef = ar_ArtifactRef req, sp_PreviousRef = env_DeployRef env\<rparr>"
  have published: "holds (found_healthy (dep_Ref d) (pr_Value (?rec d)))
    (if_err (provider_call (RecordEnsured (?rec d)) (dns_EnsureRecord (rc_dns r) (?rec d)))
       (attempt_fails env ''dns ensure record: '')
       (on_err (provider_call (CertificateEnsured name) (cp_EnsureCertificate (rc_cert r) name))
         (attempt_fails env ''ensure certificate: '')
         (\<lambda>certRef. if_err (installCertificate r name certRef) (attempt_fails env ''install certificate: '')
           (if_err (recordDNSRow r (env_ID env) (?rec d)) (\<lambda>err. ret (env, Some err))
             (persist_ready r env req (dep_Ref d)))))) (\<lambda>_. gated_sys)" for d
    using record_stage [where rec = "?rec d", OF certificate_stage [OF tail]] by simp
  show ?thesis
    unfolding keeps_def attemptApply_def Let_def
  proof (rule holds_on_err [where R = "\<lambda>_. gated_sys" and T = "\<lambda>d. polling (dep_Ref d) (dep_InternalAddr d)"])
    show "holds gated_sys (provider_call (Applied ?spec) (dp_Apply (rc_deploy r) ?spec))
      (\<lambda>x s. case x of Inl e \<Rightarrow> gated_sys s | Inr d \<Rightarrow> polling (dep_Ref d) (dep_InternalAddr d) s)"
      by (rule holds_provider_call) (auto simp: polling_def split: sum.splits)
  next
    fix d
    show "holds (polling (dep_Ref d) (dep_InternalAddr d))
      (if_err (waitUntilHealthy r (dep_Ref d)) (attempt_fails env ''readiness check: '')
        (if_err (provider_call (RecordEnsured (?rec d)) (dns_EnsureRecord (rc_dns r) (?rec d)))
           (attempt_fails env ''dns ensure record: '')
           (on_err (provider_call (CertificateEnsured name) (cp_EnsureCertificate (rc_cert r) name))
             (attempt_fails env ''ensure certificate: '')
             (\<lambda>certRef. if_err (installCertificate r name certRef) (attempt_fails env ''install certificate: '')
               (if_err (recordDNSRow r (env_ID env) (?rec d)) (\<lambda>err. ret (env, Some err))
                 (persist_ready r env req (dep_Ref d))))))) (\<lambda>_. gated_sys)"
      using holds_if_err [OF wait_gate attempt_fails_gate published [of d, simplified]] by simp
  qed (rule attempt_fails_gate)
qed

interpretation gate_rc: reconciler_contract "gated_sys :: 'w sys \<Rightarrow> bool" r for r :: "'w Reconciler"
proof unfold_locales
  show "background c \<Longrightarrow> gated_sys s \<Longrightarrow> gated_sys (s\<lparr>log := c # log s\<rparr>)" for c and s :: "'w sys"
    by (simp add: gated_other)
qed (rule attempt_gate)

interpretation gate_daemon: inductive_invariant "daemon_start d0" "daemon_step r rp" gated_sys
  for d0 and r :: "'w Reconciler" and rp
  by unfold_locales (auto simp: daemon_start_def intro: gate_rc.daemon_step_keeps)

lemma gated_suffix: "gated (pre @ l) \<Longrightarrow> gated l"
proof (induction pre)
  case (Cons c pre)
  then show ?case by (cases c) auto
qed simp

text \<open>
  C3: nothing is published before it serves. In every run of the daemon, whatever the
  providers and the database answer: the call right before the publication of a DNS record
  is a health check that found its deployment healthy, the record points at the address that
  very deployment was given, and no other deployment was touched in between; a certificate
  is requested only right after the record of its domain was published successfully; and a
  certificate is installed only right after it was obtained.
\<close>

theorem published_only_when_healthy:
  assumes "reachable (daemon_start d0) (daemon_step r rp) s" and "log s = later @ c # before"
  shows "case c of
      RecordEnsured rec _ \<Rightarrow> healthy_before rec before
    | CertificateEnsured name _ \<Rightarrow> record_before name before
    | CertificateInstalled name _ \<Rightarrow> certificate_before name before
    | _ \<Rightarrow> True"
proof -
  have "gated (c # before)"
    using gate_daemon.reachable_inv [OF assms(1)] assms(2) gated_suffix by metis
  then show ?thesis
    by (cases c) auto
qed

end
