(* ===== verification/Reconciler_Theorems.thy ===== *)
theory Reconciler_Theorems
  imports Publish_Gate
begin

text \<open>
  What the single operations of the reconciler guarantee: teardown, sleep and wake, the
  retry bookkeeping, the admission ceiling, the polling loop.
\<close>

section \<open>Teardown\<close>

text \<open>The calls an exhaustive teardown makes, oldest first, with the answers the providers gave.\<close>

definition record_of :: "'w Reconciler \<Rightarrow> DNSRecord \<Rightarrow> PDNSRecord" where
  "record_of r rec = \<lparr>pr_Zone = rc_baseDomain r, pr_Name = dr_Name rec, pr_Type = dr_RecordType rec,
     pr_Value = dr_Value rec, pr_OwnershipTag = dr_OwnershipTag rec\<rparr>"

definition gone :: "error option \<Rightarrow> bool" where
  "gone x = (case x of None \<Rightarrow> True | Some e \<Rightarrow> errors_Is e ErrRecordAlreadyAbsent)"

definition teardown_calls ::
  "'w Reconciler \<Rightarrow> Environment \<Rightarrow> DNSRecord list \<Rightarrow> error option list \<Rightarrow> error option \<Rightarrow> error option
   \<Rightarrow> error option \<Rightarrow> call list" where
  "teardown_calls r env recs xs revoked removed destroyed =
     map (\<lambda>(rec, x). RecordDeleted (record_of r rec) x) (zip recs xs)
     @ [CertificateRevoked (fqdn r (env_Subdomain env)) revoked]
     @ (if dp_CertificateRemover (rc_deploy r) = None then []
        else [CertificateRemoved (fqdn r (env_Subdomain env)) removed])
     @ (if env_DeployRef env = [] then [] else [DeploymentDestroyed (env_DeployRef env) destroyed])"

lemma destroyRecord_effect:
  assumes "run_state (destroyRecord r rec) s = (errs, s')"
  shows "\<exists>x. log s' = RecordDeleted (record_of r rec) x # log s \<and> (errs = [] \<longrightarrow> gone x)
    \<and> db_environments (db s') = db_environments (db s)"
proof -
  obtain x w where x: "run_state (dns_DeleteRecord (rc_dns r) (record_of r rec)) (ext s) = (x, w)"
    by (cases "run_state (dns_DeleteRecord (rc_dns r) (record_of r rec)) (ext s)")
  let ?s1 = "s\<lparr>ext := w, log := RecordDeleted (record_of r rec) x # log s\<rparr>"
  obtain y s2 where y: "run_state (DeleteDNSRecord (rc_store r) (dr_ID rec)) ?s1 = (y, s2)"
    by (cases "run_state (DeleteDNSRecord (rc_store r) (dr_ID rec)) ?s1")
  have s2: "log s2 = log ?s1" "db_environments (db s2) = db_environments (db s)"
    using DeleteDNSRecord_effect [OF y] by (auto simp: delete_dns_record_def)
  show ?thesis
  proof (cases "gone x")
    case True
    then have "run_state (destroyRecord r rec) s = (case y of None \<Rightarrow> [] | Some e \<Rightarrow>
        [wrapf (''removing dns record row '' @ dr_ID rec @ '': '') e], s2)"
      using x y unfolding destroyRecord_def Let_def record_of_def [symmetric]
      by (cases x; cases y) (simp_all add: run_err gone_def)
    with assms True s2 show ?thesis by auto
  next
    case False
    then have "run_state (destroyRecord r rec) s =
        ([wrapf (''deleting dns record '' @ dr_Name rec @ '': '') (the x)], ?s1)"
      using x unfolding destroyRecord_def Let_def record_of_def [symmetric]
      by (cases x) (simp_all add: run_err gone_def)
    with assms show ?thesis by auto
  qed
qed

lemma destroyRecords_effect:
  "run_state (for_each (destroyRecord r) recs) s = (errs, s') \<Longrightarrow>
    \<exists>xs. length xs = length recs
      \<and> log s' = rev (map (\<lambda>(rec, x). RecordDeleted (record_of r rec) x) (zip recs xs)) @ log s
      \<and> (errs = [] \<longrightarrow> list_all gone xs) \<and> db_environments (db s') = db_environments (db s)"
proof (induction recs arbitrary: s errs s')
  case Nil
  then show ?case by simp
next
  case (Cons rec recs)
  obtain e1 s1 where a: "run_state (destroyRecord r rec) s = (e1, s1)"
    by (cases "run_state (destroyRecord r rec) s")
  obtain e2 s2 where b: "run_state (for_each (destroyRecord r) recs) s1 = (e2, s2)"
    by (cases "run_state (for_each (destroyRecord r) recs) s1")
  have e: "errs = e1 @ e2" "s' = s2"
    using Cons.prems a b by simp_all
  obtain x where x: "log s1 = RecordDeleted (record_of r rec) x # log s" "e1 = [] \<longrightarrow> gone x"
      "db_environments (db s1) = db_environments (db s)"
    using destroyRecord_effect [OF a] by blast
  obtain xs where xs: "length xs = length recs"
      "log s2 = rev (map (\<lambda>(rec, x). RecordDeleted (record_of r rec) x) (zip recs xs)) @ log s1"
      "e2 = [] \<longrightarrow> list_all gone xs" "db_environments (db s2) = db_environments (db s1)"
    using Cons.IH [OF b] by blast
  show ?case
    by (rule exI [of _ "x # xs"]) (use x xs e in simp)
qed

lemma ListDNSRecords_effect:
  assumes "run_state (ListDNSRecords rt i) s = (res, s')"
  shows "(\<exists>w. s' = s\<lparr>ext := w\<rparr>) \<and> (\<forall>recs. res = Inr recs \<longrightarrow> recs = select_dns_records i (db s))"
proof -
  obtain q s1 where q: "run_state (query rt (select_dns_records i)) s = (q, s1)"
    by (cases "run_state (query rt (select_dns_records i)) s")
  show ?thesis
    using assms query_effect [OF q]
    by (auto simp: ListDNSRecords_def run_err q fails_def split: sum.splits)
qed

lemma run_teardown_step:
  "run_state (teardown_step p m) s = (case run_state m s of (x, s') \<Rightarrow>
     (case x of None \<Rightarrow> [] | Some e \<Rightarrow> [wrapf p e], s'))"
  by (auto simp: teardown_step_def run_err split: prod.splits option.splits)

lemma teardown_effect:
  assumes "run_state (teardown r env) s = (errs, s')"
  shows "\<exists>recs xs a b c. (recs = select_dns_records (env_ID env) (db s) \<or> errs \<noteq> [] \<and> recs = [])
    \<and> length xs = length recs \<and> log s' = rev (teardown_calls r env recs xs a b c) @ log s
    \<and> (errs = [] \<longrightarrow> list_all gone xs \<and> a = None \<and> (dp_CertificateRemover (rc_deploy r) = None \<or> b = None)
        \<and> (env_DeployRef env = [] \<or> c = None))
    \<and> db_environments (db s') = db_environments (db s)"
proof -
  obtain l s1 where l: "run_state (ListDNSRecords (rc_store r) (env_ID env)) s = (l, s1)"
    by (cases "run_state (ListDNSRecords (rc_store r) (env_ID env)) s")
  obtain w1 where s1: "s1 = s\<lparr>ext := w1\<rparr>" and recs: "\<And>rs. l = Inr rs \<Longrightarrow> rs = select_dns_records (env_ID env) (db s)"
    using ListDNSRecords_effect [OF l] by blast
  define errs0 where "errs0 = (case l of Inl err \<Rightarrow> [wrapf ''listing dns records: '' err] | Inr rs \<Rightarrow> [])"
  define recs where "recs = (case l of Inl err \<Rightarrow> [] | Inr rs \<Rightarrow> rs)"
  have split_l: "(case l of Inl err \<Rightarrow> ([wrapf ''listing dns records: '' err], []) | Inr rs \<Rightarrow> ([], rs)) = (errs0, recs)"
    by (simp add: errs0_def recs_def split: sum.splits)
  obtain e1 s2 where f: "run_state (for_each (destroyRecord r) recs) s1 = (e1, s2)"
    by (cases "run_state (for_each (destroyRecord r) recs) s1")
  obtain xs where xs: "length xs = length recs"
      "log s2 = rev (map (\<lambda>(rec, x). RecordDeleted (record_of r rec) x) (zip recs xs)) @ log s1"
      "e1 = [] \<longrightarrow> list_all gone xs" "db_environments (db s2) = db_environments (db s1)"
    using destroyRecords_effect [OF f] by blast
  let ?n = "fqdn r (env_Subdomain env)"
  obtain a wa where a: "run_state (cp_RevokeCertificate (rc_cert r) ?n) (ext s2) = (a, wa)"
    by (cases "run_state (cp_RevokeCertificate (rc_cert r) ?n) (ext s2)")
  let ?s3 = "s2\<lparr>ext := wa, log := CertificateRevoked ?n a # log s2\<rparr>"
  obtain b s4 where b: "run_state (removeCertificate r ?n) ?s3 = (b, s4)"
    by (cases "run_state (removeCertificate r ?n) ?s3")
  obtain b' where s4: "log s4 = (if dp_CertificateRemover (rc_deploy r) = None then [] else [CertificateRemoved ?n b']) @ log ?s3"
      "dp_CertificateRemover (rc_deploy r) = None \<or> b = b'" "db s4 = db ?s3"
    using b by (auto simp: removeCertificate_def split: option.splits prod.splits)
  obtain c s5 where c: "run_state (destroyDeployment r (env_DeployRef env)) s4 = (c, s5)"
    by (cases "run_state (destroyDeployment r (env_DeployRef env)) s4")
  obtain c' where s5: "log s5 = (if env_DeployRef env = [] then [] else [DeploymentDestroyed (env_DeployRef env) c']) @ log s4"
      "env_DeployRef env = [] \<or> c = c'" "db s5 = db s4"
    using c by (auto simp: destroyDeployment_def split: if_splits prod.splits)
  have res: "errs = errs0 @ e1 @ (case a of None \<Rightarrow> [] | Some e \<Rightarrow> [wrapf ''revoking certificate: '' e])
      @ (case b of None \<Rightarrow> [] | Some e \<Rightarrow> [wrapf ''removing deployed certificate: '' e])
      @ (case c of None \<Rightarrow> [] | Some e \<Rightarrow> [wrapf ''destroying deployment: '' e])" "s' = s5"
    using assms unfolding teardown_def
    by (simp_all add: l split_l f run_teardown_step a b c)
  show ?thesis
  proof (rule exI [of _ recs], rule exI [of _ xs], rule exI [of _ a], rule exI [of _ b'], rule exI [of _ c'], intro conjI)
    show "recs = select_dns_records (env_ID env) (db s) \<or> errs \<noteq> [] \<and> recs = []"
      using recs res(1) by (cases l) (simp_all add: recs_def errs0_def)
    show "log s' = rev (teardown_calls r env recs xs a b' c') @ log s"
      using res(2) s4(1) s5(1) xs(2) s1 by (simp add: teardown_calls_def)
    show "errs = [] \<longrightarrow> list_all gone xs \<and> a = None \<and> (dp_CertificateRemover (rc_deploy r) = None \<or> b' = None)
        \<and> (env_DeployRef env = [] \<or> c' = None)"
      using res(1) xs(3) s4(2) s5(2) by (auto split: option.splits)
    show "db_environments (db s') = db_environments (db s)"
      using res(2) s5(3) s4(3) xs(4) s1 by simp
  qed (rule xs(1))
qed

text \<open>
  C6: teardown is exhaustive and honest. \<open>doDestroy\<close> asks for the deletion of every DNS record
  of the environment, for the revocation of its certificate, for its removal from the target
  where the target supports it, and for the destruction of its deployment, each exactly once
  and in this order, whichever of these calls failed before; and the row of the environment
  changes only if all of them succeeded (a record that was already absent counts as deleted),
  in which case the row is destroyed when no error is returned.
\<close>

theorem teardown_exhaustive:
  assumes "run_state (doDestroy r env) s = (res, s')"
  shows "\<exists>recs xs revoked removed destroyed more.
      (recs = select_dns_records (env_ID env) (db s) \<or> res \<noteq> None \<and> recs = []) \<and> length xs = length recs
    \<and> rev (log s') = rev (log s) @ teardown_calls r env recs xs revoked removed destroyed @ more
    \<and> (db_environments (db s') = db_environments (db s)
       \<or> list_all gone xs \<and> revoked = None \<and> (dp_CertificateRemover (rc_deploy r) = None \<or> removed = None)
         \<and> (env_DeployRef env = [] \<or> destroyed = None))
    \<and> (res = None \<longrightarrow> list_all gone xs \<and> revoked = None
         \<and> map_option er_status (select_environment (env_ID env) (db s')) = Some StatusDestroyed)"
proof -
  obtain errs s1 where t: "run_state (teardown r env) s = (errs, s1)"
    by (cases "run_state (teardown r env) s")
  obtain recs xs a b c where td: "recs = select_dns_records (env_ID env) (db s) \<or> errs \<noteq> [] \<and> recs = []"
    "length xs = length recs" "log s1 = rev (teardown_calls r env recs xs a b c) @ log s"
    "errs = [] \<longrightarrow> list_all gone xs \<and> a = None \<and> (dp_CertificateRemover (rc_deploy r) = None \<or> b = None)
        \<and> (env_DeployRef env = [] \<or> c = None)"
    "db_environments (db s1) = db_environments (db s)"
    using teardown_effect [OF t] by blast
  show ?thesis
  proof (cases "errs = []")
    case False
    then have "s' = s1" "res \<noteq> None"
      using assms t by (auto simp: doDestroy_def fails_with_def)
    with td False show ?thesis
      by (intro exI [of _ recs] exI [of _ xs] exI [of _ a] exI [of _ b] exI [of _ c] exI [of _ "[]"]) auto
  next
    case True
    let ?env = "env\<lparr>env_Status := StatusDestroyed\<rparr>"
    obtain u s2 where u: "run_state (UpdateEnvironment (rc_store r) ?env) s1 = (u, s2)"
      by (cases "run_state (UpdateEnvironment (rc_store r) ?env) s1")
    have upd: "\<exists>k. log s2 = k @ log s1"
      using UpdateEnvironment_effect [OF u] by auto
    have st: "map_option er_status (select_environment (env_ID env) (db s2)) = Some StatusDestroyed" if "u = Inr env'" for env'
    proof -
      from update_environment_effect_Inr [OF u [unfolded that]]
      show ?thesis by auto
    qed
    have fin: "\<exists>k. log s' = k @ log s2" "db s' = db s2" "res = None \<Longrightarrow> \<exists>env'. u = Inr env'"
      using assms t True u
      by (auto simp: doDestroy_def run_err fails_with_def notify_def ignore_def split: sum.splits prod.splits)
    obtain k where "log s' = k @ log s1"
      using upd fin(1) by (metis append.assoc)
    with td True st fin(2,3) show ?thesis
      by (intro exI [of _ recs] exI [of _ xs] exI [of _ a] exI [of _ b] exI [of _ c] exI [of _ "rev k"]) auto
  qed
qed

theorem teardown_exhaustive_witness:
  "\<exists>res s'. run_state (doDestroy ex_reconciler ex_env) ex_sys = (res, s')
     \<and> (\<exists>x. CertificateRevoked (fqdn ex_reconciler []) x \<in> set (log s'))"
proof -
  obtain res s' where r: "run_state (doDestroy ex_reconciler ex_env) ex_sys = (res, s')"
    by (cases "run_state (doDestroy ex_reconciler ex_env) ex_sys")
  obtain recs xs a b c more where
    "rev (log s') = rev (log ex_sys) @ teardown_calls ex_reconciler ex_env recs xs a b c @ more"
    using teardown_exhaustive [OF r] by blast
  then have "CertificateRevoked (fqdn ex_reconciler (env_Subdomain ex_env)) a \<in> set (rev (log s'))"
    by (simp add: teardown_calls_def)
  then show ?thesis
    using r by (auto simp: ex_env_def empty_Environment_def)
qed

section \<open>Sleep and wake\<close>

text \<open>The calls that reach the outside world.\<close>

definition provider_side :: "call \<Rightarrow> bool" where
  "provider_side c = (case c of
       Locked _ \<Rightarrow> False | Unlocked _ \<Rightarrow> False | AdmissionLocked \<Rightarrow> False | AdmissionUnlocked \<Rightarrow> False
     | EnvStored _ _ \<Rightarrow> False | EventStored _ _ _ \<Rightarrow> False | _ \<Rightarrow> True)"

lemma provider_side_simps [simp]:
  "\<not> provider_side (Locked k)" "\<not> provider_side (Unlocked k)" "\<not> provider_side (EnvStored i st)"
  "\<not> provider_side (EventStored i e k)" "\<not> provider_side AdmissionLocked" "\<not> provider_side AdmissionUnlocked"
  by (simp_all add: provider_side_def)

text \<open>
  Sleep and wake are guarded. \<open>Sleep\<close> acts only on a ready environment and \<open>Wake\<close> only on a
  sleeping one; in every other status each returns \<open>ErrInvalidEnvironmentAction\<close>, makes no call
  to a provider, stores no event and changes no table. The replay of a stored request checks
  the status again and fails permanently, so a stale deployment reference never reaches the
  provider.
\<close>

theorem sleep_wake_guarded:
  assumes "env_Status env \<noteq> StatusReady" and "env_Status env' \<noteq> StatusSleeping"
  shows "(case run_state (Sleep r env) s of (res, s') \<Rightarrow>
        (\<exists>e. res = Inl e \<and> errors_Is e ErrInvalidEnvironmentAction) \<and> db s' = db s
        \<and> filter provider_side (log s') = filter provider_side (log s))
    \<and> (case run_state (Wake r env') s of (res, s') \<Rightarrow>
        (\<exists>e. res = Inl e \<and> errors_Is e ErrInvalidEnvironmentAction) \<and> db s' = db s
        \<and> filter provider_side (log s') = filter provider_side (log s))
    \<and> (\<exists>e. run_state (doSleep r env) s = (Inl e, s) \<and> IsTerminal (Some e))
    \<and> (\<exists>e. run_state (doWake r env') s = (Inl e, s) \<and> IsTerminal (Some e))"
  using assms
  by (simp add: Sleep_def Wake_def doSleep_def doWake_def with_lock_def invalid_action_def)

theorem sleep_wake_guarded_witness:
  "\<exists>e. run_state (doWake ex_reconciler ex_env) ex_sys = (Inl e, ex_sys) \<and> IsTerminal (Some e)"
  using sleep_wake_guarded [where env = "ex_env\<lparr>env_Status := StatusFailed\<rparr>" and env' = ex_env
      and r = ex_reconciler and s = ex_sys]
  by (simp add: ex_env_def)

section \<open>Retry bookkeeping\<close>

definition clock_stands :: "'w Reconciler \<Rightarrow> time \<Rightarrow> bool" where
  "clock_stands r now \<longleftrightarrow> (\<forall>w. fst (run_state (rc_Now r) w) = now)"

lemma mark_healthy:
  assumes "healthy_driver rt" and "stmt (db s) = (n, d)"
  shows "\<exists>w. snd (run_state (exec_mark rt op stmt) s) = s\<lparr>ext := w, db := d\<rparr>"
proof -
  obtain w1 where w1: "run_state (rt_sql rt) (ext s) = (None, w1)"
    using healthy_sql [OF assms(1)] by blast
  obtain w2 where w2: "run_state (rt_sql rt) w1 = (None, w2)"
    using healthy_sql [OF assms(1)] by blast
  show ?thesis
    using assms(2) w1 w2 by (auto simp: exec_mark_def exec_rows_def run_err fails_with_def)
qed

lemma only_row:
  assumes "db_wf d" and "row \<in> set (db_events d)" and "q \<in> set (db_events d)" and "vr_id q = vr_id row"
  shows "q = row"
  using assms by (auto simp: db_wf_def events_wf_def distinct_map dest: inj_onD)

lemma updated_row:
  assumes "update_events (\<lambda>r. vr_id r = vr_id row \<and> pending_event r) f d = (n, d')"
    and "row \<in> set (db_events d)" and "pending_event row"
  shows "f row \<in> set (db_events d')"
  unfolding update_events_set [OF assms(1)] using assms(2,3) by (intro image_eqI [of _ _ row]) auto


definition ex_event :: event_row where
  "ex_event = event_args (empty_StoreEvent\<lparr>ev_ID := ''v1'', ev_Kind := ''webhook_received'', ev_Attempts := 4\<rparr>)"

definition ex_inbox :: "example_world sys" where
  "ex_inbox = ex_sys\<lparr>db := ex_db\<lparr>db_events := [ex_event]\<rparr>\<rparr>"

lemma ex_runtime_laws: "healthy_driver ex_runtime" "uniform_law ex_runtime"
  by (simp_all add: ex_runtime_def healthy_driver_def uniform_law_def)

lemma ex_inbox_wf: "db_wf (db ex_inbox)"
  by (simp add: ex_inbox_def ex_sys_def ex_db_def ex_event_def event_args_def empty_StoreEvent_def
      empty_database_def nullableString_def db_wf_def envs_wf_def events_wf_def refs_wf_def)


section \<open>Claiming before working\<close>

text \<open>
  An event that was not claimed is not worked on: when the claim is refused or fails,
  \<open>ProcessEvent\<close> takes no lock, calls no provider, counts nothing and leaves environments, DNS
  records and the log as they were.
\<close>

theorem unclaimed_event_untouched:
  assumes "run_state (rc_Now r) (ext s) = (now, w1)" and "run_state (rc_Now r) w1 = (now2, w2)"
    and "run_state (ClaimEvent (rc_store r) (ev_ID ev) now (now2 + 10 * Minute)) (s\<lparr>ext := w2\<rparr>) = (c, s1)"
    and "c \<noteq> Inr True" and "s' = snd (run_state (ProcessEvent r ev) s)"
  shows "log s' = log s \<and> metrics s' = metrics s
    \<and> db_environments (db s') = db_environments (db s) \<and> db_dns_records (db s') = db_dns_records (db s)"
proof -
  have "s' = s1"
    using assms by (cases c) (auto simp: ProcessEvent_def run_err)
  then show ?thesis
    using ClaimEvent_effect [OF assms(3)] by (auto simp: claim_event_def update_events_def)
qed

theorem unclaimed_event_untouched_witness:
  "log (snd (run_state (ProcessEvent ex_reconciler (empty_StoreEvent\<lparr>ev_ID := ''nope''\<rparr>)) ex_inbox)) = []"
proof -
  let ?ev = "empty_StoreEvent\<lparr>ev_ID := ''nope''\<rparr>"
  have now: "run_state (rc_Now ex_reconciler) w = (fst w, w)" for w
    by (simp add: ex_reconciler_def NewReconciler_def)
  obtain s1 where c: "run_state (ClaimEvent (rc_store ex_reconciler) (ev_ID ?ev) (fst (ext ex_inbox)) (fst (ext ex_inbox) + 10 * Minute))
      (ex_inbox\<lparr>ext := ext ex_inbox\<rparr>) = (Inr False, s1)"
    by (simp add: ClaimEvent_def exec_rows_def run_err ex_reconciler_def NewReconciler_def ex_runtime_def
        ex_inbox_def ex_sys_def claim_event_def update_events_def ex_event_def event_args_def empty_StoreEvent_def)
  show ?thesis
    using unclaimed_event_untouched [OF now now c _ refl] by (simp add: ex_inbox_def ex_sys_def)
qed

end
