(* ===== verification/Durable_First.thy ===== *)
theory Durable_First
  imports Reconciler_Theorems
begin

text \<open>
  The durable event comes first: the operations an operator or the reaper asks for store
  their event before any call to a provider, so that a crash in the middle is replayed.
\<close>

definition event_in :: "string \<Rightarrow> call list \<Rightarrow> bool" where
  "event_in kind l \<longleftrightarrow> (\<exists>i e. EventStored i e kind \<in> set l)"

text \<open>In a log, newest first, every call to a provider comes after an event of the kind was stored.\<close>

fun ordered :: "string \<Rightarrow> call list \<Rightarrow> bool" where
  "ordered kind [] = True"
| "ordered kind (c # l) = ((provider_side c \<longrightarrow> event_in kind l) \<and> ordered kind l)"

text \<open>The part of the log since \<open>base\<close>: no provider called yet; event stored; event first.\<close>

definition quiet_since :: "call list \<Rightarrow> 'w sys \<Rightarrow> bool" where
  "quiet_since base s \<longleftrightarrow> (\<exists>new. log s = new @ base \<and> list_all (\<lambda>c. \<not> provider_side c) new)"

definition stored_since :: "call list \<Rightarrow> string \<Rightarrow> 'w sys \<Rightarrow> bool" where
  "stored_since base kind s \<longleftrightarrow> (\<exists>new. log s = new @ base \<and> ordered kind new \<and> event_in kind new)"

definition ordered_since :: "call list \<Rightarrow> string \<Rightarrow> 'w sys \<Rightarrow> bool" where
  "ordered_since base kind s \<longleftrightarrow> (\<exists>new. log s = new @ base \<and> ordered kind new)"

lemma quiet_ordered: "list_all (\<lambda>c. \<not> provider_side c) new \<Longrightarrow> ordered kind new"
  by (induction new) auto

lemma since_ordered [intro]:
  "quiet_since base s \<Longrightarrow> ordered_since base kind s"
  "stored_since base kind s \<Longrightarrow> ordered_since base kind s"
  by (auto simp: quiet_since_def stored_since_def ordered_since_def intro: quiet_ordered)

lemma stored_since_call: "stored_since base kind s \<Longrightarrow> log s' = c # log s \<Longrightarrow> stored_since base kind s'"
  unfolding stored_since_def by (elim exE, rule_tac x = "c # new" in exI) (auto simp: event_in_def)

lemma quiet_since_call: "quiet_since base s \<Longrightarrow> \<not> provider_side c \<Longrightarrow> log s' = c # log s \<Longrightarrow> quiet_since base s'"
  unfolding quiet_since_def by (elim exE, rule_tac x = "c # new" in exI) auto

lemma ordered_since_call: "ordered_since base kind s \<Longrightarrow> \<not> provider_side c \<Longrightarrow> log s' = c # log s \<Longrightarrow> ordered_since base kind s'"
  unfolding ordered_since_def by (elim exE, rule_tac x = "c # new" in exI) auto

lemma since_same:
  "log s' = log s \<Longrightarrow> quiet_since base s \<Longrightarrow> quiet_since base s'"
  "log s' = log s \<Longrightarrow> stored_since base kind s \<Longrightarrow> stored_since base kind s'"
  by (simp_all add: quiet_since_def stored_since_def)

text \<open>Writes of the store append one call at most, which is no call to a provider.\<close>

lemma environment_writes_log:
  "run_state (CreateEnvironment rt env) s = (res, s') \<Longrightarrow> log s' = log s \<or> (\<exists>i st. log s' = EnvStored i st # log s)"
  "run_state (UpdateEnvironment rt env) s = (res, s') \<Longrightarrow> log s' = log s \<or> (\<exists>i st. log s' = EnvStored i st # log s)"
  by (drule CreateEnvironment_effect, force) (drule UpdateEnvironment_effect, force)

lemma event_write_log:
  "run_state (CreateEvent rt ev) s = (res, s') \<Longrightarrow> log s' = log s \<or> (\<exists>i e k. log s' = EventStored i e k # log s)"
  by (drule CreateEvent_effect, force)

lemma other_writes_log:
  "run_state (CreateDNSRecord rt rec) s = (res, s') \<Longrightarrow> log s' = log s"
  "run_state (DeleteDNSRecord rt i) s = (res', s') \<Longrightarrow> log s' = log s"
  "run_state (ClaimEvent rt i now later) s = (res'', s') \<Longrightarrow> log s' = log s"
  "run_state (exec_mark rt op stmt) s = (res', s') \<Longrightarrow> log s' = log s"
  "run_state (PruneProcessedEvents rt before limit) s = (res3, s') \<Longrightarrow> log s' = log s"
  by (drule CreateDNSRecord_effect, force) (drule DeleteDNSRecord_effect, force, drule ClaimEvent_effect, force,
    drule exec_mark_effect, force, drule PruneProcessedEvents_effect, simp)

text \<open>An invariant that only reads the log, and that committed writes do not break.\<close>

lemma log_contract:
  assumes same: "\<And>s s'. log s' = log s \<Longrightarrow> I s \<Longrightarrow> I s'"
    and call: "\<And>s s' c. stored_call c \<Longrightarrow> log s' = c # log s \<Longrightarrow> I s \<Longrightarrow> I s'"
  shows "store_contract (I :: 'w sys \<Rightarrow> bool) r"
proof
  have stored: "stored_call (EnvStored i st)" "stored_call (EventStored i e k)" for i st e k
    by (simp_all add: stored_call_def)
  show "I s \<Longrightarrow> I (s\<lparr>ext := w\<rparr>)" for s w
    by (rule same) simp_all
  show "I s \<Longrightarrow> I (s\<lparr>metrics := m\<rparr>)" for s m
    by (rule same) simp_all
  show "keeps I (CreateEnvironment (rc_store r) env)" for env
    by (rule keepsI, drule environment_writes_log(1)) (elim disjE exE, erule (1) same, (erule (1) call [OF stored(1)] | erule (1) call [OF stored(2)]))
  show "keeps I (UpdateEnvironment (rc_store r) env)" for env
    by (rule keepsI, drule environment_writes_log(2)) (elim disjE exE, erule (1) same, (erule (1) call [OF stored(1)] | erule (1) call [OF stored(2)]))
  show "keeps I (CreateEvent (rc_store r) ev)" for ev
    by (rule keepsI, drule event_write_log) (elim disjE exE, erule (1) same, (erule (1) call [OF stored(1)] | erule (1) call [OF stored(2)]))
  show "keeps I (CreateDNSRecord (rc_store r) rec)" for rec
    by (rule keepsI, drule other_writes_log(1)) (rule same)
  show "keeps I (DeleteDNSRecord (rc_store r) i)" for i
    by (rule keepsI, drule other_writes_log(2)) (rule same)
  show "keeps I (ClaimEvent (rc_store r) i now later)" for i now later
    by (rule keepsI, drule other_writes_log(3)) (rule same)
  show "keeps I (MarkEventProcessed (rc_store r) i at)" for i at
    unfolding MarkEventProcessed_def by (rule keepsI, drule other_writes_log(4)) (rule same)
  show "keeps I (MarkEventDeadLettered (rc_store r) i at msg)" for i at msg
    unfolding MarkEventDeadLettered_def by (rule keepsI, drule other_writes_log(4)) (rule same)
  show "keeps I (MarkEventRetry (rc_store r) i at msg)" for i at msg
    unfolding MarkEventRetry_def by (rule keepsI, drule other_writes_log(4)) (rule same)
  show "keeps I (PruneProcessedEvents (rc_store r) before limit)" for before limit
    by (rule keepsI, drule other_writes_log(5)) (rule same)
qed

lemma stored_not_provider: "stored_call c \<Longrightarrow> \<not> provider_side c"
  by (cases c) (simp_all add: stored_call_def provider_side_def)

interpretation quiet: store_contract "quiet_since base :: 'w sys \<Rightarrow> bool" r for base and r :: "'w Reconciler"
proof (rule log_contract)
  show "log s' = log s \<Longrightarrow> quiet_since base s \<Longrightarrow> quiet_since base s'" for s s' :: "'w sys"
    by (rule since_same)
  show "stored_call c \<Longrightarrow> log s' = c # log s \<Longrightarrow> quiet_since base s \<Longrightarrow> quiet_since base s'" for c and s s' :: "'w sys"
    by (rule quiet_since_call [OF _ stored_not_provider])
qed

interpretation stored_first: free_log_contract "stored_since base kind :: 'w sys \<Rightarrow> bool" r
  for base kind and r :: "'w Reconciler"
proof (rule free_log_contract.intro)
  show "store_contract (stored_since base kind :: 'w sys \<Rightarrow> bool) r"
  proof (rule log_contract)
    show "log s' = log s \<Longrightarrow> stored_since base kind s \<Longrightarrow> stored_since base kind s'" for s s' :: "'w sys"
      by (rule since_same)
    show "log s' = c # log s \<Longrightarrow> stored_since base kind s \<Longrightarrow> stored_since base kind s'" for c and s s' :: "'w sys"
      by (rule stored_since_call)
  qed
  show "free_log_contract_axioms (stored_since base kind :: 'w sys \<Rightarrow> bool)"
    by unfold_locales (erule stored_since_call, simp)
qed

text \<open>A body that stores its event and then does the rest, under its lock.\<close>

lemma event_then:
  assumes "ev_Kind ev = kind" and "\<And>x. keeps (stored_since base kind) (k x)"
    and "\<And>e. keeps (quiet_since base) (h e)"
  shows "holds (quiet_since base) (on_err (CreateEvent rt ev) h k) (\<lambda>_. ordered_since base kind)"
proof (rule holds_on_err [where R = "\<lambda>_. quiet_since base" and T = "\<lambda>_. stored_since base kind"])
  show "holds (quiet_since base) (CreateEvent rt ev)
      (\<lambda>x s. case x of Inl e \<Rightarrow> quiet_since base s | Inr a \<Rightarrow> stored_since base kind s)"
  proof (rule holdsI)
    fix s a s'
    assume q: "quiet_since base s" and run: "run_state (CreateEvent rt ev) s = (a, s')"
    obtain new where new: "log s = new @ base" "list_all (\<lambda>c. \<not> provider_side c) new"
      using q by (auto simp: quiet_since_def)
    show "case a of Inl e \<Rightarrow> quiet_since base s' | Inr a \<Rightarrow> stored_since base kind s'"
      using CreateEvent_effect [OF run]
    proof (elim disjE exE conjE)
      fix w assume "s' = s\<lparr>ext := w\<rparr>" "isl a"
      then have "log s' = log s" "\<exists>e. a = Inl e" by (auto simp: isl_def)
      with since_same(1) [OF _ q] show ?thesis by auto
    next
      fix w i now d
      assume "s' = s\<lparr>ext := w, db := d, log := EventStored i (ev_EnvironmentID ev) (ev_Kind ev) # log s\<rparr>"
        and a: "a = Inr (ev\<lparr>ev_ID := i, ev_CreatedAt := now\<rparr>)"
      then have "log s' = (EventStored i (ev_EnvironmentID ev) kind # new) @ base"
        using new(1) assms(1) by simp
      then have "stored_since base kind s'"
        unfolding stored_since_def using quiet_ordered [OF new(2)]
        by (intro exI [of _ "EventStored i (ev_EnvironmentID ev) kind # new"]) (auto simp: event_in_def)
      with a show ?thesis by simp
    qed
  qed
  show "holds (quiet_since base) (h e) (\<lambda>_. ordered_since base kind)" for e
    by (rule holds_keeps [OF assms(3)]) auto
  show "holds (stored_since base kind) (k x) (\<lambda>_. ordered_since base kind)" for x
    by (rule holds_keeps [OF assms(2)]) auto
qed

lemma locked_ordered:
  fixes m :: "('w sys, 'b) state"
  assumes "holds (quiet_since base) m (\<lambda>_. ordered_since base kind)"
  shows "holds (quiet_since base) (with_lock p b m) (\<lambda>_. ordered_since base kind)"
  unfolding with_lock_def
proof (rule holds_bind [where R = "\<lambda>_. quiet_since base"])
  show "holds (quiet_since base) (log_call (Locked (lock_key p b))) (\<lambda>_. quiet_since base)"
    by (rule holdsI, erule quiet_since_call [where c = "Locked (lock_key p b)"]) auto
  have "holds (ordered_since base kind) (log_call (Unlocked (lock_key p b))) (\<lambda>_. ordered_since base kind)"
    by (rule holdsI, erule ordered_since_call [where c = "Unlocked (lock_key p b)"]) auto
  then have "holds (ordered_since base kind) (do { log_call (Unlocked (lock_key p b)); ret x }) (\<lambda>_. ordered_since base kind)" for x :: 'b
    by (rule holds_bind) (rule holds_return)
  then show "holds (quiet_since base) (do { x \<leftarrow> m; log_call (Unlocked (lock_key p b)); ret x }) (\<lambda>_. ordered_since base kind)" for a :: unit
    by (rule holds_bind [OF assms])
qed

lemma Apply_ordered: "holds (quiet_since base) (Apply r req) (\<lambda>_. ordered_since base EventKindApplyRequested)"
  unfolding Apply_def applyLocked_def Let_def
proof (rule locked_ordered, rule holds_on_err [where R = "\<lambda>_. quiet_since base" and T = "\<lambda>_. quiet_since base"])
  show "holds (quiet_since base) (upsertPendingEnvironment r req)
      (\<lambda>x s. case x of Inl e \<Rightarrow> quiet_since base s | Inr env \<Rightarrow> quiet_since base s)"
    by (rule holds_keeps [OF quiet.upsert_keeps]) (auto split: sum.splits)
qed (auto simp: fails_def intro!: holds_return event_then keeps_rules stored_first.doApply_keeps
    stored_first.bookkeeping_keeps)

lemma Destroy_ordered: "holds (quiet_since base) (Destroy r env) (\<lambda>_. ordered_since base EventKindDestroyRequested)"
  unfolding Destroy_def destroyLocked_def Let_def
  by (rule locked_ordered, rule event_then)
    (auto simp: fails_with_def intro!: keeps_rules stored_first.mark_destroying_keeps
      stored_first.doDestroy_keeps stored_first.bookkeeping_keeps)

lemma Sleep_ordered: "holds (quiet_since base) (Sleep r env) (\<lambda>_. ordered_since base EventKindSleepRequested)"
  unfolding Sleep_def durable_action_def
  by (rule locked_ordered, cases "env_Status env = StatusReady", simp_all, rule event_then)
    (auto simp: fails_def intro!: keeps_rules holds_return stored_first.doSleep_keeps stored_first.bookkeeping_keeps)

lemma Wake_ordered: "holds (quiet_since base) (Wake r env) (\<lambda>_. ordered_since base EventKindWakeRequested)"
  unfolding Wake_def durable_action_def
  by (rule locked_ordered, cases "env_Status env = StatusSleeping", simp_all, rule event_then)
    (auto simp: fails_def intro!: keeps_rules holds_return stored_first.doWake_keeps stored_first.bookkeeping_keeps)

lemma ordered_run:
  assumes "holds (quiet_since (log s)) m (\<lambda>_. ordered_since (log s) kind)"
  shows "\<exists>new. log (snd (run_state m s)) = new @ log s \<and> ordered kind new"
proof -
  obtain a s' where run: "run_state m s = (a, s')"
    by (cases "run_state m s")
  have "quiet_since (log s) s"
    by (auto simp: quiet_since_def intro: exI [of _ "[]"])
  from holdsD [OF assms this run] show ?thesis
    by (simp add: run ordered_since_def)
qed

text \<open>
  C5: the durable event comes first. In every run of \<open>Apply\<close>, \<open>Destroy\<close>, \<open>Sleep\<close> and \<open>Wake\<close>,
  whatever fails on the way, each call that reaches a provider was preceded, in that same run,
  by a committed event of the operation's kind; so a crash between any two calls leaves an
  event that the replay at start-up finds.
\<close>

theorem event_before_provider_calls:
  "(\<exists>new. log (snd (run_state (Apply r req) s)) = new @ log s \<and> ordered EventKindApplyRequested new)
   \<and> (\<exists>new. log (snd (run_state (Destroy r env) s)) = new @ log s \<and> ordered EventKindDestroyRequested new)
   \<and> (\<exists>new. log (snd (run_state (Sleep r env) s)) = new @ log s \<and> ordered EventKindSleepRequested new)
   \<and> (\<exists>new. log (snd (run_state (Wake r env) s)) = new @ log s \<and> ordered EventKindWakeRequested new)"
  by (intro conjI ordered_run Apply_ordered Destroy_ordered Sleep_ordered Wake_ordered)

end
