(* ===== verification/Apply_Theorems.thy ===== *)
theory Apply_Theorems
  imports Durable_First
begin

text \<open>
  What an apply ends in: what a success means for the row, and the number of deployments it may
  start.
\<close>

section \<open>Success\<close>

text \<open>The environment is served: its row is ready, on the deployment of the requested revision.\<close>

definition serves :: "string \<Rightarrow> Environment \<Rightarrow> 'w sys \<Rightarrow> bool" where
  "serves artifact env s \<longleftrightarrow> env_Status env = StatusReady \<and> env_LastGoodArtifactRef env = artifact
     \<and> env_LastGoodDeployRef env = env_DeployRef env
     \<and> select_environment (env_ID env) (db s) = Some (environment_args env)"

lemma update_serves:
  "env_Status env = StatusReady \<Longrightarrow> env_LastGoodArtifactRef env = artifact \<Longrightarrow>
    env_LastGoodDeployRef env = env_DeployRef env \<Longrightarrow>
    holds P (UpdateEnvironment rt env) (\<lambda>x s. case x of Inl _ \<Rightarrow> True | Inr env' \<Rightarrow> serves artifact env' s)"
proof (rule holdsI)
  fix s a s'
  assume e: "env_Status env = StatusReady" "env_LastGoodArtifactRef env = artifact"
      "env_LastGoodDeployRef env = env_DeployRef env"
    and run: "run_state (UpdateEnvironment rt env) s = (a, s')"
  show "case a of Inl _ \<Rightarrow> True | Inr env' \<Rightarrow> serves artifact env' s'"
  proof (cases a)
    case (Inr env')
    from update_environment_effect_Inr [OF run [unfolded Inr]] e show ?thesis
      by (auto simp: Inr serves_def)
  qed simp
qed

text \<open>The result of an attempt, when it reports no error.\<close>

definition attempt_post :: "ApplyRequest \<Rightarrow> Environment \<times> error option \<Rightarrow> 'w sys \<Rightarrow> bool" where
  "attempt_post req p s \<longleftrightarrow> (snd p = None \<longrightarrow> serves (ar_ArtifactRef req) (fst p) s)"

lemma holds_trivial: "holds P m (\<lambda>_ _. True)"
  by (rule holdsI) simp

lemma attempt_fails_post: "holds P (attempt_fails env p e) (attempt_post req)"
  by (auto simp: attempt_fails_def attempt_post_def intro: holds_return)

lemma persist_ready_post: "holds P (persist_ready r env req ref) (attempt_post req)"
  unfolding persist_ready_def Let_def
proof (rule holds_bind [where R = "\<lambda>e _. env_Status e = StatusReady \<and> env_LastGoodArtifactRef e = ar_ArtifactRef req
      \<and> env_LastGoodDeployRef e = env_DeployRef e"], goal_cases)
  case 1
  show ?case
    by (auto intro!: holds_return holds_bind [OF holds_trivial])
next
  case (2 e)
  show ?case
  proof (cases "env_Status e = StatusReady \<and> env_LastGoodArtifactRef e = ar_ArtifactRef req
      \<and> env_LastGoodDeployRef e = env_DeployRef e")
    case True
    then show ?thesis
      by (intro holds_on_err [where R = "\<lambda>_ _. True" and T = "serves (ar_ArtifactRef req)"] update_serves attempt_fails_post)
        (auto intro!: holds_return simp: attempt_post_def)
  qed (auto simp: holds_def)
qed

lemma attempt_serves: "holds P (attemptApply r env req name tag) (attempt_post req)"
  unfolding attemptApply_def Let_def
proof (rule holds_on_err [where R = "\<lambda>_ _. True" and T = "\<lambda>_ _. True"], goal_cases)
  case 1
  show ?case by (rule holds_post [OF holds_trivial [where P = P]]) (auto split: sum.splits)
next
  case (2 e)
  show ?case by (rule attempt_fails_post)
next
  case (3 d)
  have t: "holds (\<lambda>_. True) m (\<lambda>x s. case x of Some e \<Rightarrow> True | None \<Rightarrow> True)" for m :: "('a sys, error option) state"
    by (rule holdsI) (auto split: option.splits)
  have t': "holds (\<lambda>_. True) m (\<lambda>x s. case x of Inl e \<Rightarrow> True | Inr _ \<Rightarrow> True)" for m :: "('a sys, error + CertRef) state"
    by (rule holdsI) (auto split: sum.splits)
  have r: "holds (\<lambda>_. True) (ret (env, Some e)) (attempt_post req)" for e
    by (rule holds_return) (simp add: attempt_post_def)
  show ?case
    by (intro holds_if_err [where R = "\<lambda>_ _. True" and T = "\<lambda>_. True", OF t] attempt_fails_post
        holds_on_err [where R = "\<lambda>_ _. True" and T = "\<lambda>_ _. True", OF t'] r persist_ready_post)
qed

lemma attempts_serve:
  "holds P (apply_attempts r req name tag n a env e)
     (\<lambda>x s. case x of Inl _ \<Rightarrow> True | Inr env' \<Rightarrow> serves (ar_ArtifactRef req) env' s)"
proof (induction n arbitrary: P a env e)
  case 0
  show ?case by (auto intro: holds_return)
next
  case (Suc n)
  show ?case
    unfolding apply_attempts.simps
  proof (rule holds_bind [OF holds_trivial], rule holds_bind [OF attempt_serves])
    show "holds (attempt_post req res) (case res of (env', None) \<Rightarrow> ret (Inr env')
        | (env', Some err) \<Rightarrow> apply_attempts r req name tag n (a + 1) env' err)
       (\<lambda>x s. case x of Inl _ \<Rightarrow> True | Inr env' \<Rightarrow> serves (ar_ArtifactRef req) env' s)" for res
      using Suc by (cases res; cases "snd res") (auto intro!: holds_return simp: attempt_post_def)
  qed
qed

lemma notify_db: "run_state (notify r p n ev) s = (x, s') \<Longrightarrow> db s' = db s"
  by (auto simp: notify_def ignore_def split: prod.splits)

text \<open>Both ways to end a failed apply return an error.\<close>

lemma failing_ends:
  "holds P (apply_failed r req env lastErr) (\<lambda>x s. case x of Inl _ \<Rightarrow> True | Inr env' \<Rightarrow> Q env' s)"
  "holds P (rolled_back r req env back lastErr) (\<lambda>x s. case x of Inl _ \<Rightarrow> True | Inr env' \<Rightarrow> Q env' s)"
  by (auto simp: apply_failed_def rolled_back_def fails_def intro!: holdsI split: prod.splits)

lemma doApply_serves:
  "holds P (doApply r env req) (\<lambda>x s. case x of Inl _ \<Rightarrow> True | Inr env' \<Rightarrow> serves (ar_ArtifactRef req) env' s)"
  unfolding doApply_def Let_def
proof (rule holds_on_err [where R = "\<lambda>_ _. True" and T = "\<lambda>_ _. True"], goal_cases)
  case 1
  show ?case by (rule holdsI) (auto split: sum.splits)
next
  case (2 e)
  show ?case by (auto simp: fails_def intro: holds_return)
next
  case (3 env2)
  show ?case
  proof (rule holds_bind [OF attempts_serve], goal_cases)
    case (1 res)
    show ?case
    proof (cases res)
      case (Inr env')
      have "holds (serves (ar_ArtifactRef req) env') (notify r p n ev) (\<lambda>_. serves (ar_ArtifactRef req) env')" for p n ev
        by (rule holdsI) (auto dest: notify_db simp: serves_def)
      with Inr show ?thesis
        by (auto intro!: holds_bind holds_return)
    next
      case (Inl p)
      then show ?thesis
        by (auto intro!: failing_ends holds_bind [OF holds_trivial] split: prod.splits option.splits)
    qed
  qed
qed


section \<open>The number of deployments\<close>

text \<open>How many deployments were started.\<close>

fun applied :: "call list \<Rightarrow> nat" where
  "applied [] = 0"
| "applied (Applied _ _ # l) = Suc (applied l)"
| "applied (_ # l) = applied l"

lemma applied_stored: "stored_call c \<Longrightarrow> applied (c # l) = applied l"
  by (cases c) (auto simp: stored_call_def)

interpretation deploys: store_contract "\<lambda>s :: 'w sys. applied (log s) \<le> n" r for n and r :: "'w Reconciler"
  by (rule log_contract) (auto simp: applied_stored)

lemma poll_deploys: "keeps (\<lambda>s. applied (log s) \<le> n) (poll_health r ref d k)"
proof (induction k)
  case (Suc k)
  have "keeps (\<lambda>s. applied (log s) \<le> n) (provider_call (HealthChecked ref) m)" for m
    by (auto intro!: keepsI split: prod.splits)
  with Suc show ?case
    by (auto intro!: keeps_rules deploys.outside_keeps deploys.fails_keeps)
qed (auto intro: keeps_rules)

lemma attempt_deploys:
  "holds (\<lambda>s. applied (log s) \<le> n) (attemptApply r env req name tag) (\<lambda>_ s. applied (log s) \<le> Suc n)"
  unfolding attemptApply_def Let_def
proof (rule holds_on_err [where R = "\<lambda>_ s. applied (log s) \<le> Suc n" and T = "\<lambda>_ s. applied (log s) \<le> Suc n"], goal_cases)
  case 1
  show ?case by (rule holds_provider_call) (auto split: sum.splits)
next
  case (2 e)
  show ?case by (auto simp: attempt_fails_def intro: holds_return)
next
  case (3 d)
  have p: "keeps (\<lambda>s. applied (log s) \<le> Suc n) (provider_call c m)"
    if "\<And>x l. applied (c x # l) = applied l" for c and m :: "('a, 'r) state"
    using that by (auto intro!: keepsI split: prod.splits)
  show ?case
    unfolding keeps_def [symmetric] waitUntilHealthy_def installCertificate_def attempt_fails_def
    by (intro keeps_rules p deploys.outside_keeps poll_deploys deploys.recordDNSRow_keeps deploys.persist_ready_keeps) auto
qed

lemma attempts_deploy:
  "holds (\<lambda>s. applied (log s) \<le> m) (apply_attempts r req name tag n a env e) (\<lambda>_ s. applied (log s) \<le> m + n)"
proof (induction n arbitrary: m a env e)
  case 0
  show ?case by (auto intro: holds_return)
next
  case (Suc n)
  have w: "holds (\<lambda>s. applied (log s) \<le> m) (if b then outside c else ret ()) (\<lambda>_ s. applied (log s) \<le> m)"
    for b and c :: "('a, unit) state"
    using deploys.outside_keeps [of m c] by (auto simp: keeps_def intro: holds_return)
  show ?case
    unfolding apply_attempts.simps
  proof (rule holds_bind [OF w], rule holds_bind [OF attempt_deploys])
    show "holds (\<lambda>s. applied (log s) \<le> Suc m) (case res of (env', None) \<Rightarrow> ret (Inr env')
        | (env', Some err) \<Rightarrow> apply_attempts r req name tag n (a + 1) env' err)
       (\<lambda>_ s. applied (log s) \<le> m + Suc n)" for res
      using Suc [of "Suc m"] by (cases res; cases "snd res") (auto intro!: holds_return)
  qed
qed

lemma doApply_deploys: "holds (\<lambda>s. applied (log s) \<le> m) (doApply r env req) (\<lambda>_ s. applied (log s) \<le> m + 6)"
proof -
  have more: "holds (\<lambda>s. applied (log s) \<le> k) n (\<lambda>_ s. applied (log s) \<le> j)"
    if "keeps (\<lambda>s. applied (log s) \<le> k) n" "k \<le> j" for k j and n :: "('a sys, 'r) state"
    by (rule holds_keeps [OF that(1)]) (use that(2) in auto)
  have nt: "keeps (\<lambda>s. applied (log s) \<le> k) (notify r p q ev)" for k p q ev
    by (auto simp: notify_def ignore_def intro!: keepsI split: prod.splits)
  have ends: "keeps (\<lambda>s. applied (log s) \<le> k) (apply_failed r req e le)"
      "keeps (\<lambda>s. applied (log s) \<le> k) (rolled_back r req e b le)" for k e b le
    unfolding apply_failed_def rolled_back_def
    by (intro keeps_rules nt deploys.ignore_keeps deploys.update_environment deploys.fails_keeps)+
  show ?thesis
    unfolding doApply_def Let_def
  proof (rule holds_on_err [where R = "\<lambda>_ s. applied (log s) \<le> m" and T = "\<lambda>_ s. applied (log s) \<le> m"], goal_cases)
    case 1
    show ?case by (rule holds_keeps [OF deploys.update_environment]) (auto split: sum.splits)
  next
    case (2 e)
    show ?case by (rule more [OF deploys.fails_keeps(1)]) simp
  next
    case (3 env2)
    show ?case
    proof (rule holds_bind [OF attempts_deploy], goal_cases)
      case (1 res)
      show ?case
      proof (cases res)
        case (Inr env')
        then show ?thesis by (auto intro!: more keeps_rules nt)
      next
        case (Inl p)
        have "holds (\<lambda>s. applied (log s) \<le> m + 5) (attemptApply r e q name tag) (\<lambda>_ s. applied (log s) \<le> m + 6)" for e q name tag
          using attempt_deploys [of "m + 5" r e q name tag] by (simp add: add.commute)
        then show ?thesis
          using Inl by (auto intro!: more [OF ends(1)] more [OF ends(2)] holds_bind split: prod.splits option.splits)
      qed
    qed
  qed
qed

text \<open>
  The work of one apply is bounded: it starts at most six deployments (five attempts and
  one compensating redeploy of the last known-good revision), whatever the providers answer.
\<close>

theorem apply_deploys_at_most_six:
  "applied (log (snd (run_state (doApply r env req) s))) \<le> applied (log s) + 6"
  using holdsD [OF doApply_deploys order_refl] by (metis prod.collapse)

end
