(* ===== verification/Witness_Runs.thy ===== *)
theory Witness_Runs
  imports Apply_Theorems Publish_Gate Example_World
begin

text \<open>
  Two complete runs of the model, evaluated: a new revision of the example environment is
  applied, once through the public operation and once through its body. They show that the
  theorems on what an apply publishes and what its success means have instances.
\<close>

definition ex_req :: ApplyRequest where
  "ex_req = \<lparr>ar_Project = ''p'', ar_Branch = ''b'', ar_PRNumber = 3, ar_Subdomain = ''b'', ar_ArtifactRef = ''v2''\<rparr>"

text \<open>The call that published a record, when there is one.\<close>

fun has_published :: "call list \<Rightarrow> bool" where
  "has_published [] = False"
| "has_published (RecordEnsured rec res # l) = True"
| "has_published (_ # l) = has_published l"

lemma has_published_split:
  "has_published l \<Longrightarrow> \<exists>later rec res before. l = later @ RecordEnsured rec res # before"
proof (induction l)
  case (Cons c l)
  show ?case
  proof (cases "\<exists>rec res. c = RecordEnsured rec res")
    case True
    then show ?thesis by (metis append_Nil)
  next
    case False
    with Cons.prems have "has_published l"
      by (cases c) auto
    with Cons.IH show ?thesis
      by (metis append_Cons)
  qed
qed simp

lemma ex_apply_publishes: "has_published (log (snd (run_state (Apply ex_reconciler ex_req) ex_sys)))"
  by code_simp

theorem published_only_when_healthy_witness:
  "\<exists>rec later res before. log (snd (run_state (Apply ex_reconciler ex_req) ex_sys))
      = later @ RecordEnsured rec res # before \<and> healthy_before rec before"
proof -
  let ?s = "snd (run_state (Apply ex_reconciler ex_req) ex_sys)"
  have r: "reachable (daemon_start ex_db) (daemon_step ex_reconciler ex_reaper) ?s"
    by (rule reachable.advance [OF reachable.start [where s = ex_sys]]) (simp_all add: ex_start apply_step)
  obtain later rec res before where l: "log ?s = later @ RecordEnsured rec res # before"
    using has_published_split [OF ex_apply_publishes] by blast
  from published_only_when_healthy [OF r l] l show ?thesis
    by auto
qed

definition ex_applied :: bool where
  "ex_applied = (case fst (run_state (doApply ex_reconciler ex_env ex_req) ex_sys) of
     Inl _ \<Rightarrow> False | Inr env \<Rightarrow> env_DeployRef env = ''d-v2'')"

lemma ex_applied: ex_applied
  by code_simp


end
