(* ===== verification/Keyed_Mutex.thy ===== *)
theory Keyed_Mutex
  imports Transition_System
begin

text \<open>
  \<open>internal/core/keyedmutex.go\<close>: one mutex per key, created on demand and forgotten with its
  last user. The goroutines that call \<open>Lock\<close> interleave at the four lock operations of the code
  (\<open>k.mu\<close> and \<open>e.mu\<close>, each acquired and released); the statements between two of them run
  while \<open>k.mu\<close> is held and are one step. A Go mutex has no owner, so it is a Boolean; entries
  are objects behind pointers, so they live in a heap that only grows.
\<close>

section \<open>The state and the steps\<close>

record refCountedMutex =
  rm_mu :: bool
  rm_refs :: int

text \<open>Where a goroutine stands in \<open>Lock\<close> or in the function it returned.\<close>

datatype phase =
    Idle
  | Entering string
  | Waiting string nat
  | Holding string nat
  | Leaving string nat
  | Reclaiming string nat

record 't keyedMutex =
  km_mu :: bool
  km_locks :: "string \<rightharpoonup> nat"
  km_heap :: "refCountedMutex list"
  km_phase :: "'t \<Rightarrow> phase"

definition newKeyedMutex :: "'t keyedMutex" where
  "newKeyedMutex = \<lparr>km_mu = False, km_locks = Map.empty, km_heap = [], km_phase = (\<lambda>_. Idle)\<rparr>"

text \<open>Under \<open>k.mu\<close>: the entry of the key, created if it is missing, with one reference more.\<close>

definition reference_entry :: "string \<Rightarrow> 't keyedMutex \<Rightarrow> nat \<times> 't keyedMutex" where
  "reference_entry key s =
     (let (e, s1) = (case km_locks s key of
            Some e \<Rightarrow> (e, s)
          | None \<Rightarrow> (length (km_heap s),
              s\<lparr>km_heap := km_heap s @ [\<lparr>rm_mu = False, rm_refs = 0\<rparr>],
                km_locks := (km_locks s)(key \<mapsto> length (km_heap s))\<rparr>));
          entry = km_heap s1 ! e
      in (e, s1\<lparr>km_heap := (km_heap s1)[e := entry\<lparr>rm_refs := rm_refs entry + 1\<rparr>]\<rparr>))"

text \<open>Under \<open>k.mu\<close>: one reference less, and the key forgotten with the last one.\<close>

definition drop_entry :: "string \<Rightarrow> nat \<Rightarrow> 't keyedMutex \<Rightarrow> 't keyedMutex" where
  "drop_entry key e s =
     (let entry = (km_heap s ! e)\<lparr>rm_refs := rm_refs (km_heap s ! e) - 1\<rparr>;
          s1 = s\<lparr>km_heap := (km_heap s)[e := entry]\<rparr>
      in if rm_refs entry = 0 then s1\<lparr>km_locks := (km_locks s1)(key := None)\<rparr> else s1)"

definition set_entry_mu :: "nat \<Rightarrow> bool \<Rightarrow> 't keyedMutex \<Rightarrow> 't keyedMutex" where
  "set_entry_mu e b s = s\<lparr>km_heap := (km_heap s)[e := (km_heap s ! e)\<lparr>rm_mu := b\<rparr>]\<rparr>"

definition move :: "'t \<Rightarrow> phase \<Rightarrow> bool \<Rightarrow> 't keyedMutex \<Rightarrow> 't keyedMutex" where
  "move t p mu s = s\<lparr>km_phase := (km_phase s)(t := p), km_mu := mu\<rparr>"

inductive mutex_step :: "'t keyedMutex \<Rightarrow> 't keyedMutex \<Rightarrow> bool" where
  lock_enter: "km_phase s t = Idle \<Longrightarrow> \<not> km_mu s \<Longrightarrow> mutex_step s (move t (Entering key) True s)"
| lock_reference: "km_phase s t = Entering key \<Longrightarrow> reference_entry key s = (e, s1)
    \<Longrightarrow> mutex_step s (move t (Waiting key e) False s1)"
| lock_acquire: "km_phase s t = Waiting key e \<Longrightarrow> \<not> rm_mu (km_heap s ! e)
    \<Longrightarrow> mutex_step s (move t (Holding key e) (km_mu s) (set_entry_mu e True s))"
| release_unlock: "km_phase s t = Holding key e
    \<Longrightarrow> mutex_step s (move t (Leaving key e) (km_mu s) (set_entry_mu e False s))"
| release_enter: "km_phase s t = Leaving key e \<Longrightarrow> \<not> km_mu s
    \<Longrightarrow> mutex_step s (move t (Reclaiming key e) True s)"
| release_drop: "km_phase s t = Reclaiming key e
    \<Longrightarrow> mutex_step s (move t Idle False (drop_entry key e s))"

text \<open>\<open>len\<close>: the number of distinct keys tracked.\<close>

definition tracked :: "'t keyedMutex \<Rightarrow> nat" where
  "tracked s = card (dom (km_locks s))"

section \<open>The invariant\<close>

fun uses :: "phase \<Rightarrow> (string \<times> nat) option" where
  "uses (Waiting key e) = Some (key, e)"
| "uses (Holding key e) = Some (key, e)"
| "uses (Leaving key e) = Some (key, e)"
| "uses (Reclaiming key e) = Some (key, e)"
| "uses _ = None"

fun in_mu :: "phase \<Rightarrow> bool" where
  "in_mu (Entering key) = True"
| "in_mu (Reclaiming key e) = True"
| "in_mu _ = False"

definition users :: "('t \<Rightarrow> phase) \<Rightarrow> nat \<Rightarrow> 't set" where
  "users ph e = {t. \<exists>key. uses (ph t) = Some (key, e)}"

lemma users_update:
  "users (ph(t := p)) e = (if \<exists>key. uses p = Some (key, e) then insert t (users ph e) else users ph e - {t})"
  by (auto simp: users_def)

text \<open>\<open>k.mu\<close> is held exactly while one goroutine is between its \<open>Lock\<close> and \<open>Unlock\<close>.\<close>

definition guarded :: "'t keyedMutex \<Rightarrow> bool" where
  "guarded s \<longleftrightarrow> (km_mu s \<longleftrightarrow> (\<exists>t. in_mu (km_phase s t)))
     \<and> (\<forall>t1 t2. in_mu (km_phase s t1) \<longrightarrow> in_mu (km_phase s t2) \<longrightarrow> t1 = t2)"

text \<open>
  Every entry a goroutine uses is the one the map holds for its key, the references of an entry
  count the goroutines that use it, and no entry stays without one.
\<close>

definition counted_parts :: "('t \<Rightarrow> phase) \<Rightarrow> (string \<rightharpoonup> nat) \<Rightarrow> refCountedMutex list \<Rightarrow> bool" where
  "counted_parts ph locks heap \<longleftrightarrow> finite {t. ph t \<noteq> Idle}
     \<and> (\<forall>t key e. uses (ph t) = Some (key, e) \<longrightarrow> locks key = Some e)
     \<and> (\<forall>key e. locks key = Some e \<longrightarrow> e < length heap
           \<and> rm_refs (heap ! e) = int (card (users ph e)) \<and> users ph e \<noteq> {})
     \<and> (\<forall>k1 k2 e. locks k1 = Some e \<longrightarrow> locks k2 = Some e \<longrightarrow> k1 = k2)"

abbreviation counted :: "'t keyedMutex \<Rightarrow> bool" where
  "counted s \<equiv> counted_parts (km_phase s) (km_locks s) (km_heap s)"

text \<open>An entry's mutex is held exactly by the one goroutine that holds the lock.\<close>

definition exclusive :: "'t keyedMutex \<Rightarrow> bool" where
  "exclusive s \<longleftrightarrow> (\<forall>e < length (km_heap s). rm_mu (km_heap s ! e) \<longleftrightarrow> (\<exists>t key. km_phase s t = Holding key e))
     \<and> (\<forall>t1 t2 k1 k2 e. km_phase s t1 = Holding k1 e \<longrightarrow> km_phase s t2 = Holding k2 e \<longrightarrow> t1 = t2)"

lemmas mutex_defs = move_def set_entry_mu_def drop_entry_def reference_entry_def Let_def

lemma guarded_step: "guarded s \<Longrightarrow> mutex_step s s' \<Longrightarrow> guarded s'"
  by (erule mutex_step.cases) (auto simp: guarded_def mutex_defs split: option.splits if_splits; metis in_mu.simps)+

lemma countedD:
  assumes "counted_parts ph locks heap"
  shows "finite {t. ph t \<noteq> Idle}"
    and "uses (ph t) = Some (key, e) \<Longrightarrow> locks key = Some e"
    and "locks key = Some e \<Longrightarrow> e < length heap"
    and "locks key = Some e \<Longrightarrow> rm_refs (heap ! e) = int (card (users ph e))"
    and "locks key = Some e \<Longrightarrow> users ph e \<noteq> {}"
    and "locks key = Some e \<Longrightarrow> locks key' = Some e \<Longrightarrow> key = key'"
  using assms unfolding counted_parts_def by blast+

lemma countedI:
  assumes "finite {t. ph t \<noteq> Idle}"
    and "\<And>t key e. uses (ph t) = Some (key, e) \<Longrightarrow> locks key = Some e"
    and "\<And>key e. locks key = Some e \<Longrightarrow> e < length heap"
    and "\<And>key e. locks key = Some e \<Longrightarrow> rm_refs (heap ! e) = int (card (users ph e))"
    and "\<And>key e. locks key = Some e \<Longrightarrow> users ph e \<noteq> {}"
    and "\<And>key key' e. locks key = Some e \<Longrightarrow> locks key' = Some e \<Longrightarrow> key = key'"
  shows "counted_parts ph locks heap"
  unfolding counted_parts_def using assms by blast

lemma users_finite: "counted_parts ph locks heap \<Longrightarrow> finite (users ph e)"
  by (rule finite_subset [OF _ countedD(1)]) (auto simp: users_def)

lemma active_finite: "counted_parts ph locks heap \<Longrightarrow> finite {x. (ph(t := p)) x \<noteq> Idle}"
  by (rule finite_subset [where B = "insert t {x. ph x \<noteq> Idle}"]) (auto dest: countedD(1))

text \<open>A step that keeps the map, the references and what the goroutine uses.\<close>

lemma counted_same:
  assumes c: "counted_parts ph locks heap" and u: "uses p = uses (ph t)" and h: "length h = length heap"
    "\<And>e. rm_refs (h ! e) = rm_refs (heap ! e)"
  shows "counted_parts (ph(t := p)) locks h"
proof -
  have e: "uses ((ph(t := p)) x) = uses (ph x)" for x
    using u by simp
  then have "users (ph(t := p)) = users ph"
    unfolding users_def by (simp only: e)
  with e show ?thesis
    using c active_finite [OF c] by (simp add: counted_parts_def h)
qed

lemma refs_set_mu: "rm_refs (heap[e := (heap ! e)\<lparr>rm_mu := b\<rparr>] ! f) = rm_refs (heap ! f)"
  by (cases "e < length heap") (simp_all add: nth_list_update list_update_beyond)

text \<open>A goroutine that used no entry references one: the one the map holds, or a new one.\<close>

lemma counted_joins:
  assumes c: "counted_parts ph locks heap" and t: "uses (ph t) = None" and k: "locks key = Some e"
  shows "counted_parts (ph(t := Waiting key e)) locks (heap[e := (heap ! e)\<lparr>rm_refs := rm_refs (heap ! e) + 1\<rparr>])"
    (is "counted_parts ?ph locks ?heap")
proof (rule countedI)
  have fresh: "t \<notin> users ph f" for f
    using t by (simp add: users_def)
  have u: "users ?ph f = (if f = e then insert t (users ph e) else users ph f)" for f
    using fresh by (auto simp: users_update)
  have n: "int (card (insert t (users ph e))) = int (card (users ph e)) + 1"
    using fresh users_finite [OF c] by simp
  show "finite {x. ?ph x \<noteq> Idle}"
    by (rule active_finite [OF c])
  show "locks k = Some f" if "uses (?ph x) = Some (k, f)" for x k f
    using that countedD(2) [OF c] k by (auto split: if_splits)
  show "f < length ?heap" if "locks k = Some f" for k f
    using that countedD(3) [OF c] by simp
  show "rm_refs (?heap ! f) = int (card (users ?ph f))" if "locks k = Some f" for k f
    using that countedD(3,4) [OF c that] n by (cases "f = e") (simp_all add: u)
  show "users ?ph f \<noteq> {}" if "locks k = Some f" for k f
    using that countedD(5) [OF c that] by (simp add: u)
  show "k = k'" if "locks k = Some f" "locks k' = Some f" for k k' f
    using that countedD(6) [OF c] by blast
qed

lemma counted_joins_new:
  assumes c: "counted_parts ph locks heap" and t: "uses (ph t) = None" and k: "locks key = None"
  shows "counted_parts (ph(t := Waiting key (length heap))) (locks(key \<mapsto> length heap))
    (heap @ [\<lparr>rm_mu = False, rm_refs = 1\<rparr>])" (is "counted_parts ?ph ?locks ?heap")
proof (rule countedI)
  have bound: "locks k' = Some f \<Longrightarrow> f < length heap \<and> k' \<noteq> key" for k' f
    using countedD(3) [OF c, of k' f] k by auto
  have none: "users ph (length heap) = {}"
    using countedD(2) [OF c] bound unfolding users_def by fastforce
  have u: "users ?ph f = (if f = length heap then {t} else users ph f)" for f
    using none t by (auto simp: users_update) (auto simp: users_def)
  show "finite {x. ?ph x \<noteq> Idle}"
    by (rule active_finite [OF c])
  show "?locks k = Some f" if "uses (?ph x) = Some (k, f)" for x k f
    using that countedD(2) [OF c, of x k f] bound by (auto split: if_splits)
  show "f < length ?heap" if "?locks k = Some f" for k f
    using that countedD(3) [OF c, of k f] by (auto split: if_splits)
  show "rm_refs (?heap ! f) = int (card (users ?ph f))" if "?locks k = Some f" for k f
    using that countedD(3,4) [OF c, of k f] by (auto simp: u nth_append split: if_splits)
  show "users ?ph f \<noteq> {}" if "?locks k = Some f" for k f
    using that countedD(5) [OF c, of k f] by (auto simp: u split: if_splits)
  show "k = k'" if "?locks k = Some f" "?locks k' = Some f" for k k' f
    using that countedD(6) [OF c, of k f k'] bound by (fastforce split: if_splits)
qed

lemma forget_key:
  assumes "locks key = Some e" "\<And>k'. locks k' = Some e \<Longrightarrow> key = k'"
  shows "(locks(key := None)) k' = Some f \<longleftrightarrow> locks k' = Some f \<and> f \<noteq> e"
  using assms(1) assms(2) [of k'] by (cases "k' = key") auto

text \<open>The reference is dropped, and the key forgotten when it was the last one.\<close>

lemma counted_leaves:
  assumes c: "counted_parts ph locks heap" and t: "uses (ph t) = Some (key, e)"
    and entry: "rm_refs entry = rm_refs (heap ! e) - 1"
  shows "counted_parts (ph(t := Idle)) (if rm_refs entry = 0 then locks(key := None) else locks) (heap[e := entry])"
    (is "counted_parts ?ph ?locks ?heap")
proof (rule countedI)
  have k: "locks key = Some e"
    by (rule countedD(2) [OF c t])
  have m: "t \<in> users ph e"
    using t by (simp add: users_def)
  have u: "users ?ph f = (if f = e then users ph e - {t} else users ph f)" for f
    using t by (auto simp: users_update) (auto simp: users_def)
  have card: "rm_refs entry = int (card (users ph e - {t}))"
    using countedD(4) [OF c k] card_Suc_Diff1 [OF users_finite [OF c, of e] m] by (simp add: entry)
  have none: "rm_refs entry = 0 \<longleftrightarrow> users ph e - {t} = {}"
    unfolding card of_nat_eq_0_iff by (rule card_0_eq) (use users_finite [OF c, of e] in blast)
  have rest: "?locks k' = Some f \<longleftrightarrow> locks k' = Some f \<and> (f = e \<longrightarrow> users ph e - {t} \<noteq> {})" for k' f
  proof (cases "users ph e - {t} = {}")
    case True
    then have "?locks = locks(key := None)"
      by (simp add: none)
    then show ?thesis
      using forget_key [of locks, OF k countedD(6) [OF c k]] True by simp
  next
    case False
    then have "?locks = locks"
      by (simp add: none)
    then show ?thesis
      using False by simp
  qed
  show "finite {x. ?ph x \<noteq> Idle}"
    by (rule active_finite [OF c])
  show "?locks k' = Some f" if "uses (?ph x) = Some (k', f)" for x k' f
    unfolding rest using that countedD(2) [OF c, of x k' f] by (auto simp: users_def split: if_splits)
  show "f < length ?heap" if "?locks k' = Some f" for k' f
    using that countedD(3) [OF c, of k' f] by (simp only: rest length_list_update)
  show "rm_refs (?heap ! f) = int (card (users ?ph f))" if "?locks k' = Some f" for k' f
    using that countedD(3,4) [OF c, of k' f] card unfolding rest u by (cases "f = e") simp_all
  show "users ?ph f \<noteq> {}" if "?locks k' = Some f" for k' f
    using that countedD(5) [OF c, of k' f] unfolding rest u by (cases "f = e") simp_all
  show "k1 = k2" if "?locks k1 = Some f" "?locks k2 = Some f" for k1 k2 f
    using that countedD(6) [OF c] unfolding rest by blast
qed

lemma counted_step:
  assumes c: "counted s" and "mutex_step s s'"
  shows "counted s'"
  using assms(2)
proof cases
  case (lock_reference t key e s1)
  then show ?thesis
    using counted_joins [OF c, of t key e] counted_joins_new [OF c, of t key]
    by (auto simp: reference_entry_def move_def Let_def split: option.splits)
next
  case (release_drop t key e)
  then show ?thesis
    using counted_leaves [OF c, of t key e "(km_heap s ! e)\<lparr>rm_refs := rm_refs (km_heap s ! e) - 1\<rparr>"] by (auto simp: drop_entry_def move_def Let_def)
qed (auto simp: move_def set_entry_mu_def refs_set_mu intro!: counted_same [OF c])

text \<open>A step in which nobody comes to hold a lock or gives one up.\<close>

lemma exclusive_same:
  assumes x: "exclusive s" and h: "\<And>t key e. km_phase s' t = Holding key e \<longleftrightarrow> km_phase s t = Holding key e"
    and l: "length (km_heap s') = length (km_heap s)" and m: "\<And>e. rm_mu (km_heap s' ! e) = rm_mu (km_heap s ! e)"
  shows "exclusive s'"
  using x unfolding exclusive_def h l m .

lemma mu_set_refs: "rm_mu (heap[e := (heap ! e)\<lparr>rm_refs := n\<rparr>] ! f) = rm_mu (heap ! f)"
  by (cases "e < length heap") (simp_all add: nth_list_update list_update_beyond)

lemma holder_allocated: "counted s \<Longrightarrow> km_phase s t = Holding key e \<Longrightarrow> e < length (km_heap s)"
  by (metis countedD(2,3) uses.simps(2))

lemma exclusive_new:
  assumes x: "exclusive s" and h: "\<And>t key e. km_phase s' t = Holding key e \<longleftrightarrow> km_phase s t = Holding key e"
    and l: "km_heap s' = km_heap s @ [entry]" "\<not> rm_mu entry" and n: "\<And>t key. km_phase s t \<noteq> Holding key (length (km_heap s))"
  shows "exclusive s'"
  using x n unfolding exclusive_def h l(1) by (auto simp: nth_append less_Suc_eq l(2))

lemma exclusive_step:
  assumes c: "counted s" and x: "exclusive s" and "mutex_step s s'"
  shows "exclusive s'"
  using assms(3)
proof cases
  case (lock_enter t key)
  then show ?thesis by (intro exclusive_same [OF x]) (auto simp: move_def)
next
  case (lock_reference t key e s1)
  show ?thesis
  proof (cases "km_locks s key")
    case (Some e')
    with lock_reference show ?thesis
      by (intro exclusive_same [OF x]) (auto simp: move_def reference_entry_def Let_def mu_set_refs)
  next
    case None
    have "km_phase s u \<noteq> Holding k (length (km_heap s))" for u k
      using holder_allocated [OF c] by blast
    with None lock_reference show ?thesis
      by (intro exclusive_new [OF x]) (auto simp: move_def reference_entry_def Let_def)
  qed
next
  case (lock_acquire t key e)
  have "e < length (km_heap s)"
    using countedD(2,3) [OF c] lock_acquire(2) by (metis uses.simps(1))
  with lock_acquire x show ?thesis
    by (auto simp: exclusive_def move_def set_entry_mu_def nth_list_update) (metis phase.distinct(19))
next
  case (release_unlock t key e)
  with holder_allocated [OF c this(2)] x show ?thesis
    by (auto simp: exclusive_def move_def set_entry_mu_def nth_list_update) (metis phase.inject(3))
next
  case (release_enter t key e)
  then show ?thesis by (intro exclusive_same [OF x]) (auto simp: move_def)
next
  case (release_drop t key e)
  then show ?thesis
    by (intro exclusive_same [OF x]) (auto simp: move_def drop_entry_def Let_def mu_set_refs)
qed

section \<open>The promises of the mutex\<close>

interpretation keyed: inductive_invariant "\<lambda>s. s = newKeyedMutex" mutex_step
  "\<lambda>s. guarded s \<and> counted s \<and> exclusive s"
proof unfold_locales
  show "guarded s \<and> counted s \<and> exclusive s" if "s = newKeyedMutex" for s :: "'t keyedMutex"
    using that by (simp add: newKeyedMutex_def guarded_def counted_parts_def exclusive_def)
  show "guarded s' \<and> counted s' \<and> exclusive s'" if "guarded s \<and> counted s \<and> exclusive s" "mutex_step s s'" for s s' :: "'t keyedMutex"
    using that guarded_step counted_step exclusive_step by blast
qed

text \<open>
  C32: mutual exclusion. Whatever the goroutines and however their steps interleave, two of them
  never hold the lock of one key at the same time; a goroutine that is kept from the lock of
  its key is kept by another one that holds exactly this key.
\<close>

theorem keyed_mutex_excludes:
  assumes "reachable (\<lambda>s. s = newKeyedMutex) mutex_step s"
  shows "(km_phase s t1 = Holding key e1 \<longrightarrow> km_phase s t2 = Holding key e2 \<longrightarrow> t1 = t2)
    \<and> (km_phase s t1 = Waiting key e \<longrightarrow> rm_mu (km_heap s ! e)
        \<longrightarrow> (\<exists>t. t \<noteq> t1 \<and> km_phase s t = Holding key e))"
proof -
  have c: "counted s" and x: "exclusive s"
    using keyed.reachable_inv [OF assms] by blast+
  have same: "km_locks s key = Some e" if "uses (km_phase s t) = Some (key, e)" for t key e
    by (rule countedD(2) [OF c that])
  have "t1 = t2" if "km_phase s t1 = Holding key e1" "km_phase s t2 = Holding key e2"
    using that same [of t1 key e1] same [of t2 key e2] x unfolding exclusive_def by auto
  moreover have "\<exists>t. t \<noteq> t1 \<and> km_phase s t = Holding key e" if w: "km_phase s t1 = Waiting key e" and m: "rm_mu (km_heap s ! e)"
  proof -
    have l: "km_locks s key = Some e"
      using same [of t1 key e] w by simp
    then obtain t k where t: "km_phase s t = Holding k e"
      using x m countedD(3) [OF c l] unfolding exclusive_def by blast
    then have "k = key"
      using same [of t k e] l countedD(6) [OF c] by simp
    with t w show ?thesis by (intro exI [of _ t]) auto
  qed
  ultimately show ?thesis by blast
qed

text \<open>
  Idle keys are forgotten. At every moment the map holds exactly the keys that some
  goroutine waits for, holds or is releasing; so it is empty whenever no goroutine is inside,
  however many keys were ever locked.
\<close>

theorem keyed_mutex_reclaims:
  assumes "reachable (\<lambda>s. s = newKeyedMutex) mutex_step s"
  shows "dom (km_locks s) = {key. \<exists>t e. uses (km_phase s t) = Some (key, e)}
    \<and> ((\<forall>t. km_phase s t = Idle) \<longrightarrow> tracked s = 0)"
proof -
  have c: "counted s"
    using keyed.reachable_inv [OF assms] by blast
  have "\<exists>t. uses (km_phase s t) = Some (key, e)" if "km_locks s key = Some e" for key e
    using that countedD(5) [OF c that] countedD(2,6) [OF c] unfolding users_def by blast
  then have d: "dom (km_locks s) = {key. \<exists>t e. uses (km_phase s t) = Some (key, e)}"
    using countedD(2) [OF c] by blast
  then show ?thesis
    by (auto simp: tracked_def)
qed

section \<open>Progress\<close>

definition mutex_inv :: "'t keyedMutex \<Rightarrow> bool" where
  "mutex_inv s \<longleftrightarrow> guarded s \<and> counted s \<and> exclusive s"

lemma mutex_inv_step: "mutex_inv s \<Longrightarrow> mutex_step s s' \<Longrightarrow> mutex_inv s'"
  unfolding mutex_inv_def using guarded_step counted_step exclusive_step by blast

text \<open>A run of at most so many steps of the system ends in such a state.\<close>

definition within :: "nat \<Rightarrow> 't keyedMutex \<Rightarrow> ('t keyedMutex \<Rightarrow> bool) \<Rightarrow> bool" where
  "within n s P \<longleftrightarrow> (\<exists>m \<le> n. \<exists>s'. (mutex_step ^^ m) s s' \<and> P s')"

lemma within_now: "P s \<Longrightarrow> within n s P"
  unfolding within_def by (intro exI [of _ 0]) auto

lemma within_step:
  assumes "mutex_step s s'" and "within n s' P"
  shows "within (Suc n) s P"
proof -
  obtain m t where "m \<le> n" "(mutex_step ^^ m) s' t" "P t"
    using assms(2) unfolding within_def by blast
  moreover from this have "(mutex_step ^^ Suc m) s t"
    using assms(1) by (blast intro: relpowp_Suc_I2)
  ultimately show ?thesis
    unfolding within_def by (blast intro: Suc_leI le_imp_less_Suc Suc_le_mono [THEN iffD2])
qed

lemma within_weaken: "within m s P \<Longrightarrow> m \<le> n \<Longrightarrow> within n s P"
  unfolding within_def by (meson order_trans)

lemma within_trans:
  assumes "within m s P" and "\<And>t. P t \<Longrightarrow> within n t Q"
  shows "within (m + n) s Q"
proof -
  obtain i t where i: "i \<le> m" "(mutex_step ^^ i) s t" "P t"
    using assms(1) unfolding within_def by blast
  obtain j u where j: "j \<le> n" "(mutex_step ^^ j) t u" "Q u"
    using assms(2) [OF i(3)] unfolding within_def by blast
  have "(mutex_step ^^ (i + j)) s u"
    using i(2) j(2) by (auto simp: relpowp_add)
  with i(1) j(1,3) show ?thesis
    unfolding within_def by (meson add_mono)
qed

text \<open>Whoever is between the two operations on \<open>k.mu\<close> can go on, and then \<open>k.mu\<close> is free.\<close>

lemma mu_freed:
  assumes "mutex_inv s" and "\<not> in_mu (km_phase s t)"
  shows "within 1 s (\<lambda>s'. mutex_inv s' \<and> \<not> km_mu s' \<and> km_phase s' t = km_phase s t)"
proof (cases "km_mu s")
  case False
  with assms show ?thesis by (simp add: within_now)
next
  case True
  then obtain u where u: "in_mu (km_phase s u)"
    using assms(1) unfolding mutex_inv_def guarded_def by blast
  with assms(2) have ne: "u \<noteq> t" by auto
  have "\<exists>s'. mutex_step s s' \<and> \<not> km_mu s' \<and> km_phase s' t = km_phase s t"
  proof (cases "km_phase s u")
    case (Entering key)
    obtain e s1 where r: "reference_entry key s = (e, s1)" by force
    then have "km_phase s1 = km_phase s"
      by (auto simp: reference_entry_def Let_def split: option.splits)
    with lock_reference [OF Entering r] ne show ?thesis by (auto simp: move_def)
  next
    case (Reclaiming key e)
    then show ?thesis
      using release_drop [OF Reclaiming] ne by (auto simp: move_def drop_entry_def Let_def)
  qed (use u in simp_all)
  then show ?thesis
    using mutex_inv_step [OF assms(1)] by (auto intro: within_step [where n = 0, simplified] within_now)
qed

text \<open>A goroutine that waits for an entry gets it as soon as its holder lets go.\<close>

lemma waiting_served:
  assumes inv: "mutex_inv s" and w: "km_phase s t = Waiting key e"
  shows "within 2 s (\<lambda>s'. km_phase s' t = Holding key e)"
proof -
  have e: "e < length (km_heap s)"
    using inv countedD(2,3) w unfolding mutex_inv_def by (metis uses.simps(1))
  have now: "within 1 s' (\<lambda>s'. km_phase s' t = Holding key e)"
    if "km_phase s' t = Waiting key e" "\<not> rm_mu (km_heap s' ! e)" for s' :: "'a keyedMutex"
    using within_step [OF lock_acquire [OF that] within_now, of _ 0] by (simp add: move_def)
  show ?thesis
  proof (cases "rm_mu (km_heap s ! e)")
    case False
    then show ?thesis
      using now [OF w] by (auto intro: within_weaken)
  next
    case True
    then obtain u k where u: "km_phase s u = Holding k e"
      using inv e unfolding mutex_inv_def exclusive_def by blast
    let ?s = "move u (Leaving k e) (km_mu s) (set_entry_mu e False s)"
    have "within 1 ?s (\<lambda>s'. km_phase s' t = Holding key e)"
      by (rule now) (use u w e in \<open>auto simp: move_def set_entry_mu_def\<close>)
    then have "within (Suc 1) s (\<lambda>s'. km_phase s' t = Holding key e)"
      by (rule within_step [OF release_unlock [OF u]])
    then show ?thesis by (simp add: numeral_2_eq_2)
  qed
qed

text \<open>
  C33: no goroutine is ever stuck. From every moment of every run, one that calls \<open>Lock\<close> can hold
  its key after at most five steps of the system, and one that holds a key can have released it and
  be done after at most four; nobody has to call \<open>Lock\<close> again for it. So a deadlock is impossible,
  and a goroutine waits for nothing but the holders of its own key.
\<close>

theorem keyed_mutex_progress:
  assumes "reachable (\<lambda>s. s = newKeyedMutex) mutex_step s"
  shows "(km_phase s t = Idle \<longrightarrow> within 5 s (\<lambda>s'. \<exists>e. km_phase s' t = Holding key e))
    \<and> (km_phase s t = Waiting key e \<longrightarrow> within 2 s (\<lambda>s'. km_phase s' t = Holding key e))
    \<and> (km_phase s t = Holding key e \<longrightarrow> within 4 s (\<lambda>s'. km_phase s' t = Idle))"
proof -
  have inv: "mutex_inv s"
    unfolding mutex_inv_def by (rule keyed.reachable_inv [OF assms])
  have enter: "within 4 s' (\<lambda>s'. \<exists>e. km_phase s' t = Holding key e)"
    if i: "mutex_inv s' \<and> \<not> km_mu s' \<and> km_phase s' t = Idle" for s' :: "'a keyedMutex"
  proof -
    let ?s1 = "move t (Entering key) True s'"
    have s1: "mutex_step s' ?s1" "km_phase ?s1 t = Entering key"
      using i lock_enter by (auto simp: move_def)
    obtain e s2 where r: "reference_entry key ?s1 = (e, s2)" by force
    let ?s3 = "move t (Waiting key e) False s2"
    have s3: "mutex_step ?s1 ?s3" "km_phase ?s3 t = Waiting key e"
      using lock_reference [OF s1(2) r] by (simp_all add: move_def)
    have "mutex_inv ?s3"
      using i s1(1) s3(1) mutex_inv_step by blast
    then have "within 2 ?s3 (\<lambda>s'. \<exists>e. km_phase s' t = Holding key e)"
      using waiting_served [OF _ s3(2)] unfolding within_def by blast
    then have "within (Suc (Suc 2)) s' (\<lambda>s'. \<exists>e. km_phase s' t = Holding key e)"
      by (intro within_step [OF s1(1)] within_step [OF s3(1)])
    then show ?thesis by simp
  qed
  have leave: "within 2 s' (\<lambda>s'. km_phase s' t = Idle)"
    if i: "mutex_inv s' \<and> \<not> km_mu s' \<and> km_phase s' t = Leaving key e" for s' :: "'a keyedMutex"
  proof -
    let ?s1 = "move t (Reclaiming key e) True s'"
    have s1: "mutex_step s' ?s1" "km_phase ?s1 t = Reclaiming key e"
      using i release_enter by (auto simp: move_def)
    have "within (Suc (Suc 0)) s' (\<lambda>s'. km_phase s' t = Idle)"
      by (intro within_step [OF s1(1)] within_step [OF release_drop [OF s1(2)]] within_now) (simp add: move_def)
    then show ?thesis by (simp add: numeral_2_eq_2)
  qed
  have "within (1 + 4) s (\<lambda>s'. \<exists>e. km_phase s' t = Holding key e)" if "km_phase s t = Idle"
    by (rule within_trans [OF mu_freed [OF inv, of t]]) (use that enter in auto)
  moreover have "within 4 s (\<lambda>s'. km_phase s' t = Idle)" if h: "km_phase s t = Holding key e"
  proof -
    let ?s1 = "move t (Leaving key e) (km_mu s) (set_entry_mu e False s)"
    have s1: "mutex_step s ?s1" "km_phase ?s1 t = Leaving key e"
      using release_unlock [OF h] by (simp_all add: move_def)
    have "within (1 + 2) ?s1 (\<lambda>s'. km_phase s' t = Idle)"
      by (rule within_trans [OF mu_freed [OF mutex_inv_step [OF inv s1(1)], of t]]) (use s1(2) leave in auto)
    then have "within (Suc (1 + 2)) s (\<lambda>s'. km_phase s' t = Idle)"
      by (rule within_step [OF s1(1)])
    then show ?thesis by (simp add: numeral_eq_Suc)
  qed
  ultimately show ?thesis
    using waiting_served [OF inv, of t key e] by simp
qed

section \<open>An example run\<close>

text \<open>Two goroutines ask for the same key: the first holds it, the second waits.\<close>

definition ex_contention :: "nat keyedMutex" where
  "ex_contention = \<lparr>km_mu = False, km_locks = [''k'' \<mapsto> 0], km_heap = [\<lparr>rm_mu = True, rm_refs = 2\<rparr>],
     km_phase = (\<lambda>_. Idle)(0 := Holding ''k'' 0, 1 := Waiting ''k'' 0)\<rparr>"

lemma ex_contention_reachable: "reachable (\<lambda>s. s = newKeyedMutex) mutex_step ex_contention"
proof -
  let ?R = "reachable (\<lambda>s :: nat keyedMutex. s = newKeyedMutex) mutex_step"
  note next_step = reachable.advance [where init = "\<lambda>s :: nat keyedMutex. s = newKeyedMutex"]
  have "?R newKeyedMutex"
    by (rule reachable.start) simp
  then have "?R (move 0 (Entering ''k'') True newKeyedMutex)" (is "reachable _ _ ?s1")
    by (rule next_step) (rule lock_enter; simp add: newKeyedMutex_def)
  then have "?R (move 0 (Waiting ''k'' (fst (reference_entry ''k'' ?s1))) False (snd (reference_entry ''k'' ?s1)))" (is "reachable _ _ ?s2")
    by (rule next_step) (rule lock_reference [where key = "''k''"]; simp add: move_def)
  then have "?R (move 0 (Holding ''k'' 0) (km_mu ?s2) (set_entry_mu 0 True ?s2))" (is "reachable _ _ ?s3")
    by (rule next_step) (rule lock_acquire; simp add: newKeyedMutex_def mutex_defs)
  then have "?R (move 1 (Entering ''k'') True ?s3)" (is "reachable _ _ ?s4")
    by (rule next_step) (rule lock_enter; simp add: newKeyedMutex_def mutex_defs)
  then have "?R (move 1 (Waiting ''k'' (fst (reference_entry ''k'' ?s4))) False (snd (reference_entry ''k'' ?s4)))"
    by (rule next_step) (rule lock_reference [where key = "''k''"]; simp add: move_def)
  moreover have "move 1 (Waiting ''k'' (fst (reference_entry ''k'' ?s4))) False (snd (reference_entry ''k'' ?s4)) = ex_contention"
    by (simp add: newKeyedMutex_def ex_contention_def mutex_defs fun_upd_twist)
  ultimately show ?thesis
    by simp
qed

theorem keyed_mutex_excludes_witness:
  "\<exists>t. t \<noteq> 1 \<and> km_phase ex_contention t = Holding ''k'' 0"
  using keyed_mutex_excludes [OF ex_contention_reachable, of 1 "''k''" 0 0 0 0]
  by (simp add: ex_contention_def)

theorem keyed_mutex_reclaims_witness:
  "{''k''} = {key. \<exists>t e. uses (km_phase ex_contention t) = Some (key, e)}"
  using keyed_mutex_reclaims [OF ex_contention_reachable] by (simp add: ex_contention_def)

theorem keyed_mutex_progress_witness:
  "within 2 ex_contention (\<lambda>s'. km_phase s' 1 = Holding ''k'' 0)"
  using keyed_mutex_progress [OF ex_contention_reachable, of 1 "''k''" 0] by (simp add: ex_contention_def)

end
