(* ===== verification/Go_Text.thy ===== *)
theory Go_Text
  imports Go_Strings
begin

text \<open>
  More of Go's standard library on texts: \<open>strings.TrimSpace\<close>, \<open>encoding/base64\<close> and
  \<open>encoding/hex.DecodeString\<close>, which the providers and the configuration use.
\<close>

section \<open>White space\<close>

text \<open>The UTF-8 encodings of the runes \<open>unicode.IsSpace\<close> accepts.\<close>

definition space_texts :: "string list" where
  "space_texts =
     map (\<lambda>b. [char_of (b :: nat)]) [9, 10, 11, 12, 13, 32]
     @ [[CHR 0xC2, CHR 0x85], [CHR 0xC2, CHR 0xA0], [CHR 0xE1, CHR 0x9A, CHR 0x80]]
     @ map (\<lambda>b. [CHR 0xE2, CHR 0x80, char_of (b :: nat)])
         [0x80, 0x81, 0x82, 0x83, 0x84, 0x85, 0x86, 0x87, 0x88, 0x89, 0x8A, 0xA8, 0xA9, 0xAF]
     @ [[CHR 0xE2, CHR 0x81, CHR 0x9F], [CHR 0xE3, CHR 0x80, CHR 0x80]]"

lemma space_texts_nonempty: "p \<in> set space_texts \<Longrightarrow> p \<noteq> []"
  by (auto simp: space_texts_def)

function TrimLeftSpace :: "string \<Rightarrow> string" where
  "TrimLeftSpace s =
     (case List.find (HasPrefix s) space_texts of None \<Rightarrow> s | Some p \<Rightarrow> TrimLeftSpace (drop (length p) s))"
  by pat_completeness auto
termination
proof (relation "measure length")
  fix s p
  assume f: "List.find (HasPrefix s) space_texts = Some p"
  then have "p \<noteq> []" and "HasPrefix s p"
    using space_texts_nonempty by (auto simp: find_Some_iff)
  then show "(drop (length p) s, s) \<in> measure length"
    by (auto simp: HasPrefix_iff)
qed simp

function TrimRightSpace :: "string \<Rightarrow> string" where
  "TrimRightSpace s =
     (case List.find (HasSuffix s) space_texts of
        None \<Rightarrow> s | Some p \<Rightarrow> TrimRightSpace (take (length s - length p) s))"
  by pat_completeness auto
termination
proof (relation "measure length")
  fix s p
  assume f: "List.find (HasSuffix s) space_texts = Some p"
  then have "p \<noteq> []" and "HasSuffix s p"
    using space_texts_nonempty by (auto simp: find_Some_iff)
  then show "(take (length s - length p) s, s) \<in> measure length"
    by (auto simp: HasSuffix_iff)
qed simp

declare TrimLeftSpace.simps [simp del] TrimRightSpace.simps [simp del]

definition TrimSpace :: "string \<Rightarrow> string" where
  "TrimSpace s = TrimRightSpace (TrimLeftSpace s)"

section \<open>Base 64\<close>

definition base64_char :: "nat \<Rightarrow> char" where
  "base64_char d =
     (if d < 26 then char_of (65 + d) else if d < 52 then char_of (71 + d) else if d < 62 then char_of (d - 4)
      else if d = 62 then CHR ''+'' else CHR ''/'')"

text \<open>Three bytes become four characters; a shorter end is padded.\<close>

fun base64 :: "string \<Rightarrow> string" where
  "base64 [] = []"
| "base64 [a] = [base64_char (byte a div 4), base64_char (byte a mod 4 * 16), CHR ''='', CHR ''='']"
| "base64 [a, b] =
     [base64_char (byte a div 4), base64_char (byte a mod 4 * 16 + byte b div 16),
      base64_char (byte b mod 16 * 4), CHR ''='']"
| "base64 (a # b # c # s) =
     base64_char (byte a div 4) # base64_char (byte a mod 4 * 16 + byte b div 16)
     # base64_char (byte b mod 16 * 4 + byte c div 64) # base64_char (byte c mod 64) # base64 s"

definition base64_alphabet :: "char \<Rightarrow> bool" where
  "base64_alphabet c \<longleftrightarrow> is_digit c \<or> is_lower c \<or> is_upper c \<or> c = CHR ''+'' \<or> c = CHR ''/'' \<or> c = CHR ''=''"

lemma base64_char_alphabet: "base64_alphabet (base64_char d)"
proof -
  have "48 \<le> d - 4 \<and> d - 4 \<le> 57" if "\<not> d < 52" "d < 62"
    using that by arith
  then show ?thesis
    by (simp add: base64_char_def base64_alphabet_def is_digit_def is_lower_def is_upper_def)
qed

lemma base64_in_alphabet: "c \<in> set (base64 s) \<Longrightarrow> base64_alphabet c"
proof (induction s rule: base64.induct)
  case 1
  then show ?case by simp
next
  case (2 a)
  then show ?case
    by (auto simp: base64_char_alphabet) (simp_all add: base64_alphabet_def)
next
  case (3 a b)
  then show ?case
    by (auto simp: base64_char_alphabet) (simp_all add: base64_alphabet_def)
next
  case (4 a b c s)
  then show ?case
    by (auto simp: base64_char_alphabet)
qed

section \<open>Hexadecimal\<close>

definition from_hex_char :: "char \<Rightarrow> nat option" where
  "from_hex_char c =
     (let b = byte c
      in if 48 \<le> b \<and> b \<le> 57 then Some (b - 48)
         else if 97 \<le> b \<and> b \<le> 102 then Some (b - 87)
         else if 65 \<le> b \<and> b \<le> 70 then Some (b - 55) else None)"

fun DecodeString :: "string \<Rightarrow> nat list option" where
  "DecodeString [] = Some []"
| "DecodeString [a] = None"
| "DecodeString (a # b # s) =
     (case (from_hex_char a, from_hex_char b) of
        (Some x, Some y) \<Rightarrow> map_option (\<lambda>bs. (x * 16 + y) # bs) (DecodeString s)
      | _ \<Rightarrow> None)"

lemma from_hex_digit: "d < 16 \<Longrightarrow> from_hex_char (hex_digit d) = Some d"
  by (auto simp: from_hex_char_def hex_digit_def Let_def)

lemma Decode_Encode: "list_all (\<lambda>b. b < 256) bs \<Longrightarrow> DecodeString (EncodeToString bs) = Some bs"
proof (induction bs)
  case (Cons b bs)
  then have "b div 16 < 16" "b mod 16 < 16"
    by (simp_all add: less_mult_imp_div_less)
  with Cons show ?case
    by (simp add: EncodeToString_def hex_byte_def from_hex_digit)
qed (simp add: EncodeToString_def)

lemma of_char_of_256: "byte c < (256 :: nat)"
proof -
  have "byte c = byte c mod (256 :: nat)"
    using of_char_mod_256 [of c] by simp
  then show ?thesis
    by (metis mod_less_divisor zero_less_numeral)
qed

end
