(* ===== verification/Go_Net.thy ===== *)
theory Go_Net
  imports Event_Payload Admission_Policy
begin

text \<open>
  What the configuration check calls of Go's \<open>net\<close> and \<open>net/netip\<close>: \<open>SplitHostPort\<close>,
  \<open>ParseIP\<close> for both address families and \<open>IsLoopback\<close>. An address is its sixteen bytes, an
  IPv4 address the mapped ones.
\<close>

section \<open>Host and port\<close>

definition has_byte :: "char \<Rightarrow> string \<Rightarrow> bool" where
  "has_byte c s \<longleftrightarrow> c \<in> set s"

text \<open>The parts before and after the last colon.\<close>

definition split_last_colon :: "string \<Rightarrow> (string \<times> string) option" where
  "split_last_colon s =
     (if has_byte (CHR '':'') s
      then Some (rev (tl (dropWhile (\<lambda>c. c \<noteq> CHR '':'') (rev s))), rev (takeWhile (\<lambda>c. c \<noteq> CHR '':'') (rev s)))
      else None)"

definition SplitHostPort :: "string \<Rightarrow> (string \<times> string) option" where
  "SplitHostPort hostport =
     (case split_last_colon hostport of
        None \<Rightarrow> None
      | Some (before, port) \<Rightarrow>
          if has_byte (CHR ''['') port \<or> has_byte (CHR '']'') port then None
          else if hd hostport = CHR ''['' then
            (if \<not> has_byte (CHR '']'') before then None
             else (let host = takeWhile (\<lambda>c. c \<noteq> CHR '']'') (tl before);
                       rest = tl (dropWhile (\<lambda>c. c \<noteq> CHR '']'') (tl before))
                   in if rest \<noteq> [] \<or> has_byte (CHR ''['') host then None else Some (host, port)))
          else if has_byte (CHR '':'') before \<or> has_byte (CHR ''['') before \<or> has_byte (CHR '']'') before then None
          else Some (before, port))"

section \<open>Addresses\<close>

fun split_on :: "char \<Rightarrow> string \<Rightarrow> string list" where
  "split_on c [] = [[]]"
| "split_on c (x # s) =
     (if x = c then [] # split_on c s
      else (case split_on c s of [] \<Rightarrow> [[x]] | p # ps \<Rightarrow> (x # p) # ps))"

text \<open>A field of a dotted address: decimal, at most 255, without a leading zero.\<close>

definition parse_octet :: "string \<Rightarrow> nat option" where
  "parse_octet s =
     (if s = [] \<or> \<not> list_all is_digit s \<or> (hd s = CHR ''0'' \<and> length s > 1) \<or> parse_digits s > 255
      then None else Some (parse_digits s))"

definition parseIPv4 :: "string \<Rightarrow> nat list option" where
  "parseIPv4 s = (let ps = split_on (CHR ''.'') s in if length ps = 4 then those (map parse_octet ps) else None)"

text \<open>The hexadecimal digits at the front of a group and their value.\<close>

definition hex_prefix :: "string \<Rightarrow> string" where
  "hex_prefix s = takeWhile (\<lambda>c. hex_value c \<noteq> None) s"

definition hex_number :: "string \<Rightarrow> nat" where
  "hex_number s = fold (\<lambda>c a. a * 16 + the (hex_value c)) s 0"

text \<open>
  The loop of \<open>parseIPv6\<close>: the bytes so far, where the ellipsis stood, and the rest of the text.
  The result is the bytes and the ellipsis once the whole text is read.
\<close>

fun ipv6_groups :: "nat \<Rightarrow> nat list \<Rightarrow> nat option \<Rightarrow> string \<Rightarrow> (nat list \<times> nat option) option" where
  "ipv6_groups 0 ip ell s = (if s = [] then Some (ip, ell) else None)"
| "ipv6_groups (Suc n) ip ell s =
     (let h = hex_prefix s; t = drop (length h) s
      in if h = [] \<or> length h > 4 then None
         else if t \<noteq> [] \<and> hd t = CHR ''.'' then
           (if ell = None \<and> length ip \<noteq> 12 \<or> length ip + 4 > 16 then None
            else map_option (\<lambda>v4. (ip @ v4, ell)) (parseIPv4 s))
         else
           (let ip' = ip @ [hex_number h div 256, hex_number h mod 256]
            in if t = [] then Some (ip', ell)
               else if hd t \<noteq> CHR '':'' \<or> tl t = [] then None
               else if hd (tl t) = CHR '':'' then
                 (if ell \<noteq> None then None
                  else if tl (tl t) = [] then Some (ip', Some (length ip'))
                  else ipv6_groups n ip' (Some (length ip')) (tl (tl t)))
               else ipv6_groups n ip' ell (tl t)))"

text \<open>The zeros an ellipsis stands for.\<close>

definition expand_ellipsis :: "nat list \<times> nat option \<Rightarrow> nat list option" where
  "expand_ellipsis r = (case r of (ip, ell) \<Rightarrow>
     if length ip < 16 then
       (case ell of None \<Rightarrow> None | Some e \<Rightarrow> Some (take e ip @ replicate (16 - length ip) 0 @ drop e ip))
     else if ell = None then Some ip else None)"

definition parseIPv6 :: "string \<Rightarrow> nat list option" where
  "parseIPv6 s =
     (if take 2 s = ''::'' then
        (if drop 2 s = [] then Some (replicate 16 0)
         else Option.bind (ipv6_groups 8 [] (Some 0) (drop 2 s)) expand_ellipsis)
      else Option.bind (ipv6_groups 8 [] None s) expand_ellipsis)"

text \<open>\<open>netip.ParseAddr\<close> decides by the first dot, colon or percent; \<open>ParseIP\<close> refuses a zone.\<close>

definition ParseIP :: "string \<Rightarrow> nat list option" where
  "ParseIP s =
     (case List.find (\<lambda>c. c = CHR ''.'' \<or> c = CHR '':'' \<or> c = CHR ''%'') s of
        None \<Rightarrow> None
      | Some c \<Rightarrow>
          if c = CHR ''.'' then map_option (\<lambda>v4. replicate 10 0 @ [255, 255] @ v4) (parseIPv4 s)
          else if c = CHR '':'' \<and> \<not> has_byte (CHR ''%'') s then parseIPv6 s
          else None)"

definition IsLoopback :: "nat list \<Rightarrow> bool" where
  "IsLoopback ip \<longleftrightarrow>
     (if take 12 ip = replicate 10 0 @ [255, 255] then ip ! 12 = 127 else ip = replicate 15 0 @ [1])"

section \<open>Case folding\<close>

text \<open>
  \<open>strings.EqualFold\<close> against an ASCII text: beside the ASCII capitals only the long s (bytes
  \<open>C5 BF\<close>) and the Kelvin sign (bytes \<open>E2 84 AA\<close>) fold to an ASCII letter.
\<close>

fun fold_ascii :: "string \<Rightarrow> string" where
  "fold_ascii [] = []"
| "fold_ascii (c # s) =
     (if c = CHR 0xC5 \<and> s \<noteq> [] \<and> hd s = CHR 0xBF then CHR ''s'' # fold_ascii (drop 1 s)
      else if c = CHR 0xE2 \<and> take 2 s = [CHR 0x84, CHR 0xAA] then CHR ''k'' # fold_ascii (drop 2 s)
      else fold_byte c # fold_ascii s)"

definition EqualFoldASCII :: "string \<Rightarrow> string \<Rightarrow> bool" where
  "EqualFoldASCII s t \<longleftrightarrow> fold_ascii s = fold_ascii t"

section \<open>Facts\<close>

lemma split_last_colon_append:
  assumes "\<not> has_byte (CHR '':'') port"
  shows "split_last_colon (before @ CHR '':'' # port) = Some (before, port)"
proof -
  have no: "\<forall>c\<in>set (rev port). c \<noteq> CHR '':''"
    using assms by (auto simp: has_byte_def)
  have d: "dropWhile (\<lambda>c. c \<noteq> CHR '':'') (rev port @ x) = dropWhile (\<lambda>c. c \<noteq> CHR '':'') x" for x
    by (rule dropWhile_append2) (use no in blast)
  have t: "takeWhile (\<lambda>c. c \<noteq> CHR '':'') (rev port @ x) = rev port @ takeWhile (\<lambda>c. c \<noteq> CHR '':'') x" for x
    by (rule takeWhile_append2) (use no in blast)
  show ?thesis
    using d [of "CHR '':'' # rev before"] t [of "CHR '':'' # rev before"]
    by (simp add: split_last_colon_def has_byte_def)
qed

text \<open>The decimal text of a number is the only one without a leading zero.\<close>

lemma parse_digits_snoc: "parse_digits (ds @ [c]) = parse_digits ds * 10 + (byte c - 48)"
  by (simp add: parse_digits_def)

lemma digit_char_byte: "is_digit c \<Longrightarrow> digit_char (byte c - 48) = c"
  by (simp add: is_digit_def digit_char_def)

lemma parse_digits_pos:
  "ds \<noteq> [] \<Longrightarrow> list_all is_digit ds \<Longrightarrow> hd ds \<noteq> CHR ''0'' \<Longrightarrow> 0 < parse_digits ds"
proof (induction ds rule: rev_induct)
  case (snoc c ds)
  show ?case
  proof (cases "ds = []")
    case True
    with snoc.prems show ?thesis
      using zero_char [of c] by (auto simp: parse_digits_def is_digit_def)
  next
    case False
    with snoc show ?thesis
      by (simp add: parse_digits_snoc)
  qed
qed simp

lemma nat_digits_parse:
  "ds \<noteq> [] \<Longrightarrow> list_all is_digit ds \<Longrightarrow> hd ds \<noteq> CHR ''0'' \<or> length ds = 1 \<Longrightarrow> nat_digits (parse_digits ds) = ds"
proof (induction ds rule: rev_induct)
  case (snoc c ds)
  have c: "is_digit c" "byte c - 48 < (10::nat)"
    using snoc.prems(2) by (auto simp: is_digit_def)
  show ?case
  proof (cases "ds = []")
    case True
    with c show ?thesis
      by (simp add: parse_digits_def nat_digits.simps [of "byte c - 48"] digit_char_byte)
  next
    case False
    with snoc.prems have p: "0 < parse_digits ds" "nat_digits (parse_digits ds) = ds"
      using snoc.IH parse_digits_pos [of ds] by auto
    then show ?thesis
      using c by (simp add: parse_digits_snoc nat_digits.simps [of "parse_digits ds * 10 + (byte c - 48)"] digit_char_byte)
  qed
qed simp

lemma nat_digits_zero: "nat_digits 0 = ''0''"
  by code_simp

lemma nat_digits_leading:
  assumes "hd (nat_digits n) = CHR ''0''"
  shows "nat_digits n = ''0''"
proof (cases "n = 0")
  case True
  then show ?thesis
    by (simp only: nat_digits_zero)
next
  case False
  with assms show ?thesis
    using nat_digits_facts [of n] by simp
qed

lemma parse_octet_SomeD:
  assumes "parse_octet s = Some n"
  shows "n \<le> 255 \<and> s = nat_digits n"
proof -
  have d: "s \<noteq> []" "list_all is_digit s" "parse_digits s = n" "n \<le> 255"
    and h: "\<not> (hd s = CHR ''0'' \<and> length s > 1)"
    using assms by (auto simp: parse_octet_def split: if_splits)
  from d(1) h have "hd s \<noteq> CHR ''0'' \<or> length s = 1"
    by (cases s; cases "tl s") auto
  with d(1,2) have "nat_digits (parse_digits s) = s"
    by (rule nat_digits_parse)
  with d(3,4) show ?thesis
    by simp
qed

lemma parse_octet_nat_digits:
  assumes "n \<le> 255"
  shows "parse_octet (nat_digits n) = Some n"
proof -
  note f = nat_digits_facts [of n]
  have "\<not> (hd (nat_digits n) = CHR ''0'' \<and> length (nat_digits n) > 1)"
    using nat_digits_leading [of n] by auto
  then show ?thesis
    using f assms by (simp add: parse_octet_def)
qed

lemma parse_octet_iff: "parse_octet s = Some n \<longleftrightarrow> n \<le> 255 \<and> s = nat_digits n"
  using parse_octet_SomeD parse_octet_nat_digits by blast

lemma those_Some_iff: "those xs = Some ys \<longleftrightarrow> xs = map Some ys"
  by (induction xs arbitrary: ys) (auto split: option.splits)

text \<open>A dotted address is four canonical decimals; the split is undone by joining.\<close>

lemma split_on_nonempty: "split_on c s \<noteq> []"
  by (induction s) (auto split: list.splits)

lemma split_on_join: "strings_Join (split_on c s) [c] = s"
proof (induction s)
  case (Cons x s)
  then show ?case
    using split_on_nonempty [of c s] by (cases "split_on c s"; cases "tl (split_on c s)") auto
qed simp

lemma split_on_part: "c \<notin> set p \<Longrightarrow> split_on c (p @ s) = (case split_on c s of [] \<Rightarrow> [p] | q # qs \<Rightarrow> (p @ q) # qs)"
  by (induction p) (auto simp: split_on_nonempty split: list.splits)

lemma split_on_sep: "c \<notin> set p \<Longrightarrow> split_on c (p @ c # s) = p # split_on c s"
  by (simp add: split_on_part)

lemma split_on_none: "c \<notin> set p \<Longrightarrow> split_on c p = [p]"
  using split_on_part [of c p "[]"] by simp

definition dotted :: "nat list \<Rightarrow> string" where
  "dotted ns = strings_Join (map nat_digits ns) ''.''"

lemma no_dot: "CHR ''.'' \<notin> set (nat_digits n)"
  using nat_digits_facts [of n] by (auto simp: list_all_iff is_digit_def)

lemma parseIPv4_iff:
  "parseIPv4 s = Some ns \<longleftrightarrow> (\<exists>a b c d. ns = [a, b, c, d] \<and> a \<le> 255 \<and> b \<le> 255 \<and> c \<le> 255 \<and> d \<le> 255 \<and> s = dotted ns)"
proof
  assume p: "parseIPv4 s = Some ns"
  then have l: "length (split_on (CHR ''.'') s) = 4" and m: "map parse_octet (split_on (CHR ''.'') s) = map Some ns"
    by (auto simp: parseIPv4_def Let_def those_Some_iff split: if_splits)
  then obtain w x y z where parts: "split_on (CHR ''.'') s = [w, x, y, z]"
    by (auto simp: numeral_eq_Suc length_Suc_conv)
  with m obtain a b c d where ns: "ns = [a, b, c, d]" "parse_octet w = Some a" "parse_octet x = Some b"
      "parse_octet y = Some c" "parse_octet z = Some d"
    by auto
  then have "map nat_digits ns = split_on (CHR ''.'') s" "a \<le> 255" "b \<le> 255" "c \<le> 255" "d \<le> 255"
    by (simp_all add: parse_octet_iff parts)
  with ns(1) show "\<exists>a b c d. ns = [a, b, c, d] \<and> a \<le> 255 \<and> b \<le> 255 \<and> c \<le> 255 \<and> d \<le> 255 \<and> s = dotted ns"
    using split_on_join [of "CHR ''.''" s] by (auto simp: dotted_def)
next
  assume "\<exists>a b c d. ns = [a, b, c, d] \<and> a \<le> 255 \<and> b \<le> 255 \<and> c \<le> 255 \<and> d \<le> 255 \<and> s = dotted ns"
  then obtain a b c d where ns: "ns = [a, b, c, d]" "a \<le> 255" "b \<le> 255" "c \<le> 255" "d \<le> 255"
      and s: "s = dotted ns"
    by blast
  have "split_on (CHR ''.'') s = map nat_digits ns"
    by (simp add: s ns(1) dotted_def split_on_sep split_on_none no_dot)
  then show "parseIPv4 s = Some ns"
    using ns by (simp add: parseIPv4_def those_Some_iff parse_octet_nat_digits)
qed

end
