(* ===== verification/Kubernetes_Provider.thy ===== *)
theory Kubernetes_Provider
  imports Provider_Api Sha256 Go_Text Go_Net
begin

text \<open>
  \<open>providers/deploy/kubernetes/kubernetes.go\<close>: environments as a Deployment, a Service and an
  Ingress applied with kubectl. Running kubectl is an argument: it takes the arguments and the
  standard input and returns the combined output and an error.
\<close>

section \<open>The provider\<close>

type_synonym 'w command_runner = "string list \<Rightarrow> string \<Rightarrow> ('w, string \<times> error option) state"

record 'w Kubernetes =
  ku_runner :: "'w command_runner"
  ku_namespace :: string
  ku_baseDomain :: string
  ku_dnsTarget :: string
  ku_ingressClass :: string
  ku_containerPort :: int
  ku_servicePort :: int

definition NewWithRunner ::
  "'w command_runner \<Rightarrow> string \<Rightarrow> string \<Rightarrow> string \<Rightarrow> string \<Rightarrow> int \<Rightarrow> int \<Rightarrow> 'w Kubernetes" where
  "NewWithRunner r namespace baseDomain dnsTarget ingressClass containerPort servicePort =
     (let ns = (if namespace = [] then ''default'' else namespace);
          cport = (if containerPort = 0 then 8080 else containerPort);
          sport = (if servicePort = 0 then cport else servicePort)
      in \<lparr>ku_runner = r, ku_namespace = ns, ku_baseDomain = TrimSuffix baseDomain ''.'', ku_dnsTarget = dnsTarget,
          ku_ingressClass = ingressClass, ku_containerPort = cport, ku_servicePort = sport\<rparr>)"

text \<open>\<open>execRunner.Run\<close> around \<open>exec.Command\<close>.\<close>

definition execRunner :: "'w command_runner \<Rightarrow> string \<Rightarrow> string \<Rightarrow> 'w command_runner" where
  "execRunner exec kubeconfig kubeContext args stdin =
     do { let args1 = args @ (if kubeconfig \<noteq> [] then [''--kubeconfig'', kubeconfig] else [])
                      @ (if kubeContext \<noteq> [] then [''--context'', kubeContext] else []);
          (out, err) \<leftarrow> exec args1 stdin;
          ret (case err of None \<Rightarrow> (out, None)
               | Some e \<Rightarrow> (out, Some (Wrap ''kubectl: '' e ('': '' @ TrimSpace out)))) }"

definition Kubernetes_New ::
  "'w command_runner \<Rightarrow> string \<Rightarrow> string \<Rightarrow> string \<Rightarrow> string \<Rightarrow> string \<Rightarrow> string \<Rightarrow> int \<Rightarrow> int \<Rightarrow> 'w Kubernetes" where
  "Kubernetes_New exec namespace baseDomain dnsTarget ingressClass kubeconfig kubeContext containerPort servicePort =
     NewWithRunner (execRunner exec kubeconfig kubeContext) namespace baseDomain dnsTarget ingressClass
       containerPort servicePort"

section \<open>Names\<close>

definition deploymentName :: "string \<Rightarrow> string \<Rightarrow> string" where
  "deploymentName project branch =
     ''ramify-'' @ take 16 (EncodeToString (Sum256 (project @ ''/'' @ branch)))"

text \<open>\<open>namePattern\<close>: lower-case letters, digits and dashes, with no dash at either end.\<close>

definition name_end :: "char \<Rightarrow> bool" where
  "name_end c \<longleftrightarrow> is_lower c \<or> is_digit c"

definition namePattern :: "string \<Rightarrow> bool" where
  "namePattern s \<longleftrightarrow>
     s \<noteq> [] \<and> name_end (hd s) \<and> name_end (last s) \<and> list_all (\<lambda>c. name_end c \<or> c = CHR ''-'') s"

definition validName :: "string \<Rightarrow> bool" where
  "validName ref \<longleftrightarrow> ref \<noteq> [] \<and> length ref \<le> 63 \<and> namePattern ref"

definition hostName :: "string \<Rightarrow> string \<Rightarrow> string" where
  "hostName subdomain baseDomain =
     (if baseDomain = [] then subdomain else subdomain @ ''.'' @ baseDomain)"

definition quoteYAML :: "string \<Rightarrow> string" where
  "quoteYAML v = Quote v"

definition printableASCII :: "string \<Rightarrow> bool" where
  "printableASCII v \<longleftrightarrow> list_all (\<lambda>c. 0x20 \<le> byte c \<and> byte c \<le> 0x7e) v"

definition tlsSecretName :: "string \<Rightarrow> string" where
  "tlsSecretName domain = ''ramify-tls-'' @ take 16 (EncodeToString (Sum256 domain))"

section \<open>The manifest\<close>

text \<open>A text as its lines, each ended by a newline.\<close>

definition unlines :: "string list \<Rightarrow> string" where
  "unlines ls = concat (map (\<lambda>l. l @ [CHR 0x0A]) ls)"

definition deployment_lines :: "'w Kubernetes \<Rightarrow> string \<Rightarrow> EnvSpec \<Rightarrow> string list" where
  "deployment_lines p name spec =
     [''apiVersion: apps/v1'', ''kind: Deployment'', ''metadata:'', ''  name: '' @ name, ''  labels:'',
      ''    app.kubernetes.io/managed-by: ramify'', ''    ramify.io/deployment: '' @ name,
      ''spec:'', ''  replicas: 1'', ''  selector:'', ''    matchLabels:'', ''      ramify.io/deployment: '' @ name,
      ''  template:'', ''    metadata:'', ''      labels:'', ''        ramify.io/deployment: '' @ name,
      ''    spec:'', ''      containers:'', ''      - name: app'',
      ''        image: '' @ quoteYAML (sp_ArtifactRef spec), ''        imagePullPolicy: IfNotPresent'',
      ''        ports:'', ''        - name: http'', ''          containerPort: '' @ Itoa (ku_containerPort p)]"

definition service_lines :: "'w Kubernetes \<Rightarrow> string \<Rightarrow> string list" where
  "service_lines p name =
     [''---'', ''apiVersion: v1'', ''kind: Service'', ''metadata:'', ''  name: '' @ name, ''  labels:'',
      ''    app.kubernetes.io/managed-by: ramify'', ''    ramify.io/deployment: '' @ name,
      ''spec:'', ''  selector:'', ''    ramify.io/deployment: '' @ name, ''  ports:'', ''  - name: http'',
      ''    port: '' @ Itoa (ku_servicePort p), ''    targetPort: '' @ Itoa (ku_containerPort p)]"

definition ingress_lines :: "'w Kubernetes \<Rightarrow> string \<Rightarrow> string \<Rightarrow> string list" where
  "ingress_lines p name host =
     [''---'', ''apiVersion: networking.k8s.io/v1'', ''kind: Ingress'', ''metadata:'', ''  name: '' @ name, ''  labels:'',
      ''    app.kubernetes.io/managed-by: ramify'', ''    ramify.io/deployment: '' @ name, ''spec:'']
     @ (if ku_ingressClass p \<noteq> [] then [''    ingressClassName: '' @ quoteYAML (ku_ingressClass p)] else [])
     @ [''  tls:'', ''  - hosts:'', ''    - '' @ quoteYAML host, ''    secretName: '' @ tlsSecretName host,
        ''  rules:'', ''  - host: '' @ quoteYAML host, ''    http:'', ''      paths:'', ''      - path: /'',
        ''        pathType: Prefix'', ''        backend:'', ''          service:'', ''            name: '' @ name,
        ''            port:'', ''              number: '' @ Itoa (ku_servicePort p)]"

definition manifest :: "'w Kubernetes \<Rightarrow> string \<Rightarrow> EnvSpec \<Rightarrow> string" where
  "manifest p name spec =
     (let host = hostName (sp_Subdomain spec) (ku_baseDomain p)
      in unlines (deployment_lines p name spec @ service_lines p name @ ingress_lines p name host))"

section \<open>The operations\<close>

definition invalid_ref :: "string \<Rightarrow> string \<Rightarrow> error" where
  "invalid_ref operation ref =
     Wrap (''kubernetes: '' @ operation @ '': '') ErrPermanent ('': invalid deploy ref '' @ Quote ref)"

text \<open>A run of kubectl of which only the error matters.\<close>

definition run_kubectl ::
  "'w Kubernetes \<Rightarrow> string list \<Rightarrow> string \<Rightarrow> string \<Rightarrow> ('w, error option) state" where
  "run_kubectl p args stdin what =
     do { (out, err) \<leftarrow> ku_runner p args stdin;
          ret (map_option (wrapf (''kubernetes: '' @ what @ '': '')) err) }"

definition Kubernetes_Apply :: "'w Kubernetes \<Rightarrow> EnvSpec \<Rightarrow> ('w, error + Deployment) state" where
  "Kubernetes_Apply p spec =
     (if sp_PreviousRef spec \<noteq> [] \<and> \<not> validName (sp_PreviousRef spec) then
        ret (Inl (Wrap ''kubernetes: apply: '' ErrPermanent
          ('': previous deploy ref '' @ Quote (sp_PreviousRef spec) @ '' is not a valid object name'')))
      else
        (let name = (if sp_PreviousRef spec \<noteq> [] then sp_PreviousRef spec
                     else deploymentName (sp_Project spec) (sp_Branch spec));
             host = hostName (sp_Subdomain spec) (ku_baseDomain p)
         in if \<not> printableASCII (sp_ArtifactRef spec) \<or> \<not> printableASCII host then
              ret (Inl (Wrap (''kubernetes: apply '' @ name @ '': '') ErrPermanent
                ('': artifact ref or host contains non-printable characters'')))
            else
              if_err (run_kubectl p [''apply'', ''-n'', ku_namespace p, ''-f'', ''-''] (manifest p name spec) (''apply '' @ name))
                (\<lambda>err. ret (Inl err))
                (ret (Inr \<lparr>dep_Ref = name, dep_InternalAddr = ku_dnsTarget p\<rparr>))))"

definition scale :: "'w Kubernetes \<Rightarrow> string \<Rightarrow> int \<Rightarrow> ('w, error option) state" where
  "scale p ref replicas =
     (if \<not> validName ref then ret (Some (invalid_ref ''scale'' ref))
      else run_kubectl p [''scale'', ''deployment/'' @ ref, ''-n'', ku_namespace p, ''--replicas='' @ Itoa replicas] []
             (''scale '' @ ref @ '' to '' @ Itoa replicas))"

definition Kubernetes_Sleep :: "'w Kubernetes \<Rightarrow> string \<Rightarrow> ('w, error option) state" where
  "Kubernetes_Sleep p ref = scale p ref 0"

definition Kubernetes_Wake :: "'w Kubernetes \<Rightarrow> string \<Rightarrow> ('w, error option) state" where
  "Kubernetes_Wake p ref = scale p ref 1"

definition Kubernetes_Destroy :: "'w Kubernetes \<Rightarrow> string \<Rightarrow> ('w, error option) state" where
  "Kubernetes_Destroy p ref =
     (if \<not> validName ref then ret (Some (invalid_ref ''destroy'' ref))
      else run_kubectl p [''delete'', ''deployment,service,ingress'', ref, ''-n'', ku_namespace p, ''--ignore-not-found'']
             [] (''destroy '' @ ref))"

definition Kubernetes_HealthCheck :: "'w Kubernetes \<Rightarrow> string \<Rightarrow> ('w, error + Status) state" where
  "Kubernetes_HealthCheck p ref =
     (if \<not> validName ref then ret (Inl (invalid_ref ''health check'' ref))
      else do {
        (out, err) \<leftarrow> ku_runner p [''get'', ''deployment/'' @ ref, ''-n'', ku_namespace p, ''-o'',
                                    ''jsonpath={.status.readyReplicas}''] [];
        ret (case err of
               Some e \<Rightarrow> Inl (wrapf (''kubernetes: health check '' @ ref @ '': '') e)
             | None \<Rightarrow>
                 (let ready = TrimSpace out
                  in if ready = [] \<or> ready = ''0'' then Inr \<lparr>st_Healthy = False, st_Detail = ''no ready replicas''\<rparr>
                     else Inr \<lparr>st_Healthy = True, st_Detail = ready @ '' ready replica(s)''\<rparr>)) })"

definition secret_manifest :: "string \<Rightarrow> bytes \<Rightarrow> bytes \<Rightarrow> string" where
  "secret_manifest name certificatePEM privateKeyPEM =
     unlines [''apiVersion: v1'', ''kind: Secret'', ''metadata:'', ''  name: '' @ name, ''  labels:'',
       ''    app.kubernetes.io/managed-by: ramify'', ''type: kubernetes.io/tls'', ''data:'',
       ''  tls.crt: '' @ base64 certificatePEM, ''  tls.key: '' @ base64 privateKeyPEM]"

definition Kubernetes_InstallCertificate ::
  "'w Kubernetes \<Rightarrow> string \<Rightarrow> bytes \<Rightarrow> bytes \<Rightarrow> ('w, error option) state" where
  "Kubernetes_InstallCertificate p domain certificatePEM privateKeyPEM =
     run_kubectl p [''apply'', ''-n'', ku_namespace p, ''-f'', ''-'']
       (secret_manifest (tlsSecretName domain) certificatePEM privateKeyPEM) (''install certificate '' @ domain)"

definition Kubernetes_RemoveCertificate :: "'w Kubernetes \<Rightarrow> string \<Rightarrow> ('w, error option) state" where
  "Kubernetes_RemoveCertificate p domain =
     run_kubectl p [''delete'', ''secret'', tlsSecretName domain, ''-n'', ku_namespace p, ''--ignore-not-found''] []
       (''remove certificate '' @ domain)"

definition Kubernetes_Logs :: "'w Kubernetes \<Rightarrow> string \<Rightarrow> ('w, error + string) state" where
  "Kubernetes_Logs p ref =
     (if \<not> validName ref then ret (Inl (invalid_ref ''logs'' ref))
      else do {
        (out, err) \<leftarrow> ku_runner p [''logs'', ''deployment/'' @ ref, ''-n'', ku_namespace p, ''--all-containers'', ''--tail=500''] [];
        ret (case err of Some e \<Rightarrow> Inl (wrapf (''kubernetes: logs '' @ ref @ '': '') e) | None \<Rightarrow> Inr out) })"

text \<open>The provider as the reconciler sees it.\<close>

definition kubernetes_provider :: "'w Kubernetes \<Rightarrow> 'w DeployProvider" where
  "kubernetes_provider p =
     \<lparr>dp_Apply = Kubernetes_Apply p, dp_Sleep = Kubernetes_Sleep p, dp_Wake = Kubernetes_Wake p,
      dp_Destroy = Kubernetes_Destroy p, dp_HealthCheck = Kubernetes_HealthCheck p,
      dp_CertificateInstaller = Some (Kubernetes_InstallCertificate p),
      dp_CertificateRemover = Some (Kubernetes_RemoveCertificate p), dp_LogFetcher = Some (Kubernetes_Logs p)\<rparr>"

section \<open>Facts about names\<close>

lemma hex_name_end: "is_hex c \<Longrightarrow> name_end c"
  by (auto simp: is_hex_def name_end_def is_lower_def)

lemma hash_suffix:
  "s = take 16 (EncodeToString (Sum256 x)) \<Longrightarrow> length s = 16 \<and> list_all name_end s"
  by (auto simp: list_all_iff dest!: in_set_takeD Sum256_hex hex_name_end)

lemma prefixed_name_valid:
  assumes "length h = 16" "list_all name_end h" "p \<noteq> []" "name_end (hd p)" "length p \<le> 40"
    and "list_all (\<lambda>c. name_end c \<or> c = CHR ''-'') p"
  shows "validName (p @ h)"
proof -
  have "h \<noteq> []" using assms(1) by auto
  moreover from this have "name_end (last h)"
    using assms(2) by (simp add: list_all_iff)
  ultimately show ?thesis
    using assms by (auto simp: validName_def namePattern_def list_all_iff)
qed

lemma deploymentName_valid: "validName (deploymentName project branch)"
proof -
  note h = hash_suffix [OF refl, of "project @ ''/'' @ branch"]
  show ?thesis
    unfolding deploymentName_def
    by (rule prefixed_name_valid) (use h in \<open>simp_all add: name_end_def is_lower_def\<close>)
qed

lemma tlsSecretName_valid: "validName (tlsSecretName domain)"
proof -
  note h = hash_suffix [OF refl, of domain]
  show ?thesis
    unfolding tlsSecretName_def
    by (rule prefixed_name_valid) (use h in \<open>simp_all add: name_end_def is_lower_def\<close>)
qed

section \<open>Facts about the manifest\<close>

abbreviation newline :: char where "newline \<equiv> CHR 0x0A"

lemma split_unlines:
  "(\<forall>l\<in>set ls. newline \<notin> set l) \<Longrightarrow> split_on newline (unlines ls) = ls @ [[]]"
  by (induction ls) (auto simp: unlines_def split_on_sep)

lemma quote_no_newline: "newline \<notin> set (Quote s)"
proof -
  have h: "hex_digit d \<noteq> newline" if "d < 16" for d
    using hex_digit_is_hex [OF that] by (auto simp: is_hex_def is_digit_def)
  have "byte c div 16 < (16 :: nat)" for c
    using of_char_of_256 [of c] by (simp add: less_mult_imp_div_less)
  then have "newline \<notin> set (quote_char c)" for c
    using h [of "byte c div 16"] h [of "byte c mod 16"] by (auto simp: quote_char_def)
  then show ?thesis
    by (auto simp: Quote_def)
qed

lemma valid_no_newline: "validName n \<Longrightarrow> newline \<notin> set n"
  by (auto simp: validName_def namePattern_def list_all_iff name_end_def is_lower_def is_digit_def)

lemma Itoa_no_newline: "newline \<notin> set (Itoa i)"
  using nat_digits_facts [of "nat i"] nat_digits_facts [of "nat (- i)"]
  by (auto simp: Itoa_def list_all_iff is_digit_def)

text \<open>A YAML double-quoted scalar with the two escapes that printable text needs, read back.\<close>

fun yaml_scalar :: "string \<Rightarrow> string option" where
  "yaml_scalar [] = None"
| "yaml_scalar [c] = (if c = CHR 0x22 then Some [] else None)"
| "yaml_scalar (c # d # s) =
     (if c = CHR 0x22 then None
      else if c = CHR 0x5C then
        (if d = CHR 0x22 \<or> d = CHR 0x5C then map_option ((#) d) (yaml_scalar s) else None)
      else map_option ((#) c) (yaml_scalar (d # s)))"

definition read_scalar :: "string \<Rightarrow> string option" where
  "read_scalar s = (if s \<noteq> [] \<and> hd s = CHR 0x22 then yaml_scalar (tl s) else None)"

lemma yaml_scalar_char:
  assumes "0x20 \<le> byte c \<and> byte c \<le> (0x7e :: nat)" and "r \<noteq> []"
  shows "yaml_scalar (quote_char c @ r) = map_option ((#) c) (yaml_scalar r)"
proof (cases "c = CHR 0x22 \<or> c = CHR 0x5C")
  case True
  then show ?thesis by (auto simp: quote_char_def)
next
  case False
  moreover have "c \<noteq> CHR 0x07" "c \<noteq> CHR 0x08" "c \<noteq> CHR 0x09" "c \<noteq> CHR 0x0A" "c \<noteq> CHR 0x0B"
      "c \<noteq> CHR 0x0C" "c \<noteq> CHR 0x0D" "\<not> byte c < (0x20 :: nat)" "byte c \<noteq> (0x7F :: nat)"
    using assms(1) by auto
  ultimately have "quote_char c = [c]"
    by (simp only: quote_char_def) simp
  moreover obtain d t where "r = d # t"
    using assms(2) by (cases r) simp_all
  ultimately show ?thesis
    using False by simp
qed

lemma yaml_scalar_quote:
  "printableASCII v \<Longrightarrow> yaml_scalar (concat (map quote_char v) @ [CHR 0x22]) = Some v"
  by (induction v) (simp_all add: printableASCII_def yaml_scalar_char)

lemma read_quote: "printableASCII v \<Longrightarrow> read_scalar (quoteYAML v) = Some v"
  by (simp add: read_scalar_def quoteYAML_def Quote_def yaml_scalar_quote)

end
