(* ===== verification/Compose_Provider.thy ===== *)
theory Compose_Provider
  imports Event_Payload Sha256 Go_Text Domain_Normalize
begin

text \<open>
  \<open>providers/deploy/compose\<close>: environments as docker compose projects on a host reached over
  SSH. Dialling the host and running a command in a session are arguments.
\<close>

section \<open>The provider\<close>

record 'w Compose =
  co_runner :: "string \<Rightarrow> ('w, string \<times> error option) state"
  co_composeFile :: string
  co_dnsTarget :: string
  co_certificateDir :: string

text \<open>\<open>sshRunner.Run\<close>: a connection, a session and one command; both are closed on the way out.\<close>

record ('w, 'c, 's) ssh =
  ssh_dial :: "string \<Rightarrow> ('w, error + 'c) state"
  ssh_NewSession :: "'c \<Rightarrow> ('w, error + 's) state"
  ssh_CombinedOutput :: "'s \<Rightarrow> string \<Rightarrow> ('w, string \<times> error option) state"
  ssh_CloseSession :: "'s \<Rightarrow> ('w, unit) state"
  ssh_CloseClient :: "'c \<Rightarrow> ('w, unit) state"

definition sshRunner_Run :: "('w, 'c, 's) ssh \<Rightarrow> string \<Rightarrow> string \<Rightarrow> ('w, string \<times> error option) state" where
  "sshRunner_Run ssh addr command =
     on_err (ssh_dial ssh addr)
       (\<lambda>err. ret ([], Some (wrapf (''dialing '' @ addr @ '': '') err)))
       (\<lambda>client.
          on_err (ssh_NewSession ssh client)
            (\<lambda>err. do { ssh_CloseClient ssh client; ret ([], Some (wrapf ''opening session: '' err)) })
            (\<lambda>session. do {
               (out, err) \<leftarrow> ssh_CombinedOutput ssh session command;
               ssh_CloseSession ssh session;
               ssh_CloseClient ssh client;
               ret (out, map_option (\<lambda>e. Wrap ''running command: '' e ('': '' @ out)) err) }))"

definition Compose_New :: "('w, 'c, 's) ssh \<Rightarrow> string \<Rightarrow> string \<Rightarrow> string \<Rightarrow> 'w Compose" where
  "Compose_New ssh addr composeFile dnsTarget =
     \<lparr>co_runner = sshRunner_Run ssh addr, co_composeFile = composeFile, co_dnsTarget = dnsTarget, co_certificateDir = []\<rparr>"

definition SetCertificateDir :: "string \<Rightarrow> 'w Compose \<Rightarrow> 'w Compose" where
  "SetCertificateDir dir p = p\<lparr>co_certificateDir := dir\<rparr>"

section \<open>Commands\<close>

abbreviation quote_mark :: char where "quote_mark \<equiv> CHR 0x27"
abbreviation double_mark :: char where "double_mark \<equiv> CHR 0x22"

definition shellQuote :: "string \<Rightarrow> string" where
  "shellQuote s =
     [quote_mark]
     @ ReplaceAll s [quote_mark] [quote_mark, double_mark, quote_mark, double_mark, quote_mark]
     @ [quote_mark]"

definition projectName :: "string \<Rightarrow> string \<Rightarrow> string" where
  "projectName project branch =
     ''ramify-'' @ Normalize (project @ ''-'' @ branch) (63 - int (length ''ramify-''))"

definition apply_command :: "'w Compose \<Rightarrow> string \<Rightarrow> string \<Rightarrow> string" where
  "apply_command p artifact name =
     ''IMAGE_TAG='' @ shellQuote artifact @ '' COMPOSE_PROJECT_NAME='' @ shellQuote name
     @ '' docker compose -f '' @ shellQuote (co_composeFile p) @ '' up -d''"

text \<open>\<open>docker compose -p ref -f file verb\<close>, the command of every other operation.\<close>

definition project_command :: "'w Compose \<Rightarrow> string \<Rightarrow> string \<Rightarrow> string" where
  "project_command p ref verb =
     ''docker compose -p '' @ shellQuote ref @ '' -f '' @ shellQuote (co_composeFile p) @ '' '' @ verb"

definition run_remote :: "'w Compose \<Rightarrow> string \<Rightarrow> string \<Rightarrow> ('w, error option) state" where
  "run_remote p command what =
     do { (out, err) \<leftarrow> co_runner p command; ret (map_option (wrapf (''compose: '' @ what @ '': '')) err) }"

section \<open>The operations\<close>

definition Compose_Apply :: "'w Compose \<Rightarrow> EnvSpec \<Rightarrow> ('w, error + Deployment) state" where
  "Compose_Apply p spec =
     (let name = (if sp_PreviousRef spec \<noteq> [] then sp_PreviousRef spec
                  else projectName (sp_Project spec) (sp_Branch spec))
      in if_err (run_remote p (apply_command p (sp_ArtifactRef spec) name) (''apply '' @ name))
           (\<lambda>err. ret (Inl err))
           (ret (Inr \<lparr>dep_Ref = name, dep_InternalAddr = co_dnsTarget p\<rparr>)))"

definition Compose_Sleep :: "'w Compose \<Rightarrow> string \<Rightarrow> ('w, error option) state" where
  "Compose_Sleep p ref = run_remote p (project_command p ref ''stop'') (''sleep '' @ ref)"

definition Compose_Wake :: "'w Compose \<Rightarrow> string \<Rightarrow> ('w, error option) state" where
  "Compose_Wake p ref = run_remote p (project_command p ref ''start'') (''wake '' @ ref)"

definition Compose_Destroy :: "'w Compose \<Rightarrow> string \<Rightarrow> ('w, error option) state" where
  "Compose_Destroy p ref = run_remote p (project_command p ref ''down --volumes --remove-orphans'') (''destroy '' @ ref)"

definition Compose_HealthCheck :: "'w Compose \<Rightarrow> string \<Rightarrow> ('w, error + Status) state" where
  "Compose_HealthCheck p ref =
     do { (out, err) \<leftarrow> co_runner p (project_command p ref ''ps --status running -q'');
          ret (case err of
                 Some e \<Rightarrow> Inl (wrapf (''compose: health check '' @ ref @ '': '') e)
               | None \<Rightarrow>
                   if TrimSpace out = [] then Inr \<lparr>st_Healthy = False, st_Detail = ''no running containers''\<rparr>
                   else Inr \<lparr>st_Healthy = True, st_Detail = ''running''\<rparr>) }"

definition Compose_Logs :: "'w Compose \<Rightarrow> string \<Rightarrow> ('w, error + string) state" where
  "Compose_Logs p ref =
     do { (out, err) \<leftarrow> co_runner p (project_command p ref ''logs --no-color --tail=500'');
          ret (case err of Some e \<Rightarrow> Inl (wrapf (''compose: logs '' @ ref @ '': '') e) | None \<Rightarrow> Inr out) }"

text \<open>The remote files of a domain: the stem is a hash of it.\<close>

definition certificate_path :: "'w Compose \<Rightarrow> string \<Rightarrow> string \<Rightarrow> string" where
  "certificate_path p domain ext = co_certificateDir p @ ''/'' @ EncodeToString (Sum256 domain) @ ext"

definition write_file :: "string \<Rightarrow> string \<Rightarrow> string" where
  "write_file payload path =
     ''printf '' @ [quote_mark] @ ''%s'' @ [quote_mark] @ '' '' @ shellQuote (base64 payload)
     @ '' | base64 -d > '' @ shellQuote path"

definition install_command :: "'w Compose \<Rightarrow> string \<Rightarrow> bytes \<Rightarrow> bytes \<Rightarrow> string" where
  "install_command p domain certificatePEM privateKeyPEM =
     (let certPath = certificate_path p domain ''.crt''; keyPath = certificate_path p domain ''.key''
      in ''mkdir -p '' @ shellQuote (co_certificateDir p) @ '' && '' @ write_file certificatePEM certPath
         @ '' && '' @ write_file privateKeyPEM keyPath
         @ '' && chmod 0644 '' @ shellQuote certPath @ '' && chmod 0600 '' @ shellQuote keyPath)"

definition no_certificate_dir :: error where
  "no_certificate_dir = Opaque ''compose: certificate directory is not configured''"

definition Compose_InstallCertificate :: "'w Compose \<Rightarrow> string \<Rightarrow> bytes \<Rightarrow> bytes \<Rightarrow> ('w, error option) state" where
  "Compose_InstallCertificate p domain certificatePEM privateKeyPEM =
     (if co_certificateDir p = [] then ret (Some no_certificate_dir)
      else run_remote p (install_command p domain certificatePEM privateKeyPEM) (''install certificate '' @ domain))"

definition Compose_RemoveCertificate :: "'w Compose \<Rightarrow> string \<Rightarrow> ('w, error option) state" where
  "Compose_RemoveCertificate p domain =
     (if co_certificateDir p = [] then ret (Some no_certificate_dir)
      else run_remote p
             (''rm -f '' @ shellQuote (certificate_path p domain ''.crt'') @ '' '' @ shellQuote (certificate_path p domain ''.key''))
             (''remove certificate '' @ domain))"

definition compose_provider :: "'w Compose \<Rightarrow> 'w DeployProvider" where
  "compose_provider p =
     \<lparr>dp_Apply = Compose_Apply p, dp_Sleep = Compose_Sleep p, dp_Wake = Compose_Wake p,
      dp_Destroy = Compose_Destroy p, dp_HealthCheck = Compose_HealthCheck p,
      dp_CertificateInstaller = Some (Compose_InstallCertificate p),
      dp_CertificateRemover = Some (Compose_RemoveCertificate p), dp_LogFetcher = Some (Compose_Logs p)\<rparr>"

section \<open>How a shell reads a command\<close>

text \<open>
  What is relied on of the remote shell, as POSIX documents it (Shell Command Language, 2.2 and
  2.3): \<open>word\<close> reads one word from the front of a command line and returns its value and the
  rest. A blank ends a word; text in single quotes stands for itself; so does text in double
  quotes that holds no double quote, dollar, backquote or backslash; and so do letters, digits
  and the marks that the commands use outside quotes.
\<close>

type_synonym word_reader = "string \<Rightarrow> (string \<times> string) option"

definition plain_char :: "char \<Rightarrow> bool" where
  "plain_char c \<longleftrightarrow> is_digit c \<or> is_lower c \<or> is_upper c \<or> c \<in> {CHR ''_'', CHR ''-'', CHR ''.'', CHR ''/'', CHR ''='', CHR '':''}"

definition double_safe :: "char \<Rightarrow> bool" where
  "double_safe c \<longleftrightarrow> c \<noteq> double_mark \<and> c \<noteq> CHR 0x24 \<and> c \<noteq> CHR 0x60 \<and> c \<noteq> CHR 0x5C"

definition shell_law :: "word_reader \<Rightarrow> bool" where
  "shell_law word \<longleftrightarrow>
     word [] = Some ([], [])
     \<and> (\<forall>r. word (CHR '' '' # r) = Some ([], CHR '' '' # r))
     \<and> (\<forall>c r. plain_char c \<longrightarrow> word (c # r) = prepend [c] (word r))
     \<and> (\<forall>s r. quote_mark \<notin> set s \<longrightarrow> word (quote_mark # s @ quote_mark # r) = prepend s (word r))
     \<and> (\<forall>s r. list_all double_safe s \<longrightarrow> word (double_mark # s @ double_mark # r) = prepend s (word r))"

text \<open>The words of a command line whose words are separated by single blanks.\<close>

fun shell_words :: "nat \<Rightarrow> word_reader \<Rightarrow> string \<Rightarrow> string list option" where
  "shell_words 0 word s = None"
| "shell_words (Suc n) word s =
     (case word s of
        None \<Rightarrow> None
      | Some (w, []) \<Rightarrow> Some [w]
      | Some (w, c # r) \<Rightarrow> if c = CHR '' '' then map_option ((#) w) (shell_words n word r) else None)"

lemma prepend_prepend [simp]: "prepend a (prepend b r) = prepend (a @ b) r"
  by (cases r) (auto simp: prepend_def)

lemma prepend_Nil [simp]: "prepend [] r = r"
  by (cases r) (auto simp: prepend_def)

lemma word_quoted_prefix:
  assumes "shell_law word" and "quote_mark \<notin> set p"
  shows "word (quote_mark # p @ ReplaceAll s [quote_mark] [quote_mark, double_mark, quote_mark, double_mark, quote_mark]
      @ quote_mark # r) = prepend (p @ s) (word r)"
  using assms(2)
proof (induction s arbitrary: p)
  case Nil
  then show ?case
    using assms(1) by (simp add: shell_law_def)
next
  case (Cons c s)
  let ?tail = "ReplaceAll s [quote_mark] [quote_mark, double_mark, quote_mark, double_mark, quote_mark] @ quote_mark # r"
  show ?case
  proof (cases "c = quote_mark")
    case True
    have d: "word (double_mark # [quote_mark] @ double_mark # x) = prepend [quote_mark] (word x)" for x
    proof -
      have "list_all double_safe [quote_mark]"
        by (simp add: double_safe_def)
      then show ?thesis
        using assms(1) unfolding shell_law_def by blast
    qed
    have q: "word (quote_mark # p @ quote_mark # x) = prepend p (word x)" for x
      using assms(1) Cons.prems unfolding shell_law_def by blast
    have "word (quote_mark # p @ quote_mark # double_mark # [quote_mark] @ double_mark # quote_mark # ?tail)
        = prepend p (prepend [quote_mark] (word (quote_mark # ?tail)))"
      by (simp only: q d)
    also have "word (quote_mark # ?tail) = prepend s (word r)"
      using Cons.IH [of "[]"] by simp
    finally show ?thesis
      using True by (simp add: HasPrefix_def)
  next
    case False
    with Cons.IH [of "p @ [c]"] Cons.prems show ?thesis
      by (simp add: HasPrefix_def)
  qed
qed

lemma word_shellQuote:
  assumes "shell_law word"
  shows "word (shellQuote s @ r) = prepend s (word r)"
  using word_quoted_prefix [OF assms, of "[]" s r] by (simp add: shellQuote_def)

lemma word_plain:
  assumes "shell_law word" and "list_all plain_char s"
  shows "word (s @ r) = prepend s (word r)"
  using assms(2)
proof (induction s)
  case (Cons c s)
  then have "word (c # s @ r) = prepend [c] (word (s @ r))"
    using assms(1) by (simp add: shell_law_def)
  with Cons show ?case by simp
qed simp

end
