(* ===== verification/Deploy_Theorems.thy ===== *)
theory Deploy_Theorems
  imports Kubernetes_Provider Compose_Provider
begin

text \<open>
  What the two deploy providers promise: what reaches kubectl and the remote shell is well
  formed whatever the branch, the artifact or a stored reference is, and an update goes to the
  deployment it was given.
\<close>

section \<open>Words of the compose commands\<close>

abbreviation blank :: char where "blank \<equiv> CHR '' ''"

lemma word_blank: "shell_law word \<Longrightarrow> word (blank # r) = Some ([], blank # r)"
  by (simp add: shell_law_def)

lemma word_end: "shell_law word \<Longrightarrow> word [] = Some ([], [])"
  by (simp add: shell_law_def)

text \<open>An argument: a plain text, followed by a quoted one or by nothing.\<close>

type_synonym argument = "string \<times> string option"

definition render :: "argument \<Rightarrow> string" where
  "render a = fst a @ (case snd a of None \<Rightarrow> [] | Some x \<Rightarrow> shellQuote x)"

definition meant :: "argument \<Rightarrow> string" where
  "meant a = fst a @ (case snd a of None \<Rightarrow> [] | Some x \<Rightarrow> x)"

lemma word_render:
  assumes "shell_law word" "list_all plain_char (fst a)"
  shows "word (render a @ r) = prepend (meant a) (word r)"
  by (cases "snd a") (simp_all add: render_def meant_def word_plain [OF assms] word_shellQuote [OF assms(1)])

lemma words_of_command:
  assumes "shell_law word" "\<forall>a\<in>set args. list_all plain_char (fst a)" "args \<noteq> []" "length args \<le> n"
  shows "shell_words n word (strings_Join (map render args) [blank]) = Some (map meant args)"
  using assms(2-)
proof (induction args arbitrary: n)
  case (Cons a args)
  obtain m where n: "n = Suc m"
    using Cons.prems(3) by (cases n) auto
  note w = word_render [OF assms(1), of a]
  show ?case
  proof (cases args)
    case Nil
    have "word (render a) = Some (meant a, [])"
      using w [of "[]"] Cons.prems(1) by (simp add: word_end [OF assms(1)] prepend_def)
    with Nil n show ?thesis by simp
  next
    case (Cons b bs)
    have "word (render a @ blank # r) = Some (meant a, blank # r)" for r
      using w [of "blank # r"] Cons.prems(1) by (simp add: word_blank [OF assms(1)] prepend_def)
    moreover have "shell_words m word (strings_Join (map render args) [blank]) = Some (map meant args)"
      using Cons.IH [of m] Cons.prems n Cons by simp
    ultimately show ?thesis
      using n Cons by simp
  qed
qed simp

lemma apply_command_words:
  assumes "shell_law word"
  shows "shell_words 8 word (apply_command p artifact name) =
    Some [''IMAGE_TAG='' @ artifact, ''COMPOSE_PROJECT_NAME='' @ name, ''docker'', ''compose'', ''-f'', co_composeFile p,
          ''up'', ''-d'']"
proof -
  let ?args = "[(''IMAGE_TAG='', Some artifact), (''COMPOSE_PROJECT_NAME='', Some name), (''docker'', None), (''compose'', None),
    (''-f'', None), ([], Some (co_composeFile p)), (''up'', None), (''-d'', None)]"
  have "apply_command p artifact name = strings_Join (map render ?args) [blank]"
    by (simp add: apply_command_def render_def)
  moreover have "\<forall>a\<in>set ?args. list_all plain_char (fst a)"
    by (simp add: plain_char_def is_upper_def is_lower_def is_digit_def)
  ultimately show ?thesis
    using words_of_command [OF assms, of ?args 8] by (simp add: meant_def)
qed

lemma project_command_words:
  assumes "shell_law word" "\<forall>v\<in>set verb. list_all plain_char v" "verb \<noteq> []" "6 + length verb \<le> n"
  shows "shell_words n word (project_command p ref (strings_Join verb [blank])) =
    Some ([''docker'', ''compose'', ''-p'', ref, ''-f'', co_composeFile p] @ verb)"
proof -
  let ?args = "[(''docker'', None), (''compose'', None), (''-p'', None), ([], Some ref), (''-f'', None),
    ([], Some (co_composeFile p))] @ map (\<lambda>v. (v, None)) verb"
  have r: "map (\<lambda>v. render (v, None)) verb = verb" "map (\<lambda>v. meant (v, None)) verb = verb"
    by (simp_all add: render_def meant_def)
  have "project_command p ref (strings_Join verb [blank]) = strings_Join (map render ?args) [blank]"
    using assms(3) by (cases verb) (simp_all add: project_command_def render_def o_def)
  moreover have "list_all plain_char ''docker''" "list_all plain_char ''compose''" "list_all plain_char ''-p''"
      "list_all plain_char ''-f''"
    by (simp_all add: plain_char_def is_upper_def is_lower_def is_digit_def)
  then have "\<forall>a\<in>set ?args. list_all plain_char (fst a)"
    using assms(2) by auto
  ultimately show ?thesis
    using words_of_command [OF assms(1), of ?args n] assms(4) by (simp add: meant_def o_def)
qed

lemma project_words:
  assumes "shell_law word"
  shows "shell_words 9 word (project_command p ref ''stop'') =
      Some ([''docker'', ''compose'', ''-p'', ref, ''-f'', co_composeFile p] @ [''stop''])"
    and "shell_words 9 word (project_command p ref ''start'') =
      Some ([''docker'', ''compose'', ''-p'', ref, ''-f'', co_composeFile p] @ [''start''])"
    and "shell_words 9 word (project_command p ref ''down --volumes --remove-orphans'') =
      Some ([''docker'', ''compose'', ''-p'', ref, ''-f'', co_composeFile p] @ [''down'', ''--volumes'', ''--remove-orphans''])"
proof -
  note w = project_command_words [OF assms, where p = p and ref = ref and n = 9]
  have plain: "\<forall>v\<in>set verb. list_all plain_char v"
    if "verb \<in> {[''stop''], [''start''], [''down'', ''--volumes'', ''--remove-orphans'']}" for verb
    using that by (auto simp: plain_char_def is_upper_def is_lower_def is_digit_def)
  show "shell_words 9 word (project_command p ref ''stop'') =
      Some ([''docker'', ''compose'', ''-p'', ref, ''-f'', co_composeFile p] @ [''stop''])"
    using w [OF plain, of "[''stop'']"] by simp
  show "shell_words 9 word (project_command p ref ''start'') =
      Some ([''docker'', ''compose'', ''-p'', ref, ''-f'', co_composeFile p] @ [''start''])"
    using w [OF plain, of "[''start'']"] by simp
  show "shell_words 9 word (project_command p ref ''down --volumes --remove-orphans'') =
      Some ([''docker'', ''compose'', ''-p'', ref, ''-f'', co_composeFile p] @ [''down'', ''--volumes'', ''--remove-orphans''])"
    using w [OF plain, of "[''down'', ''--volumes'', ''--remove-orphans'']"] by simp
qed

section \<open>The lines of a manifest\<close>

definition manifest_lines :: "'w Kubernetes \<Rightarrow> string \<Rightarrow> EnvSpec \<Rightarrow> string list" where
  "manifest_lines p name spec =
     deployment_lines p name spec @ service_lines p name @ ingress_lines p name (hostName (sp_Subdomain spec) (ku_baseDomain p))"

lemma manifest_shape:
  assumes "validName name" and "printableASCII (sp_ArtifactRef spec)"
  shows "split_on newline (manifest p name spec) = manifest_lines p name spec @ [[]]"
    and "length (manifest_lines p name spec) = (if ku_ingressClass p = [] then 63 else 64)"
    and "HasPrefix (manifest_lines p name spec ! 19) ''        image: ''"
    and "read_scalar (TrimPrefix (manifest_lines p name spec ! 19) ''        image: '') = Some (sp_ArtifactRef spec)"
proof -
  have "\<forall>l\<in>set (manifest_lines p name spec). newline \<notin> set l"
    using valid_no_newline [OF assms(1)] valid_no_newline [OF tlsSecretName_valid]
    by (simp add: manifest_lines_def deployment_lines_def service_lines_def ingress_lines_def quoteYAML_def
        quote_no_newline Itoa_no_newline)
  then show "split_on newline (manifest p name spec) = manifest_lines p name spec @ [[]]"
    by (simp add: manifest_def manifest_lines_def Let_def split_unlines)
  show "length (manifest_lines p name spec) = (if ku_ingressClass p = [] then 63 else 64)"
    by (simp add: manifest_lines_def deployment_lines_def service_lines_def ingress_lines_def)
  have image: "manifest_lines p name spec ! 19 = ''        image: '' @ quoteYAML (sp_ArtifactRef spec)"
    by (simp add: manifest_lines_def deployment_lines_def)
  show "HasPrefix (manifest_lines p name spec ! 19) ''        image: ''"
    by (simp only: image HasPrefix_append)
  show "read_scalar (TrimPrefix (manifest_lines p name spec ! 19) ''        image: '') = Some (sp_ArtifactRef spec)"
    by (simp only: image TrimPrefix_append read_quote [OF assms(2)])
qed

lemma kubernetes_apply_refused:
  assumes "sp_PreviousRef spec \<noteq> [] \<and> \<not> validName (sp_PreviousRef spec) \<or> \<not> printableASCII (sp_ArtifactRef spec)
    \<or> \<not> printableASCII (hostName (sp_Subdomain spec) (ku_baseDomain p))"
  shows "\<exists>e. IsTerminal (Some e) \<and> run_state (Kubernetes_Apply p spec) w = (Inl e, w)"
  using assms by (auto simp: Kubernetes_Apply_def Let_def)

section \<open>Properties\<close>


text \<open>
  C35: a reference that is no object name never reaches kubectl: every operation on it fails for
  good without running a command. What \<open>Apply\<close> does run is one \<open>kubectl apply\<close> on a valid name
  whose manifest has a fixed number of lines, with the artifact as the one scalar of its image
  line, so no artifact, branch or subdomain can add a key to it.
\<close>

theorem kubernetes_manifest_is_fixed:
  "(\<not> validName ref \<longrightarrow>
      (\<exists>e. IsTerminal (Some e) \<and> run_state (Kubernetes_Destroy p ref) w = (Some e, w))
      \<and> (\<exists>e. IsTerminal (Some e) \<and> run_state (Kubernetes_Sleep p ref) w = (Some e, w))
      \<and> (\<exists>e. IsTerminal (Some e) \<and> run_state (Kubernetes_Wake p ref) w = (Some e, w))
      \<and> (\<exists>e. IsTerminal (Some e) \<and> run_state (Kubernetes_HealthCheck p ref) w = (Inl e, w))
      \<and> (\<exists>e. IsTerminal (Some e) \<and> run_state (Kubernetes_Logs p ref) w = (Inl e, w)))
   \<and> ((\<exists>e. IsTerminal (Some e) \<and> run_state (Kubernetes_Apply p spec) w = (Inl e, w))
      \<or> (\<exists>name lines. validName name
          \<and> run_state (Kubernetes_Apply p spec) w =
              (case run_state (ku_runner p [''apply'', ''-n'', ku_namespace p, ''-f'', ''-''] (manifest p name spec)) w of
                 ((out, None), w') \<Rightarrow> (Inr \<lparr>dep_Ref = name, dep_InternalAddr = ku_dnsTarget p\<rparr>, w')
               | ((out, Some e), w') \<Rightarrow> (Inl (wrapf (''kubernetes: apply '' @ name @ '': '') e), w'))
          \<and> split_on newline (manifest p name spec) = lines @ [[]]
          \<and> length lines = (if ku_ingressClass p = [] then 63 else 64)
          \<and> HasPrefix (lines ! 19) ''        image: ''
          \<and> read_scalar (TrimPrefix (lines ! 19) ''        image: '') = Some (sp_ArtifactRef spec)))" (is "?refs \<and> ?apply")
proof
  have t: "IsTerminal (Some (invalid_ref operation ref))" for operation
    by (simp add: invalid_ref_def)
  then show ?refs
    by (auto simp: Kubernetes_Destroy_def Kubernetes_Sleep_def Kubernetes_Wake_def Kubernetes_HealthCheck_def
        Kubernetes_Logs_def scale_def)
  show ?apply
  proof (cases "\<exists>e. IsTerminal (Some e) \<and> run_state (Kubernetes_Apply p spec) w = (Inl e, w)")
    case False
    let ?host = "hostName (sp_Subdomain spec) (ku_baseDomain p)"
    let ?name = "if sp_PreviousRef spec \<noteq> [] then sp_PreviousRef spec else deploymentName (sp_Project spec) (sp_Branch spec)"
    have ok: "sp_PreviousRef spec = [] \<or> validName (sp_PreviousRef spec)"
        "printableASCII (sp_ArtifactRef spec)" "printableASCII ?host"
      using False kubernetes_apply_refused [of spec p w] by blast+
    then have name: "validName ?name"
      by (auto simp: deploymentName_valid)
    show ?thesis
      using ok name manifest_shape [OF name, of spec p]
      by (intro disjI2 exI [of _ ?name] exI [of _ "manifest_lines p ?name spec"])
        (auto simp: Kubernetes_Apply_def Let_def run_kubectl_def run_if_err split: prod.splits option.splits)
  qed simp
qed

text \<open>
  An update goes to the deployment it was given. With the reference an \<open>Apply\<close> returned as
  the previous one, the same specification is the same call again, and a new artifact, when it is
  applied, gives the same deployment back rather than a second one. This holds of both providers.
\<close>

theorem deploy_updates_in_place:
  assumes "pr = kubernetes_provider k \<or> pr = compose_provider c"
    and "run_state (dp_Apply pr spec) w = (Inr d, w')"
  shows "dp_Apply pr (spec\<lparr>sp_PreviousRef := dep_Ref d\<rparr>) = dp_Apply pr spec
    \<and> (\<forall>a v d2 v'. run_state (dp_Apply pr (spec\<lparr>sp_PreviousRef := dep_Ref d, sp_ArtifactRef := a\<rparr>)) v = (Inr d2, v')
        \<longrightarrow> d2 = d)"
  using assms(1)
proof
  assume k: "pr = kubernetes_provider k"
  let ?name = "if sp_PreviousRef spec \<noteq> [] then sp_PreviousRef spec else deploymentName (sp_Project spec) (sp_Branch spec)"
  have a: "run_state (Kubernetes_Apply k spec) w = (Inr d, w')"
    using assms(2) k by (simp add: kubernetes_provider_def)
  have d: "d = \<lparr>dep_Ref = ?name, dep_InternalAddr = ku_dnsTarget k\<rparr>"
    using a by (auto simp: Kubernetes_Apply_def Let_def run_if_err split: if_splits prod.splits option.splits)
  have "\<not> (sp_PreviousRef spec \<noteq> [] \<and> \<not> validName (sp_PreviousRef spec))"
    using a kubernetes_apply_refused [of spec k w] by auto
  then have v: "validName ?name" "?name \<noteq> []"
    using deploymentName_valid [of "sp_Project spec" "sp_Branch spec"] by (auto simp: validName_def)
  have m: "manifest k n (spec\<lparr>sp_PreviousRef := r\<rparr>) = manifest k n spec" for n r
    by (simp add: manifest_def deployment_lines_def)
  show ?thesis
    using v by (auto simp: k kubernetes_provider_def d Kubernetes_Apply_def Let_def m run_if_err
        split: if_splits prod.splits option.splits)
next
  assume c: "pr = compose_provider c"
  let ?name = "if sp_PreviousRef spec \<noteq> [] then sp_PreviousRef spec else projectName (sp_Project spec) (sp_Branch spec)"
  have d: "d = \<lparr>dep_Ref = ?name, dep_InternalAddr = co_dnsTarget c\<rparr>"
    using assms(2) c
    by (auto simp: compose_provider_def Compose_Apply_def Let_def run_if_err split: prod.splits option.splits)
  have "projectName (sp_Project spec) (sp_Branch spec) \<noteq> []"
    by (simp add: projectName_def)
  then show ?thesis
    by (auto simp: c compose_provider_def d Compose_Apply_def Let_def run_if_err split: prod.splits option.splits)
qed

section \<open>Witnesses\<close>

text \<open>A shell that obeys the law.\<close>

function sh_word :: word_reader where
  "sh_word [] = Some ([], [])"
| "sh_word (c # s) =
     (if c = blank then Some ([], c # s)
      else if c = quote_mark \<or> c = double_mark then
        (if c \<in> set s then prepend (takeWhile (\<lambda>x. x \<noteq> c) s) (sh_word (tl (dropWhile (\<lambda>x. x \<noteq> c) s))) else None)
      else if plain_char c then prepend [c] (sh_word s)
      else None)"
  by pat_completeness auto
termination
proof (relation "measure length")
  fix c :: char and s :: string
  have "length (tl (dropWhile (\<lambda>x. x \<noteq> c) s)) \<le> length s"
    using length_dropWhile_le [of "\<lambda>x. x \<noteq> c" s] by simp
  then show "(tl (dropWhile (\<lambda>x. x \<noteq> c) s), c # s) \<in> measure length"
    by simp
qed simp_all

lemma take_drop_marked:
  "m \<notin> set s \<Longrightarrow> takeWhile (\<lambda>x. x \<noteq> m) (s @ m # r) = s \<and> dropWhile (\<lambda>x. x \<noteq> m) (s @ m # r) = m # r"
  by (induction s) auto

lemma sh_word_law: "shell_law sh_word"
  unfolding shell_law_def
proof (intro conjI allI impI)
  fix c r assume p: "plain_char c"
  have "c \<noteq> blank" "c \<noteq> quote_mark" "c \<noteq> double_mark"
    using p by (auto simp: plain_char_def is_upper_def is_lower_def is_digit_def)
  with p show "sh_word (c # r) = prepend [c] (sh_word r)" by simp
next
  fix s r assume "quote_mark \<notin> set s"
  then show "sh_word (quote_mark # s @ quote_mark # r) = prepend s (sh_word r)"
    using take_drop_marked [of quote_mark s r] by simp
next
  fix s r assume "list_all double_safe s"
  then have "double_mark \<notin> set s"
    by (auto simp: list_all_iff double_safe_def)
  then show "sh_word (double_mark # s @ double_mark # r) = prepend s (sh_word r)"
    using take_drop_marked [of double_mark s r] by simp
qed simp_all

definition ex_compose :: "unit Compose" where
  "ex_compose = \<lparr>co_runner = (\<lambda>cmd. ret ([], None)), co_composeFile = ''c.yml'', co_dnsTarget = ''t'', co_certificateDir = ''d''\<rparr>"

definition ex_kubernetes :: "unit Kubernetes" where
  "ex_kubernetes = NewWithRunner (\<lambda>args stdin. ret ([], None)) ''ns'' ''preview.dev'' ''t'' [] 0 0"

definition ex_spec :: EnvSpec where
  "ex_spec = \<lparr>sp_Project = ''p'', sp_Branch = ''b'', sp_Subdomain = ''b'', sp_ArtifactRef = ''v1; rm -rf /'', sp_PreviousRef = ''ramify-p-b''\<rparr>"


theorem kubernetes_manifest_is_fixed_witness:
  "\<exists>e. IsTerminal (Some e) \<and> run_state (Kubernetes_Destroy ex_kubernetes ''a b'') () = (Some e, ())"
proof -
  have "\<not> validName ''a b''"
    by (simp add: validName_def namePattern_def name_end_def is_lower_def is_digit_def)
  then show ?thesis
    using kubernetes_manifest_is_fixed [of "''a b''" ex_kubernetes "()" ex_spec] by blast
qed

theorem deploy_updates_in_place_witness:
  "dp_Apply (compose_provider ex_compose) (ex_spec\<lparr>sp_PreviousRef := ''ramify-p-b''\<rparr>)
    = dp_Apply (compose_provider ex_compose) ex_spec"
proof -
  have "run_state (dp_Apply (compose_provider ex_compose) ex_spec) ()
      = (Inr \<lparr>dep_Ref = ''ramify-p-b'', dep_InternalAddr = ''t''\<rparr>, ())"
    by (simp add: compose_provider_def Compose_Apply_def run_if_err run_remote_def ex_compose_def ex_spec_def)
  then show ?thesis
    using deploy_updates_in_place [of "compose_provider ex_compose" ex_kubernetes ex_compose ex_spec "()"] by auto
qed

end
