(* ===== verification/Program_Logic.thy ===== *)
theory Program_Logic
  imports Prelude
begin

text \<open>
  Weakest preconditions for the program monad: \<open>wp m Q s\<close> says that the run of \<open>m\<close> from \<open>s\<close> ends
  in a value and a state that satisfy \<open>Q\<close>. The equations of \<open>wp_simps\<close> take a program apart; a
  call of which only a contract is known is passed by \<open>wp_mono\<close>.
\<close>

named_theorems wp_simps \<open>equations that take a program apart\<close>

definition wp :: "('s, 'a) state \<Rightarrow> ('a \<Rightarrow> 's \<Rightarrow> bool) \<Rightarrow> 's \<Rightarrow> bool" where
  "wp m Q s \<longleftrightarrow> (case run_state m s of (a, s') \<Rightarrow> Q a s')"

lemma wpI: "(\<And>a s'. run_state m s = (a, s') \<Longrightarrow> Q a s') \<Longrightarrow> wp m Q s"
  by (cases "run_state m s") (simp add: wp_def)

lemma wpD: "wp m Q s \<Longrightarrow> run_state m s = (a, s') \<Longrightarrow> Q a s'"
  by (simp add: wp_def)

lemma wp_ret [wp_simps]: "wp (ret a) Q s = Q a s"
  by (simp add: wp_def)

lemma wp_bind [wp_simps]: "wp (State_Monad.bind m f) Q s = wp m (\<lambda>a. wp (f a) Q) s"
  by (simp add: wp_def split: prod.splits)

lemma wp_get_state [wp_simps]: "wp get_state Q s = Q s s"
  by (simp add: wp_def)

lemma wp_modify_state [wp_simps]: "wp (modify_state f) Q s = Q () (f s)"
  by (simp add: wp_def)

lemma wp_on_err [wp_simps]:
  "wp (on_err m h k) Q s = wp m (\<lambda>r. case r of Inl e \<Rightarrow> wp (h e) Q | Inr x \<Rightarrow> wp (k x) Q) s"
  by (simp add: wp_def run_on_err split: prod.splits sum.splits)

lemma wp_if_err [wp_simps]:
  "wp (if_err m h k) Q s = wp m (\<lambda>r. case r of Some e \<Rightarrow> wp (h e) Q | None \<Rightarrow> wp k Q) s"
  by (simp add: wp_def run_if_err split: prod.splits option.splits)

lemma wp_mono: "wp m R s \<Longrightarrow> (\<And>a s'. R a s' \<Longrightarrow> Q a s') \<Longrightarrow> wp m Q s"
  by (cases "run_state m s") (simp add: wp_def)

lemma wp_conj: "wp m (\<lambda>a s'. Q a s' \<and> R a s') s \<longleftrightarrow> wp m Q s \<and> wp m R s"
  by (cases "run_state m s") (simp add: wp_def)

text \<open>The same as rules, for a call of which only a contract is known.\<close>

lemma wp_on_errI:
  assumes "wp m R s" and "\<And>e s'. R (Inl e) s' \<Longrightarrow> wp (h e) Q s'" and "\<And>x s'. R (Inr x) s' \<Longrightarrow> wp (k x) Q s'"
  shows "wp (on_err m h k) Q s"
  unfolding wp_on_err by (rule wp_mono [OF assms(1)]) (use assms(2,3) in \<open>auto split: sum.splits\<close>)

lemma wp_if_errI:
  assumes "wp m R s" and "\<And>e s'. R (Some e) s' \<Longrightarrow> wp (h e) Q s'" and "\<And>s'. R None s' \<Longrightarrow> wp k Q s'"
  shows "wp (if_err m h k) Q s"
  unfolding wp_if_err by (rule wp_mono [OF assms(1)]) (use assms(2,3) in \<open>auto split: option.splits\<close>)

end
