(* ===== verification/Route53_Provider.thy ===== *)
theory Route53_Provider
  imports Program_Logic Provider_Api Go_Text
begin

text \<open>
  \<open>providers/dns/route53/route53.go\<close>: record sets with a TXT set at the same name that holds the
  ownership mark among its values. The AWS client is an argument.
\<close>

section \<open>Names and values\<close>

definition dns_fqdn :: "string \<Rightarrow> string" where
  "dns_fqdn s = TrimSuffix s ''.'' @ ''.''"

abbreviation dquote :: char where "dquote \<equiv> CHR 0x22"
abbreviation backslash :: char where "backslash \<equiv> CHR 0x5C"

definition txt_value :: "string \<Rightarrow> string" where
  "txt_value s = [dquote] @ ReplaceAll s [dquote] [backslash, dquote] @ [dquote]"

definition untxt :: "string \<Rightarrow> string" where
  "untxt s =
     (let t = (if length s \<ge> 2 \<and> HasPrefix s [dquote] \<and> HasSuffix s [dquote] then take (length s - 2) (drop 1 s) else s)
      in ReplaceAll t [backslash, dquote] [dquote])"

section \<open>The provider\<close>

record record_set =
  set_Name :: string
  set_Type :: string
  set_Records :: "string list"

text \<open>
  \<open>route53API\<close>. A listing starts at a name and type, or at the place the page before gave; its
  answer is the page and, when it is truncated, the next place. The last two fields are the errors of
  the SDK that \<open>errors.As\<close> finds.
\<close>

record ('w, 'start) route53API =
  r53_HostedZonesByName :: "string \<Rightarrow> ('w, error + (string \<times> string) list) state"
  r53_RecordSets :: "string \<Rightarrow> 'start option \<Rightarrow> ('w, error + record_set list \<times> 'start option) state"
  r53_StartAt :: "string \<Rightarrow> string \<Rightarrow> 'start"
  r53_Change :: "string \<Rightarrow> string \<Rightarrow> record_set \<Rightarrow> ('w, error option) state"
  r53_InvalidChangeBatch :: "error \<Rightarrow> bool"
  r53_NoSuchHostedZone :: "error \<Rightarrow> bool"

text \<open>\<open>r53_pages\<close> is no field of the Go struct: it bounds the pages \<open>allRecordSets\<close> walks.\<close>

record ('w, 'start) Route53 =
  r53_client :: "('w, 'start) route53API"
  r53_hostedZoneID :: string
  r53_pages :: nat

definition Route53_New :: "('w, 'start) route53API \<Rightarrow> string \<Rightarrow> nat \<Rightarrow> ('w, 'start) Route53" where
  "Route53_New client hostedZoneID pages =
     \<lparr>r53_client = client, r53_hostedZoneID = TrimPrefix hostedZoneID ''/hostedzone/'', r53_pages = pages\<rparr>"

definition Route53_NewFromConfig :: "error + ('w, 'start) route53API \<Rightarrow> string \<Rightarrow> nat \<Rightarrow> error + ('w, 'start) Route53" where
  "Route53_NewFromConfig loaded hostedZoneID pages =
     (case loaded of
        Inl err \<Rightarrow> Inl (wrapf ''route53: loading AWS config: '' err)
      | Inr c \<Rightarrow> Inr (Route53_New c hostedZoneID pages))"

definition r53_ErrOwnershipMismatch :: error where
  "r53_ErrOwnershipMismatch = PermanentError (Opaque ''route53: ownership tag mismatch'')"

definition r53_ErrUnmanagedRecord :: error where
  "r53_ErrUnmanagedRecord = PermanentError (Opaque ''route53: unmanaged record collision'')"

definition r53_zoneID :: "('w, 's) Route53 \<Rightarrow> string \<Rightarrow> ('w, error + string) state" where
  "r53_zoneID p zone =
     (if r53_hostedZoneID p \<noteq> [] then ret (Inr (r53_hostedZoneID p))
      else on_err (r53_HostedZonesByName (r53_client p) (dns_fqdn zone)) (\<lambda>err. ret (Inl err))
        (\<lambda>zones. ret
          (case List.find (\<lambda>(name, i). TrimSuffix name ''.'' = TrimSuffix zone ''.'') zones of
             Some (name, i) \<Rightarrow> Inr (TrimPrefix i ''/hostedzone/'')
           | None \<Rightarrow> Inl (Opaque (''hosted zone '' @ Quote zone @ '' not found'')))))"

definition r53_records ::
  "('w, 's) Route53 \<Rightarrow> string \<Rightarrow> string \<Rightarrow> string \<Rightarrow> ('w, error + string list) state" where
  "r53_records p zone name typ =
     on_err (r53_zoneID p zone) (\<lambda>err. ret (Inl err))
       (\<lambda>i. on_err (r53_RecordSets (r53_client p) i (Some (r53_StartAt (r53_client p) (dns_fqdn name) typ)))
          (\<lambda>err. ret (Inl err))
          (\<lambda>(sets, nxt). ret (Inr
            (case List.find (\<lambda>s. TrimSuffix (set_Name s) ''.'' = TrimSuffix name ''.'' \<and> set_Type s = typ) sets of
               Some s \<Rightarrow> set_Records s | None \<Rightarrow> []))))"

definition r53_change ::
  "('w, 's) Route53 \<Rightarrow> string \<Rightarrow> string \<Rightarrow> string \<Rightarrow> string \<Rightarrow> string list \<Rightarrow> ('w, error option) state" where
  "r53_change p zone action name typ values =
     on_err (r53_zoneID p zone) (\<lambda>err. ret (Some err))
       (\<lambda>i. r53_Change (r53_client p) i action \<lparr>set_Name = dns_fqdn name, set_Type = typ, set_Records = values\<rparr>)"

definition hasValue :: "string list \<Rightarrow> string \<Rightarrow> bool" where
  "hasValue rs v \<longleftrightarrow> list_ex (\<lambda>r. untxt r = v) rs"

definition isNotFound :: "('w, 's) route53API \<Rightarrow> error \<Rightarrow> bool" where
  "isNotFound c err = (if r53_InvalidChangeBatch c err then True else r53_NoSuchHostedZone c err)"

definition one_record :: "string \<Rightarrow> string \<Rightarrow> string" where
  "one_record v typ = (if typ = ''TXT'' then txt_value v else v)"

definition removeValue :: "string list \<Rightarrow> string \<Rightarrow> string list" where
  "removeValue rs v = filter (\<lambda>r. untxt r \<noteq> v) rs"

section \<open>The operations\<close>

definition r53_EnsureRecord :: "('w, 's) Route53 \<Rightarrow> PDNSRecord \<Rightarrow> ('w, error option) state" where
  "r53_EnsureRecord p rec =
     (if pr_Type rec \<noteq> ''A'' \<and> pr_Type rec \<noteq> ''CNAME'' \<and> pr_Type rec \<noteq> ''TXT'' then
        ret (Some (Opaque (''route53: unsupported record type '' @ pr_Type rec)))
      else on_err (r53_records p (pr_Zone rec) (pr_Name rec) (pr_Type rec))
        (\<lambda>err. ret (Some (wrapf (''route53: listing '' @ pr_Name rec @ '': '') err)))
        (\<lambda>values.
           if pr_Type rec = ''TXT'' then
             (if \<not> hasValue values (pr_Value rec) then
                r53_change p (pr_Zone rec) ''UPSERT'' (pr_Name rec) ''TXT'' (values @ [one_record (pr_Value rec) ''TXT''])
              else ret None)
           else on_err (r53_records p (pr_Zone rec) (pr_Name rec) ''TXT'') (\<lambda>err. ret (Some err))
             (\<lambda>owners.
                let owned = hasValue owners (pr_OwnershipTag rec)
                in if length values > 0 \<and> \<not> owned then
                     ret (Some (Wrap [] r53_ErrUnmanagedRecord ('': '' @ pr_Name rec)))
                   else if_err (r53_change p (pr_Zone rec) ''UPSERT'' (pr_Name rec) (pr_Type rec) [one_record (pr_Value rec) (pr_Type rec)])
                     (\<lambda>err. ret (Some (wrapf (''route53: upserting '' @ pr_Name rec @ '': '') err)))
                     (if \<not> owned then
                        r53_change p (pr_Zone rec) ''UPSERT'' (pr_Name rec) ''TXT'' (owners @ [one_record (pr_OwnershipTag rec) ''TXT''])
                      else ret None))))"

definition r53_delete_txt :: "('w, 's) Route53 \<Rightarrow> PDNSRecord \<Rightarrow> string list \<Rightarrow> ('w, error option) state" where
  "r53_delete_txt p rec owners =
     (if \<not> hasValue owners (pr_Value rec) then ret (Some r53_ErrOwnershipMismatch)
      else
        (let left = removeValue owners (pr_Value rec)
         in if length left = 0 then r53_change p (pr_Zone rec) ''DELETE'' (pr_Name rec) ''TXT'' owners
            else r53_change p (pr_Zone rec) ''UPSERT'' (pr_Name rec) ''TXT'' left))"

text \<open>The main set: deleted, tolerating one that is already gone, or shrunk.\<close>

definition r53_delete_main :: "('w, 's) Route53 \<Rightarrow> PDNSRecord \<Rightarrow> string list \<Rightarrow> ('w, error option) state" where
  "r53_delete_main p rec values =
     (if length values = 0 then
        if_err (r53_change p (pr_Zone rec) ''DELETE'' (pr_Name rec) (pr_Type rec) [one_record (pr_Value rec) (pr_Type rec)])
          (\<lambda>err. if isNotFound (r53_client p) err then ret None
                 else ret (Some (wrapf (''route53: deleting '' @ pr_Type rec @ '' '' @ pr_Name rec @ '': '') err)))
          (ret None)
      else r53_change p (pr_Zone rec) ''UPSERT'' (pr_Name rec) (pr_Type rec) values)"

definition r53_DeleteRecord :: "('w, 's) Route53 \<Rightarrow> PDNSRecord \<Rightarrow> ('w, error option) state" where
  "r53_DeleteRecord p rec =
     on_err (r53_records p (pr_Zone rec) (pr_Name rec) ''TXT'') (\<lambda>err. ret (Some err))
       (\<lambda>owners.
          if \<not> hasValue owners (pr_OwnershipTag rec) \<and> pr_Type rec \<noteq> ''TXT'' then ret (Some r53_ErrOwnershipMismatch)
          else if pr_Type rec = ''TXT'' then r53_delete_txt p rec owners
          else on_err (r53_records p (pr_Zone rec) (pr_Name rec) (pr_Type rec)) (\<lambda>err. ret (Some err))
            (\<lambda>values.
               if_err (r53_delete_main p rec (removeValue values (pr_Value rec))) (\<lambda>err. ret (Some err))
                 (let left = removeValue owners (pr_OwnershipTag rec)
                  in if length left = 0 then
                       r53_change p (pr_Zone rec) ''DELETE'' (pr_Name rec) ''TXT'' [one_record (pr_OwnershipTag rec) ''TXT'']
                     else r53_change p (pr_Zone rec) ''UPSERT'' (pr_Name rec) ''TXT'' left)))"

fun record_sets_from ::
  "nat \<Rightarrow> ('w, 's) route53API \<Rightarrow> string \<Rightarrow> 's option \<Rightarrow> ('w, error + record_set list) state" where
  "record_sets_from 0 c i start = ret (Inl Diverges)"
| "record_sets_from (Suc n) c i start =
     on_err (r53_RecordSets c i start) (\<lambda>err. ret (Inl err))
       (\<lambda>(sets, nxt). case nxt of
            None \<Rightarrow> ret (Inr sets)
          | Some s \<Rightarrow> on_err (record_sets_from n c i (Some s)) (\<lambda>err. ret (Inl err)) (\<lambda>rest. ret (Inr (sets @ rest))))"

definition allRecordSets :: "('w, 's) Route53 \<Rightarrow> string \<Rightarrow> ('w, error + record_set list) state" where
  "allRecordSets p i = record_sets_from (r53_pages p) (r53_client p) i None"

definition set_owners :: "record_set list \<Rightarrow> string \<Rightarrow> string option" where
  "set_owners sets = fold (\<lambda>s m. if set_Type s = ''TXT'' \<and> length (set_Records s) > 0
     then m(set_Name s \<mapsto> untxt (hd (set_Records s))) else m) sets (\<lambda>_. None)"

definition managed_sets :: "string \<Rightarrow> record_set list \<Rightarrow> PDNSRecord list" where
  "managed_sets zone sets =
     List.map_filter (\<lambda>s. if set_Type s = ''TXT'' \<or> length (set_Records s) = 0 then None
       else (case set_owners sets (set_Name s) of
               None \<Rightarrow> None
             | Some tag \<Rightarrow> Some \<lparr>pr_Zone = zone, pr_Name = TrimSuffix (set_Name s) ''.'', pr_Type = set_Type s,
                                pr_Value = untxt (hd (set_Records s)), pr_OwnershipTag = tag\<rparr>)) sets"

definition r53_ListManagedRecords :: "('w, 's) Route53 \<Rightarrow> string \<Rightarrow> ('w, error + PDNSRecord list) state" where
  "r53_ListManagedRecords p zone =
     on_err (r53_zoneID p zone) (\<lambda>err. ret (Inl err))
       (\<lambda>i. on_err (allRecordSets p i)
          (\<lambda>err. ret (Inl (wrapf (''route53: list managed records in '' @ zone @ '': '') err)))
          (\<lambda>sets. ret (Inr (managed_sets zone sets))))"

definition route53_provider :: "('w, 's) Route53 \<Rightarrow> 'w DNSProvider" where
  "route53_provider p =
     \<lparr>dns_EnsureRecord = r53_EnsureRecord p, dns_DeleteRecord = r53_DeleteRecord p,
      dns_ListManagedRecords = r53_ListManagedRecords p\<rparr>"

section \<open>Facts about values\<close>

text \<open>The escapes of a value are undone wherever they stand.\<close>

lemma unescape_escape:
  "ReplaceAll (ReplaceAll s [dquote] [backslash, dquote]) [backslash, dquote] [dquote] = s"
proof (induction s)
  case (Cons c s)
  let ?e = "ReplaceAll s [dquote] [backslash, dquote]"
  show ?case
  proof (cases "c = dquote")
    case True
    with Cons show ?thesis
      by (simp add: HasPrefix_def)
  next
    case False
    have "\<not> HasPrefix ?e [dquote]"
      by (cases s) (auto simp: HasPrefix_def)
    then have "\<not> HasPrefix (c # ?e) [backslash, dquote]"
      by (cases ?e) (auto simp: HasPrefix_def)
    with False Cons show ?thesis
      by (simp add: HasPrefix_def)
  qed
qed simp

lemma untxt_txt: "untxt (txt_value s) = s"
proof -
  let ?e = "ReplaceAll s [dquote] [backslash, dquote]"
  have "HasPrefix (dquote # ?e @ [dquote]) [dquote]" "HasSuffix (dquote # ?e @ [dquote]) [dquote]"
    by (simp_all add: HasPrefix_def HasSuffix_def)
  then show ?thesis
    by (simp add: untxt_def txt_value_def unescape_escape)
qed

lemma txt_longer: "length s < length (txt_value s)"
proof -
  have "length s \<le> length (ReplaceAll s [dquote] [backslash, dquote])"
    by (induction s) (auto simp: HasPrefix_def)
  then show ?thesis
    by (simp add: txt_value_def)
qed

end
