(* ===== verification/Googlecloud_Provider.thy ===== *)
theory Googlecloud_Provider
  imports Route53_Provider
begin

text \<open>
  \<open>providers/dns/googlecloud/googlecloud.go\<close>: the same registry over Cloud DNS, where a change
  is a pair of an optional deletion and an optional addition of a whole record set. The service
  is an argument. The file's \<open>fqdn\<close>, \<open>txt\<close> and \<open>untxt\<close> are those of the Route 53 provider.
\<close>

section \<open>The provider\<close>

record 'w gc_service =
  gc_List :: "string \<Rightarrow> string \<Rightarrow> ('w, error + record_set list) state"
  gc_ListPage :: "string \<Rightarrow> ('w, error + record_set list \<times> string) state"
  gc_Change :: "record_set option \<Rightarrow> record_set option \<Rightarrow> ('w, error option) state"

text \<open>\<open>gc_pages\<close> is no field of the Go struct: it bounds the pages \<open>ListManagedRecords\<close> walks.\<close>

record 'w Googlecloud =
  gc_client :: "'w gc_service"
  gc_pages :: nat

definition Googlecloud_New ::
  "error + (string \<Rightarrow> string \<Rightarrow> 'w gc_service) \<Rightarrow> string \<Rightarrow> string \<Rightarrow> nat \<Rightarrow> error + 'w Googlecloud" where
  "Googlecloud_New service project zone pages =
     (case service of
        Inl err \<Rightarrow> Inl (wrapf ''google cloud dns: creating client: '' err)
      | Inr s \<Rightarrow> Inr \<lparr>gc_client = s project zone, gc_pages = pages\<rparr>)"

definition gc_ErrOwnershipMismatch :: error where
  "gc_ErrOwnershipMismatch = PermanentError (Opaque ''google cloud dns: ownership tag mismatch'')"

definition gc_ErrUnmanagedRecord :: error where
  "gc_ErrUnmanagedRecord = PermanentError (Opaque ''google cloud dns: unmanaged record collision'')"

definition gc_records :: "'w Googlecloud \<Rightarrow> string \<Rightarrow> string \<Rightarrow> ('w, error + string list \<times> record_set option) state" where
  "gc_records p name typ =
     on_err (gc_List (gc_client p) (dns_fqdn name) typ) (\<lambda>err. ret (Inl err))
       (\<lambda>sets. ret (Inr
          (case List.find (\<lambda>r. set_Name r = dns_fqdn name \<and> set_Type r = typ) sets of
             Some r \<Rightarrow> (set_Records r, Some r) | None \<Rightarrow> ([], None))))"

definition gc_apply :: "'w Googlecloud \<Rightarrow> record_set option \<Rightarrow> record_set option \<Rightarrow> ('w, error option) state" where
  "gc_apply p old next = gc_Change (gc_client p) old next"

definition gc_vals :: "string list \<Rightarrow> string \<Rightarrow> string list" where
  "gc_vals vs typ = map (\<lambda>v. if typ = ''TXT'' then txt_value v else v) vs"

definition gc_plain :: "string list \<Rightarrow> string list" where
  "gc_plain vs = map untxt vs"

definition gc_contains :: "string list \<Rightarrow> string \<Rightarrow> bool" where
  "gc_contains vs v \<longleftrightarrow> list_ex (\<lambda>x. x = v) (gc_plain vs)"

definition gc_remove :: "string list \<Rightarrow> string \<Rightarrow> string list" where
  "gc_remove vs v = filter (\<lambda>x. untxt x \<noteq> v) vs"

definition sameValues :: "string list \<Rightarrow> string \<Rightarrow> bool" where
  "sameValues existing v \<longleftrightarrow> length existing = 1 \<and> untxt (existing ! 0) = v"

section \<open>The operations\<close>

definition gc_set :: "PDNSRecord \<Rightarrow> string \<Rightarrow> string list \<Rightarrow> record_set option" where
  "gc_set rec typ values = Some \<lparr>set_Name = dns_fqdn (pr_Name rec), set_Type = typ, set_Records = values\<rparr>"

definition gc_ensure_txt :: "'w Googlecloud \<Rightarrow> PDNSRecord \<Rightarrow> string list \<Rightarrow> record_set option \<Rightarrow> ('w, error option) state" where
  "gc_ensure_txt p rec existing old =
     (if gc_contains existing (pr_Value rec) then ret None
      else gc_apply p old (gc_set rec ''TXT'' (gc_vals (existing @ [pr_Value rec]) ''TXT'')))"

definition gc_EnsureRecord :: "'w Googlecloud \<Rightarrow> PDNSRecord \<Rightarrow> ('w, error option) state" where
  "gc_EnsureRecord p rec =
     (if pr_Type rec \<noteq> ''A'' \<and> pr_Type rec \<noteq> ''CNAME'' \<and> pr_Type rec \<noteq> ''TXT'' then
        ret (Some (Opaque (''google cloud dns: unsupported record type '' @ pr_Type rec)))
      else on_err (gc_records p (pr_Name rec) (pr_Type rec)) (\<lambda>err. ret (Some err))
        (\<lambda>(existing, old).
           if pr_Type rec = ''TXT'' then gc_ensure_txt p rec existing old
           else on_err (gc_records p (pr_Name rec) ''TXT'') (\<lambda>err. ret (Some err))
             (\<lambda>(owners, ownerSet).
                let owned = gc_contains owners (pr_OwnershipTag rec)
                in if length existing > 0 \<and> \<not> owned then ret (Some gc_ErrUnmanagedRecord)
                   else if_err (if \<not> sameValues existing (pr_Value rec)
                                then gc_apply p old (gc_set rec (pr_Type rec) [pr_Value rec]) else ret None)
                     (\<lambda>err. ret (Some err))
                     (if \<not> owned then
                        gc_apply p ownerSet (gc_set rec ''TXT'' (gc_vals (owners @ [pr_OwnershipTag rec]) ''TXT''))
                      else ret None))))"

definition gc_delete_main :: "'w Googlecloud \<Rightarrow> PDNSRecord \<Rightarrow> ('w, error option) state" where
  "gc_delete_main p rec =
     on_err (gc_records p (pr_Name rec) (pr_Type rec)) (\<lambda>err. ret (Some err))
       (\<lambda>(values, old).
          let left = gc_remove values (pr_Value rec)
          in if length left = 0 then gc_apply p old None else gc_apply p old (gc_set rec (pr_Type rec) left))"

definition gc_DeleteRecord :: "'w Googlecloud \<Rightarrow> PDNSRecord \<Rightarrow> ('w, error option) state" where
  "gc_DeleteRecord p rec =
     on_err (gc_records p (pr_Name rec) ''TXT'') (\<lambda>err. ret (Some err))
       (\<lambda>(owners, ownerSet).
          let owner = (if pr_Type rec = ''TXT'' then pr_Value rec else pr_OwnershipTag rec)
          in if \<not> gc_contains owners owner then ret (Some gc_ErrOwnershipMismatch)
             else if_err (if pr_Type rec \<noteq> ''TXT'' then gc_delete_main p rec else ret None) (\<lambda>err. ret (Some err))
               (let left = gc_remove owners owner
                in if length left = 0 then gc_apply p ownerSet None
                   else gc_apply p ownerSet (gc_set rec ''TXT'' (gc_vals left ''TXT''))))"

fun gc_all_sets :: "nat \<Rightarrow> 'w gc_service \<Rightarrow> string \<Rightarrow> ('w, error + record_set list) state" where
  "gc_all_sets 0 c token = ret (Inl Diverges)"
| "gc_all_sets (Suc n) c token =
     on_err (gc_ListPage c token) (\<lambda>err. ret (Inl err))
       (\<lambda>(sets, nxt). if nxt = [] then ret (Inr sets)
          else on_err (gc_all_sets n c nxt) (\<lambda>err. ret (Inl err)) (\<lambda>rest. ret (Inr (sets @ rest))))"

definition gc_ListManagedRecords :: "'w Googlecloud \<Rightarrow> string \<Rightarrow> ('w, error + PDNSRecord list) state" where
  "gc_ListManagedRecords p zone =
     on_err (gc_all_sets (gc_pages p) (gc_client p) []) (\<lambda>err. ret (Inl err))
       (\<lambda>sets. ret (Inr (managed_sets zone sets)))"

definition googlecloud_provider :: "'w Googlecloud \<Rightarrow> 'w DNSProvider" where
  "googlecloud_provider p =
     \<lparr>dns_EnsureRecord = gc_EnsureRecord p, dns_DeleteRecord = gc_DeleteRecord p,
      dns_ListManagedRecords = gc_ListManagedRecords p\<rparr>"

end
