(* ===== verification/Digitalocean_Provider.thy ===== *)
theory Digitalocean_Provider
  imports Program_Logic Provider_Api Go_Strings
begin

text \<open>
  \<open>providers/dns/digitalocean/digitalocean.go\<close>: the registry over the records of one domain, whose
  names the API gives relative to it. The client is an argument; a listing answers with a page
  and whether it is the last one.
\<close>

section \<open>The provider\<close>

record do_record =
  do_ID :: int
  do_Type :: string
  do_Name :: string
  do_Data :: string

record 'w do_client =
  do_Records :: "string \<Rightarrow> nat \<Rightarrow> ('w, error + do_record list \<times> bool) state"
  do_Create :: "string \<Rightarrow> string \<Rightarrow> string \<Rightarrow> string \<Rightarrow> ('w, error option) state"
  do_Edit :: "string \<Rightarrow> int \<Rightarrow> string \<Rightarrow> string \<Rightarrow> string \<Rightarrow> ('w, error option) state"
  do_Delete :: "string \<Rightarrow> int \<Rightarrow> ('w, error option) state"

text \<open>\<open>do_pages\<close> is no field of the Go struct: it bounds the pages a listing walks.\<close>

record 'w Digitalocean =
  do_api :: "'w do_client"
  do_domain :: string
  do_pages :: nat

definition Digitalocean_New :: "'w do_client \<Rightarrow> string \<Rightarrow> nat \<Rightarrow> 'w Digitalocean" where
  "Digitalocean_New client domain pages =
     \<lparr>do_api = client, do_domain = TrimSuffix domain ''.'', do_pages = pages\<rparr>"

definition do_ErrOwnershipMismatch :: error where
  "do_ErrOwnershipMismatch = PermanentError (Opaque ''digitalocean: ownership tag mismatch'')"

definition do_ErrUnmanagedRecord :: error where
  "do_ErrUnmanagedRecord = PermanentError (Opaque ''digitalocean: unmanaged record collision'')"

definition do_relative :: "'w Digitalocean \<Rightarrow> string \<Rightarrow> string" where
  "do_relative p name0 =
     (let name = TrimSuffix name0 ''.''
      in if name = do_domain p then ''@''
         else TrimSuffix (TrimSuffix name (''.'' @ do_domain p)) ''.'')"

definition do_full :: "'w Digitalocean \<Rightarrow> string \<Rightarrow> string" where
  "do_full p name =
     (if name = ''@'' \<or> name = [] then do_domain p
      else if HasSuffix name (''.'' @ do_domain p) then name
      else name @ ''.'' @ do_domain p)"

text \<open>The pages from one on, all records of the domain.\<close>

fun do_pages_from :: "nat \<Rightarrow> 'w Digitalocean \<Rightarrow> nat \<Rightarrow> ('w, error + do_record list) state" where
  "do_pages_from 0 p page = ret (Inl Diverges)"
| "do_pages_from (Suc n) p page =
     on_err (do_Records (do_api p) (do_domain p) page) (\<lambda>err. ret (Inl err))
       (\<lambda>(rs, lastPage). if lastPage then ret (Inr rs)
          else on_err (do_pages_from n p (page + 1)) (\<lambda>err. ret (Inl err)) (\<lambda>rest. ret (Inr (rs @ rest))))"

definition do_records :: "'w Digitalocean \<Rightarrow> string \<Rightarrow> string \<Rightarrow> ('w, error + do_record list) state" where
  "do_records p typ name =
     on_err (do_pages_from (do_pages p) p 1) (\<lambda>err. ret (Inl err))
       (\<lambda>rs. ret (Inr (filter (\<lambda>r. do_Type r = typ \<and> do_full p (do_Name r) = do_full p name) rs)))"

definition do_create :: "'w Digitalocean \<Rightarrow> string \<Rightarrow> string \<Rightarrow> string \<Rightarrow> ('w, error option) state" where
  "do_create p typ name data = do_Create (do_api p) (do_domain p) typ (do_relative p name) data"

section \<open>The operations\<close>

definition do_ensure_owned :: "'w Digitalocean \<Rightarrow> PDNSRecord \<Rightarrow> do_record list \<Rightarrow> ('w, error option) state" where
  "do_ensure_owned p rec existing =
     on_err (do_records p ''TXT'' (pr_Name rec)) (\<lambda>err. ret (Some err))
       (\<lambda>owners.
          let owned = list_ex (\<lambda>r. do_Data r = pr_OwnershipTag rec) owners
          in if length existing > 0 \<and> \<not> owned then ret (Some do_ErrUnmanagedRecord)
             else if_err (if length existing = 0 then do_create p (pr_Type rec) (pr_Name rec) (pr_Value rec)
                          else do_Edit (do_api p) (do_domain p) (do_ID (hd existing)) (pr_Type rec)
                                 (do_relative p (pr_Name rec)) (pr_Value rec))
               (\<lambda>err. ret (Some err))
               (if \<not> owned then do_create p ''TXT'' (pr_Name rec) (pr_OwnershipTag rec) else ret None))"

definition do_EnsureRecord :: "'w Digitalocean \<Rightarrow> PDNSRecord \<Rightarrow> ('w, error option) state" where
  "do_EnsureRecord p rec =
     (if pr_Type rec \<noteq> ''A'' \<and> pr_Type rec \<noteq> ''CNAME'' \<and> pr_Type rec \<noteq> ''TXT'' then
        ret (Some (Opaque (''digitalocean: unsupported record type '' @ pr_Type rec)))
      else on_err (do_records p (pr_Type rec) (pr_Name rec)) (\<lambda>err. ret (Some err))
        (\<lambda>existing.
           if list_ex (\<lambda>r. do_Data r = pr_Value rec) existing then ret None
           else if pr_Type rec = ''TXT'' then do_create p ''TXT'' (pr_Name rec) (pr_Value rec)
           else do_ensure_owned p rec existing))"

fun do_delete_matching :: "'w Digitalocean \<Rightarrow> PDNSRecord \<Rightarrow> do_record list \<Rightarrow> ('w, error option) state" where
  "do_delete_matching p rec [] = ret None"
| "do_delete_matching p rec (r # rs) =
     (if do_Data r = pr_Value rec then
        if_err (do_Delete (do_api p) (do_domain p) (do_ID r)) (\<lambda>err. ret (Some err)) (do_delete_matching p rec rs)
      else do_delete_matching p rec rs)"

definition do_DeleteRecord :: "'w Digitalocean \<Rightarrow> PDNSRecord \<Rightarrow> ('w, error option) state" where
  "do_DeleteRecord p rec =
     on_err (do_records p ''TXT'' (pr_Name rec)) (\<lambda>err. ret (Some err))
       (\<lambda>owners.
          let owner = (if pr_Type rec = ''TXT'' then pr_Value rec else pr_OwnershipTag rec)
          in case List.find (\<lambda>r. do_Data r = owner) owners of
               None \<Rightarrow> ret (Some do_ErrOwnershipMismatch)
             | Some ownerRecord \<Rightarrow>
                 if_err (if pr_Type rec \<noteq> ''TXT'' then
                           on_err (do_records p (pr_Type rec) (pr_Name rec)) (\<lambda>err. ret (Some err))
                             (\<lambda>values. do_delete_matching p rec values)
                         else ret None)
                   (\<lambda>err. ret (Some err))
                   (do_Delete (do_api p) (do_domain p) (do_ID ownerRecord)))"

definition do_owners :: "'w Digitalocean \<Rightarrow> do_record list \<Rightarrow> string \<Rightarrow> string option" where
  "do_owners p rs = fold (\<lambda>r m. if do_Type r = ''TXT'' then m(do_full p (do_Name r) \<mapsto> do_Data r) else m) rs (\<lambda>_. None)"

definition do_managed :: "'w Digitalocean \<Rightarrow> string \<Rightarrow> do_record list \<Rightarrow> PDNSRecord list" where
  "do_managed p zone rs =
     List.map_filter (\<lambda>r. if do_Type r = ''TXT'' then None
       else (case do_owners p rs (do_full p (do_Name r)) of
               None \<Rightarrow> None
             | Some tag \<Rightarrow> Some \<lparr>pr_Zone = zone, pr_Name = do_full p (do_Name r), pr_Type = do_Type r,
                                pr_Value = do_Data r, pr_OwnershipTag = tag\<rparr>)) rs"

definition do_ListManagedRecords :: "'w Digitalocean \<Rightarrow> string \<Rightarrow> ('w, error + PDNSRecord list) state" where
  "do_ListManagedRecords p zone =
     on_err (do_pages_from (do_pages p) p 1) (\<lambda>err. ret (Inl err)) (\<lambda>rs. ret (Inr (do_managed p zone rs)))"

definition digitalocean_provider :: "'w Digitalocean \<Rightarrow> 'w DNSProvider" where
  "digitalocean_provider p =
     \<lparr>dns_EnsureRecord = do_EnsureRecord p, dns_DeleteRecord = do_DeleteRecord p,
      dns_ListManagedRecords = do_ListManagedRecords p\<rparr>"

end
