(* ===== verification/Dns_Theorems.thy ===== *)
theory Dns_Theorems
  imports Googlecloud_Provider Digitalocean_Provider
begin

text \<open>
  What the TXT registries of the other three DNS providers do with the values they share a name
  with: Route 53 keeps them, Cloud DNS quotes them once more at every change, and DigitalOcean
  stops before the ownership mark when the value is already there.
\<close>

section \<open>Values\<close>

lemma hasValue_texts: "hasValue (map txt_value vs) v \<longleftrightarrow> v \<in> set vs"
  by (auto simp: hasValue_def list_ex_iff untxt_txt)

lemma removeValue_texts: "removeValue (map txt_value vs) v = map txt_value (filter (\<lambda>x. x \<noteq> v) vs)"
  by (induction vs) (auto simp: removeValue_def untxt_txt)

lemma gc_contains_iff: "gc_contains vs v \<longleftrightarrow> v \<in> untxt ` set vs"
  by (auto simp: gc_contains_def gc_plain_def list_ex_iff)

section \<open>Properties\<close>

text \<open>
  Route 53 TXT values round trip and live side by side. Every text, quotes and backslashes
  included, is read back from its rendering. When the set of a name holds the values \<open>vs\<close>,
  ensuring a new one writes exactly \<open>vs\<close> and the new one, and deleting one of several writes
  exactly the others: no neighbour is lost or altered.
\<close>

theorem route53_values_side_by_side:
  assumes "pr_Type rec = ''TXT''"
    and "run_state (r53_records p (pr_Zone rec) (pr_Name rec) ''TXT'') w = (Inr (map txt_value vs), w')"
  shows "untxt (txt_value s) = s
    \<and> run_state (r53_EnsureRecord p rec) w =
        (if pr_Value rec \<in> set vs then (None, w')
         else run_state (r53_change p (pr_Zone rec) ''UPSERT'' (pr_Name rec) ''TXT'' (map txt_value (vs @ [pr_Value rec]))) w')
    \<and> run_state (r53_DeleteRecord p rec) w =
        (if pr_Value rec \<notin> set vs then (Some r53_ErrOwnershipMismatch, w')
         else if filter (\<lambda>v. v \<noteq> pr_Value rec) vs = [] then
           run_state (r53_change p (pr_Zone rec) ''DELETE'' (pr_Name rec) ''TXT'' (map txt_value vs)) w'
         else run_state (r53_change p (pr_Zone rec) ''UPSERT'' (pr_Name rec) ''TXT''
                (map txt_value (filter (\<lambda>v. v \<noteq> pr_Value rec) vs))) w')"
  using assms
  by (auto simp: r53_EnsureRecord_def r53_DeleteRecord_def r53_delete_txt_def run_on_err hasValue_texts
      removeValue_texts untxt_txt one_record_def)

text \<open>
  Cloud DNS loses ownership marks. When a name holds the TXT values \<open>vs\<close> and the provider adds
  one, the set it submits renders each of \<open>vs\<close> a second time, so reading it back gives the old
  values with their quotes as text; the mark or the operator's value that stood there alone is no
  longer found.
\<close>

theorem googlecloud_requotes_neighbours:
  assumes "pr_Type rec = ''TXT''" and "pr_Value rec \<notin> set vs"
    and "run_state (gc_records p (pr_Name rec) ''TXT'') w = (Inr (map txt_value vs, old), w')"
  shows "\<exists>submitted. run_state (gc_EnsureRecord p rec) w =
        run_state (gc_apply p old (Some \<lparr>set_Name = dns_fqdn (pr_Name rec), set_Type = ''TXT'', set_Records = submitted\<rparr>)) w'
      \<and> gc_plain submitted = map txt_value vs @ [pr_Value rec]
      \<and> (\<forall>v. vs = [v] \<longrightarrow> gc_contains (map txt_value vs) v \<and> \<not> gc_contains submitted v)"
proof -
  let ?submitted = "map txt_value (map txt_value vs @ [pr_Value rec])"
  have absent: "\<not> gc_contains (map txt_value vs) (pr_Value rec)"
    using assms(2) by (auto simp: gc_contains_iff untxt_txt)
  have plain: "gc_plain ?submitted = map txt_value vs @ [pr_Value rec]"
    by (simp add: gc_plain_def untxt_txt)
  have "gc_contains (map txt_value vs) v \<and> \<not> gc_contains ?submitted v" if "vs = [v]" for v
    using that assms(2) txt_longer [of v] by (auto simp: gc_contains_iff untxt_txt)
  with plain absent assms(1,3) show ?thesis
    by (intro exI [of _ ?submitted])
      (simp add: gc_EnsureRecord_def run_on_err gc_ensure_txt_def gc_set_def gc_vals_def)
qed

text \<open>
  DigitalOcean can leave a record that no teardown removes. When the name already holds the
  value asked for, \<open>EnsureRecord\<close> reports success without looking for the ownership mark or
  writing it; if the mark is not there, as after an earlier call that failed between the record
  and its mark, \<open>DeleteRecord\<close> then fails for good.
\<close>

theorem digitalocean_skips_the_mark:
  assumes "pr_Type rec = ''A'' \<or> pr_Type rec = ''CNAME''"
    and "run_state (do_records p (pr_Type rec) (pr_Name rec)) w = (Inr existing, w1)"
    and "pr_Value rec \<in> do_Data ` set existing"
    and "run_state (do_records p ''TXT'' (pr_Name rec)) w1 = (Inr owners, w2)"
    and "pr_OwnershipTag rec \<notin> do_Data ` set owners"
  shows "run_state (do_EnsureRecord p rec) w = (None, w1)
    \<and> run_state (do_DeleteRecord p rec) w1 = (Some do_ErrOwnershipMismatch, w2)
    \<and> IsTerminal (Some do_ErrOwnershipMismatch)"
proof -
  have e: "list_ex (\<lambda>r. do_Data r = pr_Value rec) existing"
    using assms(3) by (auto simp: list_ex_iff)
  have "List.find (\<lambda>r. do_Data r = pr_OwnershipTag rec) owners = None"
    using assms(5) by (auto simp: find_None_iff image_iff)
  moreover have "pr_Type rec \<noteq> ''TXT''"
    using assms(1) by auto
  ultimately show ?thesis
    using assms(1,2,4) e
    by (auto simp: do_EnsureRecord_def do_DeleteRecord_def run_on_err do_ErrOwnershipMismatch_def)
qed

section \<open>Witnesses\<close>

definition ex_challenge :: PDNSRecord where
  "ex_challenge = \<lparr>pr_Zone = ''dev'', pr_Name = ''b.dev'', pr_Type = ''TXT'', pr_Value = ''new'', pr_OwnershipTag = ''t''\<rparr>"

definition ex_r53 :: "(record_set list, string \<times> string) Route53" where
  "ex_r53 = \<lparr>r53_client =
      \<lparr>r53_HostedZonesByName = (\<lambda>z. ret (Inr [])),
       r53_RecordSets = (\<lambda>i start. State (\<lambda>sets. (Inr (sets, None), sets))),
       r53_StartAt = (\<lambda>name typ. (name, typ)),
       r53_Change = (\<lambda>i action s. State (\<lambda>sets. (None, s # filter (\<lambda>x. set_Name x \<noteq> set_Name s \<or> set_Type x \<noteq> set_Type s) sets))),
       r53_InvalidChangeBatch = (\<lambda>e. False), r53_NoSuchHostedZone = (\<lambda>e. False)\<rparr>,
     r53_hostedZoneID = ''Z1'', r53_pages = 1\<rparr>"

definition ex_sets :: "record_set list" where
  "ex_sets = [\<lparr>set_Name = ''b.dev.'', set_Type = ''TXT'', set_Records = map txt_value [''mark'']\<rparr>]"

theorem route53_values_side_by_side_witness:
  "map (map untxt \<circ> set_Records) (snd (run_state (r53_EnsureRecord ex_r53 ex_challenge) ex_sets)) = [[''mark'', ''new'']]"
proof -
  have t: "pr_Type ex_challenge = ''TXT''" and v: "pr_Value ex_challenge \<notin> set [''mark'']"
    by (simp_all add: ex_challenge_def)
  have r: "run_state (r53_records ex_r53 (pr_Zone ex_challenge) (pr_Name ex_challenge) ''TXT'') ex_sets
      = (Inr (map txt_value [''mark'']), ex_sets)"
    by (simp add: r53_records_def r53_zoneID_def run_on_err ex_r53_def ex_challenge_def ex_sets_def TrimSuffix_def HasSuffix_def)
  show ?thesis
    using route53_values_side_by_side [OF t r] v
    by (simp add: r53_change_def r53_zoneID_def run_on_err ex_r53_def untxt_txt ex_sets_def ex_challenge_def dns_fqdn_def
        TrimSuffix_def HasSuffix_def)
qed

definition ex_gc :: "record_set list Googlecloud" where
  "ex_gc = \<lparr>gc_client =
      \<lparr>gc_List = (\<lambda>name typ. State (\<lambda>sets. (Inr (filter (\<lambda>s. set_Name s = name \<and> set_Type s = typ) sets), sets))),
       gc_ListPage = (\<lambda>token. State (\<lambda>sets. (Inr (sets, []), sets))),
       gc_Change = (\<lambda>old new. State (\<lambda>sets. (None,
         (case new of None \<Rightarrow> [] | Some s \<Rightarrow> [s]) @ filter (\<lambda>s. Some s \<noteq> old) sets)))\<rparr>,
     gc_pages = 1\<rparr>"

theorem googlecloud_requotes_neighbours_witness:
  "\<exists>submitted. snd (run_state (gc_EnsureRecord ex_gc ex_challenge) ex_sets)
      = [\<lparr>set_Name = ''b.dev.'', set_Type = ''TXT'', set_Records = submitted\<rparr>] \<and> \<not> gc_contains submitted ''mark''"
proof -
  have t: "pr_Type ex_challenge = ''TXT''" and v: "pr_Value ex_challenge \<notin> set [''mark'']"
    by (simp_all add: ex_challenge_def)
  have r: "run_state (gc_records ex_gc (pr_Name ex_challenge) ''TXT'') ex_sets
      = (Inr (map txt_value [''mark''], Some (hd ex_sets)), ex_sets)"
    by (simp add: gc_records_def run_on_err ex_gc_def ex_challenge_def ex_sets_def dns_fqdn_def TrimSuffix_def HasSuffix_def)
  obtain submitted where s: "run_state (gc_EnsureRecord ex_gc ex_challenge) ex_sets =
        run_state (gc_apply ex_gc (Some (hd ex_sets))
          (Some \<lparr>set_Name = dns_fqdn (pr_Name ex_challenge), set_Type = ''TXT'', set_Records = submitted\<rparr>)) ex_sets"
      "\<not> gc_contains submitted ''mark''"
    using googlecloud_requotes_neighbours [OF t v r] by auto
  then show ?thesis
    by (intro exI [of _ submitted])
      (simp add: gc_apply_def ex_gc_def ex_sets_def ex_challenge_def dns_fqdn_def TrimSuffix_def HasSuffix_def)
qed

definition ex_do :: "do_record list Digitalocean" where
  "ex_do = Digitalocean_New
      \<lparr>do_Records = (\<lambda>d page. State (\<lambda>rs. (Inr (rs, True), rs))),
       do_Create = (\<lambda>d typ name data. ret None), do_Edit = (\<lambda>d i typ name data. ret None),
       do_Delete = (\<lambda>d i. State (\<lambda>rs. (None, filter (\<lambda>r. do_ID r \<noteq> i) rs)))\<rparr> ''dev'' 1"

theorem digitalocean_skips_the_mark_witness:
  "run_state (do_EnsureRecord ex_do (ex_challenge\<lparr>pr_Type := ''A''\<rparr>))
       [\<lparr>do_ID = 1, do_Type = ''A'', do_Name = ''b'', do_Data = ''new''\<rparr>]
     = (None, [\<lparr>do_ID = 1, do_Type = ''A'', do_Name = ''b'', do_Data = ''new''\<rparr>])"
proof -
  let ?rs = "[\<lparr>do_ID = 1, do_Type = ''A'', do_Name = ''b'', do_Data = ''new''\<rparr>]"
  let ?rec = "ex_challenge\<lparr>pr_Type := ''A''\<rparr>"
  have "run_state (do_records ex_do ''A'' ''b.dev'') ?rs = (Inr ?rs, ?rs)" "run_state (do_records ex_do ''TXT'' ''b.dev'') ?rs = (Inr [], ?rs)"
    by (simp_all add: do_records_def run_on_err ex_do_def Digitalocean_New_def do_full_def HasSuffix_def TrimSuffix_def)
  then show ?thesis
    using digitalocean_skips_the_mark [of ?rec ex_do ?rs ?rs ?rs "[]" ?rs] by (simp add: ex_challenge_def)
qed

end
