(* ===== verification/Cloudflare_Provider.thy ===== *)
theory Cloudflare_Provider
  imports Program_Logic Provider_Api
begin

text \<open>
  \<open>providers/dns/cloudflare/cloudflare.go\<close>: records with a TXT record at the same name as the
  mark of ownership. The API client is an argument; the provider's only state of its own, the
  cache of zone identifiers, is paired with the world.
\<close>

section \<open>The provider\<close>

record cf_record =
  cf_ID :: string
  cf_Type :: string
  cf_Name :: string
  cf_Content :: string

text \<open>
  \<open>dnsClient\<close>. A listing is asked for by name and type (empty for any) and page; it answers with
  the records of the page and the next page, if there is one.
\<close>

record 'w cf_client =
  cf_ZoneIDByName :: "string \<Rightarrow> ('w, error + string) state"
  cf_Create :: "string \<Rightarrow> string \<Rightarrow> string \<Rightarrow> string \<Rightarrow> ('w, error + cf_record) state"
  cf_List :: "string \<Rightarrow> string \<Rightarrow> string \<Rightarrow> nat \<Rightarrow> ('w, error + cf_record list \<times> nat option) state"
  cf_Update :: "string \<Rightarrow> string \<Rightarrow> string \<Rightarrow> string \<Rightarrow> string \<Rightarrow> ('w, error + cf_record) state"
  cf_Delete :: "string \<Rightarrow> string \<Rightarrow> ('w, error option) state"

type_synonym 'w cf_world = "'w \<times> (string \<Rightarrow> string option)"

text \<open>\<open>cf_pages\<close> is no field of the Go struct: it bounds the pages \<open>listAll\<close> walks.\<close>

record 'w Cloudflare =
  cf_client :: "'w cf_client"
  cf_pages :: nat

definition newWithClient :: "'w cf_client \<Rightarrow> nat \<Rightarrow> 'w Cloudflare" where
  "newWithClient client pages = \<lparr>cf_client = client, cf_pages = pages\<rparr>"

definition Cloudflare_New :: "(string \<Rightarrow> error + 'w cf_client) \<Rightarrow> string \<Rightarrow> nat \<Rightarrow> error + 'w Cloudflare" where
  "Cloudflare_New newWithAPIToken apiToken pages =
     (case newWithAPIToken apiToken of
        Inl err \<Rightarrow> Inl (wrapf ''cloudflare: constructing client: '' err)
      | Inr api \<Rightarrow> Inr (newWithClient api pages))"

definition cf_ErrOwnershipMismatch :: error where
  "cf_ErrOwnershipMismatch = PermanentError (Opaque ''cloudflare: ownership tag mismatch, refusing delete'')"

definition cf_ErrUnmanagedRecord :: error where
  "cf_ErrUnmanagedRecord = PermanentError (Opaque ''cloudflare: unmanaged record collision'')"

text \<open>A call of the client, beside the cache.\<close>

definition api :: "('w, 'a) state \<Rightarrow> ('w cf_world, 'a) state" where
  "api m = State (\<lambda>(w, cache). case run_state m w of (a, w') \<Rightarrow> (a, (w', cache)))"

definition zoneID :: "'w Cloudflare \<Rightarrow> string \<Rightarrow> ('w cf_world, error + string) state" where
  "zoneID p zone =
     do { (w, cache) \<leftarrow> get_state;
          case cache zone of
            Some i \<Rightarrow> ret (Inr i)
          | None \<Rightarrow>
              on_err (api (cf_ZoneIDByName (cf_client p) zone))
                (\<lambda>err. ret (Inl (wrapf (''resolving zone '' @ zone @ '': '') err)))
                (\<lambda>i. do { modify_state (\<lambda>(w, cache). (w, cache(zone \<mapsto> i))); ret (Inr i) }) }"

fun list_pages_from ::
  "nat \<Rightarrow> 'w cf_client \<Rightarrow> string \<Rightarrow> string \<Rightarrow> string \<Rightarrow> nat \<Rightarrow> ('w cf_world, error + cf_record list) state" where
  "list_pages_from 0 c zid name ty k = ret (Inl Diverges)"
| "list_pages_from (Suc n) c zid name ty k =
     on_err (api (cf_List c zid name ty k)) (\<lambda>err. ret (Inl err))
       (\<lambda>(recs, nxt). case nxt of
            None \<Rightarrow> ret (Inr recs)
          | Some k' \<Rightarrow> on_err (list_pages_from n c zid name ty k') (\<lambda>err. ret (Inl err)) (\<lambda>rest. ret (Inr (recs @ rest))))"

definition listAll :: "'w Cloudflare \<Rightarrow> string \<Rightarrow> string \<Rightarrow> string \<Rightarrow> ('w cf_world, error + cf_record list) state" where
  "listAll p zid name ty = list_pages_from (cf_pages p) (cf_client p) zid name ty 0"

section \<open>EnsureRecord\<close>

definition create ::
  "'w Cloudflare \<Rightarrow> string \<Rightarrow> string \<Rightarrow> string \<Rightarrow> string \<Rightarrow> string \<Rightarrow> ('w cf_world, error option) state" where
  "create p zid ty name content what =
     on_err (api (cf_Create (cf_client p) zid ty name content)) (\<lambda>err. ret (Some (wrapf what err))) (\<lambda>_. ret None)"

definition update ::
  "'w Cloudflare \<Rightarrow> string \<Rightarrow> string \<Rightarrow> string \<Rightarrow> string \<Rightarrow> string \<Rightarrow> string \<Rightarrow> ('w cf_world, error option) state" where
  "update p zid i ty name content what =
     on_err (api (cf_Update (cf_client p) zid i ty name content)) (\<lambda>err. ret (Some (wrapf what err))) (\<lambda>_. ret None)"

definition ensureSingleRecord ::
  "'w Cloudflare \<Rightarrow> string \<Rightarrow> string \<Rightarrow> string \<Rightarrow> string \<Rightarrow> ('w cf_world, error option) state" where
  "ensureSingleRecord p zid name ty content =
     on_err (listAll p zid name ty) (\<lambda>err. ret (Some (wrapf (''listing existing '' @ ty @ '' records: '') err)))
       (\<lambda>existing.
          if list_ex (\<lambda>r. cf_Content r = content) existing then ret None
          else if length existing = 0 then create p zid ty name content (''creating '' @ ty @ '' record: '')
          else if ty = ''TXT'' then create p zid ty name content (''creating '' @ ty @ '' record: '')
          else update p zid (cf_ID (hd existing)) ty name content (''updating '' @ ty @ '' record: ''))"

definition ensure_txt :: "'w Cloudflare \<Rightarrow> string \<Rightarrow> PDNSRecord \<Rightarrow> ('w cf_world, error option) state" where
  "ensure_txt p zid rec =
     on_err (listAll p zid (pr_Name rec) ''TXT'')
       (\<lambda>err. ret (Some (wrapf (''cloudflare: list TXT records '' @ pr_Name rec @ '': '') err)))
       (\<lambda>existing.
          if list_ex (\<lambda>r. cf_Content r = pr_Value rec) existing then ret None
          else create p zid ''TXT'' (pr_Name rec) (pr_Value rec) (''cloudflare: creating TXT record '' @ pr_Name rec @ '': ''))"

text \<open>The main record, once its name is known to be owned or free.\<close>

definition ensure_main ::
  "'w Cloudflare \<Rightarrow> string \<Rightarrow> PDNSRecord \<Rightarrow> cf_record list \<Rightarrow> ('w cf_world, error option) state" where
  "ensure_main p zid rec mainRecords =
     (if length mainRecords = 0 then
        create p zid (pr_Type rec) (pr_Name rec) (pr_Value rec)
          (''cloudflare: creating '' @ pr_Type rec @ '' record '' @ pr_Name rec @ '': '')
      else if length mainRecords > 1 then
        ret (Some (Wrap (''cloudflare: ensure record '' @ pr_Name rec @ '': '') cf_ErrUnmanagedRecord '': multiple owned records''))
      else update p zid (cf_ID (hd mainRecords)) (pr_Type rec) (pr_Name rec) (pr_Value rec)
             (''cloudflare: updating '' @ pr_Type rec @ '' record '' @ pr_Name rec @ '': ''))"

definition ensure_owned :: "'w Cloudflare \<Rightarrow> string \<Rightarrow> PDNSRecord \<Rightarrow> ('w cf_world, error option) state" where
  "ensure_owned p zid rec =
     on_err (listAll p zid (pr_Name rec) ''TXT'')
       (\<lambda>err. ret (Some (wrapf (''cloudflare: list ownership TXT '' @ pr_Name rec @ '': '') err)))
       (\<lambda>txtRecords.
          let owned = list_ex (\<lambda>r. cf_Content r = pr_OwnershipTag rec) txtRecords
          in on_err (listAll p zid (pr_Name rec) (pr_Type rec))
               (\<lambda>err. ret (Some (wrapf (''cloudflare: list '' @ pr_Type rec @ '' records '' @ pr_Name rec @ '': '') err)))
               (\<lambda>mainRecords.
                  if length mainRecords > 0 \<and> \<not> owned then
                    ret (Some (wrapf (''cloudflare: ensure record '' @ pr_Name rec @ '': '') cf_ErrUnmanagedRecord))
                  else
                    if_err (ensure_main p zid rec mainRecords) (\<lambda>err. ret (Some err))
                      (if owned then ret None
                       else if_err (ensureSingleRecord p zid (pr_Name rec) ''TXT'' (pr_OwnershipTag rec))
                              (\<lambda>err. ret (Some (wrapf (''cloudflare: ensure ownership txt for '' @ pr_Name rec @ '': '') err)))
                              (ret None))))"

definition cf_EnsureRecord :: "'w Cloudflare \<Rightarrow> PDNSRecord \<Rightarrow> ('w cf_world, error option) state" where
  "cf_EnsureRecord p rec =
     on_err (zoneID p (pr_Zone rec))
       (\<lambda>err. ret (Some (wrapf (''cloudflare: ensure record '' @ pr_Name rec @ '': '') err)))
       (\<lambda>zid. if pr_Type rec = ''TXT'' then ensure_txt p zid rec else ensure_owned p zid rec)"

section \<open>DeleteRecord\<close>

text \<open>The main records with the value, one after another; the first failure ends it.\<close>

fun delete_matching ::
  "'w Cloudflare \<Rightarrow> string \<Rightarrow> PDNSRecord \<Rightarrow> cf_record list \<Rightarrow> ('w cf_world, error option) state" where
  "delete_matching p zid rec [] = ret None"
| "delete_matching p zid rec (r # rs) =
     (if cf_Content r \<noteq> pr_Value rec then delete_matching p zid rec rs
      else if_err (api (cf_Delete (cf_client p) zid (cf_ID r)))
             (\<lambda>err. ret (Some (wrapf (''cloudflare: delete record '' @ pr_Name rec @ '': '') err)))
             (delete_matching p zid rec rs))"

definition delete_marker ::
  "'w Cloudflare \<Rightarrow> string \<Rightarrow> PDNSRecord \<Rightarrow> cf_record \<Rightarrow> ('w cf_world, error option) state" where
  "delete_marker p zid rec owned =
     if_err (api (cf_Delete (cf_client p) zid (cf_ID owned)))
       (\<lambda>err. ret (Some (wrapf (''cloudflare: delete record '' @ pr_Name rec @ '': deleting txt record: '') err)))
       (ret None)"

definition delete_owned :: "'w Cloudflare \<Rightarrow> string \<Rightarrow> PDNSRecord \<Rightarrow> ('w cf_world, error option) state" where
  "delete_owned p zid rec =
     (let ownerContent = (if pr_Type rec = ''TXT'' then pr_Value rec else pr_OwnershipTag rec)
      in on_err (listAll p zid (pr_Name rec) ''TXT'')
           (\<lambda>err. ret (Some (wrapf (''cloudflare: delete record '' @ pr_Name rec @ '': listing ownership txt: '') err)))
           (\<lambda>txtRecords.
              case List.find (\<lambda>r. cf_Content r = ownerContent) txtRecords of
                None \<Rightarrow> ret (Some (wrapf (''cloudflare: delete record '' @ pr_Name rec @ '': '') cf_ErrOwnershipMismatch))
              | Some owned \<Rightarrow>
                  if pr_Type rec \<noteq> ''TXT'' then
                    on_err (listAll p zid (pr_Name rec) (pr_Type rec))
                      (\<lambda>err. ret (Some (wrapf (''cloudflare: delete record '' @ pr_Name rec @ '': listing record: '') err)))
                      (\<lambda>mainRecords.
                         if_err (delete_matching p zid rec mainRecords) (\<lambda>err. ret (Some err))
                           (delete_marker p zid rec owned))
                  else delete_marker p zid rec owned))"

definition cf_DeleteRecord :: "'w Cloudflare \<Rightarrow> PDNSRecord \<Rightarrow> ('w cf_world, error option) state" where
  "cf_DeleteRecord p rec =
     on_err (zoneID p (pr_Zone rec))
       (\<lambda>err. ret (Some (wrapf (''cloudflare: delete record '' @ pr_Name rec @ '': '') err)))
       (\<lambda>zid. delete_owned p zid rec)"

section \<open>ListManagedRecords\<close>

definition txtByName :: "cf_record list \<Rightarrow> string \<Rightarrow> string option" where
  "txtByName rs = fold (\<lambda>r m. if cf_Type r = ''TXT'' then m(cf_Name r \<mapsto> cf_Content r) else m) rs (\<lambda>_. None)"

definition managed :: "string \<Rightarrow> cf_record list \<Rightarrow> PDNSRecord list" where
  "managed zone rs =
     List.map_filter (\<lambda>r. if cf_Type r = ''TXT'' then None
       else (case txtByName rs (cf_Name r) of
               None \<Rightarrow> None
             | Some tag \<Rightarrow> Some \<lparr>pr_Zone = zone, pr_Name = cf_Name r, pr_Type = cf_Type r, pr_Value = cf_Content r,
                                pr_OwnershipTag = tag\<rparr>)) rs"

definition cf_ListManagedRecords :: "'w Cloudflare \<Rightarrow> string \<Rightarrow> ('w cf_world, error + PDNSRecord list) state" where
  "cf_ListManagedRecords p zone =
     on_err (zoneID p zone) (\<lambda>err. ret (Inl (wrapf ''cloudflare: list managed records: '' err)))
       (\<lambda>zid. on_err (listAll p zid [] []) (\<lambda>err. ret (Inl (wrapf ''cloudflare: list managed records: '' err)))
          (\<lambda>rs. ret (Inr (managed zone rs))))"

definition cloudflare_provider :: "'w Cloudflare \<Rightarrow> 'w cf_world DNSProvider" where
  "cloudflare_provider p =
     \<lparr>dns_EnsureRecord = cf_EnsureRecord p, dns_DeleteRecord = cf_DeleteRecord p,
      dns_ListManagedRecords = cf_ListManagedRecords p\<rparr>"

end
