(* ===== verification/Cloudflare_Theorems.thy ===== *)
theory Cloudflare_Theorems
  imports Cloudflare_Provider
begin

text \<open>
  What the Cloudflare provider promises of a zone. The API is any client that obeys \<open>cf_law\<close>,
  its documented behaviour: a listing answers page by page with the records that match, a call
  that succeeds changes just the record it names, and one that fails changes nothing.
\<close>

section \<open>The API\<close>

definition matching :: "string \<Rightarrow> string \<Rightarrow> cf_record list \<Rightarrow> cf_record list" where
  "matching name ty rs = filter (\<lambda>r. (name = [] \<or> cf_Name r = name) \<and> (ty = [] \<or> cf_Type r = ty)) rs"

definition page_law :: "nat \<Rightarrow> nat \<Rightarrow> cf_record list \<Rightarrow> cf_record list \<times> nat option \<Rightarrow> bool" where
  "page_law sz k rs answer \<longleftrightarrow>
     answer = (take sz (drop (k * sz) rs), if Suc k * sz < length rs then Some (Suc k) else None)"

definition list_law :: "'w cf_client \<Rightarrow> string \<Rightarrow> ('w \<Rightarrow> cf_record list) \<Rightarrow> nat \<Rightarrow> bool" where
  "list_law c zid recs sz \<longleftrightarrow>
     (\<forall>name ty k w. wp (cf_List c zid name ty k)
        (\<lambda>r w'. recs w' = recs w \<and> (\<forall>a. r = Inr a \<longrightarrow> page_law sz k (matching name ty (recs w)) a)) w)"

definition cf_law :: "'w cf_client \<Rightarrow> string \<Rightarrow> string \<Rightarrow> ('w \<Rightarrow> cf_record list) \<Rightarrow> bool" where
  "cf_law c zone zid recs \<longleftrightarrow>
     (\<forall>w. wp (cf_ZoneIDByName c zone) (\<lambda>r w'. recs w' = recs w \<and> (\<forall>i. r = Inr i \<longrightarrow> i = zid)) w)
     \<and> (\<exists>sz>0. list_law c zid recs sz)
     \<and> (\<forall>ty name content w. wp (cf_Create c zid ty name content)
          (\<lambda>r w'. case r of
             Inl e \<Rightarrow> recs w' = recs w
           | Inr x \<Rightarrow> recs w' = recs w @ [x] \<and> cf_Type x = ty \<and> cf_Name x = name \<and> cf_Content x = content
                       \<and> cf_ID x \<notin> cf_ID ` set (recs w)) w)
     \<and> (\<forall>i ty name content w. wp (cf_Update c zid i ty name content)
          (\<lambda>r w'. case r of
             Inl e \<Rightarrow> recs w' = recs w
           | Inr x \<Rightarrow> recs w' = map (\<lambda>y. if cf_ID y = i then y\<lparr>cf_Type := ty, cf_Name := name, cf_Content := content\<rparr> else y) (recs w)) w)
     \<and> (\<forall>i w. wp (cf_Delete c zid i)
          (\<lambda>r w'. recs w' = (if r = None then filter (\<lambda>y. cf_ID y \<noteq> i) (recs w) else recs w)) w)"

section \<open>The calls of the provider\<close>

lemma wp_api: "wp (api m) Q (w, c) = wp m (\<lambda>a w'. Q a (w', c)) w"
  by (simp add: wp_def api_def split: prod.splits)

lemma wp_zoneID:
  assumes "cf_law (cf_client p) zone zid recs" and "c zone = None \<or> c zone = Some zid"
  shows "wp (zoneID p zone) (\<lambda>r s'. recs (fst s') = recs w \<and> (snd s' zone = None \<or> snd s' zone = Some zid)
      \<and> (\<forall>i. r = Inr i \<longrightarrow> i = zid)) (w, c)"
proof (cases "c zone")
  case None
  have z: "wp (cf_ZoneIDByName (cf_client p) zone) (\<lambda>r w'. recs w' = recs w \<and> (\<forall>i. r = Inr i \<longrightarrow> i = zid)) w"
    using assms(1) unfolding cf_law_def by blast
  with None show ?thesis
    by (auto simp: wp_def zoneID_def run_on_err api_def split: prod.splits sum.splits)
next
  case (Some i)
  with assms(2) show ?thesis
    by (simp add: zoneID_def wp_simps)
qed

lemma wp_listAll:
  assumes "cf_law (cf_client p) zone zid recs"
  shows "wp (listAll p zid name ty)
    (\<lambda>r s'. recs (fst s') = recs w \<and> snd s' = c \<and> (\<forall>rs. r = Inr rs \<longrightarrow> rs = matching name ty (recs w))) (w, c)"
proof -
  obtain sz where sz: "0 < sz" and ll: "list_law (cf_client p) zid recs sz"
    using assms unfolding cf_law_def by blast
  have l: "wp (cf_List (cf_client p) zid name ty k)
      (\<lambda>r w'. recs w' = recs w \<and> (\<forall>a. r = Inr a \<longrightarrow> page_law sz k (matching name ty (recs w)) a)) w" for k w
    using ll by (simp add: list_law_def)
  have "wp (list_pages_from n (cf_client p) zid name ty k)
      (\<lambda>r s'. recs (fst s') = recs w \<and> snd s' = c
        \<and> (\<forall>rs. r = Inr rs \<longrightarrow> rs = drop (k * sz) (matching name ty (recs w)))) (w, c)" for n k w
  proof (induction n arbitrary: k w)
    case 0
    show ?case by (simp add: wp_simps)
  next
    case (Suc n)
    let ?M = "matching name ty (recs w)"
    have step: "(case r of
          Inl e \<Rightarrow> wp (ret (Inl e)) Q
        | Inr x \<Rightarrow> wp (case x of (rs, nxt) \<Rightarrow> case nxt of
            None \<Rightarrow> ret (Inr rs)
          | Some k' \<Rightarrow> on_err (list_pages_from n (cf_client p) zid name ty k') (\<lambda>err. ret (Inl err))
              (\<lambda>rest. ret (Inr (rs @ rest)))) Q) (w', c)"
      if "recs w' = recs w \<and> (\<forall>a. r = Inr a \<longrightarrow> page_law sz k ?M a)"
        and Q: "Q = (\<lambda>r s'. recs (fst s') = recs w \<and> snd s' = c \<and> (\<forall>rs. r = Inr rs \<longrightarrow> rs = drop (k * sz) ?M))"
      for r w' Q
    proof (cases r)
      case (Inl e)
      with that show ?thesis by (simp add: wp_simps)
    next
      case (Inr a)
      show ?thesis
      proof (cases "Suc k * sz < length ?M")
        case True
        have "wp (list_pages_from n (cf_client p) zid name ty (Suc k))
            (\<lambda>r s'. recs (fst s') = recs w' \<and> snd s' = c
              \<and> (\<forall>rs. r = Inr rs \<longrightarrow> rs = drop (Suc k * sz) (matching name ty (recs w')))) (w', c)"
          by (rule Suc.IH)
        moreover have "take sz (drop (k * sz) ?M) @ drop (Suc k * sz) ?M = drop (k * sz) ?M"
          by (metis append_take_drop_id drop_drop mult_Suc)
        ultimately show ?thesis
          using True Inr that
          by (simp add: page_law_def wp_simps Q) (erule wp_mono, auto simp: wp_simps split: sum.splits)
      next
        case False
        then have "take sz (drop (k * sz) ?M) = drop (k * sz) ?M"
          by simp
        with False Inr that show ?thesis
          by (simp add: page_law_def wp_simps Q)
      qed
    qed
    show ?case
      unfolding list_pages_from.simps wp_on_err wp_api
      by (rule wp_mono [OF l]) (rule step, simp_all)
  qed
  from this [of "cf_pages p" 0] show ?thesis
    by (simp add: listAll_def)
qed

lemma wp_create:
  assumes "cf_law (cf_client p) zone zid recs"
  shows "wp (create p zid ty name content what)
    (\<lambda>r s'. snd s' = c \<and> (if r = None then \<exists>x. recs (fst s') = recs w @ [x] \<and> cf_Type x = ty \<and> cf_Name x = name
        \<and> cf_Content x = content \<and> cf_ID x \<notin> cf_ID ` set (recs w) else recs (fst s') = recs w)) (w, c)"
proof -
  have l: "wp (cf_Create (cf_client p) zid ty name content)
      (\<lambda>r w'. case r of
         Inl e \<Rightarrow> recs w' = recs w
       | Inr x \<Rightarrow> recs w' = recs w @ [x] \<and> cf_Type x = ty \<and> cf_Name x = name \<and> cf_Content x = content
                   \<and> cf_ID x \<notin> cf_ID ` set (recs w)) w"
    using assms unfolding cf_law_def by blast
  show ?thesis
    unfolding create_def wp_on_err wp_api
    by (rule wp_mono [OF l]) (auto simp: wp_simps split: sum.splits)
qed

definition set_record :: "string \<Rightarrow> string \<Rightarrow> string \<Rightarrow> string \<Rightarrow> cf_record list \<Rightarrow> cf_record list" where
  "set_record i ty name content rs =
     map (\<lambda>y. if cf_ID y = i then y\<lparr>cf_Type := ty, cf_Name := name, cf_Content := content\<rparr> else y) rs"

lemma wp_update:
  assumes "cf_law (cf_client p) zone zid recs"
  shows "wp (update p zid i ty name content what)
    (\<lambda>r s'. snd s' = c \<and> recs (fst s') = (if r = None then set_record i ty name content (recs w) else recs w)) (w, c)"
proof -
  have l: "wp (cf_Update (cf_client p) zid i ty name content)
      (\<lambda>r w'. case r of
         Inl e \<Rightarrow> recs w' = recs w
       | Inr x \<Rightarrow> recs w' = map (\<lambda>y. if cf_ID y = i then y\<lparr>cf_Type := ty, cf_Name := name, cf_Content := content\<rparr> else y) (recs w)) w"
    using assms unfolding cf_law_def by blast
  show ?thesis
    unfolding update_def wp_on_err wp_api
    by (rule wp_mono [OF l]) (auto simp: wp_simps set_record_def split: sum.splits)
qed

lemma wp_delete:
  assumes "cf_law (cf_client p) zone zid recs"
  shows "wp (api (cf_Delete (cf_client p) zid i))
    (\<lambda>r s'. snd s' = c \<and> recs (fst s') = (if r = None then filter (\<lambda>y. cf_ID y \<noteq> i) (recs w) else recs w)) (w, c)"
proof -
  have l: "wp (cf_Delete (cf_client p) zid i)
      (\<lambda>r w'. recs w' = (if r = None then filter (\<lambda>y. cf_ID y \<noteq> i) (recs w) else recs w)) w"
    using assms unfolding cf_law_def by blast
  show ?thesis
    unfolding wp_api by (rule wp_mono [OF l]) simp
qed

section \<open>The zone\<close>

definition elsewhere :: "PDNSRecord \<Rightarrow> cf_record list \<Rightarrow> cf_record list" where
  "elsewhere rec rs = filter (\<lambda>x. cf_Name x \<noteq> pr_Name rec) rs"

text \<open>The records of the type of \<open>rec\<close> at its name, and whether its mark of ownership is there.\<close>

definition mains :: "PDNSRecord \<Rightarrow> cf_record list \<Rightarrow> cf_record list" where
  "mains rec rs = matching (pr_Name rec) (pr_Type rec) rs"

definition marked :: "PDNSRecord \<Rightarrow> cf_record list \<Rightarrow> bool" where
  "marked rec rs \<longleftrightarrow> list_ex (\<lambda>r. cf_Content r = pr_OwnershipTag rec) (matching (pr_Name rec) ''TXT'' rs)"

definition address_record :: "PDNSRecord \<Rightarrow> bool" where
  "address_record rec \<longleftrightarrow> pr_Name rec \<noteq> [] \<and> pr_Type rec \<noteq> [] \<and> pr_Type rec \<noteq> ''TXT''"

lemma marked_iff:
  "address_record rec \<Longrightarrow> marked rec rs
    \<longleftrightarrow> (\<exists>x\<in>set rs. cf_Name x = pr_Name rec \<and> cf_Type x = ''TXT'' \<and> cf_Content x = pr_OwnershipTag rec)"
  by (auto simp: marked_def matching_def address_record_def list_ex_iff)

lemma mains_append: "mains rec (rs @ ys) = mains rec rs @ mains rec ys"
  by (simp add: mains_def matching_def)

lemma filter_map_same:
  "(\<And>y. y \<in> set rs \<Longrightarrow> P (f y) = P y \<and> (P y \<longrightarrow> f y = y)) \<Longrightarrow> filter P (map f rs) = filter P rs"
  by (induction rs) auto

lemma set_record_of_main:
  assumes d: "distinct (map cf_ID rs)" and a: "address_record rec" and m: "mains rec rs = [m]"
  shows "elsewhere rec (set_record (cf_ID m) (pr_Type rec) (pr_Name rec) v rs) = elsewhere rec rs"
    and "map cf_Content (mains rec (set_record (cf_ID m) (pr_Type rec) (pr_Name rec) v rs)) = [v]"
    and "marked rec (set_record (cf_ID m) (pr_Type rec) (pr_Name rec) v rs) = marked rec rs"
    and "cf_Content m = v \<Longrightarrow> set_record (cf_ID m) (pr_Type rec) (pr_Name rec) v rs = rs"
proof -
  let ?f = "\<lambda>y. if y = m then m\<lparr>cf_Content := v\<rparr> else y"
  have "m \<in> set (mains rec rs)"
    by (simp add: m)
  then have mem: "m \<in> set rs" and nm: "cf_Name m = pr_Name rec" and ty: "cf_Type m = pr_Type rec"
    using a by (auto simp: mains_def matching_def address_record_def)
  have only: "y = m" if "y \<in> set rs" "cf_ID y = cf_ID m" for y
    using d that mem by (auto simp: distinct_map dest: inj_onD)
  have same: "m\<lparr>cf_Type := pr_Type rec, cf_Name := pr_Name rec, cf_Content := v\<rparr> = m\<lparr>cf_Content := v\<rparr>"
    using nm ty by (cases m) simp
  have f: "set_record (cf_ID m) (pr_Type rec) (pr_Name rec) v rs = map ?f rs"
    unfolding set_record_def by (rule map_cong [OF refl]) (use only same in auto)
  show "elsewhere rec (set_record (cf_ID m) (pr_Type rec) (pr_Name rec) v rs) = elsewhere rec rs"
    unfolding f elsewhere_def by (rule filter_map_same) (use nm in auto)
  show "map cf_Content (mains rec (set_record (cf_ID m) (pr_Type rec) (pr_Name rec) v rs)) = [v]"
  proof -
    have "mains rec (map ?f rs) = map ?f (mains rec rs)"
      unfolding mains_def matching_def filter_map by (rule arg_cong [where f = "map ?f"], rule filter_cong) auto
    then show ?thesis
      by (simp add: f m)
  qed
  have notxt: "cf_Type m \<noteq> ''TXT''"
    using ty a by (simp add: address_record_def)
  have "matching (pr_Name rec) ''TXT'' (map ?f rs) = matching (pr_Name rec) ''TXT'' rs"
    unfolding matching_def by (rule filter_map_same) (use notxt in auto)
  then show "marked rec (set_record (cf_ID m) (pr_Type rec) (pr_Name rec) v rs) = marked rec rs"
    by (simp add: marked_def f)
  show "set_record (cf_ID m) (pr_Type rec) (pr_Name rec) v rs = rs" if "cf_Content m = v"
    unfolding f by (rule map_idI) (use that in auto)
qed

section \<open>EnsureRecord\<close>

definition ensured :: "PDNSRecord \<Rightarrow> cf_record list \<Rightarrow> bool" where
  "ensured rec rs \<longleftrightarrow> marked rec rs \<and> map cf_Content (mains rec rs) = [pr_Value rec]"

text \<open>What one \<open>EnsureRecord\<close> may do to the records of the zone, with its result.\<close>

definition ensure_effect :: "PDNSRecord \<Rightarrow> cf_record list \<Rightarrow> error option \<Rightarrow> cf_record list \<Rightarrow> bool" where
  "ensure_effect rec rs r rs' \<longleftrightarrow>
     elsewhere rec rs' = elsewhere rec rs \<and> distinct (map cf_ID rs')
     \<and> (mains rec rs \<noteq> [] \<and> \<not> marked rec rs \<longrightarrow> rs' = rs \<and> r \<noteq> None)
     \<and> (r = None \<longrightarrow> ensured rec rs')
     \<and> (ensured rec rs \<longrightarrow> rs' = rs)"

lemma wp_ensure_main:
  assumes law: "cf_law (cf_client p) zone zid recs" and a: "address_record rec" and d: "distinct (map cf_ID (recs w))"
  shows "wp (ensure_main p zid rec (mains rec (recs w)))
    (\<lambda>r s'. snd s' = c \<and> elsewhere rec (recs (fst s')) = elsewhere rec (recs w) \<and> distinct (map cf_ID (recs (fst s')))
      \<and> marked rec (recs (fst s')) = marked rec (recs w)
      \<and> (r = None \<longrightarrow> map cf_Content (mains rec (recs (fst s'))) = [pr_Value rec])
      \<and> (map cf_Content (mains rec (recs w)) = [pr_Value rec] \<longrightarrow> recs (fst s') = recs w)) (w, c)"
proof (cases "mains rec (recs w)")
  case Nil
  have "\<not> list_ex (\<lambda>r. cf_Content r = t) (matching (pr_Name rec) ''TXT'' [x])" if "cf_Type x = pr_Type rec" for x t
    using that a by (auto simp: matching_def address_record_def)
  with Nil a d show ?thesis
    unfolding ensure_main_def
    by (simp, intro wp_mono [OF wp_create [OF law]])
      (auto simp: elsewhere_def marked_def matching_def mains_def address_record_def split: if_splits)
next
  case (Cons m ms)
  show ?thesis
  proof (cases ms)
    case Nil
    with Cons have m: "mains rec (recs w) = [m]" by simp
    note s = set_record_of_main [OF d a m, of "pr_Value rec"]
    have i: "map cf_ID (set_record (cf_ID m) ty nm v rs) = map cf_ID rs" for ty nm v rs
      by (simp add: set_record_def)
    show ?thesis
      unfolding ensure_main_def m
      by (simp, intro wp_mono [OF wp_update [OF law]]) (use s d m in \<open>auto simp: i\<close>)
  next
    case (Cons m' ms')
    with \<open>mains rec (recs w) = m # ms\<close> d show ?thesis
      by (simp add: ensure_main_def wp_simps)
  qed
qed

lemma wp_ensure_marker:
  assumes law: "cf_law (cf_client p) zone zid recs" and a: "address_record rec" and d: "distinct (map cf_ID (recs w))"
  shows "wp (ensureSingleRecord p zid (pr_Name rec) ''TXT'' (pr_OwnershipTag rec))
    (\<lambda>r s'. snd s' = c \<and> elsewhere rec (recs (fst s')) = elsewhere rec (recs w) \<and> distinct (map cf_ID (recs (fst s')))
      \<and> mains rec (recs (fst s')) = mains rec (recs w) \<and> (r = None \<longrightarrow> marked rec (recs (fst s')))) (w, c)" (is "wp _ ?Q _")
proof -
  have cr: "wp (create p zid ''TXT'' (pr_Name rec) (pr_OwnershipTag rec) what) ?Q (w', c)" if "recs w' = recs w" for what w'
    by (rule wp_mono [OF wp_create [OF law]])
      (use a d that in \<open>auto simp: elsewhere_def marked_def matching_def mains_def address_record_def split: if_splits\<close>)
  show ?thesis
    unfolding ensureSingleRecord_def
    apply (rule wp_on_errI [OF wp_listAll [OF law]])
    subgoal for e s1
      using d by (simp add: wp_ret)
    subgoal for x s1
      using cr [of "fst s1"] d by (cases s1) (auto simp: wp_ret marked_def)
    done
qed

text \<open>The second half of \<open>EnsureRecord\<close>, once the name is owned or free.\<close>

lemma wp_ensure_rest:
  assumes law: "cf_law (cf_client p) zone zid recs" and a: "address_record rec" and d: "distinct (map cf_ID (recs w))"
    and ok: "mains rec (recs w) = [] \<or> marked rec (recs w)"
  shows "wp (if_err (ensure_main p zid rec (mains rec (recs w))) (\<lambda>err. ret (Some err))
      (if marked rec (recs w) then ret None
       else if_err (ensureSingleRecord p zid (pr_Name rec) ''TXT'' (pr_OwnershipTag rec))
              (\<lambda>err. ret (Some (wrapf what err))) (ret None)))
    (\<lambda>r s'. snd s' = c \<and> ensure_effect rec (recs w) r (recs (fst s'))) (w, c)" (is "wp _ ?Q _")
  apply (rule wp_if_errI [OF wp_ensure_main [OF law a d]])
  subgoal for e s1
    using ok by (auto simp: wp_ret ensure_effect_def ensured_def)
  subgoal for s1
  proof (cases "marked rec (recs w)")
    case True
    assume "snd s1 = c \<and> elsewhere rec (recs (fst s1)) = elsewhere rec (recs w) \<and> distinct (map cf_ID (recs (fst s1)))
      \<and> marked rec (recs (fst s1)) = marked rec (recs w)
      \<and> (None = None \<longrightarrow> map cf_Content (mains rec (recs (fst s1))) = [pr_Value rec])
      \<and> (map cf_Content (mains rec (recs w)) = [pr_Value rec] \<longrightarrow> recs (fst s1) = recs w)"
    with True show ?thesis
      by (auto simp: wp_ret ensure_effect_def ensured_def)
  next
    case False
    assume e: "snd s1 = c \<and> elsewhere rec (recs (fst s1)) = elsewhere rec (recs w) \<and> distinct (map cf_ID (recs (fst s1)))
      \<and> marked rec (recs (fst s1)) = marked rec (recs w)
      \<and> (None = None \<longrightarrow> map cf_Content (mains rec (recs (fst s1))) = [pr_Value rec])
      \<and> (map cf_Content (mains rec (recs w)) = [pr_Value rec] \<longrightarrow> recs (fst s1) = recs w)"
    have M: "wp (ensureSingleRecord p zid (pr_Name rec) ''TXT'' (pr_OwnershipTag rec))
      (\<lambda>r s'. snd s' = c \<and> elsewhere rec (recs (fst s')) = elsewhere rec (recs (fst s1)) \<and> distinct (map cf_ID (recs (fst s')))
        \<and> mains rec (recs (fst s')) = mains rec (recs (fst s1)) \<and> (r = None \<longrightarrow> marked rec (recs (fst s')))) s1"
      using wp_ensure_marker [OF law a, of "fst s1" c] e by (cases s1) simp
    show ?thesis
      unfolding if_not_P [OF False]
      by (rule wp_if_errI [OF M]) (use e False ok in \<open>auto simp: wp_ret ensure_effect_def ensured_def\<close>)
  qed
  done

lemma wp_ensure_owned:
  assumes law: "cf_law (cf_client p) zone zid recs" and a: "address_record rec" and d: "distinct (map cf_ID (recs w))"
  shows "wp (ensure_owned p zid rec) (\<lambda>r s'. snd s' = c \<and> ensure_effect rec (recs w) r (recs (fst s'))) (w, c)"
    (is "wp _ ?Q _")
proof -
  have fail: "ensure_effect rec (recs w) (Some e) (recs w)" for e
    using d by (simp add: ensure_effect_def)
  show ?thesis
    unfolding ensure_owned_def
    apply (rule wp_on_errI [OF wp_listAll [OF law]])
    subgoal for e s1
      using fail by (simp add: wp_ret)
    subgoal for x s1
      unfolding Let_def
      apply (rule wp_on_errI [OF wp_listAll [OF law, of "pr_Name rec" "pr_Type rec" "fst s1" "snd s1", simplified]])
      subgoal for e s2
        using fail by (simp add: wp_ret)
      subgoal for y s2
        using wp_ensure_rest [OF law a, of "fst s2" "''cloudflare: ensure ownership txt for '' @ pr_Name rec @ '': ''" c] d fail
        by (cases s2) (auto simp: wp_ret marked_def mains_def)
      done
    done
qed

section \<open>DeleteRecord\<close>

text \<open>The records a deletion of \<open>rec\<close> is about: the ones with its value, and its mark.\<close>

definition own_record :: "PDNSRecord \<Rightarrow> cf_record \<Rightarrow> bool" where
  "own_record rec x \<longleftrightarrow> cf_Name x = pr_Name rec
     \<and> (cf_Type x = pr_Type rec \<and> cf_Content x = pr_Value rec
        \<or> cf_Type x = ''TXT'' \<and> cf_Content x = pr_OwnershipTag rec)"

definition delete_effect :: "PDNSRecord \<Rightarrow> cf_record list \<Rightarrow> error option \<Rightarrow> cf_record list \<Rightarrow> bool" where
  "delete_effect rec rs r rs' \<longleftrightarrow>
     (\<exists>gone. rs' = filter (\<lambda>x. x \<notin> gone) rs \<and> (\<forall>x\<in>gone. own_record rec x))
     \<and> (\<not> marked rec rs \<longrightarrow> rs' = rs \<and> r \<noteq> None)
     \<and> (r = None \<longrightarrow> (\<forall>x\<in>set (mains rec rs'). cf_Content x \<noteq> pr_Value rec))"

lemma wp_delete_one:
  assumes law: "cf_law (cf_client p) zone zid recs" and d: "distinct (map cf_ID (recs w))" and x: "x \<in> set (recs w)"
  shows "wp (api (cf_Delete (cf_client p) zid (cf_ID x)))
    (\<lambda>r s'. snd s' = c \<and> recs (fst s') = (if r = None then filter (\<lambda>y. y \<noteq> x) (recs w) else recs w)) (w, c)"
proof -
  have e: "filter (\<lambda>y. cf_ID y \<noteq> cf_ID x) (recs w) = filter (\<lambda>y. y \<noteq> x) (recs w)"
    by (rule filter_cong) (use d x in \<open>auto simp: distinct_map dest: inj_onD\<close>)
  show ?thesis
    using wp_delete [OF law, where i = "cf_ID x" and w = w and c = c] unfolding e .
qed

lemma distinct_filter_ids: "distinct (map cf_ID rs) \<Longrightarrow> distinct (map cf_ID (filter P rs))"
  by (auto simp: distinct_map intro: inj_on_subset)

lemma wp_delete_matching:
  assumes law: "cf_law (cf_client p) zone zid recs" and "distinct (map cf_ID (recs w))" and "set ms \<subseteq> set (recs w)"
    and "distinct ms"
  shows "wp (delete_matching p zid rec ms)
    (\<lambda>r s'. snd s' = c \<and> (\<exists>gone. recs (fst s') = filter (\<lambda>x. x \<notin> gone) (recs w)
        \<and> gone \<subseteq> {m \<in> set ms. cf_Content m = pr_Value rec}
        \<and> (r = None \<longrightarrow> gone = {m \<in> set ms. cf_Content m = pr_Value rec}))) (w, c)"
  using assms(2-)
proof (induction ms arbitrary: w)
  case Nil
  show ?case
    by (simp add: wp_ret)
next
  case (Cons m ms)
  show ?case
  proof (cases "cf_Content m = pr_Value rec")
    case False
    with Cons.IH [of w] Cons.prems show ?thesis
      by (simp add: conj_commute cong: conj_cong) (erule wp_mono, auto)
  next
    case True
    have del: "wp (api (cf_Delete (cf_client p) zid (cf_ID m)))
        (\<lambda>r s'. snd s' = c \<and> recs (fst s') = (if r = None then filter (\<lambda>y. y \<noteq> m) (recs w) else recs w)) (w, c)"
      by (rule wp_delete_one [OF law]) (use Cons.prems in auto)
    have d: "distinct (map cf_ID (filter (\<lambda>y. y \<noteq> m) (recs w)))"
      using Cons.prems(1) by (rule distinct_filter_ids)
    show ?thesis
      unfolding delete_matching.simps
      apply (simp only: True simp_thms if_False)
      apply (rule wp_if_errI [OF del])
      subgoal for e s1
        by (simp add: wp_ret) (rule exI [of _ "{}"], simp)
      subgoal for s1
        apply (rule wp_mono [where R = "\<lambda>r s'. snd s' = c \<and> (\<exists>gone. recs (fst s') = filter (\<lambda>x. x \<notin> gone) (recs (fst s1))
            \<and> gone \<subseteq> {m \<in> set ms. cf_Content m = pr_Value rec}
            \<and> (r = None \<longrightarrow> gone = {m \<in> set ms. cf_Content m = pr_Value rec}))"])
        subgoal
          using Cons.IH [of "fst s1"] Cons.prems d by (cases s1) auto
        subgoal for r s2
          apply (elim conjE exE)
          subgoal for gone
            by (intro conjI exI [of _ "insert m gone"]) (use True Cons.prems in \<open>auto simp: conj_commute\<close>)
          done
        done
      done
  qed
qed

lemma delete_effectI:
  assumes "rs' = filter (\<lambda>x. x \<notin> gone) rs" "\<forall>x\<in>gone. own_record rec x" "marked rec rs"
    and "r = None \<Longrightarrow> \<forall>x\<in>set (mains rec rs'). cf_Content x \<noteq> pr_Value rec"
  shows "delete_effect rec rs r rs'"
  using assms by (auto simp: delete_effect_def)

lemma own_main:
  "address_record rec \<Longrightarrow> x \<in> set (mains rec rs) \<Longrightarrow> cf_Content x = pr_Value rec \<Longrightarrow> own_record rec x"
  by (auto simp: mains_def matching_def own_record_def address_record_def)

text \<open>The end of a deletion, with the mark \<open>o\<close> found.\<close>

lemma wp_delete_rest:
  assumes law: "cf_law (cf_client p) zone zid recs" and a: "address_record rec" and d: "distinct (map cf_ID (recs w))"
    and mk: "mk \<in> set (recs w)" "own_record rec mk" "cf_Type mk = ''TXT''" and m: "marked rec (recs w)"
  shows "wp (if_err (delete_matching p zid rec (mains rec (recs w))) (\<lambda>err. ret (Some err)) (delete_marker p zid rec mk))
    (\<lambda>r s'. snd s' = c \<and> delete_effect rec (recs w) r (recs (fst s'))) (w, c)"
proof -
  have ms: "set (mains rec (recs w)) \<subseteq> set (recs w)" "distinct (mains rec (recs w))"
    using d by (auto simp: mains_def matching_def distinct_map)
  have own: "\<forall>x\<in>gone. own_record rec x" if "gone \<subseteq> {x \<in> set (mains rec (recs w)). cf_Content x = pr_Value rec}" for gone
    using that own_main [OF a] by blast
  have ty: "cf_Type x \<noteq> ''TXT''" if "x \<in> set (mains rec (recs w))" for x
    using that a by (auto simp: mains_def matching_def address_record_def)
  show ?thesis
    apply (rule wp_if_errI [OF wp_delete_matching [OF law d ms]])
    subgoal for e s1
      apply (elim conjE exE)
      subgoal for gone
        using own [of gone] m by (simp add: wp_ret) (rule delete_effectI [where gone = gone], auto)
      done
    subgoal for s1
      apply (elim conjE exE)
      subgoal for gone
        apply (cases s1)
        apply (simp add: delete_marker_def)
        apply (rule wp_if_errI [OF wp_delete_one [OF law]])
        subgoal
          by (simp add: distinct_filter_ids [OF d])
        subgoal
          using mk ty by auto
        subgoal for w1 e s2
          using own [of gone] m by (simp add: wp_ret) (rule delete_effectI [where gone = gone], auto)
        subgoal for w1 s2
          using own [of gone] mk m ty
          by (simp add: wp_ret)
            (rule delete_effectI [where gone = "insert mk gone"], auto intro!: filter_cong simp: mains_def matching_def)
        done
      done
    done
qed

lemma wp_delete_owned:
  assumes law: "cf_law (cf_client p) zone zid recs" and a: "address_record rec" and d: "distinct (map cf_ID (recs w))"
  shows "wp (delete_owned p zid rec) (\<lambda>r s'. snd s' = c \<and> delete_effect rec (recs w) r (recs (fst s'))) (w, c)"
    (is "wp _ ?Q _")
proof -
  have fail: "delete_effect rec (recs w) (Some e) (recs w)" for e
    by (auto simp: delete_effect_def intro!: exI [of _ "{}"])
  have nt: "(pr_Type rec = ''TXT'') = False"
    using a by (simp add: address_record_def)
  have rest: "wp (on_err (listAll p zid (pr_Name rec) (pr_Type rec))
      (\<lambda>err. ret (Some (wrapf what err)))
      (\<lambda>mainRecords. if_err (delete_matching p zid rec mainRecords) (\<lambda>err. ret (Some err)) (delete_marker p zid rec mk))) ?Q (w1, c)"
    if w1: "recs w1 = recs w" and mk: "List.find (\<lambda>r. cf_Content r = pr_OwnershipTag rec) (matching (pr_Name rec) ''TXT'' (recs w)) = Some mk"
    for w1 mk what
  proof -
    have "mk \<in> set (matching (pr_Name rec) ''TXT'' (recs w))" "cf_Content mk = pr_OwnershipTag rec"
      using find_SomeD [OF mk] by auto
    then have m: "mk \<in> set (recs w)" "own_record rec mk" "cf_Type mk = ''TXT''" "marked rec (recs w)"
      using a by (auto simp: matching_def own_record_def address_record_def marked_iff)
    show ?thesis
      apply (rule wp_on_errI [OF wp_listAll [OF law]])
      subgoal for e s1
        using fail w1 by (simp add: wp_ret)
      subgoal for x s1
        using wp_delete_rest [OF law a, of "fst s1" mk c] m d w1 by (cases s1) (simp add: mains_def)
      done
  qed
  show ?thesis
    unfolding delete_owned_def Let_def nt if_False not_False_eq_True if_True
    apply (rule wp_on_errI [OF wp_listAll [OF law]])
    subgoal for e s1
      using fail by (simp add: wp_ret)
    subgoal for x s1
    proof (cases "List.find (\<lambda>r. cf_Content r = pr_OwnershipTag rec) x")
      case None
      assume l: "recs (fst s1) = recs w \<and> snd s1 = c \<and> (\<forall>rs. Inr x = Inr rs \<longrightarrow> rs = matching (pr_Name rec) ''TXT'' (recs w))"
      with None have "\<not> marked rec (recs w)"
        by (auto simp: marked_def list_ex_iff find_None_iff)
      with None fail l show ?thesis
        by (simp add: wp_ret)
    next
      case (Some mk)
      assume "recs (fst s1) = recs w \<and> snd s1 = c \<and> (\<forall>rs. Inr x = Inr rs \<longrightarrow> rs = matching (pr_Name rec) ''TXT'' (recs w))"
      with Some rest [of "fst s1" mk] show ?thesis
        by (cases s1) simp
    qed
    done
qed

section \<open>The methods\<close>

definition cache_ok :: "string \<Rightarrow> string \<Rightarrow> 'w cf_world \<Rightarrow> bool" where
  "cache_ok zone zid s \<longleftrightarrow> snd s zone = None \<or> snd s zone = Some zid"

lemma wp_in_zone:
  assumes law: "cf_law (cf_client p) zone zid recs" and c: "cache_ok zone zid s"
    and e: "\<And>e. E (recs (fst s)) (Some e) (recs (fst s))"
    and k: "\<And>w c. recs w = recs (fst s) \<Longrightarrow> wp (k zid) (\<lambda>r s'. snd s' = c \<and> E (recs w) r (recs (fst s'))) (w, c)"
  shows "wp (on_err (zoneID p zone) (\<lambda>err. ret (Some (wrapf what err))) k)
    (\<lambda>r s'. cache_ok zone zid s' \<and> E (recs (fst s)) r (recs (fst s'))) s"
proof -
  have "wp (on_err (zoneID p zone) (\<lambda>err. ret (Some (wrapf what err))) k)
    (\<lambda>r s'. cache_ok zone zid s' \<and> E (recs (fst s)) r (recs (fst s'))) (fst s, snd s)"
    apply (rule wp_on_errI [OF wp_zoneID [OF law, where c = "snd s"]])
    subgoal
      using c by (simp add: cache_ok_def)
    subgoal for err s1
      using e by (simp add: wp_ret cache_ok_def)
    subgoal for i s1
      using wp_mono [OF k [of "fst s1" "snd s1"]] by (cases s1) (auto simp: cache_ok_def)
    done
  then show ?thesis by simp
qed

lemma wp_cf_EnsureRecord:
  assumes "cf_law (cf_client p) (pr_Zone rec) zid recs" "address_record rec" "distinct (map cf_ID (recs (fst s)))"
    "cache_ok (pr_Zone rec) zid s"
  shows "wp (cf_EnsureRecord p rec)
    (\<lambda>r s'. cache_ok (pr_Zone rec) zid s' \<and> ensure_effect rec (recs (fst s)) r (recs (fst s'))) s"
proof -
  have nt: "(pr_Type rec = ''TXT'') = False"
    using assms(2) by (simp add: address_record_def)
  show ?thesis
    unfolding cf_EnsureRecord_def nt if_False
    apply (rule wp_in_zone [where E = "ensure_effect rec", OF assms(1,4)])
    subgoal
      using assms(3) by (simp add: ensure_effect_def)
    subgoal for w c
      using wp_ensure_owned [OF assms(1,2), of w c] assms(3) by simp
    done
qed

lemma wp_cf_DeleteRecord:
  assumes "cf_law (cf_client p) (pr_Zone rec) zid recs" "address_record rec" "distinct (map cf_ID (recs (fst s)))"
    "cache_ok (pr_Zone rec) zid s"
  shows "wp (cf_DeleteRecord p rec)
    (\<lambda>r s'. cache_ok (pr_Zone rec) zid s' \<and> delete_effect rec (recs (fst s)) r (recs (fst s'))) s"
  unfolding cf_DeleteRecord_def
  apply (rule wp_in_zone [where E = "delete_effect rec", OF assms(1,4)])
  subgoal
    by (auto simp: delete_effect_def intro!: exI [of _ "{}"])
  subgoal for w c
    using wp_delete_owned [OF assms(1,2), of w c] assms(3) by simp
  done

section \<open>Properties\<close>



section \<open>A client that obeys the law\<close>

definition mem_client :: "cf_record list cf_client" where
  "mem_client =
     \<lparr>cf_ZoneIDByName = (\<lambda>z. ret (Inr ''zid'')),
      cf_Create = (\<lambda>zid ty name content. State (\<lambda>rs.
        let x = \<lparr>cf_ID = CHR ''i'' # concat (map cf_ID rs), cf_Type = ty, cf_Name = name, cf_Content = content\<rparr>
        in (Inr x, rs @ [x]))),
      cf_List = (\<lambda>zid name ty k. State (\<lambda>rs.
        let m = matching name ty rs
        in (Inr (take 100 (drop (k * 100) m), if Suc k * 100 < length m then Some (Suc k) else None), rs))),
      cf_Update = (\<lambda>zid i ty name content. State (\<lambda>rs.
        (Inr \<lparr>cf_ID = i, cf_Type = ty, cf_Name = name, cf_Content = content\<rparr>, set_record i ty name content rs))),
      cf_Delete = (\<lambda>zid i. State (\<lambda>rs. (None, filter (\<lambda>y. cf_ID y \<noteq> i) rs)))\<rparr>"

lemma long_id: "x \<in> set rs \<Longrightarrow> length (cf_ID x) < length (CHR ''i'' # concat (map cf_ID rs))"
  by (induction rs) auto

lemma mem_client_law: "cf_law mem_client zone ''zid'' (\<lambda>rs. rs)"
proof -
  have "cf_ID x \<noteq> CHR ''i'' # concat (map cf_ID rs)" if "x \<in> set rs" for x and rs :: "cf_record list"
    using long_id [OF that] by auto
  then have "CHR ''i'' # concat (map cf_ID rs) \<notin> cf_ID ` set rs" for rs :: "cf_record list"
    by (metis imageE)
  moreover have "list_law mem_client ''zid'' (\<lambda>rs. rs) 100"
    by (simp add: list_law_def mem_client_def wp_def Let_def page_law_def)
  then have "\<exists>sz>0. list_law mem_client ''zid'' (\<lambda>rs. rs) sz"
    by (intro exI [of _ 100]) simp
  ultimately show ?thesis
    unfolding cf_law_def by (simp add: mem_client_def wp_def Let_def set_record_def)
qed

definition ex_cf :: "cf_record list Cloudflare" where
  "ex_cf = newWithClient mem_client 5"

definition ex_dns_record :: PDNSRecord where
  "ex_dns_record = \<lparr>pr_Zone = ''dev'', pr_Name = ''b.dev'', pr_Type = ''A'', pr_Value = ''1.2.3.4'', pr_OwnershipTag = ''ramify-x''\<rparr>"

definition ex_foreign :: "cf_record list" where
  "ex_foreign = [\<lparr>cf_ID = ''1'', cf_Type = ''A'', cf_Name = ''b.dev'', cf_Content = ''9.9.9.9''\<rparr>]"

lemma ex_cf_law: "cf_law (cf_client ex_cf) (pr_Zone ex_dns_record) ''zid'' (\<lambda>rs. rs)"
  by (simp add: ex_cf_def newWithClient_def mem_client_law)

lemma ex_address: "address_record ex_dns_record"
  by (simp add: address_record_def ex_dns_record_def)



end
