(* ===== verification/Git_Providers.thy ===== *)
theory Git_Providers
  imports Event_Payload Sha256 Go_Text Program_Logic
begin

unbundle bit_operations_syntax

text \<open>
  \<open>providers/git\<close>: how GitHub, GitLab and Bitbucket deliveries are authenticated and mapped to an
  event. The HMAC is computed; a payload is read with the parser of \<open>Go_Json\<close> and decoded into the
  fields each provider declares. The error of a malformed payload keeps no more than that.
\<close>

section \<open>HMAC\<close>

text \<open>\<open>crypto/hmac\<close> over SHA-256 (FIPS 198-1).\<close>

definition xor_byte :: "nat \<Rightarrow> char \<Rightarrow> char" where
  "xor_byte pad c = char_of (unat ((of_nat (byte c) :: 8 word) XOR of_nat pad))"

definition hmac_key :: "string \<Rightarrow> string" where
  "hmac_key key =
     (let k = (if length key > 64 then map char_of (Sum256 key) else key)
      in k @ replicate (64 - length k) (CHR 0x00))"

definition hmac_sha256 :: "string \<Rightarrow> string \<Rightarrow> nat list" where
  "hmac_sha256 key message =
     (let k = hmac_key key
      in Sum256 (map (xor_byte 0x5c) k @ map char_of (Sum256 (map (xor_byte 0x36) k @ message))))"

section \<open>Decoding into nested structs\<close>

definition members :: "string \<Rightarrow> (string \<times> json) list \<Rightarrow> json list" where
  "members name ms = map snd (filter (\<lambda>(k, v). fold_name k = fold_name name) ms)"

text \<open>Every member of a field's name decodes into what the field holds by then.\<close>

definition decode_into :: "('a \<Rightarrow> json \<Rightarrow> 'a option) \<Rightarrow> string \<Rightarrow> (string \<times> json) list \<Rightarrow> 'a \<Rightarrow> 'a option" where
  "decode_into dec name ms a = fold (\<lambda>v acc. Option.bind acc (\<lambda>x. dec x v)) (members name ms) (Some a)"

fun into_string :: "string \<Rightarrow> json \<Rightarrow> string option" where
  "into_string a JNull = Some a"
| "into_string a v = decode_string v"

fun into_int :: "int \<Rightarrow> json \<Rightarrow> int option" where
  "into_int a JNull = Some a"
| "into_int a v = decode_int v"

fun into_bool :: "bool \<Rightarrow> json \<Rightarrow> bool option" where
  "into_bool a JNull = Some a"
| "into_bool a v = decode_bool v"

fun into_struct :: "((string \<times> json) list \<Rightarrow> 'a \<Rightarrow> 'a option) \<Rightarrow> 'a \<Rightarrow> json \<Rightarrow> 'a option" where
  "into_struct f a JNull = Some a"
| "into_struct f a (JObj ms) = f ms a"
| "into_struct f a _ = None"

fun into_pointer :: "('a \<Rightarrow> json \<Rightarrow> 'a option) \<Rightarrow> 'a \<Rightarrow> 'a option \<Rightarrow> json \<Rightarrow> 'a option option" where
  "into_pointer dec zero a JNull = Some None"
| "into_pointer dec zero a v = map_option Some (dec (case a of None \<Rightarrow> zero | Some x \<Rightarrow> x) v)"

fun into_slice :: "('a \<Rightarrow> json \<Rightarrow> 'a option) \<Rightarrow> 'a \<Rightarrow> 'a list \<Rightarrow> json \<Rightarrow> 'a list option" where
  "into_slice dec zero a JNull = Some []"
| "into_slice dec zero a (JArr vs) = those (map (dec zero) vs)"
| "into_slice dec zero a _ = None"

text \<open>One string field of a nested object.\<close>

definition field_of :: "string \<Rightarrow> string \<Rightarrow> json \<Rightarrow> string option" where
  "field_of name = into_struct (decode_into into_string name)"

section \<open>GitHub\<close>

record gh_pull =
  gh_Number :: int
  gh_HeadRef :: string
  gh_HeadSHA :: string
  gh_Labels :: "string list"

record gh_payload =
  gh_Ref :: "string option"
  gh_Deleted :: "bool option"
  gh_After :: "string option"
  gh_Action :: "string option"
  gh_FullName :: string
  gh_PullRequest :: "gh_pull option"

definition decode_gh_head :: "(string \<times> json) list \<Rightarrow> gh_pull \<Rightarrow> gh_pull option" where
  "decode_gh_head ms p =
     Option.bind (decode_into into_string ''ref'' ms (gh_HeadRef p)) (\<lambda>ref.
     Option.bind (decode_into into_string ''sha'' ms (gh_HeadSHA p)) (\<lambda>sha.
       Some (p\<lparr>gh_HeadRef := ref, gh_HeadSHA := sha\<rparr>)))"

definition decode_gh_pull :: "(string \<times> json) list \<Rightarrow> gh_pull \<Rightarrow> gh_pull option" where
  "decode_gh_pull ms p =
     Option.bind (decode_into into_int ''number'' ms (gh_Number p)) (\<lambda>n.
     Option.bind (decode_into (into_struct decode_gh_head) ''head'' ms (p\<lparr>gh_Number := n\<rparr>)) (\<lambda>p1.
     Option.bind (decode_into (into_slice (field_of ''name'') []) ''labels'' ms (gh_Labels p)) (\<lambda>ls.
       Some (p1\<lparr>gh_Labels := ls\<rparr>))))"

definition zero_gh_pull :: gh_pull where
  "zero_gh_pull = \<lparr>gh_Number = 0, gh_HeadRef = [], gh_HeadSHA = [], gh_Labels = []\<rparr>"

definition decode_gh :: "(string \<times> json) list \<Rightarrow> gh_payload option" where
  "decode_gh ms =
     Option.bind (decode_into (into_pointer into_string []) ''ref'' ms None) (\<lambda>ref.
     Option.bind (decode_into (into_pointer into_bool False) ''deleted'' ms None) (\<lambda>deleted.
     Option.bind (decode_into (into_pointer into_string []) ''after'' ms None) (\<lambda>after.
     Option.bind (decode_into (into_pointer into_string []) ''action'' ms None) (\<lambda>action.
     Option.bind (decode_into (into_struct (decode_into into_string ''full_name'')) ''repository'' ms []) (\<lambda>fullName.
     Option.bind (decode_into (into_pointer (into_struct decode_gh_pull) zero_gh_pull) ''pull_request'' ms None) (\<lambda>pr.
       Some \<lparr>gh_Ref = ref, gh_Deleted = deleted, gh_After = after, gh_Action = action, gh_FullName = fullName,
             gh_PullRequest = pr\<rparr>))))))"

definition gh_ErrInvalidSignature :: error where
  "gh_ErrInvalidSignature = wrapf ''github: invalid webhook signature: '' ErrInvalidWebhookSignature"

definition gh_ErrUnhandledEvent :: error where
  "gh_ErrUnhandledEvent = wrapf ''github: unhandled webhook event: '' ErrUnhandledWebhookEvent"

definition gh_parsePullRequestPayload :: "gh_payload \<Rightarrow> gh_pull \<Rightarrow> error + Event" where
  "gh_parsePullRequestPayload pl pr =
     (let action = (case gh_Action pl of None \<Rightarrow> [] | Some a \<Rightarrow> a);
          event = (\<lambda>kind. \<lparr>pe_Kind = kind, pe_Project = gh_FullName pl, pe_Branch = gh_HeadRef pr, pe_PRNumber = gh_Number pr,
                     pe_Artifact = gh_HeadSHA pr, pe_Labels = gh_Labels pr, pe_LabelsKnown = True\<rparr>)
      in if action = ''opened'' \<or> action = ''reopened'' \<or> action = ''synchronize'' then Inr (event ''pr_synchronized'')
         else if action = ''closed'' then Inr (event ''pr_closed'')
         else Inl (Wrap ''github: '' gh_ErrUnhandledEvent ('': pull_request action '' @ Quote action)))"

abbreviation branchRefPrefix :: string where "branchRefPrefix \<equiv> ''refs/heads/''"

definition gh_parseRefPayload :: "gh_payload \<Rightarrow> string \<Rightarrow> error + Event" where
  "gh_parseRefPayload pl ref =
     (if \<not> HasPrefix ref branchRefPrefix then
        Inl (Wrap ''github: '' gh_ErrUnhandledEvent ('': ref '' @ Quote ref @ '' is not a branch''))
      else
        (let branch = TrimPrefix ref branchRefPrefix
         in if gh_Deleted pl = Some True then
              Inr (empty_Event\<lparr>pe_Kind := ''branch_deleted'', pe_Project := gh_FullName pl, pe_Branch := branch\<rparr>)
            else
              Inr (empty_Event\<lparr>pe_Kind := ''branch_pushed'', pe_Project := gh_FullName pl, pe_Branch := branch,
                     pe_Artifact := (case gh_After pl of None \<Rightarrow> [] | Some a \<Rightarrow> a)\<rparr>)))"

definition gh_parsePayload :: "bytes \<Rightarrow> error + Event" where
  "gh_parsePayload payload =
     (case unmarshal_struct decode_gh payload of
        None \<Rightarrow> Inl (wrapf ''github: parsing webhook payload: '' invalid_json)
      | Some pl \<Rightarrow>
          (case gh_PullRequest pl of
             Some pr \<Rightarrow> gh_parsePullRequestPayload pl pr
           | None \<Rightarrow>
               (case gh_Ref pl of
                  Some ref \<Rightarrow> gh_parseRefPayload pl ref
                | None \<Rightarrow> Inl (Wrap ''github: '' gh_ErrUnhandledEvent '': payload has neither pull_request nor ref''))))"

definition gh_verifySignature :: "string \<Rightarrow> bytes \<Rightarrow> string \<Rightarrow> bool" where
  "gh_verifySignature secret payload signature =
     (case DecodeString (TrimPrefix signature ''sha256='') of
        None \<Rightarrow> False
      | Some want \<Rightarrow> want = hmac_sha256 secret payload)"

definition gh_ParseWebhook :: "string \<Rightarrow> bytes \<Rightarrow> string \<Rightarrow> error + Event" where
  "gh_ParseWebhook secret payload signature =
     (if \<not> gh_verifySignature secret payload signature then Inl gh_ErrInvalidSignature
      else gh_parsePayload payload)"

section \<open>GitLab\<close>

record gl_payload =
  gl_ObjectKind :: string
  gl_Ref :: string
  gl_After :: string
  gl_Project :: string
  gl_Action :: string
  gl_State :: string
  gl_IID :: int
  gl_SourceBranch :: string
  gl_LastCommit :: string
  gl_Labels :: "string list"

definition zero_gl :: gl_payload where
  "zero_gl = \<lparr>gl_ObjectKind = [], gl_Ref = [], gl_After = [], gl_Project = [], gl_Action = [], gl_State = [], gl_IID = 0,
     gl_SourceBranch = [], gl_LastCommit = [], gl_Labels = []\<rparr>"

definition decode_gl_attributes :: "(string \<times> json) list \<Rightarrow> gl_payload \<Rightarrow> gl_payload option" where
  "decode_gl_attributes ms p =
     Option.bind (decode_into into_string ''action'' ms (gl_Action p)) (\<lambda>action.
     Option.bind (decode_into into_string ''state'' ms (gl_State p)) (\<lambda>st.
     Option.bind (decode_into into_int ''iid'' ms (gl_IID p)) (\<lambda>iid.
     Option.bind (decode_into into_string ''source_branch'' ms (gl_SourceBranch p)) (\<lambda>branch.
     Option.bind (decode_into (into_struct (decode_into into_string ''id'')) ''last_commit'' ms (gl_LastCommit p)) (\<lambda>commit.
       Some (p\<lparr>gl_Action := action, gl_State := st, gl_IID := iid, gl_SourceBranch := branch, gl_LastCommit := commit\<rparr>))))))"

definition decode_gl :: "(string \<times> json) list \<Rightarrow> gl_payload option" where
  "decode_gl ms =
     Option.bind (decode_into into_string ''object_kind'' ms []) (\<lambda>kind.
     Option.bind (decode_into into_string ''ref'' ms []) (\<lambda>ref.
     Option.bind (decode_into into_string ''after'' ms []) (\<lambda>after.
     Option.bind (decode_into (into_struct (decode_into into_string ''path_with_namespace'')) ''project'' ms []) (\<lambda>project.
     Option.bind (decode_into (into_struct decode_gl_attributes) ''object_attributes'' ms zero_gl) (\<lambda>p.
     Option.bind (decode_into (into_slice (field_of ''title'') []) ''labels'' ms []) (\<lambda>labels.
       Some (p\<lparr>gl_ObjectKind := kind, gl_Ref := ref, gl_After := after, gl_Project := project, gl_Labels := labels\<rparr>)))))))"

definition gl_ErrInvalidSignature :: error where
  "gl_ErrInvalidSignature = wrapf ''gitlab: invalid webhook signature: '' ErrInvalidWebhookSignature"

definition gl_ErrUnhandledEvent :: error where
  "gl_ErrUnhandledEvent = wrapf ''gitlab: unhandled webhook event: '' ErrUnhandledWebhookEvent"

text \<open>The commit of a push that deleted its branch: forty zeros.\<close>

definition deletedSHA :: string where
  "deletedSHA = replicate 40 (CHR ''0'')"

definition gl_parseMergeRequestPayload :: "gl_payload \<Rightarrow> error + Event" where
  "gl_parseMergeRequestPayload pl =
     (if gl_State pl = ''merged'' \<or> gl_State pl = ''closed'' \<or> gl_Action pl = ''close'' \<or> gl_Action pl = ''merge'' then
        Inr (empty_Event\<lparr>pe_Kind := ''pr_closed'', pe_Project := gl_Project pl, pe_Branch := gl_SourceBranch pl,
               pe_PRNumber := gl_IID pl\<rparr>)
      else if gl_Action pl = ''open'' \<or> gl_Action pl = ''reopen'' \<or> gl_Action pl = ''update'' then
        Inr \<lparr>pe_Kind = ''pr_synchronized'', pe_Project = gl_Project pl, pe_Branch = gl_SourceBranch pl,
             pe_PRNumber = gl_IID pl, pe_Artifact = gl_LastCommit pl, pe_Labels = gl_Labels pl, pe_LabelsKnown = True\<rparr>
      else Inl (Wrap ''gitlab: '' gl_ErrUnhandledEvent ('': merge_request action '' @ Quote (gl_Action pl))))"

definition gl_parsePushPayload :: "gl_payload \<Rightarrow> error + Event" where
  "gl_parsePushPayload pl =
     (if \<not> HasPrefix (gl_Ref pl) branchRefPrefix then
        Inl (Wrap ''gitlab: '' gl_ErrUnhandledEvent ('': ref '' @ Quote (gl_Ref pl) @ '' is not a branch''))
      else
        (let branch = TrimPrefix (gl_Ref pl) branchRefPrefix
         in if gl_After pl = deletedSHA then
              Inr (empty_Event\<lparr>pe_Kind := ''branch_deleted'', pe_Project := gl_Project pl, pe_Branch := branch\<rparr>)
            else if gl_After pl = [] then
              Inl (Wrap ''gitlab: '' gl_ErrUnhandledEvent '': push payload has no after commit'')
            else
              Inr (empty_Event\<lparr>pe_Kind := ''branch_pushed'', pe_Project := gl_Project pl, pe_Branch := branch,
                     pe_Artifact := gl_After pl\<rparr>)))"

definition gl_parsePayload :: "bytes \<Rightarrow> error + Event" where
  "gl_parsePayload payload =
     (case unmarshal_struct decode_gl payload of
        None \<Rightarrow> Inl (wrapf ''gitlab: parsing webhook payload: '' invalid_json)
      | Some pl \<Rightarrow>
          if gl_ObjectKind pl = ''merge_request'' then gl_parseMergeRequestPayload pl
          else if gl_ObjectKind pl = ''push'' then gl_parsePushPayload pl
          else Inl (Wrap ''gitlab: '' gl_ErrUnhandledEvent ('': object_kind '' @ Quote (gl_ObjectKind pl))))"

definition gl_verifySignature :: "string \<Rightarrow> string \<Rightarrow> bool" where
  "gl_verifySignature secret signature = (if length secret = 0 then False else signature = secret)"

definition gl_ParseWebhook :: "string \<Rightarrow> bytes \<Rightarrow> string \<Rightarrow> error + Event" where
  "gl_ParseWebhook secret payload signature =
     (if \<not> gl_verifySignature secret signature then Inl gl_ErrInvalidSignature else gl_parsePayload payload)"

section \<open>Bitbucket\<close>

record changeRef =
  ch_Type :: string
  ch_Name :: string
  ch_Target :: string

record bb_pull =
  bb_ID :: int
  bb_State :: string
  bb_Branch :: string
  bb_Commit :: string

record bb_payload =
  bb_FullName :: string
  bb_Changes :: "(changeRef option \<times> changeRef option) list"
  bb_PullRequest :: "bb_pull option"

definition zero_changeRef :: changeRef where
  "zero_changeRef = \<lparr>ch_Type = [], ch_Name = [], ch_Target = []\<rparr>"

definition decode_changeRef :: "(string \<times> json) list \<Rightarrow> changeRef \<Rightarrow> changeRef option" where
  "decode_changeRef ms r =
     Option.bind (decode_into into_string ''type'' ms (ch_Type r)) (\<lambda>ty.
     Option.bind (decode_into into_string ''name'' ms (ch_Name r)) (\<lambda>name.
     Option.bind (decode_into (into_struct (decode_into into_string ''hash'')) ''target'' ms (ch_Target r)) (\<lambda>target.
       Some \<lparr>ch_Type = ty, ch_Name = name, ch_Target = target\<rparr>)))"

definition decode_change ::
  "(string \<times> json) list \<Rightarrow> changeRef option \<times> changeRef option \<Rightarrow> (changeRef option \<times> changeRef option) option" where
  "decode_change ms c =
     Option.bind (decode_into (into_pointer (into_struct decode_changeRef) zero_changeRef) ''new'' ms (fst c)) (\<lambda>new.
     Option.bind (decode_into (into_pointer (into_struct decode_changeRef) zero_changeRef) ''old'' ms (snd c)) (\<lambda>old.
       Some (new, old)))"

definition decode_bb_source :: "(string \<times> json) list \<Rightarrow> bb_pull \<Rightarrow> bb_pull option" where
  "decode_bb_source ms p =
     Option.bind (decode_into (into_struct (decode_into into_string ''name'')) ''branch'' ms (bb_Branch p)) (\<lambda>branch.
     Option.bind (decode_into (into_struct (decode_into into_string ''hash'')) ''commit'' ms (bb_Commit p)) (\<lambda>commit.
       Some (p\<lparr>bb_Branch := branch, bb_Commit := commit\<rparr>)))"

definition decode_bb_pull :: "(string \<times> json) list \<Rightarrow> bb_pull \<Rightarrow> bb_pull option" where
  "decode_bb_pull ms p =
     Option.bind (decode_into into_int ''id'' ms (bb_ID p)) (\<lambda>i.
     Option.bind (decode_into into_string ''state'' ms (bb_State p)) (\<lambda>st.
       decode_into (into_struct decode_bb_source) ''source'' ms (p\<lparr>bb_ID := i, bb_State := st\<rparr>)))"

definition zero_bb_pull :: bb_pull where
  "zero_bb_pull = \<lparr>bb_ID = 0, bb_State = [], bb_Branch = [], bb_Commit = []\<rparr>"

definition decode_bb :: "(string \<times> json) list \<Rightarrow> bb_payload option" where
  "decode_bb ms =
     Option.bind (decode_into (into_struct (decode_into into_string ''full_name'')) ''repository'' ms []) (\<lambda>fullName.
     Option.bind (decode_into (into_struct (decode_into (into_slice (into_struct decode_change) (None, None)) ''changes''))
                    ''push'' ms []) (\<lambda>changes.
     Option.bind (decode_into (into_pointer (into_struct decode_bb_pull) zero_bb_pull) ''pullrequest'' ms None) (\<lambda>pr.
       Some \<lparr>bb_FullName = fullName, bb_Changes = changes, bb_PullRequest = pr\<rparr>)))"

definition bb_ErrInvalidSignature :: error where
  "bb_ErrInvalidSignature = wrapf ''bitbucket: invalid webhook signature: '' ErrInvalidWebhookSignature"

definition bb_ErrUnhandledEvent :: error where
  "bb_ErrUnhandledEvent = wrapf ''bitbucket: unhandled webhook event: '' ErrUnhandledWebhookEvent"

text \<open>\<open>strings.ToUpper\<close>, of which only equality with an ASCII text matters.\<close>

definition upper_byte :: "char \<Rightarrow> char" where
  "upper_byte c = (if is_lower c then char_of (byte c - (32 :: nat)) else c)"

fun ToUpperASCII :: "string \<Rightarrow> string" where
  "ToUpperASCII [] = []"
| "ToUpperASCII (c # s) =
     (if c = CHR 0xC5 \<and> s \<noteq> [] \<and> hd s = CHR 0xBF then CHR ''S'' # ToUpperASCII (drop 1 s)
      else if c = CHR 0xC4 \<and> s \<noteq> [] \<and> hd s = CHR 0xB1 then CHR ''I'' # ToUpperASCII (drop 1 s)
      else upper_byte c # ToUpperASCII s)"

definition bb_parsePullRequestPayload :: "bb_payload \<Rightarrow> bb_pull \<Rightarrow> error + Event" where
  "bb_parsePullRequestPayload pl pr =
     (let st = ToUpperASCII (bb_State pr);
          event = (\<lambda>kind. empty_Event\<lparr>pe_Kind := kind, pe_Project := bb_FullName pl, pe_Branch := bb_Branch pr,
                     pe_PRNumber := bb_ID pr, pe_Artifact := bb_Commit pr\<rparr>)
      in if st = ''MERGED'' \<or> st = ''DECLINED'' \<or> st = ''SUPERSEDED'' then Inr (event ''pr_closed'')
         else if st = ''OPEN'' then Inr (event ''pr_synchronized'')
         else Inl (Wrap ''bitbucket: '' bb_ErrUnhandledEvent ('': pull request state '' @ Quote (bb_State pr))))"

definition isBranch :: "changeRef \<Rightarrow> bool" where
  "isBranch ref \<longleftrightarrow> ch_Name ref \<noteq> [] \<and> ch_Type ref \<noteq> ''tag'' \<and> ch_Type ref \<noteq> ''annotated_tag'' \<and> ch_Type ref \<noteq> ''bookmark''"

text \<open>The first change of a branch decides.\<close>

fun bb_first_change :: "string \<Rightarrow> (changeRef option \<times> changeRef option) list \<Rightarrow> Event option" where
  "bb_first_change project [] = None"
| "bb_first_change project ((Some new, old) # cs) =
     (if \<not> isBranch new then bb_first_change project cs
      else Some (empty_Event\<lparr>pe_Kind := ''branch_pushed'', pe_Project := project, pe_Branch := ch_Name new,
                   pe_Artifact := ch_Target new\<rparr>))"
| "bb_first_change project ((None, Some old) # cs) =
     (if isBranch old then
        Some (empty_Event\<lparr>pe_Kind := ''branch_deleted'', pe_Project := project, pe_Branch := ch_Name old\<rparr>)
      else bb_first_change project cs)"
| "bb_first_change project ((None, None) # cs) = bb_first_change project cs"

definition bb_parsePushPayload :: "bb_payload \<Rightarrow> error + Event" where
  "bb_parsePushPayload pl =
     (case bb_first_change (bb_FullName pl) (bb_Changes pl) of
        Some ev \<Rightarrow> Inr ev
      | None \<Rightarrow> Inl (Wrap ''bitbucket: '' bb_ErrUnhandledEvent '': push payload has no branch change''))"

definition bb_parsePayload :: "bytes \<Rightarrow> error + Event" where
  "bb_parsePayload payload =
     (case unmarshal_struct decode_bb payload of
        None \<Rightarrow> Inl (wrapf ''bitbucket: parsing webhook payload: '' invalid_json)
      | Some pl \<Rightarrow>
          (case bb_PullRequest pl of
             Some pr \<Rightarrow> if bb_ID pr \<noteq> 0 then bb_parsePullRequestPayload pl pr else bb_parsePushPayload pl
           | None \<Rightarrow> bb_parsePushPayload pl))"

definition bb_verifySignature :: "string \<Rightarrow> bytes \<Rightarrow> string \<Rightarrow> bool" where
  "bb_verifySignature secret payload signature =
     (if length secret = 0 then False
      else (case DecodeString (TrimPrefix signature ''sha256='') of
              None \<Rightarrow> False
            | Some want \<Rightarrow> want = hmac_sha256 secret payload))"

definition bb_ParseWebhook :: "string \<Rightarrow> bytes \<Rightarrow> string \<Rightarrow> error + Event" where
  "bb_ParseWebhook secret payload signature =
     (if \<not> bb_verifySignature secret payload signature then Inl bb_ErrInvalidSignature else bb_parsePayload payload)"

section \<open>Comments on GitHub\<close>

definition splitProject :: "string \<Rightarrow> error + string \<times> string" where
  "splitProject project =
     (let owner = takeWhile (\<lambda>c. c \<noteq> CHR ''/'') project; rest = dropWhile (\<lambda>c. c \<noteq> CHR ''/'') project
      in if rest = [] \<or> owner = [] \<or> tl rest = [] then
           Inl (Opaque (''project '' @ Quote project @ '' must be in '' @ [CHR 0x22] @ ''owner/repo'' @ [CHR 0x22] @ '' form''))
         else Inr (owner, tl rest))"

record gh_comment =
  cm_ID :: "int option"
  cm_Body :: "string option"

text \<open>The issues service of the client: the comments of a page of a hundred, creation and edit.\<close>

record 'w gh_issues =
  gh_ListComments :: "string \<Rightarrow> string \<Rightarrow> int \<Rightarrow> int \<Rightarrow> ('w, error + gh_comment list) state"
  gh_CreateComment :: "string \<Rightarrow> string \<Rightarrow> int \<Rightarrow> string \<Rightarrow> ('w, error option) state"
  gh_EditComment :: "string \<Rightarrow> string \<Rightarrow> int \<Rightarrow> string \<Rightarrow> ('w, error option) state"

definition at_pr :: "string \<Rightarrow> int \<Rightarrow> string" where
  "at_pr project n = project @ ''#'' @ Itoa n @ '': ''"

definition gh_CommentOnPR :: "'w gh_issues \<Rightarrow> string \<Rightarrow> int \<Rightarrow> string \<Rightarrow> ('w, error option) state" where
  "gh_CommentOnPR c project prNumber body =
     (case splitProject project of
        Inl err \<Rightarrow> ret (Some (wrapf ''github: comment on pr: '' err))
      | Inr (owner, repo) \<Rightarrow>
          if_err (gh_CreateComment c owner repo prNumber body)
            (\<lambda>err. ret (Some (wrapf (''github: comment on pr '' @ at_pr project prNumber) err))) (ret None))"

definition preview_marker :: string where
  "preview_marker = ''<!-- ramify-preview -->''"

definition own_comment :: "gh_comment \<Rightarrow> bool" where
  "own_comment m \<longleftrightarrow>
     cm_ID m \<noteq> None \<and> (case cm_Body m of None \<Rightarrow> False | Some b \<Rightarrow> Contains b preview_marker)"

definition gh_UpsertPreviewComment :: "'w gh_issues \<Rightarrow> string \<Rightarrow> int \<Rightarrow> string \<Rightarrow> ('w, error option) state" where
  "gh_UpsertPreviewComment c project prNumber body =
     (case splitProject project of
        Inl err \<Rightarrow> ret (Some (wrapf ''github: upsert preview comment: '' err))
      | Inr (owner, repo) \<Rightarrow>
          (let markedBody = preview_marker @ [CHR 0x0A] @ body
           in on_err (gh_ListComments c owner repo prNumber 100)
             (\<lambda>err. ret (Some (wrapf (''github: list comments for '' @ at_pr project prNumber) err)))
             (\<lambda>comments.
                case List.find own_comment comments of
                  Some m \<Rightarrow>
                    if_err (gh_EditComment c owner repo (the (cm_ID m)) markedBody)
                      (\<lambda>err. ret (Some (wrapf (''github: update preview comment '' @ at_pr project prNumber) err))) (ret None)
                | None \<Rightarrow>
                    if_err (gh_CreateComment c owner repo prNumber markedBody)
                      (\<lambda>err. ret (Some (wrapf (''github: create preview comment '' @ at_pr project prNumber) err))) (ret None))))"

end
