(* ===== verification/Git_Theorems.thy ===== *)
theory Git_Theorems
  imports Git_Providers
begin

text \<open>
  What the Git providers promise of a delivery: only an authenticated one is read, every event
  they hand on is of the shape the reconciler expects, and where the preview comment on a pull
  request stays single and where it does not.
\<close>

section \<open>Helpers\<close>

lemma hmac_bytes: "list_all (\<lambda>b. b < 256) (hmac_sha256 key message)"
  by (auto simp: hmac_sha256_def Let_def list_all_iff dest: Sum256_lt)

lemma Decode_hmac: "DecodeString (EncodeToString (hmac_sha256 key message)) = Some (hmac_sha256 key message)"
  by (rule Decode_Encode [OF hmac_bytes])

lemma bb_first_change_event:
  "bb_first_change project cs = Some ev \<Longrightarrow>
    \<exists>b a. b \<noteq> [] \<and> ev \<in> {empty_Event\<lparr>pe_Kind := ''branch_pushed'', pe_Project := project, pe_Branch := b, pe_Artifact := a\<rparr>,
      empty_Event\<lparr>pe_Kind := ''branch_deleted'', pe_Project := project, pe_Branch := b\<rparr>}"
  by (induction project cs rule: bb_first_change.induct) (auto simp: isBranch_def split: if_splits)

section \<open>Properties\<close>

text \<open>
  C13: no delivery is read before it is authenticated. An event comes out of GitHub's and
  Bitbucket's parser only under a signature that is the hexadecimal HMAC-SHA256 of the very bytes
  under the configured secret, and out of GitLab's only under the secret itself; the true
  signature, with or without its prefix, is always accepted; a provider of the last two without a
  secret refuses everything; and every refusal is the error that the API answers with 401.
\<close>

theorem webhook_authentication:
  "(gh_ParseWebhook secret payload signature = Inr ev
      \<longrightarrow> DecodeString (TrimPrefix signature ''sha256='') = Some (hmac_sha256 secret payload))
   \<and> (bb_ParseWebhook secret payload signature = Inr ev
      \<longrightarrow> secret \<noteq> [] \<and> DecodeString (TrimPrefix signature ''sha256='') = Some (hmac_sha256 secret payload))
   \<and> (gl_ParseWebhook secret payload signature = Inr ev \<longrightarrow> secret \<noteq> [] \<and> signature = secret)
   \<and> gh_ParseWebhook secret payload (''sha256='' @ EncodeToString (hmac_sha256 secret payload)) = gh_parsePayload payload
   \<and> (secret \<noteq> [] \<longrightarrow>
        bb_ParseWebhook secret payload (''sha256='' @ EncodeToString (hmac_sha256 secret payload)) = bb_parsePayload payload
        \<and> gl_ParseWebhook secret payload secret = gl_parsePayload payload)
   \<and> gl_ParseWebhook [] payload signature = Inl gl_ErrInvalidSignature
   \<and> bb_ParseWebhook [] payload signature = Inl bb_ErrInvalidSignature
   \<and> (\<forall>e \<in> {gh_ErrInvalidSignature, bb_ErrInvalidSignature, gl_ErrInvalidSignature}. errors_Is e ErrInvalidWebhookSignature)"
proof -
  have "TrimPrefix (''sha256='' @ x) ''sha256='' = x" for x
    by (rule TrimPrefix_append)
  then show ?thesis
    by (auto simp: gh_ParseWebhook_def gh_verifySignature_def bb_ParseWebhook_def bb_verifySignature_def
        gl_ParseWebhook_def gl_verifySignature_def Decode_hmac gh_ErrInvalidSignature_def bb_ErrInvalidSignature_def
        gl_ErrInvalidSignature_def split: if_splits option.splits)
qed


text \<open>
  The preview comment. The listing is the documented one, the first hundred comments of the
  pull request in order. While the comment of the provider is among them an update edits it and
  adds none; once a hundred others stand before it, or before its first posting, every single
  notification adds a new comment.
\<close>

theorem preview_comment_single_within_first_page:
  assumes "splitProject project = Inr (owner, repo)"
    and "\<And>w. run_state (gh_ListComments c owner repo n 100) w = (Inr (take 100 (comments w)), w)"
  shows "(\<forall>m. List.find own_comment (take 100 (comments w)) = Some m \<longrightarrow>
        run_state (gh_UpsertPreviewComment c project n body) w =
          (case run_state (gh_EditComment c owner repo (the (cm_ID m)) (preview_marker @ [CHR 0x0A] @ body)) w of
             (None, w') \<Rightarrow> (None, w')
           | (Some e, w') \<Rightarrow> (Some (wrapf (''github: update preview comment '' @ at_pr project n) e), w')))
    \<and> (100 \<le> length (comments w) \<and> (\<forall>m\<in>set (take 100 (comments w)). \<not> own_comment m) \<longrightarrow>
        run_state (gh_UpsertPreviewComment c project n body) w =
          (case run_state (gh_CreateComment c owner repo n (preview_marker @ [CHR 0x0A] @ body)) w of
             (None, w') \<Rightarrow> (None, w')
           | (Some e, w') \<Rightarrow> (Some (wrapf (''github: create preview comment '' @ at_pr project n) e), w')))"
proof -
  have "List.find own_comment (take 100 (comments w)) = None" if "\<forall>m\<in>set (take 100 (comments w)). \<not> own_comment m"
    using that by (simp add: find_map_None_iff)
  with assms show ?thesis
    by (auto simp: gh_UpsertPreviewComment_def Let_def run_on_err run_if_err split: prod.splits option.splits)
qed

section \<open>Witnesses\<close>

theorem webhook_authentication_witness:
  "gl_ParseWebhook ''s'' ''{}'' ''s'' = gl_parsePayload ''{}''"
  using webhook_authentication [of "''s''" "''{}''"] by simp

definition ex_push_payload :: string where
  "ex_push_payload = ''{'' @ [CHR 0x22] @ ''object_kind'' @ [CHR 0x22] @ '':'' @ [CHR 0x22] @ ''push'' @ [CHR 0x22] @ '',''
     @ [CHR 0x22] @ ''ref'' @ [CHR 0x22] @ '':'' @ [CHR 0x22] @ ''refs/heads/b'' @ [CHR 0x22] @ '',''
     @ [CHR 0x22] @ ''after'' @ [CHR 0x22] @ '':'' @ [CHR 0x22] @ ''abc'' @ [CHR 0x22] @ ''}''"


definition ex_issues :: "gh_comment list gh_issues" where
  "ex_issues =
     \<lparr>gh_ListComments = (\<lambda>owner repo n k. State (\<lambda>cs. (Inr (take 100 cs), cs))),
      gh_CreateComment = (\<lambda>owner repo n b. State (\<lambda>cs. (None, cs @ [\<lparr>cm_ID = Some (int (length cs)), cm_Body = Some b\<rparr>]))),
      gh_EditComment = (\<lambda>owner repo i b. State (\<lambda>cs. (None,
        map (\<lambda>m. if cm_ID m = Some i then m\<lparr>cm_Body := Some b\<rparr> else m) cs)))\<rparr>"

text \<open>After a hundred comments of others two notifications leave two comments.\<close>

theorem preview_comment_single_within_first_page_witness:
  "length (filter own_comment
     (snd (run_state (do { gh_UpsertPreviewComment ex_issues ''o/r'' 1 ''a''; gh_UpsertPreviewComment ex_issues ''o/r'' 1 ''b'' })
       (replicate 100 \<lparr>cm_ID = Some 0, cm_Body = Some ''hi''\<rparr>)))) = 2"
proof -
  let ?hi = "\<lparr>cm_ID = Some 0, cm_Body = Some ''hi''\<rparr>"
  let ?new = "\<lambda>i b. \<lparr>cm_ID = Some i, cm_Body = Some (preview_marker @ [CHR 0x0A] @ b)\<rparr>"
  have s: "splitProject ''o/r'' = Inr (''o'', ''r'')"
    by (simp add: splitProject_def)
  have l: "run_state (gh_ListComments ex_issues ''o'' ''r'' 1 100) w = (Inr (take 100 w), w)" for w
    by (simp add: ex_issues_def)
  have no: "\<not> own_comment ?hi" and own: "own_comment (?new i b)" for i b
    by (simp_all add: own_comment_def preview_marker_def HasPrefix_def)
  have up: "run_state (gh_UpsertPreviewComment ex_issues ''o/r'' 1 b) (replicate 100 ?hi @ cs)
      = (None, replicate 100 ?hi @ cs @ [?new (int (100 + length cs)) b])" for b cs
    using preview_comment_single_within_first_page [OF s l, where w = "replicate 100 ?hi @ cs" and body = b] no
    by (simp add: ex_issues_def)
  show ?thesis
    using up [of "''a''" "[]"] up [of "''b''"] no own by simp
qed

end
