(* ===== verification/Cli_Client.thy ===== *)
theory Cli_Client
  imports Http_Api
begin

text \<open>
  \<open>cmd/ramify/client.go\<close> and \<open>resolve.go\<close>: the client of the control API. The transport
  (\<open>http.Client\<close>) is a parameter that takes a request to a response or an error, and so is
  the text of a response body, which only ends up in error messages. A response body is read
  as the value the server encoded.
\<close>

record 's apiClient =
  ac_send :: "string \<Rightarrow> request \<Rightarrow> ('s, error + response) state"
  ac_text :: "body \<Rightarrow> string"
  ac_token :: string

definition apiError :: "int \<Rightarrow> string \<Rightarrow> error" where
  "apiError status body = Opaque (''api: unexpected status '' @ Itoa status @ '': '' @ body)"

definition header_of :: "response \<Rightarrow> string \<Rightarrow> string" where
  "header_of w name = (case map_of (rs_Headers w) name of None \<Rightarrow> [] | Some v \<Rightarrow> v)"

text \<open>A request without a body, with the bearer token if there is one.\<close>

definition new_request :: "'s apiClient \<Rightarrow> string \<Rightarrow> string \<Rightarrow> (string \<Rightarrow> string) \<Rightarrow> request" where
  "new_request c path i q =
     \<lparr>rq_Path = path, rq_Query = q,
      rq_Header = (\<lambda>h. if h = ''Authorization'' \<and> ac_token c \<noteq> [] then ''Bearer '' @ ac_token c else []),
      rq_id = i, rq_Body = [], rq_body_err = None\<rparr>"

text \<open>\<open>do\<close>: a status from 300 on is an error; otherwise the body is decoded, if a target is given.\<close>

definition do_request ::
  "'s apiClient \<Rightarrow> string \<Rightarrow> request \<Rightarrow> (body \<Rightarrow> 'a option) \<Rightarrow> ('s, error + 'a \<times> response) state" where
  "do_request c verb r dec =
     on_err (ac_send c verb r)
       (\<lambda>err. ret (Inl (wrapf (''client: '' @ verb @ '' '' @ rq_Path r @ '': '') err)))
       (\<lambda>w. if rs_Status w \<ge> 300 then ret (Inl (apiError (rs_Status w) (ac_text c (rs_Body w))))
            else case dec (rs_Body w) of
              None \<Rightarrow> ret (Inl (Opaque ''client: decoding response''))
            | Some x \<Rightarrow> ret (Inr (x, w)))"

fun decode_environments :: "body \<Rightarrow> Environment list option" where
  "decode_environments (JsonEnvironments envs) = Some envs"
| "decode_environments _ = None"

fun decode_environment :: "body \<Rightarrow> Environment option" where
  "decode_environment (JsonEnvironment env) = Some env"
| "decode_environment _ = None"

definition no_target :: "body \<Rightarrow> body option" where
  "no_target b = Some b"

abbreviation maxListPages :: nat where "maxListPages \<equiv> 1000"

definition list_query :: "string \<Rightarrow> string \<Rightarrow> int \<Rightarrow> string \<Rightarrow> string" where
  "list_query project branch offset name =
     (if name = ''project'' then project else if name = ''branch'' then branch
      else if name = ''offset'' \<and> offset > 0 then Itoa offset else [])"

text \<open>The loop of \<open>listEnvironments\<close> with the pages that are left.\<close>

fun list_pages ::
  "'s apiClient \<Rightarrow> string \<Rightarrow> string \<Rightarrow> nat \<Rightarrow> int \<Rightarrow> Environment list \<Rightarrow> ('s, error + Environment list) state" where
  "list_pages c project branch 0 offset listed =
     ret (Inl (Opaque (''listing environments: exceeded '' @ Itoa (int maxListPages) @ '' pages'')))"
| "list_pages c project branch (Suc n) offset listed =
     on_err (do_request c ''GET'' (new_request c ''/environments/'' [] (list_query project branch offset)) decode_environments)
       (\<lambda>err. ret (Inl err))
       (\<lambda>(envs, w).
         (let nxt = header_of w nextOffsetHeader
          in if nxt = [] then ret (Inr (listed @ envs))
             else case Atoi nxt of
               None \<Rightarrow> ret (Inl (Opaque (''listing environments: bad next-offset '' @ Quote nxt)))
             | Some offset' \<Rightarrow> list_pages c project branch n offset' (listed @ envs)))"

definition listEnvironments ::
  "'s apiClient \<Rightarrow> string \<Rightarrow> string \<Rightarrow> ('s, error + Environment list) state" where
  "listEnvironments c project branch = list_pages c project branch maxListPages 0 []"

definition getEnvironment :: "'s apiClient \<Rightarrow> string \<Rightarrow> ('s, error + Environment) state" where
  "getEnvironment c i =
     on_err (do_request c ''GET'' (new_request c (''/environments/'' @ i @ ''/'') i (\<lambda>_. [])) decode_environment)
       (\<lambda>err. ret (Inl err)) (\<lambda>(env, w). ret (Inr env))"

definition deleteEnvironment :: "'s apiClient \<Rightarrow> string \<Rightarrow> ('s, error option) state" where
  "deleteEnvironment c i =
     on_err (do_request c ''DELETE'' (new_request c (''/environments/'' @ i @ ''/'') i (\<lambda>_. [])) no_target)
       (\<lambda>err. ret (Some err)) (\<lambda>_. ret None)"

definition client_logs :: "'s apiClient \<Rightarrow> string \<Rightarrow> ('s, error + string) state" where
  "client_logs c i =
     on_err (do_request c ''GET'' (new_request c (''/environments/'' @ i @ ''/logs'') i (\<lambda>_. [])) no_target)
       (\<lambda>err. ret (Inl err)) (\<lambda>(b, w). ret (Inr (ac_text c b)))"

definition healthz :: "'s apiClient \<Rightarrow> ('s, error option) state" where
  "healthz c =
     on_err (do_request c ''GET'' (new_request c ''/healthz'' [] (\<lambda>_. [])) no_target)
       (\<lambda>err. ret (Some err)) (\<lambda>_. ret None)"

definition resolveOne :: "'s apiClient \<Rightarrow> string \<Rightarrow> string \<Rightarrow> ('s, error + Environment) state" where
  "resolveOne c project branch =
     on_err (listEnvironments c project branch) (\<lambda>err. ret (Inl err))
       (\<lambda>envs. case envs of
           [] \<Rightarrow> ret (Inl (Opaque (''no environment found for branch '' @ Quote branch)))
         | [env] \<Rightarrow> ret (Inr env)
         | _ \<Rightarrow> ret (Inl (Opaque (''multiple environments match branch '' @ Quote branch
                  @ ''; pass --project to disambiguate''))))"

text \<open>A transport that takes the list request straight to the handler of a server.\<close>

definition direct_client :: "'w Server \<Rightarrow> 'w sys apiClient" where
  "direct_client sv =
     \<lparr>ac_send = (\<lambda>verb r. do { w \<leftarrow> handleListEnvironments sv r; ret (Inr w) }),
      ac_text = (\<lambda>_. []), ac_token = []\<rparr>"

section \<open>The list handler\<close>

text \<open>Every row a list request selects, in the order of the pages.\<close>

definition matching_rows :: "string \<Rightarrow> string \<Rightarrow> database \<Rightarrow> environment_row list" where
  "matching_rows project branch d =
     sort_key (\<lambda>r. (er_created_at r, er_id r))
       (filter (\<lambda>r. (project \<noteq> [] \<longrightarrow> er_project r = project) \<and> (branch \<noteq> [] \<longrightarrow> er_branch r = branch))
         (db_environments d))"

lemma ListEnvironments_healthy:
  assumes "healthy_driver rt"
  shows "\<exists>w. run_state (ListEnvironments rt opts) s
     = (Inr (map scanEnvironment (select_environments (normalized opts) (db s))), s\<lparr>ext := w\<rparr>)"
proof -
  obtain w' where "run_state (rt_sql rt) (ext s) = (None, w')"
    using healthy_sql [OF assms] by blast
  then show ?thesis
    by (auto simp: ListEnvironments_def query_def run_err Let_def)
qed

text \<open>What one page holds, whatever limit and offset the request has.\<close>

definition page_size :: "int \<Rightarrow> nat" where
  "page_size limit = (if limit = 0 then 100 else nat (min (max limit 1) MaxListLimit))"

lemma lookahead_selects:
  assumes "0 \<le> offset"
  shows "select_environments (normalized (lookahead \<lparr>lo_Project = p, lo_Branch = b, lo_Limit = limit, lo_Offset = offset\<rparr>)) d
      = take (page_size limit + 1) (drop (nat offset) (matching_rows p b d))"
    and "lo_Limit (lookahead \<lparr>lo_Project = p, lo_Branch = b, lo_Limit = limit, lo_Offset = offset\<rparr>) = int (page_size limit) + 1"
  using assms
  by (auto simp: lookahead_def normalized_def select_environments_def page_def matching_rows_def page_size_def
      nat_add_distrib min_def max_def Let_def numeral_2_eq_2)

lemma take_less: "length (take (n + 1) xs) = n + 1 \<longleftrightarrow> n < length xs"
  by simp linarith

lemma listed_page_exact:
  assumes "lo_Limit pg = int n + 1" and "0 \<le> lo_Offset pg" and "lo_Offset pg + int n < 2 ^ 63"
  shows "listed_page pg (map scanEnvironment (take (n + 1) rows)) =
     writeJSON (if n < length rows then [(nextOffsetHeader, Itoa (lo_Offset pg + int n))] else [])
       StatusOK (JsonEnvironments (map scanEnvironment (take n rows)))"
proof (cases "n < length rows")
  case True
  then show ?thesis
    using assms by (simp add: listed_page_def take_map min_def wrap64_id)
next
  case False
  then have "take (n + 1) rows = rows" "take n rows = rows" "length rows \<noteq> n + 1"
    by simp_all
  with False show ?thesis
    using assms by (simp add: listed_page_def)
qed

lemma list_handler:
  assumes "healthy_driver (sv_store sv)" and "intParam r ''limit'' = Inr limit" and "intParam r ''offset'' = Inr offset"
    and "0 \<le> offset" and "offset + int (page_size limit) < 2 ^ 63"
  shows "\<exists>w. run_state (handleListEnvironments sv r) s =
     (writeJSON (if page_size limit < length (drop (nat offset) (matching_rows (rq_Query r ''project'') (rq_Query r ''branch'') (db s)))
         then [(nextOffsetHeader, Itoa (offset + int (page_size limit)))] else []) StatusOK
       (JsonEnvironments (map scanEnvironment (take (page_size limit)
         (drop (nat offset) (matching_rows (rq_Query r ''project'') (rq_Query r ''branch'') (db s)))))), s\<lparr>ext := w\<rparr>)"
proof -
  let ?pg = "lookahead \<lparr>lo_Project = rq_Query r ''project'', lo_Branch = rq_Query r ''branch'', lo_Limit = limit, lo_Offset = offset\<rparr>"
  have off: "lo_Offset ?pg = offset"
    by (simp add: lookahead_def)
  obtain w where "run_state (ListEnvironments (sv_store sv) ?pg) s
      = (Inr (map scanEnvironment (take (page_size limit + 1)
          (drop (nat offset) (matching_rows (rq_Query r ''project'') (rq_Query r ''branch'') (db s))))), s\<lparr>ext := w\<rparr>)"
    using ListEnvironments_healthy [OF assms(1), of ?pg s] unfolding lookahead_selects(1) [OF assms(4)] by blast
  moreover have "handleListEnvironments sv r = on_err (ListEnvironments (sv_store sv) ?pg)
      (\<lambda>_. ret (writeError StatusInternalServerError ''listing environments'')) (\<lambda>envs. ret (listed_page ?pg envs))"
    using assms(2,3) by (simp add: handleListEnvironments_def Let_def)
  ultimately have "run_state (handleListEnvironments sv r) s = (listed_page ?pg (map scanEnvironment (take (page_size limit + 1)
          (drop (nat offset) (matching_rows (rq_Query r ''project'') (rq_Query r ''branch'') (db s))))), s\<lparr>ext := w\<rparr>)"
    by (simp only: run_on_err sum.case prod.case) simp
  moreover have "lo_Offset ?pg + int (page_size limit) < 2 ^ 63" "0 \<le> lo_Offset ?pg"
    using assms(4,5) off by simp_all
  ultimately show ?thesis
    unfolding listed_page_exact [OF lookahead_selects(2) [OF assms(4)] \<open>0 \<le> lo_Offset ?pg\<close> \<open>lo_Offset ?pg + _ < _\<close>] off
    by blast
qed

section \<open>The walk of the client\<close>

lemma Itoa_nonneg: "0 \<le> i \<Longrightarrow> Itoa i \<noteq> [] \<and> hd (Itoa i) \<noteq> CHR ''+''"
  using nat_digits_facts [of "nat i"] by (cases "nat_digits (nat i)") (auto simp: Itoa_def is_digit_def)

lemma Atoi_Itoa: "0 \<le> i \<Longrightarrow> i < 2 ^ 63 \<Longrightarrow> Atoi (Itoa i) = Some i"
  using Itoa_nonneg [of i] by (simp add: Atoi_def ParseInt_Itoa)

lemma list_request:
  assumes "0 \<le> offset" "offset < 2 ^ 63"
  shows "intParam (new_request c pa i (list_query p b offset)) ''limit'' = Inr 0"
    and "intParam (new_request c pa i (list_query p b offset)) ''offset'' = Inr offset"
    and "rq_Query (new_request c pa i (list_query p b offset)) ''project'' = p"
    and "rq_Query (new_request c pa i (list_query p b offset)) ''branch'' = b"
  using assms Itoa_nonneg [of offset] Atoi_Itoa [of offset]
  by (simp_all add: intParam_def new_request_def list_query_def)

lemma do_list:
  assumes "healthy_driver (sv_store sv)" and "0 \<le> offset" and "offset + 100 < 2 ^ 63"
    and rows_def: "rows = drop (nat offset) (matching_rows p b (db s))"
  shows "\<exists>w. run_state (do_request (direct_client sv) ''GET''
      (new_request (direct_client sv) ''/environments/'' [] (list_query p b offset)) decode_environments) s =
    (Inr (map scanEnvironment (take 100 rows),
       writeJSON (if 100 < length rows then [(nextOffsetHeader, Itoa (offset + 100))] else []) StatusOK
         (JsonEnvironments (map scanEnvironment (take 100 rows)))), s\<lparr>ext := w\<rparr>)"
proof -
  let ?r = "new_request (direct_client sv) ''/environments/'' [] (list_query p b offset)"
  have o: "offset < 2 ^ 63" and size: "page_size 0 = 100"
    using assms(3) by (simp_all add: page_size_def)
  obtain w where "run_state (handleListEnvironments sv ?r) s =
     (writeJSON (if 100 < length rows then [(nextOffsetHeader, Itoa (offset + 100))] else []) StatusOK
       (JsonEnvironments (map scanEnvironment (take 100 rows))), s\<lparr>ext := w\<rparr>)"
    using list_handler [OF assms(1) list_request(1,2) [OF assms(2) o] assms(2), of "direct_client sv" "''/environments/''" "[]" p b s]
      list_request(3,4) [OF assms(2) o, of "direct_client sv" "''/environments/''" "[]" p b] assms(3)
    by (auto simp: size rows_def)
  then have "run_state (ac_send (direct_client sv) ''GET'' ?r) s = (Inr (writeJSON (if 100 < length rows then
       [(nextOffsetHeader, Itoa (offset + 100))] else []) StatusOK
       (JsonEnvironments (map scanEnvironment (take 100 rows)))), s\<lparr>ext := w\<rparr>)"
    by (simp add: direct_client_def [of sv])
  then show ?thesis
    by (intro exI [of _ w]) (simp add: do_request_def run_err writeJSON_def)
qed

lemma list_pages_complete:
  assumes h: "healthy_driver (sv_store sv)" and small: "length (matching_rows p b d) \<le> 100000"
  shows "db s = d \<Longrightarrow> 0 < n \<Longrightarrow> 0 \<le> offset \<Longrightarrow> nat offset \<le> length (matching_rows p b d)
    \<Longrightarrow> length (drop (nat offset) (matching_rows p b d)) \<le> 100 * n
    \<Longrightarrow> \<exists>w. run_state (list_pages (direct_client sv) p b n offset listed) s
      = (Inr (listed @ map scanEnvironment (drop (nat offset) (matching_rows p b d))), s\<lparr>ext := w\<rparr>)"
proof (induction n arbitrary: offset listed s)
  case 0
  from \<open>0 < 0\<close> show ?case by (rule less_irrefl [THEN notE])
next
  case (Suc n)
  let ?rows = "drop (nat offset) (matching_rows p b d)"
  have o: "offset + 100 < 2 ^ 63"
  proof -
    have "offset \<le> 100000"
      using Suc.prems(3,4) small by linarith
    then show ?thesis
      using Suc.prems(3) by simp
  qed
  obtain w where run: "run_state (do_request (direct_client sv) ''GET''
      (new_request (direct_client sv) ''/environments/'' [] (list_query p b offset)) decode_environments) s =
    (Inr (map scanEnvironment (take 100 ?rows),
       writeJSON (if 100 < length ?rows then [(nextOffsetHeader, Itoa (offset + 100))] else []) StatusOK
         (JsonEnvironments (map scanEnvironment (take 100 ?rows)))), s\<lparr>ext := w\<rparr>)"
    using do_list [OF h Suc.prems(3) o refl, of p b s] unfolding Suc.prems(1) by blast
  show ?case
  proof (cases "100 < length ?rows")
    case True
    have hdr: "header_of (writeJSON [(nextOffsetHeader, Itoa (offset + 100))] st v) nextOffsetHeader = Itoa (offset + 100)" for st v
      by (simp add: header_of_def writeJSON_def)
    have "Itoa (offset + 100) \<noteq> []" "Atoi (Itoa (offset + 100)) = Some (offset + 100)"
      using Itoa_nonneg [of "offset + 100"] Atoi_Itoa [of "offset + 100"] o Suc.prems(3) by simp_all
    then have step: "run_state (list_pages (direct_client sv) p b (Suc n) offset listed) s
        = run_state (list_pages (direct_client sv) p b n (offset + 100) (listed @ map scanEnvironment (take 100 ?rows))) (s\<lparr>ext := w\<rparr>)"
      using run True by (simp add: run_err hdr Let_def)
    have off: "nat (offset + 100) = nat offset + 100"
      using Suc.prems(3) by (simp add: nat_add_distrib)
    have "\<exists>w'. run_state (list_pages (direct_client sv) p b n (offset + 100) (listed @ map scanEnvironment (take 100 ?rows))) (s\<lparr>ext := w\<rparr>)
        = (Inr ((listed @ map scanEnvironment (take 100 ?rows)) @ map scanEnvironment (drop (nat (offset + 100)) (matching_rows p b d))),
           s\<lparr>ext := w\<rparr>\<lparr>ext := w'\<rparr>)"
      by (rule Suc.IH) (use Suc.prems True off in auto)
    moreover have "map scanEnvironment (take 100 ?rows) @ map scanEnvironment (drop (nat (offset + 100)) (matching_rows p b d))
        = map scanEnvironment ?rows"
    proof -
      have "drop (nat (offset + 100)) (matching_rows p b d) = drop 100 ?rows"
        by (simp add: off add.commute)
      then show ?thesis
        by (simp only: map_append [symmetric] append_take_drop_id)
    qed
    ultimately show ?thesis
      unfolding step by simp
  next
    case False
    have "header_of (writeJSON [] st v) nextOffsetHeader = []" for st v
      by (simp add: header_of_def writeJSON_def nextOffsetHeader_def)
    with run False show ?thesis
      by (intro exI [of _ w]) (simp add: run_err Let_def)
  qed
qed

text \<open>
  C29: the list is complete. Against a server whose driver does not fail, the client walks page
  after page and returns exactly the environments that match the project and branch, each once,
  in the order of creation, and changes nothing; up to a hundred thousand of them, which is
  what a thousand pages hold.
\<close>

theorem listing_is_complete:
  assumes "healthy_driver (sv_store sv)"
    and "length (matching_rows project branch (db s)) \<le> 100000"
  shows "\<exists>w. run_state (listEnvironments (direct_client sv) project branch) s
    = (Inr (map scanEnvironment (matching_rows project branch (db s))), s\<lparr>ext := w\<rparr>)"
  using list_pages_complete [OF assms(1) _ refl, of project branch s 1000 0 "[]"] assms(2)
  by (simp add: listEnvironments_def)

end
