(* ===== verification/Api_Theorems.thy ===== *)
theory Api_Theorems
  imports Cli_Client Reconciler_Theorems
begin

text \<open>What the control API guarantees to the hosts, the operators and the clients that call it.\<close>

section \<open>The webhook receiver\<close>

text \<open>The row of an accepted delivery: pending, due at once, with the parsed event as payload.\<close>

definition inbox_row :: "string \<Rightarrow> Event \<Rightarrow> event_row \<Rightarrow> bool" where
  "inbox_row deliveryID ev row \<longleftrightarrow> vr_kind row = EventKindWebhookReceived \<and> vr_dedupe_key row = Some deliveryID
     \<and> vr_payload row = MarshalWebhookPayload ev \<and> pending_event row \<and> vr_attempts row = 0"

lemma accept_webhook_cases:
  assumes "run_state (accept_webhook sv payload deliveryID queue) s = ((resp, queue'), s')"
  shows "if rs_Status resp = StatusAccepted
    then deliveryID \<noteq> [] \<and> (\<exists>row. db s' = (db s)\<lparr>db_events := db_events (db s) @ [row]\<rparr>
        \<and> vr_kind row = EventKindWebhookReceived \<and> vr_dedupe_key row = Some deliveryID \<and> vr_payload row = payload
        \<and> pending_event row \<and> vr_attempts row = 0 \<and> queue' = offer_webhook (scanEvent row) queue)
    else db s' = db s \<and> queue' = queue \<and> log s' = log s"
proof (cases "deliveryID = []")
  case True
  with assms show ?thesis
    by (auto simp: accept_webhook_def writeError_def writeJSON_def)
next
  case False
  obtain now w where n: "run_state (rt_Now (sv_store sv)) (ext s) = (now, w)"
    by (cases "run_state (rt_Now (sv_store sv)) (ext s)")
  let ?ev = "empty_StoreEvent\<lparr>ev_Kind := EventKindWebhookReceived, ev_DedupeKey := deliveryID,
               ev_Payload := payload, ev_NextAttemptAt := Some now\<rparr>"
  obtain x s1 where c: "run_state (CreateEvent (sv_store sv) ?ev) (s\<lparr>ext := w\<rparr>) = (x, s1)"
    by (cases "run_state (CreateEvent (sv_store sv) ?ev) (s\<lparr>ext := w\<rparr>)")
  show ?thesis
  proof (cases x)
    case (Inl e)
    with CreateEvent_effect [OF c] have "\<exists>w'. s1 = s\<lparr>ext := w'\<rparr>"
      by auto
    with assms False n c Inl show ?thesis
      by (auto simp: accept_webhook_def run_err writeError_def writeJSON_def WriteHeader_def split: if_splits)
  next
    case (Inr ev)
    obtain i at w' d where e: "insert_event (event_args (?ev\<lparr>ev_ID := i, ev_CreatedAt := at\<rparr>)) (db s) = Inr d"
        "db s1 = d" "ev = ?ev\<lparr>ev_ID := i, ev_CreatedAt := at\<rparr>"
      using CreateEvent_effect [OF c] Inr by auto
    let ?row = "event_args (?ev\<lparr>ev_ID := i, ev_CreatedAt := at\<rparr>)"
    have "d = (db s)\<lparr>db_events := db_events (db s) @ [?row]\<rparr>"
      using e(1) by (auto simp: insert_event_def split: if_splits)
    moreover have "resp = WriteHeader StatusAccepted" "queue' = offer_webhook ev queue" "s' = s1"
      using assms False n c Inr by (auto simp: accept_webhook_def run_err)
    moreover have "scanEvent ?row = ev"
      by (simp add: e(3) scanEvent_def event_args_def nullableString_def empty_StoreEvent_def)
    ultimately show ?thesis
      using False e(2) by (auto simp: WriteHeader_def event_args_def nullableString_def pending_event_def empty_StoreEvent_def)
  qed
qed

text \<open>The body and the signature a delivery is judged by.\<close>

definition parse_delivery :: "'w Server \<Rightarrow> request \<Rightarrow> ('w, error + Event) state" where
  "parse_delivery sv rq = gp_ParseWebhook (sv_git sv) (rq_Body rq) (rq_Header rq (fst (webhookHeaders sv)))"

definition delivery_id :: "'w Server \<Rightarrow> request \<Rightarrow> string" where
  "delivery_id sv rq = rq_Header rq (snd (webhookHeaders sv))"

lemma read_limited: "ReadAll_limited n rq = Inr b \<Longrightarrow> b = rq_Body rq \<and> length b \<le> n"
  by (auto simp: ReadAll_limited_def split: if_splits option.splits)

lemma handleWebhook_reads:
  assumes "ReadAll_limited maxWebhookBody rq = Inr b"
  shows "run_state (handleWebhook sv rq queue) s =
    run_state (on_err (outside (parse_delivery sv rq))
             (\<lambda>err. if errors_Is err ErrInvalidWebhookSignature then do {
                  count (\<lambda>m. m\<lparr>WebhookRejected := WebhookRejected m + 1\<rparr>);
                  ret (writeError StatusUnauthorized ''invalid webhook signature'', queue) }
                else if errors_Is err ErrUnhandledWebhookEvent then ret (WriteHeader StatusOK, queue)
                else do {
                  count (\<lambda>m. m\<lparr>WebhookRejected := WebhookRejected m + 1\<rparr>);
                  ret (writeError StatusBadRequest ''invalid webhook payload'', queue) })
             (\<lambda>ev. accept_webhook sv (MarshalWebhookPayload ev) (delivery_id sv rq) queue))
      (s\<lparr>metrics := (metrics s)\<lparr>WebhookReceived := WebhookReceived (metrics s) + 1\<rparr>\<rparr>)"
  using read_limited [OF assms] assms
  by (simp add: handleWebhook_def parse_delivery_def delivery_id_def split: prod.splits)

lemma webhook_cases:
  assumes "run_state (handleWebhook sv rq queue) s = ((resp, queue'), s')"
  shows "if rs_Status resp = StatusAccepted
    then delivery_id sv rq \<noteq> [] \<and> length (rq_Body rq) \<le> maxWebhookBody
      \<and> (\<exists>ev row. fst (run_state (parse_delivery sv rq) (ext s)) = Inr ev
          \<and> db s' = (db s)\<lparr>db_events := db_events (db s) @ [row]\<rparr> \<and> inbox_row (delivery_id sv rq) ev row
          \<and> queue' = offer_webhook (scanEvent row) queue)
    else db s' = db s \<and> queue' = queue \<and> log s' = log s"
proof (cases "ReadAll_limited maxWebhookBody rq")
  case (Inl e)
  with assms show ?thesis
    by (auto simp: handleWebhook_def writeError_def writeJSON_def)
next
  case (Inr b)
  let ?s = "s\<lparr>metrics := (metrics s)\<lparr>WebhookReceived := WebhookReceived (metrics s) + 1\<rparr>\<rparr>"
  obtain x w where p: "run_state (parse_delivery sv rq) (ext s) = (x, w)"
    by (cases "run_state (parse_delivery sv rq) (ext s)")
  show ?thesis
  proof (cases x)
    case (Inl e)
    with assms p show ?thesis
      unfolding handleWebhook_reads [OF Inr]
      by (auto simp: run_err writeError_def writeJSON_def WriteHeader_def split: if_splits)
  next
    case (Inr ev)
    have "run_state (accept_webhook sv (MarshalWebhookPayload ev) (delivery_id sv rq) queue) (?s\<lparr>ext := w\<rparr>) = ((resp, queue'), s')"
      using assms p Inr unfolding handleWebhook_reads [OF \<open>ReadAll_limited _ rq = Inr b\<close>] by (simp add: run_err)
    from accept_webhook_cases [OF this] show ?thesis
      using p Inr read_limited [OF \<open>ReadAll_limited _ rq = Inr b\<close>]
      by (cases "rs_Status resp = StatusAccepted") (auto simp: inbox_row_def)
  qed
qed

text \<open>
  C4: an accepted delivery is durable, and nothing else is. When the receiver answers 202, the
  provider verified and parsed exactly the body and signature of this request, and the inbox
  holds one row more: pending, under the delivery's identifier, with the parsed event as its
  payload; the pool was offered this very event. With every other answer (a body that is too
  large or cannot be read, a bad signature, an unhandled or malformed event, a missing or known
  delivery identifier, a failing database) no table, no queue and no log entry changes.
\<close>

theorem webhook_accepted_is_durable:
  assumes "run_state (handleWebhook sv rq queue) s = ((resp, queue'), s')"
  shows "if rs_Status resp = StatusAccepted
    then delivery_id sv rq \<noteq> [] \<and> length (rq_Body rq) \<le> maxWebhookBody
      \<and> (\<exists>ev row. fst (run_state (parse_delivery sv rq) (ext s)) = Inr ev
          \<and> db s' = (db s)\<lparr>db_events := db_events (db s) @ [row]\<rparr> \<and> inbox_row (delivery_id sv rq) ev row
          \<and> queue' = offer_webhook (scanEvent row) queue)
    else db s' = db s \<and> queue' = queue \<and> log s' = log s"
  by (rule webhook_cases [OF assms])

definition healthy_random :: "'w runtime \<Rightarrow> bool" where
  "healthy_random rt \<longleftrightarrow> (\<forall>w. \<exists>bs w'. run_state (rt_rand_Read rt) w = (Inr bs, w'))"

lemma newID_healthy: "healthy_random rt \<Longrightarrow> \<exists>i w. run_state (newID rt) s = (Inr i, s\<lparr>ext := w\<rparr>)"
proof -
  assume "healthy_random rt"
  then obtain bs w where "run_state (rt_rand_Read rt) (ext s) = (Inr bs, w)"
    unfolding healthy_random_def by blast
  then show ?thesis
    by (intro exI) (simp add: newID_def run_err Let_def)
qed

lemma create_duplicate:
  assumes "healthy_driver rt" and "healthy_random rt" and "ev_ID ev = []" and "ev_DedupeKey ev \<noteq> []"
    and "r \<in> set (db_events (db s))" and "vr_kind r = ev_Kind ev" and "vr_dedupe_key r = Some (ev_DedupeKey ev)"
  shows "\<exists>w. run_state (CreateEvent rt ev) s
    = (Inl (wrapf (''creating event '' @ ev_Kind ev @ '': '') ErrConflict), s\<lparr>ext := w\<rparr>)"
proof -
  obtain i w where i: "run_state (newID rt) s = (Inr i, s\<lparr>ext := w\<rparr>)"
    using newID_healthy [OF assms(2)] by blast
  obtain now w1 where n: "run_state (rt_Now rt) w = (now, w1)"
    by (cases "run_state (rt_Now rt) w")
  obtain w2 where q: "run_state (rt_sql rt) w1 = (None, w2)"
    using healthy_sql [OF assms(1)] by blast
  let ?row = "event_args (ev\<lparr>ev_ID := i, ev_CreatedAt := now\<rparr>)"
  have "list_ex (\<lambda>q. vr_kind q = vr_kind ?row \<and> vr_dedupe_key q = vr_dedupe_key ?row) (db_events (db s))"
    "vr_dedupe_key ?row \<noteq> None"
    using assms(4-7) by (auto simp: list_ex_iff event_args_def nullableString_def)
  then have "\<exists>cols. insert_event ?row (db s) = Inl (unique_error cols)"
    by (auto simp: insert_event_def)
  then show ?thesis
    using assms(3) i n q by (auto simp: CreateEvent_def id_or_new_def exec_insert_def run_err fails_def Let_def)
qed

text \<open>
  A redelivery is absorbed. Once a delivery is in the inbox (pending, processed or retired),
  the host may send it again as often as it likes: when the provider accepts the request and
  the driver and the random source do not fail, the answer is 200 and no table, no queue and no
  log entry changes; only the counters of received and of duplicate deliveries move.
\<close>

theorem redelivery_is_absorbed:
  assumes "healthy_driver (sv_store sv)" and "healthy_random (sv_store sv)"
    and "row \<in> set (db_events (db s))" and "vr_kind row = EventKindWebhookReceived"
    and "vr_dedupe_key row = Some (delivery_id sv rq)" and "delivery_id sv rq \<noteq> []"
    and "ReadAll_limited maxWebhookBody rq = Inr body"
    and "fst (run_state (parse_delivery sv rq) (ext s)) = Inr ev"
  shows "\<exists>s'. run_state (handleWebhook sv rq queue) s = ((WriteHeader StatusOK, queue), s')
    \<and> db s' = db s \<and> log s' = log s
    \<and> metrics s' = (metrics s)\<lparr>WebhookReceived := WebhookReceived (metrics s) + 1,
                               WebhookDuplicates := WebhookDuplicates (metrics s) + 1\<rparr>"
proof -
  obtain w where p: "run_state (parse_delivery sv rq) (ext s) = (Inr ev, w)"
    using assms(8) by (cases "run_state (parse_delivery sv rq) (ext s)") auto
  obtain now w1 where n: "run_state (rt_Now (sv_store sv)) w = (now, w1)"
    by (cases "run_state (rt_Now (sv_store sv)) w")
  let ?ev = "empty_StoreEvent\<lparr>ev_Kind := EventKindWebhookReceived, ev_DedupeKey := delivery_id sv rq,
               ev_Payload := MarshalWebhookPayload ev, ev_NextAttemptAt := Some now\<rparr>"
  let ?s = "s\<lparr>ext := w1, metrics := (metrics s)\<lparr>WebhookReceived := WebhookReceived (metrics s) + 1\<rparr>\<rparr>"
  have "ev_ID ?ev = []" "ev_DedupeKey ?ev \<noteq> []" "row \<in> set (db_events (db ?s))" "vr_kind row = ev_Kind ?ev"
      "vr_dedupe_key row = Some (ev_DedupeKey ?ev)"
    using assms(3-6) by (simp_all add: empty_StoreEvent_def)
  from create_duplicate [OF assms(1,2) this] obtain w2 e
    where "run_state (CreateEvent (sv_store sv) ?ev) ?s = (Inl (wrapf e ErrConflict), ?s\<lparr>ext := w2\<rparr>)"
    by blast
  with p n assms(6) show ?thesis
    unfolding handleWebhook_reads [OF assms(7)] by (simp add: run_err accept_webhook_def)
qed

section \<open>Errors of the caller\<close>

lemma lookup_effect:
  "run_state (lookupEnvironment sv rq) s = (x, s') \<Longrightarrow> \<exists>w. s' = s\<lparr>ext := w\<rparr>"
  by (cases "run_state (GetEnvironment (sv_store sv) (rq_id rq)) s")
    (auto simp: lookupEnvironment_def run_err dest!: GetEnvironment_effect split: sum.splits)

text \<open>A handler in which a status the caller is to blame for comes without any effect.\<close>

definition client_error :: "response \<Rightarrow> bool" where
  "client_error w \<longleftrightarrow> rs_Status w \<in> {StatusBadRequest, StatusUnauthorized, StatusNotFound}"

definition harmless_errors :: "('w sys, response) state \<Rightarrow> bool" where
  "harmless_errors m \<longleftrightarrow> (\<forall>s w s'. run_state m s = (w, s') \<longrightarrow> client_error w \<longrightarrow>
     db s' = db s \<and> log s' = log s \<and> metrics s' = metrics s)"

lemma harmless_ret: "harmless_errors (ret w)"
  by (simp add: harmless_errors_def)

lemma harmless_if: "(b \<Longrightarrow> harmless_errors m) \<Longrightarrow> (\<not> b \<Longrightarrow> harmless_errors n) \<Longrightarrow> harmless_errors (if b then m else n)"
  by simp

lemma harmless_case_option:
  "harmless_errors m \<Longrightarrow> (\<And>y. harmless_errors (f y)) \<Longrightarrow> harmless_errors (case x of None \<Rightarrow> m | Some y \<Rightarrow> f y)"
  by (cases x) simp_all

lemma harmless_status:
  "(\<And>s w s'. run_state m s = (w, s') \<Longrightarrow> \<not> client_error w) \<Longrightarrow> harmless_errors m"
  unfolding harmless_errors_def by blast

lemma harmless_read:
  assumes "\<And>s x s'. run_state m s = (x, s') \<Longrightarrow> \<exists>w. s' = s\<lparr>ext := w\<rparr>"
    and "\<And>e. harmless_errors (h e)" and "\<And>x. harmless_errors (k x)"
  shows "harmless_errors (on_err m h k)"
  unfolding harmless_errors_def
proof (intro allI impI conjI)
  fix s w s'
  assume run: "run_state (on_err m h k) s = (w, s')" and bad: "client_error w"
  obtain x s1 where m: "run_state m s = (x, s1)"
    by (cases "run_state m s")
  obtain u where s1: "s1 = s\<lparr>ext := u\<rparr>"
    using assms(1) [OF m] by blast
  have "\<exists>n. harmless_errors n \<and> run_state n s1 = (w, s')"
    using run m assms(2,3) by (cases x) (auto simp: run_err)
  then have "db s' = db s1 \<and> log s' = log s1 \<and> metrics s' = metrics s1"
    using bad unfolding harmless_errors_def by blast
  then show "db s' = db s" "log s' = log s" "metrics s' = metrics s"
    by (simp_all add: s1)
qed

lemmas harmless_rules = harmless_ret harmless_if harmless_case_option

lemma harmless_with_environment:
  "(\<And>env. harmless_errors (k env)) \<Longrightarrow> harmless_errors (with_environment sv rq k)"
  unfolding with_environment_def by (intro harmless_read lookup_effect harmless_ret)

lemma harmless_respond:
  "status \<notin> {400, 401, 404} \<Longrightarrow> harmless_errors (respond_apply sv op status req)"
  "harmless_errors (respond_action op m)"
  by (rule harmless_status; auto simp: respond_apply_def respond_action_def run_err client_error_def
      writeJSON_def writeError_def split: prod.splits sum.splits if_splits)+

lemma ListEnvironments_effect:
  "run_state (ListEnvironments rt opts) s = (x, s') \<Longrightarrow> \<exists>w. s' = s\<lparr>ext := w\<rparr>"
  by (cases "run_state (query rt (select_environments (normalized opts))) s")
    (auto simp: ListEnvironments_def run_err fails_def Let_def dest!: query_effect split: sum.splits)

lemma handlers_harmless:
  "harmless_errors (handleHealthz sv rq)" "harmless_errors (handleReadyz sv rq)" "harmless_errors (handleMetrics sv rq)"
  "harmless_errors (handleDashboard sv rq)" "harmless_errors (handleDashboardConfig sv rq)"
  "harmless_errors (handleListEnvironments sv rq)" "harmless_errors (handleGetEnvironment sv rq)"
  "harmless_errors (handleCreateEnvironment sv rq)" "harmless_errors (handleUpdateEnvironment sv rq)"
  "harmless_errors (handleDeleteEnvironment sv rq)" "harmless_errors (handleRollbackEnvironment sv rq)"
  "harmless_errors (handleSleepEnvironment sv rq)" "harmless_errors (handleWakeEnvironment sv rq)"
  "harmless_errors (handleLogs sv rq)"
proof -
  show "harmless_errors (handleHealthz sv rq)"
    unfolding handleHealthz_def by (intro harmless_read harmless_ret ListEnvironments_effect)
  show "harmless_errors (handleReadyz sv rq)"
    by (rule harmless_status) (auto simp: handleReadyz_def run_err client_error_def writeJSON_def writeError_def
        WriteHeader_def split: prod.splits sum.splits if_splits)
  show "harmless_errors (handleMetrics sv rq)"
    by (rule harmless_status) (auto simp: handleMetrics_def client_error_def)
  show "harmless_errors (handleDashboard sv rq)" "harmless_errors (handleDashboardConfig sv rq)"
    unfolding handleDashboard_def handleDashboardConfig_def by (intro harmless_rules)+
  show "harmless_errors (handleListEnvironments sv rq)"
    unfolding handleListEnvironments_def Let_def
    by (auto split: sum.splits intro!: harmless_ret harmless_read ListEnvironments_effect)
  show "harmless_errors (handleGetEnvironment sv rq)"
    unfolding handleGetEnvironment_def by (intro harmless_with_environment harmless_ret)
  show "harmless_errors (handleCreateEnvironment sv rq)" "harmless_errors (handleUpdateEnvironment sv rq)"
      "harmless_errors (handleRollbackEnvironment sv rq)" "harmless_errors (handleSleepEnvironment sv rq)"
      "harmless_errors (handleWakeEnvironment sv rq)"
    unfolding handleCreateEnvironment_def handleUpdateEnvironment_def handleRollbackEnvironment_def
      handleSleepEnvironment_def handleWakeEnvironment_def
    by (intro harmless_with_environment harmless_rules harmless_respond; simp)+
  show "harmless_errors (handleDeleteEnvironment sv rq)"
    unfolding handleDeleteEnvironment_def
    by (intro harmless_with_environment, rule harmless_status)
      (auto simp: run_err client_error_def writeJSON_def writeError_def WriteHeader_def split: prod.splits option.splits)
  show "harmless_errors (handleLogs sv rq)"
    unfolding handleLogs_def
    by (intro harmless_with_environment harmless_rules harmless_read) (auto split: prod.splits)
qed


text \<open>The endpoints under an environment.\<close>

definition of_environment :: "endpoint \<Rightarrow> bool" where
  "of_environment e \<longleftrightarrow> e \<in> {GetEnv, UpdateEnv, DeleteEnv, SleepEnv, WakeEnv, RollbackEnv, LogsOfEnv}"

lemma GetEnvironment_healthy:
  assumes "healthy_driver rt"
  shows "\<exists>w. run_state (GetEnvironment rt i) s = (case select_environment i (db s) of
      None \<Rightarrow> Inl (wrapf (''getting environment '' @ i @ '': '') ErrNotFound) | Some r \<Rightarrow> Inr (scanEnvironment r), s\<lparr>ext := w\<rparr>)"
proof -
  obtain w' where "run_state (rt_sql rt) (ext s) = (None, w')"
    using healthy_sql [OF assms] by blast
  then show ?thesis
    by (auto simp: GetEnvironment_def query_def run_err fails_def Let_def split: option.splits)
qed

lemma with_environment_healthy:
  assumes "healthy_driver (sv_store sv)"
  shows "\<exists>w. run_state (with_environment sv rq k) s = (case select_environment (rq_id rq) (db s) of
      None \<Rightarrow> (writeError StatusNotFound ''environment not found'', s\<lparr>ext := w\<rparr>)
    | Some r \<Rightarrow> run_state (k (scanEnvironment r)) (s\<lparr>ext := w\<rparr>))"
proof -
  obtain w where "run_state (GetEnvironment (sv_store sv) (rq_id rq)) s = (case select_environment (rq_id rq) (db s) of
      None \<Rightarrow> Inl (wrapf (''getting environment '' @ rq_id rq @ '': '') ErrNotFound) | Some r \<Rightarrow> Inr (scanEnvironment r), s\<lparr>ext := w\<rparr>)"
    using GetEnvironment_healthy [OF assms] by blast
  then show ?thesis
    by (auto simp: with_environment_def lookupEnvironment_def run_err split: option.splits)
qed

text \<open>An action refused for its status: the lock is taken and released, nothing else happens.\<close>

definition refused :: "('w sys, error + Environment) state \<Rightarrow> bool" where
  "refused m \<longleftrightarrow> (\<forall>s. \<exists>err s'. run_state m s = (Inl err, s') \<and> errors_Is err ErrInvalidEnvironmentAction
     \<and> db s' = db s \<and> filter provider_side (log s') = filter provider_side (log s))"

lemma refused_actions:
  "env_Status env \<noteq> StatusReady \<Longrightarrow> refused (Sleep r env)"
  "env_Status env \<noteq> StatusSleeping \<Longrightarrow> refused (Wake r env)"
  by (simp_all add: refused_def Sleep_def Wake_def with_lock_def invalid_action_def)

lemma refused_response:
  assumes "refused m" and "run_state (respond_action op m) s = (w, s')"
  shows "rs_Status w = StatusConflict \<and> db s' = db s \<and> filter provider_side (log s') = filter provider_side (log s)"
proof -
  obtain err s1 where "run_state m s = (Inl err, s1)" "errors_Is err ErrInvalidEnvironmentAction"
      "db s1 = db s" "filter provider_side (log s1) = filter provider_side (log s)"
    using assms(1) unfolding refused_def by blast
  with assms(2) show ?thesis
    by (auto simp: respond_action_def run_err writeError_def writeJSON_def)
qed

definition never_404 :: "(Environment \<Rightarrow> ('w sys, response) state) \<Rightarrow> bool" where
  "never_404 k \<longleftrightarrow> (\<forall>env s w s'. run_state (k env) s = (w, s') \<longrightarrow> rs_Status w \<noteq> StatusNotFound)"

lemma environment_handlers:
  assumes "of_environment e"
  shows "\<exists>k. handle sv e rq = with_environment sv rq k \<and> never_404 k"
proof -
  note never = never_404_def run_err respond_apply_def respond_action_def writeJSON_def writeError_def WriteHeader_def
  have "\<exists>k. handle sv GetEnv rq = with_environment sv rq k \<and> never_404 k"
    by (rule exI, rule conjI, unfold handle_def endpoint.case handleGetEnvironment_def, rule refl)
      (auto simp: never split: prod.splits sum.splits option.splits if_splits)
  moreover have "\<exists>k. handle sv UpdateEnv rq = with_environment sv rq k \<and> never_404 k"
    by (rule exI, rule conjI, unfold handle_def endpoint.case handleUpdateEnvironment_def, rule refl)
      (auto simp: never split: prod.splits sum.splits option.splits if_splits)
  moreover have "\<exists>k. handle sv DeleteEnv rq = with_environment sv rq k \<and> never_404 k"
    by (rule exI, rule conjI, unfold handle_def endpoint.case handleDeleteEnvironment_def, rule refl)
      (auto simp: never split: prod.splits sum.splits option.splits if_splits)
  moreover have "\<exists>k. handle sv SleepEnv rq = with_environment sv rq k \<and> never_404 k"
    by (rule exI, rule conjI, unfold handle_def endpoint.case handleSleepEnvironment_def, rule refl)
      (auto simp: never split: prod.splits sum.splits option.splits if_splits)
  moreover have "\<exists>k. handle sv WakeEnv rq = with_environment sv rq k \<and> never_404 k"
    by (rule exI, rule conjI, unfold handle_def endpoint.case handleWakeEnvironment_def, rule refl)
      (auto simp: never split: prod.splits sum.splits option.splits if_splits)
  moreover have "\<exists>k. handle sv RollbackEnv rq = with_environment sv rq k \<and> never_404 k"
    by (rule exI, rule conjI, unfold handle_def endpoint.case handleRollbackEnvironment_def, rule refl)
      (auto simp: never split: prod.splits sum.splits option.splits if_splits)
  moreover have "\<exists>k. handle sv LogsOfEnv rq = with_environment sv rq k \<and> never_404 k"
    by (rule exI, rule conjI, unfold handle_def endpoint.case handleLogs_def, rule refl)
      (auto simp: never split: prod.splits sum.splits option.splits if_splits)
  ultimately show ?thesis
    using assms unfolding of_environment_def by auto
qed

lemma refused_action_answer:
  assumes "er_status row \<noteq> StatusReady \<and> (e = SleepEnv \<or> er_status row \<noteq> StatusSleeping \<and> e = WakeEnv)"
  shows "\<exists>op m. refused (m (scanEnvironment row)) \<and> handle sv e rq = with_environment sv rq (\<lambda>env. respond_action op (m env))"
proof -
  have st: "env_Status (scanEnvironment row) = er_status row"
    by (simp add: scanEnvironment_def)
  consider "e = SleepEnv" | "e = WakeEnv" "er_status row \<noteq> StatusSleeping"
    using assms by blast
  then show ?thesis
  proof cases
    case 1
    then show ?thesis
      using refused_actions(1) [of "scanEnvironment row"] assms st
      by (intro exI [of _ "''sleeping environment: ''"] exI [of _ "Sleep (sv_reconciler sv)"])
        (simp add: handle_def handleSleepEnvironment_def)
  next
    case 2
    then show ?thesis
      using refused_actions(2) [of "scanEnvironment row"] st
      by (intro exI [of _ "''waking environment: ''"] exI [of _ "Wake (sv_reconciler sv)"])
        (simp add: handle_def handleWakeEnvironment_def)
  qed
qed

text \<open>
  What the endpoints of one environment answer. On a driver that does not fail, each of them
  answers 404 exactly for an identifier that no row has, and then the state is the same; a sleep
  request for an environment that is not ready, and a wake request for one that is neither ready
  nor sleeping, is answered with 409, and no row, no event and no provider is touched.
\<close>

theorem environment_endpoints_answer:
  assumes "healthy_driver (sv_store sv)" and "of_environment e"
    and "run_state (handle sv e rq) s = (resp, s')"
  shows "case select_environment (rq_id rq) (db s) of
      None \<Rightarrow> rs_Status resp = StatusNotFound \<and> (\<exists>w. s' = s\<lparr>ext := w\<rparr>)
    | Some row \<Rightarrow> (if er_status row \<noteq> StatusReady \<and> (e = SleepEnv \<or> er_status row \<noteq> StatusSleeping \<and> e = WakeEnv)
        then rs_Status resp = StatusConflict \<and> db s' = db s \<and> filter provider_side (log s') = filter provider_side (log s)
        else rs_Status resp \<noteq> StatusNotFound)"
proof (cases "select_environment (rq_id rq) (db s)")
  case None
  obtain k where k: "handle sv e rq = with_environment sv rq k"
    using environment_handlers [OF assms(2)] by blast
  with with_environment_healthy [OF assms(1), of rq k s] assms(3) None show ?thesis
    by (auto simp: writeError_def writeJSON_def)
next
  case (Some row)
  show ?thesis
  proof (cases "er_status row \<noteq> StatusReady \<and> (e = SleepEnv \<or> er_status row \<noteq> StatusSleeping \<and> e = WakeEnv)")
    case True
    obtain op m where k: "handle sv e rq = with_environment sv rq (\<lambda>env. respond_action op (m env))"
      and refused: "refused (m (scanEnvironment row))"
      using refused_action_answer [OF True] by blast
    obtain w where "run_state (respond_action op (m (scanEnvironment row))) (s\<lparr>ext := w\<rparr>) = (resp, s')"
      using with_environment_healthy [OF assms(1), of rq "\<lambda>env. respond_action op (m env)" s] assms(3) Some k by auto
    from refused_response [OF refused this]
    have "rs_Status resp = StatusConflict \<and> db s' = db s \<and> filter provider_side (log s') = filter provider_side (log s)"
      by simp
    with Some True show ?thesis by simp
  next
    case False
    obtain k where k: "handle sv e rq = with_environment sv rq k" "never_404 k"
      using environment_handlers [OF assms(2)] by blast
    obtain w where "run_state (k (scanEnvironment row)) (s\<lparr>ext := w\<rparr>) = (resp, s')"
      using with_environment_healthy [OF assms(1), of rq k s] assms(3) Some k by auto
    with k(2) have "rs_Status resp \<noteq> StatusNotFound"
      unfolding never_404_def by blast
    then show ?thesis
      by (simp only: Some option.case if_not_P [OF False] not_False_eq_True)
  qed
qed

section \<open>The token guard\<close>

text \<open>The fixed part of a pattern in front of its parameters.\<close>

definition literal_prefix :: "string \<Rightarrow> string" where
  "literal_prefix pat = TrimSuffix (takeWhile (\<lambda>c. c \<noteq> CHR ''{'' \<and> c \<noteq> CHR ''*'') pat) ''/''"

text \<open>
  What is relied on of the router library: it dispatches a request only to a registered route
  of the same method, whose fixed part starts the path. A request without a route is answered
  with a status of its own.
\<close>

definition router_law :: "(string \<Rightarrow> string \<Rightarrow> int + endpoint) \<Rightarrow> bool" where
  "router_law matching \<longleftrightarrow> (\<forall>verb path e. matching verb path = Inr e \<longrightarrow>
     (\<exists>pat. (verb, pat, e) \<in> set routes \<and> HasPrefix path (literal_prefix pat)))"

definition ServeHTTP ::
  "(string \<Rightarrow> string \<Rightarrow> int + endpoint) \<Rightarrow> 'w Server \<Rightarrow> string \<Rightarrow> request \<Rightarrow> ('w sys, response) state" where
  "ServeHTTP matching sv verb = securityHeaders (\<lambda>rq. case matching verb (rq_Path rq) of
     Inl status \<Rightarrow> ret (WriteHeader status) | Inr e \<Rightarrow> handle sv e rq)"

definition tcp_api ::
  "(string \<Rightarrow> string \<Rightarrow> int + endpoint) \<Rightarrow> 'w Server \<Rightarrow> string \<Rightarrow> string \<Rightarrow> request \<Rightarrow> ('w sys, response) state" where
  "tcp_api matching sv token verb = tokenAuth token (ServeHTTP matching sv verb)"

text \<open>
  The two servers \<open>Serve\<close> starts, with their bounds on reading and idling; a connection of the first is
  anyone's who may open the socket file, one of the second has to show the token.
\<close>

abbreviation readHeaderTimeout :: time where "readHeaderTimeout \<equiv> 10 * Second"
abbreviation readTimeout :: time where "readTimeout \<equiv> 30 * Second"
abbreviation idleTimeout :: time where "idleTimeout \<equiv> 120 * Second"

record 'w http_server =
  hs_Addr :: string
  hs_Handler :: "string \<Rightarrow> request \<Rightarrow> ('w sys, response) state"
  hs_ReadHeaderTimeout :: time
  hs_ReadTimeout :: time
  hs_IdleTimeout :: time

definition unixServer :: "(string \<Rightarrow> string \<Rightarrow> int + endpoint) \<Rightarrow> 'w Server \<Rightarrow> 'w http_server" where
  "unixServer matching sv =
     \<lparr>hs_Addr = [], hs_Handler = ServeHTTP matching sv, hs_ReadHeaderTimeout = readHeaderTimeout,
      hs_ReadTimeout = readTimeout, hs_IdleTimeout = idleTimeout\<rparr>"

definition tcpServer ::
  "(string \<Rightarrow> string \<Rightarrow> int + endpoint) \<Rightarrow> 'w Server \<Rightarrow> string \<Rightarrow> string \<Rightarrow> 'w http_server" where
  "tcpServer matching sv tcpAddr tcpToken =
     \<lparr>hs_Addr = tcpAddr, hs_Handler = tcp_api matching sv tcpToken, hs_ReadHeaderTimeout = readHeaderTimeout,
      hs_ReadTimeout = readTimeout, hs_IdleTimeout = idleTimeout\<rparr>"

definition serves_tls :: "string \<Rightarrow> string \<Rightarrow> bool" where
  "serves_tls tlsCertFile tlsKeyFile \<longleftrightarrow> tlsCertFile \<noteq> [] \<and> tlsKeyFile \<noteq> []"

lemma dashboard_routes:
  assumes "isDashboardAsset path" and "(verb, pat, e) \<in> set routes" and "HasPrefix path (literal_prefix pat)"
  shows "e \<in> {Dashboard, DashboardConfig}"
proof -
  obtain rest where "path = ''/dashboard'' @ rest"
    using assms(1) by (auto simp: isDashboardAsset_def HasPrefix_iff)
  with assms(2,3) show ?thesis
    by (auto simp: routes_def literal_prefix_def HasPrefix_def TrimSuffix_def HasSuffix_def)
qed

text \<open>
  C11: the token guards everything but the static dashboard. On the TCP listener, a request
  without the exact bearer token (and every request while no token is configured) leaves the
  whole state as it is, and is answered with 401 unless its path lies under \<open>/dashboard\<close>, where
  nothing but the page and the base domain can be reached; with the token it is routed as on the
  unix socket.
\<close>

theorem token_guards_api:
  assumes "router_law matching"
  shows "if token \<noteq> [] \<and> rq_Header rq ''Authorization'' = ''Bearer '' @ token
    then run_state (tcp_api matching sv token verb rq) s = run_state (ServeHTTP matching sv verb rq) s
    else (\<exists>resp. run_state (tcp_api matching sv token verb rq) s = (resp, s)
        \<and> (if isDashboardAsset (rq_Path rq) then (\<forall>e. matching verb (rq_Path rq) \<noteq> Inr e \<or> e \<in> {Dashboard, DashboardConfig})
           else rs_Status resp = StatusUnauthorized))"
proof (cases "token \<noteq> [] \<and> rq_Header rq ''Authorization'' = ''Bearer '' @ token")
  case True
  then show ?thesis
    by (simp add: tcp_api_def tokenAuth_def)
next
  case False
  show ?thesis
  proof (cases "isDashboardAsset (rq_Path rq)")
    case True
    have only: "e \<in> {Dashboard, DashboardConfig}" if "matching verb (rq_Path rq) = Inr e" for e
      using assms that dashboard_routes [OF True] unfolding router_law_def by blast
    then have "\<exists>resp. run_state (ServeHTTP matching sv verb rq) s = (resp, s)"
      by (cases "matching verb (rq_Path rq)")
        (auto simp: ServeHTTP_def securityHeaders_def handle_def handleDashboard_def handleDashboardConfig_def)
    with True False only show ?thesis
      by (auto simp: tcp_api_def tokenAuth_def)
  next
    case no: False
    with False show ?thesis
      by (auto simp: tcp_api_def tokenAuth_def)
  qed
qed

section \<open>An example server\<close>

definition ex_push :: Event where
  "ex_push = empty_Event\<lparr>pe_Kind := ''branch_pushed'', pe_Project := ''p'', pe_Branch := ''b'', pe_Artifact := ''v2''\<rparr>"

definition ex_server :: "example_world Server" where
  "ex_server = NewServer ex_runtime ex_reconciler
     \<lparr>gp_ParseWebhook = (\<lambda>b sig. ret (if sig = ''good'' then Inr ex_push else Inl ErrInvalidWebhookSignature)),
      gp_HeaderNamer = None\<rparr> ex_deploy ''preview.dev'' (\<lambda>_. WriteHeader 404)"

definition ex_request :: request where
  "ex_request = \<lparr>rq_Path = ''/environments/'', rq_Query = (\<lambda>_. []),
     rq_Header = (\<lambda>h. if h = ''X-Hub-Signature-256'' then ''good'' else if h = ''X-GitHub-Delivery'' then ''d-1'' else []),
     rq_id = ''nosuch'', rq_Body = ''{}'', rq_body_err = None\<rparr>"

lemmas ex_server_defs = ex_server_def NewServer_def

lemma ex_server_store [simp]: "sv_store ex_server = ex_runtime"
  by (simp add: ex_server_defs)

text \<open>A router that finds a route by its literal pattern.\<close>

definition exact_match :: "string \<Rightarrow> string \<Rightarrow> int + endpoint" where
  "exact_match verb path = (case List.find (\<lambda>(v, pat, e). v = verb \<and> pat = path) routes of
     None \<Rightarrow> Inl StatusNotFound | Some (_, _, e) \<Rightarrow> Inr e)"

lemma HasPrefix_literal: "HasPrefix pat (literal_prefix pat)"
proof -
  obtain u where "pat = takeWhile (\<lambda>c. c \<noteq> CHR ''{'' \<and> c \<noteq> CHR ''*'') pat @ u"
    by (metis takeWhile_dropWhile_id)
  moreover have "\<exists>v. t = TrimSuffix t p @ v" for t p :: string
    by (auto simp: TrimSuffix_def intro: exI [of _ "drop (length t - length p) t"])
  ultimately show ?thesis
    unfolding literal_prefix_def HasPrefix_iff by (metis append.assoc)
qed

lemma exact_match_law: "router_law exact_match"
  unfolding router_law_def exact_match_def
  by (auto split: option.splits dest!: find_SomeD intro: HasPrefix_literal)

theorem token_guards_api_witness:
  "\<exists>resp. run_state (tcp_api exact_match ex_server ''secret'' ''GET'' ex_request) ex_sys = (resp, ex_sys)
    \<and> rs_Status resp = StatusUnauthorized"
  using token_guards_api [OF exact_match_law, of "''secret''" ex_request ex_server "''GET''" ex_sys]
  by (simp add: ex_request_def isDashboardAsset_def HasPrefix_def)


theorem environment_endpoints_answer_witness:
  "rs_Status (fst (run_state (handle ex_server GetEnv ex_request) ex_sys)) = StatusNotFound"
proof -
  obtain resp s' where r: "run_state (handle ex_server GetEnv ex_request) ex_sys = (resp, s')"
    by (cases "run_state (handle ex_server GetEnv ex_request) ex_sys")
  have "healthy_driver (sv_store ex_server)" "of_environment GetEnv"
    by (simp_all add: ex_runtime_laws of_environment_def)
  from environment_endpoints_answer [OF this r] r show ?thesis
    by (simp add: ex_request_def ex_sys_def ex_db_def empty_database_def select_environment_def ex_env_def
        environment_args_def empty_Environment_def)
qed

lemma ex_random: "healthy_random ex_runtime"
  by (simp add: healthy_random_def ex_runtime_def)

lemma ex_delivery: "delivery_id ex_server ex_request = ''d-1''" "ReadAll_limited maxWebhookBody ex_request = Inr ''{}''"
  "fst (run_state (parse_delivery ex_server ex_request) w) = Inr ex_push"
  by (simp_all add: delivery_id_def parse_delivery_def webhookHeaders_def ex_server_defs ex_request_def ReadAll_limited_def)

theorem webhook_accepted_is_durable_witness:
  "\<exists>resp queue s'. run_state (handleWebhook ex_server ex_request []) ex_sys = ((resp, queue), s')
    \<and> (if rs_Status resp = StatusAccepted then \<exists>row. db_events (db s') = db_events (db ex_sys) @ [row]
         \<and> inbox_row ''d-1'' ex_push row else db s' = db ex_sys)"
proof -
  obtain resp queue s' where r: "run_state (handleWebhook ex_server ex_request []) ex_sys = ((resp, queue), s')"
    by (metis surj_pair)
  from webhook_accepted_is_durable [OF r] r show ?thesis
    by (auto simp: ex_delivery split: if_splits)
qed

definition ex_delivered :: event_row where
  "ex_delivered = ex_event\<lparr>vr_kind := EventKindWebhookReceived, vr_dedupe_key := Some ''d-1''\<rparr>"

theorem redelivery_is_absorbed_witness:
  "\<exists>s'. run_state (handleWebhook ex_server ex_request []) (ex_inbox\<lparr>db := ex_db\<lparr>db_events := [ex_delivered]\<rparr>\<rparr>)
    = ((WriteHeader StatusOK, []), s')"
proof -
  let ?s = "ex_inbox\<lparr>db := ex_db\<lparr>db_events := [ex_delivered]\<rparr>\<rparr>"
  have "healthy_driver (sv_store ex_server)" "healthy_random (sv_store ex_server)"
      "ex_delivered \<in> set (db_events (db ?s))" "vr_kind ex_delivered = EventKindWebhookReceived"
      "vr_dedupe_key ex_delivered = Some (delivery_id ex_server ex_request)" "delivery_id ex_server ex_request \<noteq> []"
    by (simp_all add: ex_runtime_laws ex_random ex_delivered_def ex_delivery)
  from redelivery_is_absorbed [OF this ex_delivery(2,3)] show ?thesis
    by blast
qed

theorem listing_is_complete_witness:
  "\<exists>w. run_state (listEnvironments (direct_client ex_server) ''p'' []) ex_sys
    = (Inr (map scanEnvironment (matching_rows ''p'' [] (db ex_sys))), ex_sys\<lparr>ext := w\<rparr>)"
proof (rule listing_is_complete)
  show "healthy_driver (sv_store ex_server)"
    by (simp add: ex_runtime_laws)
  show "length (matching_rows ''p'' [] (db ex_sys)) \<le> 100000"
    by (simp add: matching_rows_def ex_sys_def ex_db_def empty_database_def)
qed

end
