(* ===== verification/Pr_Comments.thy ===== *)
theory Pr_Comments
  imports Git_Providers Go_Net "HOL-Library.AList"
begin

text \<open>
  Comments on pull requests: \<open>CommentOnPR\<close> of the GitLab and Bitbucket providers, and
  \<open>providers/notify/prcomment\<close>, which renders a notification and posts it. The HTTP client and
  \<open>text/template\<close> are arguments.
\<close>

section \<open>URLs\<close>

text \<open>\<open>url.PathEscape\<close> and \<open>url.QueryEscape\<close>: a percent sign and two hexadecimal digits.\<close>

definition unreserved :: "char \<Rightarrow> bool" where
  "unreserved c \<longleftrightarrow> is_lower c \<or> is_upper c \<or> is_digit c \<or> c \<in> {CHR ''-'', CHR ''_'', CHR ''.'', CHR ''~''}"

definition path_segment_char :: "char \<Rightarrow> bool" where
  "path_segment_char c \<longleftrightarrow> unreserved c \<or> c \<in> {CHR 0x24, CHR ''&'', CHR ''+'', CHR '':'', CHR ''='', CHR ''@''}"

definition upper_hex :: "nat \<Rightarrow> char" where
  "upper_hex n = (if n < 10 then char_of (48 + n) else char_of (55 + n))"

definition percent :: "char \<Rightarrow> string" where
  "percent c = [CHR ''%'', upper_hex (byte c div 16), upper_hex (byte c mod 16)]"

definition PathEscape :: "string \<Rightarrow> string" where
  "PathEscape s = concat (map (\<lambda>c. if path_segment_char c then [c] else percent c) s)"

definition QueryEscape :: "string \<Rightarrow> string" where
  "QueryEscape s = concat (map (\<lambda>c. if unreserved c then [c] else if c = CHR '' '' then ''+'' else percent c) s)"

section \<open>GitLab and Bitbucket\<close>

record http_request =
  hr_URL :: string
  hr_Headers :: "(string \<times> string) list"
  hr_Body :: string

text \<open>\<open>http.NewRequest\<close> as its error for a URL, and \<open>client.Do\<close> as the status code and its text.\<close>

record 'w http_client =
  hc_NewRequest :: "string \<Rightarrow> error option"
  hc_Do :: "http_request \<Rightarrow> ('w, error + int \<times> string) state"

text \<open>The request and the check of its status; \<open>what\<close> starts every error.\<close>

definition post_comment :: "'w http_client \<Rightarrow> string \<Rightarrow> http_request \<Rightarrow> ('w, error option) state" where
  "post_comment c what r =
     (case hc_NewRequest c (hr_URL r) of
        Some err \<Rightarrow> ret (Some (wrapf what err))
      | None \<Rightarrow>
          on_err (hc_Do c r) (\<lambda>err. ret (Some (wrapf what err)))
            (\<lambda>(code, status). ret (if code div 100 \<noteq> 2 then Some (Opaque (what @ ''status '' @ status)) else None)))"

definition gitlab_baseURL :: "string \<Rightarrow> string" where
  "gitlab_baseURL baseURL = TrimRight (if baseURL = [] then ''https://gitlab.com'' else baseURL) (CHR ''/'')"

definition bitbucket_baseURL :: "string \<Rightarrow> string" where
  "bitbucket_baseURL baseURL = TrimRight (if baseURL = [] then ''https://api.bitbucket.org'' else baseURL) (CHR ''/'')"

definition gl_endpoint :: "string \<Rightarrow> string \<Rightarrow> int \<Rightarrow> string" where
  "gl_endpoint base project n =
     base @ ''/api/v4/projects/'' @ PathEscape project @ ''/merge_requests/'' @ Itoa n @ ''/notes''"

definition gl_CommentOnPR :: "'w http_client \<Rightarrow> string \<Rightarrow> string \<Rightarrow> string \<Rightarrow> int \<Rightarrow> string \<Rightarrow> ('w, error option) state" where
  "gl_CommentOnPR c base token project n body =
     post_comment c (''gitlab: comment on mr '' @ project @ ''!'' @ Itoa n @ '': '')
       \<lparr>hr_URL = gl_endpoint base project n,
        hr_Headers = [(''PRIVATE-TOKEN'', token), (''Content-Type'', ''application/x-www-form-urlencoded'')],
        hr_Body = ''body='' @ QueryEscape body\<rparr>"

definition bb_splitProject :: "string \<Rightarrow> error + string \<times> string" where
  "bb_splitProject project =
     (case splitProject project of
        Inl _ \<Rightarrow> Inl (Opaque (''project '' @ Quote project @ '' must be in '' @ [CHR 0x22] @ ''workspace/repository'' @ [CHR 0x22] @ '' form''))
      | Inr parts \<Rightarrow> Inr parts)"

definition bb_endpoint :: "string \<Rightarrow> string \<Rightarrow> string \<Rightarrow> int \<Rightarrow> string" where
  "bb_endpoint base workspace repo n =
     base @ ''/2.0/repositories/'' @ PathEscape workspace @ ''/'' @ PathEscape repo @ ''/pullrequests/'' @ Itoa n @ ''/comments''"

definition bb_CommentOnPR :: "'w http_client \<Rightarrow> string \<Rightarrow> string \<Rightarrow> string \<Rightarrow> int \<Rightarrow> string \<Rightarrow> ('w, error option) state" where
  "bb_CommentOnPR c base token project n body =
     (case bb_splitProject project of
        Inl err \<Rightarrow> ret (Some (wrapf ''bitbucket: comment on pr: '' err))
      | Inr (workspace, repo) \<Rightarrow>
          post_comment c (''bitbucket: comment on pr '' @ at_pr project n)
            \<lparr>hr_URL = bb_endpoint base workspace repo n,
             hr_Headers = [(''Authorization'', ''Bearer '' @ token), (''Content-Type'', ''application/json'')],
             hr_Body = json_object [(''content'', json_object [(''raw'', json_string body)])]\<rparr>)"

section \<open>The Git providers\<close>

text \<open>
  The transport under the GitHub client puts the token on every request; a request that fails is
  reported with its method and URL. \<open>Header.Set\<close> replaces what the header held.
\<close>

record client_request =
  cq_Method :: string
  cq_URL :: string
  cq_Header :: "(string \<times> string) list"
  cq_Body :: string

type_synonym 'w round_tripper = "client_request \<Rightarrow> ('w, error + int \<times> string) state"

record 'w tokenTransport =
  tt_token :: string
  tt_base :: "'w round_tripper option"

definition RoundTrip :: "'w round_tripper \<Rightarrow> 'w tokenTransport \<Rightarrow> 'w round_tripper" where
  "RoundTrip defaultTransport t req =
     (let cloned = req\<lparr>cq_Header := AList.update ''Authorization'' (''Bearer '' @ tt_token t) (cq_Header req)\<rparr>;
          base = (case tt_base t of None \<Rightarrow> defaultTransport | Some b \<Rightarrow> b)
      in on_err (base cloned)
           (\<lambda>err. ret (Inl (wrapf (''github: request '' @ cq_Method req @ '' '' @ cq_URL req @ '': '') err)))
           (\<lambda>resp. ret (Inr resp)))"

record 'w github =
  gh_client :: "'w gh_issues"
  gh_webhookSecret :: string

definition GitHub_New :: "'w gh_issues \<Rightarrow> string \<Rightarrow> 'w github" where
  "GitHub_New c webhookSecret = \<lparr>gh_client = c, gh_webhookSecret = webhookSecret\<rparr>"

text \<open>\<open>newClient\<close> is the client of another module over a transport.\<close>

definition NewWithToken ::
  "'w round_tripper \<Rightarrow> ('w round_tripper \<Rightarrow> 'w gh_issues) \<Rightarrow> string \<Rightarrow> string \<Rightarrow> 'w github" where
  "NewWithToken defaultTransport newClient token webhookSecret =
     GitHub_New (newClient (RoundTrip defaultTransport \<lparr>tt_token = token, tt_base = None\<rparr>)) webhookSecret"

definition gh_SignatureHeader :: string where "gh_SignatureHeader = ''X-Hub-Signature-256''"
definition gh_DeliveryHeader :: string where "gh_DeliveryHeader = ''X-GitHub-Delivery''"

record 'w gitlab =
  gl_baseURL :: string
  gl_token :: string
  gl_secret :: string
  gl_client :: "'w http_client"

definition GitLab_New :: "'w http_client \<Rightarrow> string \<Rightarrow> string \<Rightarrow> string \<Rightarrow> 'w gitlab" where
  "GitLab_New c token webhookSecret baseURL =
     \<lparr>gl_baseURL = gitlab_baseURL baseURL, gl_token = token, gl_secret = webhookSecret, gl_client = c\<rparr>"

definition gl_SignatureHeader :: string where "gl_SignatureHeader = ''X-Gitlab-Token''"
definition gl_DeliveryHeader :: string where "gl_DeliveryHeader = ''X-Gitlab-Event-UUID''"

record 'w bitbucket =
  bb_baseURL :: string
  bb_token :: string
  bb_secret :: string
  bb_client :: "'w http_client"

definition Bitbucket_New :: "'w http_client \<Rightarrow> string \<Rightarrow> string \<Rightarrow> string \<Rightarrow> 'w bitbucket" where
  "Bitbucket_New c token webhookSecret baseURL =
     \<lparr>bb_baseURL = bitbucket_baseURL baseURL, bb_token = token, bb_secret = webhookSecret, bb_client = c\<rparr>"

definition bb_SignatureHeader :: string where "bb_SignatureHeader = ''X-Hub-Signature''"
definition bb_DeliveryHeader :: string where "bb_DeliveryHeader = ''X-Hook-UUID''"

text \<open>Whatever the client put there, the request that leaves carries the token and nothing else.\<close>

lemma RoundTrip_authorized:
  "\<exists>q. RoundTrip base t req = on_err ((case tt_base t of None \<Rightarrow> base | Some b \<Rightarrow> b) q)
      (\<lambda>err. ret (Inl (wrapf (''github: request '' @ cq_Method req @ '' '' @ cq_URL req @ '': '') err)))
      (\<lambda>resp. ret (Inr resp))
    \<and> map_of (cq_Header q) ''Authorization'' = Some (''Bearer '' @ tt_token t)
    \<and> (\<forall>h. h \<noteq> ''Authorization'' \<longrightarrow> map_of (cq_Header q) h = map_of (cq_Header req) h)
    \<and> cq_Method q = cq_Method req \<and> cq_URL q = cq_URL req \<and> cq_Body q = cq_Body req"
  by (rule exI [of _ "req\<lparr>cq_Header := AList.update ''Authorization'' (''Bearer '' @ tt_token t) (cq_Header req)\<rparr>"])
    (simp add: RoundTrip_def Let_def update_conv')

section \<open>The notifier\<close>

text \<open>A Git provider as the notifier sees it; the second method is the optional capability.\<close>

record 'w comment_host =
  ch_CommentOnPR :: "string \<Rightarrow> int \<Rightarrow> string \<Rightarrow> ('w, error option) state"
  ch_UpsertPreviewComment :: "(string \<Rightarrow> int \<Rightarrow> string \<Rightarrow> ('w, error option) state) option"

definition newlines :: string where
  "newlines = [CHR 0x0A, CHR 0x0A]"

definition defaultTemplates :: "(string \<times> string) list" where
  "defaultTemplates =
     [(''ready'', ''Preview environment ready: {{.URL}}''),
      (''updated'', ''Preview environment updated: {{.URL}}''),
      (''failed'', ''Preview environment failed to deploy.'' @ newlines @ ''{{.Detail}}''),
      (''degraded'', ''Preview environment update failed and was rolled back to the last known-good revision; ''
         @ ''it is still serving, but not the requested change.'' @ newlines @ ''{{.Detail}}''),
      (''expiring'', ''This preview environment will expire soon.''),
      (''destroyed'', ''Preview environment destroyed.'')]"

record ('w, 't) prcomment =
  nt_git :: "'w comment_host"
  nt_templates :: "string \<Rightarrow> 't option"

text \<open>
  \<open>New\<close>: the overrides replace defaults or add kinds, and every template is parsed. With several
  malformed templates Go reports the one its map yields first; here it is the first of the list.
\<close>

fun parse_all :: "(string \<Rightarrow> string \<Rightarrow> error + 't) \<Rightarrow> (string \<times> string) list \<Rightarrow> error + (string \<Rightarrow> 't option)" where
  "parse_all parse [] = Inr (\<lambda>_. None)"
| "parse_all parse ((kind, txt) # rest) =
     (case parse kind txt of
        Inl err \<Rightarrow> Inl (wrapf (''prcomment: parsing template for '' @ Quote kind @ '': '') err)
      | Inr t \<Rightarrow> (case parse_all parse rest of Inl err \<Rightarrow> Inl err | Inr m \<Rightarrow> Inr (m(kind \<mapsto> t))))"

definition merged_templates :: "(string \<times> string) list \<Rightarrow> (string \<times> string) list" where
  "merged_templates overrides = AList.merge defaultTemplates overrides"

definition prcomment_New ::
  "(string \<Rightarrow> string \<Rightarrow> error + 't) \<Rightarrow> 'w comment_host \<Rightarrow> (string \<times> string) list \<Rightarrow> error + ('w, 't) prcomment" where
  "prcomment_New parse git overrides =
     (case parse_all parse (merged_templates overrides) of
        Inl err \<Rightarrow> Inl err
      | Inr m \<Rightarrow> Inr \<lparr>nt_git = git, nt_templates = m\<rparr>)"

definition prcomment_Notify ::
  "('t \<Rightarrow> NotifyEvent \<Rightarrow> error + string) \<Rightarrow> ('w, 't) prcomment \<Rightarrow> string \<Rightarrow> int \<Rightarrow> NotifyEvent \<Rightarrow> ('w, error option) state" where
  "prcomment_Notify execute p project prNumber ev =
     (if prNumber = 0 then ret None
      else case nt_templates p (ne_Kind ev) of
        None \<Rightarrow> ret (Some (Opaque (''prcomment: no template configured for notify kind '' @ Quote (ne_Kind ev))))
      | Some tmpl \<Rightarrow>
          (case execute tmpl ev of
             Inl err \<Rightarrow> ret (Some (wrapf (''prcomment: rendering template for '' @ Quote (ne_Kind ev) @ '': '') err))
           | Inr rendered \<Rightarrow>
               if_err ((case ch_UpsertPreviewComment (nt_git p) of
                          Some upsert \<Rightarrow> upsert
                        | None \<Rightarrow> ch_CommentOnPR (nt_git p)) project prNumber rendered)
                 (\<lambda>err. ret (Some (wrapf (''prcomment: notify '' @ at_pr project prNumber) err))) (ret None)))"

definition prcomment_provider ::
  "('t \<Rightarrow> NotifyEvent \<Rightarrow> error + string) \<Rightarrow> ('w, 't) prcomment \<Rightarrow> 'w NotifierProvider" where
  "prcomment_provider execute p = \<lparr>np_Notify = prcomment_Notify execute p\<rparr>"

section \<open>Facts\<close>

lemma parse_all_dom: "parse_all parse ts = Inr m \<Longrightarrow> dom m = fst ` set ts"
proof (induction ts arbitrary: m)
  case (Cons kt ts)
  then obtain t m' where "parse_all parse ts = Inr m'" "m = m'(fst kt \<mapsto> t)"
    by (cases kt) (auto split: sum.splits)
  with Cons.IH show ?case
    by (simp del: fun_upd_apply)
qed simp

lemma New_templates:
  assumes "prcomment_New parse git overrides = Inr p"
  shows "dom (nt_templates p) = fst ` set defaultTemplates \<union> fst ` set overrides"
proof -
  obtain m where m: "parse_all parse (merged_templates overrides) = Inr m" "nt_templates p = m"
    using assms by (auto simp: prcomment_New_def split: sum.splits)
  have "dom m = dom (map_of (merged_templates overrides))"
    using parse_all_dom [OF m(1)] by (simp add: dom_map_of_conv_image_fst)
  then show ?thesis
    unfolding m(2) merged_templates_def by (auto simp: merge_conv' dom_map_of_conv_image_fst)
qed

lemma upper_hex_digit: "n < 16 \<Longrightarrow> (is_digit (upper_hex n) \<or> is_upper (upper_hex n)) \<and> hex_value (upper_hex n) = Some n"
  by (auto simp: upper_hex_def is_digit_def is_upper_def hex_value_def Let_def)

lemma nibbles: "byte c div 16 < 16" "byte c mod 16 < (16 :: nat)"
  using of_char_of_256 [of c] by (simp_all add: less_mult_imp_div_less)

lemma percent_chars: "d \<in> set (percent c) \<Longrightarrow> path_segment_char d \<or> d = CHR ''%''"
  using upper_hex_digit [OF nibbles(1) [of c]] upper_hex_digit [OF nibbles(2) [of c]]
  by (auto simp: percent_def path_segment_char_def unreserved_def)

lemma PathEscape_chars: "d \<in> set (PathEscape s) \<Longrightarrow> path_segment_char d \<or> d = CHR ''%''"
  using percent_chars by (auto simp: PathEscape_def split: if_splits)

lemma PathEscape_no_slash: "CHR ''/'' \<notin> set (PathEscape s)"
  using PathEscape_chars [of "CHR ''/''" s] by (auto simp: path_segment_char_def unreserved_def is_lower_def is_upper_def is_digit_def)

text \<open>Reading an escaped path segment back.\<close>

fun PathUnescape :: "string \<Rightarrow> string" where
  "PathUnescape (a # b # c # s) =
     (if a = CHR ''%'' then char_of (16 * the (hex_value b) + the (hex_value c)) # PathUnescape s
      else a # PathUnescape (b # c # s))"
| "PathUnescape s = s"

lemma PathUnescape_plain: "c \<noteq> CHR ''%'' \<Longrightarrow> PathUnescape (c # s) = c # PathUnescape s"
  by (cases s; cases "tl s") auto

lemma PathUnescape_percent: "PathUnescape (percent c @ s) = c # PathUnescape s"
  using upper_hex_digit [OF nibbles(1) [of c]] upper_hex_digit [OF nibbles(2) [of c]]
  by (simp add: percent_def)

lemma PathUnescape_PathEscape: "PathUnescape (PathEscape s) = s"
proof (induction s)
  case (Cons c s)
  have "PathEscape (c # s) = (if path_segment_char c then [c] else percent c) @ PathEscape s"
    by (simp add: PathEscape_def)
  moreover have "\<not> path_segment_char (CHR ''%'')"
    by (simp add: path_segment_char_def unreserved_def is_lower_def is_upper_def is_digit_def)
  ultimately show ?case
    using Cons PathUnescape_plain [of c] PathUnescape_percent [of c] by (cases "c = CHR ''%''") simp_all
qed (simp add: PathEscape_def)

text \<open>
  A comment goes to the merge request or pull request of its project and nowhere else: after the
  base URL the path has a fixed number of segments, and the ones that stand for the project read
  back as exactly its name, whatever characters a payload put into it.
\<close>

theorem comments_address_their_project:
  "(\<exists>segments. gl_endpoint base project n = base @ strings_Join ([] # segments) ''/''
      \<and> split_on (CHR ''/'') (strings_Join segments ''/'') = segments
      \<and> segments = [''api'', ''v4'', ''projects'', PathEscape project, ''merge_requests'', Itoa n, ''notes'']
      \<and> PathUnescape (segments ! 3) = project)
   \<and> (\<exists>segments. bb_endpoint base workspace repo n = base @ strings_Join ([] # segments) ''/''
      \<and> split_on (CHR ''/'') (strings_Join segments ''/'') = segments
      \<and> segments = [''2.0'', ''repositories'', PathEscape workspace, PathEscape repo, ''pullrequests'', Itoa n, ''comments'']
      \<and> PathUnescape (segments ! 2) = workspace \<and> PathUnescape (segments ! 3) = repo)"
proof -
  have i: "CHR ''/'' \<notin> set (Itoa n)"
    using nat_digits_facts [of "nat n"] nat_digits_facts [of "nat (- n)"]
    by (auto simp: Itoa_def list_all_iff is_digit_def)
  have join: "split_on (CHR ''/'') (strings_Join segments ''/'') = segments"
    if "segments \<noteq> []" "\<forall>s\<in>set segments. CHR ''/'' \<notin> set s" for segments
    using that
  proof (induction segments)
    case (Cons s ss)
    then show ?case
      by (cases ss) (simp_all add: split_on_none split_on_sep)
  qed simp
  show ?thesis
    using i PathEscape_no_slash
    by (intro conjI exI [of _ "[''api'', ''v4'', ''projects'', PathEscape project, ''merge_requests'', Itoa n, ''notes'']"]
        exI [of _ "[''2.0'', ''repositories'', PathEscape workspace, PathEscape repo, ''pullrequests'', Itoa n, ''comments'']"] join)
      (simp_all add: gl_endpoint_def bb_endpoint_def PathUnescape_PathEscape)
qed

end
