(* ===== verification/Notify_Theorems.thy ===== *)
theory Notify_Theorems
  imports Pr_Comments Durable_First Example_World
begin

text \<open>
  What the daemon tells a pull request: which notifications the reconciler sends over all its runs,
  and what the notifier makes of them.
\<close>

section \<open>The kinds that are sent\<close>

definition known_notifications :: "'w sys \<Rightarrow> bool" where
  "known_notifications s \<longleftrightarrow> (\<forall>project n ev. Notified project n ev \<in> set (log s) \<longrightarrow> ne_Kind ev \<in> set sent_kinds)"

interpretation sent: store_contract "known_notifications :: 'w sys \<Rightarrow> bool" r for r :: "'w Reconciler"
  by (rule log_contract) (auto simp: known_notifications_def stored_call_def)

lemma call_notifies:
  "(\<And>x p n ev. c x \<noteq> Notified p n ev) \<Longrightarrow> keeps known_notifications (provider_call c m)"
  by (rule keepsI) (auto simp: known_notifications_def split: prod.splits, metis)

lemma poll_notifies: "keeps known_notifications (poll_health r ref d k)"
  by (induction k arbitrary: d) (auto intro!: keeps_rules call_notifies sent.outside_keeps sent.fails_keeps)

lemma attempt_notifies: "keeps known_notifications (attemptApply r env req name tag)"
  unfolding attemptApply_def attempt_fails_def waitUntilHealthy_def installCertificate_def Let_def
  by (intro keeps_rules call_notifies poll_notifies sent.outside_keeps sent.fails_keeps sent.recordDNSRow_keeps
      sent.persist_ready_keeps) simp_all

interpretation sent_rc: reconciler_contract "known_notifications :: 'w sys \<Rightarrow> bool" r for r :: "'w Reconciler"
proof unfold_locales
  show "background c \<Longrightarrow> known_notifications s \<Longrightarrow> known_notifications (s\<lparr>log := c # log s\<rparr>)" for c and s :: "'w sys"
    by (auto simp: known_notifications_def background_def)
qed (rule attempt_notifies)

interpretation sent_daemon: inductive_invariant "daemon_start d0" "daemon_step r rp" known_notifications
  for d0 and r :: "'w Reconciler" and rp
proof unfold_locales
  show "known_notifications s" if "daemon_start d0 s" for s :: "'w sys"
    using that by (simp add: daemon_start_def known_notifications_def)
qed (rule sent_rc.daemon_step_keeps)

text \<open>
  Every notification has its template. Over all runs of the daemon the reconciler sends five
  kinds only, each of which the notifier has a template for whatever the configuration overrides;
  so for a pull request each is rendered and, if its template executes, posted once, as an update
  of the preview comment where the host can do that. The sixth kind with a template and a
  configuration key, \<open>expiring\<close>, is never sent.
\<close>

theorem notifications_have_templates:
  assumes "reachable (daemon_start d0) (daemon_step r rp) s" and "Notified project n ev \<in> set (log s)"
    and "prcomment_New parse git overrides = Inr p"
  shows "ne_Kind ev \<noteq> ''expiring''
    \<and> (\<exists>tmpl. nt_templates p (ne_Kind ev) = Some tmpl
        \<and> (\<forall>execute w. run_state (prcomment_Notify execute p project n ev) w =
            (if n = 0 then (None, w)
             else case execute tmpl ev of
               Inl err \<Rightarrow> (Some (wrapf (''prcomment: rendering template for '' @ Quote (ne_Kind ev) @ '': '') err), w)
             | Inr rendered \<Rightarrow>
                 (case run_state ((case ch_UpsertPreviewComment git of Some upsert \<Rightarrow> upsert
                                   | None \<Rightarrow> ch_CommentOnPR git) project n rendered) w of
                    (None, w') \<Rightarrow> (None, w')
                  | (Some err, w') \<Rightarrow> (Some (wrapf (''prcomment: notify '' @ at_pr project n) err), w')))))"
proof -
  have k: "ne_Kind ev \<in> set sent_kinds"
    using sent_daemon.reachable_inv [OF assms(1)] assms(2) by (auto simp: known_notifications_def)
  then have "ne_Kind ev \<in> fst ` set defaultTemplates"
    by (auto simp: sent_kinds_def defaultTemplates_def)
  then obtain tmpl where t: "nt_templates p (ne_Kind ev) = Some tmpl"
    using New_templates [OF assms(3)] by blast
  have "nt_git p = git"
    using assms(3) by (auto simp: prcomment_New_def split: sum.splits)
  with t have "run_state (prcomment_Notify execute p project n ev) w =
            (if n = 0 then (None, w)
             else case execute tmpl ev of
               Inl err \<Rightarrow> (Some (wrapf (''prcomment: rendering template for '' @ Quote (ne_Kind ev) @ '': '') err), w)
             | Inr rendered \<Rightarrow>
                 (case run_state ((case ch_UpsertPreviewComment git of Some upsert \<Rightarrow> upsert
                                   | None \<Rightarrow> ch_CommentOnPR git) project n rendered) w of
                    (None, w') \<Rightarrow> (None, w')
                  | (Some err, w') \<Rightarrow> (Some (wrapf (''prcomment: notify '' @ at_pr project n) err), w')))" for execute w
    by (auto simp: prcomment_Notify_def run_if_err split: sum.splits option.splits prod.splits)
  with t k show ?thesis
    by (auto simp: sent_kinds_def)
qed

definition ex_destroyed :: "example_world sys" where
  "ex_destroyed = snd (run_state (Destroy ex_reconciler ex_env) ex_sys)"

lemma ex_destroyed_reachable: "reachable (daemon_start ex_db) (daemon_step ex_reconciler ex_reaper) ex_destroyed"
  unfolding ex_destroyed_def
  by (rule reachable.advance [OF reachable.start [where s = ex_sys]]) (simp_all add: ex_start destroy_step)

definition is_notification :: "call \<Rightarrow> bool" where
  "is_notification c = (case c of Notified _ _ _ \<Rightarrow> True | _ \<Rightarrow> False)"

lemma is_notificationD: "is_notification c \<Longrightarrow> \<exists>project n ev. c = Notified project n ev"
  by (cases c) (simp_all add: is_notification_def)

lemma ex_destroyed_notifies: "list_ex is_notification (log ex_destroyed)"
  by code_simp

definition ex_notifier :: "error + (unit, string) prcomment" where
  "ex_notifier = prcomment_New (\<lambda>kind txt. Inr txt) \<lparr>ch_CommentOnPR = (\<lambda>_ _ _. ret None), ch_UpsertPreviewComment = None\<rparr>
     [(''ready'', ''Up: {{.URL}}'')]"

lemma notifications_have_templates_witness:
  "\<exists>p project n ev. ex_notifier = Inr p \<and> Notified project n ev \<in> set (log ex_destroyed) \<and> nt_templates p (ne_Kind ev) \<noteq> None"
proof -
  obtain project n ev where ev: "Notified project n ev \<in> set (log ex_destroyed)"
    using ex_destroyed_notifies by (auto simp: list_ex_iff dest!: is_notificationD)
  obtain p where p: "ex_notifier = Inr p"
    by (simp add: ex_notifier_def prcomment_New_def merged_templates_def defaultTemplates_def)
  show ?thesis
    using notifications_have_templates [OF ex_destroyed_reachable ev p [unfolded ex_notifier_def]] ev p by blast
qed

end
