(* ===== verification/Config_Model.thy ===== *)
theory Config_Model
  imports Go_Net Go_Text Go_Error
begin

text \<open>
  \<open>internal/config/config.go\<close>: the daemon's configuration, its defaults, the resolution of
  secrets from the environment and the check that runs before anything starts. Reading the file,
  decoding YAML and the process environment are arguments of \<open>Load\<close>. A Go map of templates is
  its list of entries.
\<close>

section \<open>The configuration\<close>

record ServerConfig =
  SocketPath :: string
  TCPAddr :: string
  TCPToken :: string
  TCPTLSCertFile :: string
  TCPTLSKeyFile :: string
  TCPInsecureAllowRemote :: bool

record StoreConfig =
  StorePath :: string

record ReaperConfig =
  ReaperInterval :: int
  DefaultTTL :: int
  EventRetention :: int
  EventConcurrency :: int

record GitHubConfig =
  GitHubToken :: string
  GitHubWebhookSecret :: string

record GitConfig =
  GitProvider :: string
  GitToken :: string
  GitWebhookSecret :: string
  GitBaseURL :: string

record DeployConfig =
  DeployProviderName :: string
  SSHAddr :: string
  SSHUser :: string
  SSHPrivateKeyPath :: string
  SSHKnownHostsPath :: string
  SSHInsecureSkipHostKeyVerify :: bool
  ComposeFile :: string
  DNSTarget :: string
  CertificateDir :: string
  KubernetesNamespace :: string
  KubernetesContext :: string
  KubernetesKubeconfig :: string
  KubernetesIngressClass :: string
  KubernetesContainerPort :: int
  KubernetesServicePort :: int
  ReadinessTimeout :: int
  ReadinessPollInterval :: int

record DNSConfig =
  DNSProviderName :: string
  Zone :: string
  CloudflareAPIToken :: string
  APIToken :: string
  GCPProject :: string
  ZoneID :: string

record ACMEConfig =
  Email :: string
  CADirURL :: string
  StorageDir :: string

record FilterConfig =
  PROnly :: bool
  AllowBranches :: "string list"
  DenyBranches :: "string list"
  RequiredLabels :: "string list"
  MaxConcurrentEnvs :: int

record NotifyConfig =
  CommentTemplates :: "(string \<times> string) list"

record LogConfig =
  LogFormat :: string

record Config =
  BaseDomain :: string
  cfg_Server :: ServerConfig
  cfg_Store :: StoreConfig
  cfg_Reaper :: ReaperConfig
  cfg_GitHub :: GitHubConfig
  cfg_Git :: GitConfig
  cfg_Deploy :: DeployConfig
  cfg_DNS :: DNSConfig
  cfg_ACME :: ACMEConfig
  cfg_Filter :: FilterConfig
  cfg_Notify :: NotifyConfig
  cfg_Log :: LogConfig

text \<open>\<open>var cfg Config\<close>: every field zero.\<close>

definition zero_Config :: Config where
  "zero_Config = \<lparr>BaseDomain = [],
     cfg_Server = \<lparr>SocketPath = [], TCPAddr = [], TCPToken = [], TCPTLSCertFile = [], TCPTLSKeyFile = [],
                   TCPInsecureAllowRemote = False\<rparr>,
     cfg_Store = \<lparr>StorePath = []\<rparr>,
     cfg_Reaper = \<lparr>ReaperInterval = 0, DefaultTTL = 0, EventRetention = 0, EventConcurrency = 0\<rparr>,
     cfg_GitHub = \<lparr>GitHubToken = [], GitHubWebhookSecret = []\<rparr>,
     cfg_Git = \<lparr>GitProvider = [], GitToken = [], GitWebhookSecret = [], GitBaseURL = []\<rparr>,
     cfg_Deploy = \<lparr>DeployProviderName = [], SSHAddr = [], SSHUser = [], SSHPrivateKeyPath = [], SSHKnownHostsPath = [],
                   SSHInsecureSkipHostKeyVerify = False, ComposeFile = [], DNSTarget = [], CertificateDir = [],
                   KubernetesNamespace = [], KubernetesContext = [], KubernetesKubeconfig = [],
                   KubernetesIngressClass = [], KubernetesContainerPort = 0, KubernetesServicePort = 0,
                   ReadinessTimeout = 0, ReadinessPollInterval = 0\<rparr>,
     cfg_DNS = \<lparr>DNSProviderName = [], Zone = [], CloudflareAPIToken = [], APIToken = [], GCPProject = [], ZoneID = []\<rparr>,
     cfg_ACME = \<lparr>Email = [], CADirURL = [], StorageDir = []\<rparr>,
     cfg_Filter = \<lparr>PROnly = False, AllowBranches = [], DenyBranches = [], RequiredLabels = [], MaxConcurrentEnvs = 0\<rparr>,
     cfg_Notify = \<lparr>CommentTemplates = []\<rparr>,
     cfg_Log = \<lparr>LogFormat = []\<rparr>\<rparr>"

section \<open>What is logged\<close>

definition secretFields :: "string list" where
  "secretFields = [''git.token'', ''git.webhook_secret'', ''github.token'', ''github.webhook_secret'',
     ''dns.api_token'', ''dns.cloudflare_api_token'']"

datatype log_value = LogString string | LogStrings "string list"

definition LogValue :: "Config \<Rightarrow> (string \<times> log_value) list" where
  "LogValue c =
     [(''base_domain'', LogString (BaseDomain c)),
      (''store_path'', LogString (StorePath (cfg_Store c))),
      (''deploy_ssh_addr'', LogString (SSHAddr (cfg_Deploy c))),
      (''dns_zone'', LogString (Zone (cfg_DNS c))),
      (''secret_fields_configured'', LogStrings secretFields)]"

section \<open>The check\<close>

definition isLoopbackAddr :: "string \<Rightarrow> bool" where
  "isLoopbackAddr addr =
     (let host = (case SplitHostPort addr of None \<Rightarrow> addr | Some (h, _) \<Rightarrow> h)
      in if EqualFoldASCII host ''localhost'' then True
         else (case ParseIP host of None \<Rightarrow> False | Some ip \<Rightarrow> IsLoopback ip))"

definition or_default :: "string \<Rightarrow> string \<Rightarrow> string" where
  "or_default s d = (if s = [] then d else s)"

text \<open>The names \<open>Validate\<close> appends to \<open>missing\<close>, one guard after another.\<close>

definition missing_when :: "bool \<Rightarrow> string \<Rightarrow> string list" where
  "missing_when b field = (if b then [field] else [])"

definition missing_listener :: "ServerConfig \<Rightarrow> string list" where
  "missing_listener s =
     missing_when (TCPAddr s \<noteq> [] \<and> TCPToken s = []) ''server.tcp_token (required when server.tcp_addr is set)''
     @ (if TCPAddr s \<noteq> [] then
          (let tlsConfigured = (TCPTLSCertFile s \<noteq> [] \<and> TCPTLSKeyFile s \<noteq> [])
           in missing_when (\<not> tlsConfigured \<and> \<not> TCPInsecureAllowRemote s \<and> \<not> isLoopbackAddr (TCPAddr s))
                (''server.tcp_tls_cert_file and server.tcp_tls_key_file (or a loopback server.tcp_addr, ''
                 @ ''or explicit server.tcp_insecure_allow_remote: true)''))
        else [])"

definition missing_compose :: "DeployConfig \<Rightarrow> string list" where
  "missing_compose d =
     missing_when (SSHAddr d = []) ''deploy.ssh_addr''
     @ missing_when (ComposeFile d = []) ''deploy.compose_file''
     @ missing_when (SSHPrivateKeyPath d = []) ''deploy.ssh_private_key_path''
     @ missing_when (CertificateDir d = []) ''deploy.certificate_dir''
     @ missing_when (SSHKnownHostsPath d = [] \<and> \<not> SSHInsecureSkipHostKeyVerify d)
         ''deploy.ssh_known_hosts_path (or explicit deploy.ssh_insecure_skip_host_key_verify: true)''"

definition missing_deploy :: "DeployConfig \<Rightarrow> string list" where
  "missing_deploy d =
     (let deployProvider = or_default (DeployProviderName d) ''compose''
      in (if deployProvider = ''compose'' then missing_compose d else [])
         @ missing_when (deployProvider \<noteq> ''compose'' \<and> deployProvider \<noteq> ''kubernetes'')
             ''deploy.provider (compose or kubernetes)''
         @ missing_when (DNSTarget d = []) ''deploy.dns_target''
         @ missing_when (deployProvider = ''kubernetes'' \<and> KubernetesNamespace d = []) ''deploy.kubernetes_namespace'')"

definition missing_dns :: "DNSConfig \<Rightarrow> string list" where
  "missing_dns d =
     (let dnsProvider = or_default (DNSProviderName d) ''cloudflare''
      in missing_when (Zone d = []) ''dns.zone''
         @ missing_when (dnsProvider \<noteq> ''googlecloud'' \<and> dnsProvider \<noteq> ''route53'' \<and> APIToken d = []
                         \<and> CloudflareAPIToken d = []) ''dns.api_token''
         @ missing_when (dnsProvider \<noteq> ''cloudflare'' \<and> dnsProvider \<noteq> ''route53'' \<and> dnsProvider \<noteq> ''googlecloud''
                         \<and> dnsProvider \<noteq> ''digitalocean'')
             ''dns.provider (cloudflare, route53, googlecloud, or digitalocean)''
         @ missing_when (dnsProvider = ''googlecloud'' \<and> GCPProject d = []) ''dns.project''
         @ missing_when (dnsProvider = ''googlecloud'' \<and> ZoneID d = []) ''dns.zone_id'')"

definition missing_git :: "GitConfig \<Rightarrow> GitHubConfig \<Rightarrow> string list" where
  "missing_git gc gh =
     (let gitProvider = or_default (GitProvider gc) ''github'';
          gitToken = or_default (GitToken gc) (GitHubToken gh);
          gitSecret = or_default (GitWebhookSecret gc) (GitHubWebhookSecret gh)
      in missing_when (gitToken = []) ''git.token''
         @ missing_when (gitSecret = []) ''git.webhook_secret''
         @ missing_when (gitProvider \<noteq> ''github'' \<and> gitProvider \<noteq> ''gitlab'' \<and> gitProvider \<noteq> ''bitbucket'')
             ''git.provider (github, gitlab, or bitbucket)'')"

definition missing_fields :: "Config \<Rightarrow> string list" where
  "missing_fields c =
     missing_when (BaseDomain c = []) ''base_domain''
     @ missing_when (StorePath (cfg_Store c) = []) ''store.path''
     @ missing_when (SocketPath (cfg_Server c) = []) ''server.socket_path''
     @ missing_listener (cfg_Server c)
     @ missing_git (cfg_Git c) (cfg_GitHub c)
     @ missing_deploy (cfg_Deploy c)
     @ missing_dns (cfg_DNS c)
     @ missing_when (Email (cfg_ACME c) = []) ''acme.email''
     @ missing_when (CADirURL (cfg_ACME c) = []) ''acme.ca_dir_url''
     @ missing_when (MaxConcurrentEnvs (cfg_Filter c) < 0)
         ''filter.max_concurrent_envs (must be zero for unlimited, or a positive count)''"

definition Validate :: "Config \<Rightarrow> error option" where
  "Validate c =
     (let missing = missing_fields c
      in if missing \<noteq> [] then Some (Opaque (''missing required fields: '' @ strings_Join missing '', '')) else None)"

section \<open>Loading\<close>

definition resolveEnv :: "(string \<Rightarrow> string option) \<Rightarrow> string \<Rightarrow> error + string" where
  "resolveEnv LookupEnv v =
     (if v = [] \<or> \<not> HasPrefix v [CHR 0x24] then Inr v
      else (let name = TrimSuffix (TrimPrefix (TrimPrefix v [CHR 0x24]) ''{'') ''}''
            in case LookupEnv name of
                 None \<Rightarrow> Inl (Opaque (''environment variable '' @ name @ '' is not set''))
               | Some resolved \<Rightarrow> Inr resolved))"

text \<open>A secret: resolved, or the error under the field's name.\<close>

definition resolve_field ::
  "(string \<Rightarrow> string option) \<Rightarrow> string \<Rightarrow> string \<Rightarrow> (string \<Rightarrow> error + 'a) \<Rightarrow> error + 'a" where
  "resolve_field LookupEnv field v k =
     (case resolveEnv LookupEnv v of Inl err \<Rightarrow> Inl (wrapf (''config: '' @ field @ '': '') err) | Inr r \<Rightarrow> k r)"

text \<open>The legacy blocks and the default providers, as \<open>Load\<close> fills them in before the secrets.\<close>

definition git_defaults :: "Config \<Rightarrow> Config" where
  "git_defaults c = c\<lparr>cfg_Git := (cfg_Git c)\<lparr>GitProvider := or_default (GitProvider (cfg_Git c)) ''github'',
     GitToken := or_default (GitToken (cfg_Git c)) (GitHubToken (cfg_GitHub c)),
     GitWebhookSecret := or_default (GitWebhookSecret (cfg_Git c)) (GitHubWebhookSecret (cfg_GitHub c))\<rparr>\<rparr>"

definition dns_defaults :: "Config \<Rightarrow> Config" where
  "dns_defaults c = c\<lparr>cfg_DNS := (cfg_DNS c)\<lparr>DNSProviderName := or_default (DNSProviderName (cfg_DNS c)) ''cloudflare'',
     APIToken := or_default (APIToken (cfg_DNS c)) (CloudflareAPIToken (cfg_DNS c))\<rparr>\<rparr>"

definition finish_load :: "(string \<Rightarrow> string option) \<Rightarrow> string \<Rightarrow> Config \<Rightarrow> error + Config" where
  "finish_load LookupEnv path cfg0 =
     (let c0 = git_defaults cfg0
      in resolve_field LookupEnv ''git.token'' (GitToken (cfg_Git c0)) (\<lambda>token.
         resolve_field LookupEnv ''git.webhook_secret'' (GitWebhookSecret (cfg_Git c0)) (\<lambda>secret.
           (let c1 = dns_defaults (c0\<lparr>cfg_Git := (cfg_Git c0)\<lparr>GitToken := token, GitWebhookSecret := secret\<rparr>,
                  cfg_GitHub := (cfg_GitHub c0)\<lparr>GitHubToken := token, GitHubWebhookSecret := secret\<rparr>\<rparr>)
            in resolve_field LookupEnv ''dns.api_token'' (APIToken (cfg_DNS c1)) (\<lambda>api.
               resolve_field LookupEnv ''server.tcp_token'' (TCPToken (cfg_Server c1)) (\<lambda>tcp.
                 (let cfg = c1\<lparr>cfg_DNS := (cfg_DNS c1)\<lparr>APIToken := api, CloudflareAPIToken := api\<rparr>,
                        cfg_Server := (cfg_Server c1)\<lparr>TCPToken := tcp\<rparr>\<rparr>
                  in case Validate cfg of
                       Some err \<Rightarrow> Inl (wrapf (''config: '' @ path @ '': '') err)
                     | None \<Rightarrow> Inr cfg)))))))"

definition Load ::
  "(string \<Rightarrow> error + string) \<Rightarrow> (string \<Rightarrow> error + Config) \<Rightarrow> (string \<Rightarrow> string option) \<Rightarrow> string \<Rightarrow> error + Config" where
  "Load read_file decode LookupEnv path =
     (case read_file path of
        Inl err \<Rightarrow> Inl (wrapf (''config: reading '' @ path @ '': '') err)
      | Inr data \<Rightarrow>
          (case (if length (TrimSpace data) > 0 then decode data else Inr zero_Config) of
             Inl err \<Rightarrow> Inl (wrapf (''config: parsing '' @ path @ '': '') err)
           | Inr cfg \<Rightarrow> finish_load LookupEnv path cfg))"

end
