(* ===== verification/Acme_Provider.thy ===== *)
theory Acme_Provider
  imports Program_Logic Provider_Api Sha256
begin

text \<open>
  \<open>providers/cert/acme/acme.go\<close>: the cache of issued certificates, its copy on disk and the DNS-01
  adapter. The ACME client, the reading of a PEM bundle and the outcome of a file operation are
  arguments. A file of the storage directory is the value its JSON encodes; the fields of
  \<open>CertRef\<close> that the JSON leaves out are empty in it.
\<close>

section \<open>Times\<close>

text \<open>\<open>time.Format(time.RFC3339)\<close> of an instant in UTC.\<close>

definition pad_left :: "nat \<Rightarrow> int \<Rightarrow> string" where
  "pad_left n i = (let ds = nat_digits (nat i) in replicate (n - length ds) (CHR ''0'') @ ds)"

definition civil_date :: "int \<Rightarrow> int \<times> int \<times> int" where
  "civil_date days =
     (let z = days + 719468; era = z div 146097; doe = z mod 146097;
          yoe = (doe - doe div 1460 + doe div 36524 - doe div 146096) div 365;
          doy = doe - (365 * yoe + yoe div 4 - yoe div 100);
          mp = (5 * doy + 2) div 153; d = doy - (153 * mp + 2) div 5 + 1;
          m = (if mp < 10 then mp + 3 else mp - 9)
      in (yoe + era * 400 + (if m \<le> 2 then 1 else 0), m, d))"

definition RFC3339 :: "time \<Rightarrow> string" where
  "RFC3339 t =
     (let secs = t div Second; (y, m, d) = civil_date (secs div 86400); s = secs mod 86400
      in pad_left 4 y @ ''-'' @ pad_left 2 m @ ''-'' @ pad_left 2 d @ ''T'' @ pad_left 2 (s div 3600) @ '':''
         @ pad_left 2 (s div 60 mod 60) @ '':'' @ pad_left 2 (s mod 60) @ ''Z'')"

section \<open>The provider\<close>

record issuedCert =
  ic_ref :: CertRef
  ic_pem :: bytes
  ic_key :: bytes
  ic_leaf :: "time option"

record persistedCertificate =
  pc_Domain :: string
  pc_Ref :: CertRef
  pc_PEM :: bytes
  pc_PrivateKey :: bytes
  pc_ExpiresAt :: time

text \<open>
  What lies outside: the ACME orders, the expiries of the certificates of a bundle, the clock
  and whether a file operation fails. \<open>ac_dir\<close> is the storage directory.
\<close>

record 'w acme_client =
  ac_Obtain :: "string \<Rightarrow> ('w, error + bytes \<times> bytes) state"
  ac_Revoke :: "bytes \<Rightarrow> ('w, error option) state"
  ac_ParsePEMBundle :: "bytes \<Rightarrow> error + time list"
  ac_Now :: "('w, time) state"
  ac_file_op :: "string \<Rightarrow> ('w, error option) state"

definition leafNotAfter :: "'w acme_client \<Rightarrow> bytes \<Rightarrow> error + time" where
  "leafNotAfter c pemBundle =
     (case ac_ParsePEMBundle c pemBundle of
        Inl err \<Rightarrow> Inl (wrapf ''parsing pem bundle: '' err)
      | Inr [] \<Rightarrow> Inl (Opaque ''pem bundle contained no certificates'')
      | Inr (t # _) \<Rightarrow> Inr t)"

record 'w acme =
  ac_world :: 'w
  ac_cache :: "string \<Rightarrow> issuedCert option"
  ac_files :: "(string \<times> persistedCertificate) list"

definition acme_outside :: "('w, 'a) state \<Rightarrow> ('w acme, 'a) state" where
  "acme_outside m = State (\<lambda>s. case run_state m (ac_world s) of (a, w) \<Rightarrow> (a, s\<lparr>ac_world := w\<rparr>))"

section \<open>The files\<close>

text \<open>The file name of a domain, in the storage directory.\<close>

definition cachePath :: "string \<Rightarrow> string" where
  "cachePath domain = EncodeToString (Sum256 domain) @ ''.json''"

definition put_file :: "string \<Rightarrow> persistedCertificate \<Rightarrow> (string \<times> persistedCertificate) list
    \<Rightarrow> (string \<times> persistedCertificate) list" where
  "put_file path pc files = filter (\<lambda>f. fst f \<noteq> path) files @ [(path, pc)]"

definition remove_file :: "string \<Rightarrow> (string \<times> persistedCertificate) list \<Rightarrow> (string \<times> persistedCertificate) list" where
  "remove_file path files = filter (\<lambda>f. fst f \<noteq> path) files"

text \<open>The value written: \<open>CertRef\<close> marshals without its two PEM fields.\<close>

definition persisted :: "string \<Rightarrow> issuedCert \<Rightarrow> persistedCertificate" where
  "persisted domain cert = \<lparr>pc_Domain = domain,
     pc_Ref = (ic_ref cert)\<lparr>cr_CertificatePEM := [], cr_PrivateKeyPEM := []\<rparr>,
     pc_PEM = ic_pem cert, pc_PrivateKey = ic_key cert, pc_ExpiresAt = the (ic_leaf cert)\<rparr>"

text \<open>One file operation of \<open>persist\<close>, with the text of its error; nothing is replaced before the rename.\<close>

definition persist :: "'w acme_client \<Rightarrow> string \<Rightarrow> issuedCert \<Rightarrow> ('w acme, error option) state" where
  "persist c domain cert =
     (let step = (\<lambda>op what k. if_err (acme_outside (ac_file_op c op)) (\<lambda>err. ret (Some (wrapf (''acme: '' @ what @ '': '') err))) k)
      in step ''create'' ''creating certificate temp file''
           (step ''chmod'' ''securing certificate temp file''
             (step ''write'' ''writing persisted certificate''
               (step ''close'' ''closing persisted certificate''
                 (step ''rename'' ''replacing persisted certificate''
                   (do { modify_state (\<lambda>s. s\<lparr>ac_files := put_file (cachePath domain) (persisted domain cert) (ac_files s)\<rparr>);
                         ret None }))))))"

text \<open>Go's zero time, the first of January of year one.\<close>

abbreviation zero_time :: time where "zero_time \<equiv> - 62135596800 * Second"

definition load_file :: "persistedCertificate \<Rightarrow> issuedCert option" where
  "load_file saved =
     (if pc_Domain saved = [] \<or> length (pc_PEM saved) = 0 \<or> pc_ExpiresAt saved = zero_time then None
      else Some \<lparr>ic_ref = (pc_Ref saved)\<lparr>cr_CertificatePEM := pc_PEM saved, cr_PrivateKeyPEM := pc_PrivateKey saved\<rparr>,
             ic_pem = pc_PEM saved, ic_key = pc_PrivateKey saved, ic_leaf = Some (pc_ExpiresAt saved)\<rparr>)"

text \<open>\<open>loadCache\<close>: what a new process holds.\<close>

definition loadCache :: "(string \<times> persistedCertificate) list \<Rightarrow> string \<Rightarrow> issuedCert option" where
  "loadCache files =
     fold (\<lambda>(path, saved) cache. case load_file saved of None \<Rightarrow> cache | Some cert \<Rightarrow> cache(pc_Domain saved \<mapsto> cert))
       files (\<lambda>_. None)"

definition restart :: "'w acme \<Rightarrow> 'w acme" where
  "restart s = s\<lparr>ac_cache := loadCache (ac_files s)\<rparr>"

section \<open>The operations\<close>

abbreviation Days30 :: int where "Days30 \<equiv> 30 * 24 * Hour"

text \<open>The certificate of the cache, if it is good for more than thirty days from now.\<close>

definition cached_valid :: "'w acme_client \<Rightarrow> string \<Rightarrow> ('w acme, CertRef option) state" where
  "cached_valid c domain =
     do { s \<leftarrow> get_state;
          case ac_cache s domain of
            None \<Rightarrow> ret None
          | Some cert \<Rightarrow>
              (case ic_leaf cert of
                 None \<Rightarrow> ret None
               | Some leaf \<Rightarrow> do { now \<leftarrow> acme_outside (ac_Now c);
                                  ret (if leaf - now > Days30 then Some (ic_ref cert) else None) }) }"

definition issue :: "'w acme_client \<Rightarrow> string \<Rightarrow> ('w acme, error + CertRef) state" where
  "issue c domain =
     on_err (acme_outside (ac_Obtain c domain))
       (\<lambda>err. ret (Inl (wrapf (''acme: obtaining certificate for '' @ domain @ '': '') err)))
       (\<lambda>(certificate, privateKey).
          case leafNotAfter c certificate of
            Inl err \<Rightarrow> ret (Inl (wrapf (''acme: parsing issued certificate for '' @ domain @ '': '') err))
          | Inr leafExpiry \<Rightarrow>
              (let ref = \<lparr>cr_Domain = domain, cr_ExpiresAt = RFC3339 leafExpiry, cr_CertificatePEM = certificate,
                          cr_PrivateKeyPEM = privateKey\<rparr>;
                   issued = \<lparr>ic_ref = ref, ic_pem = certificate, ic_key = privateKey, ic_leaf = Some leafExpiry\<rparr>
               in if_err (persist c domain issued) (\<lambda>err. ret (Inl err))
                    (do { modify_state (\<lambda>s. s\<lparr>ac_cache := (ac_cache s)(domain \<mapsto> issued)\<rparr>); ret (Inr ref) })))"

text \<open>The cache is looked at again once the lock on issuance is held.\<close>

definition acme_EnsureCertificate :: "'w acme_client \<Rightarrow> string \<Rightarrow> ('w acme, error + CertRef) state" where
  "acme_EnsureCertificate c domain =
     do { first \<leftarrow> cached_valid c domain;
          case first of
            Some ref \<Rightarrow> ret (Inr ref)
          | None \<Rightarrow>
              do { again \<leftarrow> cached_valid c domain;
                   case again of Some ref \<Rightarrow> ret (Inr ref) | None \<Rightarrow> issue c domain } }"

definition acme_RevokeCertificate :: "'w acme_client \<Rightarrow> string \<Rightarrow> ('w acme, error option) state" where
  "acme_RevokeCertificate c domain =
     do { s \<leftarrow> get_state;
          case ac_cache s domain of
            None \<Rightarrow> ret None
          | Some cached \<Rightarrow>
              if_err (acme_outside (ac_Revoke c (ic_pem cached)))
                (\<lambda>err. ret (Some (wrapf (''acme: revoking certificate for '' @ domain @ '': '') err)))
                (do { modify_state (\<lambda>s. s\<lparr>ac_cache := (ac_cache s)(domain := None)\<rparr>);
                      if_err (acme_outside (ac_file_op c ''remove''))
                        (\<lambda>err. ret (Some (wrapf (''acme: removing persisted certificate for '' @ domain @ '': '') err)))
                        (do { modify_state (\<lambda>s. s\<lparr>ac_files := remove_file (cachePath domain) (ac_files s)\<rparr>); ret None }) }) }"

section \<open>The DNS-01 challenge\<close>

text \<open>\<open>dns01.GetChallengeInfo\<close>, the name and value of the record, is an argument.\<close>

definition challenge_record :: "string \<Rightarrow> string \<Rightarrow> string \<times> string \<Rightarrow> PDNSRecord" where
  "challenge_record zone domain info =
     \<lparr>pr_Zone = zone, pr_Name = fst info, pr_Type = ''TXT'', pr_Value = snd info, pr_OwnershipTag = ''acme-dns01-'' @ domain\<rparr>"

definition Present ::
  "(string \<Rightarrow> string \<Rightarrow> string \<times> string) \<Rightarrow> 'w DNSProvider \<Rightarrow> string \<Rightarrow> string \<Rightarrow> string \<Rightarrow> ('w, error option) state" where
  "Present info dns zone domain keyAuth =
     if_err (dns_EnsureRecord dns (challenge_record zone domain (info domain keyAuth)))
       (\<lambda>err. ret (Some (wrapf (''acme: presenting dns-01 challenge for '' @ domain @ '': '') err))) (ret None)"

definition CleanUp ::
  "(string \<Rightarrow> string \<Rightarrow> string \<times> string) \<Rightarrow> 'w DNSProvider \<Rightarrow> string \<Rightarrow> string \<Rightarrow> string \<Rightarrow> ('w, error option) state" where
  "CleanUp info dns zone domain keyAuth =
     if_err (dns_DeleteRecord dns (challenge_record zone domain (info domain keyAuth)))
       (\<lambda>err. ret (Some (wrapf (''acme: cleaning up dns-01 challenge for '' @ domain @ '': '') err))) (ret None)"

end
