(* ===== verification/Acme_Theorems.thy ===== *)
theory Acme_Theorems
  imports Acme_Provider
begin

text \<open>
  The certificate cache and its copy on disk: what a restart finds is what the process before it
  held, and where a failed removal breaks that.
\<close>

section \<open>The invariant\<close>

text \<open>
  What is relied on of the certificates: a bundle that has a first certificate is not empty, and
  no certificate expires in year one.
\<close>

definition leaf_law :: "'w acme_client \<Rightarrow> bool" where
  "leaf_law c \<longleftrightarrow> (\<forall>b t. leafNotAfter c b = Inr t \<longrightarrow> b \<noteq> [] \<and> t \<noteq> zero_time)"

definition good_cert :: "string \<Rightarrow> issuedCert \<Rightarrow> bool" where
  "good_cert d cert \<longleftrightarrow> load_file (persisted d cert) = Some cert"

text \<open>
  \<open>D\<close> holds the domains in use. Every file is the certificate of one of them under its own name,
  and every certificate of the cache has its file.
\<close>

definition disk_agrees :: "string set \<Rightarrow> 'w acme \<Rightarrow> bool" where
  "disk_agrees D s \<longleftrightarrow>
     distinct (map fst (ac_files s))
     \<and> (\<forall>(path, pc) \<in> set (ac_files s). \<exists>d cert. d \<in> D \<and> path = cachePath d \<and> pc = persisted d cert \<and> good_cert d cert)
     \<and> (\<forall>d cert. ac_cache s d = Some cert \<longrightarrow> good_cert d cert \<and> (cachePath d, persisted d cert) \<in> set (ac_files s))"

lemma persisted_domain [simp]: "pc_Domain (persisted d cert) = d"
  by (simp add: persisted_def)

lemma loadCache_last:
  "distinct (map (pc_Domain \<circ> snd) files) \<Longrightarrow> f \<in> set files \<Longrightarrow> load_file (snd f) = Some cert
    \<Longrightarrow> loadCache files (pc_Domain (snd f)) = Some cert"
proof -
  have keep: "fold (\<lambda>(path, saved) cache. case load_file saved of None \<Rightarrow> cache | Some cert \<Rightarrow> cache(pc_Domain saved \<mapsto> cert)) files m d = m d"
    if "d \<notin> (pc_Domain \<circ> snd) ` set files" for files m d
    using that by (induction files arbitrary: m) (auto split: option.splits prod.splits)
  have "fold (\<lambda>(path, saved) cache. case load_file saved of None \<Rightarrow> cache | Some cert \<Rightarrow> cache(pc_Domain saved \<mapsto> cert)) files m
      (pc_Domain (snd f)) = Some cert"
    if "distinct (map (pc_Domain \<circ> snd) files)" "f \<in> set files" "load_file (snd f) = Some cert" for files m
    using that
  proof (induction files arbitrary: m)
    case (Cons g files)
    then show ?case
      using keep [of "pc_Domain (snd f)" files] by (cases g) (auto split: option.splits)
  qed simp
  then show "distinct (map (pc_Domain \<circ> snd) files) \<Longrightarrow> f \<in> set files \<Longrightarrow> load_file (snd f) = Some cert
      \<Longrightarrow> ?thesis"
    by (simp add: loadCache_def)
qed

lemma loadCache_from:
  "loadCache files d = Some cert \<Longrightarrow> \<exists>f\<in>set files. pc_Domain (snd f) = d \<and> load_file (snd f) = Some cert"
proof -
  have "\<forall>m. fold (\<lambda>(path, saved) cache. case load_file saved of None \<Rightarrow> cache | Some cert \<Rightarrow> cache(pc_Domain saved \<mapsto> cert)) files m d
      = Some cert \<longrightarrow> m d = Some cert \<or> (\<exists>f\<in>set files. pc_Domain (snd f) = d \<and> load_file (snd f) = Some cert)"
    by (induction files) (auto split: option.splits prod.splits if_splits)
  then show "loadCache files d = Some cert \<Longrightarrow> ?thesis"
    by (auto simp: loadCache_def)
qed

lemma disk_fileE:
  assumes "disk_agrees D s" "(path, pc) \<in> set (ac_files s)"
  obtains d cert where "d \<in> D" "path = cachePath d" "pc = persisted d cert" "good_cert d cert"
  using assms unfolding disk_agrees_def by blast

lemma disk_file_name:
  assumes "disk_agrees D s" "(path, pc) \<in> set (ac_files s)"
  shows "pc_Domain pc \<in> D \<and> path = cachePath (pc_Domain pc)"
proof -
  obtain d cert where "d \<in> D" "path = cachePath d" "pc = persisted d cert"
    using assms by (rule disk_fileE)
  then show ?thesis by (simp only: persisted_domain)
qed

lemma disk_cacheD:
  "disk_agrees D s \<Longrightarrow> ac_cache s d = Some cert \<Longrightarrow> good_cert d cert \<and> (cachePath d, persisted d cert) \<in> set (ac_files s)"
  by (simp add: disk_agrees_def)

lemma domains_distinct:
  assumes "disk_agrees D s"
  shows "distinct (map (pc_Domain \<circ> snd) (ac_files s))"
proof -
  have inj: "inj_on fst (set (ac_files s))" and "distinct (ac_files s)"
    using assms by (simp_all add: disk_agrees_def distinct_map)
  moreover have "inj_on (pc_Domain \<circ> snd) (set (ac_files s))"
  proof (rule inj_onI)
    fix f g
    assume f: "f \<in> set (ac_files s)" and g: "g \<in> set (ac_files s)" and e: "(pc_Domain \<circ> snd) f = (pc_Domain \<circ> snd) g"
    have "fst f = cachePath (pc_Domain (snd f))" "fst g = cachePath (pc_Domain (snd g))"
      using f g disk_file_name [OF assms, of "fst f" "snd f"] disk_file_name [OF assms, of "fst g" "snd g"] by simp_all
    then have "fst f = fst g"
      using e by simp
    with inj f g show "f = g"
      by (simp add: inj_on_def)
  qed
  ultimately show ?thesis
    by (simp add: distinct_map)
qed

lemma restart_finds:
  assumes "disk_agrees D s" "ac_cache s d = Some cert"
  shows "ac_cache (restart s) d = Some cert"
  using loadCache_last [OF domains_distinct [OF assms(1)], of "(cachePath d, persisted d cert)" cert] disk_cacheD [OF assms]
  by (simp add: restart_def good_cert_def)

section \<open>The operations keep it\<close>

lemma agrees_put:
  assumes "disk_agrees D s" "inj_on cachePath D" "d \<in> D" "good_cert d cert"
  shows "disk_agrees D (s\<lparr>ac_cache := (ac_cache s)(d \<mapsto> cert), ac_files := put_file (cachePath d) (persisted d cert) (ac_files s)\<rparr>)"
    (is "disk_agrees D ?t")
proof -
  have other: "cachePath d' \<noteq> cachePath d" if "ac_cache s d' = Some c'" "d' \<noteq> d" for d' c'
  proof -
    have "d' \<in> D"
      using disk_file_name [OF assms(1), of "cachePath d'" "persisted d' c'"] disk_cacheD [OF assms(1) that(1)] by simp
    then show ?thesis
      using that(2) assms(2,3) by (auto dest: inj_onD)
  qed
  have files: "set (ac_files ?t) = {f \<in> set (ac_files s). fst f \<noteq> cachePath d} \<union> {(cachePath d, persisted d cert)}"
    by (auto simp: put_file_def)
  have "distinct (map fst (ac_files ?t))"
    using assms(1) by (auto simp: disk_agrees_def put_file_def distinct_map_filter)
  moreover have "\<exists>e cert'. e \<in> D \<and> path = cachePath e \<and> pc = persisted e cert' \<and> good_cert e cert'"
    if "(path, pc) \<in> set (ac_files ?t)" for path pc
  proof (cases "(path, pc) \<in> set (ac_files s)")
    case True
    with assms(1) show ?thesis by (rule disk_fileE) blast
  next
    case False
    then have "path = cachePath d" "pc = persisted d cert"
      using that unfolding files by auto
    with assms(3,4) show ?thesis by blast
  qed
  moreover have "good_cert e cert' \<and> (cachePath e, persisted e cert') \<in> set (ac_files ?t)" if "ac_cache ?t e = Some cert'" for e cert'
    using that assms(4) disk_cacheD [OF assms(1)] other [of e cert'] unfolding files by (auto split: if_splits)
  ultimately show ?thesis
    unfolding disk_agrees_def by blast
qed

lemma agrees_forget:
  assumes "disk_agrees D s" "\<And>d'. ac_cache s d' \<noteq> None \<Longrightarrow> d' \<noteq> d \<Longrightarrow> cachePath d' \<noteq> path"
  shows "disk_agrees D (s\<lparr>ac_cache := (ac_cache s)(d := None)\<rparr>)"
    and "disk_agrees D (s\<lparr>ac_cache := (ac_cache s)(d := None), ac_files := remove_file path (ac_files s)\<rparr>)"
  using assms by (auto simp: disk_agrees_def remove_file_def distinct_map_filter)

lemma agrees_world: "disk_agrees D (s\<lparr>ac_world := w\<rparr>) = disk_agrees D s"
  by (simp add: disk_agrees_def)

lemma agrees_restart:
  assumes "disk_agrees D s"
  shows "disk_agrees D (restart s)"
proof -
  have "good_cert d cert \<and> (cachePath d, persisted d cert) \<in> set (ac_files s)" if l: "loadCache (ac_files s) d = Some cert" for d cert
  proof -
    obtain f where f: "f \<in> set (ac_files s)" "pc_Domain (snd f) = d" "load_file (snd f) = Some cert"
      using loadCache_from [OF l] by blast
    then have "(fst f, snd f) \<in> set (ac_files s)"
      by simp
    with assms obtain e c where g: "fst f = cachePath e" "snd f = persisted e c" "good_cert e c"
      by (rule disk_fileE)
    then have "e = d" "c = cert"
      using f(2,3) by (simp_all add: good_cert_def)
    moreover have "f = (cachePath e, persisted e c)"
      using g by (simp add: prod_eq_iff)
    ultimately show ?thesis
      using f(1) g(3) by simp
  qed
  then show ?thesis
    using assms unfolding disk_agrees_def restart_def by simp
qed

lemma acme_world_inside [simp]:
  "s\<lparr>ac_cache := m, ac_world := w\<rparr> = s\<lparr>ac_world := w, ac_cache := m\<rparr>"
  "s\<lparr>ac_files := f, ac_world := w\<rparr> = s\<lparr>ac_world := w, ac_files := f\<rparr>"
  "s\<lparr>ac_files := f, ac_cache := m\<rparr> = s\<lparr>ac_cache := m, ac_files := f\<rparr>"
  by simp_all

section \<open>The methods\<close>

lemma wp_outside: "wp (acme_outside m) Q s = wp m (\<lambda>a w. Q a (s\<lparr>ac_world := w\<rparr>)) (ac_world s)"
  by (simp add: wp_def acme_outside_def split: prod.splits)

text \<open>A call outside changes neither the cache nor the files.\<close>

definition same_certs :: "'w acme \<Rightarrow> 'w acme \<Rightarrow> bool" where
  "same_certs s s' \<longleftrightarrow> ac_cache s' = ac_cache s \<and> ac_files s' = ac_files s"

lemma wp_outside_same: "wp (acme_outside m) (\<lambda>a s'. same_certs s s') s"
  by (rule wpI) (auto simp: acme_outside_def same_certs_def split: prod.splits)

lemma same_certs_trans: "same_certs s s' \<Longrightarrow> same_certs s' s'' \<Longrightarrow> same_certs s s''"
  by (simp add: same_certs_def)

lemma agrees_same: "same_certs s s' \<Longrightarrow> disk_agrees D s \<Longrightarrow> disk_agrees D s'"
  by (simp add: same_certs_def disk_agrees_def)

lemma wp_cached_valid:
  "wp (cached_valid c domain) (\<lambda>r s'. same_certs s s'
     \<and> (\<forall>ref. r = Some ref \<longrightarrow> (\<exists>cert. ac_cache s domain = Some cert \<and> ic_ref cert = ref))) s"
proof (cases "ac_cache s domain")
  case None
  then show ?thesis
    by (simp add: wp_def cached_valid_def same_certs_def)
next
  case (Some cert)
  then show ?thesis
    by (cases "ic_leaf cert")
      (auto simp: wp_def cached_valid_def same_certs_def acme_outside_def split: prod.splits)
qed

text \<open>The steps before the rename leave cache and files alone; the rename puts the file.\<close>

lemma wp_persist:
  "wp (persist c domain cert) (\<lambda>r s'. ac_cache s' = ac_cache s
     \<and> ac_files s' = (if r = None then put_file (cachePath domain) (persisted domain cert) (ac_files s) else ac_files s)) s"
proof -
  have step: "wp (if_err (acme_outside (ac_file_op c op)) (\<lambda>err. ret (Some (wrapf what err))) k)
      (\<lambda>r s'. ac_cache s' = ac_cache s
        \<and> ac_files s' = (if r = None then put_file (cachePath domain) (persisted domain cert) (ac_files s) else ac_files s)) t"
    if "same_certs s t" "\<And>u. same_certs s u \<Longrightarrow> wp k (\<lambda>r s'. ac_cache s' = ac_cache s
        \<and> ac_files s' = (if r = None then put_file (cachePath domain) (persisted domain cert) (ac_files s) else ac_files s)) u"
    for op what k t
    by (rule wp_if_errI [OF wp_outside_same])
      (use that in \<open>auto simp: wp_ret same_certs_def\<close>)
  show ?thesis
    unfolding persist_def Let_def
    by (intro step) (auto simp: same_certs_def wp_def)
qed

lemma wp_issue:
  assumes "leaf_law c" "disk_agrees D s" "inj_on cachePath D" "domain \<in> D" "domain \<noteq> []"
  shows "wp (issue c domain) (\<lambda>r s'. disk_agrees D s'
    \<and> (\<forall>ref. r = Inr ref \<longrightarrow> (\<exists>cert. ac_cache s' domain = Some cert \<and> ic_ref cert = ref))) s"
  unfolding issue_def
  apply (rule wp_on_errI [OF wp_outside_same])
  subgoal for e s1
    using agrees_same [OF _ assms(2)] by (simp add: wp_ret)
  subgoal for x s1
  proof (cases x)
    case (Pair certificate privateKey)
    assume s1: "same_certs s s1"
    show ?thesis
    proof (cases "leafNotAfter c certificate")
      case (Inl e)
      with Pair agrees_same [OF s1 assms(2)] show ?thesis
        by (simp add: wp_ret)
    next
      case (Inr leaf)
      let ?ref = "\<lparr>cr_Domain = domain, cr_ExpiresAt = RFC3339 leaf, cr_CertificatePEM = certificate, cr_PrivateKeyPEM = privateKey\<rparr>"
      let ?cert = "\<lparr>ic_ref = ?ref, ic_pem = certificate, ic_key = privateKey, ic_leaf = Some leaf\<rparr>"
      have "certificate \<noteq> []" "leaf \<noteq> zero_time"
        using assms(1) Inr unfolding leaf_law_def by blast+
      then have good: "good_cert domain ?cert"
        using assms(5) by (simp add: good_cert_def load_file_def persisted_def)
      have d1: "disk_agrees D s1"
        by (rule agrees_same [OF s1 assms(2)])
      have fin: "disk_agrees D (s2\<lparr>ac_cache := (ac_cache s1)(domain \<mapsto> ?cert)\<rparr>)"
        if "ac_cache s2 = ac_cache s1" "ac_files s2 = put_file (cachePath domain) (persisted domain ?cert) (ac_files s1)" for s2
        using agrees_put [OF d1 assms(3,4) good] that by (simp add: disk_agrees_def)
      have "wp (if_err (persist c domain ?cert) (\<lambda>err. ret (Inl err))
          (do { modify_state (\<lambda>s. s\<lparr>ac_cache := (ac_cache s)(domain \<mapsto> ?cert)\<rparr>); ret (Inr ?ref) }))
        (\<lambda>r s'. disk_agrees D s' \<and> (\<forall>ref. r = Inr ref \<longrightarrow> (\<exists>cert. ac_cache s' domain = Some cert \<and> ic_ref cert = ref))) s1"
        apply (rule wp_if_errI [OF wp_persist])
        subgoal for e s2
          using d1 by (simp add: wp_ret disk_agrees_def)
        subgoal premises h for s2
          using fin [OF conjunct1 [OF h]] h by (simp add: wp_def)
        done
      with Pair Inr show ?thesis
        by (simp add: Let_def)
    qed
  qed
  done

lemma wp_acme_Ensure:
  assumes "leaf_law c" "disk_agrees D s" "inj_on cachePath D" "domain \<in> D" "domain \<noteq> []"
  shows "wp (acme_EnsureCertificate c domain) (\<lambda>r s'. disk_agrees D s'
    \<and> (\<forall>ref. r = Inr ref \<longrightarrow> (\<exists>cert. ac_cache s' domain = Some cert \<and> ic_ref cert = ref))) s"
  unfolding acme_EnsureCertificate_def wp_bind
  apply (rule wp_mono [OF wp_cached_valid])
  subgoal for first s1
  proof (cases first)
    case (Some ref)
    assume "same_certs s s1 \<and> (\<forall>ref. first = Some ref \<longrightarrow> (\<exists>cert. ac_cache s domain = Some cert \<and> ic_ref cert = ref))"
    with Some agrees_same [OF _ assms(2), of s1] show ?thesis
      by (auto simp: wp_ret) (auto simp: same_certs_def)
  next
    case None
    assume s1: "same_certs s s1 \<and> (\<forall>ref. first = Some ref \<longrightarrow> (\<exists>cert. ac_cache s domain = Some cert \<and> ic_ref cert = ref))"
    have d1: "disk_agrees D s1"
      using agrees_same [OF _ assms(2)] s1 by blast
    show ?thesis
      unfolding None option.case wp_bind
      apply (rule wp_mono [OF wp_cached_valid])
      subgoal for again s2
        apply (cases again)
        subgoal
          using wp_issue [OF assms(1) _ assms(3-5), of s2] agrees_same [OF _ d1, of s2] by simp
        subgoal for ref
          using agrees_same [OF _ d1, of s2] by (auto simp: wp_ret) (auto simp: same_certs_def)
        done
      done
  qed
  done

lemma wp_acme_Revoke:
  assumes "disk_agrees D s" "inj_on cachePath D" "domain \<in> D"
  shows "wp (acme_RevokeCertificate c domain) (\<lambda>r s'. disk_agrees D s') s"
proof (cases "ac_cache s domain")
  case None
  with assms(1) show ?thesis
    by (simp add: acme_RevokeCertificate_def wp_simps)
next
  case (Some cached)
  have clash: "cachePath d \<noteq> cachePath domain" if "same_certs s t" "ac_cache t d \<noteq> None" "d \<noteq> domain" for t d
  proof -
    have "ac_cache s d \<noteq> None"
      using that(1,2) by (simp add: same_certs_def)
    then obtain cert where "ac_cache s d = Some cert"
      by blast
    then have "d \<in> D"
      using disk_file_name [OF assms(1), of "cachePath d" "persisted d cert"] disk_cacheD [OF assms(1)] by simp
    then show ?thesis
      using that(3) assms(2,3) by (auto dest: inj_onD)
  qed
  have "wp (if_err (acme_outside (ac_Revoke c (ic_pem cached)))
      (\<lambda>err. ret (Some (wrapf (''acme: revoking certificate for '' @ domain @ '': '') err)))
      (do { modify_state (\<lambda>s. s\<lparr>ac_cache := (ac_cache s)(domain := None)\<rparr>);
            if_err (acme_outside (ac_file_op c ''remove''))
              (\<lambda>err. ret (Some (wrapf (''acme: removing persisted certificate for '' @ domain @ '': '') err)))
              (do { modify_state (\<lambda>s. s\<lparr>ac_files := remove_file (cachePath domain) (ac_files s)\<rparr>); ret None }) }))
      (\<lambda>r s'. disk_agrees D s') s"
    apply (rule wp_if_errI [OF wp_outside_same])
    subgoal for e s1
      using agrees_same [OF _ assms(1)] by (simp add: wp_ret)
    subgoal premises same for s1
      unfolding wp_bind wp_modify_state
      apply (rule wp_if_errI [OF wp_outside_same])
      subgoal for e s2
        using agrees_forget(1) [OF agrees_same [OF same assms(1)] clash [OF same]]
        by (simp add: wp_ret agrees_same)
      subgoal premises same2 for s2
      proof -
        have "disk_agrees D (s1\<lparr>ac_cache := (ac_cache s1)(domain := None), ac_files := remove_file (cachePath domain) (ac_files s1)\<rparr>)"
          by (rule agrees_forget(2) [OF agrees_same [OF same assms(1)] clash [OF same]])
        then have "disk_agrees D (s2\<lparr>ac_files := remove_file (cachePath domain) (ac_files s2)\<rparr>)"
          using same2 by (simp add: disk_agrees_def same_certs_def)
        then show ?thesis
          by (simp add: wp_bind wp_ret wp_modify_state)
      qed
      done
    done
  with Some show ?thesis
    by (simp add: acme_RevokeCertificate_def wp_bind wp_get_state)
qed

section \<open>Any run of the process\<close>

text \<open>What can be asked of the provider, and the end and start of its process.\<close>

datatype acme_op = EnsureOp string | RevokeOp string | RestartOp

fun op_domains :: "acme_op \<Rightarrow> string set" where
  "op_domains (EnsureOp d) = {d}"
| "op_domains (RevokeOp d) = {d}"
| "op_domains RestartOp = {}"

fun run_op :: "'w acme_client \<Rightarrow> acme_op \<Rightarrow> 'w acme \<Rightarrow> 'w acme" where
  "run_op c (EnsureOp d) s = snd (run_state (acme_EnsureCertificate c d) s)"
| "run_op c (RevokeOp d) s = snd (run_state (acme_RevokeCertificate c d) s)"
| "run_op c RestartOp s = restart s"

lemma run_op_agrees:
  assumes "leaf_law c" "inj_on cachePath D" "disk_agrees D s" "op_domains op \<subseteq> D - {[]}"
  shows "disk_agrees D (run_op c op s)"
proof (cases op)
  case (EnsureOp d)
  then show ?thesis
    using wp_acme_Ensure [OF assms(1,3,2), of d] assms(4) by (simp add: wp_def split: prod.splits)
next
  case (RevokeOp d)
  then show ?thesis
    using wp_acme_Revoke [OF assms(3,2), of d c] assms(4) by (simp add: wp_def split: prod.splits)
next
  case RestartOp
  then show ?thesis
    using agrees_restart [OF assms(3)] by simp
qed

lemma run_ops_agrees:
  assumes "leaf_law c" "inj_on cachePath D" "disk_agrees D s" "\<Union> (op_domains ` set ops) \<subseteq> D - {[]}"
  shows "disk_agrees D (fold (run_op c) ops s)"
  using assms(3,4) by (induction ops arbitrary: s) (auto intro!: run_op_agrees [OF assms(1,2)])

definition fresh_acme :: "'w \<Rightarrow> 'w acme" where
  "fresh_acme w = \<lparr>ac_world = w, ac_cache = (\<lambda>_. None), ac_files = []\<rparr>"

lemma fresh_agrees [simp]: "disk_agrees D (fresh_acme w)"
  by (simp add: disk_agrees_def fresh_acme_def)

text \<open>
  C36: After any sequence of requests, restarts and failures that starts with an empty storage
  directory, a certificate that \<open>EnsureCertificate\<close> has returned, and every other certificate the
  process holds, is still held by the process that is started next: it is read back from the file
  written before it was returned.
\<close>

theorem acme_restart_loses_nothing:
  assumes "leaf_law c" "inj_on cachePath D" "\<Union> (op_domains ` set ops) \<subseteq> D - {[]}" "domain \<in> D" "domain \<noteq> []"
    and "s = fold (run_op c) ops (fresh_acme w)"
    and "run_state (acme_EnsureCertificate c domain) s = (r, s')"
  shows "(\<forall>d cert. ac_cache s d = Some cert \<longrightarrow> ac_cache (restart s) d = Some cert)
    \<and> (\<forall>ref. r = Inr ref \<longrightarrow> (\<exists>cert. ac_cache (restart s') domain = Some cert \<and> ic_ref cert = ref))"
proof -
  have s: "disk_agrees D s"
    unfolding assms(6) using run_ops_agrees [OF assms(1,2) _ assms(3)] by simp
  have "disk_agrees D s' \<and> (\<forall>ref. r = Inr ref \<longrightarrow> (\<exists>cert. ac_cache s' domain = Some cert \<and> ic_ref cert = ref))"
    using wpD [OF wp_acme_Ensure [OF assms(1) s assms(2,4,5)] assms(7)] .
  then show ?thesis
    using restart_finds [OF s] restart_finds [of D s' domain] by blast
qed

section \<open>A removal that fails\<close>

text \<open>
  A client for examples: an order answers with a bundle that names the domain, every revocation
  succeeds, and the removal of a file fails while the world says so.
\<close>

definition toy_acme :: "bool acme_client" where
  "toy_acme = \<lparr>ac_Obtain = (\<lambda>d. ret (Inr (CHR ''c'' # d, ''k''))),
     ac_Revoke = (\<lambda>_. ret None),
     ac_ParsePEMBundle = (\<lambda>b. Inr (if b = [] then [] else [100 * 24 * Hour])),
     ac_Now = ret 0,
     ac_file_op = (\<lambda>op. do { broken \<leftarrow> get_state; ret (if broken \<and> op = ''remove'' then Some (Opaque ''read-only file system'') else None) })\<rparr>"

lemma toy_leaf_law: "leaf_law toy_acme"
  by (auto simp: leaf_law_def leafNotAfter_def toy_acme_def split: if_splits)

lemmas toy_runs = fresh_acme_def toy_acme_def acme_EnsureCertificate_def acme_RevokeCertificate_def cached_valid_def
  leafNotAfter_def issue_def persist_def acme_outside_def run_on_err run_if_err restart_def loadCache_def load_file_def put_file_def
  remove_file_def persisted_def Let_def

lemma toy_issues:
  "ac_cache s d = None \<Longrightarrow> \<not> ac_world s \<Longrightarrow> \<exists>ref. fst (run_state (acme_EnsureCertificate toy_acme d) s) = Inr ref"
  by (simp add: toy_runs)

lemma acme_restart_loses_nothing_witness:
  "\<exists>ref. fst (run_state (acme_EnsureCertificate toy_acme ''a.io'')
       (fold (run_op toy_acme) [EnsureOp ''a.io'', RevokeOp ''a.io'', RestartOp] (fresh_acme False))) = Inr ref
     \<and> (\<exists>cert. ac_cache (restart (snd (run_state (acme_EnsureCertificate toy_acme ''a.io'')
       (fold (run_op toy_acme) [EnsureOp ''a.io'', RevokeOp ''a.io'', RestartOp] (fresh_acme False))))) ''a.io'' = Some cert
       \<and> ic_ref cert = ref)"
proof -
  let ?ops = "[EnsureOp ''a.io'', RevokeOp ''a.io'', RestartOp]"
  let ?s = "fold (run_op toy_acme) ?ops (fresh_acme False)"
  let ?run = "run_state (acme_EnsureCertificate toy_acme ''a.io'') ?s"
  have "\<exists>ref. fst ?run = Inr ref"
    by (rule toy_issues) (simp_all add: toy_runs)
  then obtain ref where ref: "fst ?run = Inr ref" ..
  have "\<exists>cert. ac_cache (restart (snd ?run)) ''a.io'' = Some cert \<and> ic_ref cert = ref"
    using acme_restart_loses_nothing [OF toy_leaf_law, of "{''a.io''}" ?ops "''a.io''" ?s False "fst ?run" "snd ?run"] ref
    by (cases ?run) (simp del: fold.simps)
  with ref show ?thesis by blast
qed

text \<open>
  A revocation whose file cannot be removed is answered with an error after the cache has
  forgotten the certificate. Trying again does nothing and answers success, and the next process
  reads the revoked certificate back and hands it out as valid.
\<close>

theorem acme_failed_removal_resurrects:
  assumes "disk_agrees D s" "ac_cache s domain = Some cert"
    and "run_state (acme_outside (ac_Revoke c (ic_pem cert))) s = (None, s1)"
    and "run_state (acme_RevokeCertificate c domain) s = (Some e, s2)"
  shows "run_state (acme_RevokeCertificate c domain) s2 = (None, s2)
    \<and> ac_cache (restart s2) domain = Some cert"
proof -
  have same: "same_certs s s1"
    using wpD [OF wp_outside_same assms(3)] .
  have "wp (acme_RevokeCertificate c domain)
    (\<lambda>r t. r \<noteq> None \<longrightarrow> ac_cache t = (ac_cache s)(domain := None) \<and> ac_files t = ac_files s) s"
  proof -
    have "wp (if_err (acme_outside (ac_file_op c ''remove''))
              (\<lambda>err. ret (Some (wrapf (''acme: removing persisted certificate for '' @ domain @ '': '') err)))
              (do { modify_state (\<lambda>s. s\<lparr>ac_files := remove_file (cachePath domain) (ac_files s)\<rparr>); ret None }))
      (\<lambda>r t. r \<noteq> None \<longrightarrow> ac_cache t = (ac_cache s)(domain := None) \<and> ac_files t = ac_files s)
      (s1\<lparr>ac_cache := (ac_cache s1)(domain := None)\<rparr>)"
      by (rule wp_if_errI [OF wp_outside_same]) (use same in \<open>auto simp: wp_simps same_certs_def\<close>)
    then show ?thesis
      using assms(2,3) by (simp add: acme_RevokeCertificate_def wp_def run_if_err)
  qed
  from wpD [OF this assms(4)]
  have s2: "ac_cache s2 = (ac_cache s)(domain := None)" "ac_files s2 = ac_files s"
    by simp_all
  have "ac_cache (restart s2) domain = ac_cache (restart s) domain"
    by (simp add: restart_def s2)
  with s2 restart_finds [OF assms(1,2)] show ?thesis
    by (simp add: acme_RevokeCertificate_def)
qed

lemma acme_failed_removal_resurrects_witness:
  "let s = run_op toy_acme (EnsureOp ''a.io'') (fresh_acme True);
       s2 = run_op toy_acme (RevokeOp ''a.io'') s
   in ac_cache s2 ''a.io'' = None
      \<and> fst (run_state (acme_RevokeCertificate toy_acme ''a.io'') s2) = None
      \<and> ac_cache (restart s2) ''a.io'' \<noteq> None"
proof -
  let ?s = "run_op toy_acme (EnsureOp ''a.io'') (fresh_acme True)"
  let ?revoke = "run_state (acme_RevokeCertificate toy_acme ''a.io'') ?s"
  have agrees: "disk_agrees {''a.io''} ?s"
    by (rule run_op_agrees [OF toy_leaf_law]) simp_all
  have "ac_cache ?s ''a.io'' \<noteq> None" and world: "ac_world ?s = True"
    by (simp_all add: fresh_acme_def acme_EnsureCertificate_def cached_valid_def issue_def toy_acme_def leafNotAfter_def persist_def
        acme_outside_def run_on_err run_if_err Let_def split: prod.splits)
  then obtain cert where cert: "ac_cache ?s ''a.io'' = Some cert"
    by blast
  have revoke: "run_state (acme_outside (ac_Revoke toy_acme (ic_pem cert))) ?s = (None, ?s)"
    by (simp add: acme_outside_def toy_acme_def del: run_op.simps)
  have "\<exists>e. fst ?revoke = Some e" and gone: "ac_cache (snd ?revoke) ''a.io'' = None"
    using cert world
    by (simp_all add: acme_RevokeCertificate_def acme_outside_def run_if_err toy_acme_def del: run_op.simps)
  then obtain e where "?revoke = (Some e, snd ?revoke)"
    by (cases ?revoke) auto
  from acme_failed_removal_resurrects [OF agrees cert revoke this] gone show ?thesis
    by (simp add: Let_def del: run_op.simps(1))
qed

end
