(* ===== verification/Go_Path.thy ===== *)
theory Go_Path
  imports Go_Net
begin

text \<open>
  \<open>path/filepath\<close> on Unix: \<open>Clean\<close>, \<open>Join\<close> of two elements and \<open>Dir\<close>.
\<close>

text \<open>The elements of a path; the stack holds the ones kept so far, the last first.\<close>

fun clean_elements :: "bool \<Rightarrow> string list \<Rightarrow> string list \<Rightarrow> string list" where
  "clean_elements rooted st [] = rev st"
| "clean_elements rooted st (p # ps) =
     (if p = [] \<or> p = ''.'' then clean_elements rooted st ps
      else if p = ''..'' then
        (case st of
           [] \<Rightarrow> clean_elements rooted (if rooted then [] else [''..'']) ps
         | q # qs \<Rightarrow> if q = ''..'' then clean_elements rooted (''..'' # st) ps else clean_elements rooted qs ps)
      else clean_elements rooted (p # st) ps)"

definition Clean :: "string \<Rightarrow> string" where
  "Clean path =
     (let rooted = (path \<noteq> [] \<and> hd path = CHR ''/'');
          out = (if rooted then ''/'' else []) @ strings_Join (clean_elements rooted [] (split_on (CHR ''/'') path)) ''/''
      in if out = [] then ''.'' else out)"

text \<open>Empty elements at the front are left out, and nothing joined is nothing.\<close>

definition path_Join :: "string \<Rightarrow> string \<Rightarrow> string" where
  "path_Join a b = (if a \<noteq> [] then Clean (a @ ''/'' @ b) else if b \<noteq> [] then Clean b else [])"

definition path_Dir :: "string \<Rightarrow> string" where
  "path_Dir path = Clean (rev (dropWhile (\<lambda>c. c \<noteq> CHR ''/'') (rev path)))"

lemma Clean_nonempty: "Clean path \<noteq> []"
  by (simp add: Clean_def Let_def)

end
