(* ===== verification/Acme_Setup.thy ===== *)
theory Acme_Setup
  imports Acme_Theorems Go_Path
begin

text \<open>
  \<open>New\<close> of \<open>providers/cert/acme/acme.go\<close>: the account key on disk, the registration, the DNS-01
  solver and the certificates a previous process left. Files, keys and the ACME client are
  arguments; the account key lies outside, beside the certificates of the model.
\<close>

text \<open>The solver handed to the client: \<open>Present\<close> and \<open>CleanUp\<close> of the adapter.\<close>

record 'w challenge_solver =
  so_Present :: "string \<Rightarrow> string \<Rightarrow> ('w, error option) state"
  so_CleanUp :: "string \<Rightarrow> string \<Rightarrow> ('w, error option) state"

text \<open>The user of an account; its registration is a part of the client.\<close>

record 'k acmeUser =
  us_email :: string
  us_key :: 'k

record ('w, 'k, 'l) acme_env =
  ae_MkdirAll :: "string \<Rightarrow> ('w, error option) state"
  ae_ReadFile :: "string \<Rightarrow> ('w, error + bytes) state"
  ae_IsNotExist :: "error \<Rightarrow> bool"
  ae_DecodePEM :: "bytes \<Rightarrow> bytes option"
  ae_ParseKey :: "bytes \<Rightarrow> error + 'k"
  ae_GenerateKey :: "('w, error + 'k) state"
  ae_MarshalKey :: "'k \<Rightarrow> error + bytes"
  ae_EncodePEM :: "bytes \<Rightarrow> bytes"
  ae_WriteFile :: "string \<Rightarrow> bytes \<Rightarrow> ('w, error option) state"
  ae_NewClient :: "string \<Rightarrow> 'k acmeUser \<Rightarrow> ('w, error + 'l) state"
  ae_ResolveAccount :: "'l \<Rightarrow> ('w, error option) state"
  ae_Register :: "'l \<Rightarrow> ('w, error option) state"
  ae_SetDNS01 :: "'l \<Rightarrow> 'w challenge_solver \<Rightarrow> ('w, error option) state"
  ae_GetChallengeInfo :: "string \<Rightarrow> string \<Rightarrow> string \<times> string"
  ae_client :: "'l \<Rightarrow> 'w acme_client"

record 'w AcmeConfig =
  am_CADirURL :: string
  am_Email :: string
  am_Zone :: string
  am_DNSProvider :: "'w DNSProvider"
  am_StorageDir :: string

definition accountKeyPath :: "string \<Rightarrow> string" where
  "accountKeyPath storageDir = path_Join storageDir ''account-key.pem''"

text \<open>The key, and whether it is new and still to be written.\<close>

definition loadOrGenerateAccountKey :: "('w, 'k, 'l) acme_env \<Rightarrow> string \<Rightarrow> ('w, error + 'k \<times> bool) state" where
  "loadOrGenerateAccountKey e storageDir =
     on_err (ae_ReadFile e (accountKeyPath storageDir))
       (\<lambda>err. if \<not> ae_IsNotExist e err then ret (Inl (wrapf ''acme: reading persisted account key: '' err))
              else on_err (ae_GenerateKey e) (\<lambda>err. ret (Inl err)) (\<lambda>key. ret (Inr (key, True))))
       (\<lambda>data. ret (case ae_DecodePEM e data of
            None \<Rightarrow> Inl (Opaque ''acme: decoding persisted account key: no PEM block'')
          | Some block \<Rightarrow>
              (case ae_ParseKey e block of
                 Inl err \<Rightarrow> Inl (wrapf ''acme: parsing persisted account key: '' err)
               | Inr key \<Rightarrow> Inr (key, False))))"

definition persistAccountKey :: "('w, 'k, 'l) acme_env \<Rightarrow> string \<Rightarrow> 'k \<Rightarrow> ('w, error option) state" where
  "persistAccountKey e storageDir key =
     (case ae_MarshalKey e key of
        Inl err \<Rightarrow> ret (Some (wrapf ''acme: encoding account key: '' err))
      | Inr der \<Rightarrow>
          if_err (ae_WriteFile e (accountKeyPath storageDir) (ae_EncodePEM e der))
            (\<lambda>err. ret (Some (wrapf ''acme: persisting account key: '' err))) (ret None))"

text \<open>The account key of this process.\<close>

definition account_key :: "('w, 'k, 'l) acme_env \<Rightarrow> string \<Rightarrow> ('w, error + 'k) state" where
  "account_key e storageDir =
     on_err (loadOrGenerateAccountKey e storageDir)
       (\<lambda>err. ret (Inl (wrapf ''acme: generating account key: '' err)))
       (\<lambda>(key, generated). if generated then if_err (persistAccountKey e storageDir key) (\<lambda>err. ret (Inl err)) (ret (Inr key))
          else ret (Inr key))"

definition register_account :: "('w, 'k, 'l) acme_env \<Rightarrow> 'l \<Rightarrow> ('w, error option) state" where
  "register_account e l =
     if_err (ae_ResolveAccount e l)
       (\<lambda>_. if_err (ae_Register e l) (\<lambda>err. ret (Some (wrapf ''acme: registering account: '' err))) (ret None))
       (ret None)"

definition dns_solver :: "('w, 'k, 'l) acme_env \<Rightarrow> 'w AcmeConfig \<Rightarrow> 'w challenge_solver" where
  "dns_solver e cfg =
     \<lparr>so_Present = Present (ae_GetChallengeInfo e) (am_DNSProvider cfg) (am_Zone cfg),
      so_CleanUp = CleanUp (ae_GetChallengeInfo e) (am_DNSProvider cfg) (am_Zone cfg)\<rparr>"

text \<open>The client, up to its solver.\<close>

definition acme_connect :: "('w, 'k, 'l) acme_env \<Rightarrow> 'w AcmeConfig \<Rightarrow> ('w, error + 'l) state" where
  "acme_connect e cfg =
     (if am_StorageDir cfg = [] then ret (Inl (Opaque ''acme: storage directory is required''))
      else if_err (ae_MkdirAll e (am_StorageDir cfg))
        (\<lambda>err. ret (Inl (wrapf ''acme: creating storage directory: '' err)))
        (on_err (account_key e (am_StorageDir cfg)) (\<lambda>err. ret (Inl err))
          (\<lambda>key. on_err (ae_NewClient e (am_CADirURL cfg) \<lparr>us_email = am_Email cfg, us_key = key\<rparr>)
             (\<lambda>err. ret (Inl (wrapf ''acme: constructing client: '' err)))
             (\<lambda>l. if_err (register_account e l) (\<lambda>err. ret (Inl err))
                (if_err (ae_SetDNS01 e l (dns_solver e cfg))
                   (\<lambda>err. ret (Inl (wrapf ''acme: configuring dns-01 challenge: '' err)))
                   (ret (Inr l)))))))"

text \<open>The listing of the directory and the reading of each file may fail; a file of the model decodes.\<close>

fun read_files :: "'w acme_client \<Rightarrow> (string \<times> persistedCertificate) list \<Rightarrow> ('w acme, error option) state" where
  "read_files c [] = ret None"
| "read_files c (f # fs) =
     if_err (acme_outside (ac_file_op c ''read''))
       (\<lambda>err. ret (Some (wrapf (''acme: reading persisted certificate '' @ fst f @ '': '') err))) (read_files c fs)"

definition load_certificates :: "'w acme_client \<Rightarrow> ('w acme, error option) state" where
  "load_certificates c =
     if_err (acme_outside (ac_file_op c ''readdir''))
       (\<lambda>err. ret (Some (wrapf ''acme: reading certificate storage: '' err)))
       (do { s \<leftarrow> get_state;
             if_err (read_files c (ac_files s)) (\<lambda>err. ret (Some err))
               (do { modify_state restart; ret None }) })"

definition acme_New :: "('w, 'k, 'l) acme_env \<Rightarrow> 'w AcmeConfig \<Rightarrow> ('w acme, error + 'w acme_client) state" where
  "acme_New e cfg =
     on_err (acme_outside (acme_connect e cfg)) (\<lambda>err. ret (Inl err))
       (\<lambda>l. if_err (load_certificates (ae_client e l)) (\<lambda>err. ret (Inl err)) (ret (Inr (ae_client e l))))"

definition acme_provider :: "'w acme_client \<Rightarrow> 'w acme CertificateProvider" where
  "acme_provider c = \<lparr>cp_EnsureCertificate = acme_EnsureCertificate c, cp_RevokeCertificate = acme_RevokeCertificate c\<rparr>"

section \<open>Facts\<close>

lemma wp_read_files: "wp (read_files c fs) (\<lambda>r s'. same_certs s s') s"
proof -
  have "same_certs s t \<Longrightarrow> wp (read_files c fs) (\<lambda>r s'. same_certs s s') t" for t
  proof (induction fs arbitrary: t)
    case Nil
    then show ?case by (simp add: wp_simps)
  next
    case (Cons f fs)
    show ?case
      unfolding read_files.simps
      by (rule wp_if_errI [OF wp_outside_same]) (auto simp: wp_simps intro!: Cons.IH same_certs_trans [OF Cons.prems])
  qed
  then show ?thesis
    by (simp add: same_certs_def)
qed

text \<open>A process that starts holds exactly what the files hold.\<close>

lemma acme_New_restarts:
  "wp (acme_New e cfg) (\<lambda>r s'. \<forall>c. r = Inr c \<longrightarrow> ac_files s' = ac_files s \<and> ac_cache s' = loadCache (ac_files s)) s"
  unfolding acme_New_def
proof (rule wp_on_errI [OF wp_outside_same], goal_cases)
  case (1 err s1)
  then show ?case by (simp add: wp_simps)
next
  case (2 l s1)
  have "wp (load_certificates (ae_client e l)) (\<lambda>r s'. r = None \<longrightarrow> ac_files s' = ac_files s \<and> ac_cache s' = loadCache (ac_files s)) s1"
    unfolding load_certificates_def
  proof (rule wp_if_errI [OF wp_outside_same], goal_cases)
    case (1 err s2)
    then show ?case by (simp add: wp_simps)
  next
    case (2 s2)
    show ?case
      unfolding wp_bind wp_get_state
      by (rule wp_if_errI [OF wp_read_files])
        (use 2 \<open>same_certs s s1\<close> in \<open>auto simp: wp_simps same_certs_def restart_def\<close>)
  qed
  then show ?case
    by (rule wp_if_errI) (simp_all add: wp_simps)
qed

text \<open>
  The account key survives a restart: once a new key has been written, every later start reads
  the same key and generates none, if what is written is what is read and a key is what its
  encoding decodes to.
\<close>

theorem account_key_survives:
  assumes "run_state (loadOrGenerateAccountKey e dir) w = (Inr (key, True), w1)"
    and "run_state (persistAccountKey e dir key) w1 = (None, w2)"
    and "\<And>path data v v'. run_state (ae_WriteFile e path data) v = (None, v') \<Longrightarrow> fst (run_state (ae_ReadFile e path) v') = Inr data"
    and "\<And>der. ae_MarshalKey e key = Inr der \<Longrightarrow> ae_DecodePEM e (ae_EncodePEM e der) = Some der \<and> ae_ParseKey e der = Inr key"
  shows "fst (run_state (loadOrGenerateAccountKey e dir) w2) = Inr (key, False)"
proof -
  obtain der where der: "ae_MarshalKey e key = Inr der"
      "run_state (ae_WriteFile e (accountKeyPath dir) (ae_EncodePEM e der)) w1 = (None, w2)"
    using assms(2) by (auto simp: persistAccountKey_def run_if_err split: sum.splits prod.splits option.splits)
  obtain w3 where "run_state (ae_ReadFile e (accountKeyPath dir)) w2 = (Inr (ae_EncodePEM e der), w3)"
    using assms(3) [OF der(2)] by (cases "run_state (ae_ReadFile e (accountKeyPath dir)) w2") simp
  then show ?thesis
    using assms(4) [OF der(1)] by (simp add: loadOrGenerateAccountKey_def run_on_err)
qed

end
