(* ===== verification/Daemon_Start.thy ===== *)
theory Daemon_Start
  imports Config_Model Kubernetes_Provider Compose_Provider Cloudflare_Provider Googlecloud_Provider
    Digitalocean_Provider Pr_Comments Acme_Setup System_Steps
begin

text \<open>
  The start of \<open>cmd/ramifyd/main.go\<close>: the providers the configuration names, the reconciler, the
  reaper and the API server over them, and the replay of what the process before left. A Go
  interface value is a datatype with a constructor per provider. The clients of other modules are
  the fields of \<open>third_party\<close>.
\<close>

section \<open>What other modules construct\<close>

record ('w, 'c, 's, 'k, 'cb, 'st) third_party =
  tp_cloudflare :: "string \<Rightarrow> error + 'w cf_client"
  tp_LoadDefaultConfig :: "error + ('w, 'st) route53API"
  tp_NewService :: "error + (string \<Rightarrow> string \<Rightarrow> 'w gc_service)"
  tp_NewFromToken :: "string \<Rightarrow> 'w do_client"
  tp_kubectl :: "'w command_runner"
  tp_ReadFile :: "string \<Rightarrow> error + bytes"
  tp_ParsePrivateKey :: "bytes \<Rightarrow> error + 'k"
  tp_InsecureIgnoreHostKey :: 'cb
  tp_knownhosts :: "string \<Rightarrow> error + 'cb"
  tp_ssh :: "string \<Rightarrow> 'k \<Rightarrow> 'cb \<Rightarrow> ('w, 'c, 's) ssh"
  tp_DefaultTransport :: "'w round_tripper"
  tp_github :: "'w round_tripper \<Rightarrow> 'w gh_issues"
  tp_http :: "'w http_client"
  tp_pages :: nat

section \<open>DNS\<close>

datatype ('w, 'st) dns_built =
    BuiltCloudflare "'w Cloudflare" | BuiltRoute53 "('w, 'st) Route53"
  | BuiltGooglecloud "'w Googlecloud" | BuiltDigitalocean "'w Digitalocean"

definition newDNSProvider :: "('w, 'c, 's, 'k, 'cb, 'st) third_party \<Rightarrow> Config \<Rightarrow> error + ('w, 'st) dns_built" where
  "newDNSProvider tp cfg =
     (let d = cfg_DNS cfg; provider = DNSProviderName d
      in if provider = ''cloudflare'' then
           map_sum (\<lambda>err. err) BuiltCloudflare (Cloudflare_New (tp_cloudflare tp) (APIToken d) (tp_pages tp))
         else if provider = ''route53'' then
           map_sum (\<lambda>err. err) BuiltRoute53 (Route53_NewFromConfig (tp_LoadDefaultConfig tp) (ZoneID d) (tp_pages tp))
         else if provider = ''googlecloud'' then
           map_sum (\<lambda>err. err) BuiltGooglecloud (Googlecloud_New (tp_NewService tp) (GCPProject d) (ZoneID d) (tp_pages tp))
         else if provider = ''digitalocean'' then
           Inr (BuiltDigitalocean (Digitalocean_New (tp_NewFromToken tp (APIToken d)) (Zone d) (tp_pages tp)))
         else Inl (Opaque (''unsupported dns provider '' @ Quote provider)))"

section \<open>Git\<close>

datatype 'w git_built =
    BuiltGithub "'w github"
  | BuiltGitlab "'w gitlab"
  | BuiltBitbucket "'w bitbucket"

definition newGitProvider :: "('w, 'c, 's, 'k, 'cb, 'st) third_party \<Rightarrow> Config \<Rightarrow> error + 'w git_built" where
  "newGitProvider tp cfg =
     (let g = cfg_Git cfg; provider = GitProvider g
      in if provider = ''github'' then 
           Inr (BuiltGithub (NewWithToken (tp_DefaultTransport tp) (tp_github tp) (GitToken g) (GitWebhookSecret g)))
         else if provider = ''gitlab'' then
           Inr (BuiltGitlab (GitLab_New (tp_http tp) (GitToken g) (GitWebhookSecret g) (GitBaseURL g)))
         else if provider = ''bitbucket'' then
           Inr (BuiltBitbucket (Bitbucket_New (tp_http tp) (GitToken g) (GitWebhookSecret g) (GitBaseURL g)))
         else Inl (Opaque (''unsupported git provider '' @ Quote provider)))"

text \<open>The methods of the provider: \<open>ParseWebhook\<close> with the two header names, and the comments.\<close>

primrec ParseWebhook :: "'w git_built \<Rightarrow> bytes \<Rightarrow> string \<Rightarrow> error + Event" where
  "ParseWebhook (BuiltGithub p) payload signature = gh_ParseWebhook (gh_webhookSecret p) payload signature"
| "ParseWebhook (BuiltGitlab p) payload signature = gl_ParseWebhook (gl_secret p) payload signature"
| "ParseWebhook (BuiltBitbucket p) payload signature = bb_ParseWebhook (bb_secret p) payload signature"

primrec header_names :: "'w git_built \<Rightarrow> string \<times> string" where
  "header_names (BuiltGithub p) = (gh_SignatureHeader, gh_DeliveryHeader)"
| "header_names (BuiltGitlab p) = (gl_SignatureHeader, gl_DeliveryHeader)"
| "header_names (BuiltBitbucket p) = (bb_SignatureHeader, bb_DeliveryHeader)"

primrec git_comments :: "'w git_built \<Rightarrow> 'w comment_host" where
  "git_comments (BuiltGithub p) =
     \<lparr>ch_CommentOnPR = gh_CommentOnPR (gh_client p), ch_UpsertPreviewComment = Some (gh_UpsertPreviewComment (gh_client p))\<rparr>"
| "git_comments (BuiltGitlab p) =
     \<lparr>ch_CommentOnPR = gl_CommentOnPR (gl_client p) (gl_baseURL p) (gl_token p), ch_UpsertPreviewComment = None\<rparr>"
| "git_comments (BuiltBitbucket p) =
     \<lparr>ch_CommentOnPR = bb_CommentOnPR (bb_client p) (bb_baseURL p) (bb_token p), ch_UpsertPreviewComment = None\<rparr>"

section \<open>Deployment\<close>

datatype 'w deploy_built = BuiltKubernetes "'w Kubernetes" | BuiltCompose "'w Compose"

primrec deploy_methods :: "'w deploy_built \<Rightarrow> 'w DeployProvider" where
  "deploy_methods (BuiltKubernetes p) = kubernetes_provider p"
| "deploy_methods (BuiltCompose p) = compose_provider p"

definition deployHostKeyCallback ::
  "('w, 'c, 's, 'k, 'cb, 'st) third_party \<Rightarrow> string \<Rightarrow> bool \<Rightarrow> error + 'cb" where
  "deployHostKeyCallback tp knownHostsPath insecure =
     (if knownHostsPath = [] then
        (if \<not> insecure then
           Inl (Opaque (''deploy.ssh_known_hosts_path is required unless ''
             @ ''deploy.ssh_insecure_skip_host_key_verify is explicitly set''))
         else Inr (tp_InsecureIgnoreHostKey tp))
      else (case tp_knownhosts tp knownHostsPath of
              Inl err \<Rightarrow> Inl (wrapf (''loading known_hosts '' @ knownHostsPath @ '': '') err)
            | Inr cb \<Rightarrow> Inr cb))"

definition build_compose :: "('w, 'c, 's, 'k, 'cb, 'st) third_party \<Rightarrow> DeployConfig \<Rightarrow> error + 'w deploy_built" where
  "build_compose tp d =
     (case tp_ReadFile tp (SSHPrivateKeyPath d) of
        Inl err \<Rightarrow> Inl (wrapf ''reading ssh private key: '' err)
      | Inr keyBytes \<Rightarrow>
          (case tp_ParsePrivateKey tp keyBytes of
             Inl err \<Rightarrow> Inl (wrapf ''parsing ssh private key: '' err)
           | Inr signer \<Rightarrow>
               (case deployHostKeyCallback tp (SSHKnownHostsPath d) (SSHInsecureSkipHostKeyVerify d) of
                  Inl err \<Rightarrow> Inl err
                | Inr cb \<Rightarrow> Inr (BuiltCompose
                    (Compose_New (tp_ssh tp (SSHUser d) signer cb) (SSHAddr d) (ComposeFile d) (DNSTarget d))))))"

definition newDeployProvider :: "('w, 'c, 's, 'k, 'cb, 'st) third_party \<Rightarrow> Config \<Rightarrow> error + 'w deploy_built" where
  "newDeployProvider tp cfg =
     (let d = cfg_Deploy cfg; provider = or_default (DeployProviderName d) ''compose'';
          built = (if provider = ''kubernetes'' then
                     Inr (BuiltKubernetes (Kubernetes_New (tp_kubectl tp) (KubernetesNamespace d) (BaseDomain cfg) (DNSTarget d)
                       (KubernetesIngressClass d) (KubernetesKubeconfig d) (KubernetesContext d)
                       (KubernetesContainerPort d) (KubernetesServicePort d)))
                   else if provider = ''compose'' then build_compose tp d
                   else Inl (Opaque (''unsupported deploy provider '' @ Quote provider)))
      in case built of
           Inl err \<Rightarrow> Inl err
         | Inr b \<Rightarrow>
             if CertificateDir d \<noteq> [] \<and> dp_CertificateInstaller (deploy_methods b) = None then
               Inl (Opaque (''deploy provider '' @ Quote provider
                 @ '' does not support certificate installation but deploy.certificate_dir is set''))
             else Inr b)"

text \<open>The type assertion of \<open>run\<close>: only the Compose provider has \<open>SetCertificateDir\<close>.\<close>

primrec set_certificate_dir :: "string \<Rightarrow> 'w deploy_built \<Rightarrow> 'w deploy_built" where
  "set_certificate_dir dir (BuiltKubernetes p) = BuiltKubernetes p"
| "set_certificate_dir dir (BuiltCompose p) = BuiltCompose (SetCertificateDir dir p)"

definition acmeStorageDir :: "Config \<Rightarrow> string" where
  "acmeStorageDir cfg =
     (if StorageDir (cfg_ACME cfg) \<noteq> [] then StorageDir (cfg_ACME cfg)
      else path_Join (path_Dir (StorePath (cfg_Store cfg))) ''certificates'')"

section \<open>The world of the daemon\<close>

text \<open>
  Beside what is outside, the process holds the zone identifiers of the Cloudflare provider and
  the certificates of the ACME provider with their files. A call of a provider is run on its part.
\<close>

record 'w outer =
  ow_ext :: 'w
  ow_zones :: "string \<Rightarrow> string option"
  ow_certs :: "string \<Rightarrow> issuedCert option"
  ow_files :: "(string \<times> persistedCertificate) list"

definition in_ext :: "('w, 'a) state \<Rightarrow> ('w outer, 'a) state" where
  "in_ext m = State (\<lambda>o'. case run_state m (ow_ext o') of (a, w) \<Rightarrow> (a, o'\<lparr>ow_ext := w\<rparr>))"

definition in_dns :: "('w cf_world, 'a) state \<Rightarrow> ('w outer, 'a) state" where
  "in_dns m = State (\<lambda>o'. case run_state m (ow_ext o', ow_zones o') of
     (a, w, zones) \<Rightarrow> (a, o'\<lparr>ow_ext := w, ow_zones := zones\<rparr>))"

definition in_acme :: "('w cf_world acme, 'a) state \<Rightarrow> ('w outer, 'a) state" where
  "in_acme m = State (\<lambda>o'. case run_state m \<lparr>ac_world = (ow_ext o', ow_zones o'), ac_cache = ow_certs o', ac_files = ow_files o'\<rparr> of
     (a, s) \<Rightarrow> (a, o'\<lparr>ow_ext := fst (ac_world s), ow_zones := snd (ac_world s), ow_certs := ac_cache s, ow_files := ac_files s\<rparr>))"

primrec dns_methods :: "('w, 'st) dns_built \<Rightarrow> 'w cf_world DNSProvider" where
  "dns_methods (BuiltCloudflare p) = cloudflare_provider p"
| "dns_methods (BuiltRoute53 p) =
     \<lparr>dns_EnsureRecord = (\<lambda>r. api (r53_EnsureRecord p r)), dns_DeleteRecord = (\<lambda>r. api (r53_DeleteRecord p r)),
      dns_ListManagedRecords = (\<lambda>z. api (r53_ListManagedRecords p z))\<rparr>"
| "dns_methods (BuiltGooglecloud p) =
     \<lparr>dns_EnsureRecord = (\<lambda>r. api (gc_EnsureRecord p r)), dns_DeleteRecord = (\<lambda>r. api (gc_DeleteRecord p r)),
      dns_ListManagedRecords = (\<lambda>z. api (gc_ListManagedRecords p z))\<rparr>"
| "dns_methods (BuiltDigitalocean p) =
     \<lparr>dns_EnsureRecord = (\<lambda>r. api (do_EnsureRecord p r)), dns_DeleteRecord = (\<lambda>r. api (do_DeleteRecord p r)),
      dns_ListManagedRecords = (\<lambda>z. api (do_ListManagedRecords p z))\<rparr>"

definition outer_deploy :: "'w DeployProvider \<Rightarrow> 'w outer DeployProvider" where
  "outer_deploy p =
     \<lparr>dp_Apply = (\<lambda>spec. in_ext (dp_Apply p spec)), dp_Sleep = (\<lambda>ref. in_ext (dp_Sleep p ref)),
      dp_Wake = (\<lambda>ref. in_ext (dp_Wake p ref)), dp_Destroy = (\<lambda>ref. in_ext (dp_Destroy p ref)),
      dp_HealthCheck = (\<lambda>ref. in_ext (dp_HealthCheck p ref)),
      dp_CertificateInstaller = map_option (\<lambda>f d crt key. in_ext (f d crt key)) (dp_CertificateInstaller p),
      dp_CertificateRemover = map_option (\<lambda>f d. in_ext (f d)) (dp_CertificateRemover p),
      dp_LogFetcher = map_option (\<lambda>f ref. in_ext (f ref)) (dp_LogFetcher p)\<rparr>"

definition outer_dns :: "'w cf_world DNSProvider \<Rightarrow> 'w outer DNSProvider" where
  "outer_dns p = \<lparr>dns_EnsureRecord = (\<lambda>r. in_dns (dns_EnsureRecord p r)),
     dns_DeleteRecord = (\<lambda>r. in_dns (dns_DeleteRecord p r)), dns_ListManagedRecords = (\<lambda>z. in_dns (dns_ListManagedRecords p z))\<rparr>"

definition outer_cert :: "'w cf_world acme CertificateProvider \<Rightarrow> 'w outer CertificateProvider" where
  "outer_cert p = \<lparr>cp_EnsureCertificate = (\<lambda>d. in_acme (cp_EnsureCertificate p d)),
     cp_RevokeCertificate = (\<lambda>d. in_acme (cp_RevokeCertificate p d))\<rparr>"

definition outer_notify :: "'w NotifierProvider \<Rightarrow> 'w outer NotifierProvider" where
  "outer_notify p = \<lparr>np_Notify = (\<lambda>project n ev. in_ext (np_Notify p project n ev))\<rparr>"

definition outer_git :: "'w git_built \<Rightarrow> 'w outer GitProvider" where
  "outer_git g = \<lparr>gp_ParseWebhook = (\<lambda>payload signature. ret (ParseWebhook g payload signature)),
     gp_HeaderNamer = Some (header_names g)\<rparr>"

section \<open>The wiring\<close>

text \<open>The runtime under the process: the store's, the clock, the templates and the embedded assets.\<close>

record ('w, 'k2, 'l, 't) host =
  ho_runtime :: "'w outer runtime"
  ho_Now :: "('w outer, time) state"
  ho_Sleep :: "time \<Rightarrow> ('w outer, unit) state"
  ho_ctx_Err :: "('w outer, error option) state"
  ho_fuel :: nat
  ho_assets :: "string \<Rightarrow> response"
  ho_acme :: "('w cf_world, 'k2, 'l) acme_env"
  ho_parse :: "string \<Rightarrow> string \<Rightarrow> error + 't"
  ho_execute :: "'t \<Rightarrow> NotifyEvent \<Rightarrow> error + string"

record 'w daemon =
  dm_reconciler :: "'w outer Reconciler"
  dm_reaper :: "'w outer Reaper"
  dm_server :: "'w outer Server"

definition admission_of :: "FilterConfig \<Rightarrow> Policy" where
  "admission_of f = \<lparr>po_PROnly = PROnly f, po_AllowBranches = AllowBranches f, po_DenyBranches = DenyBranches f,
     po_RequiredLabels = RequiredLabels f\<rparr>"

definition wire ::
  "('w, 'k2, 'l, 't) host \<Rightarrow> Config \<Rightarrow> 'w git_built \<Rightarrow> ('w, 'st) dns_built \<Rightarrow> 'w deploy_built
   \<Rightarrow> 'w cf_world acme_client \<Rightarrow> ('w, 't) prcomment \<Rightarrow> 'w daemon" where
  "wire h cfg git dns deploy cert notifier =
     (let dp = outer_deploy (deploy_methods deploy); clock = NewRealClock (ho_Now h) (ho_Sleep h);
          reconciler = NewReconciler (ho_runtime h) dp (outer_dns (dns_methods dns)) (outer_cert (acme_provider cert))
            (outer_notify (prcomment_provider (ho_execute h) notifier)) clock (ho_ctx_Err h)
            (BaseDomain cfg) (DefaultTTL (cfg_Reaper cfg)) (ho_fuel h)
            [WithAdmission (admission_of (cfg_Filter cfg)) (MaxConcurrentEnvs (cfg_Filter cfg)),
             WithReadiness (ReadinessTimeout (cfg_Deploy cfg)) (ReadinessPollInterval (cfg_Deploy cfg)),
             WithEventConcurrency (EventConcurrency (cfg_Reaper cfg))]
      in \<lparr>dm_reconciler = reconciler, dm_reaper = NewReaper (ho_runtime h) reconciler clock,
          dm_server = NewServer (ho_runtime h) reconciler (outer_git git) dp (BaseDomain cfg) (ho_assets h)\<rparr>)"

text \<open>\<open>run\<close> with its configuration loaded and the store open, up to the goroutines it starts.\<close>

definition run_start ::
  "('w, 'c, 's, 'k, 'cb, 'st) third_party \<Rightarrow> ('w, 'k2, 'l, 't) host \<Rightarrow> Config \<Rightarrow> ('w outer sys, error + 'w daemon) state" where
  "run_start tp h cfg =
     (case newGitProvider tp cfg of Inl err \<Rightarrow> ret (Inl err)
      | Inr git \<Rightarrow>
     (case newDNSProvider tp cfg of Inl err \<Rightarrow> ret (Inl (wrapf ''constructing dns provider: '' err))
      | Inr dns \<Rightarrow>
     (case newDeployProvider tp cfg of Inl err \<Rightarrow> ret (Inl (wrapf ''constructing deploy provider: '' err))
      | Inr built \<Rightarrow>
          (let deploy = set_certificate_dir (CertificateDir (cfg_Deploy cfg)) built
           in on_err (outside (in_acme (acme_New (ho_acme h)
                \<lparr>am_CADirURL = CADirURL (cfg_ACME cfg), am_Email = Email (cfg_ACME cfg), am_Zone = Zone (cfg_DNS cfg),
                 am_DNSProvider = dns_methods dns, am_StorageDir = acmeStorageDir cfg\<rparr>)))
              (\<lambda>err. ret (Inl (wrapf ''constructing acme provider: '' err)))
              (\<lambda>cert. case prcomment_New (ho_parse h) (git_comments git) (CommentTemplates (cfg_Notify cfg)) of
                  Inl err \<Rightarrow> ret (Inl (wrapf ''constructing notifier: '' err))
                | Inr notifier \<Rightarrow>
                    (let d = wire h cfg git dns deploy cert notifier
                     in if_err (ReplayUnprocessedEvents (dm_reconciler d))
                          (\<lambda>err. ret (Inl (wrapf ''replaying unprocessed events: '' err))) (ret (Inr d))))))))"

end
