(* ===== verification/Config_Theorems.thy ===== *)
theory Config_Theorems
  imports Config_Model
begin

text \<open>
  What a configuration that \<open>Load\<close> returns guarantees: the exposed listener, the SSH host key, the
  providers it names, and that its log line does not depend on the secrets.
\<close>

section \<open>Loading\<close>

lemma missing_when_Nil [simp]: "missing_when b f = [] \<longleftrightarrow> \<not> b"
  by (simp add: missing_when_def)

lemma Validate_None: "Validate c = None \<longleftrightarrow> missing_fields c = []"
  by (simp add: Validate_def Let_def)

lemma resolve_field_Inr:
  "resolve_field env field v k = Inr x \<longleftrightarrow> (\<exists>r. resolveEnv env v = Inr r \<and> k r = Inr x)"
  by (auto simp: resolve_field_def split: sum.splits)

lemma option_case_Inl: "(case v of None \<Rightarrow> Inr c | Some err \<Rightarrow> Inl (f err)) = Inr x \<longleftrightarrow> v = None \<and> c = x"
  by (simp split: option.splits)

text \<open>What a successful load has done: the secrets resolved, the rest as the file has it.\<close>

lemma finish_load_InrE:
  assumes "finish_load env path c0 = Inr cfg"
  obtains token secret api tcp where
    "resolveEnv env (GitToken (cfg_Git (git_defaults c0))) = Inr token"
    "resolveEnv env (GitWebhookSecret (cfg_Git (git_defaults c0))) = Inr secret"
    "resolveEnv env (APIToken (cfg_DNS (dns_defaults c0))) = Inr api"
    "resolveEnv env (TCPToken (cfg_Server c0)) = Inr tcp"
    "missing_fields cfg = []"
    "cfg = c0\<lparr>cfg_Git := (cfg_Git (git_defaults c0))\<lparr>GitToken := token, GitWebhookSecret := secret\<rparr>,
       cfg_GitHub := (cfg_GitHub c0)\<lparr>GitHubToken := token, GitHubWebhookSecret := secret\<rparr>,
       cfg_DNS := (cfg_DNS (dns_defaults c0))\<lparr>APIToken := api, CloudflareAPIToken := api\<rparr>,
       cfg_Server := (cfg_Server c0)\<lparr>TCPToken := tcp\<rparr>\<rparr>"
proof -
  from assms have "\<exists>token secret api tcp.
      resolveEnv env (GitToken (cfg_Git (git_defaults c0))) = Inr token
    \<and> resolveEnv env (GitWebhookSecret (cfg_Git (git_defaults c0))) = Inr secret
    \<and> resolveEnv env (APIToken (cfg_DNS (dns_defaults c0))) = Inr api
    \<and> resolveEnv env (TCPToken (cfg_Server c0)) = Inr tcp
    \<and> missing_fields cfg = []
    \<and> cfg = c0\<lparr>cfg_Git := (cfg_Git (git_defaults c0))\<lparr>GitToken := token, GitWebhookSecret := secret\<rparr>,
       cfg_GitHub := (cfg_GitHub c0)\<lparr>GitHubToken := token, GitHubWebhookSecret := secret\<rparr>,
       cfg_DNS := (cfg_DNS (dns_defaults c0))\<lparr>APIToken := api, CloudflareAPIToken := api\<rparr>,
       cfg_Server := (cfg_Server c0)\<lparr>TCPToken := tcp\<rparr>\<rparr>"
    unfolding finish_load_def Let_def resolve_field_Inr option_case_Inl
    by (auto simp: git_defaults_def dns_defaults_def Validate_None)
  then show thesis
    using that by blast
qed

lemma Load_InrE:
  assumes "Load read_file decode env path = Inr cfg"
  obtains c0 where "finish_load env path c0 = Inr cfg"
  using assms by (auto simp: Load_def split: sum.splits if_splits)

lemma Load_valid: "Load read_file decode env path = Inr cfg \<Longrightarrow> missing_fields cfg = []"
  by (elim Load_InrE finish_load_InrE) simp

lemma or_default_simps [simp]: "d \<noteq> [] \<Longrightarrow> or_default s d \<noteq> []" "s \<noteq> [] \<Longrightarrow> or_default s d = s" "or_default [] d = d"
  by (simp_all add: or_default_def)

lemma Load_providers_set:
  assumes "Load read_file decode env path = Inr cfg"
  shows "GitProvider (cfg_Git cfg) \<noteq> [] \<and> DNSProviderName (cfg_DNS cfg) \<noteq> []"
proof -
  obtain c0 where c0: "finish_load env path c0 = Inr cfg"
    using assms by (rule Load_InrE)
  then show ?thesis
    by (rule finish_load_InrE) (simp add: git_defaults_def dns_defaults_def)
qed

lemma missing_listenerD:
  "missing_listener s = [] \<Longrightarrow> TCPAddr s \<noteq> [] \<Longrightarrow>
    TCPToken s \<noteq> [] \<and> (TCPTLSCertFile s \<noteq> [] \<and> TCPTLSKeyFile s \<noteq> [] \<or> TCPInsecureAllowRemote s \<or> isLoopbackAddr (TCPAddr s))"
  by (auto simp: missing_listener_def Let_def split: if_splits)

lemma Load_git_guarded:
  assumes "Load read_file decode env path = Inr cfg"
  shows "GitToken (cfg_Git cfg) \<noteq> [] \<and> GitWebhookSecret (cfg_Git cfg) \<noteq> []"
proof -
  obtain c0 where c0: "finish_load env path c0 = Inr cfg"
    using assms by (rule Load_InrE)
  then have "GitHubToken (cfg_GitHub cfg) = GitToken (cfg_Git cfg)
      \<and> GitHubWebhookSecret (cfg_GitHub cfg) = GitWebhookSecret (cfg_Git cfg)"
    by (rule finish_load_InrE) simp
  moreover have "missing_git (cfg_Git cfg) (cfg_GitHub cfg) = []"
    using Load_valid [OF assms] by (simp add: missing_fields_def)
  ultimately show ?thesis
    by (auto simp: missing_git_def Let_def or_default_def split: if_splits)
qed

text \<open>
  C24: A configuration is loaded only if every way into the daemon is guarded: a TCP listener has a
  bearer token and either both TLS files, a loopback address or the explicit override; webhooks have
  a secret; and the SSH runner of a Compose deployment checks the host key or was told not to.
\<close>

theorem loaded_config_is_guarded:
  assumes "Load read_file decode env path = Inr cfg"
  shows "(TCPAddr (cfg_Server cfg) \<noteq> [] \<longrightarrow> TCPToken (cfg_Server cfg) \<noteq> []
       \<and> (TCPTLSCertFile (cfg_Server cfg) \<noteq> [] \<and> TCPTLSKeyFile (cfg_Server cfg) \<noteq> []
          \<or> TCPInsecureAllowRemote (cfg_Server cfg) \<or> isLoopbackAddr (TCPAddr (cfg_Server cfg))))
    \<and> GitToken (cfg_Git cfg) \<noteq> [] \<and> GitWebhookSecret (cfg_Git cfg) \<noteq> []
    \<and> (or_default (DeployProviderName (cfg_Deploy cfg)) ''compose'' = ''compose''
       \<longrightarrow> SSHPrivateKeyPath (cfg_Deploy cfg) \<noteq> []
          \<and> (SSHKnownHostsPath (cfg_Deploy cfg) \<noteq> [] \<or> SSHInsecureSkipHostKeyVerify (cfg_Deploy cfg)))"
proof -
  have "missing_listener (cfg_Server cfg) = []" "missing_deploy (cfg_Deploy cfg) = []"
    using Load_valid [OF assms] by (simp_all add: missing_fields_def)
  with Load_git_guarded [OF assms] show ?thesis
    using missing_listenerD [of "cfg_Server cfg"] by (auto simp: missing_deploy_def missing_compose_def Let_def)
qed

section \<open>Loopback addresses\<close>

lemma digit_starts: "is_digit c \<Longrightarrow> fold_ascii (c # s) = c # fold_ascii s"
  by (auto simp: is_digit_def fold_byte_def is_upper_def)

lemma dotted_digit:
  obtains x rest where "dotted [a, b, c, d] = x # rest" "is_digit x"
proof -
  obtain x xs where x: "nat_digits a = x # xs" "is_digit x"
    using nat_digits_facts [of a] by (cases "nat_digits a") auto
  then show thesis
    using that [of x] by (simp add: dotted_def)
qed

lemma EqualFold_dotted: "\<not> EqualFoldASCII (dotted [a, b, c, d]) ''localhost''"
proof -
  obtain x rest where x: "dotted [a, b, c, d] = x # rest" "is_digit x"
    by (rule dotted_digit)
  have "fold_ascii ''localhost'' = ''localhost''"
    by code_simp
  moreover have "x \<noteq> CHR ''l''"
    using x(2) by (auto simp: is_digit_def)
  ultimately show ?thesis
    unfolding EqualFoldASCII_def x(1) digit_starts [OF x(2)] by simp
qed

lemma dotted_chars: "set (dotted [a, b, c, d]) \<subseteq> {c. is_digit c} \<union> {CHR ''.''}"
  using nat_digits_facts by (auto simp: dotted_def list_all_iff)

lemma first_dot: "List.find (\<lambda>c. c = CHR ''.'' \<or> c = CHR '':'' \<or> c = CHR ''%'') (dotted [a, b, c, d]) = Some (CHR ''.'')"
proof -
  have skip: "List.find P (xs @ y # ys) = Some y" if "\<forall>x\<in>set xs. \<not> P x" "P y" for P and xs ys :: string and y
    using that by (induction xs) auto
  have "\<forall>x\<in>set (nat_digits a). \<not> (x = CHR ''.'' \<or> x = CHR '':'' \<or> x = CHR ''%'')"
    using nat_digits_facts [of a] by (auto simp: list_all_iff is_digit_def)
  then show ?thesis
    unfolding dotted_def by (simp add: skip)
qed

lemma ParseIP_dotted:
  assumes "a \<le> 255" "b \<le> 255" "c \<le> 255" "d \<le> 255"
  shows "ParseIP (dotted [a, b, c, d]) = Some (replicate 10 0 @ [255, 255, a, b, c, d])"
proof -
  have "parseIPv4 (dotted [a, b, c, d]) = Some [a, b, c, d]"
    using assms by (auto simp: parseIPv4_iff)
  then show ?thesis
    by (simp add: ParseIP_def first_dot)
qed

lemma plain_host:
  assumes "set host \<subseteq> - {CHR '':'', CHR ''['', CHR '']''}" "set port \<subseteq> - {CHR '':'', CHR ''['', CHR '']''}"
  shows "SplitHostPort (host @ CHR '':'' # port) = Some (host, port)"
proof -
  have "hd (host @ CHR '':'' # port) \<noteq> CHR ''[''"
    using assms(1) by (cases host) auto
  moreover have "split_last_colon (host @ CHR '':'' # port) = Some (host, port)"
    by (rule split_last_colon_append) (use assms(2) in \<open>auto simp: has_byte_def\<close>)
  ultimately show ?thesis
    using assms by (auto simp: SplitHostPort_def has_byte_def)
qed

text \<open>
  The one exception from TLS is what it says: a dotted address counts as loopback exactly when
  it is in 127.0.0.0/8, \<open>localhost\<close> and the IPv6 loopback do too, and an address that listens on
  every interface does not.
\<close>

theorem loopback_is_127:
  assumes "a \<le> 255" "b \<le> 255" "c \<le> 255" "d \<le> 255"
    and "set port \<subseteq> - {CHR '':'', CHR ''['', CHR '']''}"
  shows "(isLoopbackAddr (dotted [a, b, c, d] @ CHR '':'' # port) \<longleftrightarrow> a = 127)
    \<and> isLoopbackAddr (''localhost'' @ CHR '':'' # port)
    \<and> isLoopbackAddr (''[::1]'' @ CHR '':'' # port)
    \<and> \<not> isLoopbackAddr (CHR '':'' # port)
    \<and> \<not> isLoopbackAddr (''[::]'' @ CHR '':'' # port)"
proof -
  have colon: "split_last_colon (before @ CHR '':'' # port) = Some (before, port)" for before
    by (rule split_last_colon_append) (use assms(5) in \<open>auto simp: has_byte_def\<close>)
  have dotted: "SplitHostPort (dotted [a, b, c, d] @ CHR '':'' # port) = Some (dotted [a, b, c, d], port)"
    using assms(5) dotted_chars [of a b c d] by (intro plain_host) (auto simp: is_digit_def)
  have "SplitHostPort (''localhost'' @ CHR '':'' # port) = Some (''localhost'', port)"
    using assms(5) by (intro plain_host) auto
  moreover have "SplitHostPort ([] @ CHR '':'' # port) = Some ([], port)"
    using assms(5) by (intro plain_host) auto
  moreover have "SplitHostPort (''[::1]'' @ CHR '':'' # port) = Some (''::1'', port)"
    "SplitHostPort (''[::]'' @ CHR '':'' # port) = Some (''::'', port)"
    using assms(5) colon [of "''[::1]''"] colon [of "''[::]''"] by (auto simp: SplitHostPort_def has_byte_def)
  moreover have "\<not> EqualFoldASCII [] ''localhost''" "EqualFoldASCII ''localhost'' ''localhost''"
    "\<not> EqualFoldASCII ''::'' ''localhost''"
    "ParseIP [] = None" "ParseIP ''::1'' = Some (replicate 15 0 @ [1])" "ParseIP ''::'' = Some (replicate 16 0)"
    by code_simp+
  moreover have "IsLoopback (replicate 15 0 @ [1])" "\<not> IsLoopback (replicate 16 0)"
    by code_simp+
  moreover have "IsLoopback (replicate 10 0 @ [255, 255, a, b, c, d]) \<longleftrightarrow> a = 127"
    by (simp add: IsLoopback_def numeral_eq_Suc)
  ultimately show ?thesis
    by (simp add: isLoopbackAddr_def dotted EqualFold_dotted ParseIP_dotted [OF assms(1-4)])
qed

lemma loopback_is_127_witness:
  "isLoopbackAddr (dotted [127, 0, 0, 1] @ CHR '':'' # ''8080'') \<and> \<not> isLoopbackAddr (dotted [128, 0, 0, 1] @ CHR '':'' # ''8080'')"
  using loopback_is_127 [of 127 0 0 1 "''8080''"] loopback_is_127 [of 128 0 0 1 "''8080''"] by simp

section \<open>The log line\<close>

text \<open>Two files that differ in secrets only.\<close>

definition hide_secrets :: "Config \<Rightarrow> Config" where
  "hide_secrets c = c\<lparr>cfg_Git := (cfg_Git c)\<lparr>GitToken := [], GitWebhookSecret := []\<rparr>,
     cfg_GitHub := (cfg_GitHub c)\<lparr>GitHubToken := [], GitHubWebhookSecret := []\<rparr>,
     cfg_DNS := (cfg_DNS c)\<lparr>APIToken := [], CloudflareAPIToken := []\<rparr>,
     cfg_Server := (cfg_Server c)\<lparr>TCPToken := []\<rparr>\<rparr>"

text \<open>
  Logging a loaded configuration leaks no secret: whatever the environment holds and whatever
  two files have in their secret fields, what is logged is the same.
\<close>

theorem log_hides_secrets:
  assumes "hide_secrets c = hide_secrets c'"
    and "finish_load env path c = Inr cfg" and "finish_load env' path' c' = Inr cfg'"
  shows "LogValue cfg = LogValue cfg'"
proof -
  have "LogValue cfg = LogValue (hide_secrets c)"
    using assms(2) by (rule finish_load_InrE) (simp add: LogValue_def hide_secrets_def dns_defaults_def)
  moreover have "LogValue cfg' = LogValue (hide_secrets c')"
    using assms(3) by (rule finish_load_InrE) (simp add: LogValue_def hide_secrets_def dns_defaults_def)
  ultimately show ?thesis
    using assms(1) by simp
qed

section \<open>An example\<close>

definition ex_file :: "string \<Rightarrow> Config" where
  "ex_file token = zero_Config\<lparr>BaseDomain := ''preview.io'',
     cfg_Server := (cfg_Server zero_Config)\<lparr>SocketPath := ''/run/ramify.sock'', TCPAddr := ''127.0.0.1:8443'', TCPToken := [CHR 0x24] @ ''TCP''\<rparr>,
     cfg_Store := \<lparr>StorePath = ''/var/lib/ramify.db''\<rparr>,
     cfg_GitHub := \<lparr>GitHubToken = token, GitHubWebhookSecret = [CHR 0x24] @ ''{HOOK}''\<rparr>,
     cfg_Deploy := (cfg_Deploy zero_Config)\<lparr>SSHAddr := ''host:22'', SSHPrivateKeyPath := ''/key'', SSHKnownHostsPath := ''/known'',
       ComposeFile := ''compose.yaml'', DNSTarget := ''192.0.2.1'', CertificateDir := ''/certs''\<rparr>,
     cfg_DNS := (cfg_DNS zero_Config)\<lparr>Zone := ''preview.io'', CloudflareAPIToken := ''cf''\<rparr>,
     cfg_ACME := \<lparr>Email = ''ops@preview.io'', CADirURL = ''https://ca'', StorageDir = []\<rparr>\<rparr>"

definition ex_environ :: "string \<Rightarrow> string option" where
  "ex_environ name = (if name = ''TCP'' then Some ''t1'' else if name = ''HOOK'' then Some ''h1'' else None)"

definition ex_load :: "string \<Rightarrow> error + Config" where
  "ex_load token = Load (\<lambda>_. Inr ''base_domain: ...'') (\<lambda>_. Inr (ex_file token)) ex_environ ''ramify.yaml''"

definition loads :: "error + Config \<Rightarrow> bool" where
  "loads r = (case r of Inl _ \<Rightarrow> False | Inr _ \<Rightarrow> True)"

lemma loadsD: "loads r \<Longrightarrow> \<exists>cfg. r = Inr cfg"
  by (simp add: loads_def split: sum.splits)

lemma ex_load_loads: "loads (ex_load ''g1'')"
  by code_simp

lemma loaded_config_is_guarded_witness:
  "\<exists>cfg. ex_load ''g1'' = Inr cfg \<and> GitToken (cfg_Git cfg) \<noteq> []"
proof -
  obtain cfg where cfg: "ex_load ''g1'' = Inr cfg"
    using loadsD [OF ex_load_loads] by blast
  then show ?thesis
    using loaded_config_is_guarded [OF cfg [unfolded ex_load_def]] by blast
qed

lemma ex_finish_loads: "loads (finish_load ex_environ ''ramify.yaml'' (ex_file ''g1''))"
  "loads (finish_load ex_environ ''ramify.yaml'' (ex_file ''g2''))"
  by code_simp+

lemma log_hides_secrets_witness:
  "\<exists>c1 c2. finish_load ex_environ ''ramify.yaml'' (ex_file ''g1'') = Inr c1 \<and> finish_load ex_environ ''ramify.yaml'' (ex_file ''g2'') = Inr c2
     \<and> LogValue c1 = LogValue c2"
proof -
  obtain c1 c2 where c: "finish_load ex_environ ''ramify.yaml'' (ex_file ''g1'') = Inr c1"
      "finish_load ex_environ ''ramify.yaml'' (ex_file ''g2'') = Inr c2"
    using ex_finish_loads [THEN loadsD] by blast
  have "hide_secrets (ex_file ''g1'') = hide_secrets (ex_file ''g2'')"
    by (simp add: hide_secrets_def ex_file_def)
  from log_hides_secrets [OF this c] c show ?thesis
    by blast
qed

end
