(* ===== verification/Daemon_Theorems.thy ===== *)
theory Daemon_Theorems
  imports Daemon_Start Config_Theorems
begin

text \<open>
  What the start of \<open>ramifyd\<close> guarantees: the process that runs is one of the transition system the
  other theories are about, and it runs under the policy, the webhook secret and the host key check
  of its configuration.
\<close>

section \<open>The providers of a loaded configuration\<close>

lemma Load_git_known:
  assumes "Load read_file decode env path = Inr cfg"
  shows "GitProvider (cfg_Git cfg) \<in> {''github'', ''gitlab'', ''bitbucket''}"
proof -
  have "missing_git (cfg_Git cfg) (cfg_GitHub cfg) = []"
    using Load_valid [OF assms] by (simp add: missing_fields_def)
  with Load_providers_set [OF assms] show ?thesis
    by (auto simp: missing_git_def Let_def split: if_splits)
qed

text \<open>So the git provider of a loaded configuration always exists.\<close>

lemma newGitProvider_total:
  "Load read_file decode env path = Inr cfg \<Longrightarrow> \<exists>git. newGitProvider tp cfg = Inr git"
  using Load_git_known by (fastforce simp: newGitProvider_def Let_def)

text \<open>An event of the constructed provider was authenticated with the configured secret.\<close>

lemma ParseWebhook_authentic:
  assumes "newGitProvider tp cfg = Inr git" "ParseWebhook git payload signature = Inr ev"
  shows "signature = GitWebhookSecret (cfg_Git cfg)
    \<or> DecodeString (TrimPrefix signature ''sha256='') = Some (hmac_sha256 (GitWebhookSecret (cfg_Git cfg)) payload)"
  using assms
  by (auto simp: newGitProvider_def Let_def NewWithToken_def GitHub_New_def GitLab_New_def Bitbucket_New_def gh_ParseWebhook_def gh_verifySignature_def bb_ParseWebhook_def
      bb_verifySignature_def gl_ParseWebhook_def gl_verifySignature_def split: if_splits option.splits)

section \<open>The wiring\<close>

lemma WithReadiness_keeps [simp]:
  "rc_store (WithReadiness a b r) = rc_store r" "rc_policy (WithReadiness a b r) = rc_policy r"
  "rc_maxConcurrent (WithReadiness a b r) = rc_maxConcurrent r" "rc_baseDomain (WithReadiness a b r) = rc_baseDomain r"
  by (simp_all add: WithReadiness_def Let_def)

lemma WithEventConcurrency_keeps [simp]:
  "rc_store (WithEventConcurrency n r) = rc_store r" "rc_policy (WithEventConcurrency n r) = rc_policy r"
  "rc_maxConcurrent (WithEventConcurrency n r) = rc_maxConcurrent r" "rc_baseDomain (WithEventConcurrency n r) = rc_baseDomain r"
  by (simp_all add: WithEventConcurrency_def)

lemma wire_shares:
  assumes "d = wire h cfg git dns deploy cert notifier"
  shows "rp_reconciler (dm_reaper d) = dm_reconciler d" "sv_reconciler (dm_server d) = dm_reconciler d"
    "sv_store (dm_server d) = rc_store (dm_reconciler d)" "sv_git (dm_server d) = outer_git git"
    "rc_policy (dm_reconciler d) = admission_of (cfg_Filter cfg)"
    "rc_maxConcurrent (dm_reconciler d) = MaxConcurrentEnvs (cfg_Filter cfg)"
    "rc_baseDomain (dm_reconciler d) = BaseDomain cfg"
  by (simp_all add: assms wire_def Let_def NewReaper_def NewServer_def NewReconciler_def WithAdmission_def)

text \<open>What a successful start has done: build the providers, connect to the CA, and replay.\<close>

lemma run_start_InrE:
  assumes "run_state (run_start tp h cfg) s = (Inr d, s')"
  obtains git dns built cert notifier w where
    "newGitProvider tp cfg = Inr git" "newDNSProvider tp cfg = Inr dns" "newDeployProvider tp cfg = Inr built"
    "d = wire h cfg git dns (set_certificate_dir (CertificateDir (cfg_Deploy cfg)) built) cert notifier"
    "s' = snd (run_state (ReplayUnprocessedEvents (dm_reconciler d)) (s\<lparr>ext := w\<rparr>))"
proof -
  obtain git where git: "newGitProvider tp cfg = Inr git"
    using assms by (auto simp: run_start_def split: sum.splits)
  obtain dns where dns: "newDNSProvider tp cfg = Inr dns"
    using assms by (auto simp: run_start_def git split: sum.splits)
  obtain built where built: "newDeployProvider tp cfg = Inr built"
    using assms by (auto simp: run_start_def git dns split: sum.splits)
  show thesis
    using assms that [OF git dns built]
    by (auto simp: run_start_def git dns built Let_def run_on_err run_if_err split: sum.splits prod.splits option.splits)
      (metis snd_conv)
qed

section \<open>Properties\<close>

text \<open>
  C26: The daemon runs as it is configured. If the configuration loads and the start succeeds, then
  the state it leaves is reachable in the transition system of the reconciler and reaper it built,
  so that every property of all runs holds of this process from here on; the server, the reaper and
  the event loop work on that same reconciler and store; admission is judged by the configured
  policy and limit, which is not negative; and the server's provider turns a request into an event
  only when it carries the configured secret, which is not empty, or an HMAC under it.
\<close>

theorem daemon_runs_as_configured:
  assumes "Load read_file decode env path = Inr cfg"
    and "run_state (run_start tp h cfg) s = (Inr d, s')"
    and "daemon_start d0 s"
  shows "reachable (daemon_start d0) (daemon_step (dm_reconciler d) (dm_reaper d)) s'
    \<and> rp_reconciler (dm_reaper d) = dm_reconciler d
    \<and> sv_reconciler (dm_server d) = dm_reconciler d \<and> sv_store (dm_server d) = rc_store (dm_reconciler d)
    \<and> rc_policy (dm_reconciler d) = admission_of (cfg_Filter cfg)
    \<and> rc_maxConcurrent (dm_reconciler d) = MaxConcurrentEnvs (cfg_Filter cfg) \<and> 0 \<le> MaxConcurrentEnvs (cfg_Filter cfg)
    \<and> rc_baseDomain (dm_reconciler d) = BaseDomain cfg \<and> BaseDomain cfg \<noteq> []
    \<and> GitWebhookSecret (cfg_Git cfg) \<noteq> []
    \<and> (\<forall>payload signature t ev t'.
          run_state (gp_ParseWebhook (sv_git (dm_server d)) payload signature) t = (Inr ev, t')
        \<longrightarrow> signature = GitWebhookSecret (cfg_Git cfg)
          \<or> DecodeString (TrimPrefix signature ''sha256='') = Some (hmac_sha256 (GitWebhookSecret (cfg_Git cfg)) payload))"
proof -
  obtain git dns built cert notifier w where g: "newGitProvider tp cfg = Inr git"
    and "newDNSProvider tp cfg = Inr dns" and "newDeployProvider tp cfg = Inr built"
    and d: "d = wire h cfg git dns (set_certificate_dir (CertificateDir (cfg_Deploy cfg)) built) cert notifier"
    and s': "s' = snd (run_state (ReplayUnprocessedEvents (dm_reconciler d)) (s\<lparr>ext := w\<rparr>))"
    using assms(2) by (rule run_start_InrE)
  have "reachable (daemon_start d0) (daemon_step (dm_reconciler d) (dm_reaper d)) s'"
    unfolding s' using assms(3) by (blast intro: reachable.intros world_changes replay_step)
  moreover have "0 \<le> MaxConcurrentEnvs (cfg_Filter cfg)" "BaseDomain cfg \<noteq> []"
    using Load_valid [OF assms(1)] by (simp_all add: missing_fields_def)
  moreover have "signature = GitWebhookSecret (cfg_Git cfg)
          \<or> DecodeString (TrimPrefix signature ''sha256='') = Some (hmac_sha256 (GitWebhookSecret (cfg_Git cfg)) payload)"
    if "run_state (gp_ParseWebhook (sv_git (dm_server d)) payload signature) t = (Inr ev, t')" for payload signature t ev t'
    using that by (intro ParseWebhook_authentic [OF g]) (simp add: wire_shares [OF d] outer_git_def)
  ultimately show ?thesis
    using Load_git_guarded [OF assms(1)] by (simp add: wire_shares [OF d])
qed

text \<open>
  The deployment host is who the configuration says. A daemon that starts deploys with
  Kubernetes, or over an SSH connection whose host key callback was made from the configured
  known-hosts file; the callback that accepts every host is used only with no such file and the
  explicit waiver, so never because a file could not be read.
\<close>

theorem ssh_host_key_checked:
  assumes "newDeployProvider tp cfg = Inr b"
  shows "(\<exists>p. b = BuiltKubernetes p \<and> DeployProviderName (cfg_Deploy cfg) = ''kubernetes'')
    \<or> (\<exists>signer cb. b = BuiltCompose (Compose_New (tp_ssh tp (SSHUser (cfg_Deploy cfg)) signer cb)
            (SSHAddr (cfg_Deploy cfg)) (ComposeFile (cfg_Deploy cfg)) (DNSTarget (cfg_Deploy cfg)))
        \<and> (SSHKnownHostsPath (cfg_Deploy cfg) \<noteq> [] \<and> tp_knownhosts tp (SSHKnownHostsPath (cfg_Deploy cfg)) = Inr cb
           \<or> SSHKnownHostsPath (cfg_Deploy cfg) = [] \<and> SSHInsecureSkipHostKeyVerify (cfg_Deploy cfg)
             \<and> cb = tp_InsecureIgnoreHostKey tp))"
  using assms
  by (auto simp: newDeployProvider_def build_compose_def deployHostKeyCallback_def or_default_def Let_def
      split: sum.splits if_splits)

section \<open>A start\<close>

text \<open>The example configuration of \<open>Config_Theorems\<close> on clients that always fail, but are there.\<close>

abbreviation (input) no_answer :: "('w, error + 'a) state" where "no_answer \<equiv> ret (Inl (Opaque []))"
abbreviation (input) no_effect :: "('w, error option) state" where "no_effect \<equiv> ret (Some (Opaque []))"

definition ex_tp :: "(unit, unit, unit, unit, bool, unit) third_party" where
  "ex_tp =
     \<lparr>tp_cloudflare = (\<lambda>token. Inr \<lparr>cf_ZoneIDByName = (\<lambda>_. no_answer), cf_Create = (\<lambda>_ _ _ _. no_answer),
        cf_List = (\<lambda>_ _ _ _. no_answer), cf_Update = (\<lambda>_ _ _ _ _. no_answer), cf_Delete = (\<lambda>_ _. no_effect)\<rparr>),
      tp_LoadDefaultConfig = Inl (Opaque []), tp_NewService = Inl (Opaque []),
      tp_NewFromToken = (\<lambda>_. \<lparr>do_Records = (\<lambda>_ _. no_answer), do_Create = (\<lambda>_ _ _ _. no_effect),
        do_Edit = (\<lambda>_ _ _ _ _. no_effect), do_Delete = (\<lambda>_ _. no_effect)\<rparr>),
      tp_kubectl = (\<lambda>_ _. ret ([], Some (Opaque []))),
      tp_ReadFile = (\<lambda>path. Inr ''key''), tp_ParsePrivateKey = (\<lambda>_. Inr ()),
      tp_InsecureIgnoreHostKey = False, tp_knownhosts = (\<lambda>path. Inr True),
      tp_ssh = (\<lambda>user signer cb. \<lparr>ssh_dial = (\<lambda>_. no_answer), ssh_NewSession = (\<lambda>_. no_answer),
        ssh_CombinedOutput = (\<lambda>_ _. ret ([], Some (Opaque []))), ssh_CloseSession = (\<lambda>_. ret ()), ssh_CloseClient = (\<lambda>_. ret ())\<rparr>),
      tp_DefaultTransport = (\<lambda>_. no_answer),
      tp_github = (\<lambda>_. \<lparr>gh_ListComments = (\<lambda>_ _ _ _. no_answer), gh_CreateComment = (\<lambda>_ _ _ _. no_effect),
        gh_EditComment = (\<lambda>_ _ _ _. no_effect)\<rparr>),
      tp_http = \<lparr>hc_NewRequest = (\<lambda>_. None), hc_Do = (\<lambda>_. no_answer)\<rparr>, tp_pages = 3\<rparr>"

definition ex_host :: "(unit, unit, unit, string) host" where
  "ex_host =
     \<lparr>ho_runtime = \<lparr>rt_Now = ret 0, rt_rand_Read = ret (Inr (replicate 16 0)), rt_sql = ret None, rt_Int64N = (\<lambda>_. ret 0)\<rparr>,
      ho_Now = ret 0, ho_Sleep = (\<lambda>_. ret ()), ho_ctx_Err = ret None, ho_fuel = 10, ho_assets = (\<lambda>_. \<lparr>rs_Status = 404, rs_Headers = [], rs_Body = NoBody\<rparr>),
      ho_acme = \<lparr>ae_MkdirAll = (\<lambda>_. ret None), ae_ReadFile = (\<lambda>_. no_answer), ae_IsNotExist = (\<lambda>_. True),
        ae_DecodePEM = (\<lambda>_. None), ae_ParseKey = (\<lambda>_. Inr ()), ae_GenerateKey = ret (Inr ()), ae_MarshalKey = (\<lambda>_. Inr []),
        ae_EncodePEM = (\<lambda>b. b), ae_WriteFile = (\<lambda>_ _. ret None), ae_NewClient = (\<lambda>_ _. ret (Inr ())),
        ae_ResolveAccount = (\<lambda>_. ret None), ae_Register = (\<lambda>_. ret None), ae_SetDNS01 = (\<lambda>_ _. ret None),
        ae_GetChallengeInfo = (\<lambda>_ _. ([], [])),
        ae_client = (\<lambda>_. \<lparr>ac_Obtain = (\<lambda>_. no_answer), ac_Revoke = (\<lambda>_. no_effect), ac_ParsePEMBundle = (\<lambda>_. Inr [0]),
          ac_Now = ret 0, ac_file_op = (\<lambda>_. ret None)\<rparr>)\<rparr>,
      ho_parse = (\<lambda>kind t. Inr t), ho_execute = (\<lambda>t ev. Inr t)\<rparr>"

definition ex_outer :: "unit outer sys" where
  "ex_outer = \<lparr>ext = \<lparr>ow_ext = (), ow_zones = (\<lambda>_. None), ow_certs = (\<lambda>_. None), ow_files = []\<rparr>,
     db = empty_database, metrics = zero_Metrics, log = []\<rparr>"

lemma ex_outer_start: "daemon_start empty_database ex_outer"
  by (simp add: daemon_start_def ex_outer_def empty_database_def db_wf_def envs_wf_def events_wf_def refs_wf_def)

definition is_Inr :: "error + 'a \<Rightarrow> bool" where
  "is_Inr x = (case x of Inl _ \<Rightarrow> False | Inr _ \<Rightarrow> True)"

lemma is_InrE: "is_Inr x \<Longrightarrow> (\<And>y. x = Inr y \<Longrightarrow> thesis) \<Longrightarrow> thesis"
  by (simp add: is_Inr_def split: sum.splits)

definition ex_starts :: bool where
  "ex_starts = (case ex_load ''g1'' of Inl _ \<Rightarrow> False
     | Inr cfg \<Rightarrow> is_Inr (newDeployProvider ex_tp cfg) \<and> is_Inr (fst (run_state (run_start ex_tp ex_host cfg) ex_outer)))"

lemma ex_starts: ex_starts
  by code_simp

lemma ex_startsE:
  obtains cfg b d s' where "ex_load ''g1'' = Inr cfg" "newDeployProvider ex_tp cfg = Inr b"
    "run_state (run_start ex_tp ex_host cfg) ex_outer = (Inr d, s')"
  using ex_starts that
  by (auto simp: ex_starts_def elim!: is_InrE split: sum.splits) (metis prod.collapse)

theorem daemon_runs_as_configured_witness:
  "\<exists>cfg d s'. run_state (run_start ex_tp ex_host cfg) ex_outer = (Inr d, s') \<and> GitWebhookSecret (cfg_Git cfg) \<noteq> []"
proof -
  obtain cfg b d s' where c: "ex_load ''g1'' = Inr cfg" "newDeployProvider ex_tp cfg = Inr b"
    "run_state (run_start ex_tp ex_host cfg) ex_outer = (Inr d, s')"
    by (rule ex_startsE)
  then show ?thesis
    using daemon_runs_as_configured [OF c(1) [unfolded ex_load_def] c(3) ex_outer_start] by blast
qed

theorem ssh_host_key_checked_witness:
  "\<exists>cfg b. newDeployProvider ex_tp cfg = Inr b
     \<and> ((\<exists>p. b = BuiltKubernetes p) \<or> (SSHKnownHostsPath (cfg_Deploy cfg) \<noteq> [] \<or> SSHInsecureSkipHostKeyVerify (cfg_Deploy cfg)))"
proof -
  obtain cfg b d s' where c: "ex_load ''g1'' = Inr cfg" "newDeployProvider ex_tp cfg = Inr b"
    "run_state (run_start ex_tp ex_host cfg) ex_outer = (Inr d, s')"
    by (rule ex_startsE)
  then show ?thesis
    using ssh_host_key_checked [OF c(2)] by blast
qed

end
