(* ===== verification/Health_Wait.thy ===== *)
theory Health_Wait
  imports Example_World
begin

text \<open>
  The end of the health wait: the loop of \<open>waitUntilHealthy\<close> has no bound of its own in the code, so
  the model gives it fuel. On a clock that runs, the readiness timeout ends it, and any fuel beyond
  the number of polls that fit in the timeout gives the same run.
\<close>

text \<open>
  A clock behind \<open>Now\<close> and \<open>Sleep\<close>: it never runs backwards while the loop calls out, a reading lies
  between the instants around it, and a pause takes at least its length.
\<close>

definition clock_law :: "'w Reconciler \<Rightarrow> string \<Rightarrow> ('w \<Rightarrow> time) \<Rightarrow> bool" where
  "clock_law r ref clk \<longleftrightarrow>
     (\<forall>w. clk w \<le> fst (run_state (rc_Now r) w) \<and> fst (run_state (rc_Now r) w) \<le> clk (snd (run_state (rc_Now r) w))
        \<and> clk w \<le> clk (snd (run_state (rc_ctx_Err r) w))
        \<and> clk w \<le> clk (snd (run_state (dp_HealthCheck (rc_deploy r) ref) w))
        \<and> (\<forall>d. clk w + d \<le> clk (snd (run_state (rc_clock_Sleep r d) w))))"

lemma clock_lawD:
  assumes "clock_law r ref clk"
  shows "run_state (rc_Now r) w = (t, w') \<Longrightarrow> clk w \<le> t \<and> t \<le> clk w'"
    and "run_state (rc_ctx_Err r) w = (e, w') \<Longrightarrow> clk w \<le> clk w'"
    and "run_state (dp_HealthCheck (rc_deploy r) ref) w = (st, w') \<Longrightarrow> clk w \<le> clk w'"
    and "run_state (rc_clock_Sleep r d) w = (u, w') \<Longrightarrow> clk w + d \<le> clk w'"
  using assms unfolding clock_law_def by (metis fst_conv snd_conv)+

text \<open>One poll more than intervals that are left is enough: the runs agree and do not diverge.\<close>

lemma poll_ends:
  assumes law: "clock_law r ref clk" and ctx: "\<And>w. fst (run_state (rc_ctx_Err r) w) \<noteq> Some Diverges"
    and "deadline \<le> clk (ext s) + int k * rc_readinessPollInterval r" and "k < n"
  shows "fst (run_state (poll_health r ref deadline n) s) \<noteq> Some Diverges
    \<and> run_state (poll_health r ref deadline n) s = run_state (poll_health r ref deadline (Suc k)) s"
  using assms(3,4)
proof (induction k arbitrary: n s)
  case 0
  then obtain m where n: "n = Suc m"
    by (cases n) auto
  obtain e w1 where e: "run_state (rc_ctx_Err r) (ext s) = (e, w1)" by force
  obtain h w2 where h: "run_state (dp_HealthCheck (rc_deploy r) ref) w1 = (h, w2)" by force
  obtain t w3 where t: "run_state (rc_Now r) w2 = (t, w3)" by force
  have "deadline \<le> t"
    using 0(1) clock_lawD(2) [OF law e] clock_lawD(3) [OF law h] clock_lawD(1) [OF law t] by simp
  then show ?case
    using ctx [of "ext s"] e h t
    by (auto simp: n run_if_err run_on_err provider_call_def log_call_def fails_with_def fails_def split: sum.splits option.splits)
next
  case (Suc k)
  then obtain m where n: "n = Suc m" "k < m"
    by (cases n) auto
  obtain e w1 where e: "run_state (rc_ctx_Err r) (ext s) = (e, w1)" by force
  obtain h w2 where h: "run_state (dp_HealthCheck (rc_deploy r) ref) w1 = (h, w2)" by force
  obtain t w3 where t: "run_state (rc_Now r) w2 = (t, w3)" by force
  obtain w4 where u: "run_state (rc_clock_Sleep r (rc_readinessPollInterval r)) w3 = ((), w4)"
    by (cases "run_state (rc_clock_Sleep r (rc_readinessPollInterval r)) w3") simp
  have "clk (ext s) + rc_readinessPollInterval r \<le> clk w4"
    using clock_lawD(2) [OF law e] clock_lawD(3) [OF law h] clock_lawD(1) [OF law t] clock_lawD(4) [OF law u] by simp
  then have left: "deadline \<le> clk w4 + int k * rc_readinessPollInterval r"
    using Suc.prems(1) by (simp add: algebra_simps)
  let ?s = "\<lambda>x. s\<lparr>ext := w4, log := HealthChecked ref x # log s\<rparr>"
  have IH: "fst (run_state (poll_health r ref deadline m) (?s x)) \<noteq> Some Diverges
      \<and> run_state (poll_health r ref deadline m) (?s x) = run_state (poll_health r ref deadline (Suc k)) (?s x)" for x
    by (rule Suc.IH) (use left n(2) in simp_all)
  then have IH: "run_state (poll_health r ref deadline m) (?s x) = run_state (poll_health r ref deadline (Suc k)) (?s x)"
      "fst (run_state (poll_health r ref deadline (Suc k)) (?s x)) \<noteq> Some Diverges" for x
    by metis+
  show ?case
    using ctx [of "ext s"] e h t u IH
    by (auto simp: n(1) run_if_err run_on_err provider_call_def log_call_def fails_with_def fails_def
        simp del: poll_health.simps(2) simp add: poll_health.simps(2) [of r ref deadline m]
          poll_health.simps(2) [of r ref deadline "Suc k"] split: sum.splits option.splits)
qed

text \<open>
  C19: The health wait ends. On a clock that runs, whatever the deployment answers, a fuel that the
  readiness timeout fits in polls the wait to its end: it returns healthy, a timeout or the failure
  of a call, never for want of fuel; and any larger fuel gives the very same run, so that the loop
  of the code, which has none, is the one that is modelled.
\<close>

theorem health_wait_ends:
  assumes "clock_law r ref clk" and "\<And>w. fst (run_state (rc_ctx_Err r) w) \<noteq> Some Diverges"
    and "rc_readinessTimeout r \<le> int (rc_fuel r - 1) * rc_readinessPollInterval r" and "0 < rc_fuel r"
  shows "fst (run_state (waitUntilHealthy r ref) s) \<noteq> Some Diverges
    \<and> (\<forall>fuel \<ge> rc_fuel r. run_state (waitUntilHealthy (r\<lparr>rc_fuel := fuel\<rparr>) ref) s = run_state (waitUntilHealthy r ref) s)"
proof -
  obtain t w where t: "run_state (rc_Now r) (ext s) = (t, w)" by force
  let ?d = "t + rc_readinessTimeout r" and ?s = "s\<lparr>ext := w\<rparr>"
  have left: "?d \<le> clk (ext ?s) + int (rc_fuel r - 1) * rc_readinessPollInterval r"
    using clock_lawD(1) [OF assms(1) t] assms(3) by simp
  have ends: "fst (run_state (poll_health r ref ?d n) ?s) \<noteq> Some Diverges
      \<and> run_state (poll_health r ref ?d n) ?s = run_state (poll_health r ref ?d (Suc (rc_fuel r - 1))) ?s"
    if "rc_fuel r \<le> n" for n
    by (rule poll_ends [OF assms(1,2) left]) (use that assms(4) in simp)
  have same: "poll_health (r\<lparr>rc_fuel := f\<rparr>) ref d n = poll_health r ref d n" for f d n
    by (induction n arbitrary: d) (simp_all cong: if_cong)
  have run: "run_state (waitUntilHealthy (r\<lparr>rc_fuel := f\<rparr>) ref) s = run_state (poll_health r ref ?d f) ?s"
    "run_state (waitUntilHealthy r ref) s = run_state (poll_health r ref ?d (rc_fuel r)) ?s" for f
    by (simp_all add: waitUntilHealthy_def same t)
  show ?thesis
    unfolding run using ends by (metis order_refl)
qed

text \<open>A deployment that never becomes healthy, polled every two seconds for two minutes.\<close>

definition ex_unhealthy :: "example_world Reconciler" where
  "ex_unhealthy = ex_reconciler\<lparr>rc_fuel := 61,
     rc_deploy := ex_deploy\<lparr>dp_HealthCheck := (\<lambda>_. ret (Inr \<lparr>st_Healthy = False, st_Detail = ''starting''\<rparr>))\<rparr>\<rparr>"

theorem health_wait_ends_witness:
  "fst (run_state (waitUntilHealthy ex_unhealthy ''d1'') ex_sys) \<noteq> Some Diverges"
proof -
  have "clock_law ex_unhealthy ''d1'' fst"
    by (simp add: clock_law_def ex_unhealthy_def ex_reconciler_def NewReconciler_def)
  then show ?thesis
    by (rule health_wait_ends [THEN conjunct1])
      (simp_all add: ex_unhealthy_def ex_reconciler_def NewReconciler_def)
qed

end
