(* ===== verification/Control_Socket.thy ===== *)
theory Control_Socket
  imports Go_Path Go_Error Transition_System
begin

text \<open>
  \<open>Serve\<close> of \<open>internal/api/server.go\<close> with \<open>pidlock_unix.go\<close> and \<open>pidlock_other.go\<close>: how a daemon
  comes to listen on its control socket, and how it leaves. Several daemons may be started on one
  path, so the code is a tree of system calls, each followed by what the code does with the answer,
  and the daemons interleave at these calls. The path is the same for all of them.
\<close>

section \<open>Programs of system calls\<close>

datatype os_call =
    OpenLock | Flock | Funlock | CloseLock
  | MkdirAll | Stat | Dial | Remove | ListenUnix | Chmod | UnlinkOwn | CloseListener
  | ListenTCP | AwaitDone | ShutdownTCP | WaitServers

text \<open>A call answers an error or none; \<open>WaitServers\<close> the first error the servers left behind.\<close>

datatype os_prog =
    Done "error option"
  | Sys os_call "error option \<Rightarrow> os_prog"

text \<open>The statement whose error is dropped, and the test \<open>err != nil\<close>.\<close>

definition sys_ignore :: "os_call \<Rightarrow> os_prog \<Rightarrow> os_prog" where
  "sys_ignore c p = Sys c (\<lambda>_. p)"

definition sys_or :: "os_call \<Rightarrow> (error \<Rightarrow> os_prog) \<Rightarrow> os_prog \<Rightarrow> os_prog" where
  "sys_or c fail p = Sys c (\<lambda>r. case r of None \<Rightarrow> p | Some err \<Rightarrow> fail err)"

section \<open>The process lock\<close>

text \<open>\<open>fail\<close> gets the error of \<open>acquireProcessLock\<close>, \<open>p\<close> runs with the lock. Only Unix has one.\<close>

definition acquireProcessLock :: "bool \<Rightarrow> string \<Rightarrow> (error \<Rightarrow> os_prog) \<Rightarrow> os_prog \<Rightarrow> os_prog" where
  "acquireProcessLock unix path fail p =
     (if unix then
        sys_or OpenLock (\<lambda>err. fail (wrapf (''opening process lock '' @ path @ '': '') err))
          (sys_or Flock
            (\<lambda>err. sys_ignore CloseLock (fail (wrapf (''acquiring process lock '' @ path
               @ '': another ramifyd instance is already running: '') err)))
            p)
      else p)"

text \<open>The deferred release, whose errors are only logged.\<close>

definition releaseLock :: "bool \<Rightarrow> error option \<Rightarrow> os_prog" where
  "releaseLock unix r = (if unix then sys_ignore Funlock (sys_ignore CloseLock (Done r)) else Done r)"

section \<open>The socket\<close>

definition probeStaleSocket :: "string \<Rightarrow> (error \<Rightarrow> os_prog) \<Rightarrow> os_prog \<Rightarrow> os_prog" where
  "probeStaleSocket path fail p =
     Sys Dial (\<lambda>r. case r of
         Some err \<Rightarrow> p
       | None \<Rightarrow> fail (Opaque (''refusing to remove live socket '' @ path
                   @ '': another ramifyd instance appears to be running'')))"

text \<open>\<open>Close\<close> of a Unix listener removes the path it was bound to, then closes the descriptor.\<close>

definition close_listener :: "os_prog \<Rightarrow> os_prog" where
  "close_listener p = sys_ignore UnlinkOwn (sys_ignore CloseListener p)"

definition os_ErrNotExist :: error where
  "os_ErrNotExist = Opaque ''file does not exist''"

definition listen_and_secure :: "string \<Rightarrow> (error \<Rightarrow> os_prog) \<Rightarrow> os_prog \<Rightarrow> os_prog" where
  "listen_and_secure path fail p =
     sys_or ListenUnix (\<lambda>err. fail (wrapf (''listening on '' @ path @ '': '') err))
       (sys_or Chmod
          (\<lambda>err. close_listener (sys_ignore Remove (fail (wrapf (''securing socket '' @ path @ '': '') err))))
          p)"

definition remove_stale :: "string \<Rightarrow> (error \<Rightarrow> os_prog) \<Rightarrow> os_prog \<Rightarrow> os_prog" where
  "remove_stale path fail p =
     sys_or Remove
       (\<lambda>err. if errors_Is err os_ErrNotExist then p
              else fail (wrapf (''removing stale socket '' @ path @ '': '') err))
       p"

definition listenUnix :: "string \<Rightarrow> (error \<Rightarrow> os_prog) \<Rightarrow> os_prog \<Rightarrow> os_prog" where
  "listenUnix path fail p =
     (let bind = remove_stale path fail (listen_and_secure path fail p)
      in sys_or MkdirAll (\<lambda>err. fail (wrapf ''creating socket directory: '' err))
           (sys_or Stat
              (\<lambda>err. if errors_Is err os_ErrNotExist then bind
                     else fail (wrapf (''checking existing socket '' @ path @ '': '') err))
              (probeStaleSocket path fail bind)))"

section \<open>The life of the API server\<close>

text \<open>
  From the bound socket on: the TCP listener if there is an address, then the wait for the end of
  the context, the shutdown of both servers, and the first error they left.
\<close>

definition serve_until_done :: "string \<Rightarrow> (error option \<Rightarrow> os_prog) \<Rightarrow> os_prog" where
  "serve_until_done tcpAddr finish =
     (if tcpAddr = [] then
        sys_ignore AwaitDone (close_listener (Sys WaitServers finish))
      else
        sys_or ListenTCP
          (\<lambda>err. close_listener (sys_ignore WaitServers
             (finish (Some (wrapf (''api: listening on '' @ tcpAddr @ '': '') err)))))
          (sys_ignore AwaitDone (close_listener (sys_ignore ShutdownTCP (Sys WaitServers finish)))))"

definition Serve :: "bool \<Rightarrow> string \<Rightarrow> string \<Rightarrow> os_prog" where
  "Serve unix socketPath tcpAddr =
     acquireProcessLock unix (socketPath @ ''.lock'') (\<lambda>err. Done (Some (wrapf ''api: '' err)))
       (listenUnix socketPath (\<lambda>err. releaseLock unix (Some (wrapf ''api: '' err)))
          (serve_until_done tcpAddr (releaseLock unix)))"

section \<open>The operating system\<close>

text \<open>
  What the daemons share: who holds the lock on the lock file, which daemon's bind the socket file
  at the path is from, and which daemons have a listening descriptor. A file whose daemon listens no
  more is stale.
\<close>

record 'p os_world =
  os_lock :: "'p option"
  os_file :: "'p option"
  os_listening :: "'p set"

text \<open>The effect of a call that succeeds; a lock or a bind succeeds only where it can.\<close>

definition call_possible :: "'p \<Rightarrow> os_call \<Rightarrow> 'p os_world \<Rightarrow> bool" where
  "call_possible p c w =
     (case c of
        Flock \<Rightarrow> os_lock w = None
      | Stat \<Rightarrow> os_file w \<noteq> None
      | Dial \<Rightarrow> (case os_file w of None \<Rightarrow> False | Some q \<Rightarrow> q \<in> os_listening w)
      | Remove \<Rightarrow> os_file w \<noteq> None
      | ListenUnix \<Rightarrow> os_file w = None
      | _ \<Rightarrow> True)"

definition call_effect :: "'p \<Rightarrow> os_call \<Rightarrow> 'p os_world \<Rightarrow> 'p os_world" where
  "call_effect p c w =
     (case c of
        Flock \<Rightarrow> w\<lparr>os_lock := Some p\<rparr>
      | Funlock \<Rightarrow> w\<lparr>os_lock := (if os_lock w = Some p then None else os_lock w)\<rparr>
      | CloseLock \<Rightarrow> w\<lparr>os_lock := (if os_lock w = Some p then None else os_lock w)\<rparr>
      | Remove \<Rightarrow> w\<lparr>os_file := None\<rparr>
      | UnlinkOwn \<Rightarrow> w\<lparr>os_file := None\<rparr>
      | ListenUnix \<Rightarrow> w\<lparr>os_file := Some p, os_listening := insert p (os_listening w)\<rparr>
      | CloseListener \<Rightarrow> w\<lparr>os_listening := os_listening w - {p}\<rparr>
      | _ \<Rightarrow> w)"

text \<open>The error of a call that fails without a fault: the file that is not there, and the rest.\<close>

definition call_refusal :: "os_call \<Rightarrow> error" where
  "call_refusal c = (if c = Stat \<or> c = Remove then os_ErrNotExist else Opaque ''refused'')"

text \<open>The end of a process, by a crash or a return: its lock and its descriptors are released.\<close>

definition process_ends :: "'p \<Rightarrow> 'p os_world \<Rightarrow> 'p os_world" where
  "process_ends p w =
     w\<lparr>os_lock := (if os_lock w = Some p then None else os_lock w), os_listening := os_listening w - {p}\<rparr>"

record 'p daemons =
  da_world :: "'p os_world"
  da_prog :: "'p \<Rightarrow> os_prog option"

text \<open>
  A step of the machine: a daemon is started, makes its next call, or ends. Any call may also fail
  for a reason of its own, and a dial may fail although someone listens.
\<close>

inductive socket_step :: "bool \<Rightarrow> string \<Rightarrow> 'p daemons \<Rightarrow> 'p daemons \<Rightarrow> bool" for unix path where
  daemon_starts: "da_prog s p = None
    \<Longrightarrow> socket_step unix path s (s\<lparr>da_prog := (da_prog s)(p \<mapsto> Serve unix path tcpAddr)\<rparr>)"
| call_succeeds: "da_prog s p = Some (Sys c k) \<Longrightarrow> call_possible p c (da_world s)
    \<Longrightarrow> socket_step unix path s \<lparr>da_world = call_effect p c (da_world s), da_prog = (da_prog s)(p \<mapsto> k None)\<rparr>"
| call_fails: "da_prog s p = Some (Sys c k)
    \<Longrightarrow> socket_step unix path s (s\<lparr>da_prog := (da_prog s)(p \<mapsto> k (Some err))\<rparr>)"
| daemon_ends: "da_prog s p = Some prog
    \<Longrightarrow> socket_step unix path s \<lparr>da_world = process_ends p (da_world s), da_prog = (da_prog s)(p := None)\<rparr>"

text \<open>Nobody runs, nobody holds anything; a file may lie at the path.\<close>

definition socket_start :: "'p daemons \<Rightarrow> bool" where
  "socket_start s \<longleftrightarrow> da_prog s = Map.empty \<and> os_lock (da_world s) = None \<and> os_listening (da_world s) = {}"

text \<open>A client that dials the path reaches this daemon.\<close>

definition reached :: "'p daemons \<Rightarrow> 'p \<Rightarrow> bool" where
  "reached s p \<longleftrightarrow> os_file (da_world s) = Some p \<and> p \<in> os_listening (da_world s)"

text \<open>The daemon is serving: it waits for the end of its context.\<close>

fun awaits :: "os_prog \<Rightarrow> bool" where
  "awaits (Sys AwaitDone k) = True"
| "awaits _ = False"

definition serving :: "'p daemons \<Rightarrow> 'p \<Rightarrow> bool" where
  "serving s p \<longleftrightarrow> (case da_prog s p of None \<Rightarrow> False | Some prog \<Rightarrow> awaits prog)"

section \<open>The protocol\<close>

text \<open>
  What a daemon may do with the path depends on what it holds: without the lock it may neither
  remove nor bind the socket file, and while it listens it does not touch it. Every program of
  \<open>Serve\<close> with the lock obeys this.
\<close>

datatype stage = Outside | Inside | Live

primrec obeys :: "os_prog \<Rightarrow> stage \<Rightarrow> bool" where
  "obeys (Done r) st = True"
| "obeys (Sys c k) st =
     (case c of
        Flock \<Rightarrow> st = Outside \<and> obeys (k None) Inside \<and> (\<forall>e. obeys (k (Some e)) Outside)
      | Funlock \<Rightarrow> st \<noteq> Live \<and> (\<forall>r. obeys (k r) Outside)
      | CloseLock \<Rightarrow> st \<noteq> Live \<and> (\<forall>r. obeys (k r) Outside)
      | Remove \<Rightarrow> st = Inside \<and> (\<forall>r. obeys (k r) Inside)
      | UnlinkOwn \<Rightarrow> st \<noteq> Outside \<and> (\<forall>r. obeys (k r) Inside)
      | ListenUnix \<Rightarrow> st = Inside \<and> obeys (k None) Live \<and> (\<forall>e. obeys (k (Some e)) Inside)
      | CloseListener \<Rightarrow> st \<noteq> Live \<and> (\<forall>r. obeys (k r) st)
      | AwaitDone \<Rightarrow> st = Live \<and> (\<forall>r. obeys (k r) st)
      | _ \<Rightarrow> (\<forall>r. obeys (k r) st))"

lemma sys_ignore_obeys [simp]: "obeys (sys_ignore c p) st = obeys (Sys c (\<lambda>_. p)) st"
  by (simp add: sys_ignore_def)

lemmas socket_defs = Serve_def acquireProcessLock_def releaseLock_def listenUnix_def probeStaleSocket_def
  close_listener_def remove_stale_def listen_and_secure_def serve_until_done_def sys_or_def Let_def

lemma Serve_obeys: "obeys (Serve True path tcpAddr) Outside"
  by (auto simp: socket_defs split: option.splits)

text \<open>What a stage says of the machine.\<close>

definition stage_holds :: "'p os_world \<Rightarrow> 'p \<Rightarrow> stage \<Rightarrow> bool" where
  "stage_holds w p st =
     (case st of
        Outside \<Rightarrow> True
      | Inside \<Rightarrow> os_lock w = Some p
      | Live \<Rightarrow> os_lock w = Some p \<and> os_file w = Some p \<and> p \<in> os_listening w)"

definition lawful :: "'p daemons \<Rightarrow> bool" where
  "lawful s \<longleftrightarrow> (\<forall>p prog. da_prog s p = Some prog \<longrightarrow> (\<exists>st. obeys prog st \<and> stage_holds (da_world s) p st))
     \<and> (\<forall>p. os_lock (da_world s) = Some p \<or> p \<in> os_listening (da_world s) \<longrightarrow> da_prog s p \<noteq> None)"

text \<open>A call of one daemon leaves the stage of another as it is.\<close>

lemma others_keep:
  assumes "q \<noteq> p" "stage_holds w q st" "obeys (Sys c k) st'" "stage_holds w p st'"
    and "call_possible p c w"
  shows "stage_holds (call_effect p c w) q st"
  using assms by (cases c; cases st; cases st') (auto simp: stage_holds_def call_effect_def call_possible_def)

text \<open>The daemon itself goes on in the stage its protocol says.\<close>

lemma own_success:
  assumes "obeys (Sys c k) st" "stage_holds w p st" "call_possible p c w"
  shows "\<exists>st'. obeys (k None) st' \<and> stage_holds (call_effect p c w) p st'"
  using assms
  by (cases c; cases st)
    (auto simp: stage_holds_def call_effect_def call_possible_def intro: exI [of _ Outside] exI [of _ Inside] exI [of _ Live])

lemma own_failure:
  assumes "obeys (Sys c k) st" "stage_holds w p st"
  shows "\<exists>st'. obeys (k (Some e)) st' \<and> stage_holds w p st'"
  using assms
  by (cases c; cases st) (auto simp: stage_holds_def intro: exI [of _ Outside] exI [of _ Inside] exI [of _ Live])

lemma ends_keeps: "q \<noteq> p \<Longrightarrow> stage_holds w q st \<Longrightarrow> stage_holds (process_ends p w) q st"
  by (cases st) (auto simp: stage_holds_def process_ends_def)

lemma call_owner:
  "os_lock (call_effect p c w) = Some q \<Longrightarrow> q = p \<or> os_lock w = Some q"
  "q \<in> os_listening (call_effect p c w) \<Longrightarrow> q = p \<or> q \<in> os_listening w"
  by (cases c; auto simp: call_effect_def split: if_splits)+

lemma lawfulD:
  assumes "lawful s"
  shows "da_prog s p = Some prog \<Longrightarrow> \<exists>st. obeys prog st \<and> stage_holds (da_world s) p st"
    and "os_lock (da_world s) = Some p \<Longrightarrow> da_prog s p \<noteq> None"
    and "p \<in> os_listening (da_world s) \<Longrightarrow> da_prog s p \<noteq> None"
  using assms unfolding lawful_def by blast+

lemma lawful_step:
  assumes l: "lawful s" and "socket_step True path s s'"
  shows "lawful s'"
  using assms(2)
proof cases
  case (daemon_starts p tcpAddr)
  then show ?thesis
    using l Serve_obeys by (auto simp: lawful_def stage_holds_def intro: exI [of _ Outside])
next
  case (call_succeeds p c k)
  obtain st where st: "obeys (Sys c k) st" "stage_holds (da_world s) p st"
    using lawfulD(1) [OF l call_succeeds(2)] by blast
  have "\<exists>st'. obeys prog st' \<and> stage_holds (da_world s') q st'" if "da_prog s' q = Some prog" for q prog
    using that own_success [OF st call_succeeds(3)] others_keep [OF _ _ st call_succeeds(3), of q] lawfulD(1) [OF l, of q]
    unfolding call_succeeds(1) by (cases "q = p") fastforce+
  moreover have "da_prog s' q \<noteq> None" if "os_lock (da_world s') = Some q \<or> q \<in> os_listening (da_world s')" for q
    using that call_owner [where p = p and c = c and w = "da_world s" and q = q] lawfulD(2,3) [OF l, of q] unfolding call_succeeds(1) by auto
  ultimately show ?thesis
    unfolding lawful_def by blast
next
  case (call_fails p c k err)
  obtain st where st: "obeys (Sys c k) st" "stage_holds (da_world s) p st"
    using lawfulD(1) [OF l call_fails(2)] by blast
  have "\<exists>st'. obeys prog st' \<and> stage_holds (da_world s') q st'" if "da_prog s' q = Some prog" for q prog
    using that own_failure [OF st, of err] lawfulD(1) [OF l, of q] unfolding call_fails(1) by (cases "q = p") auto
  moreover have "da_prog s' q \<noteq> None" if "os_lock (da_world s') = Some q \<or> q \<in> os_listening (da_world s')" for q
    using that lawfulD(2,3) [OF l, of q] unfolding call_fails(1) by auto
  ultimately show ?thesis
    unfolding lawful_def by blast
next
  case (daemon_ends p prog)
  have "\<exists>st'. obeys prog st' \<and> stage_holds (da_world s') q st'" if "da_prog s' q = Some prog" for q prog
    using that ends_keeps [of q p] lawfulD(1) [OF l, of q] unfolding daemon_ends(1) by (cases "q = p") fastforce+
  moreover have "da_prog s' q \<noteq> None" if "os_lock (da_world s') = Some q \<or> q \<in> os_listening (da_world s')" for q
    using that lawfulD(2,3) [OF l, of q] unfolding daemon_ends(1) by (auto simp: process_ends_def split: if_splits)
  ultimately show ?thesis
    unfolding lawful_def by blast
qed

interpretation socket: inductive_invariant socket_start "socket_step True path" "lawful :: 'p daemons \<Rightarrow> bool" for path
proof unfold_locales
  show "lawful s" if "socket_start s" for s :: "'p daemons"
    using that by (simp add: socket_start_def lawful_def)
qed (rule lawful_step)

lemma serving_Live:
  assumes "lawful s" "serving s p"
  shows "stage_holds (da_world s) p Live"
proof -
  obtain prog where prog: "da_prog s p = Some prog" "awaits prog"
    using assms(2) by (auto simp: serving_def split: option.splits)
  then obtain k where "prog = Sys AwaitDone k"
    by (cases prog rule: awaits.cases) auto
  with lawfulD(1) [OF assms(1) prog(1)] show ?thesis by auto
qed

section \<open>Turns without faults\<close>

text \<open>
  The turn of a daemon that no fault interrupts: its next call succeeds if it can and is refused if
  not. A daemon that waits for the end of its context, or has returned, stays where it is.
\<close>

definition honest_answer :: "'p \<Rightarrow> os_call \<Rightarrow> 'p os_world \<Rightarrow> error option \<times> 'p os_world" where
  "honest_answer p c w = (if call_possible p c w then (None, call_effect p c w) else (Some (call_refusal c), w))"

definition turn :: "bool \<Rightarrow> string \<Rightarrow> 'p \<Rightarrow> 'p daemons \<Rightarrow> 'p daemons" where
  "turn unix path p s =
     (case da_prog s p of
        None \<Rightarrow> s\<lparr>da_prog := (da_prog s)(p \<mapsto> Serve unix path [])\<rparr>
      | Some (Done r) \<Rightarrow> s
      | Some (Sys c k) \<Rightarrow>
          if c = AwaitDone then s
          else case honest_answer p c (da_world s) of (r, w) \<Rightarrow>
            \<lparr>da_world = w, da_prog = (da_prog s)(p \<mapsto> k r)\<rparr>)"

definition turns :: "bool \<Rightarrow> string \<Rightarrow> 'p list \<Rightarrow> 'p daemons \<Rightarrow> 'p daemons" where
  "turns unix path ps s = fold (turn unix path) ps s"

lemma turn_steps: "turn unix path p s = s \<or> socket_step unix path s (turn unix path p s)"
proof (cases "da_prog s p")
  case None
  then show ?thesis
    by (simp add: turn_def daemon_starts)
next
  case (Some prog)
  show ?thesis
  proof (cases prog)
    case (Done r)
    with Some show ?thesis by (simp add: turn_def)
  next
    case (Sys c k)
    with Some have g: "da_prog s p = Some (Sys c k)" by simp
    have w: "\<lparr>da_world = da_world s, da_prog = f\<rparr> = s\<lparr>da_prog := f\<rparr>" for f
      by (cases s) simp
    show ?thesis
      using call_succeeds [OF g, of unix path] call_fails [OF g, of unix path "call_refusal c"]
      by (auto simp: turn_def g honest_answer_def w)
  qed
qed

lemma turns_reachable:
  "reachable socket_start (socket_step unix path) s \<Longrightarrow> reachable socket_start (socket_step unix path) (turns unix path ps s)"
proof (induction ps arbitrary: s)
  case (Cons p ps)
  have "reachable socket_start (socket_step unix path) (turn unix path p s)"
    using turn_steps [of unix path p s] Cons.prems by (auto intro: reachable.advance)
  from Cons.IH [OF this] show ?case
    by (simp add: turns_def)
qed (simp add: turns_def)

section \<open>What the socket promises\<close>

text \<open>
  C12: one daemon per socket. Start as many daemons as you like on one path, let their system calls
  interleave, fail and be cut off by crashes in any way: on Unix a daemon that serves holds the
  process lock and is the one whose socket lies at the path, so that every client reaches it; two
  never serve at once; and no daemon removes or replaces the socket of one that serves. Even a dial
  that takes a live socket for a stale one does no harm.
\<close>

theorem control_socket_exclusive:
  assumes "reachable socket_start (socket_step True path) s" and "serving s p"
  shows "reached s p \<and> os_lock (da_world s) = Some p \<and> (\<forall>q. serving s q \<longrightarrow> q = p)
    \<and> (\<forall>s'. socket_step True path s s' \<longrightarrow> da_prog s' p = da_prog s p \<longrightarrow> reached s' p)"
proof -
  have l: "lawful s"
    by (rule socket.reachable_inv [OF assms(1)])
  have live: "stage_holds (da_world s) q Live" if "serving s q" for q
    by (rule serving_Live [OF l that])
  have "reached s' p" if "socket_step True path s s'" "da_prog s' p = da_prog s p" for s'
  proof -
    have "serving s' p"
      using assms(2) that(2) by (simp add: serving_def)
    then show ?thesis
      using serving_Live [OF lawful_step [OF l that(1)]] by (simp add: stage_holds_def reached_def)
  qed
  then show ?thesis
    using live [OF assms(2)] live by (auto simp: stage_holds_def reached_def)
qed


section \<open>Examples\<close>

text \<open>A stale file of daemon 7 lies at the path when daemon 0 starts; daemon 1 comes second.\<close>

definition ex_machine :: "nat daemons" where
  "ex_machine = \<lparr>da_world = \<lparr>os_lock = None, os_file = Some 7, os_listening = {}\<rparr>, da_prog = (\<lambda>_. None)\<rparr>"

lemma ex_machine_reachable: "reachable socket_start (socket_step unix path) ex_machine"
  by (rule reachable.start) (simp add: socket_start_def ex_machine_def)

definition ex_two :: "bool \<Rightarrow> nat daemons" where
  "ex_two unix = turns unix ''/run/ramify.sock'' [0,0,0,1,1,1,0,1,0,0,0,0,0,0,1,1,1,1,1,1] ex_machine"

lemma ex_two_runs:
  "serving (ex_two True) 0" "da_prog (ex_two True) 1 \<noteq> None" "\<not> serving (ex_two True) 1"
  "serving (ex_two False) 0" "serving (ex_two False) 1" "reached (ex_two False) 1"
  by (simp_all add: ex_two_def ex_machine_def turns_def turn_def honest_answer_def call_possible_def call_effect_def
      call_refusal_def socket_defs sys_ignore_def serving_def reached_def os_ErrNotExist_def)

theorem control_socket_exclusive_witness:
  "reached (ex_two True) 0 \<and> \<not> serving (ex_two True) 1"
  using control_socket_exclusive [OF turns_reachable [OF ex_machine_reachable] ex_two_runs(1) [unfolded ex_two_def]]
  by (auto simp: ex_two_def)


text \<open>
  The lock is what makes it so: in the build without it, the same schedule ends with two daemons
  that serve, the second having removed the socket of the first after it had probed the path.
\<close>

theorem probe_alone_is_racy:
  "reachable socket_start (socket_step False ''/run/ramify.sock'') (ex_two False)
    \<and> serving (ex_two False) 0 \<and> serving (ex_two False) 1 \<and> \<not> reached (ex_two False) 0"
  using ex_two_runs(4-6) turns_reachable [OF ex_machine_reachable, where unix = False and path = "''/run/ramify.sock''"]
  by (simp add: ex_two_def reached_def)

end
