(* ===== verification/Daemon_Process.thy ===== *)
theory Daemon_Process
  imports Daemon_Theorems Control_Socket
begin

text \<open>
  \<open>run\<close> of \<open>cmd/ramifyd/main.go\<close> as a process: the configuration is loaded, the store opened and the
  daemon built; then three goroutines run side by side, the control API, the reaper loop and the
  event loop, until a signal ends the context and all three have returned. A step is a system call of
  \<open>Serve\<close>, a request, a turn of a webhook worker, a tick, or the end of a goroutine.
\<close>

section \<open>The start\<close>

definition run_boot ::
  "(string \<Rightarrow> error + Config) \<Rightarrow> (string \<Rightarrow> ('w outer sys, error option) state)
   \<Rightarrow> ('w, 'c, 's, 'k, 'cb, 'st) third_party \<Rightarrow> ('w, 'k2, 'l, 't) host \<Rightarrow> string
   \<Rightarrow> ('w outer sys, error + (Config \<times> 'w daemon)) state" where
  "run_boot load open' tp h configPath =
     (case load configPath of
        Inl err \<Rightarrow> ret (Inl (wrapf ''loading config: '' err))
      | Inr cfg \<Rightarrow>
          if_err (open' (StorePath (cfg_Store cfg))) (\<lambda>err. ret (Inl (wrapf ''opening store: '' err)))
            (on_err (run_start tp h cfg) (\<lambda>err. ret (Inl err)) (\<lambda>d. ret (Inr (cfg, d)))))"

section \<open>The goroutines\<close>

text \<open>
  \<open>pr_serve\<close> is what \<open>Serve\<close> has still to do, \<open>None\<close> once its goroutine has ended; \<open>pr_errs\<close> is the
  channel of errors and \<open>pr_result\<close> what \<open>run\<close> returned.
\<close>

record process =
  pr_serve :: "os_prog option"
  pr_reaper :: bool
  pr_events :: bool
  pr_lastPrune :: "time option"
  pr_signalled :: bool
  pr_errs :: "error list"
  pr_result :: "error option option"

definition goroutines :: "bool \<Rightarrow> Config \<Rightarrow> process" where
  "goroutines unix cfg =
     \<lparr>pr_serve = Some (Serve unix (SocketPath (cfg_Server cfg)) (TCPAddr (cfg_Server cfg))), pr_reaper = True,
      pr_events = True, pr_lastPrune = None, pr_signalled = False, pr_errs = [], pr_result = None\<rparr>"

text \<open>\<open>errors.Join\<close> of the errors that were sent.\<close>

definition join_errors :: "error list \<Rightarrow> error option" where
  "join_errors errs = (if errs = [] then None else Some (Joined errs))"

text \<open>What the goroutine of the API leaves when \<open>Serve\<close> returns.\<close>

definition api_returned :: "error option \<Rightarrow> process \<Rightarrow> process" where
  "api_returned r p =
     p\<lparr>pr_serve := None, pr_errs := pr_errs p @ (case r of None \<Rightarrow> [] | Some err \<Rightarrow> [wrapf ''control api: '' err])\<rparr>"

text \<open>
  The answers of the operating system are arbitrary, save that the wait for the end of the context
  ends only with it. A loop that finds both a tick and the end of the context may take either.
\<close>

inductive run_step :: "Config \<Rightarrow> 'w daemon \<Rightarrow> process \<times> 'w outer sys \<Rightarrow> process \<times> 'w outer sys \<Rightarrow> bool" for cfg d where
  outside_changes: "run_step cfg d (p, s) (p, s\<lparr>ext := w\<rparr>)"
| signal: "run_step cfg d (p, s) (p\<lparr>pr_signalled := True\<rparr>, s)"
| api_calls: "pr_serve p = Some (Sys c k) \<Longrightarrow> c = AwaitDone \<longrightarrow> pr_signalled p
    \<Longrightarrow> run_step cfg d (p, s) (p\<lparr>pr_serve := Some (k r)\<rparr>, s)"
| api_returns: "pr_serve p = Some (Done r) \<Longrightarrow> run_step cfg d (p, s) (api_returned r p, s)"
| api_answers: "pr_serve p \<noteq> None
    \<Longrightarrow> run_step cfg d (p, s) (p, snd (run_state (handle (dm_server d) e rq) s))"
| api_receives: "pr_serve p \<noteq> None
    \<Longrightarrow> run_step cfg d (p, s) (p, snd (run_state (handleWebhook (dm_server d) rq queue) s))"
| worker_turns: "pr_result p = None
    \<Longrightarrow> run_step cfg d (p, s) (p, snd (run_state (runWebhookWorker (dm_server d) queue) s))"
| reaper_ticks: "pr_reaper p \<Longrightarrow> run_step cfg d (p, s) (p, snd (run_state (reaper_tick (dm_reaper d)) s))"
| reaper_ends: "pr_reaper p \<Longrightarrow> pr_signalled p \<Longrightarrow> run_step cfg d (p, s) (p\<lparr>pr_reaper := False\<rparr>, s)"
| events_tick: "pr_events p
    \<Longrightarrow> run_state (event_tick (rc_store (dm_reconciler d)) (dm_reconciler d) (EventRetention (cfg_Reaper cfg)) (pr_lastPrune p)) s
        = (lastPrune, s')
    \<Longrightarrow> run_step cfg d (p, s) (p\<lparr>pr_lastPrune := lastPrune\<rparr>, s')"
| events_end: "pr_events p \<Longrightarrow> pr_signalled p \<Longrightarrow> run_step cfg d (p, s) (p\<lparr>pr_events := False\<rparr>, s)"
| run_returns: "pr_serve p = None \<Longrightarrow> \<not> pr_reaper p \<Longrightarrow> \<not> pr_events p \<Longrightarrow> pr_result p = None
    \<Longrightarrow> run_step cfg d (p, s) (p\<lparr>pr_result := Some (join_errors (pr_errs p))\<rparr>, s)"

inductive_cases run_stepE: "run_step cfg d (p, s) (p', s')"

abbreviation process_reachable :: "bool \<Rightarrow> Config \<Rightarrow> 'w daemon \<Rightarrow> 'w outer sys \<Rightarrow> process \<times> 'w outer sys \<Rightarrow> bool" where
  "process_reachable unix cfg d s0 \<equiv> reachable (\<lambda>ps. ps = (goroutines unix cfg, s0)) (run_step cfg d)"

section \<open>main\<close>

text \<open>The flags of the daemon with their defaults, and the format of its log.\<close>

record daemon_flags =
  df_config :: string
  df_version :: bool

definition daemon_flag_defaults :: daemon_flags where
  "daemon_flag_defaults = \<lparr>df_config = ''/etc/ramify/ramify.yaml'', df_version = False\<rparr>"

datatype log_handler = TextHandler | JSONHandler

text \<open>The second argument is whether standard output is a character device, or the error of asking.\<close>

definition newLogger :: "string \<Rightarrow> error + bool \<Rightarrow> log_handler" where
  "newLogger format stat =
     (let isTTY = (case stat of Inl _ \<Rightarrow> False | Inr charDevice \<Rightarrow> charDevice)
      in if format = ''text'' \<or> (format = [] \<and> isTTY) then TextHandler else JSONHandler)"

text \<open>What is printed, if anything, and the status of the process; \<open>run\<close> is the run from its start to its end.\<close>

definition ramifyd_main ::
  "string \<Rightarrow> (string \<Rightarrow> ('w, error option) state) \<Rightarrow> daemon_flags \<Rightarrow> ('w, string option \<times> nat) state" where
  "ramifyd_main version run flags =
     (if df_version flags then ret (Some (''ramifyd '' @ version @ [CHR 0x0A]), 0)
      else if_err (run (df_config flags)) (\<lambda>err. ret (None, 1)) (ret (None, 0)))"

section \<open>The process is a run of the daemon\<close>

text \<open>Every step of the process is a step of the transition system, or leaves the system as it is.\<close>

lemma ignored_state: "snd (run_state (ignore m) s) = snd (run_state m s)"
  by (simp add: ignore_def split: prod.splits)

lemma run_step_simulates:
  assumes "run_step cfg d (p, s) (p', s')"
    and "sv_store (dm_server d) = rc_store (dm_reconciler d)" "sv_reconciler (dm_server d) = dm_reconciler d"
    and "rp_reconciler (dm_reaper d) = dm_reconciler d"
  shows "s' = s \<or> daemon_step (dm_reconciler d) (dm_reaper d) s s'"
proof -
  have "daemon_step (dm_reconciler d) (dm_reaper d) s (snd (run_state (event_tick (rc_store (dm_reconciler d))
      (dm_reconciler d) (EventRetention (cfg_Reaper cfg)) (pr_lastPrune p)) s))"
    by (rule tick_step)
  then show ?thesis
    using assms(1)
    by (elim run_stepE)
      (use assms(2-4) in \<open>auto simp: reaper_tick_def ignored_state
         intro: world_changes http_step receive_step worker_step sweep_step\<close>)
qed

text \<open>
  C27: the process refines the transition system. If \<open>run\<close> gets past its start on a database in order,
  then whatever the goroutines do, in whatever order, before and after a signal, the state of the
  system is one the transition system reaches; so all that is proved of every run of the daemon,
  its database and its log holds of every moment of the process, up to the end.
\<close>

theorem process_refines_daemon:
  assumes "run_state (run_boot load open' tp h configPath) s = (Inr (cfg, d), s0)"
    and "\<And>path s1. run_state (open' path) s = (None, s1) \<Longrightarrow> daemon_start d0 s1"
    and "process_reachable unix cfg d s0 (p, s')"
  shows "reachable (daemon_start d0) (daemon_step (dm_reconciler d) (dm_reaper d)) s'
    \<and> db_wf (db s') \<and> legal_system d0 s'"
proof -
  obtain s1 where "load configPath = Inr cfg" and o: "run_state (open' (StorePath (cfg_Store cfg))) s = (None, s1)"
    and st: "run_state (run_start tp h cfg) s1 = (Inr d, s0)"
    using assms(1) by (auto simp: run_boot_def run_on_err run_if_err split: sum.splits prod.splits option.splits)
  obtain git dns built cert notifier w where
    "newGitProvider tp cfg = Inr git" "newDNSProvider tp cfg = Inr dns" "newDeployProvider tp cfg = Inr built"
    and d: "d = wire h cfg git dns (set_certificate_dir (CertificateDir (cfg_Deploy cfg)) built) cert notifier"
    and s0: "s0 = snd (run_state (ReplayUnprocessedEvents (dm_reconciler d)) (s1\<lparr>ext := w\<rparr>))"
    using st by (rule run_start_InrE)
  let ?R = "reachable (daemon_start d0) (daemon_step (dm_reconciler d) (dm_reaper d))"
  have "?R s0"
    unfolding s0 using assms(2) [OF o] by (blast intro: reachable.intros world_changes replay_step)
  moreover have "?R (snd ps)" if "process_reachable unix cfg d s0 ps" and "?R s0" for ps
    using that
  proof (induction rule: reachable.induct)
    case (advance ps ps')
    then show ?case
      using run_step_simulates [of cfg d "fst ps" "snd ps" "fst ps'" "snd ps'"]
      by (auto simp: wire_shares [OF d] intro: reachable.advance)
  qed simp
  ultimately have r: "?R s'"
    using assms(3) by fastforce
  then show ?thesis
    using daemon.reachable_inv [OF r] by blast
qed

section \<open>The end of the process\<close>

text \<open>
  No goroutine of the loops and not the process ends before the signal; \<open>Serve\<close> may. The result is
  the error \<open>Serve\<close> left, if any.
\<close>

definition orderly :: "process \<times> 'w outer sys \<Rightarrow> bool" where
  "orderly ps \<longleftrightarrow> (let p = fst ps in
     (\<not> pr_signalled p \<longrightarrow> pr_reaper p \<and> pr_events p)
     \<and> (pr_result p \<noteq> None \<longrightarrow> pr_serve p = None \<and> \<not> pr_reaper p \<and> \<not> pr_events p
          \<and> pr_result p = Some (join_errors (pr_errs p)))
     \<and> (pr_serve p \<noteq> None \<longrightarrow> pr_errs p = []) \<and> length (pr_errs p) \<le> 1)"

lemma orderly_step:
  assumes "orderly ps" and "run_step cfg d ps ps'"
  shows "orderly ps'"
proof -
  obtain p s p' s' where ps: "ps = (p, s)" "ps' = (p', s')"
    by (cases ps, cases ps')
  show ?thesis
    using assms(2) unfolding ps
    by (rule run_stepE)
      (use assms(1) in \<open>auto simp: ps orderly_def api_returned_def Let_def split: option.splits\<close>)
qed

interpretation process: inductive_invariant "\<lambda>ps. ps = (goroutines unix cfg, s0)" "run_step cfg d" orderly
  for unix cfg and d :: "'w daemon" and s0
proof unfold_locales
  show "orderly ps" if "ps = (goroutines unix cfg, s0)" for ps :: "process \<times> 'w outer sys"
    using that by (simp add: orderly_def goroutines_def)
qed (rule orderly_step)

text \<open>After the signal \<open>Serve\<close> can run to its end, whatever it is answered.\<close>

lemma serve_ends:
  "pr_serve p = Some prog \<Longrightarrow> pr_signalled p
    \<Longrightarrow> \<exists>r. (run_step cfg d)\<^sup>*\<^sup>* (p, s) (api_returned r p, s)"
proof (induction prog arbitrary: p)
  case (Done r)
  then show ?case
    using api_returns by (metis r_into_rtranclp)
next
  case (Sys c k)
  let ?p = "p\<lparr>pr_serve := Some (k None)\<rparr>"
  have "run_step cfg d (p, s) (?p, s)"
    using Sys.prems by (intro api_calls) auto
  moreover obtain r where "(run_step cfg d)\<^sup>*\<^sup>* (?p, s) (api_returned r ?p, s)"
    using Sys.IH [of "k None" ?p] Sys.prems(2) by auto
  ultimately show ?case
    by (intro exI [of _ r]) (auto simp: api_returned_def intro: converse_rtranclp_into_rtranclp)
qed

lemma loops_end:
  assumes "pr_serve p = None" and "pr_signalled p" and "pr_result p = None"
  shows "(run_step cfg d)\<^sup>*\<^sup>* (p, s)
    (p\<lparr>pr_reaper := False, pr_events := False, pr_result := Some (join_errors (pr_errs p))\<rparr>, s)"
proof -
  let ?p1 = "p\<lparr>pr_reaper := False\<rparr>" and ?p2 = "p\<lparr>pr_reaper := False, pr_events := False\<rparr>"
  have same: "?p2 = ?p1" if "\<not> pr_events p"
    using that by (cases p) simp
  have "?p1 = p" if "\<not> pr_reaper p"
    using that by (cases p) simp
  then have "(run_step cfg d)\<^sup>*\<^sup>* (p, s) (?p1, s)"
    using reaper_ends [OF _ assms(2)] by (metis r_into_rtranclp rtranclp.rtrancl_refl)
  also have "(run_step cfg d)\<^sup>*\<^sup>* (?p1, s) (?p2, s)"
  proof (cases "pr_events p")
    case True
    then show ?thesis
      using events_end [of ?p1 cfg d s] assms(2) by auto
  next
    case False
    show ?thesis
      unfolding same [OF False] by (rule rtranclp.rtrancl_refl)
  qed
  also have "(run_step cfg d)\<^sup>*\<^sup>* (?p2, s) (?p2\<lparr>pr_result := Some (join_errors (pr_errs p))\<rparr>, s)"
    using run_returns [of ?p2] assms by auto
  finally show ?thesis by simp
qed

text \<open>
  C28: the process stops on a signal and not before. Until a signal came both loops run and \<open>run\<close> has
  not returned, even when the API is gone; at any moment a signal lets it come to an end with the
  system as it is, no further tick or request being needed; and what \<open>run\<close> returns is nothing but
  the one error the API left, or none.
\<close>

theorem process_ends_by_signal:
  assumes "process_reachable unix cfg d s0 (p, s)"
  shows "(\<not> pr_signalled p \<longrightarrow> pr_reaper p \<and> pr_events p \<and> pr_result p = None)
    \<and> (pr_result p = None \<longrightarrow>
        (\<exists>p'. (run_step cfg d)\<^sup>*\<^sup>* (p\<lparr>pr_signalled := True\<rparr>, s) (p', s) \<and> pr_result p' = Some (join_errors (pr_errs p'))))
    \<and> (\<forall>r. pr_result p = Some r \<longrightarrow> (r = None \<longleftrightarrow> pr_errs p = []) \<and> length (pr_errs p) \<le> 1)"
proof -
  have inv: "orderly (p, s)"
    by (rule process.reachable_inv [OF assms])
  have "\<exists>p'. (run_step cfg d)\<^sup>*\<^sup>* (p\<lparr>pr_signalled := True\<rparr>, s) (p', s) \<and> pr_result p' = Some (join_errors (pr_errs p'))"
    if n: "pr_result p = None"
  proof -
    let ?p = "p\<lparr>pr_signalled := True\<rparr>"
    obtain p1 where p1: "(run_step cfg d)\<^sup>*\<^sup>* (?p, s) (p1, s)" "pr_serve p1 = None" "pr_signalled p1" "pr_result p1 = None"
    proof (cases "pr_serve p")
      case None
      with n that show thesis by fastforce
    next
      case (Some prog)
      then obtain r where "(run_step cfg d)\<^sup>*\<^sup>* (?p, s) (api_returned r ?p, s)"
        using serve_ends [of ?p prog cfg d s] by auto
      with n that show thesis by (fastforce simp: api_returned_def)
    qed
    show ?thesis
      using rtranclp_trans [OF p1(1) loops_end [OF p1(2-4)]] by fastforce
  qed
  with inv show ?thesis
    by (auto simp: orderly_def Let_def join_errors_def)
qed

text \<open>
  C37: a daemon that is refused the process lock works on. If another daemon holds the lock, the API
  of this one ends with its error, but \<open>run\<close> does not return it: the reaper and the event loop stay
  up, on the same database as the other daemon's, until a signal comes, however long that takes.
\<close>

theorem refused_daemon_works_on:
  "\<exists>p. process_reachable True cfg d s0 (p, s0) \<and> pr_serve p = None \<and> \<not> pr_signalled p
    \<and> pr_errs p = [wrapf ''control api: '' (wrapf ''api: '' (wrapf (''acquiring process lock ''
        @ SocketPath (cfg_Server cfg) @ ''.lock'' @ '': another ramifyd instance is already running: '') err))]
    \<and> (\<forall>p' s'. (run_step cfg d)\<^sup>*\<^sup>* (p, s0) (p', s') \<longrightarrow> \<not> pr_signalled p'
        \<longrightarrow> pr_reaper p' \<and> pr_events p' \<and> pr_result p' = None)"
proof -
  let ?p0 = "goroutines True cfg"
  let ?e = "wrapf ''api: '' (wrapf (''acquiring process lock '' @ SocketPath (cfg_Server cfg) @ ''.lock''
        @ '': another ramifyd instance is already running: '') err)"
  define serve where "serve = (\<lambda>x. ?p0\<lparr>pr_serve := Some x\<rparr>)"
  have calls: "process_reachable True cfg d s0 (serve (k r), s0)"
    if "process_reachable True cfg d s0 (serve (Sys c k), s0)" "c \<noteq> AwaitDone" for c k r
    using reachable.advance [OF that(1) api_calls [of "serve (Sys c k)" c k]] that(2) by (simp add: serve_def)
  let ?R = "\<lambda>prog. process_reachable True cfg d s0 (serve prog, s0)"
  have ok: "?R prog" and refused: "?R (fail e)" if "?R (sys_or c fail prog)" "c \<noteq> AwaitDone" for c fail prog e
    using calls [OF that [unfolded sys_or_def], of None] calls [OF that [unfolded sys_or_def], of "Some e"] by simp_all
  have ignored: "?R prog" if "?R (sys_ignore c prog)" "c \<noteq> AwaitDone" for c prog
    using calls [OF that [unfolded sys_ignore_def]] by simp
  have "?R (Serve True (SocketPath (cfg_Server cfg)) (TCPAddr (cfg_Server cfg)))"
    by (rule reachable.start) (simp add: serve_def goroutines_def)
  from ignored [OF refused [OF ok [OF this [unfolded Serve_def acquireProcessLock_def if_True]], where e = err]]
  have "?R (Done (Some ?e))"
    by simp
  then have r: "process_reachable True cfg d s0 (api_returned (Some ?e) (serve (Done (Some ?e))), s0)"
    by (rule reachable.advance) (rule api_returns, simp add: serve_def)
  define p where "p = api_returned (Some ?e) (serve (Done (Some ?e)))"
  have p: "process_reachable True cfg d s0 (p, s0)" "pr_serve p = None" "\<not> pr_signalled p"
      "pr_errs p = [wrapf ''control api: '' ?e]"
    using r unfolding p_def by (simp_all add: api_returned_def serve_def goroutines_def)
  have later: "process_reachable True cfg d s0 ps" if "(run_step cfg d)\<^sup>*\<^sup>* (p, s0) ps" for ps
    using that p(1) by (induction rule: rtranclp_induct) (blast intro: reachable.advance)+
  have "pr_reaper p' \<and> pr_events p' \<and> pr_result p' = None"
    if "(run_step cfg d)\<^sup>*\<^sup>* (p, s0) (p', s')" "\<not> pr_signalled p'" for p' s'
    using process.reachable_inv [OF later [OF that(1)]] that(2) by (auto simp: orderly_def Let_def)
  with p show ?thesis
    by blast
qed

section \<open>An example\<close>

lemma ex_bootE:
  obtains cfg d s0 where
    "run_state (run_boot ex_load (\<lambda>_. ret None) ex_tp ex_host ''g1'') ex_outer = (Inr (cfg, d), s0)"
proof -
  obtain cfg b d s0 where "ex_load ''g1'' = Inr cfg" "run_state (run_start ex_tp ex_host cfg) ex_outer = (Inr d, s0)"
    by (rule ex_startsE)
  then show thesis
    by (intro that [of cfg d s0]) (simp add: run_boot_def run_if_err run_on_err)
qed

theorem process_refines_daemon_witness:
  "\<exists>cfg d s0. run_state (run_boot ex_load (\<lambda>_. ret None) ex_tp ex_host ''g1'') ex_outer = (Inr (cfg, d), s0)
     \<and> db_wf (db (snd (run_state (reaper_tick (dm_reaper d)) s0)))"
proof -
  obtain cfg d s0 where b: "run_state (run_boot ex_load (\<lambda>_. ret None) ex_tp ex_host ''g1'') ex_outer = (Inr (cfg, d), s0)"
    by (rule ex_bootE)
  have o: "daemon_start empty_database s1" if "run_state (ret None) ex_outer = (None, s1)" for s1
    using that ex_outer_start by simp
  have "process_reachable True cfg d s0 (goroutines True cfg, snd (run_state (reaper_tick (dm_reaper d)) s0))"
    by (rule reachable.advance [where s = "(goroutines True cfg, s0)"])
      (simp_all add: goroutines_def reachable.start reaper_ticks)
  from process_refines_daemon [OF b o this] b show ?thesis
    by blast
qed

theorem process_ends_by_signal_witness:
  "\<exists>cfg d s0 p. run_state (run_boot ex_load (\<lambda>_. ret None) ex_tp ex_host ''g1'') ex_outer = (Inr (cfg, d), s0)
     \<and> (run_step cfg d)\<^sup>*\<^sup>* ((goroutines True cfg)\<lparr>pr_signalled := True\<rparr>, s0) (p, s0) \<and> pr_result p \<noteq> None"
proof -
  obtain cfg d s0 where b: "run_state (run_boot ex_load (\<lambda>_. ret None) ex_tp ex_host ''g1'') ex_outer = (Inr (cfg, d), s0)"
    by (rule ex_bootE)
  have "process_reachable True cfg d s0 (goroutines True cfg, s0)"
    by (rule reachable.start) simp
  from process_ends_by_signal [OF this] b show ?thesis
    by (fastforce simp: goroutines_def)
qed

theorem refused_daemon_works_on_witness:
  "\<exists>cfg d s0 p. run_state (run_boot ex_load (\<lambda>_. ret None) ex_tp ex_host ''g1'') ex_outer = (Inr (cfg, d), s0)
     \<and> process_reachable True cfg d s0 (p, s0) \<and> pr_serve p = None \<and> pr_reaper p \<and> pr_events p \<and> pr_result p = None"
proof -
  obtain cfg d s0 where b: "run_state (run_boot ex_load (\<lambda>_. ret None) ex_tp ex_host ''g1'') ex_outer = (Inr (cfg, d), s0)"
    by (rule ex_bootE)
  with refused_daemon_works_on [of cfg s0 d "Opaque ''resource temporarily unavailable''"] show ?thesis
    by blast
qed

end
