(* ===== verification/Migrations.thy ===== *)
theory Migrations
  imports Ramify_System Program_Logic Go_Text Go_Path
begin

text \<open>
  \<open>internal/store/migrate.go\<close> with the scripts it embeds, and \<open>Open\<close> and \<open>Backup\<close> of \<open>sqlite.go\<close>:
  how the database comes to have the tables that the statements of the store name. A script is the
  list of its statements; the driver may fail at every statement, begin and commit.
\<close>

section \<open>The schema\<close>

text \<open>
  A column is its name and its declaration; \<open>td_unique\<close> lists the \<open>UNIQUE\<close> constraints of a table. An
  index without a \<open>WHERE\<close> has an empty \<open>ix_where\<close>.
\<close>

type_synonym column = "string \<times> string"

record table_def =
  td_columns :: "column list"
  td_unique :: "string list list"

record index_def =
  ix_name :: string
  ix_unique :: bool
  ix_table :: string
  ix_columns :: "string list"
  ix_where :: string

datatype ddl =
    CreateTable string table_def
  | AddColumn string column
  | CreateIndex bool index_def

record schema =
  sc_tables :: "(string \<times> table_def) list"
  sc_indexes :: "index_def list"

definition column_names :: "table_def \<Rightarrow> string list" where
  "column_names td = map fst (td_columns td)"

definition exec_ddl :: "ddl \<Rightarrow> schema \<Rightarrow> error + schema" where
  "exec_ddl stmt sc =
     (case stmt of
        CreateTable t td \<Rightarrow>
          (case map_of (sc_tables sc) t of
             Some _ \<Rightarrow> Inl (Opaque (''table '' @ t @ '' already exists''))
           | None \<Rightarrow> Inr (sc\<lparr>sc_tables := sc_tables sc @ [(t, td)]\<rparr>))
      | AddColumn t col \<Rightarrow>
          (case map_of (sc_tables sc) t of
             None \<Rightarrow> Inl (Opaque (''no such table: '' @ t))
           | Some td \<Rightarrow>
               if fst col \<in> set (column_names td) then Inl (Opaque (''duplicate column name: '' @ fst col))
               else Inr (sc\<lparr>sc_tables := map (\<lambda>(n, d).
                      (n, if n = t then d\<lparr>td_columns := td_columns d @ [col]\<rparr> else d)) (sc_tables sc)\<rparr>))
      | CreateIndex if_not_exists i \<Rightarrow>
          if ix_name i \<in> set (map ix_name (sc_indexes sc)) then
            (if if_not_exists then Inr sc else Inl (Opaque (''index '' @ ix_name i @ '' already exists'')))
          else (case map_of (sc_tables sc) (ix_table i) of
             None \<Rightarrow> Inl (Opaque (''no such table: '' @ ix_table i))
           | Some td \<Rightarrow>
               if set (ix_columns i) \<subseteq> set (column_names td) then Inr (sc\<lparr>sc_indexes := sc_indexes sc @ [i]\<rparr>)
               else Inl (Opaque ''no such column'')))"

fun exec_script :: "ddl list \<Rightarrow> schema \<Rightarrow> error + schema" where
  "exec_script [] sc = Inr sc"
| "exec_script (stmt # rest) sc =
     (case exec_ddl stmt sc of Inl err \<Rightarrow> Inl err | Inr sc' \<Rightarrow> exec_script rest sc')"

section \<open>The embedded scripts\<close>

text \<open>The default of a text column added later, the empty string of SQL.\<close>

definition text_default :: string where
  "text_default = ''TEXT NOT NULL DEFAULT '' @ [CHR 0x27, CHR 0x27]"

definition init_sql :: "ddl list" where
  "init_sql =
     [CreateTable ''environments''
        \<lparr>td_columns =
          [(''id'', ''TEXT PRIMARY KEY''),
           (''project'', ''TEXT NOT NULL''),
           (''branch'', ''TEXT NOT NULL''),
           (''pr_number'', ''INTEGER''),
           (''subdomain'', ''TEXT NOT NULL''),
           (''artifact_ref'', ''TEXT NOT NULL''),
           (''deploy_ref'', ''TEXT''),
           (''status'', ''TEXT NOT NULL''),
           (''pinned'', ''INTEGER NOT NULL DEFAULT 0''),
           (''ttl_expires_at'', ''DATETIME''),
           (''created_at'', ''DATETIME NOT NULL''),
           (''updated_at'', ''DATETIME NOT NULL'')],
         td_unique = [[''project'', ''branch'']]\<rparr>,
      CreateTable ''dns_records''
        \<lparr>td_columns =
          [(''id'', ''TEXT PRIMARY KEY''),
           (''environment_id'', ''TEXT NOT NULL REFERENCES environments(id) ON DELETE CASCADE''),
           (''record_type'', ''TEXT NOT NULL''),
           (''name'', ''TEXT NOT NULL''),
           (''value'', ''TEXT NOT NULL''),
           (''ownership_tag'', ''TEXT NOT NULL''),
           (''created_at'', ''DATETIME NOT NULL'')],
         td_unique = []\<rparr>,
      CreateTable ''events''
        \<lparr>td_columns =
          [(''id'', ''TEXT PRIMARY KEY''),
           (''environment_id'', ''TEXT REFERENCES environments(id) ON DELETE SET NULL''),
           (''kind'', ''TEXT NOT NULL''),
           (''payload'', ''TEXT NOT NULL''),
           (''processed_at'', ''DATETIME''),
           (''created_at'', ''DATETIME NOT NULL'')],
         td_unique = []\<rparr>,
      CreateIndex False \<lparr>ix_name = ''idx_dns_records_environment_id'', ix_unique = False, ix_table = ''dns_records'',
        ix_columns = [''environment_id''], ix_where = []\<rparr>,
      CreateIndex False \<lparr>ix_name = ''idx_events_environment_id'', ix_unique = False, ix_table = ''events'',
        ix_columns = [''environment_id''], ix_where = []\<rparr>,
      CreateIndex False \<lparr>ix_name = ''idx_events_unprocessed'', ix_unique = False, ix_table = ''events'',
        ix_columns = [''processed_at''], ix_where = ''processed_at IS NULL''\<rparr>]"

definition operational_sql :: "ddl list" where
  "operational_sql =
     [AddColumn ''events'' (''dedupe_key'', ''TEXT''),
      CreateIndex True \<lparr>ix_name = ''idx_events_kind_dedupe'', ix_unique = True, ix_table = ''events'',
        ix_columns = [''kind'', ''dedupe_key''], ix_where = ''dedupe_key IS NOT NULL''\<rparr>,
      CreateIndex True \<lparr>ix_name = ''idx_environments_ttl'', ix_unique = False, ix_table = ''environments'',
        ix_columns = [''pinned'', ''ttl_expires_at''], ix_where = []\<rparr>,
      CreateIndex True \<lparr>ix_name = ''idx_events_kind_processed'', ix_unique = False, ix_table = ''events'',
        ix_columns = [''kind'', ''processed_at''], ix_where = []\<rparr>]"

definition event_retries_sql :: "ddl list" where
  "event_retries_sql =
     [AddColumn ''events'' (''attempts'', ''INTEGER NOT NULL DEFAULT 0''),
      AddColumn ''events'' (''next_attempt_at'', ''DATETIME''),
      AddColumn ''events'' (''last_error'', text_default),
      CreateIndex True \<lparr>ix_name = ''idx_events_due'', ix_unique = False, ix_table = ''events'',
        ix_columns = [''processed_at'', ''next_attempt_at'', ''created_at''], ix_where = []\<rparr>]"

definition event_dead_letter_sql :: "ddl list" where
  "event_dead_letter_sql =
     [AddColumn ''events'' (''dead_lettered_at'', ''DATETIME''),
      CreateIndex True \<lparr>ix_name = ''idx_events_dead_lettered'', ix_unique = False, ix_table = ''events'',
        ix_columns = [''dead_lettered_at'', ''created_at''], ix_where = []\<rparr>]"

definition last_known_good_sql :: "ddl list" where
  "last_known_good_sql =
     [AddColumn ''environments'' (''last_good_artifact_ref'', text_default),
      AddColumn ''environments'' (''last_good_deploy_ref'', text_default)]"

text \<open>A directory entry: its name, whether it is a directory, and its statements.\<close>

type_synonym embedded = "(string \<times> bool \<times> ddl list) list"

definition migrationFS :: embedded where
  "migrationFS =
     [(''0001_init.sql'', False, init_sql), (''0002_operational.sql'', False, operational_sql),
      (''0003_event_retries.sql'', False, event_retries_sql), (''0004_event_dead_letter.sql'', False, event_dead_letter_sql),
      (''0005_last_known_good.sql'', False, last_known_good_sql)]"

section \<open>Applying them\<close>

text \<open>\<open>mg_applied\<close> is the table \<open>schema_migrations\<close>, once it exists.\<close>

record 'w migration_db =
  mg_ext :: 'w
  mg_schema :: schema
  mg_applied :: "string list option"

definition mig_sql :: "'w runtime \<Rightarrow> ('w migration_db, error option) state" where
  "mig_sql rt = State (\<lambda>s. case run_state (rt_sql rt) (mg_ext s) of (e, w) \<Rightarrow> (e, s\<lparr>mg_ext := w\<rparr>))"

definition applied_names :: "'w migration_db \<Rightarrow> string list" where
  "applied_names s = (case mg_applied s of None \<Rightarrow> [] | Some ns \<Rightarrow> ns)"

abbreviation mig_fails :: "string \<Rightarrow> error \<Rightarrow> ('w migration_db, error option) state" where
  "mig_fails p err \<equiv> ret (Some (wrapf p err))"

text \<open>One script in one transaction: nothing of it is kept before the commit.\<close>

definition migrate_one :: "'w runtime \<Rightarrow> string \<Rightarrow> ddl list \<Rightarrow> ('w migration_db, error option) state" where
  "migrate_one rt name contents =
     if_err (mig_sql rt) (mig_fails (''beginning transaction for migration '' @ name @ '': ''))
       (if_err (mig_sql rt) (mig_fails (''applying migration '' @ name @ '': ''))
          (do { s \<leftarrow> get_state;
                case exec_script contents (mg_schema s) of
                  Inl err \<Rightarrow> mig_fails (''applying migration '' @ name @ '': '') err
                | Inr sc \<Rightarrow>
                    if_err (mig_sql rt) (mig_fails (''recording migration '' @ name @ '': ''))
                      (if name \<in> set (applied_names s) then
                         mig_fails (''recording migration '' @ name @ '': '') (Opaque ''UNIQUE constraint failed'')
                       else if_err (mig_sql rt) (mig_fails (''committing migration '' @ name @ '': ''))
                         (do { modify_state (\<lambda>s'. s'\<lparr>mg_schema := sc, mg_applied := Some (applied_names s @ [name])\<rparr>);
                               ret None })) }))"

fun migrate_all :: "'w runtime \<Rightarrow> embedded \<Rightarrow> string list \<Rightarrow> ('w migration_db, error option) state" where
  "migrate_all rt fs [] = ret None"
| "migrate_all rt fs (name # rest) =
     if_err (mig_sql rt) (mig_fails (''checking migration '' @ name @ '': ''))
       (do { s \<leftarrow> get_state;
             if name \<in> set (applied_names s) then migrate_all rt fs rest
             else (case map_of fs name of
                 None \<Rightarrow> mig_fails (''reading migration '' @ name @ '': '') (Opaque ''file does not exist'')
               | Some (_, contents) \<Rightarrow>
                   if_err (migrate_one rt name contents) (\<lambda>err. ret (Some err)) (migrate_all rt fs rest)) })"

definition migration_names :: "embedded \<Rightarrow> string list" where
  "migration_names fs = sort [n. (n, is_dir, _) \<leftarrow> fs, \<not> is_dir \<and> HasSuffix n ''.sql'']"

definition applyMigrations :: "'w runtime \<Rightarrow> embedded \<Rightarrow> ('w migration_db, error option) state" where
  "applyMigrations rt fs =
     if_err (mig_sql rt) (mig_fails ''creating schema_migrations table: '')
       (do { modify_state (\<lambda>s. s\<lparr>mg_applied := Some (applied_names s)\<rparr>);
             migrate_all rt fs (migration_names fs) })"

text \<open>The connection, the two pragmas and the migrations; a database that fails is closed again.\<close>

definition Open :: "'w runtime \<Rightarrow> embedded \<Rightarrow> string \<Rightarrow> ('w migration_db, error option) state" where
  "Open rt fs path =
     if_err (mig_sql rt) (mig_fails (''opening sqlite database '' @ path @ '': ''))
       (if_err (mig_sql rt) (mig_fails (''enabling foreign keys on '' @ path @ '': ''))
         (if_err (mig_sql rt) (mig_fails (''setting sqlite busy timeout on '' @ path @ '': ''))
            (if_err (applyMigrations rt fs) (mig_fails (''migrating sqlite database '' @ path @ '': '')) (ret None))))"

section \<open>Backup\<close>

record 'w backup_os =
  bo_Stat :: "string \<Rightarrow> ('w, error option) state"
  bo_IsNotExist :: "error \<Rightarrow> bool"
  bo_MkdirAll :: "string \<Rightarrow> ('w, error option) state"
  bo_VacuumInto :: "string \<Rightarrow> ('w, error option) state"
  bo_Chmod :: "string \<Rightarrow> ('w, error option) state"

definition Backup :: "'w backup_os \<Rightarrow> string \<Rightarrow> ('w, error option) state" where
  "Backup os path =
     (if TrimSpace path = [] then ret (Some (Opaque ''backing up sqlite database: empty destination path''))
      else do {
        st \<leftarrow> bo_Stat os path;
        case st of
          None \<Rightarrow> ret (Some (Opaque (''backing up sqlite database: destination already exists: '' @ path)))
        | Some err \<Rightarrow>
            if \<not> bo_IsNotExist os err then ret (Some (wrapf (''checking backup destination '' @ path @ '': '') err))
            else if_err (bo_MkdirAll os (path_Dir path)) (\<lambda>err. ret (Some (wrapf ''creating backup directory: '' err)))
              (if_err (bo_VacuumInto os path)
                 (\<lambda>err. ret (Some (wrapf (''backing up sqlite database to '' @ path @ '': '') err)))
                 (if_err (bo_Chmod os path)
                    (\<lambda>err. ret (Some (wrapf (''securing sqlite backup '' @ path @ '': '') err))) (ret None))) })"

end
