(* ===== verification/Migration_Theorems.thy ===== *)
theory Migration_Theorems
  imports Migrations Transition_System
begin

text \<open>
  The schema over the life of a database file: however often it is opened and wherever an opening is
  cut short, the scripts are applied in order, each once and whole.
\<close>

section \<open>The invariant\<close>

text \<open>The scripts of some names, one after the other.\<close>

fun exec_scripts :: "embedded \<Rightarrow> string list \<Rightarrow> schema \<Rightarrow> error + schema" where
  "exec_scripts fs [] sc = Inr sc"
| "exec_scripts fs (n # ns) sc =
     (case map_of fs n of
        None \<Rightarrow> Inl (Opaque [])
      | Some (_, contents) \<Rightarrow>
          (case exec_script contents sc of Inl err \<Rightarrow> Inl err | Inr sc' \<Rightarrow> exec_scripts fs ns sc'))"

lemma exec_scripts_append:
  "exec_scripts fs (ms @ ns) sc = (case exec_scripts fs ms sc of Inl err \<Rightarrow> Inl err | Inr sc' \<Rightarrow> exec_scripts fs ns sc')"
  by (induction ms arbitrary: sc) (auto split: option.splits sum.splits)

definition empty_schema :: schema where
  "empty_schema = \<lparr>sc_tables = [], sc_indexes = []\<rparr>"

text \<open>The first \<open>k\<close> scripts are applied and recorded, and nothing else.\<close>

definition migrated_to :: "embedded \<Rightarrow> nat \<Rightarrow> 'w migration_db \<Rightarrow> bool" where
  "migrated_to fs k s \<longleftrightarrow> k \<le> length (migration_names fs) \<and> applied_names s = take k (migration_names fs)
     \<and> exec_scripts fs (take k (migration_names fs)) empty_schema = Inr (mg_schema s)"

definition same_schema :: "'w migration_db \<Rightarrow> 'w migration_db \<Rightarrow> bool" where
  "same_schema s s' \<longleftrightarrow> mg_schema s' = mg_schema s \<and> applied_names s' = applied_names s"

text \<open>A driver that never fails.\<close>

definition sound_driver :: "'w runtime \<Rightarrow> bool" where
  "sound_driver rt \<longleftrightarrow> (\<forall>w. fst (run_state (rt_sql rt) w) = None)"

lemma wp_mig_sql: "(\<And>r w. (sound_driver rt \<Longrightarrow> r = None) \<Longrightarrow> Q r (s\<lparr>mg_ext := w\<rparr>)) \<Longrightarrow> wp (mig_sql rt) Q s"
  by (rule wpI) (auto simp: mig_sql_def sound_driver_def split: prod.splits, metis fst_conv)

lemma wp_sql_err:
  assumes "\<And>e w. \<not> sound_driver rt \<Longrightarrow> wp (h e) Q (s\<lparr>mg_ext := w\<rparr>)" and "\<And>w. wp k Q (s\<lparr>mg_ext := w\<rparr>)"
  shows "wp (if_err (mig_sql rt) h k) Q s"
  unfolding wp_if_err by (rule wp_mig_sql) (use assms in \<open>auto split: option.splits\<close>)

lemma applied_names_simps [simp]:
  "applied_names (s\<lparr>mg_ext := w\<rparr>) = applied_names s" "applied_names (s\<lparr>mg_schema := sc\<rparr>) = applied_names s"
  "applied_names (s\<lparr>mg_applied := Some ns\<rparr>) = ns"
  by (simp_all add: applied_names_def)

text \<open>One script is applied and recorded, or nothing changes.\<close>

lemma wp_migrate_one:
  assumes "name \<notin> set (applied_names s)"
  shows "wp (migrate_one rt name contents)
     (\<lambda>r s'. case r of
         Some _ \<Rightarrow> same_schema s s' \<and> (sound_driver rt \<longrightarrow> (\<exists>err. exec_script contents (mg_schema s) = Inl err))
       | None \<Rightarrow> exec_script contents (mg_schema s) = Inr (mg_schema s') \<and> applied_names s' = applied_names s @ [name]) s"
  unfolding migrate_one_def
  by (intro wp_sql_err) (auto simp: wp_bind wp_get_state wp_modify_state wp_ret same_schema_def assms split: sum.splits intro!: wp_sql_err)

text \<open>Where the scripts as such succeed and the driver is sound, so does the loop.\<close>

definition progress :: "'w runtime \<Rightarrow> embedded \<Rightarrow> nat \<Rightarrow> error option \<Rightarrow> 'w migration_db \<Rightarrow> bool" where
  "progress rt fs k r s' \<longleftrightarrow> (\<exists>k' \<ge> k. migrated_to fs k' s' \<and> (r = None \<longrightarrow> k' = length (migration_names fs)))
     \<and> (sound_driver rt \<longrightarrow> (\<exists>sc. exec_scripts fs (migration_names fs) empty_schema = Inr sc) \<longrightarrow> r = None)"

lemma progress_weaken:
  assumes "progress rt fs (Suc k) r s'"
  shows "progress rt fs k r s'"
proof -
  obtain k' where "Suc k \<le> k'" "migrated_to fs k' s'" "r = None \<longrightarrow> k' = length (migration_names fs)"
    using assms unfolding progress_def by blast
  then have "\<exists>k' \<ge> k. migrated_to fs k' s' \<and> (r = None \<longrightarrow> k' = length (migration_names fs))"
    by (intro exI [of _ k']) simp
  with assms show ?thesis
    unfolding progress_def by blast
qed

lemma progress_stays:
  "migrated_to fs k s \<Longrightarrow> \<not> sound_driver rt \<or> (\<forall>sc. exec_scripts fs (migration_names fs) empty_schema \<noteq> Inr sc)
    \<Longrightarrow> progress rt fs k (Some e) s"
  unfolding progress_def by blast

text \<open>Where the loop stands: a name is recorded exactly if it lies before the frontier.\<close>

lemma recorded_iff:
  assumes "distinct (migration_names fs)" "migration_names fs = before @ name # rest" "length before \<le> k" "migrated_to fs k s"
  shows "name \<in> set (applied_names s) \<longleftrightarrow> length before < k"
proof -
  have n: "migration_names fs ! length before = name" "length before < length (migration_names fs)"
    using assms(2) by simp_all
  have "name \<in> set (take k (migration_names fs))" if "length before < k"
    using that n by (metis in_set_conv_nth length_take min_less_iff_conj nth_take)
  moreover have "name \<notin> set (take k (migration_names fs))" if "\<not> length before < k"
    using that assms(1-3) by simp
  ultimately show ?thesis
    using assms(4) by (auto simp: migrated_to_def)
qed

lemma frontier_fails:
  assumes "migration_names fs = before @ name # rest" "migrated_to fs (length before) s"
    and "map_of fs name = None \<or> (\<exists>d contents err. map_of fs name = Some (d, contents) \<and> exec_script contents (mg_schema s) = Inl err)"
  shows "exec_scripts fs (migration_names fs) empty_schema \<noteq> Inr sc"
  using assms by (auto simp: migrated_to_def exec_scripts_append)

lemma wp_migrate_frontier:
  assumes names: "migration_names fs = before @ name # rest" and t: "migrated_to fs (length before) t"
    and new: "name \<notin> set (applied_names t)" and f: "map_of fs name = Some (d, contents)"
    and rest: "\<And>u. migrated_to fs (Suc (length before)) u
      \<Longrightarrow> wp (migrate_all rt fs rest) (progress rt fs (Suc (length before))) u"
  shows "wp (if_err (migrate_one rt name contents) (\<lambda>err. ret (Some err)) (migrate_all rt fs rest))
     (progress rt fs (length before)) t"
proof (rule wp_if_errI [OF wp_migrate_one [OF new]], goal_cases)
  case (1 e u)
  then have "migrated_to fs (length before) u"
    using t by (simp add: same_schema_def migrated_to_def)
  moreover have "\<not> sound_driver rt \<or> (\<forall>sc. exec_scripts fs (migration_names fs) empty_schema \<noteq> Inr sc)"
    using 1 frontier_fails [OF names t] f by auto
  ultimately show ?case
    by (simp add: wp_ret progress_stays)
next
  case (2 u)
  then have "migrated_to fs (Suc (length before)) u"
    using t f names by (simp add: migrated_to_def exec_scripts_append)
  from rest [OF this] show ?case
    by (rule wp_mono) (rule progress_weaken)
qed

lemma wp_migrate_all:
  assumes "distinct (migration_names fs)" "migration_names fs = before @ rest" "length before \<le> k" "migrated_to fs k s"
  shows "wp (migrate_all rt fs rest) (progress rt fs k) s"
  using assms(2-4)
proof (induction rest arbitrary: before k s)
  case Nil
  then have "k = length (migration_names fs)"
    by (simp add: migrated_to_def)
  with Nil show ?case
    by (auto simp: wp_ret progress_def)
next
  case (Cons name rest)
  have rest: "wp (migrate_all rt fs rest) (progress rt fs j) u" if "migrated_to fs j u" "length before < j" for j u
    by (rule Cons.IH [of "before @ [name]"]) (use that Cons.prems(1) in simp_all)
  have step: "wp (if name \<in> set (applied_names t) then migrate_all rt fs rest
             else (case map_of fs name of
                 None \<Rightarrow> mig_fails (''reading migration '' @ name @ '': '') (Opaque ''file does not exist'')
               | Some (_, contents) \<Rightarrow>
                   if_err (migrate_one rt name contents) (\<lambda>err. ret (Some err)) (migrate_all rt fs rest)))
     (progress rt fs k) t"
    if t: "migrated_to fs k t" for t
  proof (cases "name \<in> set (applied_names t)")
    case True
    then show ?thesis
      using rest [OF t] recorded_iff [OF assms(1) Cons.prems(1,2) t] by simp
  next
    case False
    then have k: "k = length before"
      using recorded_iff [OF assms(1) Cons.prems(1,2) t] Cons.prems(2) by simp
    show ?thesis
    proof (cases "map_of fs name")
      case None
      then show ?thesis
        using False t frontier_fails [OF Cons.prems(1) t [unfolded k]] by (simp add: wp_ret progress_stays)
    next
      case (Some f)
      then obtain d contents where f: "map_of fs name = Some (d, contents)" by (cases f) auto
      show ?thesis
        using False wp_migrate_frontier [OF Cons.prems(1) t [unfolded k] False f rest] by (simp add: f k)
    qed
  qed
  have m: "migrated_to fs k (s\<lparr>mg_ext := w\<rparr>)" for w
    using Cons.prems(3) by (simp add: migrated_to_def)
  show ?case
    unfolding migrate_all.simps
  proof (rule wp_sql_err, goal_cases)
    case (1 e w)
    then show ?case using m [of w] by (simp add: wp_ret progress_stays)
  next
    case (2 w)
    show ?case unfolding wp_bind wp_get_state by (rule step [OF m])
  qed
qed

section \<open>Openings\<close>

text \<open>A database file that is new, and one opening of it, after which the driver is as it may be.\<close>

definition new_file :: "'w migration_db \<Rightarrow> bool" where
  "new_file s \<longleftrightarrow> mg_schema s = empty_schema \<and> mg_applied s = None"

inductive reopens :: "'w runtime \<Rightarrow> embedded \<Rightarrow> string \<Rightarrow> 'w migration_db \<Rightarrow> 'w migration_db \<Rightarrow> bool" for rt fs path where
  opened: "reopens rt fs path s ((snd (run_state (Open rt fs path) s))\<lparr>mg_ext := w\<rparr>)"

lemma wp_Open:
  assumes "distinct (migration_names fs)" "migrated_to fs k s"
  shows "wp (Open rt fs path) (progress rt fs k) s"
proof -
  have m: "migrated_to fs k (s\<lparr>mg_ext := w\<rparr>)" for w
    using assms(2) by (simp add: migrated_to_def)
  have apply_rule: "wp (applyMigrations rt fs) (progress rt fs k) t" if t: "migrated_to fs k t" for t
  proof -
    have t': "migrated_to fs k (t\<lparr>mg_ext := w\<rparr>)" "migrated_to fs k (t\<lparr>mg_ext := w, mg_applied := Some (applied_names t)\<rparr>)" for w
      using t by (simp_all add: migrated_to_def)
    have all: "wp (migrate_all rt fs (migration_names fs)) (progress rt fs k) u" if "migrated_to fs k u" for u
      by (rule wp_migrate_all [OF assms(1), where before = "[]"]) (use that in simp_all)
    show ?thesis
      unfolding applyMigrations_def
      by (rule wp_sql_err) (use t' all in \<open>auto simp: wp_ret wp_bind wp_modify_state progress_stays\<close>)
  qed
  have tail: "wp (if_err (applyMigrations rt fs) (mig_fails (''migrating sqlite database '' @ path @ '': '')) (ret None))
      (progress rt fs k) t" if "migrated_to fs k t" for t
    by (rule wp_if_errI [OF apply_rule [OF that]]) (auto simp: wp_ret progress_def)
  show ?thesis
    unfolding Open_def by (intro wp_sql_err tail) (use m in \<open>auto simp: wp_ret progress_stays\<close>)
qed

lemma opened_migrated:
  assumes "distinct (migration_names fs)" "reachable new_file (reopens rt fs path) s"
  shows "\<exists>k. migrated_to fs k s"
  using assms(2)
proof (induction rule: reachable.induct)
  case (start s)
  then show ?case
    by (intro exI [of _ 0]) (simp add: new_file_def migrated_to_def applied_names_def)
next
  case (advance s s')
  then obtain k where "migrated_to fs k s" by blast
  from wp_Open [OF assms(1) this, of rt path] advance(2) show ?case
    by (cases "run_state (Open rt fs path) s") (auto simp: wp_def progress_def migrated_to_def elim!: reopens.cases)
qed

text \<open>
  C15: Every migration is applied once, whole and in order. Whatever statements fail, and however
  many processes are cut short while they open the file, the scripts that are recorded are the first
  ones in the order of their names, and the schema is what exactly these leave of an empty database;
  an opening only goes forward, and one that succeeds has applied them all.
\<close>

theorem migrations_apply_once:
  assumes "distinct (migration_names fs)" and "reachable new_file (reopens rt fs path) s"
    and "run_state (Open rt fs path) s = (r, s')"
  shows "\<exists>k k'. k \<le> k' \<and> k' \<le> length (migration_names fs)
    \<and> applied_names s = take k (migration_names fs) \<and> applied_names s' = take k' (migration_names fs)
    \<and> exec_scripts fs (take k (migration_names fs)) empty_schema = Inr (mg_schema s)
    \<and> exec_scripts fs (take k' (migration_names fs)) empty_schema = Inr (mg_schema s')
    \<and> (r = None \<longrightarrow> applied_names s' = migration_names fs)"
proof -
  obtain k where k: "migrated_to fs k s"
    using opened_migrated [OF assms(1,2)] by blast
  obtain k' where "k \<le> k'" "migrated_to fs k' s'" "r = None \<longrightarrow> k' = length (migration_names fs)"
    using wpD [OF wp_Open [OF assms(1) k] assms(3)] unfolding progress_def by blast
  with k show ?thesis
    unfolding migrated_to_def by (intro exI [of _ k] exI [of _ k']) auto
qed

section \<open>The schema of the store\<close>

text \<open>The columns the statements of \<open>sqlite.go\<close> name.\<close>

definition environmentColumns :: "string list" where
  "environmentColumns =
     [''id'', ''project'', ''branch'', ''pr_number'', ''subdomain'', ''artifact_ref'', ''deploy_ref'', ''status'',
      ''last_good_artifact_ref'', ''last_good_deploy_ref'', ''pinned'', ''ttl_expires_at'', ''created_at'', ''updated_at'']"

definition eventColumns :: "string list" where
  "eventColumns =
     [''id'', ''environment_id'', ''kind'', ''dedupe_key'', ''payload'', ''processed_at'', ''created_at'', ''attempts'',
      ''next_attempt_at'', ''last_error'', ''dead_lettered_at'']"

definition dnsColumns :: "string list" where
  "dnsColumns = [''id'', ''environment_id'', ''record_type'', ''name'', ''value'', ''ownership_tag'', ''created_at'']"

text \<open>The table has these columns and no other.\<close>

definition has_columns :: "schema \<Rightarrow> string \<Rightarrow> string list \<Rightarrow> bool" where
  "has_columns sc t cols \<longleftrightarrow> (case map_of (sc_tables sc) t of None \<Rightarrow> False | Some td \<Rightarrow> distinct (column_names td) \<and> set (column_names td) = set cols)"

definition declares :: "schema \<Rightarrow> string \<Rightarrow> string \<Rightarrow> string \<Rightarrow> bool" where
  "declares sc t col decl \<longleftrightarrow>
     (case map_of (sc_tables sc) t of None \<Rightarrow> False | Some td \<Rightarrow> map_of (td_columns td) col = Some decl)"

text \<open>
  The constraints behind \<open>db_wf\<close>: the keys, one row per project and branch, one event
  per kind and delivery, and the references to the environment.
\<close>

definition guards_keys :: "schema \<Rightarrow> bool" where
  "guards_keys sc \<longleftrightarrow>
     list_all (\<lambda>t. declares sc t ''id'' ''TEXT PRIMARY KEY'') [''environments'', ''events'', ''dns_records'']
     \<and> (case map_of (sc_tables sc) ''environments'' of None \<Rightarrow> False | Some td \<Rightarrow> [''project'', ''branch''] \<in> set (td_unique td))
     \<and> list_ex (\<lambda>i. ix_unique i \<and> ix_table i = ''events'' \<and> ix_columns i = [''kind'', ''dedupe_key'']
          \<and> ix_where i = ''dedupe_key IS NOT NULL'') (sc_indexes sc)
     \<and> declares sc ''events'' ''environment_id'' ''TEXT REFERENCES environments(id) ON DELETE SET NULL''
     \<and> declares sc ''dns_records'' ''environment_id'' ''TEXT NOT NULL REFERENCES environments(id) ON DELETE CASCADE''"

definition serves_store :: "schema \<Rightarrow> bool" where
  "serves_store sc \<longleftrightarrow> has_columns sc ''environments'' environmentColumns \<and> has_columns sc ''events'' eventColumns
     \<and> has_columns sc ''dns_records'' dnsColumns \<and> guards_keys sc"

lemma migration_names_FS: "migration_names migrationFS = map fst migrationFS"
  by code_simp

lemma all_scripts: "case exec_scripts migrationFS (map fst migrationFS) empty_schema of Inl _ \<Rightarrow> False | Inr sc \<Rightarrow> serves_store sc"
  by code_simp

text \<open>
  C16: The store finds the columns it names. The embedded scripts fit together: opening a file that
  any number of openings have left behind succeeds whenever the driver does, and after an opening
  that succeeds the three tables have exactly the columns of the statements of the store, with the
  primary keys, the unique constraints and the references its operations count on.
\<close>

theorem schema_serves_store:
  assumes "reachable new_file (reopens rt migrationFS path) s" and "run_state (Open rt migrationFS path) s = (r, s')"
  shows "(sound_driver rt \<longrightarrow> r = None) \<and> (r = None \<longrightarrow> serves_store (mg_schema s'))"
proof -
  have d: "distinct (migration_names migrationFS)"
    unfolding migration_names_FS by code_simp
  obtain sc where sc: "exec_scripts migrationFS (migration_names migrationFS) empty_schema = Inr sc" "serves_store sc"
    using all_scripts unfolding migration_names_FS by (auto split: sum.splits)
  obtain k where "migrated_to migrationFS k s"
    using opened_migrated [OF d assms(1)] by blast
  from wpD [OF wp_Open [OF d this] assms(2)] sc show ?thesis
    by (auto simp: progress_def migrated_to_def)
qed

section \<open>Examples\<close>

text \<open>A driver whose twelfth call fails, and then one that does not.\<close>

definition ex_driver :: "nat runtime" where
  "ex_driver = \<lparr>rt_Now = ret 0, rt_rand_Read = ret (Inr []),
     rt_sql = State (\<lambda>n. (if n = 11 then Some (Opaque ''disk I/O error'') else None, n + 1)), rt_Int64N = (\<lambda>n. ret 0)\<rparr>"

definition ex_new :: "nat migration_db" where
  "ex_new = \<lparr>mg_ext = 0, mg_schema = empty_schema, mg_applied = None\<rparr>"

definition ex_reopened :: "nat migration_db" where
  "ex_reopened = (snd (run_state (Open ex_driver migrationFS ''ramify.db'') ex_new))\<lparr>mg_ext := 12\<rparr>"

lemma ex_reopened_reachable: "reachable new_file (reopens ex_driver migrationFS ''ramify.db'') ex_reopened"
  unfolding ex_reopened_def by (rule reachable.advance [where s = ex_new], rule reachable.start)
    (simp add: new_file_def ex_new_def, rule opened)

lemma ex_reopened_applied: "applied_names ex_reopened = [''0001_init.sql'']"
  by code_simp

lemma ex_opens: "fst (run_state (Open ex_driver migrationFS ''ramify.db'') ex_reopened) = None"
  by code_simp

theorem migrations_apply_once_witness:
  "applied_names (snd (run_state (Open ex_driver migrationFS ''ramify.db'') ex_reopened)) = migration_names migrationFS"
proof -
  have "distinct (migration_names migrationFS)"
    unfolding migration_names_FS by code_simp
  from migrations_apply_once [OF this ex_reopened_reachable prod.collapse [symmetric]] ex_opens show ?thesis
    by blast
qed

theorem schema_serves_store_witness:
  "serves_store (mg_schema (snd (run_state (Open ex_driver migrationFS ''ramify.db'') ex_reopened)))"
  using schema_serves_store [OF ex_reopened_reachable prod.collapse [symmetric]] ex_opens by blast

section \<open>Backups\<close>

text \<open>A backup is written only to a path at which the check found nothing.\<close>

lemma Backup_keeps_existing:
  "run_state (bo_Stat os path) w = (None, w') \<Longrightarrow> \<exists>e. run_state (Backup os path) w = (Some e, w') \<or> run_state (Backup os path) w = (Some e, w)"
  by (auto simp: Backup_def)

end
