(* ===== verification/Cli_Commands.thy ===== *)
theory Cli_Commands
  imports Cli_Client Config_Model Migrations
begin

text \<open>
  The commands of \<open>cmd/ramify\<close>: what each does once its flags are parsed. A command runs on the
  system its calls reach and on the terminal, whose lines are kept in order; a write to the terminal
  never fails. Flag parsing is the library's.
\<close>

section \<open>The terminal\<close>

record 's terminal =
  te_sys :: 's
  te_out :: "string list"

definition remote :: "('s, 'a) state \<Rightarrow> ('s terminal, 'a) state" where
  "remote m = State (\<lambda>t. case run_state m (te_sys t) of (a, s) \<Rightarrow> (a, t\<lparr>te_sys := s\<rparr>))"

text \<open>\<open>print.go\<close>: the error of a write is discarded.\<close>

definition printf :: "string \<Rightarrow> ('s terminal, unit) state" where
  "printf txt' = modify_state (\<lambda>t. t\<lparr>te_out := te_out t @ [txt']\<rparr>)"

definition newline :: string where
  "newline = [CHR 0x0A]"

definition printLine :: "string \<Rightarrow> ('s terminal, unit) state" where
  "printLine line = printf (line @ newline)"

lemma run_remote [simp]: "run_state (remote m) t = (case run_state m (te_sys t) of (a, s) \<Rightarrow> (a, t\<lparr>te_sys := s\<rparr>))"
  by (simp add: remote_def)

lemma run_printf [simp]: "run_state (printf x) t = ((), t\<lparr>te_out := te_out t @ [x]\<rparr>)"
  by (simp add: printf_def)

section \<open>Tables\<close>

text \<open>
  \<open>text/tabwriter\<close> with a padding of two blanks: a cell ends with a tab; a column is a run of
  consecutive lines that have a further cell after it, and all its cells are as wide as the widest
  of the run. The last cell of a line belongs to no column. Widths are counted in runes; a cell here
  holds no tab and no line break of its own.
\<close>

function RuneCount :: "string \<Rightarrow> nat" where
  "RuneCount s = (if s = [] then 0 else Suc (RuneCount (drop (snd (DecodeRune s)) s)))"
  by auto
termination
  using DecodeRune_width by (relation "measure length") auto

declare RuneCount.simps [simp del]

definition in_column :: "nat \<Rightarrow> string list \<Rightarrow> bool" where
  "in_column j cells \<longleftrightarrow> Suc j < length cells"

definition column_run :: "nat \<Rightarrow> string list list \<Rightarrow> nat \<Rightarrow> string list list" where
  "column_run j lines i =
     rev (takeWhile (in_column j) (rev (take i lines))) @ takeWhile (in_column j) (drop i lines)"

definition column_width :: "nat \<Rightarrow> string list list \<Rightarrow> nat \<Rightarrow> nat" where
  "column_width j lines i = 2 + fold max (map (\<lambda>cells. RuneCount (cells ! j)) (column_run j lines i)) 0"

definition format_line :: "string list list \<Rightarrow> nat \<Rightarrow> string" where
  "format_line lines i =
     (let cells = lines ! i
      in concat (map (\<lambda>j. if in_column j cells then cells ! j @ replicate (column_width j lines i - RuneCount (cells ! j)) (CHR '' '')
                         else cells ! j) [0..<length cells]) @ newline)"

definition tabwrite :: "string list list \<Rightarrow> string list" where
  "tabwrite lines = map (format_line lines) [0..<length lines]"

definition environment_cells :: "Environment \<Rightarrow> string list" where
  "environment_cells e =
     [env_ID e, env_Project e, env_Branch e, env_Status e, env_Subdomain e, env_ArtifactRef e]"

definition environment_table :: "Environment list \<Rightarrow> string list" where
  "environment_table envs =
     tabwrite ([''ID'', ''PROJECT'', ''BRANCH'', ''STATUS'', ''SUBDOMAIN'', ''ARTIFACT''] # map environment_cells envs)"

definition printEnvironmentTable :: "Environment list \<Rightarrow> ('s terminal, error option) state" where
  "printEnvironmentTable envs = do { run_each printf (environment_table envs); ret None }"

section \<open>The client of a command\<close>

text \<open>
  The transport of an HTTP client: the Unix socket it dials instead of the host of the URL, if any,
  and the base of its URLs. An address given by the flags wins over the socket.
\<close>

type_synonym 's http_transport = "string option \<Rightarrow> string \<Rightarrow> string \<Rightarrow> request \<Rightarrow> ('s, error + response) state"

definition newUnixClient :: "'s http_transport \<Rightarrow> (body \<Rightarrow> string) \<Rightarrow> string \<Rightarrow> 's apiClient" where
  "newUnixClient http read socketPath =
     \<lparr>ac_send = http (Some socketPath) ''http://unix'', ac_text = read, ac_token = []\<rparr>"

definition newTCPClient :: "'s http_transport \<Rightarrow> (body \<Rightarrow> string) \<Rightarrow> string \<Rightarrow> string \<Rightarrow> 's apiClient" where
  "newTCPClient http read addr token =
     \<lparr>ac_send = http None (''http://'' @ addr), ac_text = read, ac_token = token\<rparr>"

definition client :: "'s http_transport \<Rightarrow> (body \<Rightarrow> string) \<Rightarrow> string \<Rightarrow> string \<Rightarrow> string \<Rightarrow> 's apiClient" where
  "client http read flagSocket flagAddr flagToken =
     (if flagAddr \<noteq> [] then newTCPClient http read flagAddr flagToken else newUnixClient http read flagSocket)"

text \<open>Only a client with an address sends a token, and it always speaks plain HTTP.\<close>

lemma client_speaks_http:
  "\<exists>sock base. ac_send (client http read flagSocket flagAddr flagToken) = http sock (''http://'' @ base)
     \<and> (ac_token (client http read flagSocket flagAddr flagToken) \<noteq> [] \<longrightarrow> base = flagAddr \<and> flagAddr \<noteq> [])"
  by (auto simp: client_def newTCPClient_def newUnixClient_def intro: exI [of _ "''unix''"])

section \<open>Commands on environments\<close>

definition list_command :: "'s apiClient \<Rightarrow> string \<Rightarrow> ('s terminal, error option) state" where
  "list_command c project =
     on_err (remote (listEnvironments c project [])) (\<lambda>err. ret (Some err)) printEnvironmentTable"

text \<open>The fields of one environment; \<open>when\<close> renders an instant as the API encodes it.\<close>

definition status_lines :: "(time \<Rightarrow> string) \<Rightarrow> Environment \<Rightarrow> string list" where
  "status_lines when e =
     map (\<lambda>l. l @ newline)
       ([''ID:          '' @ env_ID e, ''Project:     '' @ env_Project e, ''Branch:      '' @ env_Branch e,
         ''Status:      '' @ env_Status e, ''Subdomain:   '' @ env_Subdomain e, ''Artifact:    '' @ env_ArtifactRef e,
         ''Deploy ref:  '' @ env_DeployRef e, ''Pinned:      '' @ (if env_Pinned e then ''true'' else ''false'')]
        @ (case env_TTLExpiresAt e of None \<Rightarrow> [] | Some t \<Rightarrow> [''TTL expires: '' @ when t])
        @ [''Created:     '' @ when (env_CreatedAt e), ''Updated:     '' @ when (env_UpdatedAt e)])"

definition status_command :: "(time \<Rightarrow> string) \<Rightarrow> 's apiClient \<Rightarrow> string \<Rightarrow> string \<Rightarrow> ('s terminal, error option) state" where
  "status_command when c project branch =
     on_err (remote (listEnvironments c project branch)) (\<lambda>err. ret (Some err))
       (\<lambda>envs. case envs of
           [] \<Rightarrow> ret (Some (Opaque (''no environment found for branch '' @ Quote branch)))
         | [e] \<Rightarrow> do { run_each printf (status_lines when e); ret None }
         | _ \<Rightarrow> do {
             printf (''multiple environments match branch '' @ Quote branch @ ''; use --project to disambiguate:'' @ newline @ newline);
             printEnvironmentTable envs })"

definition logs_command :: "'s apiClient \<Rightarrow> string \<Rightarrow> string \<Rightarrow> ('s terminal, error option) state" where
  "logs_command c project branch =
     on_err (remote (resolveOne c project branch)) (\<lambda>err. ret (Some err))
       (\<lambda>env. on_err (remote (client_logs c (env_ID env))) (\<lambda>err. ret (Some err))
          (\<lambda>logs. do { printf logs; ret None }))"

text \<open>What was typed, up to the end of the line; only \<open>y\<close> is a consent.\<close>

definition consents :: "string \<Rightarrow> bool" where
  "consents typed \<longleftrightarrow> ToLower (TrimSpace (takeWhile (\<lambda>c. c \<noteq> CHR 0x0A) typed)) = ''y''"

definition destroy_command ::
  "'s apiClient \<Rightarrow> string \<Rightarrow> string \<Rightarrow> bool \<Rightarrow> string \<Rightarrow> ('s terminal, error option) state" where
  "destroy_command c project branch yes typed =
     on_err (remote (resolveOne c project branch)) (\<lambda>err. ret (Some err))
       (\<lambda>env.
         let delete = if_err (remote (deleteEnvironment c (env_ID env))) (\<lambda>err. ret (Some err))
                        (do { printf (''destroyed '' @ env_ID env @ newline); ret None })
         in if yes then delete
            else do {
              printf (''destroy environment '' @ env_ID env @ '' ('' @ env_Project env @ ''/'' @ env_Branch env @ '')? [y/N] '');
              if consents typed then delete
              else do { printLine ''aborted''; ret None } })"

section \<open>Commands on the host\<close>

definition install_one :: "(string \<Rightarrow> ('s, error option) state) \<Rightarrow> string \<Rightarrow> ('s terminal, error option) state \<Rightarrow> ('s terminal, error option) state" where
  "install_one MkdirAll dir rest =
     if_err (remote (MkdirAll dir)) (\<lambda>err. ret (Some (wrapf (''creating '' @ dir @ '': '') err)))
       (do { printf (''created '' @ dir @ newline); rest })"

definition install_command ::
  "(string \<Rightarrow> ('s, error option) state) \<Rightarrow> string \<Rightarrow> string \<Rightarrow> ('s terminal, error option) state" where
  "install_command MkdirAll configDir dataDir =
     install_one MkdirAll configDir (install_one MkdirAll dataDir
       (do { printLine (newline @ ''Next: run `ramify init` to generate a config file.''); ret None }))"

text \<open>The database of the configuration is opened, which migrates it, and copied.\<close>

definition backup_command ::
  "(string \<Rightarrow> error + Config) \<Rightarrow> (string \<Rightarrow> ('s, error option) state) \<Rightarrow> 's backup_os \<Rightarrow> string \<Rightarrow> string
   \<Rightarrow> ('s terminal, error option) state" where
  "backup_command load open' os configPath output =
     (case load configPath of
        Inl err \<Rightarrow> ret (Some (wrapf ''backup: loading config: '' err))
      | Inr cfg \<Rightarrow>
          if_err (remote (open' (StorePath (cfg_Store cfg)))) (\<lambda>err. ret (Some (wrapf ''backup: opening store: '' err)))
            (if_err (remote (Backup os output)) (\<lambda>err. ret (Some (wrapf ''backup: '' err)))
               (do { printf (''created database backup '' @ output @ newline); ret None })))"

end
