(* ===== verification/Cli_Setup.thy ===== *)
theory Cli_Setup
  imports Cli_Commands
begin

text \<open>
  \<open>cmd/ramify/init.go\<close> and \<open>doctor.go\<close>: the configuration that \<open>ramify init\<close> writes from its flags,
  and the checks of \<open>ramify doctor\<close>. The YAML encoder, files, SSH, kubectl and HTTP are arguments.
\<close>

section \<open>The flags of init\<close>

record InitFlags =
  fl_output :: string
  fl_base_domain :: string
  fl_socket_path :: string
  fl_store_path :: string
  fl_default_ttl :: int
  fl_event_retention :: int
  fl_github_token :: string
  fl_github_webhook_secret :: string
  fl_git_provider :: string
  fl_git_base_url :: string
  fl_deploy_ssh_addr :: string
  fl_deploy_provider :: string
  fl_deploy_ssh_user :: string
  fl_deploy_ssh_key :: string
  fl_deploy_ssh_known_hosts :: string
  fl_deploy_compose_file :: string
  fl_deploy_dns_target :: string
  fl_deploy_certificate_dir :: string
  fl_kubernetes_namespace :: string
  fl_kubernetes_context :: string
  fl_kubernetes_kubeconfig :: string
  fl_kubernetes_ingress_class :: string
  fl_kubernetes_container_port :: int
  fl_kubernetes_service_port :: int
  fl_dns_zone :: string
  fl_cloudflare_token :: string
  fl_dns_provider :: string
  fl_dns_token :: string
  fl_dns_project :: string
  fl_dns_zone_id :: string
  fl_acme_email :: string
  fl_acme_ca_dir_url :: string
  fl_pr_only :: bool
  fl_allow_branches :: "string list"
  fl_deny_branches :: "string list"
  fl_required_labels :: "string list"
  fl_max_concurrent_envs :: int

abbreviation defaultSocketPath :: string where
  "defaultSocketPath \<equiv> ''/var/run/ramify/ramify.sock''"

definition default_flags :: InitFlags where
  "default_flags =
     \<lparr>fl_output = ''/etc/ramify/ramify.yaml'', fl_base_domain = [], fl_socket_path = defaultSocketPath,
      fl_store_path = ''/var/lib/ramify/ramify.db'', fl_default_ttl = 72 * Hour, fl_event_retention = 720 * Hour,
      fl_github_token = [], fl_github_webhook_secret = [], fl_git_provider = ''github'', fl_git_base_url = [],
      fl_deploy_ssh_addr = [], fl_deploy_provider = ''compose'', fl_deploy_ssh_user = ''ramify'', fl_deploy_ssh_key = [],
      fl_deploy_ssh_known_hosts = [], fl_deploy_compose_file = [], fl_deploy_dns_target = [],
      fl_deploy_certificate_dir = ''/srv/ramify/certificates'', fl_kubernetes_namespace = ''ramify'',
      fl_kubernetes_context = [], fl_kubernetes_kubeconfig = [], fl_kubernetes_ingress_class = [],
      fl_kubernetes_container_port = 8080, fl_kubernetes_service_port = 8080, fl_dns_zone = [], fl_cloudflare_token = [],
      fl_dns_provider = ''cloudflare'', fl_dns_token = [], fl_dns_project = [], fl_dns_zone_id = [], fl_acme_email = [],
      fl_acme_ca_dir_url = ''https://acme-v02.api.letsencrypt.org/directory'', fl_pr_only = False,
      fl_allow_branches = [], fl_deny_branches = [], fl_required_labels = [], fl_max_concurrent_envs = 0\<rparr>"

fun firstNonEmpty :: "string list \<Rightarrow> string" where
  "firstNonEmpty [] = []"
| "firstNonEmpty (v # vs) = (if v \<noteq> [] then v else firstNonEmpty vs)"

section \<open>init\<close>

definition init_config :: "InitFlags \<Rightarrow> Config" where
  "init_config f = zero_Config
     \<lparr>BaseDomain := fl_base_domain f,
      cfg_Server := (cfg_Server zero_Config)\<lparr>SocketPath := fl_socket_path f\<rparr>,
      cfg_Store := \<lparr>StorePath = fl_store_path f\<rparr>,
      cfg_Reaper := (cfg_Reaper zero_Config)\<lparr>ReaperInterval := 5 * Minute, DefaultTTL := fl_default_ttl f,
        EventRetention := fl_event_retention f\<rparr>,
      cfg_Git := \<lparr>GitProvider = fl_git_provider f, GitToken = fl_github_token f,
        GitWebhookSecret = fl_github_webhook_secret f, GitBaseURL = fl_git_base_url f\<rparr>,
      cfg_Deploy := (cfg_Deploy zero_Config)\<lparr>DeployProviderName := fl_deploy_provider f,
        SSHAddr := fl_deploy_ssh_addr f, SSHUser := fl_deploy_ssh_user f, SSHPrivateKeyPath := fl_deploy_ssh_key f,
        SSHKnownHostsPath := fl_deploy_ssh_known_hosts f, ComposeFile := fl_deploy_compose_file f,
        DNSTarget := fl_deploy_dns_target f, CertificateDir := fl_deploy_certificate_dir f,
        KubernetesNamespace := fl_kubernetes_namespace f, KubernetesContext := fl_kubernetes_context f,
        KubernetesKubeconfig := fl_kubernetes_kubeconfig f, KubernetesIngressClass := fl_kubernetes_ingress_class f,
        KubernetesContainerPort := fl_kubernetes_container_port f, KubernetesServicePort := fl_kubernetes_service_port f\<rparr>,
      cfg_DNS := \<lparr>DNSProviderName = fl_dns_provider f, Zone = fl_dns_zone f, CloudflareAPIToken = fl_cloudflare_token f,
        APIToken = firstNonEmpty [fl_dns_token f, fl_cloudflare_token f], GCPProject = fl_dns_project f, ZoneID = fl_dns_zone_id f\<rparr>,
      cfg_ACME := (cfg_ACME zero_Config)\<lparr>Email := fl_acme_email f, CADirURL := fl_acme_ca_dir_url f\<rparr>,
      cfg_Filter := \<lparr>PROnly = fl_pr_only f, AllowBranches = fl_allow_branches f, DenyBranches = fl_deny_branches f,
        RequiredLabels = fl_required_labels f, MaxConcurrentEnvs = fl_max_concurrent_envs f\<rparr>\<rparr>"

definition init_command ::
  "(Config \<Rightarrow> error + string) \<Rightarrow> (string \<Rightarrow> string \<Rightarrow> ('s, error option) state) \<Rightarrow> InitFlags \<Rightarrow> ('s terminal, error option) state" where
  "init_command marshal WriteFile f =
     (case Validate (init_config f) of
        Some err \<Rightarrow> ret (Some (wrapf ''generated config is incomplete: '' err))
      | None \<Rightarrow>
          (case marshal (init_config f) of
             Inl err \<Rightarrow> ret (Some (wrapf ''encoding config: '' err))
           | Inr out \<Rightarrow>
               if_err (remote (WriteFile (fl_output f) out)) (\<lambda>err. ret (Some (wrapf (''writing '' @ fl_output f @ '': '') err)))
                 (do { printf (''wrote '' @ fl_output f @ newline); ret None })))"

section \<open>doctor\<close>

record doctorCheck =
  dc_name :: string
  dc_ok :: bool
  dc_detail :: string

record ('w, 'c, 'k) doctor_os =
  dk_NewWithAPIToken :: "string \<Rightarrow> error + 'c"
  dk_ZoneIDByName :: "'c \<Rightarrow> string \<Rightarrow> ('w, error + string) state"
  dk_kubectl :: "string list \<Rightarrow> ('w, string \<times> error option) state"
  dk_ReadFile :: "string \<Rightarrow> ('w, error + string) state"
  dk_ParsePrivateKey :: "string \<Rightarrow> error + 'k"
  dk_Dial :: "string \<Rightarrow> string \<Rightarrow> 'k \<Rightarrow> ('w, error option) state"
  dk_Get :: "string \<Rightarrow> ('w, error + int) state"

definition check_of :: "string \<Rightarrow> bool \<Rightarrow> string \<Rightarrow> doctorCheck" where
  "check_of name ok detail = \<lparr>dc_name = name, dc_ok = ok, dc_detail = detail\<rparr>"

definition check_failed :: "string \<Rightarrow> error \<Rightarrow> ('w, doctorCheck) state" where
  "check_failed name err = ret (check_of name False (error_text err))"

definition checkCloudflareToken :: "('w, 'c, 'k) doctor_os \<Rightarrow> Config \<Rightarrow> ('w, doctorCheck) state" where
  "checkCloudflareToken os cfg =
     (let name = ''Cloudflare token resolves configured zone''
      in case dk_NewWithAPIToken os (CloudflareAPIToken (cfg_DNS cfg)) of
           Inl err \<Rightarrow> check_failed name err
         | Inr api \<Rightarrow>
             on_err (dk_ZoneIDByName os api (Zone (cfg_DNS cfg))) (check_failed name)
               (\<lambda>i. ret (check_of name True (''zone ID '' @ i))))"

definition checkDNSProvider :: "('w, 'c, 'k) doctor_os \<Rightarrow> Config \<Rightarrow> ('w, doctorCheck) state" where
  "checkDNSProvider os cfg =
     (let d = cfg_DNS cfg; provider = DNSProviderName d
      in if provider = ''cloudflare'' then checkCloudflareToken os cfg
         else if provider = ''googlecloud'' then
           ret (check_of ''Google Cloud DNS configured'' (GCPProject d \<noteq> [] \<and> ZoneID d \<noteq> []) ''uses Application Default Credentials'')
         else if provider = ''route53'' then
           ret (check_of ''Route 53 configured'' (Zone d \<noteq> []) ''uses the AWS SDK credential chain'')
         else if provider = ''digitalocean'' then
           ret (check_of ''DigitalOcean DNS token configured'' (APIToken d \<noteq> []) ''token is configured'')
         else ret (check_of ''DNS provider configured'' False (''unsupported provider '' @ provider)))"

definition kubectl_args :: "DeployConfig \<Rightarrow> string list" where
  "kubectl_args d =
     [''get'', ''namespace'', or_default (KubernetesNamespace d) ''default'']
     @ (if KubernetesKubeconfig d \<noteq> [] then [''--kubeconfig'', KubernetesKubeconfig d] else [])
     @ (if KubernetesContext d \<noteq> [] then [''--context'', KubernetesContext d] else [])"

definition checkKubernetesReachable :: "('w, 'c, 'k) doctor_os \<Rightarrow> Config \<Rightarrow> ('w, doctorCheck) state" where
  "checkKubernetesReachable os cfg =
     (let name = ''Kubernetes namespace reachable''; d = cfg_Deploy cfg
      in do {
        (out, err) \<leftarrow> dk_kubectl os (kubectl_args d);
        ret (case err of
            Some e \<Rightarrow> check_of name False (if TrimSpace out = [] then error_text e else TrimSpace out)
          | None \<Rightarrow> check_of name True (''namespace '' @ or_default (KubernetesNamespace d) ''default'' @ '' is readable'')) })"

text \<open>The connection of the check accepts any host key, as the code says.\<close>

definition checkSSHReachable :: "('w, 'c, 'k) doctor_os \<Rightarrow> Config \<Rightarrow> ('w, doctorCheck) state" where
  "checkSSHReachable os cfg =
     (let name = ''SSH deploy host reachable and authorized''; d = cfg_Deploy cfg
      in on_err (dk_ReadFile os (SSHPrivateKeyPath d)) (check_failed name)
           (\<lambda>keyBytes. case dk_ParsePrivateKey os keyBytes of
              Inl err \<Rightarrow> check_failed name err
            | Inr signer \<Rightarrow>
                if_err (dk_Dial os (SSHAddr d) (SSHUser d) signer) (check_failed name)
                  (ret (check_of name True
                     (if SSHKnownHostsPath d = [] then
                        ''connected, but ssh_known_hosts_path is unset '' @ map char_of [226, 128, 148 :: nat]
                        @ '' host key is not verified in production''
                      else ''connected and authenticated'')))))"

definition checkDeployProvider :: "('w, 'c, 'k) doctor_os \<Rightarrow> Config \<Rightarrow> ('w, doctorCheck) state" where
  "checkDeployProvider os cfg =
     (let provider = DeployProviderName (cfg_Deploy cfg)
      in if provider = [] \<or> provider = ''compose'' then checkSSHReachable os cfg
         else if provider = ''kubernetes'' then checkKubernetesReachable os cfg
         else ret (check_of ''deploy provider configured'' False (''unsupported provider '' @ provider)))"

definition checkWebhookSecret :: "Config \<Rightarrow> doctorCheck" where
  "checkWebhookSecret cfg =
     (if length (GitWebhookSecret (cfg_Git cfg)) < 16 then
        check_of ''webhook secret configured'' False ''secret is set but shorter than 16 characters''
      else check_of ''webhook secret configured'' True ''configured'')"

definition checkACMEDirectoryReachable :: "('w, 'c, 'k) doctor_os \<Rightarrow> Config \<Rightarrow> ('w, doctorCheck) state" where
  "checkACMEDirectoryReachable os cfg =
     (let name = ''ACME directory reachable''
      in on_err (dk_Get os (CADirURL (cfg_ACME cfg))) (check_failed name)
           (\<lambda>status. ret (if status \<ge> 300 then check_of name False (''unexpected status '' @ Itoa status)
              else check_of name True ''reachable'')))"

definition check_line :: "doctorCheck \<Rightarrow> string" where
  "check_line c = (if dc_ok c then ''[  OK] '' else ''[FAIL] '') @ dc_name c @ '': '' @ dc_detail c @ newline"

definition doctor_command ::
  "(string \<Rightarrow> error + Config) \<Rightarrow> ('s, 'c, 'k) doctor_os \<Rightarrow> string \<Rightarrow> ('s terminal, error option) state" where
  "doctor_command load os configPath =
     (case load configPath of
        Inl err \<Rightarrow> do {
          printf (''[FAIL] config file valid: '' @ error_text err @ newline);
          ret (Some (Opaque ''doctor: config invalid'')) }
      | Inr cfg \<Rightarrow> do {
          printLine ''[ OK ] config file valid'';
          dns \<leftarrow> remote (checkDNSProvider os cfg);
          deploy \<leftarrow> remote (checkDeployProvider os cfg);
          acme \<leftarrow> remote (checkACMEDirectoryReachable os cfg);
          (let checks = [dns, deploy, checkWebhookSecret cfg, acme]
           in do {
             run_each (\<lambda>c. printf (check_line c)) checks;
             ret (if list_ex (\<lambda>c. \<not> dc_ok c) checks then Some (Opaque ''doctor: one or more checks failed'') else None) }) })"

end
