(* ===== verification/Cli_Theorems.thy ===== *)
theory Cli_Theorems
  imports Cli_Setup Config_Theorems Api_Theorems Example_World
begin

text \<open>What an operator can rely on at the terminal.\<close>

section \<open>Init and load\<close>

text \<open>The flags with the secrets resolved and the default providers filled in.\<close>

definition running_config :: "string \<Rightarrow> string \<Rightarrow> string \<Rightarrow> InitFlags \<Rightarrow> Config" where
  "running_config token secret api f =
     (init_config f)\<lparr>cfg_Git := \<lparr>GitProvider = or_default (fl_git_provider f) ''github'', GitToken = token,
         GitWebhookSecret = secret, GitBaseURL = fl_git_base_url f\<rparr>,
       cfg_GitHub := \<lparr>GitHubToken = token, GitHubWebhookSecret = secret\<rparr>,
       cfg_DNS := \<lparr>DNSProviderName = or_default (fl_dns_provider f) ''cloudflare'', Zone = fl_dns_zone f,
         CloudflareAPIToken = api, APIToken = api, GCPProject = fl_dns_project f, ZoneID = fl_dns_zone_id f\<rparr>\<rparr>"

lemma firstNonEmpty_simps: "firstNonEmpty [x, y] = (if x \<noteq> [] then x else y)"
  by (simp split: if_splits)

lemma missing_running:
  assumes "missing_fields (init_config f) = []"
    and "token \<noteq> []" "secret \<noteq> []" "firstNonEmpty [fl_dns_token f, fl_cloudflare_token f] \<noteq> [] \<Longrightarrow> api \<noteq> []"
  shows "missing_fields (running_config token secret api f) = []"
  using assms
  by (auto simp: missing_fields_def missing_git_def missing_dns_def init_config_def running_config_def zero_Config_def
      or_default_def Let_def firstNonEmpty_simps split: if_splits)

text \<open>
  C25: What \<open>ramify init\<close> writes, \<open>ramifyd\<close> loads. If the command succeeds and the file reads back as
  the configuration that was encoded, then the daemon loads it wherever the three secrets it refers
  to resolve to non-empty values, and runs on exactly the flags, the secrets filled in.
\<close>

theorem init_config_loads:
  assumes "run_state (init_command marshal WriteFile f) t = (None, t')"
    and "\<And>out. marshal (init_config f) = Inr out \<Longrightarrow>
        read_file (fl_output f) = Inr out \<and> TrimSpace out \<noteq> [] \<and> decode out = Inr (init_config f)"
    and "resolveEnv env (fl_github_token f) = Inr token" "token \<noteq> []"
    and "resolveEnv env (fl_github_webhook_secret f) = Inr secret" "secret \<noteq> []"
    and "resolveEnv env (firstNonEmpty [fl_dns_token f, fl_cloudflare_token f]) = Inr api"
    and "api = [] \<longrightarrow> firstNonEmpty [fl_dns_token f, fl_cloudflare_token f] = []"
  shows "Load read_file decode env (fl_output f) = Inr (running_config token secret api f)"
proof -
  have v: "Validate (init_config f) = None" and m: "\<exists>out. marshal (init_config f) = Inr out"
    using assms(1) by (auto simp: init_command_def split: option.splits sum.splits)
  have tokens: "fl_github_token f \<noteq> []" "fl_github_webhook_secret f \<noteq> []"
    using v by (auto simp: Validate_None missing_fields_def missing_git_def init_config_def zero_Config_def or_default_def Let_def
        split: if_splits)
  have ok: "Validate (running_config token secret api f) = None"
    unfolding Validate_None by (rule missing_running) (use v assms(4,6,8) in \<open>auto simp: Validate_None\<close>)
  have api: "or_default (firstNonEmpty [fl_dns_token f, fl_cloudflare_token f]) (fl_cloudflare_token f)
      = firstNonEmpty [fl_dns_token f, fl_cloudflare_token f]"
    by (simp add: firstNonEmpty_simps or_default_def)
  have none: "resolveEnv env [] = Inr []"
    by (simp add: resolveEnv_def)
  obtain out where out: "marshal (init_config f) = Inr out"
    using m by blast
  from assms(2) [OF this] have disk: "read_file (fl_output f) = Inr out" "TrimSpace out \<noteq> []" "decode out = Inr (init_config f)"
    by simp_all
  have "finish_load env (fl_output f) (init_config f) = Inr (running_config token secret api f)"
    using ok assms(3,5,7) tokens
    by (simp add: finish_load_def resolve_field_def git_defaults_def dns_defaults_def init_config_def zero_Config_def
        running_config_def api none Let_def del: firstNonEmpty.simps)
  then show ?thesis
    by (simp add: Load_def disk)
qed

section \<open>Destroy, from the terminal to the reconciler\<close>

text \<open>The control socket: the requests the commands send, taken to the handlers of a server.\<close>

definition local_client :: "'w Server \<Rightarrow> 'w sys apiClient" where
  "local_client sv =
     \<lparr>ac_send = (\<lambda>verb r. do {
        w \<leftarrow> (if verb = ''DELETE'' then handle sv DeleteEnv r
             else if rq_Path r = ''/environments/'' then handle sv ListEnvs r
             else handle sv LogsOfEnv r);
        ret (Inr w) }),
      ac_text = (\<lambda>_. []), ac_token = []\<rparr>"

lemma local_request: "new_request (local_client sv) = new_request (direct_client sv)"
  by (simp add: fun_eq_iff new_request_def local_client_def direct_client_def)

lemma local_pages: "list_pages (local_client sv) p b n offset listed = list_pages (direct_client sv) p b n offset listed"
proof (induction n arbitrary: offset listed)
  case (Suc n)
  have bodies: "ac_text (local_client sv) = ac_text (direct_client sv)"
    by (simp add: local_client_def direct_client_def)
  have "ac_send (local_client sv) ''GET'' (new_request (direct_client sv) ''/environments/'' [] q)
      = ac_send (direct_client sv) ''GET'' (new_request (direct_client sv) ''/environments/'' [] q)" for q
    by (simp add: local_client_def direct_client_def new_request_def handle_def)
  then have "do_request (local_client sv) ''GET'' (new_request (local_client sv) ''/environments/'' [] q) dec
      = do_request (direct_client sv) ''GET'' (new_request (direct_client sv) ''/environments/'' [] q) dec" for q dec
    by (simp only: do_request_def local_request bodies)
  note same = this
  show ?case
    by (simp only: list_pages.simps same Suc.IH cong: if_cong option.case_cong)
qed simp

lemma local_listing:
  assumes "healthy_driver (sv_store sv)" and "length (matching_rows p b (db s)) \<le> 100000"
  shows "\<exists>w. run_state (listEnvironments (local_client sv) p b) s
    = (Inr (map scanEnvironment (matching_rows p b (db s))), s\<lparr>ext := w\<rparr>)"
  using list_pages_complete [OF assms(1) _ refl, of p b s 1000 0 "[]"] assms(2)
  by (simp add: listEnvironments_def local_pages)

lemma local_resolve:
  assumes "healthy_driver (sv_store sv)" and "length (matching_rows p b (db s)) \<le> 100000"
  shows "\<exists>w. case matching_rows p b (db s) of
      [row] \<Rightarrow> run_state (resolveOne (local_client sv) p b) s = (Inr (scanEnvironment row), s\<lparr>ext := w\<rparr>)
    | _ \<Rightarrow> \<exists>e. run_state (resolveOne (local_client sv) p b) s = (Inl e, s\<lparr>ext := w\<rparr>)"
proof -
  obtain w where "run_state (listEnvironments (local_client sv) p b) s
      = (Inr (map scanEnvironment (matching_rows p b (db s))), s\<lparr>ext := w\<rparr>)"
    using local_listing [OF assms] by blast
  then show ?thesis
    by (intro exI [of _ w]) (auto simp: resolveOne_def run_err split: list.splits)
qed

text \<open>The request to delete a row that is there runs the reconciler on it.\<close>

lemma local_delete:
  assumes "healthy_driver (sv_store sv)" and "db_wf (db s)" and "row \<in> set (db_environments (db s))"
  shows "\<exists>w err. run_state (deleteEnvironment (local_client sv) (er_id row)) s
      = (err, snd (run_state (Destroy (sv_reconciler sv) (scanEnvironment row)) (s\<lparr>ext := w\<rparr>)))
    \<and> (err = None \<longleftrightarrow> fst (run_state (Destroy (sv_reconciler sv) (scanEnvironment row)) (s\<lparr>ext := w\<rparr>)) = None)"
proof -
  have "\<exists>w err. run_state (on_err (do_request (local_client sv) ''DELETE'' (new_request (local_client sv) pa (er_id row) (\<lambda>_. [])) no_target)
        (\<lambda>err. ret (Some err)) (\<lambda>_. ret None)) s
      = (err, snd (run_state (Destroy (sv_reconciler sv) (scanEnvironment row)) (s\<lparr>ext := w\<rparr>)))
    \<and> (err = None \<longleftrightarrow> fst (run_state (Destroy (sv_reconciler sv) (scanEnvironment row)) (s\<lparr>ext := w\<rparr>)) = None)" for pa
  proof -
    let ?rq = "new_request (local_client sv) pa (er_id row) (\<lambda>_. [])"
    have "select_environment (rq_id ?rq) (db s) = Some row"
      using select_environment_Some [OF assms(2,3)] by (simp add: new_request_def)
    then obtain w where w: "run_state (handleDeleteEnvironment sv ?rq) s
        = run_state (if_err (Destroy (sv_reconciler sv) (scanEnvironment row))
           (\<lambda>err. ret (writeError StatusInternalServerError (''destroying environment: '' @ error_text err)))
           (ret (WriteHeader StatusNoContent))) (s\<lparr>ext := w\<rparr>)"
      using with_environment_healthy [OF assms(1), of ?rq _ s] unfolding handleDeleteEnvironment_def by auto
    obtain x s' where d: "run_state (Destroy (sv_reconciler sv) (scanEnvironment row)) (s\<lparr>ext := w\<rparr>) = (x, s')"
      by force
    have send: "ac_send (local_client sv) ''DELETE'' ?rq = do { w \<leftarrow> handleDeleteEnvironment sv ?rq; ret (Inr w) }"
      by (simp add: local_client_def handle_def)
    show ?thesis
      by (intro exI [of _ w])
        (cases x; simp add: do_request_def run_err send w d writeError_def writeJSON_def WriteHeader_def no_target_def)
  qed
  then show ?thesis
    by (simp only: deleteEnvironment_def)
qed

lemma matching_row: "row \<in> set (matching_rows p b d) \<Longrightarrow> row \<in> set (db_environments d)"
  by (simp add: matching_rows_def)

text \<open>
  C30: \<open>ramify destroy\<close> is deliberate. Over the control socket of a daemon with a healthy driver the
  command destroys an environment only if exactly one matches the branch and project and the
  operator consented, by the flag or by typing \<open>y\<close>; then it is this one that the reconciler tears
  down, and the command succeeds exactly if the teardown did. In every other case no table, counter
  or provider is touched: none or several matches are an error, a refusal is not.
\<close>

theorem destroy_is_deliberate:
  assumes "healthy_driver (sv_store sv)" and "db_wf (db s)"
    and "length (matching_rows project branch (db s)) \<le> 100000"
  shows "case matching_rows project branch (db s) of
      [row] \<Rightarrow>
        if yes \<or> consents typed then
          \<exists>w err out'. run_state (destroy_command (local_client sv) project branch yes typed) \<lparr>te_sys = s, te_out = out\<rparr>
              = (err, \<lparr>te_sys = snd (run_state (Destroy (sv_reconciler sv) (scanEnvironment row)) (s\<lparr>ext := w\<rparr>)), te_out = out'\<rparr>)
            \<and> (err = None \<longleftrightarrow> fst (run_state (Destroy (sv_reconciler sv) (scanEnvironment row)) (s\<lparr>ext := w\<rparr>)) = None)
        else
          \<exists>w out'. run_state (destroy_command (local_client sv) project branch yes typed) \<lparr>te_sys = s, te_out = out\<rparr>
              = (None, \<lparr>te_sys = s\<lparr>ext := w\<rparr>, te_out = out'\<rparr>)
    | _ \<Rightarrow> \<exists>w e. run_state (destroy_command (local_client sv) project branch yes typed) \<lparr>te_sys = s, te_out = out\<rparr>
              = (Some e, \<lparr>te_sys = s\<lparr>ext := w\<rparr>, te_out = out\<rparr>)"
proof -
  obtain w where w: "case matching_rows project branch (db s) of
      [row] \<Rightarrow> run_state (resolveOne (local_client sv) project branch) s = (Inr (scanEnvironment row), s\<lparr>ext := w\<rparr>)
    | _ \<Rightarrow> \<exists>e. run_state (resolveOne (local_client sv) project branch) s = (Inl e, s\<lparr>ext := w\<rparr>)"
    using local_resolve [OF assms(1,3)] by blast
  show ?thesis
  proof (cases "\<exists>row. matching_rows project branch (db s) = [row]")
    case True
    then obtain row where row: "matching_rows project branch (db s) = [row]" by blast
    then have r: "run_state (resolveOne (local_client sv) project branch) s = (Inr (scanEnvironment row), s\<lparr>ext := w\<rparr>)"
      using w by simp
    have "row \<in> set (db_environments (db s))"
      using row using matching_row [of row project branch "db s"] by simp
    then obtain w' err where del: "run_state (deleteEnvironment (local_client sv) (er_id row)) (s\<lparr>ext := w\<rparr>)
        = (err, snd (run_state (Destroy (sv_reconciler sv) (scanEnvironment row)) (s\<lparr>ext := w'\<rparr>)))"
      "err = None \<longleftrightarrow> fst (run_state (Destroy (sv_reconciler sv) (scanEnvironment row)) (s\<lparr>ext := w'\<rparr>)) = None"
      using local_delete [OF assms(1), of "s\<lparr>ext := w\<rparr>" row] assms(2) by auto
    have i: "env_ID (scanEnvironment row) = er_id row"
      by (simp add: scanEnvironment_def)
    show ?thesis
      unfolding row
      by (cases "yes \<or> consents typed"; cases err; cases yes; use del(2) in
        \<open>force simp: destroy_command_def run_err r i del(1) printLine_def Let_def\<close>)
  next
    case False
    then show ?thesis
      using w by (auto simp: destroy_command_def run_err split: list.splits)
  qed
qed

section \<open>doctor\<close>

text \<open>The command fails exactly if the configuration does not load or a check is not met.\<close>

lemma doctor_verdict:
  "fst (run_state (doctor_command load os configPath) t) = None \<longleftrightarrow>
     (\<exists>cfg dns w1 deploy w2 acme w3. load configPath = Inr cfg
        \<and> run_state (checkDNSProvider os cfg) (te_sys t) = (dns, w1) \<and> run_state (checkDeployProvider os cfg) w1 = (deploy, w2)
        \<and> run_state (checkACMEDirectoryReachable os cfg) w2 = (acme, w3)
        \<and> dc_ok dns \<and> dc_ok deploy \<and> dc_ok acme \<and> 16 \<le> length (GitWebhookSecret (cfg_Git cfg)))"
  by (auto simp: doctor_command_def printLine_def checkWebhookSecret_def check_of_def Let_def split: sum.splits prod.splits if_splits)

section \<open>Examples\<close>

definition ex_flags :: InitFlags where
  "ex_flags = default_flags\<lparr>fl_base_domain := ''preview.io'', fl_github_token := [CHR 0x24] @ ''TCP'',
     fl_github_webhook_secret := [CHR 0x24] @ ''{HOOK}'', fl_deploy_ssh_addr := ''host:22'', fl_deploy_ssh_key := ''/key'',
     fl_deploy_ssh_known_hosts := ''/known'', fl_deploy_compose_file := ''compose.yaml'', fl_deploy_dns_target := ''192.0.2.1'',
     fl_dns_zone := ''preview.io'', fl_cloudflare_token := ''cf'', fl_acme_email := ''ops@preview.io''\<rparr>"

definition ex_init :: "(unit terminal, error option) state" where
  "ex_init = init_command (\<lambda>c. Inr ''yaml'') (\<lambda>path data. ret None) ex_flags"

lemma ex_init_writes: "run_state ex_init \<lparr>te_sys = (), te_out = []\<rparr>
    = (None, \<lparr>te_sys = (), te_out = [''wrote '' @ fl_output ex_flags @ newline]\<rparr>)"
  by code_simp

theorem init_config_loads_witness:
  "\<exists>cfg. Load (\<lambda>path. Inr ''yaml'') (\<lambda>data. Inr (init_config ex_flags)) ex_environ (fl_output ex_flags) = Inr cfg
     \<and> GitWebhookSecret (cfg_Git cfg) = ''h1''"
proof -
  have e: "resolveEnv ex_environ (fl_github_token ex_flags) = Inr ''t1''"
      "resolveEnv ex_environ (fl_github_webhook_secret ex_flags) = Inr ''h1''"
      "resolveEnv ex_environ (firstNonEmpty [fl_dns_token ex_flags, fl_cloudflare_token ex_flags]) = Inr ''cf''"
    by code_simp+
  have y: "TrimSpace ''yaml'' \<noteq> []"
    by code_simp
  show ?thesis
    using init_config_loads [OF ex_init_writes [unfolded ex_init_def] _ e(1) _ e(2) _ e(3),
        of "\<lambda>_. Inr ''yaml''" "\<lambda>_. Inr (init_config ex_flags)"] y
    by (simp add: running_config_def)
qed

lemma ex_matching: "matching_rows [] ''b'' (db ex_sys) = [environment_args ex_env]"
  by code_simp

text \<open>The operator hesitates: nothing happens.\<close>

theorem destroy_is_deliberate_witness:
  "\<exists>w out. run_state (destroy_command (local_client ex_server) [] ''b'' False ''no'') \<lparr>te_sys = ex_sys, te_out = []\<rparr>
     = (None, \<lparr>te_sys = ex_sys\<lparr>ext := w\<rparr>, te_out = out\<rparr>)"
proof -
  have h: "healthy_driver (sv_store ex_server)"
    by (simp add: healthy_driver_def ex_server_def NewServer_def ex_runtime_def)
  have c: "\<not> consents ''no''"
    by code_simp
  have w: "db_wf (db ex_sys)"
    by (simp add: ex_sys_def ex_db_wf)
  show ?thesis
    using destroy_is_deliberate [OF h w, of "[]" "''b''" False "''no''" "[]"] c by (simp add: ex_matching)
qed

end
