(* ===== verification/Ssh_Dial.thy ===== *)
theory Ssh_Dial
  imports Go_Error Transition_System
begin

text \<open>
  \<open>dialContext\<close> of \<open>providers/deploy/compose/ssh.go\<close>: the connection is made under the context, the SSH
  handshake runs in a goroutine that answers over a channel of one place, and whoever comes first, the
  answer or the end of the context, decides. A connection must not outlive the call unless its client
  was returned. The dialer and the handshake are the library's, which closes the connection of a
  handshake that fails.
\<close>

section \<open>The call\<close>

datatype handshake = NotStarted | Running | Answered

text \<open>
  \<open>di_open\<close>: the connection is open. \<open>di_channel\<close> is the answer that waits in the channel, a client or
  an error; \<open>di_drains\<close> tells that the goroutine that closes a late client was started; \<open>di_returned\<close>
  is the result of the call, \<open>Some None\<close> for a client.
\<close>

record dial =
  di_open :: bool
  di_handshake :: handshake
  di_channel :: "error option option"
  di_drains :: bool
  di_done :: bool
  di_returned :: "error option option"

definition dial_start :: dial where
  "dial_start = \<lparr>di_open = False, di_handshake = NotStarted, di_channel = None, di_drains = False,
     di_done = False, di_returned = None\<rparr>"

definition ctx_Err :: error where
  "ctx_Err = Opaque ''context canceled''"

text \<open>The late answer is taken from the channel, and a client closed with its connection.\<close>

definition drain :: "error option \<Rightarrow> dial \<Rightarrow> dial" where
  "drain res s = s\<lparr>di_channel := None, di_drains := False, di_open := (if res = None then False else di_open s)\<rparr>"

inductive dial_step :: "dial \<Rightarrow> dial \<Rightarrow> bool" where
  context_ends: "dial_step s (s\<lparr>di_done := True\<rparr>)"
| dial_fails: "di_returned s = None \<Longrightarrow> di_handshake s = NotStarted
    \<Longrightarrow> dial_step s (s\<lparr>di_returned := Some (Some err)\<rparr>)"
| dialled: "di_returned s = None \<Longrightarrow> di_handshake s = NotStarted
    \<Longrightarrow> dial_step s (s\<lparr>di_open := True, di_handshake := Running\<rparr>)"
| handshake_succeeds: "di_handshake s = Running
    \<Longrightarrow> dial_step s (s\<lparr>di_handshake := Answered, di_channel := Some None\<rparr>)"
| handshake_fails: "di_handshake s = Running
    \<Longrightarrow> dial_step s (s\<lparr>di_open := False, di_handshake := Answered, di_channel := Some (Some err)\<rparr>)"
| select_done: "di_returned s = None \<Longrightarrow> di_handshake s \<noteq> NotStarted \<Longrightarrow> di_done s
    \<Longrightarrow> dial_step s (s\<lparr>di_open := False, di_drains := True, di_returned := Some (Some ctx_Err)\<rparr>)"
| select_answer: "di_returned s = None \<Longrightarrow> di_channel s = Some res
    \<Longrightarrow> dial_step s (s\<lparr>di_channel := None, di_returned := Some res\<rparr>)"
| drains: "di_drains s \<Longrightarrow> di_channel s = Some res \<Longrightarrow> dial_step s (drain res s)"

inductive_cases dial_stepE: "dial_step s s'"

section \<open>No leak\<close>

text \<open>Where the connection, the answer and the goroutines are at each stage of the call.\<close>

definition dial_ok :: "dial \<Rightarrow> bool" where
  "dial_ok s \<longleftrightarrow>
     (case di_returned s of
        None \<Rightarrow> \<not> di_drains s \<and> (di_handshake s = NotStarted \<longrightarrow> \<not> di_open s)
          \<and> (di_handshake s = Answered \<longleftrightarrow> di_channel s \<noteq> None) \<and> (di_channel s = Some None \<longrightarrow> di_open s)
          \<and> (\<forall>err. di_channel s = Some (Some err) \<longrightarrow> \<not> di_open s) \<and> (di_handshake s = Running \<longrightarrow> di_open s)
      | Some None \<Rightarrow> di_open s \<and> di_handshake s = Answered \<and> di_channel s = None \<and> \<not> di_drains s
      | Some (Some err) \<Rightarrow> \<not> di_open s \<and> (di_handshake s = Running \<longrightarrow> di_drains s)
          \<and> (di_channel s \<noteq> None \<longrightarrow> di_drains s \<and> di_handshake s = Answered))"

lemma dial_ok_step: "dial_ok s \<Longrightarrow> dial_step s s' \<Longrightarrow> dial_ok s'"
  by (erule dial_stepE) (auto simp: dial_ok_def drain_def split: option.splits)

interpretation dialling: inductive_invariant "\<lambda>s. s = dial_start" dial_step dial_ok
proof unfold_locales
  show "dial_ok s" if "s = dial_start" for s
    using that by (simp add: dial_ok_def dial_start_def)
qed (rule dial_ok_step)

text \<open>
  The call leaves nothing behind. Once it has returned, the connection is open exactly if its client
  was returned; and an answer that came too late, or is still to come, has a goroutine to take it, so
  that none is stuck. After the end of the context the call can always return at once.
\<close>

theorem dial_leaks_nothing:
  assumes "reachable (\<lambda>s. s = dial_start) dial_step s"
  shows "(\<forall>r. di_returned s = Some r \<longrightarrow> (di_open s \<longleftrightarrow> r = None)
        \<and> (r \<noteq> None \<longrightarrow> di_handshake s = Running \<or> di_channel s \<noteq> None \<longrightarrow> di_drains s))
    \<and> (di_done s \<longrightarrow> di_returned s = None \<longrightarrow> (\<exists>s' err. dial_step s s' \<and> di_returned s' = Some (Some err) \<and> \<not> di_open s'))"
proof -
  have ok: "dial_ok s"
    by (rule dialling.reachable_inv [OF assms])
  have "\<exists>s' err. dial_step s s' \<and> di_returned s' = Some (Some err) \<and> \<not> di_open s'"
    if "di_done s" "di_returned s = None"
  proof (cases "di_handshake s = NotStarted")
    case True
    with that(2) ok show ?thesis
      by (intro exI [of _ "s\<lparr>di_returned := Some (Some ctx_Err)\<rparr>"] exI [of _ ctx_Err])
        (auto simp: dial_ok_def intro: dial_fails)
  next
    case False
    with select_done [OF that(2) _ that(1)] show ?thesis by fastforce
  qed
  with ok show ?thesis
    by (auto simp: dial_ok_def split: option.splits)
qed

end
