(* ===== verification/Replay_Pool.thy ===== *)
theory Replay_Pool
  imports Example_World Transition_System "HOL-Library.Multiset"
begin

text \<open>
  The goroutines of \<open>ReplayEvents\<close> (\<open>internal/core/reconciler.go\<close>): the caller takes a place of the
  semaphore for each event and starts a goroutine, which processes the event, gives the place back and
  is waited for. The model of \<open>ReplayEvents\<close> runs the events one after the other; here the batch is a
  step relation, in which any started event may be next. Processing one event is one step, as an
  operation is everywhere in the model.
\<close>

section \<open>The batch\<close>

text \<open>
  \<open>po_started\<close> are the goroutines that have still to process their event, \<open>po_finished\<close> counts those that
  have, and hold their place still; \<open>po_ran\<close> are the events in the order they were processed.
\<close>

record 'w pool =
  po_todo :: "StoreEvent list"
  po_started :: "StoreEvent list"
  po_finished :: nat
  po_ran :: "StoreEvent list"
  po_sys :: "'w sys"

definition pool_start :: "StoreEvent list \<Rightarrow> 'w sys \<Rightarrow> 'w pool" where
  "pool_start events s = \<lparr>po_todo = events, po_started = [], po_finished = 0, po_ran = [], po_sys = s\<rparr>"

definition places_taken :: "'w pool \<Rightarrow> nat" where
  "places_taken p = length (po_started p) + po_finished p"

inductive pool_step :: "'w Reconciler \<Rightarrow> 'w pool \<Rightarrow> 'w pool \<Rightarrow> bool" for r where
  starts: "po_todo p = ev # rest \<Longrightarrow> int (places_taken p) < rc_maxEventWorkers r
    \<Longrightarrow> pool_step r p (p\<lparr>po_todo := rest, po_started := po_started p @ [ev]\<rparr>)"
| processes: "po_started p = xs @ ev # ys
    \<Longrightarrow> pool_step r p (p\<lparr>po_started := xs @ ys, po_finished := Suc (po_finished p), po_ran := po_ran p @ [ev],
          po_sys := snd (run_state (ProcessEvent r ev) (po_sys p))\<rparr>)"
| releases: "po_finished p = Suc n \<Longrightarrow> pool_step r p (p\<lparr>po_finished := n\<rparr>)"

inductive_cases pool_stepE: "pool_step r p p'"

text \<open>The wait for the group is over, and \<open>ReplayEvents\<close> returns.\<close>

definition waited :: "'w pool \<Rightarrow> bool" where
  "waited p \<longleftrightarrow> po_todo p = [] \<and> places_taken p = 0"

section \<open>Every run\<close>

text \<open>The steps that are left.\<close>

definition pool_work :: "'w pool \<Rightarrow> nat" where
  "pool_work p = 3 * length (po_todo p) + 2 * length (po_started p) + po_finished p"

lemma pool_step_work: "pool_step r p p' \<Longrightarrow> pool_work p = Suc (pool_work p')"
  by (erule pool_stepE) (auto simp: pool_work_def)

definition pool_ok :: "'w Reconciler \<Rightarrow> StoreEvent list \<Rightarrow> 'w sys \<Rightarrow> 'w pool \<Rightarrow> bool" where
  "pool_ok r events s p \<longleftrightarrow>
     mset (po_ran p) + mset (po_started p) + mset (po_todo p) = mset events
     \<and> po_sys p = snd (run_state (ReplayEvents r (po_ran p)) s)
     \<and> int (places_taken p) \<le> rc_maxEventWorkers r"

lemma ReplayEvents_snoc:
  "snd (run_state (ReplayEvents r (evs @ [ev])) s) = snd (run_state (ProcessEvent r ev) (snd (run_state (ReplayEvents r evs) s)))"
  unfolding ReplayEvents_def by (induction evs arbitrary: s) (auto split: prod.splits)

lemma pool_ok_step: "pool_ok r events s p \<Longrightarrow> pool_step r p p' \<Longrightarrow> pool_ok r events s p'"
  by (erule pool_stepE) (auto simp: pool_ok_def places_taken_def ReplayEvents_snoc)

lemma pool_run:
  assumes "(pool_step r ^^ n) (pool_start events s) p" and "0 < rc_maxEventWorkers r"
  shows "pool_ok r events s p \<and> n + pool_work p = 3 * length events"
  using assms(1)
proof (induction n arbitrary: p)
  case 0
  then show ?case
    using assms(2) by (auto simp: pool_ok_def pool_start_def places_taken_def pool_work_def ReplayEvents_def)
next
  case (Suc n)
  then obtain q where q: "(pool_step r ^^ n) (pool_start events s) q" "pool_step r q p"
    by auto
  with Suc.IH [OF q(1)] show ?case
    using pool_ok_step pool_step_work [OF q(2)] by force
qed

lemma pool_progress:
  assumes "\<not> waited p" and "0 < rc_maxEventWorkers r"
  shows "\<exists>p'. pool_step r p p'"
proof (cases "places_taken p = 0")
  case True
  then obtain ev rest where "po_todo p = ev # rest"
    using assms(1) by (cases "po_todo p") (auto simp: waited_def)
  with True assms(2) show ?thesis
    using starts [of p ev rest r] by auto
next
  case False
  then show ?thesis
    using processes [of p "[]" _ _ r] releases [of p _ r]
    by (cases "po_started p"; cases "po_finished p") (auto simp: places_taken_def)
qed


text \<open>The order of the list is one of the orders.\<close>

lemma replay_in_order:
  assumes "0 < rc_maxEventWorkers r"
  shows "\<exists>p. (pool_step r)\<^sup>*\<^sup>* (pool_start events s) p \<and> waited p \<and> po_sys p = snd (run_state (ReplayEvents r events) s)"
proof -
  have "(pool_step r)\<^sup>*\<^sup>* \<lparr>po_todo = todo, po_started = [], po_finished = 0, po_ran = ran, po_sys = s\<rparr>
      \<lparr>po_todo = [], po_started = [], po_finished = 0, po_ran = ran @ todo, po_sys = snd (run_state (ReplayEvents r todo) s)\<rparr>"
    for todo ran s
  proof (induction todo arbitrary: ran s)
    case Nil
    then show ?case by (simp add: ReplayEvents_def)
  next
    case (Cons ev rest)
    let ?p = "\<lambda>t st n rn s. \<lparr>po_todo = t, po_started = st, po_finished = n, po_ran = rn, po_sys = s\<rparr>"
    let ?s = "snd (run_state (ProcessEvent r ev) s)"
    have "pool_step r (?p (ev # rest) [] 0 ran s) (?p rest [ev] 0 ran s)"
      using starts [of "?p (ev # rest) [] 0 ran s" ev rest r] assms by (simp add: places_taken_def)
    moreover have "pool_step r (?p rest [ev] 0 ran s) (?p rest [] 1 (ran @ [ev]) ?s)"
      using processes [of "?p rest [ev] 0 ran s" "[]" ev "[]" r] by simp
    moreover have "pool_step r (?p rest [] 1 (ran @ [ev]) ?s) (?p rest [] 0 (ran @ [ev]) ?s)"
      using releases [of "?p rest [] 1 (ran @ [ev]) ?s" 0 r] by simp
    moreover have "snd (run_state (ReplayEvents r (ev # rest)) s) = snd (run_state (ReplayEvents r rest) ?s)"
      by (auto simp: ReplayEvents_def split: prod.splits)
    ultimately show ?case
      using Cons.IH [of "ran @ [ev]" ?s] by (auto intro: converse_rtranclp_into_rtranclp)
  qed
  then show ?thesis
    by (force simp: pool_start_def waited_def places_taken_def)
qed

text \<open>A reconciler always has a worker.\<close>

lemma workers_positive:
  "0 < rc_maxEventWorkers (NewReconciler st deploy dns cert notifier clock ctx_err baseDomain defaultTTL fuel
      [WithAdmission p m, WithReadiness t i, WithEventConcurrency k])"
  by (simp add: NewReconciler_def WithAdmission_def WithReadiness_def WithEventConcurrency_def Let_def)

section \<open>An example\<close>

text \<open>A batch of two events whose goroutines come to them in the other order.\<close>

definition ex_batch :: "StoreEvent list" where
  "ex_batch = [empty_StoreEvent\<lparr>ev_ID := ''v1'', ev_Kind := EventKindWakeRequested\<rparr>,
     empty_StoreEvent\<lparr>ev_ID := ''v2'', ev_Kind := EventKindSleepRequested\<rparr>]"

definition ex_pool :: "example_world pool" where
  "ex_pool = \<lparr>po_todo = [], po_started = [], po_finished = 0, po_ran = rev ex_batch,
     po_sys = snd (run_state (ProcessEvent ex_reconciler (hd ex_batch))
       (snd (run_state (ProcessEvent ex_reconciler (last ex_batch)) ex_sys)))\<rparr>"

lemma ex_workers: "rc_maxEventWorkers ex_reconciler = 8"
  by (simp add: ex_reconciler_def NewReconciler_def)

lemma ex_pool_run: "(pool_step ex_reconciler ^^ 6) (pool_start ex_batch ex_sys) ex_pool"
proof -
  let ?p = "\<lambda>t st n rn s. \<lparr>po_todo = t, po_started = st, po_finished = n, po_ran = rn, po_sys = s\<rparr>"
  obtain a b where e: "ex_batch = [a, b]"
    by (simp add: ex_batch_def)
  let ?s1 = "snd (run_state (ProcessEvent ex_reconciler b) ex_sys)"
  let ?s2 = "snd (run_state (ProcessEvent ex_reconciler a) ?s1)"
  note start_of = starts [where r = ex_reconciler] and process_of = processes [where r = ex_reconciler]
    and release_of = releases [where r = ex_reconciler]
  have s1: "pool_step ex_reconciler (pool_start [a, b] ex_sys) (?p [b] [a] 0 [] ex_sys)"
    using start_of [of "pool_start [a, b] ex_sys" a "[b]"] by (simp add: pool_start_def places_taken_def ex_workers)
  have s2: "pool_step ex_reconciler (?p [b] [a] 0 [] ex_sys) (?p [] [a, b] 0 [] ex_sys)"
    using start_of [of "?p [b] [a] 0 [] ex_sys" b "[]"] by (simp add: places_taken_def ex_workers)
  have s3: "pool_step ex_reconciler (?p [] [a, b] 0 [] ex_sys) (?p [] [a] 1 [b] ?s1)"
    using process_of [of "?p [] [a, b] 0 [] ex_sys" "[a]" b "[]"] by simp
  have s4: "pool_step ex_reconciler (?p [] [a] 1 [b] ?s1) (?p [] [] 2 [b, a] ?s2)"
    using process_of [of "?p [] [a] 1 [b] ?s1" "[]" a "[]"] by (simp add: numeral_2_eq_2)
  have s5: "pool_step ex_reconciler (?p [] [] 2 [b, a] ?s2) (?p [] [] 1 [b, a] ?s2)"
    using release_of [of "?p [] [] 2 [b, a] ?s2" 1] by simp
  have s6: "pool_step ex_reconciler (?p [] [] 1 [b, a] ?s2) (?p [] [] 0 [b, a] ?s2)"
    using release_of [of "?p [] [] 1 [b, a] ?s2" 0] by simp
  note after = relpowp_Suc_I [where P = "pool_step ex_reconciler"]
  note run = after [OF after [OF after [OF after [OF after [OF after [OF relpowp_0_I s1] s2] s3] s4] s5] s6]
  have "ex_pool = ?p [] [] 0 [b, a] ?s2" "(6 :: nat) = Suc (Suc (Suc (Suc (Suc (Suc 0)))))"
    by (simp_all add: ex_pool_def e)
  with run show ?thesis
    unfolding e by argo
qed


end
