(* ===== verification/Admission_Ceiling.thy ===== *)
theory Admission_Ceiling
  imports Example_World
begin

text \<open>
  \<open>Reconciler.admit\<close> and the ceiling on live environments: what an admission leaves in the table, and
  that any number of them, in any order, never takes the count past the ceiling.
\<close>

definition row_of :: "ApplyRequest \<Rightarrow> environment_row \<Rightarrow> bool" where
  "row_of req row \<longleftrightarrow> er_project row = ar_Project req \<and> er_branch row = ar_Branch req"

text \<open>The database with one new pending row for the request, which had none.\<close>

definition reserved :: "ApplyRequest \<Rightarrow> database \<Rightarrow> database \<Rightarrow> bool" where
  "reserved req d d' \<longleftrightarrow> (\<forall>row \<in> set (db_environments d). \<not> row_of req row)
     \<and> (\<exists>row. row_of req row \<and> er_status row = StatusPending \<and> db_environments d' = db_environments d @ [row])"

lemma reserved_count: "reserved req d d' \<Longrightarrow> count_live d' = count_live d + 1"
  by (auto simp: reserved_def count_live_def)

lemma found_row:
  assumes "run_state (GetEnvironmentByProjectBranch rt (ar_Project req) (ar_Branch req)) s = (Inr env, s')"
  shows "\<exists>row \<in> set (db_environments (db s)). row_of req row"
  using GetEnvironmentByProjectBranch_effect [OF assms] by (auto simp: row_of_def dest: select_by_branch_SomeD)

lemma inserted_row:
  assumes "insert_environment row d = Inr d'" and "row_of req row" and "er_status row = StatusPending"
  shows "reserved req d d'"
proof -
  have "db_environments d' = db_environments d @ [row]" "\<forall>x \<in> set (db_environments d). \<not> same_branch row x"
    using assms(1) by (auto simp: insert_environment_def list_ex_iff split: if_splits)
  with assms(2,3) show ?thesis
    unfolding reserved_def by (auto simp: row_of_def same_branch_def)
qed

lemma upsert_effect:
  assumes "run_state (upsertPendingEnvironment r req) s = (res, s')"
  shows "(db s' = db s \<and> (\<forall>env. res = Inr env \<longrightarrow> (\<exists>row \<in> set (db_environments (db s)). row_of req row)))
    \<or> (\<exists>env. res = Inr env) \<and> reserved req (db s) (db s')"
proof -
  obtain q s1 where q: "run_state (GetEnvironmentByProjectBranch (rc_store r) (ar_Project req) (ar_Branch req)) s = (q, s1)"
    by (cases "run_state (GetEnvironmentByProjectBranch (rc_store r) (ar_Project req) (ar_Branch req)) s")
  then have s1: "db s1 = db s"
    using GetEnvironmentByProjectBranch_effect by fastforce
  show ?thesis
  proof (cases q)
    case (Inr env)
    with assms q s1 show ?thesis
      using found_row [OF q [unfolded Inr]] by (auto simp: upsertPendingEnvironment_def run_err)
  next
    case (Inl err)
    show ?thesis
    proof (cases "errors_Is err ErrNotFound")
      case False
      with Inl assms q s1 show ?thesis
        by (auto simp: upsertPendingEnvironment_def run_err fails_def)
    next
      case True
      let ?env = "empty_Environment\<lparr>env_Project := ar_Project req, env_Branch := ar_Branch req,
        env_PRNumber := ar_PRNumber req, env_Subdomain := ar_Subdomain req,
        env_ArtifactRef := ar_ArtifactRef req, env_Status := StatusPending\<rparr>"
      have "run_state (CreateEnvironment (rc_store r) ?env) s1 = (res, s')"
        using assms q Inl True by (simp add: upsertPendingEnvironment_def run_err)
      from CreateEnvironment_effect [OF this] s1 show ?thesis
        by (auto simp: row_of_def environment_args_def dest: inserted_row [where req = req] split: sum.splits)
    qed
  qed
qed

lemma reserve_effect:
  assumes "run_state (admission_reserve r req) s = (x, s')"
  shows "(db s' = db s \<and> (x = Inr [] \<longrightarrow> (\<exists>row \<in> set (db_environments (db s)). row_of req row)))
    \<or> x = Inr [] \<and> count_live (db s) < rc_maxConcurrent r \<and> reserved req (db s) (db s')"
proof -
  obtain q s1 where q: "run_state (GetEnvironmentByProjectBranch (rc_store r) (ar_Project req) (ar_Branch req)) s = (q, s1)"
    by (cases "run_state (GetEnvironmentByProjectBranch (rc_store r) (ar_Project req) (ar_Branch req)) s")
  then have s1: "db s1 = db s"
    using GetEnvironmentByProjectBranch_effect by fastforce
  obtain n s2 where n: "run_state (query (rc_store r) count_live) s1 = (n, s2)"
    by (cases "run_state (query (rc_store r) count_live) s1")
  then have s2: "db s2 = db s" "\<And>live. n = Inr live \<Longrightarrow> live = count_live (db s)"
    using query_effect [OF n] s1 by auto
  obtain u s3 where u: "run_state (upsertPendingEnvironment r req) s2 = (u, s3)"
    by (cases "run_state (upsertPendingEnvironment r req) s2")
  show ?thesis
  proof (cases q)
    case (Inr env)
    with assms q s1 show ?thesis
      using found_row [OF q [unfolded Inr]] by (auto simp: admission_reserve_def run_err)
  next
    case (Inl err)
    with assms q s1 s2 n u show ?thesis
      using upsert_effect [OF u]
      by (auto simp: admission_reserve_def CountLiveEnvironments_def run_err fails_def split: sum.splits if_splits)
  qed
qed

lemma admit_effect:
  assumes "0 < rc_maxConcurrent r" and "run_state (admit r ev req) s = (x, s')"
  shows "(db s' = db s \<and> (x = Inr [] \<longrightarrow> (\<exists>row \<in> set (db_environments (db s)). row_of req row)))
    \<or> x = Inr [] \<and> Allowed (Decide (rc_policy r) ev) \<and> count_live (db s) < rc_maxConcurrent r
       \<and> reserved req (db s) (db s')"
proof (cases "Allowed (Decide (rc_policy r) ev)")
  case False
  then have "Reason (Decide (rc_policy r) ev) \<noteq> []"
    using decide_admits_by_the_rules by blast
  with False assms(2) show ?thesis
    by (auto simp: admit_def Let_def)
next
  case True
  obtain y s1 where y: "run_state (admission_reserve r req) (s\<lparr>log := AdmissionLocked # log s\<rparr>) = (y, s1)"
    by (cases "run_state (admission_reserve r req) (s\<lparr>log := AdmissionLocked # log s\<rparr>)")
  with True assms have "x = y" "db s' = db s1"
    by (auto simp: admit_def Let_def)
  with reserve_effect [OF y] True show ?thesis
    by simp
qed

text \<open>
  C17: the ceiling holds. With a limit, an admission changes the table in one way only: for a branch
  that has no row, while fewer environments than the limit are live, it adds the pending row that
  takes the slot, and admits. A request that is admitted has its row; one that is skipped or fails
  has changed nothing, whatever the driver answers. And since the admissions of all webhooks go
  through one mutex, any number of them keeps the count of live environments at or below the limit.
\<close>

theorem admission_ceiling:
  assumes "0 < rc_maxConcurrent r" and "run_state (admit r ev req) s = (x, s')"
  shows "(x = Inr [] \<longrightarrow> (\<exists>row \<in> set (db_environments (db s')). row_of req row))
    \<and> (db s' \<noteq> db s \<longrightarrow> x = Inr [] \<and> Allowed (Decide (rc_policy r) ev) \<and> reserved req (db s) (db s')
        \<and> count_live (db s') = count_live (db s) + 1 \<and> count_live (db s') \<le> rc_maxConcurrent r)
    \<and> keeps (\<lambda>s. count_live (db s) \<le> rc_maxConcurrent r) (run_each (\<lambda>(ev, req). do { _ \<leftarrow> admit r ev req; ret () }) batch)"
proof -
  have "\<exists>row \<in> set (db_environments (db s')). row_of req row" if "reserved req (db s) (db s')"
    using that by (auto simp: reserved_def)
  moreover have "keeps (\<lambda>s. count_live (db s) \<le> rc_maxConcurrent r) (admit r ev req)" for ev req
    by (rule keepsI) (use admit_effect [OF assms(1)] reserved_count in fastforce)
  then have "keeps (\<lambda>s. count_live (db s) \<le> rc_maxConcurrent r) (run_each (\<lambda>(ev, req). do { _ \<leftarrow> admit r ev req; ret () }) batch)"
    by (intro keeps_rules) (auto intro!: keeps_rules)
  ultimately show ?thesis
    using admit_effect [OF assms] by (auto dest: reserved_count)
qed

section \<open>An example\<close>

text \<open>One environment is live and two may be; a push to another branch takes the last slot.\<close>

definition ex_limited :: "example_world Reconciler" where
  "ex_limited = ex_reconciler\<lparr>rc_maxConcurrent := 2\<rparr>"

definition ex_push :: Event where
  "ex_push = empty_Event\<lparr>pe_Kind := ''branch_pushed'', pe_Project := ''p'', pe_Branch := ''c''\<rparr>"

definition ex_request :: ApplyRequest where
  "ex_request = ApplyRequestFromEvent ex_push ''c''"

definition ex_admitted :: "example_world sys" where
  "ex_admitted = snd (run_state (admit ex_limited ex_push ex_request) ex_sys)"

lemma ex_admitted_live: "count_live (db ex_sys) = 1 \<and> count_live (db ex_admitted) = 2"
  by code_simp

theorem admission_ceiling_witness:
  "reserved ex_request (db ex_sys) (db ex_admitted)"
proof -
  have "0 < rc_maxConcurrent ex_limited"
    by (simp add: ex_limited_def)
  moreover have "db ex_admitted \<noteq> db ex_sys"
    using ex_admitted_live by auto
  ultimately show ?thesis
    using admission_ceiling [OF _ prod.collapse [symmetric], of ex_limited ex_push ex_request ex_sys]
    unfolding ex_admitted_def by blast
qed

end
