(* ===== verification/Total_Store.thy ===== *)
theory Total_Store
  imports Store_Theorems Program_Logic
begin

text \<open>
  A Hoare logic for total correctness on the database. It speaks of sets of worlds between which the
  operations move and in which the driver works, hides the log and the counters, and says that a
  call ends with its postcondition; with the rules, what the operations of the store yield.
\<close>

section \<open>Total correctness on the database\<close>

text \<open>
  From every world of the first set the call returns a value with the property and leads into the
  second set; often they are the same.
\<close>

definition takes :: "'w set \<Rightarrow> 'w set \<Rightarrow> ('w, 'a) state \<Rightarrow> ('a \<Rightarrow> bool) \<Rightarrow> bool" where
  "takes V W m P \<longleftrightarrow> (\<forall>w \<in> V. case run_state m w of (a, w') \<Rightarrow> P a \<and> w' \<in> W)"

abbreviation fine :: "'w set \<Rightarrow> ('w, 'a) state \<Rightarrow> ('a \<Rightarrow> bool) \<Rightarrow> bool" where
  "fine W \<equiv> takes W W"

definition moves :: "'w set \<Rightarrow> 'w set \<Rightarrow> database \<Rightarrow> ('w sys, 'a) state \<Rightarrow> ('a \<Rightarrow> database \<Rightarrow> bool) \<Rightarrow> bool" where
  "moves V W d m Q \<longleftrightarrow> (\<forall>s. db s = d \<longrightarrow> ext s \<in> V \<longrightarrow> wp m (\<lambda>a s'. ext s' \<in> W \<and> Q a (db s')) s)"

abbreviation yields :: "'w set \<Rightarrow> database \<Rightarrow> ('w sys, 'a) state \<Rightarrow> ('a \<Rightarrow> database \<Rightarrow> bool) \<Rightarrow> bool" where
  "yields W \<equiv> moves W W"

lemma movesD:
  "moves V W d m Q \<Longrightarrow> db s = d \<Longrightarrow> ext s \<in> V \<Longrightarrow> run_state m s = (a, s') \<Longrightarrow> ext s' \<in> W \<and> Q a (db s')"
  unfolding moves_def using wpD by fastforce

lemma yields_ret: "Q a d \<Longrightarrow> yields W d (ret a) Q"
  by (simp add: moves_def wp_simps)

lemma moves_bind:
  assumes "moves U V d m R" and "\<And>a d'. R a d' \<Longrightarrow> moves V W d' (f a) Q"
  shows "moves U W d (State_Monad.bind m f) Q"
  unfolding moves_def wp_bind
proof (intro allI impI)
  fix s :: "'a sys"
  assume "db s = d" "ext s \<in> U"
  with assms(1) have "wp m (\<lambda>a s'. ext s' \<in> V \<and> R a (db s')) s"
    by (simp add: moves_def)
  then show "wp m (\<lambda>a. wp (f a) (\<lambda>a s'. ext s' \<in> W \<and> Q a (db s'))) s"
    by (rule wp_mono) (use assms(2) in \<open>auto simp: moves_def\<close>)
qed

lemma moves_mono: "moves V W d m R \<Longrightarrow> (\<And>a d'. R a d' \<Longrightarrow> Q a d') \<Longrightarrow> moves V W d m Q"
  unfolding moves_def by (blast intro: wp_mono)

text \<open>A call that may report an error, and one that does not.\<close>

lemma moves_on_err:
  assumes "moves U V d m R" and "\<And>e d'. R (Inl e) d' \<Longrightarrow> moves V W d' (h e) Q"
    and "\<And>a d'. R (Inr a) d' \<Longrightarrow> moves V W d' (k a) Q"
  shows "moves U W d (on_err m h k) Q"
  unfolding on_err_def
  by (rule moves_bind [OF assms(1)]) (use assms(2,3) in \<open>auto split: sum.splits\<close>)

lemma moves_no_err:
  assumes "moves U V d m (\<lambda>x d'. \<exists>a. x = Inr a \<and> R a d')" and "\<And>a d'. R a d' \<Longrightarrow> moves V W d' (k a) Q"
  shows "moves U W d (on_err m h k) Q"
  by (rule moves_on_err [OF assms(1)]) (use assms(2) in auto)

lemma moves_nil_err:
  assumes "moves U V d m (\<lambda>x d'. x = None \<and> R d')" and "\<And>d'. R d' \<Longrightarrow> moves V W d' k Q"
  shows "moves U W d (if_err m h k) Q"
  unfolding if_err_def by (rule moves_bind [OF assms(1)]) (use assms(2) in auto)

lemma moves_outside: "takes V W m P \<Longrightarrow> (\<And>a. P a \<Longrightarrow> Q a d) \<Longrightarrow> moves V W d (outside m) Q"
  by (auto simp: moves_def takes_def wp_def split: prod.splits)

lemma moves_provider_call: "takes V W m P \<Longrightarrow> (\<And>a. P a \<Longrightarrow> Q a d) \<Longrightarrow> moves V W d (provider_call c m) Q"
  by (auto simp: moves_def takes_def wp_def split: prod.splits)

text \<open>The rules for one set of worlds.\<close>

lemmas yields_bind = moves_bind [where U = W and V = W and W = W for W]
lemmas yields_mono = moves_mono [where V = W and W = W for W]
lemmas yields_on_err = moves_on_err [where U = W and V = W and W = W for W]
lemmas yields_no_err = moves_no_err [where U = W and V = W and W = W for W]
lemmas yields_nil_err = moves_nil_err [where U = W and V = W and W = W for W]
lemmas yields_outside = moves_outside [where V = W and W = W for W]
lemmas yields_provider_call = moves_provider_call [where V = W and W = W for W]

lemma yields_quiet: "Q () d \<Longrightarrow> yields W d (log_call c) Q" "Q () d \<Longrightarrow> yields W d (count f) Q"
  by (simp_all add: moves_def wp_def)

text \<open>Reading and writing the tables.\<close>

lemma yields_db:
  "(\<And>s. db s = d \<Longrightarrow> Q s d) \<Longrightarrow> yields W d get_state Q" "P () d' \<Longrightarrow> yields W d (set_db d') P"
  by (simp_all add: moves_def wp_def)

section \<open>Statements of a driver without faults\<close>

definition no_fault :: "'w set \<Rightarrow> 'w runtime \<Rightarrow> bool" where
  "no_fault W rt \<longleftrightarrow> fine W (rt_sql rt) (\<lambda>e. e = None) \<and> fine W (rt_Now rt) (\<lambda>_. True)"

lemma yields_sql: "no_fault W rt \<Longrightarrow> yields W d k Q \<Longrightarrow> yields W d (if_err (outside (rt_sql rt)) h k) Q"
  unfolding no_fault_def
  by (rule yields_nil_err [where R = "\<lambda>d'. d' = d", OF yields_outside]) auto

lemma yields_query: "no_fault W rt \<Longrightarrow> Q (Inr (sel d)) d \<Longrightarrow> yields W d (query rt sel) Q"
  unfolding query_def
  by (intro yields_sql yields_bind [where R = "\<lambda>s d'. db s = d \<and> d' = d", OF yields_db(1)]) (auto intro: yields_ret)

lemma yields_exec_insert:
  "no_fault W rt \<Longrightarrow> stmt d = Inr d' \<Longrightarrow> Q None d' \<Longrightarrow> yields W d (exec_insert rt stmt) Q"
  unfolding exec_insert_def
  by (intro yields_sql yields_bind [where R = "\<lambda>s d'. db s = d \<and> d' = d", OF yields_db(1)])
    (auto intro!: yields_ret yields_bind [where R = "\<lambda>_ d''. d'' = d'", OF yields_db(2)])

lemma yields_inserted:
  assumes "no_fault W rt" and "stmt d = Inr d'" and "yields W d' k Q"
  shows "yields W d (if_err (exec_insert rt stmt) h k) Q"
proof (rule yields_nil_err)
  show "yields W d (exec_insert rt stmt) (\<lambda>x d''. x = None \<and> d'' = d')"
    by (rule yields_exec_insert [where stmt = stmt and d' = d']) (use assms(1,2) in simp_all)
  show "yields W d'' k Q" if "d'' = d'" for d''
    using assms(3) that by simp
qed

lemma yields_exec_rows:
  "no_fault W rt \<Longrightarrow> stmt d = (n, d') \<Longrightarrow> Q (Inr n) d' \<Longrightarrow> yields W d (exec_rows rt stmt) Q"
  unfolding exec_rows_def
  by (intro yields_sql yields_bind [where R = "\<lambda>s d'. db s = d \<and> d' = d", OF yields_db(1)])
    (auto intro!: yields_ret yields_sql yields_bind [where R = "\<lambda>_ d''. d'' = d'", OF yields_db(2)])

section \<open>Operations of the store\<close>

text \<open>
  The rows of the environments of other branches, and what a step for one branch leaves alone: they
  and the events.
\<close>

definition other_rows :: "string \<Rightarrow> string \<Rightarrow> database \<Rightarrow> environment_row list" where
  "other_rows p b d = filter (\<lambda>r. \<not> (er_project r = p \<and> er_branch r = b)) (db_environments d)"

definition only_branch :: "string \<Rightarrow> string \<Rightarrow> database \<Rightarrow> database \<Rightarrow> bool" where
  "only_branch p b d d' \<longleftrightarrow> db_wf d' \<and> db_events d' = db_events d \<and> other_rows p b d' = other_rows p b d"

lemma only_branch_refl: "db_wf d \<Longrightarrow> only_branch p b d d"
  by (simp add: only_branch_def)

lemma only_branch_trans [trans]: "only_branch p b d d' \<Longrightarrow> only_branch p b d' d'' \<Longrightarrow> only_branch p b d d''"
  by (simp add: only_branch_def)

text \<open>The row of an environment, as the reconciler has it in hand.\<close>

definition has_row :: "database \<Rightarrow> Environment \<Rightarrow> string \<Rightarrow> bool" where
  "has_row d env st \<longleftrightarrow> (\<exists>row. select_environment (env_ID env) d = Some row \<and> er_project row = env_Project env
     \<and> er_branch row = env_Branch env \<and> er_status row = st)"

text \<open>The environment a write returns is the row it left.\<close>

definition row_is :: "Environment \<Rightarrow> database \<Rightarrow> bool" where
  "row_is env d \<longleftrightarrow> select_environment (env_ID env) d = Some (environment_args env)"

lemma row_is_row: "row_is env d \<Longrightarrow> has_row d env (env_Status env)"
  by (simp add: row_is_def has_row_def)

lemma only_branch_update:
  assumes "db_wf d" and "update_environment row d = Inr (n, d')"
    and "select_environment (er_id row) d = Some cur" and "er_project cur = p" and "er_branch cur = b"
    and "er_project row = p" and "er_branch row = b"
  shows "only_branch p b d d'"
proof -
  have d': "db_environments d' = map (\<lambda>r. if er_id r = er_id row then set_columns row r else r) (db_environments d)"
    using assms(2,3) select_environment_SomeD by (fastforce simp: update_environment_def list_ex_iff split: if_splits)
  have "r = cur" if "r \<in> set (db_environments d)" "er_id r = er_id row" for r
    using select_environment_Some [OF assms(1) that(1)] that(2) assms(3) by simp
  then have "\<forall>r \<in> set (db_environments d). er_id r = er_id row \<longrightarrow> er_project r = p \<and> er_branch r = b"
    using assms(4,5) by blast
  then have "filter (\<lambda>r. \<not> (er_project r = p \<and> er_branch r = b)) (map (\<lambda>r. if er_id r = er_id row then set_columns row r else r) es)
      = filter (\<lambda>r. \<not> (er_project r = p \<and> er_branch r = b)) es" if "set es \<subseteq> set (db_environments d)" for es
    using that assms(6,7) by (induction es) auto
  then show ?thesis
    using db_wf_update_environment [OF assms(1,2)] assms(2) by (simp add: only_branch_def other_rows_def d')
qed

lemma update_succeeds:
  assumes "db_wf d" and "has_row d env st"
  shows "\<exists>n d'. update_environment (environment_args env) d = Inr (n, d') \<and> n \<noteq> 0"
proof -
  obtain cur where cur: "select_environment (env_ID env) d = Some cur"
    "er_project cur = env_Project env" "er_branch cur = env_Branch env"
    using assms(2) by (auto simp: has_row_def)
  then have in_d: "cur \<in> set (db_environments d)" "er_id cur = env_ID env"
    using select_environment_SomeD by blast+
  have "inj_on (\<lambda>r. (er_project r, er_branch r)) (set (db_environments d))"
    using assms(1) by (simp add: db_wf_def envs_wf_def distinct_map)
  then have "r = cur" if "r \<in> set (db_environments d)" "same_branch (environment_args env) r" for r
    using that in_d cur(2,3) by (auto simp: same_branch_def dest: inj_onD)
  with in_d have "\<not> list_ex (\<lambda>r. er_id r \<noteq> env_ID env \<and> same_branch (environment_args env) r) (db_environments d)"
    "list_ex (\<lambda>r. er_id r = env_ID env) (db_environments d)"
    by (auto simp: list_ex_iff)
  then show ?thesis
    by (auto simp: update_environment_def list_ex_iff filter_empty_conv)
qed

text \<open>An environment as it is written: the caller's, but for the two instants the store sets.\<close>

definition written :: "Environment \<Rightarrow> Environment \<Rightarrow> bool" where
  "written env env' \<longleftrightarrow> (\<exists>c t. env' = env\<lparr>env_CreatedAt := c, env_UpdatedAt := t\<rparr>)"

lemma written_simps:
  "written env env' \<Longrightarrow> env_ID env' = env_ID env \<and> env_Project env' = env_Project env \<and> env_Branch env' = env_Branch env
     \<and> env_Status env' = env_Status env \<and> env_DeployRef env' = env_DeployRef env
     \<and> env_LastGoodArtifactRef env' = env_LastGoodArtifactRef env \<and> env_LastGoodDeployRef env' = env_LastGoodDeployRef env"
  by (auto simp: written_def)

lemma yields_GetEnvironment:
  "no_fault W rt \<Longrightarrow> select_environment i d = Some row \<Longrightarrow> Q (Inr (scanEnvironment row)) d \<Longrightarrow> yields W d (GetEnvironment rt i) Q"
  unfolding GetEnvironment_def Let_def
  by (rule yields_no_err [where R = "\<lambda>x d'. x = Some row \<and> d' = d", OF yields_query]) (auto intro: yields_ret)

lemma yields_UpdateEnvironment:
  assumes "no_fault W rt" and "db_wf d" and "has_row d env st" and "CanTransition st (env_Status env)"
  shows "yields W d (UpdateEnvironment rt env) (\<lambda>x d'. \<exists>env'. x = Inr env' \<and> written env env' \<and> row_is env' d'
    \<and> only_branch (env_Project env) (env_Branch env) d d' \<and> db_dns_records d' = db_dns_records d)"
proof -
  obtain cur where cur: "select_environment (env_ID env) d = Some cur" "er_project cur = env_Project env"
    "er_branch cur = env_Branch env" "er_status cur = st"
    using assms(3) by (auto simp: has_row_def)
  let ?Q = "\<lambda>x d'. \<exists>env'. x = Inr env' \<and> written env env' \<and> row_is env' d'
    \<and> only_branch (env_Project env) (env_Branch env) d d' \<and> db_dns_records d' = db_dns_records d"
  have committed: "yields W d (commit_update rt op (env\<lparr>env_UpdatedAt := now\<rparr>) n d') ?Q"
    if u: "update_environment (environment_args (env\<lparr>env_UpdatedAt := now\<rparr>)) d = Inr (n, d')" and n: "n \<noteq> 0" for op now n d'
  proof -
    let ?env' = "env\<lparr>env_CreatedAt := er_created_at cur, env_UpdatedAt := now\<rparr>"
    have "set_columns (environment_args (env\<lparr>env_UpdatedAt := now\<rparr>)) cur = environment_args ?env'"
      using select_environment_SomeD [OF cur(1)] by (simp add: set_columns_def environment_args_def)
    then have st: "select_environment (env_ID env) d' = Some (environment_args ?env')"
      using select_after_update [OF u n] cur(1) by simp
    have "only_branch (env_Project env) (env_Branch env) d d'"
      by (rule only_branch_update [OF assms(2) u]) (use cur in simp_all)
    then have "?Q (Inr ?env') d'"
      using st u by (auto simp: row_is_def written_def)
    then have "?Q (Inr (scanEnvironment (environment_args ?env'))) d'"
      by simp
    then show ?thesis
      unfolding commit_update_def using n st
      by (auto intro!: yields_sql [OF assms(1)] yields_bind [where R = "\<lambda>_ d''. d'' = d'"] yields_db(2) yields_quiet
          yields_GetEnvironment [OF assms(1)] simp del: scanEnvironment_args)
  qed
  have attempted: "yields W d (if_err (outside (rt_sql rt)) h (do { s \<leftarrow> get_state;
      case update_environment (environment_args (env\<lparr>env_UpdatedAt := now\<rparr>)) (db s) of
        Inl e \<Rightarrow> k e | Inr (n, d) \<Rightarrow> commit_update rt op (env\<lparr>env_UpdatedAt := now\<rparr>) n d })) ?Q" for h k op now
  proof -
    have "has_row d (env\<lparr>env_UpdatedAt := now\<rparr>) st"
      using assms(3) by (simp add: has_row_def)
    then obtain n d' where "update_environment (environment_args (env\<lparr>env_UpdatedAt := now\<rparr>)) d = Inr (n, d')" "n \<noteq> 0"
      using update_succeeds [OF assms(2)] by blast
    then show ?thesis
      by (intro yields_sql [OF assms(1)] yields_bind [where R = "\<lambda>s d'. db s = d \<and> d' = d", OF yields_db(1)])
        (use committed in simp_all)
  qed
  show ?thesis
    unfolding UpdateEnvironment_def Let_def
  proof (rule yields_bind [where R = "\<lambda>_ d'. d' = d", OF yields_outside [where P = "\<lambda>_. True"]], goal_cases)
    case 1
    then show ?case
      using assms(1) by (simp add: no_fault_def)
  next
    case (3 now d')
    have "yields W d (query rt (select_environment (env_ID env))) (\<lambda>x d'. x = Inr (Some cur) \<and> d' = d)"
      by (rule yields_query [OF assms(1)]) (simp add: cur)
    moreover have "CanTransition (er_status cur) (env_Status env)"
      using assms(4) cur by simp
    ultimately show ?case
      using 3 by (intro yields_sql [OF assms(1)] yields_no_err [where R = "\<lambda>x d'. x = Some cur \<and> d' = d"])
        (use attempted in \<open>simp_all add: validateTransition_def\<close>)
  qed simp
qed

lemma yields_GetEnvironmentByProjectBranch:
  assumes "no_fault W rt"
    and "\<And>row. select_by_branch p b d = Some row \<Longrightarrow> Q (Inr (scanEnvironment row)) d"
    and "\<And>e. select_by_branch p b d = None \<Longrightarrow> errors_Is e ErrNotFound \<Longrightarrow> Q (Inl e) d"
  shows "yields W d (GetEnvironmentByProjectBranch rt p b) Q"
  unfolding GetEnvironmentByProjectBranch_def Let_def
  by (rule yields_no_err [where R = "\<lambda>x d'. x = select_by_branch p b d \<and> d' = d", OF yields_query [OF assms(1)]])
    (use assms(2,3) in \<open>auto simp: fails_def intro!: yields_ret split: option.splits\<close>)

text \<open>The identifiers the store makes are new to the database.\<close>

definition new_ids :: "'w set \<Rightarrow> 'w runtime \<Rightarrow> database \<Rightarrow> bool" where
  "new_ids W rt d \<longleftrightarrow> (\<forall>s. ext s \<in> W \<longrightarrow> (\<exists>i w. run_state (newID rt) s = (Inr i, s\<lparr>ext := w\<rparr>) \<and> w \<in> W
     \<and> i \<notin> er_id ` set (db_environments d) \<and> i \<notin> dr_ID ` set (db_dns_records d)))"

lemma yields_newID:
  "new_ids W rt d0 \<Longrightarrow> yields W d (id_or_new rt []) (\<lambda>x d'. \<exists>i. x = Inr i
     \<and> i \<notin> er_id ` set (db_environments d0) \<and> i \<notin> dr_ID ` set (db_dns_records d0) \<and> d' = d)"
  by (fastforce simp: moves_def wp_def new_ids_def id_or_new_def)

lemma yields_CreateEnvironment:
  assumes "no_fault W rt" and "new_ids W rt d" and "db_wf d" and "env_ID env = []"
    and "select_by_branch (env_Project env) (env_Branch env) d = None"
  shows "yields W d (CreateEnvironment rt env) (\<lambda>x d'. \<exists>env'. x = Inr env' \<and> env_Status env' = env_Status env
    \<and> env_Project env' = env_Project env \<and> env_Branch env' = env_Branch env \<and> row_is env' d'
    \<and> only_branch (env_Project env) (env_Branch env) d d' \<and> db_dns_records d' = db_dns_records d)"
    (is "yields W d _ ?Q")
proof -
  have inserted: "yields W d (if_err (exec_insert rt (insert_environment (environment_args env'))) h
      (do { log_call c; ret (Inr env') })) ?Q"
    if "env' = env\<lparr>env_ID := i, env_CreatedAt := now, env_UpdatedAt := now\<rparr>"
      "i \<notin> er_id ` set (db_environments d)" for i now h c env'
  proof -
    let ?row = "environment_args env'" and ?d = "d\<lparr>db_environments := db_environments d @ [environment_args env']\<rparr>"
    have "\<forall>r \<in> set (db_environments d). \<not> (er_project r = env_Project env \<and> er_branch r = env_Branch env)"
      using assms(5) by (auto simp: select_by_branch_def find_None_iff)
    then have ins: "insert_environment ?row d = Inr ?d"
      using that by (auto simp: insert_environment_Inr)
    have "row_is env' ?d"
      using select_after_insert [OF ins] by (simp add: row_is_def)
    moreover have "only_branch (env_Project env) (env_Branch env) d ?d"
      using db_wf_insert_environment [OF assms(3) ins] that(1) by (simp add: only_branch_def other_rows_def)
    ultimately have "?Q (Inr env') ?d"
      using that(1) by simp
    then have "yields W ?d (do { log_call c; ret (Inr env') }) ?Q"
      by (intro yields_bind [where R = "\<lambda>_ d'. d' = ?d"] yields_quiet(1)) (auto intro: yields_ret)
    then show ?thesis
      by (rule yields_inserted [OF assms(1), rotated]) (rule ins)
  qed
  show ?thesis
    unfolding CreateEnvironment_def Let_def assms(4)
  proof (rule yields_no_err [OF yields_newID [OF assms(2)]], elim conjE, goal_cases)
    case (1 i d')
    then show ?case
      using assms(1) inserted by (intro yields_bind [where R = "\<lambda>_ d'. d' = d", OF yields_outside [where P = "\<lambda>_. True"]])
        (simp_all add: no_fault_def)
  qed
qed

lemma yields_CreateDNSRecord:
  assumes "no_fault W rt" and "new_ids W rt d0" and "db_dns_records d = db_dns_records d0" and "db_wf d"
    and "dr_ID rec = []" and "dr_EnvironmentID rec \<in> er_id ` set (db_environments d)"
  shows "yields W d (CreateDNSRecord rt rec) (\<lambda>x d'. \<exists>rec'. x = Inr rec' \<and> db_environments d' = db_environments d
    \<and> db_events d' = db_events d \<and> db_wf d')"
    (is "yields W d _ ?Q")
proof -
  have inserted: "yields W d (if_err (exec_insert rt (insert_dns_record (rec\<lparr>dr_ID := i, dr_CreatedAt := now\<rparr>))) h
      (ret (Inr (rec\<lparr>dr_ID := i, dr_CreatedAt := now\<rparr>)))) ?Q" if "i \<notin> dr_ID ` set (db_dns_records d)" for i now h
  proof -
    let ?rec = "rec\<lparr>dr_ID := i, dr_CreatedAt := now\<rparr>"
    let ?d = "d\<lparr>db_dns_records := db_dns_records d @ [?rec]\<rparr>"
    have ins: "insert_dns_record ?rec d = Inr ?d"
      using that assms(6) by (simp add: insert_dns_record_def list_ex_key)
    then have "?Q (Inr ?rec) ?d"
      using db_wf_insert_dns_record [OF assms(4) ins] by simp
    then have "yields W ?d (ret (Inr ?rec)) ?Q"
      by (rule yields_ret)
    then show ?thesis
      by (rule yields_inserted [OF assms(1), rotated]) (rule ins)
  qed
  show ?thesis
    unfolding CreateDNSRecord_def Let_def assms(5)
  proof (rule yields_no_err [OF yields_newID [OF assms(2)]], elim conjE, goal_cases)
    case (1 i d')
    then show ?case
      using assms(1,3) inserted by (intro yields_bind [where R = "\<lambda>_ d'. d' = d", OF yields_outside [where P = "\<lambda>_. True"]])
        (simp_all add: no_fault_def)
  qed
qed

text \<open>The row of an event among the others.\<close>

definition other_events :: "string \<Rightarrow> database \<Rightarrow> event_row list" where
  "other_events i d = filter (\<lambda>v. vr_id v \<noteq> i) (db_events d)"

lemma in_other_events: "v \<in> set (other_events i d) \<longleftrightarrow> v \<in> set (db_events d) \<and> vr_id v \<noteq> i"
  by (auto simp: other_events_def)

lemma other_events_update:
  assumes "update_events P f d = (n, d')" and "\<And>v. P v \<Longrightarrow> vr_id v = i" and "\<And>v. vr_id (f v) = vr_id v"
  shows "other_events i d' = other_events i d"
proof -
  have "filter (\<lambda>v. vr_id v \<noteq> i) (map (\<lambda>r. if P r then f r else r) vs) = filter (\<lambda>v. vr_id v \<noteq> i) vs" for vs
    using assms(2,3) by (induction vs) auto
  with assms(1) show ?thesis
    by (auto simp: other_events_def update_events_def)
qed

lemma yields_ClaimEvent:
  assumes "no_fault W rt" and "db_wf d" and "row \<in> set (db_events d)" and "due_event now row"
  shows "yields W d (ClaimEvent rt (vr_id row) now later) (\<lambda>x d'. x = Inr True \<and> db_wf d'
    \<and> db_environments d' = db_environments d \<and> db_dns_records d' = db_dns_records d
    \<and> vr_id row \<in> vr_id ` set (db_events d') \<and> other_events (vr_id row) d' = other_events (vr_id row) d)"
proof -
  obtain n d' where c: "claim_event (vr_id row) now later d = (n, d')"
    by fastforce
  have "distinct (map vr_id (db_events d))"
    using assms(2) by (simp add: db_wf_def events_wf_def)
  moreover have "filter (\<lambda>r. vr_id r = vr_id row \<and> due_event now r) vs = [row]"
    if "distinct (map vr_id vs)" "row \<in> set vs" for vs
    using that assms(4) by (induction vs) (auto simp: filter_empty_conv image_iff dest: sym)
  ultimately have "filter (\<lambda>r. vr_id r = vr_id row \<and> due_event now r) (db_events d) = [row]"
    using assms(3) by blast
  then have n: "n = 1"
    using c by (simp add: claim_event_def update_events_def)
  have "other_events (vr_id row) d' = other_events (vr_id row) d"
    using c unfolding claim_event_def by (rule other_events_update) auto
  moreover have "map vr_id (db_events d') = map vr_id (db_events d)" "db_environments d' = db_environments d"
      "db_dns_records d' = db_dns_records d"
    using c by (auto simp: claim_event_def update_events_def)
  then have "vr_id row \<in> vr_id ` set (db_events d')" "db_environments d' = db_environments d"
      "db_dns_records d' = db_dns_records d"
    using assms(3) by (metis image_eqI list.set_map)+
  ultimately have "yields W d (exec_rows rt (claim_event (vr_id row) now later)) (\<lambda>x d'. \<exists>k. x = Inr k \<and> k = 1 \<and> db_wf d'
    \<and> db_environments d' = db_environments d \<and> db_dns_records d' = db_dns_records d
    \<and> vr_id row \<in> vr_id ` set (db_events d') \<and> other_events (vr_id row) d' = other_events (vr_id row) d)"
    using db_wf_claim_event [OF assms(2) c] n
    by (intro yields_exec_rows [OF assms(1), where stmt = "claim_event (vr_id row) now later", OF c]) simp
  then show ?thesis
    unfolding ClaimEvent_def by (rule yields_no_err) (auto intro: yields_ret)
qed

lemma yields_MarkEventProcessed:
  assumes "no_fault W rt" and "i \<in> vr_id ` set (db_events d)"
  shows "yields W d (MarkEventProcessed rt i now) (\<lambda>_ d'. db_environments d' = db_environments d
    \<and> db_dns_records d' = db_dns_records d \<and> other_events i d' = other_events i d
    \<and> (\<exists>v \<in> set (db_events d'). vr_id v = i)
    \<and> (\<forall>v \<in> set (db_events d'). vr_id v = i \<longrightarrow> vr_processed_at v \<noteq> None))"
    (is "yields W d _ ?Q")
proof -
  obtain n d' where m: "mark_processed i now d = (n, d')"
    by fastforce
  have "other_events i d' = other_events i d"
    using m unfolding mark_processed_def by (rule other_events_update) auto
  moreover have "(\<exists>v \<in> set (db_events d'). vr_id v = i) \<and> (\<forall>v \<in> set (db_events d'). vr_id v = i \<longrightarrow> vr_processed_at v \<noteq> None)"
    using assms(2) unfolding update_events_set [OF m [unfolded mark_processed_def]] by (auto simp: bex_Un)
  moreover have "db_environments d' = db_environments d" "db_dns_records d' = db_dns_records d"
    using m by (auto simp: mark_processed_def update_events_def)
  ultimately have "yields W d (exec_rows rt (mark_processed i now)) (\<lambda>_. ?Q None)"
    by (intro yields_exec_rows [OF assms(1), where stmt = "mark_processed i now", OF m]) simp
  then show ?thesis
    unfolding MarkEventProcessed_def exec_mark_def fails_with_def
    by (rule yields_on_err) (auto intro!: yields_ret)
qed

lemma yields_DeleteDNSRecord:
  assumes "no_fault W rt"
  shows "yields W d (DeleteDNSRecord rt i) (\<lambda>x d'. x = None \<and> d' = delete_dns_record i d)"
  unfolding DeleteDNSRecord_def
  by (rule yields_inserted [OF assms, where d' = "delete_dns_record i d"]) (auto intro: yields_ret)

end
