(* ===== verification/Healthy_Runs.thy ===== *)
theory Healthy_Runs
  imports Admission_Ceiling Reconciler_Theorems Total_Store
begin

text \<open>
  What the reconciler promises in good weather: a push that is in the inbox is served, and a branch that
  is closed is torn down. The safety theorems say what a success means; this theory shows that the
  success comes, in every set of worlds in which the providers and the driver work.
\<close>

section \<open>The reconciler in good weather\<close>

lemma yields_ignore: "yields W d m (\<lambda>_. Q) \<Longrightarrow> yields W d (ignore m) (\<lambda>_. Q)"
  unfolding ignore_def by (blast intro: yields_bind yields_ret)

lemma moves_with_lock:
  assumes "moves V W d m Q"
  shows "moves V W d (with_lock p b m) Q"
proof -
  have "moves V W d (do { x \<leftarrow> m; log_call c; ret x }) Q" for c
  proof (rule moves_bind [OF assms])
    show "yields W d' (do { log_call c; ret x }) Q" if "Q x d'" for x d'
      using that by (intro yields_bind [where R = "\<lambda>_. Q x"] yields_quiet(1)) (auto intro: yields_ret)
  qed
  then show ?thesis
    unfolding with_lock_def by (intro moves_bind [where R = "\<lambda>_ d'. d' = d", OF yields_quiet(1)]) auto
qed

text \<open>The driver does not fail and the clock is read; what the notifier answers does not matter.\<close>

definition steady :: "'w set \<Rightarrow> 'w Reconciler \<Rightarrow> bool" where
  "steady W r \<longleftrightarrow> no_fault W (rc_store r) \<and> fine W (rc_Now r) (\<lambda>_. True)
     \<and> (\<forall>p n ev. fine W (np_Notify (rc_notify r) p n ev) (\<lambda>_. True))"

text \<open>
  The deployment of a branch comes up: an apply is taken, and what it started is healthy before the
  readiness wait ends.
\<close>

definition comes_up :: "'w set \<Rightarrow> 'w Reconciler \<Rightarrow> string \<Rightarrow> string \<Rightarrow> bool" where
  "comes_up W r p b \<longleftrightarrow> (\<forall>spec s c. sp_Project spec = p \<longrightarrow> sp_Branch spec = b \<longrightarrow> ext s \<in> W \<longrightarrow>
     (\<exists>dep s1 s2. run_state (provider_call c (dp_Apply (rc_deploy r) spec)) s = (Inr dep, s1)
        \<and> run_state (waitUntilHealthy r (dep_Ref dep)) s1 = (None, s2) \<and> ext s2 \<in> W))"

text \<open>
  What an apply of a branch needs: new identifiers, a deployment that comes up, and for the name of
  the branch a record, a certificate and, where the provider installs it, its installation.
\<close>

definition builds :: "'w set \<Rightarrow> 'w Reconciler \<Rightarrow> string \<Rightarrow> string \<Rightarrow> database \<Rightarrow> bool" where
  "builds W r p b d \<longleftrightarrow> new_ids W (rc_store r) d \<and> comes_up W r p b
   \<and> (let name = fqdn r (Normalize b 63)
      in (\<forall>v. fine W (dns_EnsureRecord (rc_dns r) \<lparr>pr_Zone = rc_baseDomain r, pr_Name = name, pr_Type = ''A'',
              pr_Value = v, pr_OwnershipTag = OwnershipTag p b\<rparr>) (\<lambda>e. e = None))
       \<and> fine W (cp_EnsureCertificate (rc_cert r) name) (\<lambda>x. \<exists>c. x = Inr c)
       \<and> (\<forall>install c k. dp_CertificateInstaller (rc_deploy r) = Some install \<longrightarrow> fine W (install name c k) (\<lambda>e. e = None)))"

definition good_weather :: "'w set \<Rightarrow> 'w Reconciler \<Rightarrow> string \<Rightarrow> string \<Rightarrow> database \<Rightarrow> bool" where
  "good_weather W r p b d \<longleftrightarrow> steady W r \<and> builds W r p b d"

text \<open>The environment is up: its row is ready on the deployment of the revision.\<close>

definition up :: "string \<Rightarrow> Environment \<Rightarrow> database \<Rightarrow> bool" where
  "up artifact env d \<longleftrightarrow> env_Status env = StatusReady \<and> env_LastGoodArtifactRef env = artifact
     \<and> env_LastGoodDeployRef env = env_DeployRef env \<and> row_is env d"

lemma steady_store: "steady W r \<Longrightarrow> no_fault W (rc_store r)"
  by (simp add: steady_def)

lemma good_weatherD:
  "good_weather W r p b d \<Longrightarrow> steady W r" "good_weather W r p b d \<Longrightarrow> no_fault W (rc_store r)"
  "good_weather W r p b d \<Longrightarrow> new_ids W (rc_store r) d"
  by (simp_all add: good_weather_def steady_def builds_def)

lemma yields_notify: "steady W r \<Longrightarrow> Q d \<Longrightarrow> yields W d (notify r p n ev) (\<lambda>_. Q)"
  unfolding notify_def by (rule yields_ignore, rule yields_provider_call [where P = "\<lambda>_. True"]) (auto simp: steady_def)

lemma yields_now: "steady W r \<Longrightarrow> Q d \<Longrightarrow> yields W d (outside (rc_Now r)) (\<lambda>_. Q)"
  by (rule yields_outside [where P = "\<lambda>_. True"]) (auto simp: steady_def)

section \<open>A deployment that comes up\<close>

lemma poll_health_db: "run_state (poll_health r ref deadline n) s = (x, s') \<Longrightarrow> db s' = db s"
  by (induction n arbitrary: s)
    (fastforce simp: run_err provider_call_def log_call_def fails_with_def split: prod.splits option.splits sum.splits if_splits)+

lemma wait_db: "run_state (waitUntilHealthy r ref) s = (x, s') \<Longrightarrow> db s' = db s"
  by (auto simp: waitUntilHealthy_def split: prod.splits dest: poll_health_db)

lemma yields_deployed:
  assumes "comes_up W r p b" and "sp_Project spec = p" and "sp_Branch spec = b" and "\<And>dep. yields W d (k dep) Q"
  shows "yields W d (on_err (provider_call c (dp_Apply (rc_deploy r) spec)) h
     (\<lambda>dep. if_err (waitUntilHealthy r (dep_Ref dep)) g (k dep))) Q"
  unfolding moves_def
proof (intro allI impI)
  fix s :: "'a sys"
  assume s: "db s = d" "ext s \<in> W"
  with assms(1-3) obtain dep s1 s2 where a: "run_state (provider_call c (dp_Apply (rc_deploy r) spec)) s = (Inr dep, s1)"
    and w: "run_state (waitUntilHealthy r (dep_Ref dep)) s1 = (None, s2)" "ext s2 \<in> W"
    unfolding comes_up_def by blast
  have "db s1 = d"
    using a s(1) by (auto simp: provider_call_def split: prod.splits)
  then have "db s2 = d"
    using wait_db [OF w(1)] by simp
  with assms(4) [of dep] w(2) have "wp (k dep) (\<lambda>a s'. ext s' \<in> W \<and> Q a (db s')) s2"
    by (simp add: moves_def)
  then show "wp (on_err (provider_call c (dp_Apply (rc_deploy r) spec)) h
     (\<lambda>dep. if_err (waitUntilHealthy r (dep_Ref dep)) g (k dep))) (\<lambda>a s'. ext s' \<in> W \<and> Q a (db s')) s"
    using a w(1) by (simp add: wp_def run_err)
qed

text \<open>A deployment that is healthy at once comes up.\<close>

lemma healthy_at_once:
  assumes "steady W r" and "fine W (rc_ctx_Err r) (\<lambda>e. e = None)" and "0 < rc_fuel r"
    and "\<And>spec. fine W (dp_Apply (rc_deploy r) spec) (\<lambda>x. \<exists>d. x = Inr d)"
    and "\<And>ref. fine W (dp_HealthCheck (rc_deploy r) ref) (\<lambda>x. \<exists>st. x = Inr st \<and> st_Healthy st)"
  shows "comes_up W r p b"
proof -
  obtain n where n: "rc_fuel r = Suc n"
    using assms(3) by (cases "rc_fuel r") auto
  have "yields W d (poll_health r ref deadline (Suc n)) (\<lambda>x d'. x = None \<and> d' = d)" for d ref deadline
    unfolding poll_health.simps
    by (rule yields_nil_err [where R = "\<lambda>d'. d' = d"], rule yields_outside [OF assms(2)], simp,
        rule yields_no_err [where R = "\<lambda>st d'. st_Healthy st \<and> d' = d"], rule yields_provider_call [OF assms(5)])
      (auto intro: yields_ret)
  then have wait: "yields W d (waitUntilHealthy r ref) (\<lambda>x d'. x = None \<and> d' = d)" for d ref
    unfolding waitUntilHealthy_def n
    by (intro yields_bind [where R = "\<lambda>_ d'. d' = d"] yields_now [OF assms(1)]) simp_all
  have app: "yields W d (provider_call c (dp_Apply (rc_deploy r) spec)) (\<lambda>x d'. (\<exists>a. x = Inr a) \<and> d' = d)" for c spec d
    by (rule yields_provider_call [OF assms(4)]) simp
  show ?thesis
    unfolding comes_up_def
  proof (intro allI impI)
    fix spec :: EnvSpec and s :: "'a sys" and c
    assume s: "ext s \<in> W"
    obtain x s1 where a: "run_state (provider_call c (dp_Apply (rc_deploy r) spec)) s = (x, s1)"
      by fastforce
    then obtain dep where dep: "x = Inr dep" "ext s1 \<in> W"
      using movesD [OF app refl s a] by blast
    obtain y s2 where w: "run_state (waitUntilHealthy r (dep_Ref dep)) s1 = (y, s2)"
      by fastforce
    then show "\<exists>dep s1 s2. run_state (provider_call c (dp_Apply (rc_deploy r) spec)) s = (Inr dep, s1)
        \<and> run_state (waitUntilHealthy r (dep_Ref dep)) s1 = (None, s2) \<and> ext s2 \<in> W"
      using a dep movesD [OF wait refl dep(2) w] by auto
  qed
qed

section \<open>An apply in good weather\<close>

lemma yields_recordDNSRow:
  assumes "good_weather W r p b d0" and "db_dns_records d = db_dns_records d0" and "db_wf d"
    and "i \<in> er_id ` set (db_environments d)"
  shows "yields W d (recordDNSRow r i rec) (\<lambda>x d'. x = None \<and> db_environments d' = db_environments d
    \<and> db_events d' = db_events d \<and> db_wf d')"
proof -
  note rt = good_weatherD(2,3) [OF assms(1)]
  have "yields W d (ListDNSRecords (rc_store r) i) (\<lambda>x d'. \<exists>rs. x = Inr rs \<and> d' = d)"
    unfolding ListDNSRecords_def
    by (rule yields_no_err [where R = "\<lambda>_ d'. d' = d", OF yields_query [OF rt(1)]]) (auto intro: yields_ret)
  then show ?thesis
    unfolding recordDNSRow_def
  proof (rule yields_no_err, goal_cases)
    case (1 rs d')
    have "yields W d (on_err (CreateDNSRecord (rc_store r) \<lparr>dr_ID = [], dr_EnvironmentID = i, dr_RecordType = pr_Type rec,
          dr_Name = pr_Name rec, dr_Value = pr_Value rec, dr_OwnershipTag = pr_OwnershipTag rec, dr_CreatedAt = 0\<rparr>) h (\<lambda>_. ret None))
        (\<lambda>x d'. x = None \<and> db_environments d' = db_environments d \<and> db_events d' = db_events d \<and> db_wf d')" for h
      by (rule yields_no_err [OF yields_CreateDNSRecord [OF rt assms(2,3)]]) (use assms(4) in \<open>auto intro: yields_ret\<close>)
    with 1 assms(3) show ?case
      by (auto intro: yields_ret)
  qed
qed

lemma yields_installCertificate:
  "builds W r p b d0 \<Longrightarrow> yields W d (installCertificate r (fqdn r (Normalize b 63)) c) (\<lambda>x d'. x = None \<and> d' = d)"
  unfolding installCertificate_def
  by (auto simp: builds_def Let_def intro!: yields_ret yields_provider_call [where P = "\<lambda>e. e = None"] split: option.splits)

lemma yields_persist_ready:
  assumes "steady W r" and "db_wf d" and "has_row d env StatusDeploying"
  shows "yields W d (persist_ready r env req ref) (\<lambda>x d'. \<exists>env'. x = (env', None) \<and> up (ar_ArtifactRef req) env' d'
    \<and> env_Project env' = env_Project env \<and> env_Branch env' = env_Branch env
    \<and> only_branch (env_Project env) (env_Branch env) d d')"
proof -
  note w = steady_store [OF assms(1)] assms(1)
  let ?R = "\<lambda>e. env_ID e = env_ID env \<and> env_Project e = env_Project env \<and> env_Branch e = env_Branch env
    \<and> env_Status e = StatusReady \<and> env_LastGoodArtifactRef e = ar_ArtifactRef req \<and> env_LastGoodDeployRef e = env_DeployRef e"
  have ct: "CanTransition StatusDeploying StatusReady"
    by (simp add: CanTransition_def allowedTransitions_def)
  show ?thesis
    unfolding persist_ready_def Let_def
  proof (rule yields_bind [where R = "\<lambda>e d'. ?R e \<and> d' = d"], goal_cases)
    case 1
    show ?case
      by (auto intro!: yields_ret yields_bind [where R = "\<lambda>_ d'. d' = d"] yields_now [OF w(2)])
  next
    case (2 e d')
    then have "has_row d e StatusDeploying"
      using assms(3) by (simp add: has_row_def)
    with 2 show ?case
      by (intro yields_no_err [OF yields_UpdateEnvironment [OF w(1), where st = StatusDeploying]])
        (auto simp: assms(2) ct up_def dest: written_simps intro!: yields_ret)
  qed
qed

lemma yields_attemptApply:
  assumes "good_weather W r (ar_Project req) (ar_Branch req) d0" and "db_dns_records d = db_dns_records d0" and "db_wf d"
    and "has_row d env StatusDeploying"
  shows "yields W d (attemptApply r env req (fqdn r (Normalize (ar_Branch req) 63)) (OwnershipTag (ar_Project req) (ar_Branch req)))
    (\<lambda>x d'. \<exists>env'. x = (env', None) \<and> up (ar_ArtifactRef req) env' d'
    \<and> env_Project env' = env_Project env \<and> env_Branch env' = env_Branch env
    \<and> only_branch (env_Project env) (env_Branch env) d d')"
    (is "yields W d _ ?Q")
proof -
  have w: "builds W r (ar_Project req) (ar_Branch req) d0" "comes_up W r (ar_Project req) (ar_Branch req)"
    using assms(1) by (simp_all add: good_weather_def builds_def)
  have i: "env_ID env \<in> er_id ` set (db_environments d)"
    using assms(4) select_environment_None [of "env_ID env" d] by (auto simp: has_row_def)
  have persisted: "yields W d' (persist_ready r env req ref) ?Q"
    if "db_environments d' = db_environments d" "db_events d' = db_events d" "db_wf d'" for d' ref
  proof -
    have "has_row d' env StatusDeploying"
      using assms(4) that(1) by (simp add: has_row_def select_environment_def)
    then show ?thesis
      by (rule yields_mono [OF yields_persist_ready [OF good_weatherD(1) [OF assms(1)] that(3)]])
        (use that(1,2) in \<open>auto simp: only_branch_def other_rows_def\<close>)
  qed
  have ensured: "yields W d (provider_call c (dns_EnsureRecord (rc_dns r) \<lparr>pr_Zone = rc_baseDomain r,
      pr_Name = fqdn r (Normalize (ar_Branch req) 63), pr_Type = ''A'', pr_Value = v,
      pr_OwnershipTag = OwnershipTag (ar_Project req) (ar_Branch req)\<rparr>)) (\<lambda>x d'. x = None \<and> d' = d)" for c v
    by (rule yields_provider_call [where P = "\<lambda>e. e = None"]) (use w in \<open>auto simp: builds_def Let_def\<close>)
  have certified: "yields W d (provider_call c (cp_EnsureCertificate (rc_cert r) (fqdn r (Normalize (ar_Branch req) 63))))
      (\<lambda>x d'. \<exists>a. x = Inr a \<and> d' = d)" for c
    by (rule yields_provider_call [where P = "\<lambda>x. \<exists>a. x = Inr a"]) (use w in \<open>auto simp: builds_def Let_def\<close>)
  show ?thesis
    unfolding attemptApply_def Let_def
    by (rule yields_deployed [OF w(2)], simp, simp,
        rule yields_nil_err [OF ensured], hypsubst, rule yields_no_err [OF certified], hypsubst,
        rule yields_nil_err [OF yields_installCertificate [OF w(1)]], hypsubst,
        rule yields_nil_err [OF yields_recordDNSRow [OF assms(1-3) i]]) (simp add: persisted)
qed

text \<open>When the first attempt succeeds, there is no second.\<close>

lemma first_attempt:
  assumes "yields W d (attemptApply r env req name tag) R" and "\<And>x d'. R x d' \<Longrightarrow> \<exists>env'. x = (env', None) \<and> Q (Inr env') d'"
  shows "yields W d (apply_attempts r req name tag (Suc n) 1 env e) Q"
proof -
  have "yields W d (attemptApply r env req name tag \<bind> (\<lambda>res. case res of (env', None) \<Rightarrow> ret (Inr env')
      | (env', Some err) \<Rightarrow> apply_attempts r req name tag n (1 + 1) env' err)) Q"
  proof (rule yields_bind [OF assms(1)])
    fix x d'
    assume "R x d'"
    with assms(2) obtain env' where "x = (env', None)" "Q (Inr env') d'"
      by blast
    then show "yields W d' (case x of (env', None) \<Rightarrow> ret (Inr env')
        | (env', Some err) \<Rightarrow> apply_attempts r req name tag n (1 + 1) env' err) Q"
      by (simp add: yields_ret)
  qed
  then show ?thesis
    unfolding apply_attempts.simps
    by (intro yields_bind [where R = "\<lambda>_ d'. d' = d" and m = "if 1 < (1 :: int) then m else ret ()" for m])
      (simp add: yields_ret, hypsubst)
qed

lemma yields_doApply:
  assumes "good_weather W r (ar_Project req) (ar_Branch req) d0" and "db_dns_records d = db_dns_records d0" and "db_wf d"
    and "has_row d env st" and "CanTransition st StatusDeploying" and "ar_Subdomain req = Normalize (ar_Branch req) 63"
  shows "yields W d (doApply r env req) (\<lambda>x d'. \<exists>env'. x = Inr env' \<and> up (ar_ArtifactRef req) env' d'
    \<and> env_Project env' = env_Project env \<and> env_Branch env' = env_Branch env
    \<and> only_branch (env_Project env) (env_Branch env) d d')"
    (is "yields W d _ ?Q")
proof -
  note w = good_weatherD(2,1) [OF assms(1)]
  let ?env1 = "env\<lparr>env_PRNumber := ar_PRNumber req, env_Subdomain := ar_Subdomain req,
    env_ArtifactRef := ar_ArtifactRef req, env_Status := StatusDeploying\<rparr>"
  have row: "has_row d ?env1 st" and ct: "CanTransition st (env_Status ?env1)"
    using assms(4,5) by (simp_all add: has_row_def)
  show ?thesis
    unfolding doApply_def Let_def assms(6)
  proof (rule yields_no_err [OF yields_UpdateEnvironment [OF w(1) assms(3) row [unfolded assms(6)] ct [unfolded assms(6)]]], elim conjE, goal_cases)
    case (1 env2 d2)
    have attempted: "yields W d2 (apply_attempts r req (fqdn r (Normalize (ar_Branch req) 63)) (OwnershipTag (ar_Project req) (ar_Branch req)) (nat maxApplyAttempts) 1 env2 Diverges)
        (\<lambda>x d'. \<exists>env'. x = Inr env' \<and> up (ar_ArtifactRef req) env' d' \<and> env_Project env' = env_Project env2
          \<and> env_Branch env' = env_Branch env2 \<and> only_branch (env_Project env2) (env_Branch env2) d2 d')"
    proof -
      have n: "nat maxApplyAttempts = Suc 4"
        by simp
      have "db_wf d2" "has_row d2 env2 StatusDeploying" "db_dns_records d2 = db_dns_records d0"
        using 1 row_is_row [of env2 d2] written_simps [OF 1(1)] assms(2) by (simp_all add: only_branch_def)
      from yields_attemptApply [OF assms(1) this(3,1,2)] show ?thesis
        unfolding n by (rule first_attempt) auto
    qed
    show ?case
    proof (rule yields_bind [OF attempted], elim exE conjE, goal_cases)
      case (1 x d3 env')
      then show ?case
        using \<open>written _ _\<close> \<open>only_branch _ _ d d2\<close>
        by (auto dest!: written_simps intro: only_branch_trans
            intro!: yields_bind [where R = "\<lambda>_ d'. d' = d3"] yields_notify [OF w(2)] yields_ret)
    qed
  qed
qed

section \<open>From the inbox to a ready environment\<close>

lemma select_branch_iff:
  assumes "db_wf d"
  shows "select_by_branch p b d = Some row \<longleftrightarrow> row \<in> set (db_environments d) \<and> er_project row = p \<and> er_branch row = b"
proof -
  have "List.find (\<lambda>r. (er_project r, er_branch r) = (er_project row, er_branch row)) (db_environments d) = Some row"
    if "row \<in> set (db_environments d)"
    by (rule find_distinct_key) (use assms that in \<open>auto simp: db_wf_def envs_wf_def\<close>)
  then show ?thesis
    using select_by_branch_SomeD [of p b d row] by (auto simp: select_by_branch_def)
qed

text \<open>The branch has no environment, or one that may be deployed.\<close>

definition deployable :: "string \<Rightarrow> string \<Rightarrow> database \<Rightarrow> bool" where
  "deployable p b d \<longleftrightarrow> (\<forall>row. select_by_branch p b d = Some row \<longrightarrow> CanTransition (er_status row) StatusDeploying)"

text \<open>
  What stands between the steps of a webhook event: new identifiers are new to the database as long
  as the branch may still need its row.
\<close>

definition under_way :: "string \<Rightarrow> string \<Rightarrow> database \<Rightarrow> database \<Rightarrow> bool" where
  "under_way p b d0 d \<longleftrightarrow> only_branch p b d0 d \<and> db_dns_records d = db_dns_records d0 \<and> deployable p b d
     \<and> (d = d0 \<or> select_by_branch p b d \<noteq> None)"

lemma under_way_row:
  assumes "under_way p b d0 d" and "select_by_branch p b d = Some row"
  shows "has_row d (scanEnvironment row) (er_status row) \<and> env_Project (scanEnvironment row) = p
    \<and> env_Branch (scanEnvironment row) = b \<and> CanTransition (er_status row) StatusDeploying"
  using assms select_environment_Some [of d row]
  by (auto simp: under_way_def only_branch_def has_row_def deployable_def scanEnvironment_def select_branch_iff)

lemma yields_upsert:
  assumes "good_weather W r p b d0" and "under_way p b d0 d" and "ar_Project req = p" and "ar_Branch req = b"
  shows "yields W d (upsertPendingEnvironment r req) (\<lambda>x d'. \<exists>env. x = Inr env \<and> (\<exists>st. has_row d' env st
    \<and> CanTransition st StatusDeploying) \<and> env_Project env = p \<and> env_Branch env = b \<and> under_way p b d0 d'
    \<and> select_by_branch p b d' \<noteq> None)"
    (is "yields W d _ ?Q")
proof -
  note rt = good_weatherD(2) [OF assms(1)] and ids = good_weatherD(3) [OF assms(1)]
  let ?env = "empty_Environment\<lparr>env_Project := p, env_Branch := b, env_PRNumber := ar_PRNumber req,
    env_Subdomain := ar_Subdomain req, env_ArtifactRef := ar_ArtifactRef req, env_Status := StatusPending\<rparr>"
  have made: "yields W d (CreateEnvironment (rc_store r) ?env) ?Q" if none: "select_by_branch p b d = None"
  proof -
    have d: "d = d0" "db_wf d"
      using assms(2) none by (auto simp: under_way_def only_branch_def)
    have step: "?Q (Inr env') d'"
      if "env_Status env' = StatusPending" "env_Project env' = p" "env_Branch env' = b" "row_is env' d'"
        "only_branch p b d d'" "db_dns_records d' = db_dns_records d" for env' d'
    proof -
      have sel: "select_by_branch p b d' = Some (environment_args env')"
        using that select_environment_SomeD by (fastforce simp: only_branch_def select_branch_iff row_is_def)
      have "CanTransition StatusPending StatusDeploying"
        by (simp add: CanTransition_def allowedTransitions_def)
      with that sel d have "under_way p b d0 d'"
        by (simp add: under_way_def deployable_def)
      moreover have "has_row d' env' StatusPending"
        using row_is_row [OF that(4)] that(1) by simp
      ultimately show ?thesis
        using that(2,3) sel \<open>CanTransition StatusPending StatusDeploying\<close> by blast
    qed
    show ?thesis
      by (rule yields_mono [OF yields_CreateEnvironment [OF rt ids [folded d(1)] d(2)]])
        (use none step in \<open>auto simp: empty_Environment_def\<close>)
  qed
  have found: "?Q (Inr (scanEnvironment row)) d" if "select_by_branch p b d = Some row" for row
    using under_way_row [OF assms(2) that] assms(2) that by blast
  show ?thesis
    unfolding upsertPendingEnvironment_def assms(3,4)
    by (rule yields_on_err [OF yields_GetEnvironmentByProjectBranch [OF rt, where Q = "\<lambda>x d'. d' = d
        \<and> (case x of Inl e \<Rightarrow> errors_Is e ErrNotFound \<and> select_by_branch p b d = None
           | Inr env \<Rightarrow> \<exists>row. env = scanEnvironment row \<and> select_by_branch p b d = Some row)"]])
      (use made found in \<open>auto intro!: yields_ret\<close>)
qed

lemma yields_applyWithoutEvent:
  assumes "good_weather W r p b d0" and "under_way p b d0 d" and "ar_Project req = p" and "ar_Branch req = b"
    and "ar_Subdomain req = Normalize b 63"
  shows "yields W d (applyWithoutEvent r req) (\<lambda>x d'. x = None \<and> only_branch p b d0 d'
    \<and> (\<exists>env. up (ar_ArtifactRef req) env d' \<and> env_Project env = p \<and> env_Branch env = b))"
  unfolding applyWithoutEvent_def
proof (rule yields_no_err [OF yields_upsert [OF assms(1-4)]], elim exE conjE, goal_cases)
  case (1 env d1)
  then obtain st where st: "has_row d1 env st" "CanTransition st StatusDeploying"
    by blast
  from 1 have d1: "db_dns_records d1 = db_dns_records d0" "db_wf d1" "only_branch p b d0 d1"
    by (simp_all add: under_way_def only_branch_def)
  show ?case
    by (rule yields_no_err [OF yields_doApply [OF assms(1) [folded assms(3,4)] d1(1,2) st assms(5) [folded assms(4)]]])
      (use 1 d1(3) in \<open>auto intro!: yields_ret intro: only_branch_trans\<close>)
qed

text \<open>There is a slot: no limit is set, the branch has one already, or not all are taken.\<close>

definition slot_free :: "'w Reconciler \<Rightarrow> string \<Rightarrow> string \<Rightarrow> database \<Rightarrow> bool" where
  "slot_free r p b d \<longleftrightarrow> rc_maxConcurrent r \<le> 0 \<or> select_by_branch p b d \<noteq> None \<or> count_live d < rc_maxConcurrent r"

lemma yields_reserve:
  assumes "good_weather W r p b d0" and "under_way p b d0 d" and "ar_Project req = p" and "ar_Branch req = b"
    and "select_by_branch p b d \<noteq> None \<or> count_live d < rc_maxConcurrent r"
  shows "yields W d (admission_reserve r req) (\<lambda>x d'. x = Inr [] \<and> under_way p b d0 d')"
    (is "yields W d _ ?Q")
proof -
  note rt = good_weatherD(2) [OF assms(1)]
  have reserved: "yields W d (on_err (CountLiveEnvironments (rc_store r)) h (\<lambda>live. if live \<ge> rc_maxConcurrent r then f live
      else on_err (upsertPendingEnvironment r req) g (\<lambda>_. ret (Inr [])))) ?Q" if "select_by_branch p b d = None" for h f g
  proof (rule yields_no_err [where R = "\<lambda>n d'. n = count_live d \<and> d' = d"])
    show "yields W d (CountLiveEnvironments (rc_store r)) (\<lambda>x d'. \<exists>n. x = Inr n \<and> n = count_live d \<and> d' = d)"
      unfolding CountLiveEnvironments_def
      by (rule yields_no_err [where R = "\<lambda>n d'. n = count_live d \<and> d' = d", OF yields_query [OF rt]]) (auto intro: yields_ret)
  next
    fix n d'
    assume n: "n = count_live d \<and> d' = d"
    have "yields W d (on_err (upsertPendingEnvironment r req) g (\<lambda>_. ret (Inr []))) ?Q"
      by (rule yields_no_err [OF yields_upsert [OF assms(1-4)]]) (auto intro!: yields_ret)
    then show "yields W d' (if n \<ge> rc_maxConcurrent r then f n
        else on_err (upsertPendingEnvironment r req) g (\<lambda>_. ret (Inr []))) ?Q"
      using n assms(5) that by simp
  qed
  show ?thesis
    unfolding admission_reserve_def assms(3,4)
    by (rule yields_on_err [OF yields_GetEnvironmentByProjectBranch [OF rt, where Q = "\<lambda>x d'. d' = d
        \<and> (case x of Inl e \<Rightarrow> errors_Is e ErrNotFound \<and> select_by_branch p b d = None | Inr env \<Rightarrow> True)"]])
      (use assms(2) reserved in \<open>auto intro!: yields_ret\<close>)
qed

lemma yields_admit:
  assumes "good_weather W r p b d0" and "under_way p b d0 d" and "ar_Project req = p" and "ar_Branch req = b"
    and "slot_free r p b d" and "Allowed (Decide (rc_policy r) ev)"
  shows "yields W d (admit r ev req) (\<lambda>x d'. x = Inr [] \<and> under_way p b d0 d')"
proof (cases "rc_maxConcurrent r \<le> 0")
  case True
  then show ?thesis
    using assms(2,6) by (simp add: admit_def yields_ret)
next
  case False
  with assms(5) have "select_by_branch p b d \<noteq> None \<or> count_live d < rc_maxConcurrent r"
    by (auto simp: slot_free_def)
  note reserve = yields_reserve [OF assms(1-4) this]
  have "yields W d (do { log_call AdmissionLocked; x \<leftarrow> admission_reserve r req; log_call AdmissionUnlocked; ret x })
      (\<lambda>x d'. x = Inr [] \<and> under_way p b d0 d')"
  proof (rule yields_bind [where R = "\<lambda>_ d'. d' = d"], rule yields_quiet(1), simp, hypsubst, rule yields_bind [OF reserve])
    fix x d'
    assume "x = Inr [] \<and> under_way p b d0 d'"
    then show "yields W d' (do { log_call AdmissionUnlocked; ret x }) (\<lambda>x d'. x = Inr [] \<and> under_way p b d0 d')"
      by (intro yields_bind [where R = "\<lambda>_ d''. d'' = d'"] yields_quiet(1)) (auto intro: yields_ret)
  qed
  then show ?thesis
    using False assms(6) by (simp add: admit_def Let_def)
qed

text \<open>A branch event that the policy admits and that finds a slot brings the branch's environment up.\<close>

lemma yields_ProcessWebhookEvent:
  assumes "good_weather W r (pe_Project ev) (pe_Branch ev) d" and "db_wf d" and "pe_Kind ev \<in> {''branch_pushed'', ''pr_synchronized''}"
    and "Allowed (Decide (rc_policy r) ev)" and "slot_free r (pe_Project ev) (pe_Branch ev) d"
    and "deployable (pe_Project ev) (pe_Branch ev) d"
  shows "yields W d (ProcessWebhookEvent r ev) (\<lambda>x d'. x = None \<and> only_branch (pe_Project ev) (pe_Branch ev) d d'
    \<and> (\<exists>env. up (pe_Artifact ev) env d' \<and> env_Project env = pe_Project ev \<and> env_Branch env = pe_Branch ev))"
proof -
  let ?req = "ApplyRequestFromEvent ev (Normalize (pe_Branch ev) 63)"
  have req: "ar_Project ?req = pe_Project ev" "ar_Branch ?req = pe_Branch ev" "ar_ArtifactRef ?req = pe_Artifact ev"
    "ar_Subdomain ?req = Normalize (pe_Branch ev) 63"
    by (simp_all add: ApplyRequestFromEvent_def)
  have start: "under_way (pe_Project ev) (pe_Branch ev) d d"
    using assms(2,6) by (simp add: under_way_def only_branch_refl)
  note admitted = yields_admit [OF assms(1) start req(1,2) assms(5,4)]
  have "yields W d (on_err (admit r ev ?req) (\<lambda>err. ret (Some err))
      (\<lambda>reason. if reason \<noteq> [] then ret None else applyWithoutEvent r ?req))
    (\<lambda>x d'. x = None \<and> only_branch (pe_Project ev) (pe_Branch ev) d d'
      \<and> (\<exists>env. up (pe_Artifact ev) env d' \<and> env_Project env = pe_Project ev \<and> env_Branch env = pe_Branch ev))"
    by (rule yields_no_err [where R = "\<lambda>x d'. x = [] \<and> under_way (pe_Project ev) (pe_Branch ev) d d'"],
        rule yields_mono [OF admitted])
      (use yields_applyWithoutEvent [OF assms(1) _ req(1,2,4)] in \<open>simp_all add: req(3)\<close>)
  then show ?thesis
    using assms(3) unfolding ProcessWebhookEvent_def Let_def by (auto intro: moves_with_lock)
qed

section \<open>A teardown in good weather\<close>

text \<open>The database without the records of an environment.\<close>

definition records_gone :: "string \<Rightarrow> database \<Rightarrow> database \<Rightarrow> bool" where
  "records_gone i d d' \<longleftrightarrow> db_environments d' = db_environments d \<and> db_events d' = db_events d
     \<and> db_dns_records d' = filter (\<lambda>q. dr_EnvironmentID q \<noteq> i) (db_dns_records d)"

text \<open>
  The worlds \<open>H recs\<close>, in which the provider still has the records of a list, its first to be deleted
  next: deleting it succeeds and leads to the worlds of the rest. In those without a record left the
  certificates and the deployment go.
\<close>

definition lets_go :: "(PDNSRecord list \<Rightarrow> 'w set) \<Rightarrow> 'w Reconciler \<Rightarrow> bool" where
  "lets_go H r \<longleftrightarrow> (\<forall>recs. steady (H recs) r)
   \<and> (\<forall>rec recs. takes (H (rec # recs)) (H recs) (dns_DeleteRecord (rc_dns r) rec) gone)
   \<and> (\<forall>name. fine (H []) (cp_RevokeCertificate (rc_cert r) name) (\<lambda>e. e = None))
   \<and> (\<forall>remove name. dp_CertificateRemover (rc_deploy r) = Some remove \<longrightarrow> fine (H []) (remove name) (\<lambda>e. e = None))
   \<and> (\<forall>ref. fine (H []) (dp_Destroy (rc_deploy r) ref) (\<lambda>e. e = None))"

lemma lets_goD: "lets_go H r \<Longrightarrow> steady (H recs) r" "lets_go H r \<Longrightarrow> no_fault (H recs) (rc_store r)"
  by (simp_all add: lets_go_def steady_def)

lemma moves_destroyRecord:
  assumes "lets_go H r"
  shows "moves (H (record_of r rec # recs)) (H recs) d (destroyRecord r rec) (\<lambda>x d'. x = [] \<and> d' = delete_dns_record (dr_ID rec) d)"
proof -
  have w: "takes (H (record_of r rec # recs)) (H recs) (dns_DeleteRecord (rc_dns r) (record_of r rec)) gone"
    using assms by (simp add: lets_go_def)
  have row: "yields (H recs) d (if_err (DeleteDNSRecord (rc_store r) (dr_ID rec)) h (ret []))
      (\<lambda>x d'. x = [] \<and> d' = delete_dns_record (dr_ID rec) d)" for h
    by (rule yields_nil_err [OF yields_DeleteDNSRecord [OF lets_goD(2) [OF assms]]]) (auto intro: yields_ret)
  have deleted: "moves (H (record_of r rec # recs)) (H recs) d (provider_call c (dns_DeleteRecord (rc_dns r) (record_of r rec)))
      (\<lambda>x d'. gone x \<and> d' = d)" for c
    by (rule moves_provider_call [OF w]) simp
  show ?thesis
    unfolding destroyRecord_def Let_def if_err_def [of "provider_call _ _"] record_of_def [symmetric]
    by (rule moves_bind [OF deleted]) (use row in \<open>auto simp: gone_def split: option.splits\<close>)
qed

lemma moves_destroyRecords:
  assumes "lets_go H r"
  shows "moves (H (map (record_of r) recs)) (H []) d (for_each (destroyRecord r) recs) (\<lambda>x d'. x = []
    \<and> db_environments d' = db_environments d \<and> db_events d' = db_events d
    \<and> db_dns_records d' = filter (\<lambda>q. dr_ID q \<notin> dr_ID ` set recs) (db_dns_records d))"
proof (induction recs arbitrary: d)
  case Nil
  show ?case
    by (simp add: yields_ret)
next
  case (Cons rec recs)
  show ?case
    unfolding for_each.simps list.map
  proof (rule moves_bind [OF moves_destroyRecord [OF assms]], elim conjE, hypsubst, rule moves_bind [OF Cons.IH], goal_cases)
    case (1 es es' d')
    then show ?case
      by (intro yields_ret) (auto simp: delete_dns_record_def conj_commute intro: filter_cong)
  qed
qed

lemma yields_teardown_step:
  "yields W d m (\<lambda>x d'. x = None \<and> d' = d) \<Longrightarrow> yields W d (teardown_step p m) (\<lambda>x d'. x = [] \<and> d' = d)"
  unfolding teardown_step_def by (rule yields_nil_err, assumption) (auto intro: yields_ret)

lemma yields_nil_call:
  "fine W m (\<lambda>e. e = None) \<Longrightarrow> yields W d (provider_call c m) (\<lambda>x d'. x = None \<and> d' = d)"
  by (rule yields_provider_call) auto

text \<open>The provider's records of an environment, as its rows have them.\<close>

definition env_records :: "'w Reconciler \<Rightarrow> string \<Rightarrow> database \<Rightarrow> PDNSRecord list" where
  "env_records r i d = map (record_of r) (select_dns_records i d)"

lemma moves_teardown:
  assumes "lets_go H r" and "db_wf d"
  shows "moves (H (env_records r (env_ID env) d)) (H []) d (teardown r env) (\<lambda>x d'. x = [] \<and> records_gone (env_ID env) d d')"
proof -
  let ?i = "env_ID env" and ?n = "fqdn r (env_Subdomain env)"
  note rt = lets_goD(2) [OF assms(1)]
  have listed: "yields V d (ListDNSRecords (rc_store r) ?i) (\<lambda>x d'. x = Inr (select_dns_records ?i d) \<and> d' = d)"
    if "no_fault V (rc_store r)" for V
    unfolding ListDNSRecords_def
    by (rule yields_no_err [where R = "\<lambda>x d'. x = select_dns_records ?i d \<and> d' = d", OF yields_query [OF that]]) (auto intro: yields_ret)
  have "inj_on dr_ID (set (db_dns_records d))"
    using assms(2) by (simp add: db_wf_def distinct_map)
  then have "dr_ID q \<in> dr_ID ` set (select_dns_records ?i d) \<longleftrightarrow> dr_EnvironmentID q = ?i" if "q \<in> set (db_dns_records d)" for q
    using that by (auto simp: select_dns_records_def dest: inj_onD)
  then have gone: "filter (\<lambda>q. dr_ID q \<notin> dr_ID ` set (select_dns_records ?i d)) (db_dns_records d)
      = filter (\<lambda>q. dr_EnvironmentID q \<noteq> ?i) (db_dns_records d)"
    by (intro filter_cong) simp_all
  have records: "moves (H (env_records r ?i d)) (H []) d (for_each (destroyRecord r) (select_dns_records ?i d))
      (\<lambda>x d'. x = [] \<and> records_gone ?i d d')"
    unfolding env_records_def by (rule moves_mono [OF moves_destroyRecords [OF assms(1)]]) (simp add: records_gone_def gone)
  have revoked: "yields (H []) d' (provider_call c (cp_RevokeCertificate (rc_cert r) ?n)) (\<lambda>x d''. x = None \<and> d'' = d')" for d' c
    using assms(1) by (intro yields_nil_call) (simp add: lets_go_def)
  have removed: "yields (H []) d' (removeCertificate r ?n) (\<lambda>x d''. x = None \<and> d'' = d')" for d'
    unfolding removeCertificate_def
    using assms(1) by (auto intro!: yields_nil_call yields_ret simp: lets_go_def split: option.splits)
  have destroyed: "yields (H []) d' (destroyDeployment r (env_DeployRef env)) (\<lambda>x d''. x = None \<and> d'' = d')" for d'
    unfolding destroyDeployment_def
    using assms(1) by (auto intro!: yields_nil_call yields_ret simp: lets_go_def)
  show ?thesis
    unfolding teardown_def Let_def
    by (rule moves_bind [OF listed [OF rt]], elim conjE, simp only: sum.case prod.case, rule moves_bind [OF records], elim conjE,
        (rule yields_bind [OF yields_teardown_step], rule revoked removed destroyed, elim conjE, hypsubst)+) (auto intro: yields_ret)
qed

text \<open>The environment is down: its row says so, and no DNS record is left of it.\<close>

definition down :: "Environment \<Rightarrow> database \<Rightarrow> bool" where
  "down env d \<longleftrightarrow> (\<exists>row. select_environment (env_ID env) d = Some row \<and> er_status row = StatusDestroyed
     \<and> er_project row = env_Project env \<and> er_branch row = env_Branch env)
     \<and> (\<forall>q \<in> set (db_dns_records d). dr_EnvironmentID q \<noteq> env_ID env)"

lemma moves_doDestroy:
  assumes "lets_go H r" and "db_wf d" and "has_row d env StatusDestroying"
  shows "moves (H (env_records r (env_ID env) d)) (H []) d (doDestroy r env) (\<lambda>x d'. x = None \<and> down env d'
    \<and> db_dns_records d' = filter (\<lambda>q. dr_EnvironmentID q \<noteq> env_ID env) (db_dns_records d)
    \<and> only_branch (env_Project env) (env_Branch env) d d')"
  unfolding doDestroy_def
proof (rule moves_bind [OF moves_teardown [OF assms(1,2)]], elim conjE, goal_cases)
  case (1 errs d1)
  let ?env = "env\<lparr>env_Status := StatusDestroyed\<rparr>"
  note w = lets_goD(2) [OF assms(1), of "[]"] lets_goD(1) [OF assms(1), of "[]"]
  have d1: "db_wf d1" "has_row d1 ?env StatusDestroying"
    using 1(2) assms(2,3) by (auto simp: records_gone_def db_wf_def refs_wf_def has_row_def select_environment_def distinct_map_filter)
  have ct: "CanTransition StatusDestroying (env_Status ?env)"
    by (simp add: into_destroyed)
  have ends: "yields (H []) d' (do { notify r (env_Project env) (env_PRNumber env) ne; ret None })
      (\<lambda>x d'. x = None \<and> down env d' \<and> db_dns_records d' = filter (\<lambda>q. dr_EnvironmentID q \<noteq> env_ID env) (db_dns_records d)
        \<and> only_branch (env_Project env) (env_Branch env) d d')"
    if "written ?env env'" "row_is env' d'" "only_branch (env_Project ?env) (env_Branch ?env) d1 d'" "db_dns_records d' = db_dns_records d1"
    for env' d' ne
  proof -
    have "down env d' \<and> db_dns_records d' = filter (\<lambda>q. dr_EnvironmentID q \<noteq> env_ID env) (db_dns_records d)
        \<and> only_branch (env_Project env) (env_Branch env) d d'"
      using that 1(2) written_simps [OF that(1)] by (auto simp: down_def row_is_def records_gone_def only_branch_def other_rows_def)
    then show ?thesis
      by (intro yields_bind [where R = "\<lambda>_ d''. d'' = d'"] yields_notify [OF w(2)]) (auto intro: yields_ret)
  qed
  show ?case
    unfolding 1(1)
    by (simp, rule yields_no_err [OF yields_UpdateEnvironment [OF w(1) d1 ct]]) (auto intro: ends)
qed

lemma to_destroying: "known_status st \<Longrightarrow> CanTransition st StatusDestroying"
  by (auto simp: known_status_iff CanTransition_def allowedTransitions_def)

lemma yields_mark_destroying:
  assumes "no_fault W (rc_store r)" and "db_wf d" and "has_row d env (env_Status env)" and "known_status (env_Status env)"
  shows "yields W d (mark_destroying r env) (\<lambda>x d'. \<exists>env'. x = Inr env' \<and> has_row d' env' StatusDestroying
    \<and> env_ID env' = env_ID env \<and> env_Project env' = env_Project env \<and> env_Branch env' = env_Branch env
    \<and> only_branch (env_Project env) (env_Branch env) d d' \<and> db_dns_records d' = db_dns_records d)"
proof (cases "env_Status env = StatusDestroying")
  case True
  then show ?thesis
    using assms(2,3) by (auto simp: mark_destroying_def intro!: yields_ret only_branch_refl)
next
  case False
  let ?env = "env\<lparr>env_Status := StatusDestroying\<rparr>"
  have row: "has_row d ?env (env_Status env)" and ct: "CanTransition (env_Status env) (env_Status ?env)"
    using assms(3,4) to_destroying by (simp_all add: has_row_def)
  have "has_row d' env' StatusDestroying \<and> env_ID env' = env_ID env \<and> env_Project env' = env_Project env \<and> env_Branch env' = env_Branch env"
    if "written ?env env'" "row_is env' d'" for env' d'
    using row_is_row [OF that(2)] written_simps [OF that(1)] by simp
  with False show ?thesis
    by (fastforce simp: mark_destroying_def intro!: yields_mono [OF yields_UpdateEnvironment [OF assms(1,2) row ct]])
qed

lemma moves_destroyWithoutEvent:
  assumes "lets_go H r" and "db_wf d" and "has_row d env (env_Status env)" and "known_status (env_Status env)"
  shows "moves (H (env_records r (env_ID env) d)) (H []) d (destroyWithoutEvent r env) (\<lambda>x d'. x = None
    \<and> (\<exists>env'. down env' d' \<and> env_ID env' = env_ID env
    \<and> env_Project env' = env_Project env \<and> env_Branch env' = env_Branch env) \<and> only_branch (env_Project env) (env_Branch env) d d')"
  unfolding destroyWithoutEvent_def
proof (rule moves_no_err [OF yields_mark_destroying [OF lets_goD(2) [OF assms(1)] assms(2-4)]], elim conjE, goal_cases)
  case (1 env' d')
  then have "db_wf d'" "env_records r (env_ID env) d' = env_records r (env_ID env) d"
    by (simp_all add: only_branch_def env_records_def select_dns_records_def)
  note destroyed = moves_doDestroy [OF assms(1) this(1) 1(1), unfolded this(2) 1(2-4)]
  show ?case
    by (rule moves_mono [OF destroyed]) (use 1 in \<open>auto intro: only_branch_trans [of _ _ d d']\<close>)
qed

text \<open>
  The close of a branch brings its environment down; a branch without an environment is left as it is.
\<close>

definition branch_records :: "'w Reconciler \<Rightarrow> string \<Rightarrow> string \<Rightarrow> database \<Rightarrow> PDNSRecord list" where
  "branch_records r p b d = (case select_by_branch p b d of None \<Rightarrow> [] | Some row \<Rightarrow> env_records r (er_id row) d)"

definition branch_down :: "string \<Rightarrow> string \<Rightarrow> database \<Rightarrow> bool" where
  "branch_down p b d \<longleftrightarrow> (\<forall>row. select_by_branch p b d = Some row \<longrightarrow> er_status row = StatusDestroyed
     \<and> (\<forall>q \<in> set (db_dns_records d). dr_EnvironmentID q \<noteq> er_id row))"

lemma moves_close:
  assumes "lets_go H r" and "db_wf d" and "pe_Kind ev \<in> {''pr_closed'', ''branch_deleted''}"
    and "\<And>row. select_by_branch (pe_Project ev) (pe_Branch ev) d = Some row \<Longrightarrow> known_status (er_status row)"
  shows "moves (H (branch_records r (pe_Project ev) (pe_Branch ev) d)) (H []) d (ProcessWebhookEvent r ev)
    (\<lambda>x d'. x = None \<and> branch_down (pe_Project ev) (pe_Branch ev) d' \<and> only_branch (pe_Project ev) (pe_Branch ev) d d')"
    (is "moves ?V _ d _ ?Q")
proof -
  let ?p = "pe_Project ev" and ?b = "pe_Branch ev"
  note rt = lets_goD(2) [OF assms(1)]
  have torn: "moves ?V (H []) d (with_lock (env_Project env) (env_Branch env) (destroyWithoutEvent r env)) ?Q"
    if row: "select_by_branch ?p ?b d = Some row" and env: "env = scanEnvironment row" for env row
  proof -
    have e: "env_ID env = er_id row" "env_Project env = ?p" "env_Branch env = ?b" "env_Status env = er_status row"
      using row select_by_branch_SomeD by (simp_all add: env scanEnvironment_def)
    then have "has_row d env (env_Status env)"
      using row select_environment_Some [OF assms(2), of row] by (simp add: has_row_def select_branch_iff [OF assms(2)])
    note torn_down = moves_destroyWithoutEvent [OF assms(1,2) this]
    have V: "?V = H (env_records r (env_ID env) d)"
      using row e by (simp add: branch_records_def)
    have "branch_down ?p ?b d'" if D: "down env' d'" "env_Project env' = ?p" "env_Branch env' = ?b" and wf: "db_wf d'" for env' d'
    proof -
      obtain row' where "select_environment (env_ID env') d' = Some row'" "er_status row' = StatusDestroyed"
          "er_project row' = ?p" "er_branch row' = ?b" "\<forall>q \<in> set (db_dns_records d'). dr_EnvironmentID q \<noteq> env_ID env'"
        using D by (auto simp: down_def)
      moreover from this have "select_by_branch ?p ?b d' = Some row'" "er_id row' = env_ID env'"
        using select_environment_SomeD [of "env_ID env'" d' row'] by (simp_all add: select_branch_iff [OF wf])
      ultimately show ?thesis
        by (simp add: branch_down_def)
    qed
    then show ?thesis
      using assms(4) [OF row] e unfolding V
      by (intro moves_with_lock moves_mono [OF torn_down]) (auto simp: only_branch_def)
  qed
  have none: "?V = H []" if "select_by_branch ?p ?b d = None"
    using that by (simp add: branch_records_def)
  have "moves ?V (H []) d (on_err (GetEnvironmentByProjectBranch (rc_store r) ?p ?b)
      (\<lambda>err. if errors_Is err ErrNotFound then ret None else ret (Some err))
      (\<lambda>env. with_lock (env_Project env) (env_Branch env) (destroyWithoutEvent r env))) ?Q"
    by (rule moves_on_err [OF yields_GetEnvironmentByProjectBranch [OF rt, where Q = "\<lambda>x d'. d' = d
        \<and> (case x of Inl e \<Rightarrow> errors_Is e ErrNotFound \<and> select_by_branch ?p ?b d = None
           | Inr env \<Rightarrow> \<exists>row. env = scanEnvironment row \<and> select_by_branch ?p ?b d = Some row)"]])
      (use assms(2) torn in \<open>auto simp: branch_down_def only_branch_refl none intro!: yields_ret\<close>)
  then show ?thesis
    using assms(3) unfolding ProcessWebhookEvent_def by auto
qed

section \<open>A worker and its event\<close>

text \<open>The database just after the worker's claim.\<close>

definition just_claimed :: "string \<Rightarrow> database \<Rightarrow> database \<Rightarrow> bool" where
  "just_claimed i d d' \<longleftrightarrow> db_wf d' \<and> db_environments d' = db_environments d \<and> db_dns_records d' = db_dns_records d
    \<and> i \<in> vr_id ` set (db_events d') \<and> other_events i d' = other_events i d"

lemma claimed_same:
  assumes "just_claimed i d0 d"
  shows "db_wf d" and "good_weather W r p b d0 \<Longrightarrow> good_weather W r p b d" and "slot_free r p b d0 \<Longrightarrow> slot_free r p b d"
    and "deployable p b d0 \<Longrightarrow> deployable p b d" and "branch_records r p b d = branch_records r p b d0"
    and "select_by_branch p b d = select_by_branch p b d0" and "other_rows p b d = other_rows p b d0"
  using assms by (simp_all add: just_claimed_def good_weather_def builds_def new_ids_def slot_free_def deployable_def
      select_by_branch_def count_live_def branch_records_def env_records_def select_dns_records_def other_rows_def
      split: option.splits)

text \<open>The event is processed and the other events are as they were.\<close>

definition event_done :: "string \<Rightarrow> database \<Rightarrow> database \<Rightarrow> bool" where
  "event_done i d d' \<longleftrightarrow> (\<exists>v \<in> set (db_events d'). vr_id v = i)
     \<and> (\<forall>v \<in> set (db_events d'). vr_id v = i \<longrightarrow> vr_processed_at v \<noteq> None) \<and> other_events i d' = other_events i d"

lemma yields_markProcessed:
  assumes "steady W r" and "just_claimed (ev_ID ev) d0 d" and "db_events d' = db_events d"
  shows "yields W d' (markProcessed r ev) (\<lambda>_ d''. db_environments d'' = db_environments d'
    \<and> db_dns_records d'' = db_dns_records d' \<and> event_done (ev_ID ev) d0 d'')"
proof -
  have st: "no_fault W (rc_store r)" "ev_ID ev \<in> vr_id ` set (db_events d')"
    using assms by (simp_all add: steady_def just_claimed_def)
  have "other_events (ev_ID ev) d' = other_events (ev_ID ev) d0"
    using assms(2,3) by (simp add: just_claimed_def other_events_def)
  then have marked: "yields W d' (MarkEventProcessed (rc_store r) (ev_ID ev) now) (\<lambda>_ d''. db_environments d'' = db_environments d'
    \<and> db_dns_records d'' = db_dns_records d' \<and> event_done (ev_ID ev) d0 d'')" for now
    by (intro yields_mono [OF yields_MarkEventProcessed [OF st]]) (auto simp: event_done_def)
  show ?thesis
    unfolding markProcessed_def
    by (intro yields_bind [where R = "\<lambda>_ d''. d'' = d'"] yields_now yields_ignore)
      (use assms(1) marked in auto)
qed

text \<open>
  A worker whose dispatch is carried out marks the event processed: what holds of the environments and
  records then, holds after it.
\<close>

lemma moves_ProcessEvent:
  assumes "steady V r" and "steady W r" and "db_wf d0" and "row \<in> set (db_events d0)"
    and "fine V (rc_Now r) (\<lambda>now. due_event now row)"
    and "\<And>d. just_claimed (vr_id row) d0 d \<Longrightarrow>
      moves V W d (dispatchEvent r (scanEvent row)) (\<lambda>x d'. x = Inr None \<and> R d' \<and> db_events d' = db_events d)"
    and "\<And>d d'. R d \<Longrightarrow> db_environments d' = db_environments d \<Longrightarrow> db_dns_records d' = db_dns_records d \<Longrightarrow> R d'"
  shows "moves V W d0 (ProcessEvent r (scanEvent row)) (\<lambda>_ d'. R d' \<and> event_done (vr_id row) d0 d')"
proof -
  let ?se = "scanEvent row"
  have i: "ev_ID ?se = vr_id row"
    by (simp add: scanEvent_def)
  have now: "yields V d0 (outside (rc_Now r)) (\<lambda>now d. due_event now row \<and> d = d0)"
    by (rule yields_outside [OF assms(5)]) simp
  have claimed: "yields V d0 (ClaimEvent (rc_store r) (ev_ID ?se) now later) (\<lambda>x d. \<exists>c. x = Inr c \<and> c \<and> just_claimed (vr_id row) d0 d)"
    if "due_event now row" for now later
    using assms(1) that unfolding i
    by (intro yields_mono [OF yields_ClaimEvent [OF _ assms(3,4)]]) (auto simp: steady_def just_claimed_def)
  have finished: "yields W d' (do { count f; markProcessed r ?se }) (\<lambda>_ d''. R d'' \<and> event_done (vr_id row) d0 d'')"
    if "just_claimed (vr_id row) d0 d" "R d'" "db_events d' = db_events d" for f d d'
  proof -
    have "yields W d' (markProcessed r ?se) (\<lambda>_ d''. R d'' \<and> event_done (vr_id row) d0 d'')"
      by (rule yields_mono [OF yields_markProcessed [OF assms(2), of ?se d0 d d']])
        (use that assms(7) i in auto)
    then show ?thesis
      by (intro yields_bind [where R = "\<lambda>_ d''. d'' = d'"] yields_quiet(2)) auto
  qed
  show ?thesis
    unfolding ProcessEvent_def
  proof (rule moves_bind [OF now], elim conjE, hypsubst, rule moves_bind [OF now], elim conjE, hypsubst,
      rule moves_no_err [OF claimed], assumption, elim conjE, goal_cases)
    case (1 now1 d1 now2 d2 c d)
    then show ?case
      by (simp, intro moves_bind [OF assms(6)]) (auto intro: finished)
  qed
qed

text \<open>The rows of the environments of a branch, and whether an event of the inbox is a webhook's.\<close>

definition inbox_event :: "database \<Rightarrow> event_row \<Rightarrow> Event \<Rightarrow> bool" where
  "inbox_event d row ev \<longleftrightarrow> row \<in> set (db_events d) \<and> vr_kind row = EventKindWebhookReceived
     \<and> vr_payload row = MarshalWebhookPayload ev \<and> plain_event ev"

lemma dispatch_webhook:
  assumes "inbox_event d row ev" and "moves V W d' (ProcessWebhookEvent r ev) (\<lambda>x d'. x = None \<and> Q d')"
  shows "moves V W d' (dispatchEvent r (scanEvent row)) (\<lambda>x d'. x = Inr None \<and> Q d')"
proof -
  have "ev_Kind (scanEvent row) = EventKindWebhookReceived" "UnmarshalWebhookPayload (ev_Payload (scanEvent row)) = Inr ev"
    using assms(1) by (simp_all add: inbox_event_def scanEvent_def webhook_payload_round_trip)
  then show ?thesis
    by (auto simp: dispatchEvent_def intro!: moves_bind [OF assms(2)] yields_ret)
qed

lemma moves_webhook:
  assumes "steady V r" and "steady W r" and "db_wf d0" and "inbox_event d0 row ev" and "fine V (rc_Now r) (\<lambda>now. due_event now row)"
    and "\<And>d. just_claimed (vr_id row) d0 d \<Longrightarrow>
      moves V W d (ProcessWebhookEvent r ev) (\<lambda>x d'. x = None \<and> R d' \<and> db_events d' = db_events d)"
    and "\<And>d d'. R d \<Longrightarrow> db_environments d' = db_environments d \<Longrightarrow> db_dns_records d' = db_dns_records d \<Longrightarrow> R d'"
  shows "moves V W d0 (ProcessEvent r (scanEvent row)) (\<lambda>_ d'. R d' \<and> event_done (vr_id row) d0 d')"
proof -
  have row: "row \<in> set (db_events d0)"
    using assms(4) by (simp add: inbox_event_def)
  show ?thesis
    by (rule moves_ProcessEvent [OF assms(1-3) row assms(5)]) (rule dispatch_webhook [OF assms(4)], erule assms(6), rule assms(7))
qed

text \<open>The branch serves the revision, on the deployment its row refers to.\<close>

definition branch_up :: "string \<Rightarrow> string \<Rightarrow> string \<Rightarrow> database \<Rightarrow> bool" where
  "branch_up p b artifact d \<longleftrightarrow> (\<exists>e. select_by_branch p b d = Some e \<and> er_status e = StatusReady
     \<and> er_last_good_artifact_ref e = artifact \<and> er_last_good_deploy_ref e = er_deploy_ref e)"

lemma yields_push:
  assumes "good_weather W r (pe_Project ev) (pe_Branch ev) d0" and "db_wf d0" and "inbox_event d0 row ev"
    and "fine W (rc_Now r) (\<lambda>now. due_event now row)" and "pe_Kind ev \<in> {''branch_pushed'', ''pr_synchronized''}"
    and "Allowed (Decide (rc_policy r) ev)" and "slot_free r (pe_Project ev) (pe_Branch ev) d0"
    and "deployable (pe_Project ev) (pe_Branch ev) d0"
  shows "yields W d0 (ProcessEvent r (scanEvent row)) (\<lambda>_ d'. (branch_up (pe_Project ev) (pe_Branch ev) (pe_Artifact ev) d'
    \<and> other_rows (pe_Project ev) (pe_Branch ev) d' = other_rows (pe_Project ev) (pe_Branch ev) d0) \<and> event_done (vr_id row) d0 d')"
proof -
  let ?p = "pe_Project ev" and ?b = "pe_Branch ev"
  let ?R = "\<lambda>d. branch_up ?p ?b (pe_Artifact ev) d \<and> other_rows ?p ?b d = other_rows ?p ?b d0"
  have R: "?R d'" if "only_branch ?p ?b d d'" "db_environments d = db_environments d0"
      "up (pe_Artifact ev) env d'" "env_Project env = ?p" "env_Branch env = ?b" for d d' env
  proof -
    have "select_by_branch ?p ?b d' = Some (environment_args env)"
      using that select_environment_SomeD by (fastforce simp: up_def row_is_def only_branch_def select_branch_iff)
    then show ?thesis
      using that by (simp add: up_def branch_up_def environment_args_def only_branch_def other_rows_def)
  qed
  have carried: "yields W d (ProcessWebhookEvent r ev) (\<lambda>x d'. x = None \<and> ?R d' \<and> db_events d' = db_events d)"
    if claimed: "just_claimed (vr_id row) d0 d" for d
  proof (rule yields_mono [OF yields_ProcessWebhookEvent [OF claimed_same(2) [OF claimed assms(1)] claimed_same(1) [OF claimed]
        assms(5,6) claimed_same(3) [OF claimed assms(7)] claimed_same(4) [OF claimed assms(8)]]], elim conjE exE)
    fix x d' env
    assume "x = None" "only_branch ?p ?b d d'" "up (pe_Artifact ev) env d'" "env_Project env = ?p" "env_Branch env = ?b"
    with R [OF _ _ this(3-5)] claimed show "x = None \<and> ?R d' \<and> db_events d' = db_events d"
      by (simp add: only_branch_def just_claimed_def)
  qed
  note st = good_weatherD(1) [OF assms(1)]
  show ?thesis
    by (rule moves_webhook [OF st st assms(2-4) carried]) (auto simp: branch_up_def select_by_branch_def other_rows_def)
qed

text \<open>
  A push that is accepted is served. Take an inbox event of a push or a synchronized pull request
  that is due, that the admission policy allows, for which there is a slot and whose branch is not
  being destroyed. Suppose that in the worlds this run can see the driver works, identifiers are new, the
  deployment of the branch comes up within the readiness wait, and the record and the certificate of
  its name can be made; the notifier may fail. Then the worker that takes the event brings the environment of the branch up:
  its row is ready, the revision recorded as last known good is the one pushed and its deployment is
  the one the row refers to; the event is marked processed; and neither a row of another branch nor
  another event is touched.
\<close>

theorem accepted_push_is_served:
  assumes "good_weather W r (pe_Project ev) (pe_Branch ev) (db s)" and "ext s \<in> W" and "db_wf (db s)"
    and "inbox_event (db s) row ev" and "fine W (rc_Now r) (\<lambda>now. due_event now row)"
    and "pe_Kind ev \<in> {''branch_pushed'', ''pr_synchronized''}" and "Allowed (Decide (rc_policy r) ev)"
    and "slot_free r (pe_Project ev) (pe_Branch ev) (db s)" and "deployable (pe_Project ev) (pe_Branch ev) (db s)"
    and "run_state (ProcessEvent r (scanEvent row)) s = ((), s')"
  shows "(\<exists>e. select_by_branch (pe_Project ev) (pe_Branch ev) (db s') = Some e \<and> er_status e = StatusReady
      \<and> er_last_good_artifact_ref e = pe_Artifact ev \<and> er_last_good_deploy_ref e = er_deploy_ref e)
    \<and> (\<exists>v \<in> set (db_events (db s')). vr_id v = vr_id row)
    \<and> (\<forall>v \<in> set (db_events (db s')). vr_id v = vr_id row \<longrightarrow> vr_processed_at v \<noteq> None)
    \<and> other_rows (pe_Project ev) (pe_Branch ev) (db s') = other_rows (pe_Project ev) (pe_Branch ev) (db s)
    \<and> other_events (vr_id row) (db s') = other_events (vr_id row) (db s)"
proof -
  from movesD [OF yields_push [OF assms(1,3-9)] refl assms(2,10)] show ?thesis
    by (simp add: event_done_def branch_up_def)
qed

text \<open>
  C9: a branch that is closed is torn down. Take an inbox event of a closed pull request or a deleted
  branch that is due, in a world where the DNS provider still has the records the rows of the branch
  name and deletes them one after the other (or says of one that it is already absent), and where
  the driver works, the certificates are revoked and removed and the deployment is destroyed. Then
  the worker that takes the event leaves the branch without an environment, or with one whose row
  is destroyed and of which no DNS record remains; the event is marked processed; and neither a row of
  another branch nor another event is touched.
\<close>

theorem accepted_close_is_torn_down:
  assumes "lets_go H r" and "ext s \<in> H (branch_records r (pe_Project ev) (pe_Branch ev) (db s))" and "db_wf (db s)"
    and "inbox_event (db s) row ev" and "\<And>recs. fine (H recs) (rc_Now r) (\<lambda>now. due_event now row)"
    and "pe_Kind ev \<in> {''pr_closed'', ''branch_deleted''}"
    and "\<forall>e \<in> set (db_environments (db s)). known_status (er_status e)"
    and "run_state (ProcessEvent r (scanEvent row)) s = ((), s')"
  shows "(\<forall>e. select_by_branch (pe_Project ev) (pe_Branch ev) (db s') = Some e \<longrightarrow> er_status e = StatusDestroyed
      \<and> (\<forall>q \<in> set (db_dns_records (db s')). dr_EnvironmentID q \<noteq> er_id e))
    \<and> (\<exists>v \<in> set (db_events (db s')). vr_id v = vr_id row)
    \<and> (\<forall>v \<in> set (db_events (db s')). vr_id v = vr_id row \<longrightarrow> vr_processed_at v \<noteq> None)
    \<and> other_rows (pe_Project ev) (pe_Branch ev) (db s') = other_rows (pe_Project ev) (pe_Branch ev) (db s)
    \<and> other_events (vr_id row) (db s') = other_events (vr_id row) (db s)"
proof -
  let ?p = "pe_Project ev" and ?b = "pe_Branch ev"
  let ?V = "H (branch_records r ?p ?b (db s))"
  let ?R = "\<lambda>d. branch_down ?p ?b d \<and> other_rows ?p ?b d = other_rows ?p ?b (db s)"
  have carried: "moves ?V (H []) d (ProcessWebhookEvent r ev) (\<lambda>x d'. x = None \<and> ?R d' \<and> db_events d' = db_events d)"
    if claimed: "just_claimed (vr_id row) (db s) d" for d
  proof -
    have "known_status (er_status e)" if "select_by_branch ?p ?b d = Some e" for e
      using that assms(7) select_by_branch_SomeD unfolding claimed_same(6) [OF claimed] by blast
    note closed = moves_close [OF assms(1) claimed_same(1) [OF claimed] assms(6) this, unfolded claimed_same(5) [OF claimed]]
    show ?thesis
      by (rule moves_mono [OF closed]) (use claimed in \<open>auto simp: only_branch_def claimed_same(7)\<close>)
  qed
  note st = lets_goD(1) [OF assms(1)]
  have "moves ?V (H []) (db s) (ProcessEvent r (scanEvent row)) (\<lambda>_ d'. ?R d' \<and> event_done (vr_id row) (db s) d')"
    by (rule moves_webhook [OF st st assms(3-5) carried]) (auto simp: branch_down_def select_by_branch_def other_rows_def)
  from movesD [OF this refl assms(2,8)] show ?thesis
    by (simp add: event_done_def branch_down_def)
qed

section \<open>An example\<close>

text \<open>
  One environment is live and two may be. The push to the other branch is in the inbox, or the close
  of the branch whose environment is live, which has a DNS record.
\<close>

definition ex_close :: Event where
  "ex_close = empty_Event\<lparr>pe_Kind := ''pr_closed'', pe_Project := ''p'', pe_Branch := ''b''\<rparr>"

definition ex_inbox_row :: "Event \<Rightarrow> event_row" where
  "ex_inbox_row ev = event_args (empty_StoreEvent\<lparr>ev_ID := ''v1'', ev_Kind := EventKindWebhookReceived,
     ev_Payload := MarshalWebhookPayload ev\<rparr>)"

definition ex_record :: DNSRecord where
  "ex_record = \<lparr>dr_ID = ''r1'', dr_EnvironmentID = ''e1'', dr_RecordType = ''A'', dr_Name = ''b.preview.dev'',
     dr_Value = ''10.0.0.1'', dr_OwnershipTag = OwnershipTag ''p'' ''b'', dr_CreatedAt = 0\<rparr>"

definition ex_inbox_sys :: "Event \<Rightarrow> example_world sys" where
  "ex_inbox_sys ev = ex_sys\<lparr>db := ex_db\<lparr>db_dns_records := [ex_record], db_events := [ex_inbox_row ev]\<rparr>\<rparr>"

lemma ex_inbox:
  assumes "plain_event ev"
  shows "inbox_event (db (ex_inbox_sys ev)) (ex_inbox_row ev) ev \<and> db_wf (db (ex_inbox_sys ev))
    \<and> fine UNIV (rc_Now ex_limited) (\<lambda>now. due_event now (ex_inbox_row ev))"
proof (intro conjI)
  show "inbox_event (db (ex_inbox_sys ev)) (ex_inbox_row ev) ev" "db_wf (db (ex_inbox_sys ev))"
    using assms by (simp_all add: inbox_event_def ex_inbox_sys_def ex_inbox_row_def event_args_def empty_StoreEvent_def
        nullableString_def ex_db_def empty_database_def ex_record_def ex_env_def db_wf_def envs_wf_def events_wf_def refs_wf_def)
  show "fine UNIV (rc_Now ex_limited) (\<lambda>now. due_event now (ex_inbox_row ev))"
    by (simp add: takes_def ex_limited_def ex_reconciler_def NewReconciler_def due_event_def pending_event_def
        ex_inbox_row_def event_args_def empty_StoreEvent_def)
qed

lemma ex_new_ids: "new_ids UNIV ex_runtime (db (ex_inbox_sys ev))"
proof -
  have "\<exists>i w. run_state (newID ex_runtime) s = (Inr i, s\<lparr>ext := w\<rparr>) \<and> CHR ''-'' \<in> set i" for s
    by (auto simp: newID_def ex_runtime_def run_err Let_def)
  then show ?thesis
    unfolding new_ids_def ex_inbox_sys_def ex_db_def empty_database_def ex_env_def ex_record_def by fastforce
qed

lemma ex_limited_simps:
  "rc_store ex_limited = ex_runtime" "rc_deploy ex_limited = ex_deploy"
  by (simp_all add: ex_limited_def ex_reconciler_def NewReconciler_def)

lemma ex_steady: "steady UNIV ex_limited"
  by (simp add: steady_def no_fault_def takes_def ex_limited_def ex_reconciler_def NewReconciler_def ex_runtime_def)

lemma ex_good_weather: "good_weather UNIV ex_limited p b (db (ex_inbox_sys ev))"
proof -
  have "comes_up UNIV ex_limited p b"
    by (rule healthy_at_once [OF ex_steady])
      (simp_all add: takes_def ex_limited_def ex_reconciler_def NewReconciler_def ex_deploy_def)
  moreover have "fine UNIV (dns_EnsureRecord (rc_dns ex_limited) rec) (\<lambda>e. e = None)"
      "fine UNIV (cp_EnsureCertificate (rc_cert ex_limited) name) (\<lambda>x. \<exists>c. x = Inr c)"
      "dp_CertificateInstaller ex_deploy = None" for rec name
    by (simp_all add: takes_def ex_limited_def ex_reconciler_def NewReconciler_def ex_deploy_def)
  ultimately show ?thesis
    using ex_new_ids ex_steady by (simp add: good_weather_def builds_def ex_limited_simps Let_def)
qed

lemma ex_lets_go: "lets_go (\<lambda>_. UNIV) ex_limited"
proof -
  have "takes UNIV UNIV (dns_DeleteRecord (rc_dns ex_limited) rec) gone"
      "fine UNIV (cp_RevokeCertificate (rc_cert ex_limited) name) (\<lambda>e. e = None)"
      "dp_CertificateRemover ex_deploy = None" "fine UNIV (dp_Destroy ex_deploy ref) (\<lambda>e. e = None)" for rec name ref
    by (simp_all add: takes_def gone_def ex_limited_def ex_reconciler_def NewReconciler_def ex_deploy_def)
  then show ?thesis
    using ex_steady by (simp add: lets_go_def ex_limited_simps)
qed

theorem accepted_push_is_served_witness:
  "\<exists>e. select_by_branch ''p'' ''c'' (db (snd (run_state (ProcessEvent ex_limited (scanEvent (ex_inbox_row ex_push)))
       (ex_inbox_sys ex_push)))) = Some e \<and> er_status e = StatusReady"
proof -
  have ev: "pe_Kind ex_push = ''branch_pushed''" "pe_Project ex_push = ''p''" "pe_Branch ex_push = ''c''" "plain_event ex_push"
    by (simp_all add: ex_push_def empty_Event_def plain_event_def)
  have policy: "Allowed (Decide (rc_policy ex_limited) ex_push)"
    by (simp add: Decide_def decide_allow_def ex_limited_def ex_reconciler_def NewReconciler_def ex_push_def empty_Event_def)
  have slot: "slot_free ex_limited ''p'' ''c'' (db (ex_inbox_sys ex_push))" "deployable ''p'' ''c'' (db (ex_inbox_sys ex_push))"
    by (simp_all add: slot_free_def deployable_def count_live_def select_by_branch_def ex_limited_def ex_inbox_sys_def
        ex_db_def empty_database_def ex_env_def empty_Environment_def)
  have run: "run_state m t = ((), snd (run_state m t))" for m :: "('s, unit) state" and t
    by (simp add: prod_eq_iff)
  from accepted_push_is_served [where row = "ex_inbox_row ex_push" and ev = ex_push and s = "ex_inbox_sys ex_push",
      OF ex_good_weather UNIV_I _ _ _ _ policy _ _ run] ex_inbox [OF ev(4)] slot ev
  show ?thesis
    by auto
qed

theorem accepted_close_is_torn_down_witness:
  "case select_by_branch ''p'' ''b'' (db (snd (run_state (ProcessEvent ex_limited (scanEvent (ex_inbox_row ex_close)))
       (ex_inbox_sys ex_close)))) of None \<Rightarrow> True | Some e \<Rightarrow> er_status e = StatusDestroyed"
proof -
  have ev: "pe_Kind ex_close = ''pr_closed''" "pe_Project ex_close = ''p''" "pe_Branch ex_close = ''b''" "plain_event ex_close"
    by (simp_all add: ex_close_def empty_Event_def plain_event_def)
  have known: "\<forall>e \<in> set (db_environments (db (ex_inbox_sys ex_close))). known_status (er_status e)"
    by (simp add: ex_inbox_sys_def ex_db_def empty_database_def ex_env_def known_status_iff)
  have run: "run_state m t = ((), snd (run_state m t))" for m :: "('s, unit) state" and t
    by (simp add: prod_eq_iff)
  from accepted_close_is_torn_down [where row = "ex_inbox_row ex_close" and ev = ex_close,
      OF ex_lets_go UNIV_I _ _ _ _ known run]
    ex_inbox [OF ev(4)] ev show ?thesis
    by (auto split: option.split)
qed

end
