(* ===== verification/Served_Deliveries.thy ===== *)
theory Served_Deliveries
  imports Healthy_Runs Daemon_Loop Api_Theorems
begin

text \<open>
  From a delivery to the environment it asks for: the receiver of the API stores the event, and the next
  tick of the event loop serves it.
\<close>

section \<open>A tick\<close>

text \<open>A database from which only finished events were removed.\<close>

definition pruned :: "database \<Rightarrow> database \<Rightarrow> bool" where
  "pruned d d' \<longleftrightarrow> db_environments d' = db_environments d \<and> db_dns_records d' = db_dns_records d
     \<and> set (db_events d') \<subseteq> set (db_events d)"

lemma yields_Prune: "no_fault W rt \<Longrightarrow> yields W d (PruneProcessedEvents rt before limit) (\<lambda>_. pruned d)"
  unfolding PruneProcessedEvents_def
  by (intro yields_sql yields_bind [where R = "\<lambda>s d'. db s = d \<and> d' = d", OF yields_db(1)])
    (auto simp: prune_events_def Let_def pruned_def intro!: yields_ret yields_sql
       yields_bind [where R = "\<lambda>_. pruned d", OF yields_db(2)])

lemma yields_ListDueEvents:
  "no_fault W rt \<Longrightarrow> yields W d (ListDueEvents rt now 100) (\<lambda>x d'. x = Inr (map scanEvent (select_due now 100 d)) \<and> d' = d)"
  unfolding ListDueEvents_def scanEvents_def
  by (rule yields_no_err [where R = "\<lambda>rows d'. rows = select_due now 100 d \<and> d' = d", OF yields_query]) (auto intro: yields_ret)

lemma yields_CountDeadLettered:
  "no_fault W rt \<Longrightarrow> yields W d (CountDeadLetteredEvents rt) (\<lambda>x d'. \<exists>n. x = Inr n \<and> d' = d)"
  unfolding CountDeadLetteredEvents_def
  by (rule yields_no_err [where R = "\<lambda>_ d'. d' = d", OF yields_query]) (auto intro: yields_ret)

text \<open>A tick that finds one due event processes it.\<close>

lemma moves_event_tick:
  assumes "steady V r" and "steady W r"
    and "fine V (rt_Now (rc_store r)) (\<lambda>now. select_due now 100 d = [row])"
    and "moves V W d (ProcessEvent r (scanEvent row)) (\<lambda>_. R)" and "\<And>d1 d2. R d1 \<Longrightarrow> pruned d1 d2 \<Longrightarrow> R d2"
  shows "moves V W d (event_tick (rc_store r) r eventRetention lastPrune) (\<lambda>_. R)"
proof -
  note rt = steady_store [OF assms(1)] steady_store [OF assms(2)]
  have now: "yields V d (outside (rt_Now (rc_store r))) (\<lambda>now d'. select_due now 100 d = [row] \<and> d' = d)"
    by (rule yields_outside [OF assms(3)]) simp
  have counted: "yields V d (on_err (CountDeadLetteredEvents (rc_store r)) h (\<lambda>n. count (f n))) (\<lambda>_ d'. d' = d)" for h f
    by (rule yields_no_err [OF yields_CountDeadLettered [OF rt(1)]]) (auto intro: yields_quiet(2))
  have replayed: "moves V W d (ReplayEvents r [scanEvent row]) (\<lambda>_. R)"
    using assms(4) by (simp add: ReplayEvents_def)
  have cleaned: "yields W d' (if b then do { ignore (PruneProcessedEvents (rc_store r) t n); ret x } else ret y) (\<lambda>_. R)"
    if "R d'" for d' b t n x y
  proof -
    have "yields W d' (ignore (PruneProcessedEvents (rc_store r) t n)) (\<lambda>_. R)"
      by (rule yields_ignore, rule yields_mono [OF yields_Prune [OF rt(2)]]) (use assms(5) that in blast)
    then show ?thesis
      using that by (auto intro!: yields_ret yields_bind [where R = "\<lambda>_. R"])
  qed
  have batch: "moves V W d (on_err (ListDueEvents (rc_store r) now 100) g (\<lambda>events. do {
      count (f1 events);
      on_err (CountDeadLetteredEvents (rc_store r)) h (\<lambda>n. count (f2 n));
      ReplayEvents r events;
      (if b then do { ignore (PruneProcessedEvents (rc_store r) t n); ret x } else ret y) })) (\<lambda>_. R)"
    if "select_due now 100 d = [row]" for now g f1 h f2 b t n x y
  proof (rule moves_no_err [where R = "\<lambda>evs d'. evs = [scanEvent row] \<and> d' = d"])
    show "yields V d (ListDueEvents (rc_store r) now 100) (\<lambda>x d'. \<exists>evs. x = Inr evs \<and> evs = [scanEvent row] \<and> d' = d)"
      by (rule yields_mono [OF yields_ListDueEvents [OF rt(1)]]) (simp add: that)
    fix evs d'
    assume "evs = [scanEvent row] \<and> d' = d"
    moreover have "moves V W d (do { count f; on_err (CountDeadLetteredEvents (rc_store r)) h (\<lambda>n. count (f2 n));
        ReplayEvents r [scanEvent row];
        (if b then do { ignore (PruneProcessedEvents (rc_store r) t n); ret x } else ret y) }) (\<lambda>_. R)" for f
      by (intro moves_bind [where R = "\<lambda>_ d'. d' = d", OF yields_quiet(2)], simp, hypsubst, intro moves_bind [OF counted], hypsubst,
          intro moves_bind [OF replayed] cleaned)
    ultimately show "moves V W d' (do { count (f1 evs); on_err (CountDeadLetteredEvents (rc_store r)) h (\<lambda>n. count (f2 n));
        ReplayEvents r evs;
        (if b then do { ignore (PruneProcessedEvents (rc_store r) t n); ret x } else ret y) }) (\<lambda>_. R)"
      by simp
  qed
  have beat: "moves V W d (do { count f; m }) (\<lambda>_. R)" if "moves V W d m (\<lambda>_. R)" for f and m :: "('a sys, 'b) state"
    using that by (intro moves_bind [where R = "\<lambda>_ d'. d' = d", OF yields_quiet(2)]) auto
  show ?thesis
    unfolding event_tick_def
    by (rule moves_bind [OF now], elim conjE, hypsubst, rule beat, rule batch)
qed

section \<open>From the delivery to the environment\<close>

text \<open>On the clocks of these worlds an event is due.\<close>

definition clocks_past :: "'w set \<Rightarrow> 'w Reconciler \<Rightarrow> event_row \<Rightarrow> bool" where
  "clocks_past W r row \<longleftrightarrow> fine W (rt_Now (rc_store r)) (\<lambda>now. due_event now row) \<and> fine W (rc_Now r) (\<lambda>now. due_event now row)"


section \<open>An example\<close>

text \<open>The worlds whose clock has reached the time of the example.\<close>

definition ex_worlds :: "example_world set" where
  "ex_worlds = {w. 1000 \<le> fst w}"

lemma ex_worlds_fine:
  assumes "\<And>w. P (fst (run_state m w)) \<and> fst (snd (run_state m w)) = fst w"
  shows "fine ex_worlds m P"
  using assms by (auto simp: takes_def ex_worlds_def split: prod.splits) (metis fst_conv snd_conv)+

lemma ex_worlds_weather: "good_weather ex_worlds ex_limited p b ex_db"
proof -
  have st: "steady ex_worlds ex_limited"
    unfolding steady_def no_fault_def
    by (auto intro!: ex_worlds_fine simp: ex_limited_def ex_reconciler_def NewReconciler_def ex_runtime_def)
  have "comes_up ex_worlds ex_limited p b"
    by (rule healthy_at_once [OF st])
      (auto intro!: ex_worlds_fine simp: ex_limited_def ex_reconciler_def NewReconciler_def ex_deploy_def)
  moreover have "fine ex_worlds (dns_EnsureRecord (rc_dns ex_limited) rec) (\<lambda>e. e = None)"
      "fine ex_worlds (cp_EnsureCertificate (rc_cert ex_limited) name) (\<lambda>x. \<exists>c. x = Inr c)"
      "dp_CertificateInstaller ex_deploy = None" for rec name
    by (auto intro!: ex_worlds_fine simp: ex_limited_def ex_reconciler_def NewReconciler_def ex_deploy_def)
  moreover have "new_ids ex_worlds ex_runtime ex_db"
  proof -
    have "\<exists>i w. run_state (newID ex_runtime) s = (Inr i, s\<lparr>ext := w\<rparr>) \<and> fst w = fst (ext s) \<and> CHR ''-'' \<in> set i" for s
      by (auto simp: newID_def ex_runtime_def run_err Let_def)
    then show ?thesis
      unfolding new_ids_def ex_worlds_def ex_db_def empty_database_def ex_env_def by fastforce
  qed
  ultimately show ?thesis
    using st by (simp add: good_weather_def builds_def ex_limited_simps Let_def)
qed

definition ex_answer :: bool where
  "ex_answer = (case run_state (handleWebhook ex_server Api_Theorems.ex_request []) ex_sys of ((resp, queue), s) \<Rightarrow>
     rs_Status resp = StatusAccepted
     \<and> list_all (\<lambda>row. case vr_next_attempt_at row of None \<Rightarrow> True | Some t \<Rightarrow> t \<le> 1000) (db_events (db s)))"

lemma ex_answer: ex_answer
  unfolding ex_answer_def handleWebhook_reads [OF ex_delivery(2)] ex_delivery(1)
  by (simp add: run_err parse_delivery_def ex_delivery webhookHeaders_def ex_server_defs Api_Theorems.ex_request_def accept_webhook_def
      CreateEvent_def exec_insert_def insert_event_def id_or_new_def newID_def ex_runtime_def ex_sys_def ex_db_def
      empty_database_def empty_StoreEvent_def event_args_def nullableString_def WriteHeader_def Let_def)


end
