(* ===== verification/Reaper_Runs.thy ===== *)
theory Reaper_Runs
  imports Healthy_Runs Reaper_Model
begin

text \<open>
  What the reaper promises in a world that works: one sweep tears down every environment that is
  expired, and nothing else.
\<close>

section \<open>The teardown of one environment\<close>

text \<open>
  The worlds \<open>H ids recs\<close>, from which the identifiers of a list will be drawn, and in which the
  provider still has the records of a list, the first of both next.
\<close>

definition reaps :: "(string list \<Rightarrow> PDNSRecord list \<Rightarrow> 'w set) \<Rightarrow> 'w Reconciler \<Rightarrow> bool" where
  "reaps H r \<longleftrightarrow> (\<forall>ids rest. lets_go (\<lambda>recs. H ids (recs @ rest)) r)
   \<and> (\<forall>i ids recs s. ext s \<in> H (i # ids) recs \<longrightarrow>
        (\<exists>w \<in> H ids recs. run_state (newID (rc_store r)) s = (Inr i, s\<lparr>ext := w\<rparr>)))"

lemma reapsD:
  assumes "reaps H r"
  shows "lets_go (\<lambda>recs. H ids (recs @ rest)) r" and "steady (H ids recs) r" and "no_fault (H ids recs) (rc_store r)"
proof -
  from assms show L: "lets_go (\<lambda>recs. H ids (recs @ rest)) r" for rest
    by (simp add: reaps_def)
  from lets_goD [OF L [of "[]"], of recs] show "steady (H ids recs) r" "no_fault (H ids recs) (rc_store r)"
    by simp_all
qed

lemma moves_newID:
  assumes "reaps H r"
  shows "moves (H (i # ids) recs) (H ids recs) d (id_or_new (rc_store r) []) (\<lambda>x d'. x = Inr i \<and> d' = d)"
proof -
  have "\<exists>w \<in> H ids recs. run_state (newID (rc_store r)) s = (Inr i, s\<lparr>ext := w\<rparr>)" if "ext s \<in> H (i # ids) recs" for s
    using that assms by (simp add: reaps_def)
  then show ?thesis
    by (fastforce simp: moves_def wp_def id_or_new_def)
qed

lemma moves_CreateEvent:
  assumes "reaps H r" and "db_wf d" and "ev_ID ev = []" and "ev_DedupeKey ev = []"
    and "ev_EnvironmentID ev \<in> er_id ` set (db_environments d)" and "i \<notin> vr_id ` set (db_events d)"
  shows "moves (H (i # ids) recs) (H ids recs) d (CreateEvent (rc_store r) ev)
    (\<lambda>x d'. \<exists>ev'. x = Inr ev' \<and> ev_ID ev' = i \<and> just_claimed i d d')" (is "moves _ _ d _ ?Q")
proof -
  note rt = reapsD(3) [OF assms(1), of ids recs]
  have inserted: "yields (H ids recs) d (if_err (exec_insert (rc_store r) (insert_event (event_args (ev\<lparr>ev_ID := i, ev_CreatedAt := now\<rparr>)))) h
      (do { log_call c; ret (Inr (ev\<lparr>ev_ID := i, ev_CreatedAt := now\<rparr>)) })) ?Q" for now h c
  proof -
    let ?ev = "ev\<lparr>ev_ID := i, ev_CreatedAt := now\<rparr>"
    let ?d = "d\<lparr>db_events := db_events d @ [event_args ?ev]\<rparr>"
    have ins: "insert_event (event_args ?ev) d = Inr ?d"
    proof -
      have "list_ex (\<lambda>e. er_id e = ev_EnvironmentID ev) (db_environments d)" "\<not> list_ex (\<lambda>v. vr_id v = i) (db_events d)"
        using assms(5,6) by (fastforce simp: list_ex_iff)+
      then show ?thesis
        using assms(4) by (cases "ev_EnvironmentID ev = []") (simp_all add: insert_event_def event_args_def nullableString_def)
    qed
    have "other_events i d = db_events d"
      using assms(6) unfolding other_events_def by (auto intro!: filter_True)
    then have "just_claimed i d ?d"
      using db_wf_insert_event [OF assms(2) ins] assms(6) by (simp add: just_claimed_def other_events_def event_args_def)
    then have "yields (H ids recs) ?d (do { log_call c; ret (Inr ?ev) }) ?Q"
      by (intro yields_bind [where R = "\<lambda>_ d'. d' = ?d"] yields_quiet(1)) (auto intro: yields_ret)
    then show ?thesis
      by (rule yields_inserted [OF rt, rotated]) (rule ins)
  qed
  show ?thesis
    unfolding CreateEvent_def Let_def assms(3)
  proof (rule moves_no_err [where V = "H ids recs" and R = "\<lambda>x d'. x = i \<and> d' = d"], goal_cases)
    case 1
    show ?case
      by (rule moves_mono [OF moves_newID [OF assms(1)]]) simp
  next
    case (2 i' d')
    then show ?case
      using rt inserted by (intro yields_bind [where R = "\<lambda>_ d'. d' = d", OF yields_outside [where P = "\<lambda>_. True"]])
        (simp_all add: no_fault_def)
  qed
qed

text \<open>What holds after a call that keeps the tables well formed.\<close>

lemma moves_keeps:
  "moves V W d m Q \<Longrightarrow> keeps (\<lambda>s. db_wf (db s)) m \<Longrightarrow> db_wf d \<Longrightarrow> moves V W d m (\<lambda>a d'. Q a d' \<and> db_wf d')"
  by (auto simp: moves_def wp_def dest: keepsD split: prod.splits)

text \<open>
  The environment is destroyed and its records are gone; the other environments and records are as they
  were, and so are the events but for the one of this teardown, which is processed.
\<close>

definition reaped :: "string \<Rightarrow> string \<Rightarrow> database \<Rightarrow> database \<Rightarrow> bool" where
  "reaped i e d d' \<longleftrightarrow> db_wf d'
   \<and> (\<exists>row. select_environment e d' = Some row \<and> er_status row = StatusDestroyed)
   \<and> filter (\<lambda>x. er_id x \<noteq> e) (db_environments d') = filter (\<lambda>x. er_id x \<noteq> e) (db_environments d)
   \<and> db_dns_records d' = filter (\<lambda>q. dr_EnvironmentID q \<noteq> e) (db_dns_records d)
   \<and> event_done i d d'"

lemma other_rows_by_id:
  assumes "db_wf d" and "select_environment e d = Some row"
  shows "other_rows (er_project row) (er_branch row) d = filter (\<lambda>x. er_id x \<noteq> e) (db_environments d)"
proof -
  have row: "row \<in> set (db_environments d)" "er_id row = e"
    using select_environment_SomeD [OF assms(2)] by simp_all
  have "(er_project x = er_project row \<and> er_branch x = er_branch row) \<longleftrightarrow> er_id x = e" if "x \<in> set (db_environments d)" for x
  proof -
    have "inj_on er_id (set (db_environments d))" "inj_on (\<lambda>x. (er_project x, er_branch x)) (set (db_environments d))"
      using assms(1) by (simp_all add: db_wf_def envs_wf_def distinct_map)
    with that row show ?thesis
      by (auto dest: inj_onD)
  qed
  then show ?thesis
    unfolding other_rows_def by (intro filter_cong) auto
qed

lemma moves_Destroy:
  assumes "reaps H r" and "db_wf d" and "has_row d env (env_Status env)" and "known_status (env_Status env)"
    and "i \<notin> vr_id ` set (db_events d)"
  shows "moves (H (i # ids) (env_records r (env_ID env) d @ rest)) (H ids rest) d (Destroy r env)
    (\<lambda>x d'. x = None \<and> reaped i (env_ID env) d d')"
proof -
  let ?p = "env_Project env" and ?b = "env_Branch env" and ?e = "env_ID env"
  let ?recs = "env_records r ?e d @ rest"
  let ?R = "\<lambda>d'. (\<exists>env'. down env' d' \<and> env_ID env' = ?e \<and> env_Project env' = ?p \<and> env_Branch env' = ?b)
    \<and> db_dns_records d' = filter (\<lambda>q. dr_EnvironmentID q \<noteq> ?e) (db_dns_records d) \<and> other_rows ?p ?b d' = other_rows ?p ?b d"
  note W = reapsD(1) [OF assms(1), of ids rest]
  obtain row where row: "select_environment ?e d = Some row" "er_project row = ?p" "er_branch row = ?b"
    using assms(3) by (auto simp: has_row_def)
  then have in_d: "?e \<in> er_id ` set (db_environments d)"
    using select_environment_SomeD [OF row(1)] by (metis imageI)
  have torn: "moves (H ids ?recs) (H ids rest) d1 (on_err (mark_destroying r env) h (\<lambda>env1. do {
        destroyErr \<leftarrow> doDestroy r env1;
        (case destroyErr of None \<Rightarrow> do { markProcessed r ev; ret None } | Some err \<Rightarrow> k env1 err) }))
      (\<lambda>x d'. x = None \<and> ?R d' \<and> event_done i d d')"
    if ev: "ev_ID ev = i" "just_claimed i d d1" for ev d1 h k
  proof -
    have same: "select_environment ?e d1 = select_environment ?e d" "env_records r ?e d1 = env_records r ?e d"
        "other_rows ?p ?b d1 = other_rows ?p ?b d" "db_wf d1" "db_dns_records d1 = db_dns_records d"
      using ev(2) by (simp_all add: just_claimed_def select_environment_def env_records_def select_dns_records_def other_rows_def)
    then have r1: "has_row d1 env (env_Status env)"
      using assms(3) by (simp add: has_row_def)
    show ?thesis
    proof (rule moves_no_err [OF yields_mark_destroying [OF reapsD(3) [OF assms(1)] same(4) r1 assms(4)]], elim conjE, goal_cases)
      case (1 env1 d2)
      then have d2: "db_wf d2" "env_records r ?e d2 = env_records r ?e d"
        using same by (simp_all add: only_branch_def env_records_def select_dns_records_def)
      note destroyed = moves_doDestroy [OF W d2(1) 1(1), unfolded d2(2) 1(2-4)]
      have marked: "yields (H ids rest) d3 (do { markProcessed r ev; ret None }) (\<lambda>x d'. x = None \<and> ?R d' \<and> event_done i d d')"
        if "?R d3" "db_events d3 = db_events d1" for d3
      proof (rule yields_bind [where R = "\<lambda>_ d'. ?R d' \<and> event_done i d d'"])
        have "?R d' = ?R d3" if "db_environments d' = db_environments d3" "db_dns_records d' = db_dns_records d3" for d'
          using that by (simp add: down_def select_environment_def other_rows_def)
        then have R: "?R d' \<and> event_done i d d'" if "db_environments d' = db_environments d3 \<and> db_dns_records d' = db_dns_records d3
            \<and> event_done i d d'" for d'
          using that \<open>?R d3\<close> by metis
        have "yields (H ids rest) d3 (markProcessed r ev) (\<lambda>_ d'. db_environments d' = db_environments d3
            \<and> db_dns_records d' = db_dns_records d3 \<and> event_done i d d')"
          by (rule yields_markProcessed [OF reapsD(2) [OF assms(1)], of ev d d1 d3, unfolded ev(1)]) (fact ev(2), fact that(2))
        then show "yields (H ids rest) d3 (markProcessed r ev) (\<lambda>_ d'. ?R d' \<and> event_done i d d')"
          by (rule yields_mono) (rule R)
      qed (auto intro: yields_ret)
      show ?case
        by (rule moves_bind [OF destroyed [simplified]]) (use 1 same marked in \<open>auto simp: only_branch_def\<close>)
    qed
  qed
  have "moves (H (i # ids) ?recs) (H ids rest) d (destroyLocked r env) (\<lambda>x d'. x = None \<and> ?R d' \<and> event_done i d d')"
    unfolding destroyLocked_def Let_def
  proof (rule moves_no_err [where V = "H ids ?recs" and R = "\<lambda>ev d1. ev_ID ev = i \<and> just_claimed i d d1"], goal_cases)
    case 1
    show ?case
      by (rule moves_mono [OF moves_CreateEvent [OF assms(1,2) _ _ _ assms(5)]]) (use in_d in \<open>simp_all add: empty_StoreEvent_def\<close>)
  next
    case (2 ev d1)
    then show ?case
      by (intro torn) simp_all
  qed
  then have "moves (H (i # ids) ?recs) (H ids rest) d (Destroy r env) (\<lambda>x d'. x = None \<and> ?R d' \<and> event_done i d d')"
    unfolding Destroy_def by (rule moves_with_lock)
  note done' = moves_keeps [OF this tables.sys.Destroy_keeps(1) assms(2)]
  have "reaped i ?e d d'" if "db_wf d'" "?R d'" "event_done i d d'" for d'
  proof -
    obtain env' where "down env' d'" "env_ID env' = ?e" "env_Project env' = ?p" "env_Branch env' = ?b"
      using \<open>?R d'\<close> by blast
    then obtain row' where row': "select_environment ?e d' = Some row'" "er_status row' = StatusDestroyed"
        "er_project row' = ?p" "er_branch row' = ?b"
      by (auto simp: down_def)
    show ?thesis
      using that row'(1,2) other_rows_by_id [OF that(1) row'(1)] other_rows_by_id [OF assms(2) row(1)] row row'
      by (simp add: reaped_def)
  qed
  then show ?thesis
    by (intro moves_mono [OF done']) blast
qed

section \<open>A sweep\<close>

text \<open>
  All rows of a list are destroyed and without records, everything else is as it was, and every
  teardown has left its event, processed.
\<close>

definition swept :: "string list \<Rightarrow> environment_row list \<Rightarrow> database \<Rightarrow> database \<Rightarrow> bool" where
  "swept ids rows d d' \<longleftrightarrow> db_wf d'
   \<and> (\<forall>row \<in> set rows. \<exists>row'. select_environment (er_id row) d' = Some row' \<and> er_status row' = StatusDestroyed)
   \<and> filter (\<lambda>x. er_id x \<notin> er_id ` set rows) (db_environments d') = filter (\<lambda>x. er_id x \<notin> er_id ` set rows) (db_environments d)
   \<and> db_dns_records d' = filter (\<lambda>q. dr_EnvironmentID q \<notin> er_id ` set rows) (db_dns_records d)
   \<and> filter (\<lambda>v. vr_id v \<notin> set ids) (db_events d') = db_events d
   \<and> set ids \<subseteq> vr_id ` set (db_events d')
   \<and> (\<forall>v \<in> set (db_events d'). vr_id v \<in> set ids \<longrightarrow> vr_processed_at v \<noteq> None)"

lemma swept_Cons:
  assumes "reaped i (er_id row) d d1" and "swept ids rows d1 d'" and "i \<notin> vr_id ` set (db_events d)" and "i \<notin> set ids"
    and "er_id row \<notin> er_id ` set rows"
  shows "swept (i # ids) (row # rows) d d'"
  unfolding swept_def
proof (intro conjI)
  let ?e = "er_id row" and ?es = "er_id ` set rows"
  have wf: "db_wf d'" "filter (\<lambda>x. er_id x \<notin> ?es) (db_environments d') = filter (\<lambda>x. er_id x \<notin> ?es) (db_environments d1)"
    and d1: "filter (\<lambda>x. er_id x \<noteq> ?e) (db_environments d1) = filter (\<lambda>x. er_id x \<noteq> ?e) (db_environments d)"
    using assms(1,2) by (simp_all add: swept_def reaped_def)
  show "db_wf d'"
    by (fact wf)
  obtain row' where row': "select_environment ?e d1 = Some row'" "er_status row' = StatusDestroyed"
    using assms(1) by (auto simp: reaped_def)
  then have "row' \<in> set (filter (\<lambda>x. er_id x \<notin> ?es) (db_environments d1))" "er_id row' = ?e"
    using select_environment_SomeD [OF row'(1)] assms(5) by simp_all
  then have "select_environment ?e d' = Some row'"
    unfolding wf(2) [symmetric] using select_environment_Some [OF wf(1), of row'] by simp
  then show "\<forall>x \<in> set (row # rows). \<exists>row'. select_environment (er_id x) d' = Some row' \<and> er_status row' = StatusDestroyed"
    using row'(2) assms(2) by (simp add: swept_def)
  have both: "filter (\<lambda>x. er_id x \<notin> er_id ` set (row # rows)) xs = filter (\<lambda>x. er_id x \<noteq> ?e) (filter (\<lambda>x. er_id x \<notin> ?es) xs)"
    "filter (\<lambda>x. er_id x \<notin> er_id ` set (row # rows)) xs = filter (\<lambda>x. er_id x \<notin> ?es) (filter (\<lambda>x. er_id x \<noteq> ?e) xs)" for xs
    by (auto intro: filter_cong)
  show "filter (\<lambda>x. er_id x \<notin> er_id ` set (row # rows)) (db_environments d')
      = filter (\<lambda>x. er_id x \<notin> er_id ` set (row # rows)) (db_environments d)"
    by (simp only: both(1) [of "db_environments d'"] wf(2), simp only: both [symmetric], simp only: both(2) d1)
  show "db_dns_records d' = filter (\<lambda>q. dr_EnvironmentID q \<notin> er_id ` set (row # rows)) (db_dns_records d)"
    using assms(1,2) by (auto simp: swept_def reaped_def intro: filter_cong)
  have ev: "filter (\<lambda>v. vr_id v \<notin> set ids) (db_events d') = db_events d1" "event_done i d d1" "set ids \<subseteq> vr_id ` set (db_events d')"
    using assms(1,2) by (simp_all add: swept_def reaped_def)
  have "filter (\<lambda>v. vr_id v \<notin> set (i # ids)) (db_events d') = filter (\<lambda>v. vr_id v \<noteq> i) (filter (\<lambda>v. vr_id v \<notin> set ids) (db_events d'))"
    by (auto intro: filter_cong)
  also have "\<dots> = other_events i d"
    using ev by (simp add: event_done_def other_events_def)
  also have "\<dots> = db_events d"
    using assms(3) unfolding other_events_def by (auto intro!: filter_True)
  finally show "filter (\<lambda>v. vr_id v \<notin> set (i # ids)) (db_events d') = db_events d" .
  have new: "v \<in> set (db_events d1) \<longleftrightarrow> v \<in> set (db_events d') \<and> vr_id v \<notin> set ids" for v
    unfolding ev(1) [symmetric] by auto
  then show "set (i # ids) \<subseteq> vr_id ` set (db_events d')"
    using ev(2,3) by (auto simp: event_done_def)
  show "\<forall>v \<in> set (db_events d'). vr_id v \<in> set (i # ids) \<longrightarrow> vr_processed_at v \<noteq> None"
    using assms(2,4) ev(2) new by (auto simp: swept_def event_done_def)
qed

lemma moves_sweep:
  assumes "reaps H r" and "rp_reconciler rp = r"
  shows "db_wf d \<Longrightarrow> length ids = length rows \<Longrightarrow> distinct ids \<Longrightarrow> set ids \<inter> vr_id ` set (db_events d) = {}
    \<Longrightarrow> distinct (map er_id rows) \<Longrightarrow> set rows \<subseteq> set (db_environments d) \<Longrightarrow> \<forall>row \<in> set rows. known_status (er_status row)
    \<Longrightarrow> moves (H ids (concat (map (\<lambda>row. env_records r (er_id row) d) rows))) (H [] []) d
      (for_each (sweepOne rp) (map scanEnvironment rows)) (\<lambda>x d'. x = [] \<and> swept ids rows d d')"
proof (induction rows arbitrary: ids d)
  case Nil
  then show ?case
    by (simp add: yields_ret swept_def)
next
  case (Cons row rows)
  then obtain i ids' where ids: "ids = i # ids'"
    by (cases ids) auto
  let ?env = "scanEnvironment row" and ?rest = "concat (map (\<lambda>row. env_records r (er_id row) d) rows)"
  have env: "env_ID ?env = er_id row" "env_Status ?env = er_status row" "has_row d ?env (env_Status ?env)"
    using Cons.prems select_environment_Some [of d row] by (simp_all add: scanEnvironment_def has_row_def)
  have fresh: "i \<notin> vr_id ` set (db_events d)" "i \<notin> set ids'" "er_id row \<notin> er_id ` set rows"
    using Cons.prems by (auto simp: ids)
  have one: "moves (H (i # ids') (env_records r (er_id row) d @ ?rest)) (H ids' ?rest) d (sweepOne rp ?env)
      (\<lambda>x d'. x = [] \<and> reaped i (er_id row) d d')"
    unfolding sweepOne_def assms(2)
    by (rule moves_nil_err [OF moves_Destroy [OF assms(1) _ env(3) _ fresh(1), unfolded env(1,2)]])
      (use Cons.prems in \<open>auto intro: yields_ret\<close>)
  have others: "moves (H ids' ?rest) (H [] []) d1 (for_each (sweepOne rp) (map scanEnvironment rows)) (\<lambda>x d'. x = [] \<and> swept ids' rows d1 d')"
    if d1: "reaped i (er_id row) d d1" for d1
  proof -
    have ne: "er_id x \<noteq> er_id row" if "x \<in> set rows" for x
      using that fresh(3) by (metis imageI)
    have "set (filter (\<lambda>x. er_id x \<noteq> er_id row) (db_environments d)) \<subseteq> set (db_environments d1)"
      using d1 unfolding reaped_def by (metis filter_is_subset)
    moreover have "x \<in> set (filter (\<lambda>x. er_id x \<noteq> er_id row) (db_environments d))" if "x \<in> set rows" for x
      using that Cons.prems(6) ne by simp blast
    ultimately have rows: "set rows \<subseteq> set (db_environments d1)"
      by blast
    have "env_records r (er_id x) d1 = env_records r (er_id x) d" if "x \<in> set rows" for x
    proof -
      have "filter (\<lambda>q. dr_EnvironmentID q = er_id x) (filter (\<lambda>q. dr_EnvironmentID q \<noteq> er_id row) qs)
          = filter (\<lambda>q. dr_EnvironmentID q = er_id x) qs" for qs :: "DNSRecord list"
        using ne [OF that] by (induction qs) simp_all
      then show ?thesis
        using d1 by (simp only: reaped_def env_records_def select_dns_records_def)
    qed
    then have rest: "concat (map (\<lambda>row. env_records r (er_id row) d1) rows) = ?rest"
      by (intro arg_cong [where f = concat] map_cong) simp_all
    have "v \<in> set (db_events d1) \<Longrightarrow> vr_id v = i \<or> v \<in> set (db_events d)" for v
      using d1 in_other_events [of v i d1] in_other_events [of v i d] by (auto simp: reaped_def event_done_def)
    then have "set ids' \<inter> vr_id ` set (db_events d1) = {}"
      using Cons.prems(4) fresh(2) by (fastforce simp: ids)
    then show ?thesis
      using Cons.IH [of d1 ids', unfolded rest] d1 rows Cons.prems by (simp add: ids reaped_def)
  qed
  show ?case
    unfolding ids list.map for_each.simps concat.simps
    by (rule moves_bind [OF one], elim conjE, hypsubst, rule moves_bind [OF others])
      (auto intro!: yields_ret swept_Cons [OF _ _ fresh])
qed

lemma select_expired_rows:
  assumes "db_wf d"
  shows "set (select_expired now d) \<subseteq> set (db_environments d)" and "distinct (map er_id (select_expired now d))"
proof -
  have "distinct (map er_id (filter (expired now) (db_environments d)))"
    using assms by (simp add: db_wf_def envs_wf_def distinct_map_filter)
  then show "distinct (map er_id (select_expired now d))"
    by (simp add: select_expired_def distinct_map)
qed (auto simp: select_expired_def)


section \<open>An example\<close>

text \<open>Three environments, two of them expired, the first with a DNS record.\<close>

definition ex_overdue :: "example_world sys" where
  "ex_overdue = ex_sys\<lparr>db := ex_db\<lparr>db_dns_records := [ex_record],
     db_environments := [environment_args (ex_env\<lparr>env_TTLExpiresAt := Some 500\<rparr>),
       environment_args (ex_env\<lparr>env_ID := ''e2'', env_Branch := ''c'', env_TTLExpiresAt := Some 400\<rparr>),
       environment_args (ex_env\<lparr>env_ID := ''e3'', env_Branch := ''d'', env_TTLExpiresAt := Some 2000\<rparr>)]\<rparr>\<rparr>"

text \<open>The identifiers the example world hands out, by its counter.\<close>

definition ex_id :: "nat \<Rightarrow> string" where
  "ex_id n = (case fst (run_state (newID ex_runtime) (ex_sys\<lparr>ext := (0, n)\<rparr>)) of Inl _ \<Rightarrow> [] | Inr i \<Rightarrow> i)"

definition ex_supply :: "string list \<Rightarrow> PDNSRecord list \<Rightarrow> example_world set" where
  "ex_supply ids recs = {w. fst w = 1000 \<and> ids = map ex_id [snd w ..< snd w + length ids]}"

lemma ex_new_id:
  "run_state (newID ex_runtime) s = (Inr (ex_id (snd (ext s))), s\<lparr>ext := (fst (ext s), snd (ext s) + 1)\<rparr>)"
  by (simp add: ex_id_def newID_def ex_runtime_def run_err Let_def)

lemma ex_ids_differ: "ex_id 0 \<noteq> ex_id 1"
  by code_simp

lemma ex_reconciler_simps:
  "rc_store ex_reconciler = ex_runtime" "rc_deploy ex_reconciler = ex_deploy"
  by (simp_all add: ex_reconciler_def NewReconciler_def)

lemma ex_reaps: "reaps ex_supply ex_reconciler"
proof -
  have "steady (ex_supply ids recs) ex_reconciler" for ids recs
    by (simp add: steady_def no_fault_def takes_def ex_reconciler_def NewReconciler_def ex_runtime_def)
  moreover have "takes (ex_supply ids recs) (ex_supply ids recs') (dns_DeleteRecord (rc_dns ex_reconciler) rec) gone"
      "fine (ex_supply ids recs) (cp_RevokeCertificate (rc_cert ex_reconciler) name) (\<lambda>e. e = None)"
      "dp_CertificateRemover ex_deploy = None" "fine (ex_supply ids recs) (dp_Destroy ex_deploy ref) (\<lambda>e. e = None)"
      for ids recs recs' rec name ref
    by (simp_all add: takes_def gone_def ex_supply_def ex_reconciler_def NewReconciler_def ex_deploy_def)
  ultimately have "lets_go (\<lambda>recs. ex_supply ids (recs @ rest)) ex_reconciler" for ids rest
    by (simp add: lets_go_def ex_reconciler_simps)
  moreover have "\<exists>w \<in> ex_supply ids recs. run_state (newID ex_runtime) s = (Inr i, s\<lparr>ext := w\<rparr>)"
    if "ext s \<in> ex_supply (i # ids) recs" for i ids recs s
  proof -
    have "i = ex_id (snd (ext s))" "(fst (ext s), snd (ext s) + 1) \<in> ex_supply ids recs"
      using that by (simp_all add: ex_supply_def upt_conv_Cons del: upt_Suc)
    then show ?thesis
      using ex_new_id [of s] by blast
  qed
  ultimately show ?thesis
    by (simp add: reaps_def ex_reconciler_simps)
qed


end
