(* ===== verification/Cli_Root.thy ===== *)
theory Cli_Root
  imports Cli_Setup
begin

text \<open>
  \<open>cmd/ramify/root.go\<close> and the constructors of the commands: the tree of commands with their flags and
  defaults, and \<open>main\<close>. The flag parser is the library's: an argument that turns the arguments of the
  process into a command of the tree, its words and the values of its flags.
\<close>

section \<open>Commands and flags\<close>

datatype flag_value =
    FlagString string
  | FlagBool bool
  | FlagInt int
  | FlagDuration time
  | FlagStrings "string list"

text \<open>What the parser delivers.\<close>

record invocation =
  in_command :: string
  in_args :: "string list"
  in_flags :: "string \<Rightarrow> flag_value option"

definition str_flag :: "invocation \<Rightarrow> string \<Rightarrow> string" where
  "str_flag iv name = (case in_flags iv name of Some (FlagString s) \<Rightarrow> s | _ \<Rightarrow> [])"

definition bool_flag :: "invocation \<Rightarrow> string \<Rightarrow> bool" where
  "bool_flag iv name = (case in_flags iv name of Some (FlagBool b) \<Rightarrow> b | _ \<Rightarrow> False)"

definition int_flag :: "invocation \<Rightarrow> string \<Rightarrow> int" where
  "int_flag iv name = (case in_flags iv name of Some (FlagInt n) \<Rightarrow> n | _ \<Rightarrow> 0)"

definition duration_flag :: "invocation \<Rightarrow> string \<Rightarrow> time" where
  "duration_flag iv name = (case in_flags iv name of Some (FlagDuration t) \<Rightarrow> t | _ \<Rightarrow> 0)"

definition strings_flag :: "invocation \<Rightarrow> string \<Rightarrow> string list" where
  "strings_flag iv name = (case in_flags iv name of Some (FlagStrings ss) \<Rightarrow> ss | _ \<Rightarrow> [])"

text \<open>The variables of \<open>newInitCmd\<close>, bound to its flags.\<close>

definition init_flags :: "invocation \<Rightarrow> InitFlags" where
  "init_flags i =
     \<lparr>fl_output = str_flag i ''output'', fl_base_domain = str_flag i ''base-domain'',
      fl_socket_path = str_flag i ''socket-path'', fl_store_path = str_flag i ''store-path'',
      fl_default_ttl = duration_flag i ''default-ttl'', fl_event_retention = duration_flag i ''event-retention'',
      fl_github_token = str_flag i ''github-token'', fl_github_webhook_secret = str_flag i ''github-webhook-secret'',
      fl_git_provider = str_flag i ''git-provider'', fl_git_base_url = str_flag i ''git-base-url'',
      fl_deploy_ssh_addr = str_flag i ''deploy-ssh-addr'', fl_deploy_provider = str_flag i ''deploy-provider'',
      fl_deploy_ssh_user = str_flag i ''deploy-ssh-user'', fl_deploy_ssh_key = str_flag i ''deploy-ssh-key'',
      fl_deploy_ssh_known_hosts = str_flag i ''deploy-ssh-known-hosts'',
      fl_deploy_compose_file = str_flag i ''deploy-compose-file'', fl_deploy_dns_target = str_flag i ''deploy-dns-target'',
      fl_deploy_certificate_dir = str_flag i ''deploy-certificate-dir'',
      fl_kubernetes_namespace = str_flag i ''kubernetes-namespace'', fl_kubernetes_context = str_flag i ''kubernetes-context'',
      fl_kubernetes_kubeconfig = str_flag i ''kubernetes-kubeconfig'',
      fl_kubernetes_ingress_class = str_flag i ''kubernetes-ingress-class'',
      fl_kubernetes_container_port = int_flag i ''kubernetes-container-port'',
      fl_kubernetes_service_port = int_flag i ''kubernetes-service-port'', fl_dns_zone = str_flag i ''dns-zone'',
      fl_cloudflare_token = str_flag i ''cloudflare-token'', fl_dns_provider = str_flag i ''dns-provider'',
      fl_dns_token = str_flag i ''dns-token'', fl_dns_project = str_flag i ''dns-project'',
      fl_dns_zone_id = str_flag i ''dns-zone-id'', fl_acme_email = str_flag i ''acme-email'',
      fl_acme_ca_dir_url = str_flag i ''acme-ca-dir-url'', fl_pr_only = bool_flag i ''pr-only'',
      fl_allow_branches = strings_flag i ''allow-branches'', fl_deny_branches = strings_flag i ''deny-branches'',
      fl_required_labels = strings_flag i ''required-labels'', fl_max_concurrent_envs = int_flag i ''max-concurrent-envs''\<rparr>"

text \<open>
  A command: its name, the number of words it demands, its flags with their defaults, and what it runs.
\<close>

record 's command =
  cm_Use :: string
  cm_ExactArgs :: "nat option"
  cm_Flags :: "(string \<times> flag_value) list"
  cm_RunE :: "invocation \<Rightarrow> ('s terminal, error option) state"

text \<open>
  What the process finds outside: the arguments' parser, which answers nothing when it printed the
  help or the version itself, standard input, and what the commands call.
\<close>

record ('s, 'c, 'k) machine =
  ma_parse :: "'s command list \<Rightarrow> (string \<times> flag_value) list \<Rightarrow> string list \<Rightarrow> error + invocation option"
  ma_stdin :: string
  ma_http :: "'s http_transport"
  ma_read :: "body \<Rightarrow> string"
  ma_when :: "time \<Rightarrow> string"
  ma_MkdirAll :: "string \<Rightarrow> ('s, error option) state"
  ma_marshal :: "Config \<Rightarrow> error + string"
  ma_WriteFile :: "string \<Rightarrow> string \<Rightarrow> ('s, error option) state"
  ma_load :: "string \<Rightarrow> error + Config"
  ma_open :: "string \<Rightarrow> ('s, error option) state"
  ma_backup :: "'s backup_os"
  ma_doctor :: "('s, 'c, 'k) doctor_os"

definition first_arg :: "invocation \<Rightarrow> string" where
  "first_arg iv = (case in_args iv of [] \<Rightarrow> [] | a # _ \<Rightarrow> a)"

text \<open>\<open>client()\<close> over the persistent flags.\<close>

definition flag_client :: "('s, 'c, 'k) machine \<Rightarrow> invocation \<Rightarrow> 's apiClient" where
  "flag_client m iv = client (ma_http m) (ma_read m) (str_flag iv ''socket'') (str_flag iv ''addr'') (str_flag iv ''token'')"

section \<open>The tree of commands\<close>

definition newInstallCmd :: "('s, 'c, 'k) machine \<Rightarrow> 's command" where
  "newInstallCmd m = \<lparr>cm_Use = ''install'', cm_ExactArgs = None,
     cm_Flags = [(''config-dir'', FlagString ''/etc/ramify''), (''data-dir'', FlagString ''/var/lib/ramify'')],
     cm_RunE = (\<lambda>iv. install_command (ma_MkdirAll m) (str_flag iv ''config-dir'') (str_flag iv ''data-dir''))\<rparr>"

definition newListCmd :: "('s, 'c, 'k) machine \<Rightarrow> 's command" where
  "newListCmd m = \<lparr>cm_Use = ''list'', cm_ExactArgs = None, cm_Flags = [(''project'', FlagString [])],
     cm_RunE = (\<lambda>iv. list_command (flag_client m iv) (str_flag iv ''project''))\<rparr>"

definition newStatusCmd :: "('s, 'c, 'k) machine \<Rightarrow> 's command" where
  "newStatusCmd m = \<lparr>cm_Use = ''status'', cm_ExactArgs = Some 1, cm_Flags = [(''project'', FlagString [])],
     cm_RunE = (\<lambda>iv. status_command (ma_when m) (flag_client m iv) (str_flag iv ''project'') (first_arg iv))\<rparr>"

definition newLogsCmd :: "('s, 'c, 'k) machine \<Rightarrow> 's command" where
  "newLogsCmd m = \<lparr>cm_Use = ''logs'', cm_ExactArgs = Some 1, cm_Flags = [(''project'', FlagString [])],
     cm_RunE = (\<lambda>iv. logs_command (flag_client m iv) (str_flag iv ''project'') (first_arg iv))\<rparr>"

definition newDestroyCmd :: "('s, 'c, 'k) machine \<Rightarrow> 's command" where
  "newDestroyCmd m = \<lparr>cm_Use = ''destroy'', cm_ExactArgs = Some 1,
     cm_Flags = [(''project'', FlagString []), (''yes'', FlagBool False)],
     cm_RunE = (\<lambda>iv. destroy_command (flag_client m iv) (str_flag iv ''project'') (first_arg iv) (bool_flag iv ''yes'') (ma_stdin m))\<rparr>"

definition newDoctorCmd :: "('s, 'c, 'k) machine \<Rightarrow> 's command" where
  "newDoctorCmd m = \<lparr>cm_Use = ''doctor'', cm_ExactArgs = None, cm_Flags = [(''config'', FlagString ''ramify.yaml'')],
     cm_RunE = (\<lambda>iv. doctor_command (ma_load m) (ma_doctor m) (str_flag iv ''config''))\<rparr>"

definition newBackupCmd :: "('s, 'c, 'k) machine \<Rightarrow> 's command" where
  "newBackupCmd m = \<lparr>cm_Use = ''backup'', cm_ExactArgs = None,
     cm_Flags = [(''config'', FlagString ''ramify.yaml''), (''output'', FlagString ''ramify-backup.db'')],
     cm_RunE = (\<lambda>iv. backup_command (ma_load m) (ma_open m) (ma_backup m) (str_flag iv ''config'') (str_flag iv ''output''))\<rparr>"

definition init_flag_defaults :: "(string \<times> flag_value) list" where
  "init_flag_defaults =
     [(''output'', FlagString ''/etc/ramify/ramify.yaml''), (''base-domain'', FlagString []),
      (''socket-path'', FlagString defaultSocketPath), (''store-path'', FlagString ''/var/lib/ramify/ramify.db''),
      (''default-ttl'', FlagDuration (72 * Hour)), (''event-retention'', FlagDuration (720 * Hour)),
      (''github-token'', FlagString []), (''github-webhook-secret'', FlagString []),
      (''git-provider'', FlagString ''github''), (''git-base-url'', FlagString []),
      (''deploy-ssh-addr'', FlagString []), (''deploy-provider'', FlagString ''compose''),
      (''deploy-ssh-user'', FlagString ''ramify''), (''deploy-ssh-key'', FlagString []),
      (''deploy-ssh-known-hosts'', FlagString []), (''deploy-compose-file'', FlagString []),
      (''deploy-dns-target'', FlagString []), (''deploy-certificate-dir'', FlagString ''/srv/ramify/certificates''),
      (''kubernetes-namespace'', FlagString ''ramify''), (''kubernetes-context'', FlagString []),
      (''kubernetes-kubeconfig'', FlagString []), (''kubernetes-ingress-class'', FlagString []),
      (''kubernetes-container-port'', FlagInt 8080), (''kubernetes-service-port'', FlagInt 8080),
      (''dns-zone'', FlagString []), (''cloudflare-token'', FlagString []),
      (''dns-provider'', FlagString ''cloudflare''), (''dns-token'', FlagString []),
      (''dns-project'', FlagString []), (''dns-zone-id'', FlagString []), (''acme-email'', FlagString []),
      (''acme-ca-dir-url'', FlagString ''https://acme-v02.api.letsencrypt.org/directory''),
      (''pr-only'', FlagBool False), (''allow-branches'', FlagStrings []), (''deny-branches'', FlagStrings []),
      (''required-labels'', FlagStrings []), (''max-concurrent-envs'', FlagInt 0)]"

definition newInitCmd :: "('s, 'c, 'k) machine \<Rightarrow> 's command" where
  "newInitCmd m = \<lparr>cm_Use = ''init'', cm_ExactArgs = None, cm_Flags = init_flag_defaults,
     cm_RunE = (\<lambda>iv. init_command (ma_marshal m) (ma_WriteFile m) (init_flags iv))\<rparr>"

text \<open>The root: its persistent flags, which every command has beside its own, and the commands.\<close>

definition root_flags :: "(string \<times> flag_value) list" where
  "root_flags = [(''socket'', FlagString defaultSocketPath), (''addr'', FlagString []), (''token'', FlagString [])]"

definition newRootCmd :: "('s, 'c, 'k) machine \<Rightarrow> 's command list" where
  "newRootCmd m = [newInstallCmd m, newInitCmd m, newListCmd m, newStatusCmd m, newLogsCmd m, newDestroyCmd m, newDoctorCmd m,
     newBackupCmd m]"

lemmas command_defs = newInstallCmd_def newInitCmd_def newListCmd_def newStatusCmd_def newLogsCmd_def newDestroyCmd_def
  newDoctorCmd_def newBackupCmd_def

section \<open>main\<close>

text \<open>What the library does with the tree: the named command runs; its own messages are left out.\<close>

definition run_command :: "('s, 'c, 'k) machine \<Rightarrow> invocation \<Rightarrow> ('s terminal, error option) state" where
  "run_command m iv =
     (case List.find (\<lambda>c. cm_Use c = in_command iv) (newRootCmd m) of
        None \<Rightarrow> ret (Some (Opaque (''unknown command '' @ Quote (in_command iv) @ '' for '' @ Quote ''ramify'')))
      | Some c \<Rightarrow> cm_RunE c iv)"

definition Execute :: "('s, 'c, 'k) machine \<Rightarrow> string list \<Rightarrow> ('s terminal, error option) state" where
  "Execute m args =
     (case ma_parse m (newRootCmd m) root_flags args of
        Inl err \<Rightarrow> ret (Some err)
      | Inr None \<Rightarrow> ret None
      | Inr (Some iv) \<Rightarrow> run_command m iv)"

text \<open>The line that \<open>main\<close> writes to standard error, if any, and the status of the process.\<close>

definition ramify_main :: "('s, 'c, 'k) machine \<Rightarrow> string list \<Rightarrow> ('s terminal, string option \<times> nat) state" where
  "ramify_main m args = if_err (Execute m args) (\<lambda>err. ret (Some (error_text err @ newline), 1)) (ret (None, 0))"

section \<open>Facts\<close>

text \<open>
  A parser keeps to the tree: a command of the root, as many words as it demands, and a value for every
  flag of it and of the root, of the type of its default, which is the value of a flag not given.
\<close>

fun same_type :: "flag_value \<Rightarrow> flag_value \<Rightarrow> bool" where
  "same_type (FlagString _) (FlagString _) = True"
| "same_type (FlagBool _) (FlagBool _) = True"
| "same_type (FlagInt _) (FlagInt _) = True"
| "same_type (FlagDuration _) (FlagDuration _) = True"
| "same_type (FlagStrings _) (FlagStrings _) = True"
| "same_type _ _ = False"

definition parsed_from :: "'s command list \<Rightarrow> (string \<times> flag_value) list \<Rightarrow> invocation \<Rightarrow> bool" where
  "parsed_from tree rootFlags iv \<longleftrightarrow> (\<exists>c \<in> set tree. in_command iv = cm_Use c
     \<and> (\<forall>n. cm_ExactArgs c = Some n \<longrightarrow> length (in_args iv) = n)
     \<and> (\<forall>(name, default) \<in> set (rootFlags @ cm_Flags c). \<exists>v. in_flags iv name = Some v \<and> same_type default v))"

text \<open>An invocation of \<open>init\<close> without a flag has the documented defaults.\<close>

lemma init_defaults:
  assumes "\<forall>(name, default) \<in> set init_flag_defaults. in_flags iv name = Some default"
  shows "init_flags iv = default_flags"
  using assms
  by (simp add: init_flag_defaults_def init_flags_def default_flags_def str_flag_def bool_flag_def int_flag_def duration_flag_def strings_flag_def)

text \<open>The names of the commands are distinct, and so are the flags each of them is given.\<close>

lemma command_names: "distinct (map cm_Use (newRootCmd m))"
  by (simp add: newRootCmd_def command_defs)

lemma flag_names: "c \<in> set (newRootCmd m) \<Longrightarrow> distinct (map fst (root_flags @ cm_Flags c))"
  by (auto simp: newRootCmd_def root_flags_def init_flag_defaults_def command_defs)

section \<open>Who writes\<close>

text \<open>
  What every call of a command but a request with another method than GET keeps: the files it makes, the
  services the checks ask, the database it opens for a backup.
\<close>

definition only_writes_by_request :: "('s \<Rightarrow> bool) \<Rightarrow> ('s, 'c, 'k) machine \<Rightarrow> bool" where
  "only_writes_by_request I m \<longleftrightarrow>
     (\<forall>sock base r. keeps I (ma_http m sock base ''GET'' r))
   \<and> (\<forall>dir. keeps I (ma_MkdirAll m dir)) \<and> (\<forall>f out. keeps I (ma_WriteFile m f out)) \<and> (\<forall>f. keeps I (ma_open m f))
   \<and> (let b = ma_backup m in (\<forall>f. keeps I (bo_Stat b f)) \<and> (\<forall>f. keeps I (bo_MkdirAll b f))
        \<and> (\<forall>f. keeps I (bo_VacuumInto b f)) \<and> (\<forall>f. keeps I (bo_Chmod b f)))
   \<and> (let d = ma_doctor m in (\<forall>c z. keeps I (dk_ZoneIDByName d c z)) \<and> (\<forall>a. keeps I (dk_kubectl d a))
        \<and> (\<forall>f. keeps I (dk_ReadFile d f)) \<and> (\<forall>a u k. keeps I (dk_Dial d a u k)) \<and> (\<forall>u. keeps I (dk_Get d u)))"

lemma keeps_remote [keeps_rules]: "keeps I m \<Longrightarrow> keeps (\<lambda>t. I (te_sys t)) (remote m)"
  by (rule keepsI) (auto dest: keepsD split: prod.splits)

lemma keeps_printf [keeps_rules]: "keeps (\<lambda>t. I (te_sys t)) (printf x)" "keeps (\<lambda>t. I (te_sys t)) (printLine x)"
  by (auto intro!: keepsI simp: printLine_def)

lemma keeps_get_request:
  assumes "only_writes_by_request I m"
  shows "keeps I (do_request (client (ma_http m) rd sock addr tok) ''GET'' r dec)"
  using assms unfolding do_request_def client_def newTCPClient_def newUnixClient_def only_writes_by_request_def
  by (auto intro!: keeps_rules)

lemma keeps_queries:
  assumes "only_writes_by_request I m"
  shows "keeps I (listEnvironments (client (ma_http m) rd sock addr tok) project branch)"
    and "keeps I (resolveOne (client (ma_http m) rd sock addr tok) project branch)"
    and "keeps I (client_logs (client (ma_http m) rd sock addr tok) i)"
proof -
  note get = keeps_get_request [OF assms]
  have "keeps I (list_pages (client (ma_http m) rd sock addr tok) project branch n offset envs)" for n offset envs
    by (induction n arbitrary: offset envs) (auto intro!: keeps_rules get)
  then show listed: "keeps I (listEnvironments (client (ma_http m) rd sock addr tok) project branch)"
    by (simp add: listEnvironments_def)
  show "keeps I (resolveOne (client (ma_http m) rd sock addr tok) project branch)"
    unfolding resolveOne_def by (intro keeps_rules listed) (auto split: list.splits intro: keeps_rules)
  show "keeps I (client_logs (client (ma_http m) rd sock addr tok) i)"
    unfolding client_logs_def by (auto intro!: keeps_rules get)
qed

lemma keeps_checks:
  assumes "only_writes_by_request I m"
  shows "keeps I (checkDNSProvider (ma_doctor m) cfg)" "keeps I (checkDeployProvider (ma_doctor m) cfg)"
    "keeps I (checkACMEDirectoryReachable (ma_doctor m) cfg)"
  using assms
  unfolding checkDNSProvider_def checkCloudflareToken_def checkDeployProvider_def checkKubernetesReachable_def
    checkSSHReachable_def checkACMEDirectoryReachable_def check_failed_def only_writes_by_request_def Let_def
  by (auto intro!: keeps_rules)

lemma keeps_file_commands:
  assumes "only_writes_by_request I m"
  shows "keeps (\<lambda>t. I (te_sys t)) (install_command (ma_MkdirAll m) configDir dataDir)"
    and "keeps (\<lambda>t. I (te_sys t)) (init_command (ma_marshal m) (ma_WriteFile m) flags)"
    and "keeps (\<lambda>t. I (te_sys t)) (backup_command (ma_load m) (ma_open m) (ma_backup m) configPath out)"
    and "keeps (\<lambda>t. I (te_sys t)) (doctor_command (ma_load m) (ma_doctor m) configPath)"
proof -
  have files: "\<And>dir. keeps I (ma_MkdirAll m dir)" "\<And>f out. keeps I (ma_WriteFile m f out)" "\<And>f. keeps I (ma_open m f)"
    using assms by (simp_all add: only_writes_by_request_def)
  show "keeps (\<lambda>t. I (te_sys t)) (install_command (ma_MkdirAll m) configDir dataDir)"
    unfolding install_command_def install_one_def by (intro keeps_rules files)
  show "keeps (\<lambda>t. I (te_sys t)) (init_command (ma_marshal m) (ma_WriteFile m) flags)"
    unfolding init_command_def by (intro keeps_rules files)
  have "keeps I (Backup (ma_backup m) out)"
    using assms unfolding Backup_def only_writes_by_request_def Let_def by (auto intro!: keeps_rules)
  then show "keeps (\<lambda>t. I (te_sys t)) (backup_command (ma_load m) (ma_open m) (ma_backup m) configPath out)"
    unfolding backup_command_def by (intro keeps_rules files)
  show "keeps (\<lambda>t. I (te_sys t)) (doctor_command (ma_load m) (ma_doctor m) configPath)"
    unfolding doctor_command_def Let_def by (intro keeps_rules keeps_checks [OF assms])
qed

lemma keeps_commands:
  assumes "only_writes_by_request I m" and "in_command iv \<noteq> ''destroy''"
  shows "keeps (\<lambda>t. I (te_sys t)) (run_command m iv)"
proof -
  have table: "keeps (\<lambda>t. I (te_sys t)) (printEnvironmentTable envs)" for envs
    unfolding printEnvironmentTable_def by (intro keeps_rules)
  note queries = keeps_queries [OF assms(1)]
  have "keeps (\<lambda>t. I (te_sys t)) (list_command (client (ma_http m) rd sock addr tok) project)"
    "keeps (\<lambda>t. I (te_sys t)) (logs_command (client (ma_http m) rd sock addr tok) project branch)" for rd sock addr tok project branch
    unfolding list_command_def logs_command_def by (intro keeps_rules queries table)+
  moreover have "keeps (\<lambda>t. I (te_sys t)) (status_command (ma_when m) (client (ma_http m) rd sock addr tok) project branch)"
    for rd sock addr tok project branch
    unfolding status_command_def
    by (intro keeps_rules queries) (auto split: list.splits intro!: keeps_rules table)
  ultimately show ?thesis
    using assms(2) unfolding run_command_def newRootCmd_def command_defs flag_client_def
    by (auto intro!: keeps_return keeps_file_commands [OF assms(1)])
qed

lemma main_keeps:
  assumes "only_writes_by_request I m"
    and "\<And>iv. ma_parse m (newRootCmd m) root_flags args = Inr (Some iv) \<Longrightarrow> in_command iv \<noteq> ''destroy''"
    and "I (te_sys t)" and "run_state (ramify_main m args) t = ((err, status), t')"
  shows "I (te_sys t') \<and> status = (if err = None then 0 else 1)"
proof -
  have "keeps (\<lambda>t. I (te_sys t)) (Execute m args)"
    unfolding Execute_def using assms(1,2) by (auto intro!: keeps_rules keeps_commands split: sum.split option.split)
  then have "keeps (\<lambda>t. I (te_sys t)) (ramify_main m args)"
    unfolding ramify_main_def by (intro keeps_rules)
  then have "I (te_sys t')"
    using assms(3,4) by (auto dest: keepsD)
  with assms(4) show ?thesis
    by (auto simp: ramify_main_def run_err split: prod.splits option.splits)
qed

end
