(* ===== verification/Cli_Queries.thy ===== *)
theory Cli_Queries
  imports Cli_Root Cli_Theorems
begin

text \<open>
  The program \<open>ramify\<close> beside a running daemon: its requests go through the two servers of the daemon,
  over a network that may lose a request or its answer; everything else it does is outside. Only
  \<open>destroy\<close> changes the tables.
\<close>

section \<open>GET requests\<close>

text \<open>A state that differs from the given one only in the world outside.\<close>

definition same_inside :: "'w sys \<Rightarrow> 'w sys \<Rightarrow> bool" where
  "same_inside s0 s \<longleftrightarrow> db s = db s0 \<and> metrics s = metrics s0 \<and> log s = log s0"

lemma keeps_inside_outside [keeps_rules]: "keeps (same_inside s0) (outside m)"
  by (auto intro!: keepsI simp: same_inside_def outside_def split: prod.splits)

lemma keeps_inside_query [keeps_rules]: "keeps (same_inside s0) (query rt sel)"
  unfolding query_def by (intro keeps_rules)

lemma keeps_inside_queries [keeps_rules]:
  "keeps (same_inside s0) (GetEnvironment rt i)" "keeps (same_inside s0) (ListEnvironments rt opts)"
  "keeps (same_inside s0) (ListUnprocessedEvents rt)"
  unfolding GetEnvironment_def ListEnvironments_def ListUnprocessedEvents_def scanEvents_def Let_def fails_def
  by (intro keeps_rules)+

lemma keeps_inside_lookup [keeps_rules]:
  "(\<And>env. keeps (same_inside s0) (k env)) \<Longrightarrow> keeps (same_inside s0) (with_environment sv rq k)"
  unfolding with_environment_def lookupEnvironment_def by (intro keeps_rules)

text \<open>The endpoints a router may reach with GET; their handlers read.\<close>

definition read_endpoints :: "endpoint set" where
  "read_endpoints = {Healthz, Readyz, MetricsPage, Dashboard, DashboardConfig, ListEnvs, GetEnv, LogsOfEnv}"

lemma get_routes: "(''GET'', pat, e) \<in> set routes \<Longrightarrow> e \<in> read_endpoints"
  by (auto simp: routes_def read_endpoints_def)

lemma handle_reads:
  assumes "e \<in> read_endpoints"
  shows "keeps (same_inside s0) (handle sv e rq)"
proof -
  have "keeps (same_inside s0) (handleHealthz sv rq)" "keeps (same_inside s0) (handleReadyz sv rq)"
    "keeps (same_inside s0) (handleMetrics sv rq)" "keeps (same_inside s0) (handleDashboard sv rq)"
    "keeps (same_inside s0) (handleDashboardConfig sv rq)" "keeps (same_inside s0) (handleListEnvironments sv rq)"
    "keeps (same_inside s0) (handleGetEnvironment sv rq)" "keeps (same_inside s0) (handleLogs sv rq)"
    unfolding handleHealthz_def handleReadyz_def handleMetrics_def handleDashboard_def handleDashboardConfig_def
      handleListEnvironments_def handleGetEnvironment_def handleLogs_def Let_def
    by (intro keeps_rules)+
  then show ?thesis
    using assms by (auto simp: read_endpoints_def handle_def)
qed

lemma ServeHTTP_reads:
  assumes "router_law matching"
  shows "keeps (same_inside s0) (ServeHTTP matching sv ''GET'' rq)"
proof -
  have "keeps (same_inside s0) (handle sv e rq)" if "matching ''GET'' (rq_Path rq) = Inr e" for e
    using assms that unfolding router_law_def by (blast intro: handle_reads get_routes)
  then show ?thesis
    unfolding ServeHTTP_def securityHeaders_def by (auto intro!: keeps_rules)
qed

section \<open>The machine of the operator\<close>

text \<open>
  A request over the socket reaches the first server of the daemon, one with an address the second. The
  network may fail before the daemon has the request, and after.
\<close>

definition daemon_http ::
  "(string \<Rightarrow> string \<Rightarrow> int + endpoint) \<Rightarrow> 'w Server \<Rightarrow> string \<Rightarrow> string \<Rightarrow> ('w, error option) state \<Rightarrow> 'w sys http_transport" where
  "daemon_http matching sv tcpAddr tcpToken network sock base verb rq =
     if_err (outside network) (\<lambda>err. ret (Inl err))
       (do { w \<leftarrow> hs_Handler (if sock = None then tcpServer matching sv tcpAddr tcpToken else unixServer matching sv) verb rq;
             if_err (outside network) (\<lambda>err. ret (Inl err)) (ret (Inr w)) })"

definition backup_outside :: "'w backup_os \<Rightarrow> 'w sys backup_os" where
  "backup_outside b =
     \<lparr>bo_Stat = (\<lambda>f. outside (bo_Stat b f)), bo_IsNotExist = bo_IsNotExist b, bo_MkdirAll = (\<lambda>f. outside (bo_MkdirAll b f)),
      bo_VacuumInto = (\<lambda>f. outside (bo_VacuumInto b f)), bo_Chmod = (\<lambda>f. outside (bo_Chmod b f))\<rparr>"

definition doctor_outside :: "('w, 'c, 'k) doctor_os \<Rightarrow> ('w sys, 'c, 'k) doctor_os" where
  "doctor_outside d =
     \<lparr>dk_NewWithAPIToken = dk_NewWithAPIToken d, dk_ZoneIDByName = (\<lambda>c z. outside (dk_ZoneIDByName d c z)),
      dk_kubectl = (\<lambda>a. outside (dk_kubectl d a)), dk_ReadFile = (\<lambda>f. outside (dk_ReadFile d f)),
      dk_ParsePrivateKey = dk_ParsePrivateKey d, dk_Dial = (\<lambda>a u k. outside (dk_Dial d a u k)),
      dk_Get = (\<lambda>u. outside (dk_Get d u))\<rparr>"

text \<open>
  The machine \<open>m\<close> on its own, with the daemon's servers in place of its network. \<open>backup\<close> opens the
  database file beside the daemon; its migrations have been applied when the daemon started.
\<close>

definition beside_daemon ::
  "'w sys http_transport \<Rightarrow> ('w sys command list \<Rightarrow> (string \<times> flag_value) list \<Rightarrow> string list \<Rightarrow> error + invocation option)
   \<Rightarrow> ('w, 'c, 'k) machine \<Rightarrow> ('w sys, 'c, 'k) machine" where
  "beside_daemon http parse m =
     \<lparr>ma_parse = parse, ma_stdin = ma_stdin m, ma_http = http, ma_read = ma_read m, ma_when = ma_when m,
      ma_MkdirAll = (\<lambda>f. outside (ma_MkdirAll m f)), ma_marshal = ma_marshal m,
      ma_WriteFile = (\<lambda>f out. outside (ma_WriteFile m f out)), ma_load = ma_load m, ma_open = (\<lambda>f. outside (ma_open m f)),
      ma_backup = backup_outside (ma_backup m), ma_doctor = doctor_outside (ma_doctor m)\<rparr>"

lemma get_requests_read:
  assumes "router_law matching"
  shows "keeps (same_inside s0) (daemon_http matching sv tcpAddr tcpToken network sock base ''GET'' rq)"
proof -
  note reads = ServeHTTP_reads [OF assms]
  have "keeps (same_inside s0) (tcp_api matching sv tcpToken ''GET'' rq)"
    unfolding tcp_api_def tokenAuth_def by (intro keeps_rules reads)
  then have "keeps (same_inside s0) (hs_Handler
      (if sock = None then tcpServer matching sv tcpAddr tcpToken else unixServer matching sv) ''GET'' rq)"
    by (cases sock) (simp_all add: unixServer_def tcpServer_def reads)
  then show ?thesis
    unfolding daemon_http_def by (intro keeps_rules)
qed

lemma beside_daemon_reads:
  assumes "router_law matching"
  shows "only_writes_by_request (same_inside s0) (beside_daemon (daemon_http matching sv tcpAddr tcpToken network) parse m)"
  unfolding only_writes_by_request_def beside_daemon_def backup_outside_def doctor_outside_def Let_def
  by (auto intro: keeps_inside_outside get_requests_read [OF assms])

section \<open>The program\<close>


text \<open>The invocation \<open>ramify list\<close> beside the example daemon.\<close>

definition list_invocation :: invocation where
  "list_invocation = \<lparr>in_command = ''list'', in_args = [], in_flags = map_of (root_flags @ [(''project'', FlagString [])])\<rparr>"

lemma list_invocation_parsed: "parsed_from (newRootCmd m) root_flags list_invocation"
  unfolding parsed_from_def
  by (rule bexI [of _ "newListCmd m"]) (auto simp: newListCmd_def newRootCmd_def list_invocation_def root_flags_def)

definition quiet_machine :: "(example_world, unit, unit) machine" where
  "quiet_machine =
     \<lparr>ma_parse = (\<lambda>_ _ _. Inr None), ma_stdin = [], ma_http = (\<lambda>_ _ _ _. ret (Inl ErrNotFound)),
      ma_read = (\<lambda>_. []), ma_when = (\<lambda>_. []), ma_MkdirAll = (\<lambda>_. ret None), ma_marshal = (\<lambda>_. Inr []),
      ma_WriteFile = (\<lambda>_ _. ret None), ma_load = (\<lambda>_. Inl ErrNotFound), ma_open = (\<lambda>_. ret None),
      ma_backup = \<lparr>bo_Stat = (\<lambda>_. ret None), bo_IsNotExist = (\<lambda>_. True), bo_MkdirAll = (\<lambda>_. ret None),
        bo_VacuumInto = (\<lambda>_. ret None), bo_Chmod = (\<lambda>_. ret None)\<rparr>,
      ma_doctor = \<lparr>dk_NewWithAPIToken = (\<lambda>_. Inr ()), dk_ZoneIDByName = (\<lambda>_ _. ret (Inr [])),
        dk_kubectl = (\<lambda>_. ret ([], None)), dk_ReadFile = (\<lambda>_. ret (Inr [])), dk_ParsePrivateKey = (\<lambda>_. Inr ()),
        dk_Dial = (\<lambda>_ _ _. ret None), dk_Get = (\<lambda>_. ret (Inr 200))\<rparr>\<rparr>"


end
