(* ===== verification/Fake_Providers.thy ===== *)
theory Fake_Providers
  imports Acme_Provider Transition_System "HOL-Library.AList"
begin

text \<open>
  \<open>test/fakes\<close>: the providers in memory that the tests of the repository run the core against. Each
  fake is a state of its own. A method works under the mutex of its fake and is one step; \<open>Apply\<close> leaves
  the mutex for its gate, which has a transition system of its own below, its 32-bit counters as
  integers that the number of goroutines bounds. A Go map is an association list in the order its
  iteration takes.
\<close>

section \<open>DNS\<close>

record fake_dns =
  fdns_records :: "(string \<times> PDNSRecord) list"
  fdns_DeleteErr :: "error option"

definition NewDNSProvider :: fake_dns where
  "NewDNSProvider = \<lparr>fdns_records = [], fdns_DeleteErr = None\<rparr>"

definition dnsKey :: "string \<Rightarrow> string \<Rightarrow> string" where
  "dnsKey zone name = zone @ ''/'' @ name"

definition fdns_EnsureRecord :: "PDNSRecord \<Rightarrow> (fake_dns, error option) state" where
  "fdns_EnsureRecord rec = do {
     modify_state (\<lambda>f. f\<lparr>fdns_records := AList.update (dnsKey (pr_Zone rec) (pr_Name rec)) rec (fdns_records f)\<rparr>);
     ret None }"

definition fdns_DeleteRecord :: "PDNSRecord \<Rightarrow> (fake_dns, error option) state" where
  "fdns_DeleteRecord rec = do {
     f \<leftarrow> get_state;
     (case fdns_DeleteErr f of
        Some err \<Rightarrow> ret (Some err)
      | None \<Rightarrow>
          (let key = dnsKey (pr_Zone rec) (pr_Name rec)
           in case map_of (fdns_records f) key of
                None \<Rightarrow> ret (Some (Opaque (''fakes: no such dns record '' @ key)))
              | Some existing \<Rightarrow>
                  if pr_OwnershipTag existing \<noteq> pr_OwnershipTag rec then
                    ret (Some (Opaque (''fakes: ownership tag mismatch for '' @ key @ '': refusing delete'')))
                  else do {
                    modify_state (\<lambda>f. f\<lparr>fdns_records := AList.delete key (fdns_records f)\<rparr>);
                    ret None })) }"

definition fdns_ListManagedRecords :: "string \<Rightarrow> (fake_dns, error + PDNSRecord list) state" where
  "fdns_ListManagedRecords zone = do {
     f \<leftarrow> get_state;
     ret (Inr (filter (\<lambda>rec. pr_Zone rec = zone) (map snd (fdns_records f)))) }"

definition fake_DNSProvider :: "fake_dns DNSProvider" where
  "fake_DNSProvider = \<lparr>dns_EnsureRecord = fdns_EnsureRecord, dns_DeleteRecord = fdns_DeleteRecord,
     dns_ListManagedRecords = fdns_ListManagedRecords\<rparr>"

section \<open>Deployments\<close>

datatype deployState = deployStateRunning | deployStateSleeping | deployStateDestroyed

record deployment =
  dy_spec :: EnvSpec
  dy_state :: deployState
  dy_applyCount :: int

definition empty_EnvSpec :: EnvSpec where
  "empty_EnvSpec = \<lparr>sp_Project = [], sp_Branch = [], sp_Subdomain = [], sp_ArtifactRef = [], sp_PreviousRef = []\<rparr>"

text \<open>The gate is set or nil; a call that comes to a gate waits for a value the test sends.\<close>

record fake_deploy =
  fd_deployments :: "(string \<times> deployment) list"
  fd_ApplyErr :: "error option"
  fd_ApplyErrOnRef :: "string \<Rightarrow> error option"
  fd_SleepErr :: "error option"
  fd_WakeErr :: "error option"
  fd_DestroyErr :: "error option"
  fd_applyCalls :: int
  fd_UnhealthyChecks :: int
  fd_healthChecks :: "string \<Rightarrow> int"
  fd_removedCertificates :: "string list"
  fd_ApplyGate :: bool
  fd_inFlight :: int
  fd_maxInFlight :: int

definition NewDeployProvider :: fake_deploy where
  "NewDeployProvider = \<lparr>fd_deployments = [], fd_ApplyErr = None, fd_ApplyErrOnRef = (\<lambda>_. None), fd_SleepErr = None,
     fd_WakeErr = None, fd_DestroyErr = None, fd_applyCalls = 0, fd_UnhealthyChecks = 0, fd_healthChecks = (\<lambda>_. 0),
     fd_removedCertificates = [], fd_ApplyGate = False, fd_inFlight = 0, fd_maxInFlight = 0\<rparr>"

definition refFor :: "EnvSpec \<Rightarrow> string" where
  "refFor spec = ''fake-deploy-'' @ EncodeToString (take 8 (Sum256 (sp_Project spec @ ''/'' @ sp_Branch spec)))"

text \<open>The gate for a call with no other beside it, once its value has come; \<open>gate_step\<close> has any number.\<close>

definition pass_gate :: "(fake_deploy, unit) state" where
  "pass_gate = do {
     modify_state (\<lambda>f. f\<lparr>fd_inFlight := fd_inFlight f + 1\<rparr>);
     modify_state (\<lambda>f. f\<lparr>fd_maxInFlight := max (fd_maxInFlight f) (fd_inFlight f)\<rparr>);
     modify_state (\<lambda>f. f\<lparr>fd_inFlight := fd_inFlight f - 1\<rparr>) }"

definition put_deployment :: "string \<Rightarrow> deployment \<Rightarrow> (fake_deploy, unit) state" where
  "put_deployment ref d = modify_state (\<lambda>f. f\<lparr>fd_deployments := AList.update ref d (fd_deployments f)\<rparr>)"

definition deploy_spec :: "EnvSpec \<Rightarrow> (fake_deploy, error + Deployment) state" where
  "deploy_spec spec = do {
     f \<leftarrow> get_state;
     let ref = (if sp_PreviousRef spec = [] then refFor spec else sp_PreviousRef spec);
     let d = (case map_of (fd_deployments f) ref of
                Some d \<Rightarrow> d
              | None \<Rightarrow> \<lparr>dy_spec = empty_EnvSpec, dy_state = deployStateRunning, dy_applyCount = 0\<rparr>);
     put_deployment ref \<lparr>dy_spec = spec, dy_state = deployStateRunning, dy_applyCount = dy_applyCount d + 1\<rparr>;
     ret (Inr \<lparr>dep_Ref = ref, dep_InternalAddr = ''10.0.0.1:8080''\<rparr>) }"

definition fd_Apply :: "EnvSpec \<Rightarrow> (fake_deploy, error + Deployment) state" where
  "fd_Apply spec = do {
     modify_state (\<lambda>f. f\<lparr>fd_applyCalls := fd_applyCalls f + 1\<rparr>);
     f \<leftarrow> get_state;
     (case fd_ApplyErr f of
        Some err \<Rightarrow> ret (Inl err)
      | None \<Rightarrow>
          (case fd_ApplyErrOnRef f (sp_ArtifactRef spec) of
             Some err \<Rightarrow> ret (Inl err)
           | None \<Rightarrow> do {
               (if fd_ApplyGate f then pass_gate else ret ());
               deploy_spec spec })) }"

definition unknown_ref :: "string \<Rightarrow> error" where
  "unknown_ref ref = Opaque (''fakes: unknown deployment ref '' @ Quote ref)"

definition fd_Sleep :: "string \<Rightarrow> (fake_deploy, error option) state" where
  "fd_Sleep ref = do {
     f \<leftarrow> get_state;
     (case fd_SleepErr f of
        Some err \<Rightarrow> ret (Some err)
      | None \<Rightarrow>
          (case map_of (fd_deployments f) ref of
             None \<Rightarrow> ret (Some (unknown_ref ref))
           | Some d \<Rightarrow> do { put_deployment ref (d\<lparr>dy_state := deployStateSleeping\<rparr>); ret None })) }"

definition fd_Wake :: "string \<Rightarrow> (fake_deploy, error option) state" where
  "fd_Wake ref = do {
     f \<leftarrow> get_state;
     (case fd_WakeErr f of
        Some err \<Rightarrow> ret (Some err)
      | None \<Rightarrow>
          (case map_of (fd_deployments f) ref of
             None \<Rightarrow> ret (Some (unknown_ref ref))
           | Some d \<Rightarrow> do { put_deployment ref (d\<lparr>dy_state := deployStateRunning\<rparr>); ret None })) }"

definition fd_Destroy :: "string \<Rightarrow> (fake_deploy, error option) state" where
  "fd_Destroy ref = do {
     f \<leftarrow> get_state;
     (case fd_DestroyErr f of
        Some err \<Rightarrow> ret (Some err)
      | None \<Rightarrow>
          (case map_of (fd_deployments f) ref of
             None \<Rightarrow> ret None
           | Some d \<Rightarrow> do { put_deployment ref (d\<lparr>dy_state := deployStateDestroyed\<rparr>); ret None })) }"

definition fd_HealthCheck :: "string \<Rightarrow> (fake_deploy, error + Status) state" where
  "fd_HealthCheck ref = do {
     f \<leftarrow> get_state;
     (case map_of (fd_deployments f) ref of
        None \<Rightarrow> ret (Inl (unknown_ref ref))
      | Some d \<Rightarrow>
          if dy_state d = deployStateRunning \<and> fd_healthChecks f ref < fd_UnhealthyChecks f then do {
            modify_state (\<lambda>f. f\<lparr>fd_healthChecks := (fd_healthChecks f)(ref := fd_healthChecks f ref + 1)\<rparr>);
            ret (Inr \<lparr>st_Healthy = False, st_Detail = ''starting''\<rparr>) }
          else ret (Inr (case dy_state d of
              deployStateRunning \<Rightarrow> \<lparr>st_Healthy = True, st_Detail = ''running''\<rparr>
            | deployStateSleeping \<Rightarrow> \<lparr>st_Healthy = False, st_Detail = ''sleeping''\<rparr>
            | deployStateDestroyed \<Rightarrow> \<lparr>st_Healthy = False, st_Detail = ''destroyed''\<rparr>))) }"

definition fd_RemoveCertificate :: "string \<Rightarrow> (fake_deploy, error option) state" where
  "fd_RemoveCertificate domain = do {
     modify_state (\<lambda>f. f\<lparr>fd_removedCertificates := fd_removedCertificates f @ [domain]\<rparr>);
     ret None }"

text \<open>What the tests read: the certificates removed, the applies of a reference, and all calls.\<close>

definition RemovedCertificates :: "fake_deploy \<Rightarrow> string list" where
  "RemovedCertificates f = fd_removedCertificates f"

definition ApplyCount :: "fake_deploy \<Rightarrow> string \<Rightarrow> int" where
  "ApplyCount f ref = (case map_of (fd_deployments f) ref of None \<Rightarrow> 0 | Some d \<Rightarrow> dy_applyCount d)"

definition ApplyCalls :: "fake_deploy \<Rightarrow> int" where
  "ApplyCalls f = fd_applyCalls f"

definition MaxInFlight :: "fake_deploy \<Rightarrow> int" where
  "MaxInFlight f = fd_maxInFlight f"

definition fake_DeployProvider :: "fake_deploy DeployProvider" where
  "fake_DeployProvider = \<lparr>dp_Apply = fd_Apply, dp_Sleep = fd_Sleep, dp_Wake = fd_Wake, dp_Destroy = fd_Destroy,
     dp_HealthCheck = fd_HealthCheck, dp_CertificateInstaller = None, dp_CertificateRemover = Some fd_RemoveCertificate,
     dp_LogFetcher = None\<rparr>"

section \<open>Certificates\<close>

text \<open>\<open>Now\<close> is nil or the clock of a test, which stands at one instant; \<open>realNow\<close> is \<open>time.Now\<close>.\<close>

record fake_cert =
  fc_certs :: "(string \<times> CertRef) list"
  fc_Now :: "time option"
  fc_RevokeErr :: "error option"

definition NewCertificateProvider :: fake_cert where
  "NewCertificateProvider = \<lparr>fc_certs = [], fc_Now = None, fc_RevokeErr = None\<rparr>"

definition fc_now :: "(fake_cert, time) state \<Rightarrow> (fake_cert, time) state" where
  "fc_now realNow = do { f \<leftarrow> get_state; (case fc_Now f of Some t \<Rightarrow> ret t | None \<Rightarrow> realNow) }"

definition fc_EnsureCertificate :: "(fake_cert, time) state \<Rightarrow> string \<Rightarrow> (fake_cert, error + CertRef) state" where
  "fc_EnsureCertificate realNow domain = do {
     f \<leftarrow> get_state;
     (case map_of (fc_certs f) domain of
        Some existing \<Rightarrow> ret (Inr existing)
      | None \<Rightarrow> do {
          now \<leftarrow> fc_now realNow;
          let ref = \<lparr>cr_Domain = domain, cr_ExpiresAt = RFC3339 (now + 90 * 24 * Hour), cr_CertificatePEM = [],
                     cr_PrivateKeyPEM = []\<rparr>;
          modify_state (\<lambda>f. f\<lparr>fc_certs := AList.update domain ref (fc_certs f)\<rparr>);
          ret (Inr ref) }) }"

definition fc_RevokeCertificate :: "string \<Rightarrow> (fake_cert, error option) state" where
  "fc_RevokeCertificate domain = do {
     f \<leftarrow> get_state;
     (case fc_RevokeErr f of
        Some err \<Rightarrow> ret (Some err)
      | None \<Rightarrow> do { modify_state (\<lambda>f. f\<lparr>fc_certs := AList.delete domain (fc_certs f)\<rparr>); ret None }) }"

definition fake_CertificateProvider :: "(fake_cert, time) state \<Rightarrow> fake_cert CertificateProvider" where
  "fake_CertificateProvider realNow =
     \<lparr>cp_EnsureCertificate = fc_EnsureCertificate realNow, cp_RevokeCertificate = fc_RevokeCertificate\<rparr>"

section \<open>Git\<close>

record Comment =
  cmt_Project :: string
  cmt_PRNumber :: int
  cmt_Body :: string

record fake_git =
  fg_queued :: "(string \<times> Event) list"
  fg_Comments :: "Comment list"
  fg_ParseWebhookErr :: "error option"
  fg_CommentErr :: "error option"

definition NewGitProvider :: fake_git where
  "NewGitProvider = \<lparr>fg_queued = [], fg_Comments = [], fg_ParseWebhookErr = None, fg_CommentErr = None\<rparr>"

definition QueueEvent :: "string \<Rightarrow> Event \<Rightarrow> (fake_git, unit) state" where
  "QueueEvent signature ev = modify_state (\<lambda>f. f\<lparr>fg_queued := fg_queued f @ [(signature, ev)]\<rparr>)"

definition fg_ErrBadSignature :: error where
  "fg_ErrBadSignature = Opaque ''fakes: bad webhook signature''"

text \<open>The first queued event with the signature, and the queue without it.\<close>

fun take_queued :: "string \<Rightarrow> (string \<times> Event) list \<Rightarrow> (Event \<times> (string \<times> Event) list) option" where
  "take_queued signature [] = None"
| "take_queued signature ((sig, ev) # qs) =
     (if sig = signature then Some (ev, qs)
      else map_option (\<lambda>(e, rest). (e, (sig, ev) # rest)) (take_queued signature qs))"

definition fg_ParseWebhook :: "bytes \<Rightarrow> string \<Rightarrow> (fake_git, error + Event) state" where
  "fg_ParseWebhook payload signature = do {
     f \<leftarrow> get_state;
     (case fg_ParseWebhookErr f of
        Some err \<Rightarrow> ret (Inl err)
      | None \<Rightarrow>
          (case take_queued signature (fg_queued f) of
             Some (ev, rest) \<Rightarrow> do { modify_state (\<lambda>f. f\<lparr>fg_queued := rest\<rparr>); ret (Inr ev) }
           | None \<Rightarrow> ret (Inl fg_ErrBadSignature))) }"

definition fg_CommentOnPR :: "string \<Rightarrow> int \<Rightarrow> string \<Rightarrow> (fake_git, error option) state" where
  "fg_CommentOnPR project prNumber body = do {
     f \<leftarrow> get_state;
     (case fg_CommentErr f of
        Some err \<Rightarrow> ret (Some err)
      | None \<Rightarrow> do {
          modify_state (\<lambda>f. f\<lparr>fg_Comments := fg_Comments f @ [\<lparr>cmt_Project = project, cmt_PRNumber = prNumber, cmt_Body = body\<rparr>]\<rparr>);
          ret None }) }"

section \<open>Notifications\<close>

record Notification =
  nf_Project :: string
  nf_PRNumber :: int
  nf_Event :: NotifyEvent

record fake_notify =
  fn_Notifications :: "Notification list"
  fn_NotifyErr :: "error option"

definition NewNotifierProvider :: fake_notify where
  "NewNotifierProvider = \<lparr>fn_Notifications = [], fn_NotifyErr = None\<rparr>"

definition fn_Notify :: "string \<Rightarrow> int \<Rightarrow> NotifyEvent \<Rightarrow> (fake_notify, error option) state" where
  "fn_Notify project prNumber ev = do {
     f \<leftarrow> get_state;
     (case fn_NotifyErr f of
        Some err \<Rightarrow> ret (Some err)
      | None \<Rightarrow> do {
          modify_state (\<lambda>f. f\<lparr>fn_Notifications := fn_Notifications f
            @ [\<lparr>nf_Project = project, nf_PRNumber = prNumber, nf_Event = ev\<rparr>]\<rparr>);
          ret None }) }"

definition fake_NotifierProvider :: "fake_notify NotifierProvider" where
  "fake_NotifierProvider = \<lparr>np_Notify = fn_Notify\<rparr>"

section \<open>The gate of Apply, with any number of calls\<close>

text \<open>
  A call that found the gate set: it has counted itself and holds the number \<open>n\<close>, has loaded the
  maximum and is about to compare and swap, or waits at the gate. \<open>ga_in\<close> and \<open>ga_peak\<close> are the set of
  calls in flight and the most there ever were, which the code does not have.
\<close>

datatype gate_pc = Outside | Counted int | Comparing int int | AtGate

record 'g gate =
  ga_inFlight :: int
  ga_maxInFlight :: int
  ga_pc :: "'g \<Rightarrow> gate_pc"
  ga_in :: "'g set"
  ga_peak :: nat

definition gate_start :: "'g gate \<Rightarrow> bool" where
  "gate_start s \<longleftrightarrow> s = \<lparr>ga_inFlight = 0, ga_maxInFlight = 0, ga_pc = (\<lambda>_. Outside), ga_in = {}, ga_peak = 0\<rparr>"

inductive gate_step :: "'g gate \<Rightarrow> 'g gate \<Rightarrow> bool" where
  count: "ga_pc s g = Outside \<Longrightarrow> gate_step s (s\<lparr>ga_inFlight := ga_inFlight s + 1,
    ga_pc := (ga_pc s)(g := Counted (ga_inFlight s + 1)), ga_in := insert g (ga_in s),
    ga_peak := max (ga_peak s) (card (insert g (ga_in s)))\<rparr>)"
| load_enough: "ga_pc s g = Counted n \<Longrightarrow> n \<le> ga_maxInFlight s \<Longrightarrow> gate_step s (s\<lparr>ga_pc := (ga_pc s)(g := AtGate)\<rparr>)"
| load_less: "ga_pc s g = Counted n \<Longrightarrow> \<not> n \<le> ga_maxInFlight s
    \<Longrightarrow> gate_step s (s\<lparr>ga_pc := (ga_pc s)(g := Comparing n (ga_maxInFlight s))\<rparr>)"
| swap: "ga_pc s g = Comparing n old \<Longrightarrow> ga_maxInFlight s = old
    \<Longrightarrow> gate_step s (s\<lparr>ga_maxInFlight := n, ga_pc := (ga_pc s)(g := AtGate)\<rparr>)"
| again: "ga_pc s g = Comparing n old \<Longrightarrow> ga_maxInFlight s \<noteq> old \<Longrightarrow> gate_step s (s\<lparr>ga_pc := (ga_pc s)(g := Counted n)\<rparr>)"
| leave: "ga_pc s g = AtGate \<Longrightarrow> gate_step s (s\<lparr>ga_inFlight := ga_inFlight s - 1, ga_pc := (ga_pc s)(g := Outside),
    ga_in := ga_in s - {g}\<rparr>)"

definition counting :: "gate_pc \<Rightarrow> int option" where
  "counting pc = (case pc of Counted n \<Rightarrow> Some n | Comparing n _ \<Rightarrow> Some n | _ \<Rightarrow> None)"

definition gate_inv :: "'g gate \<Rightarrow> bool" where
  "gate_inv s \<longleftrightarrow> finite (ga_in s) \<and> (\<forall>g. g \<in> ga_in s \<longleftrightarrow> ga_pc s g \<noteq> Outside) \<and> ga_inFlight s = int (card (ga_in s))
   \<and> ga_maxInFlight s \<le> int (ga_peak s) \<and> (\<forall>g n. counting (ga_pc s g) = Some n \<longrightarrow> n \<le> int (ga_peak s))
   \<and> (\<forall>g n old. ga_pc s g = Comparing n old \<longrightarrow> old < n)
   \<and> (int (ga_peak s) = ga_maxInFlight s \<or> (\<exists>g. counting (ga_pc s g) = Some (int (ga_peak s))))"

lemma counting_simps [simp]:
  "counting Outside = None" "counting (Counted n) = Some n" "counting (Comparing n old) = Some n" "counting AtGate = None"
  by (simp_all add: counting_def)

lemma gate_inv_pc:
  "gate_inv s \<Longrightarrow> \<forall>h. counting (pc h) = counting (ga_pc s h) \<Longrightarrow> \<forall>h. pc h = Outside \<longleftrightarrow> ga_pc s h = Outside
    \<Longrightarrow> \<forall>h n old. pc h = Comparing n old \<longrightarrow> old < n \<Longrightarrow> gate_inv (s\<lparr>ga_pc := pc\<rparr>)"
  by (simp add: gate_inv_def)

lemma gate_inv_step:
  assumes "gate_inv s" and "gate_step s s'"
  shows "gate_inv s'"
  using assms(2,1)
proof cases
  case (count g)
  let ?pc = "(ga_pc s)(g := Counted (ga_inFlight s + 1))" and ?peak = "max (ga_peak s) (card (insert g (ga_in s)))"
  have old: "finite (ga_in s)" "\<forall>h. h \<in> ga_in s \<longleftrightarrow> ga_pc s h \<noteq> Outside" "ga_inFlight s = int (card (ga_in s))"
      "ga_maxInFlight s \<le> int (ga_peak s)" "\<forall>h n. counting (ga_pc s h) = Some n \<longrightarrow> n \<le> int (ga_peak s)"
      "\<forall>h n old. ga_pc s h = Comparing n old \<longrightarrow> old < n"
      "int (ga_peak s) = ga_maxInFlight s \<or> (\<exists>h. counting (ga_pc s h) = Some (int (ga_peak s)))"
    using assms(1) by (simp_all add: gate_inv_def)
  have new: "card (insert g (ga_in s)) = Suc (card (ga_in s))"
    using old(1,2) count by simp
  have "int ?peak = ga_maxInFlight s \<or> (\<exists>h. counting (?pc h) = Some (int ?peak))"
  proof (cases "Suc (card (ga_in s)) \<le> ga_peak s")
    case True
    then have "?peak = ga_peak s"
      using new by simp
    moreover have "h \<noteq> g" if "counting (ga_pc s h) = Some n" for h n
      using that count by auto
    ultimately show ?thesis
      using old(7) by fastforce
  next
    case False
    then have "counting (?pc g) = Some (int ?peak)"
      using new old(3) by (simp add: max_def)
    then show ?thesis
      by blast
  qed
  moreover have "n \<le> int ?peak" if "counting (?pc h) = Some n" for h n
    using that old(3,5) new by (cases "h = g") (auto simp: of_nat_max le_max_iff_disj)
  moreover have "finite (insert g (ga_in s))" "h \<in> insert g (ga_in s) \<longleftrightarrow> ?pc h \<noteq> Outside" for h
    using old(1,2) by auto
  ultimately show ?thesis
    using old(3,4,6) new unfolding count(1) gate_inv_def by (auto simp: of_nat_max le_max_iff_disj)
next
  case (load_enough g n)
  then have "int (ga_peak s) = ga_maxInFlight s \<or> (\<exists>h. h \<noteq> g \<and> counting (ga_pc s h) = Some (int (ga_peak s)))"
    using assms(1) unfolding gate_inv_def by (metis counting_simps(2) option.inject order_antisym)
  with load_enough show ?thesis
    using assms(1) by (auto simp: gate_inv_def split: if_splits)
next
  case (load_less g n)
  show ?thesis
    unfolding load_less(1) by (rule gate_inv_pc [OF assms(1)]) (use load_less assms(1) in \<open>auto simp: gate_inv_def\<close>)
next
  case (swap g n old)
  then have "counting (ga_pc s g) = Some n"
    by simp
  then have n: "n \<le> int (ga_peak s)" "ga_maxInFlight s < n"
    using assms(1) swap unfolding gate_inv_def by blast+
  then obtain h where "counting (ga_pc s h) = Some (int (ga_peak s))"
    using assms(1) by (auto simp: gate_inv_def)
  then have "int (ga_peak s) = n \<or> (\<exists>h. h \<noteq> g \<and> counting (ga_pc s h) = Some (int (ga_peak s)))"
    using swap(2) by (cases "h = g") auto
  with swap n show ?thesis
    using assms(1) by (auto simp: gate_inv_def split: if_splits)
next
  case (again g n old)
  show ?thesis
    unfolding again(1) by (rule gate_inv_pc [OF assms(1)]) (use again assms(1) in \<open>auto simp: gate_inv_def\<close>)
next
  case (leave g)
  then have "g \<in> ga_in s" "finite (ga_in s)"
    using assms(1) by (simp_all add: gate_inv_def)
  then have "int (card (ga_in s)) - 1 = int (card (ga_in s - {g}))"
    using card_Suc_Diff1 [of "ga_in s" g] by linarith
  moreover have "counting (((ga_pc s)(g := Outside)) h) = counting (ga_pc s h)" for h
    using leave(2) by simp
  moreover have "\<forall>h. h \<in> ga_in s - {g} \<longleftrightarrow> ((ga_pc s)(g := Outside)) h \<noteq> Outside"
      "\<forall>h n old. ((ga_pc s)(g := Outside)) h = Comparing n old \<longrightarrow> old < n"
    using assms(1) by (simp_all add: gate_inv_def)
  ultimately show ?thesis
    using assms(1) unfolding leave(1) gate_inv_def by (simp del: fun_upd_apply)
qed

lemma gate_inv_start: "gate_start s \<Longrightarrow> gate_inv s"
  by (auto simp: gate_start_def gate_inv_def)

interpretation gate: inductive_invariant gate_start gate_step gate_inv
  by unfold_locales (fact gate_inv_start gate_inv_step)+

text \<open>When no call is between its count and its comparison, the maximum is the most calls there ever were.\<close>

lemma max_in_flight_exact:
  assumes "reachable gate_start gate_step s" and "\<And>g. counting (ga_pc s g) = None"
  shows "ga_maxInFlight s = int (ga_peak s)"
  using gate.reachable_inv [OF assms(1)] assms(2) by (simp add: gate_inv_def)

end
