(* ===== verification/Contract_Suites.thy ===== *)
theory Contract_Suites
  imports Fake_Providers
begin

text \<open>
  \<open>test/contract\<close>: the suites every provider must pass, as programs over a provider that answer whether
  they passed. A \<open>require\<close> that fails ends its own test; the tests after it run all the same.
\<close>

section \<open>Tests\<close>

definition require :: "bool \<Rightarrow> ('w, bool) state \<Rightarrow> ('w, bool) state" where
  "require c k = (if c then k else ret False)"

fun run_tests :: "('w, bool) state list \<Rightarrow> ('w, bool) state" where
  "run_tests [] = ret True"
| "run_tests (t # ts) = do { passed \<leftarrow> t; others \<leftarrow> run_tests ts; ret (passed \<and> others) }"

definition require_NoError :: "('w, error option) state \<Rightarrow> ('w, bool) state \<Rightarrow> ('w, bool) state" where
  "require_NoError m k = do { err \<leftarrow> m; require (err = None) k }"

definition require_Error :: "('w, error option) state \<Rightarrow> ('w, bool) state \<Rightarrow> ('w, bool) state" where
  "require_Error m k = do { err \<leftarrow> m; require (err \<noteq> None) k }"

definition require_value :: "('w, error + 'a) state \<Rightarrow> ('a \<Rightarrow> ('w, bool) state) \<Rightarrow> ('w, bool) state" where
  "require_value m k = on_err m (\<lambda>_. ret False) k"

section \<open>The suites\<close>

definition contract_record :: "string \<Rightarrow> PDNSRecord" where
  "contract_record zone = \<lparr>pr_Zone = zone, pr_Name = ''contract.'' @ zone, pr_Type = ''A'', pr_Value = ''203.0.113.10'',
     pr_OwnershipTag = ''contract-owner-tag''\<rparr>"

definition ensure_is_idempotent :: "'w DNSProvider \<Rightarrow> string \<Rightarrow> ('w, bool) state" where
  "ensure_is_idempotent p zone =
     require_NoError (dns_EnsureRecord p (contract_record zone))
       (require_value (dns_ListManagedRecords p zone)
         (\<lambda>records. ret (length (filter (\<lambda>r. pr_Name r = pr_Name (contract_record zone)) records) = 1)))"

definition delete_rejects_mismatched_tag :: "'w DNSProvider \<Rightarrow> string \<Rightarrow> ('w, bool) state" where
  "delete_rejects_mismatched_tag p zone =
     require_Error (dns_DeleteRecord p ((contract_record zone)\<lparr>pr_OwnershipTag := ''someone-elses-tag''\<rparr>))
       (require_value (dns_ListManagedRecords p zone)
         (\<lambda>records. ret (list_ex (\<lambda>r. pr_Name r = pr_Name (contract_record zone)) records)))"

definition delete_with_tag_succeeds :: "'w DNSProvider \<Rightarrow> string \<Rightarrow> ('w, bool) state" where
  "delete_with_tag_succeeds p zone =
     require_NoError (dns_DeleteRecord p (contract_record zone))
       (require_value (dns_ListManagedRecords p zone)
         (\<lambda>records. ret (list_all (\<lambda>r. pr_Name r \<noteq> pr_Name (contract_record zone)) records)))"

definition RunDNSProviderContract :: "'w DNSProvider \<Rightarrow> string \<Rightarrow> ('w, bool) state" where
  "RunDNSProviderContract p zone =
     require_NoError (dns_EnsureRecord p (contract_record zone))
       (run_tests [ensure_is_idempotent p zone, delete_rejects_mismatched_tag p zone, delete_with_tag_succeeds p zone])"

definition contract_spec :: EnvSpec where
  "contract_spec = \<lparr>sp_Project = ''contract/project'', sp_Branch = ''contract-branch'', sp_Subdomain = ''contract-branch'',
     sp_ArtifactRef = ''ref-v1'', sp_PreviousRef = []\<rparr>"

definition update_in_place :: "'w DeployProvider \<Rightarrow> Deployment \<Rightarrow> ('w, bool) state" where
  "update_in_place p dep =
     require_value (dp_Apply p (contract_spec\<lparr>sp_ArtifactRef := ''ref-v2'', sp_PreviousRef := dep_Ref dep\<rparr>))
       (\<lambda>dep2. require (dep_Ref dep = dep_Ref dep2)
         (require_value (dp_HealthCheck p (dep_Ref dep2)) (\<lambda>status. ret (st_Healthy status))))"

definition RunDeployProviderContract :: "'w DeployProvider \<Rightarrow> ('w, bool) state" where
  "RunDeployProviderContract p =
     require_value (dp_Apply p contract_spec)
       (\<lambda>dep. require (dep_Ref dep \<noteq> [])
         (run_tests
           [require_value (dp_HealthCheck p (dep_Ref dep)) (\<lambda>status. ret (st_Healthy status)),
            update_in_place p dep,
            require_NoError (dp_Destroy p (dep_Ref dep)) (ret True),
            require_NoError (dp_Destroy p (dep_Ref dep)) (ret True)]))"

definition RunCertificateProviderContract :: "'w CertificateProvider \<Rightarrow> string \<Rightarrow> ('w, bool) state" where
  "RunCertificateProviderContract p domain =
     require_value (cp_EnsureCertificate p domain)
       (\<lambda>ref. require (domain = cr_Domain ref) (require (cr_ExpiresAt ref \<noteq> [])
         (run_tests
           [require_value (cp_EnsureCertificate p domain) (\<lambda>ref2. ret (ref = ref2)),
            require_NoError (cp_RevokeCertificate p domain) (ret True),
            require_NoError (cp_RevokeCertificate p domain) (ret True)])))"

record GitProviderCase =
  gc_Name :: string
  gc_Payload :: bytes
  gc_Signature :: string
  gc_WantEvent :: Event

definition RunGitProviderContract ::
  "(bytes \<Rightarrow> string \<Rightarrow> ('w, error + Event) state) \<Rightarrow> GitProviderCase list \<Rightarrow> string \<Rightarrow> ('w, bool) state" where
  "RunGitProviderContract parseWebhook cases invalidSignature =
     run_tests
       (map (\<lambda>tc. require_value (parseWebhook (gc_Payload tc) (gc_Signature tc)) (\<lambda>got. ret (gc_WantEvent tc = got))) cases
        @ [case cases of
             [] \<Rightarrow> ret False
           | tc # _ \<Rightarrow> on_err (parseWebhook (gc_Payload tc) invalidSignature) (\<lambda>_. ret True) (\<lambda>_. ret False)])"

definition RunNotifierProviderContract :: "'w NotifierProvider \<Rightarrow> string \<Rightarrow> ('w, bool) state" where
  "RunNotifierProviderContract p project =
     run_tests
       [require_NoError
          (np_Notify p project 1 \<lparr>ne_Kind = ''ready'', ne_URL = ''https://contract-branch.preview.example.com'', ne_Detail = []\<rparr>)
          (ret True)]"

section \<open>What makes a DNS provider pass\<close>

text \<open>
  The laws of the interface for the records of one zone: \<open>held w name\<close> is the record a provider in the
  state \<open>w\<close> holds under a name. Of the records \<open>usable\<close> can be asked for.
\<close>

locale dns_contract =
  fixes p :: "'w DNSProvider" and zone :: string and good :: "'w \<Rightarrow> bool" and held :: "'w \<Rightarrow> string \<Rightarrow> PDNSRecord option"
    and usable :: "PDNSRecord \<Rightarrow> bool"
  assumes ensure: "good w \<Longrightarrow> usable rec \<Longrightarrow> pr_Zone rec = zone
      \<Longrightarrow> \<forall>old. held w (pr_Name rec) = Some old \<longrightarrow> pr_OwnershipTag old = pr_OwnershipTag rec
      \<Longrightarrow> \<exists>w'. run_state (dns_EnsureRecord p rec) w = (None, w') \<and> good w' \<and> held w' = (held w)(pr_Name rec \<mapsto> rec)"
    and listing: "good w \<Longrightarrow> usable rec \<Longrightarrow> pr_Zone rec = zone
      \<Longrightarrow> \<exists>rs w'. run_state (dns_ListManagedRecords p zone) w = (Inr rs, w') \<and> good w' \<and> held w' = held w
        \<and> filter (\<lambda>r. pr_Name r = pr_Name rec) rs = (case held w (pr_Name rec) of None \<Rightarrow> [] | Some r \<Rightarrow> [r])"
    and delete: "good w \<Longrightarrow> usable rec \<Longrightarrow> pr_Zone rec = zone \<Longrightarrow> held w (pr_Name rec) = Some old
      \<Longrightarrow> pr_OwnershipTag old = pr_OwnershipTag rec
      \<Longrightarrow> \<exists>w'. run_state (dns_DeleteRecord p rec) w = (None, w') \<and> good w' \<and> held w' = (held w)(pr_Name rec := None)"
    and reject: "good w \<Longrightarrow> usable rec \<Longrightarrow> pr_Zone rec = zone \<Longrightarrow> held w (pr_Name rec) = Some old
      \<Longrightarrow> pr_OwnershipTag old \<noteq> pr_OwnershipTag rec
      \<Longrightarrow> \<exists>e w'. run_state (dns_DeleteRecord p rec) w = (Some e, w') \<and> good w' \<and> held w' = held w"
    and usable_tag: "usable rec \<Longrightarrow> usable (rec\<lparr>pr_OwnershipTag := ''someone-elses-tag''\<rparr>)"
begin

lemma listed:
  assumes "good w" and "usable (contract_record zone)"
    and "\<And>rs. filter (\<lambda>r. pr_Name r = pr_Name (contract_record zone)) rs
      = (case held w (pr_Name (contract_record zone)) of None \<Rightarrow> [] | Some r \<Rightarrow> [r]) \<Longrightarrow> P rs"
  shows "\<exists>w'. run_state (require_value (dns_ListManagedRecords p zone) (\<lambda>rs. ret (P rs))) w = (True, w') \<and> good w' \<and> held w' = held w"
proof -
  have "pr_Zone (contract_record zone) = zone"
    by (simp add: contract_record_def)
  from listing [OF assms(1,2) this] assms(3) show ?thesis
    by (auto simp: require_value_def run_err)
qed

text \<open>The suite passes on a name that is free, and leaves the provider with the records it had.\<close>

lemma suite_passes:
  assumes "good w" and "usable (contract_record zone)" and "held w (pr_Name (contract_record zone)) = None"
  shows "\<exists>w'. run_state (RunDNSProviderContract p zone) w = (True, w') \<and> good w' \<and> held w' = held w"
proof -
  let ?rec = "contract_record zone" and ?h = "(held w)(pr_Name (contract_record zone) \<mapsto> contract_record zone)"
  have z: "pr_Zone ?rec = zone" "pr_OwnershipTag ?rec = ''contract-owner-tag''"
    by (simp_all add: contract_record_def)
  obtain w1 where w1: "run_state (dns_EnsureRecord p ?rec) w = (None, w1)" "good w1" "held w1 = ?h"
    using ensure [OF assms(1,2) z(1)] assms(3) by auto
  obtain w2 where w2: "run_state (dns_EnsureRecord p ?rec) w1 = (None, w2)" "good w2" "held w2 = ?h"
    using ensure [OF w1(2) assms(2) z(1)] w1(3) by auto
  obtain w3 where w3: "run_state (ensure_is_idempotent p zone) w1 = (True, w3)" "good w3" "held w3 = ?h"
    using listed [OF w2(2) assms(2), where P = "\<lambda>rs. length (filter (\<lambda>r. pr_Name r = pr_Name ?rec) rs) = 1"] w2
    by (auto simp: ensure_is_idempotent_def require_NoError_def require_def)
  let ?foreign = "?rec\<lparr>pr_OwnershipTag := ''someone-elses-tag''\<rparr>"
  obtain e w4 where w4: "run_state (dns_DeleteRecord p ?foreign) w3 = (Some e, w4)" "good w4" "held w4 = ?h"
    using reject [OF w3(2) usable_tag [OF assms(2)], of ?rec] w3(3) z by auto
  have found: "list_ex (\<lambda>r. pr_Name r = pr_Name ?rec) rs" if "filter (\<lambda>r. pr_Name r = pr_Name ?rec) rs = [?rec]" for rs
    using that by (induction rs) (auto split: if_splits)
  obtain w5 where w5: "run_state (delete_rejects_mismatched_tag p zone) w3 = (True, w5)" "good w5" "held w5 = ?h"
    using listed [OF w4(2) assms(2), where P = "list_ex (\<lambda>r. pr_Name r = pr_Name ?rec)"] w4
    by (auto simp: delete_rejects_mismatched_tag_def require_Error_def require_def found simp del: list_ex_iff)
  obtain w6 where w6: "run_state (dns_DeleteRecord p ?rec) w5 = (None, w6)" "good w6" "held w6 = held w"
    using delete [OF w5(2) assms(2) z(1), of ?rec] w5(3) assms(3) fun_upd_idem [of "held w" "pr_Name ?rec" None] by auto
  obtain w7 where w7: "run_state (delete_with_tag_succeeds p zone) w5 = (True, w7)" "good w7" "held w7 = held w"
    using listed [OF w6(2) assms(2), where P = "list_all (\<lambda>r. pr_Name r \<noteq> pr_Name ?rec)"] w6 assms(3)
    by (auto simp: delete_with_tag_succeeds_def require_NoError_def require_def list_all_iff filter_empty_conv)
  show ?thesis
    using w1 w3 w5 w7 by (simp add: RunDNSProviderContract_def require_NoError_def require_def)
qed

end

section \<open>The fakes pass\<close>

text \<open>A fake that was used in zones without a slash, and has no error to return.\<close>

definition slashless :: "string \<Rightarrow> bool" where
  "slashless s \<longleftrightarrow> CHR ''/'' \<notin> set s"

definition fdns_good :: "fake_dns \<Rightarrow> bool" where
  "fdns_good f \<longleftrightarrow> fdns_DeleteErr f = None \<and> distinct (map fst (fdns_records f))
     \<and> (\<forall>key rec. map_of (fdns_records f) key = Some rec \<longrightarrow> key = dnsKey (pr_Zone rec) (pr_Name rec) \<and> slashless (pr_Zone rec))"

definition fdns_held :: "string \<Rightarrow> fake_dns \<Rightarrow> string \<Rightarrow> PDNSRecord option" where
  "fdns_held zone f name = map_of (fdns_records f) (dnsKey zone name)"

lemma dnsKey_inj:
  assumes "slashless z" and "slashless z'"
  shows "dnsKey z n = dnsKey z' n' \<longleftrightarrow> z = z' \<and> n = n'"
proof -
  have "takeWhile (\<lambda>c. c \<noteq> CHR ''/'') (dnsKey z n) = z" if "slashless z" for z n
    using that by (simp add: dnsKey_def slashless_def takeWhile_append)
  then show ?thesis
    using assms by (metis append_same_eq dnsKey_def same_append_eq)
qed

lemma dnsKey_name: "dnsKey z n = dnsKey z n' \<longleftrightarrow> n = n'"
  by (simp add: dnsKey_def)

lemma fdns_filter:
  assumes "slashless zone"
  shows "distinct (map fst recs) \<Longrightarrow> \<forall>(key, rec) \<in> set recs. key = dnsKey (pr_Zone rec) (pr_Name rec) \<and> slashless (pr_Zone rec)
    \<Longrightarrow> filter (\<lambda>r. pr_Name r = name) (filter (\<lambda>rec. pr_Zone rec = zone) (map snd recs))
      = (case map_of recs (dnsKey zone name) of None \<Rightarrow> [] | Some r \<Rightarrow> [r])"
proof (induction recs)
  case (Cons kr recs)
  then have k: "fst kr = dnsKey (pr_Zone (snd kr)) (pr_Name (snd kr))" "slashless (pr_Zone (snd kr))"
    by (auto simp: split_beta)
  have "map_of recs (dnsKey zone name) = None" if "fst kr = dnsKey zone name"
    using Cons.prems(1) that by (auto simp: map_of_eq_None_iff)
  with Cons k assms show ?case
    by (auto simp: dnsKey_inj split_beta)
qed simp

interpretation fake_dns: dns_contract fake_DNSProvider zone fdns_good "fdns_held zone" "\<lambda>rec. slashless (pr_Zone rec)" for zone
proof
  fix w and rec old :: PDNSRecord
  assume good: "fdns_good w" and z: "slashless (pr_Zone rec)" "pr_Zone rec = zone"
  note defs = fake_DNSProvider_def fdns_EnsureRecord_def fdns_DeleteRecord_def fdns_ListManagedRecords_def Let_def
  show "\<exists>w'. run_state (dns_EnsureRecord fake_DNSProvider rec) w = (None, w') \<and> fdns_good w'
      \<and> fdns_held zone w' = (fdns_held zone w)(pr_Name rec \<mapsto> rec)"
    using good z by (auto simp: defs fdns_good_def fdns_held_def update_conv' distinct_update dnsKey_name fun_eq_iff)
  have "\<forall>(key, rec) \<in> set (fdns_records w). key = dnsKey (pr_Zone rec) (pr_Name rec) \<and> slashless (pr_Zone rec)"
    using good by (auto simp: fdns_good_def)
  then show "\<exists>rs w'. run_state (dns_ListManagedRecords fake_DNSProvider zone) w = (Inr rs, w') \<and> fdns_good w'
      \<and> fdns_held zone w' = fdns_held zone w
      \<and> filter (\<lambda>r. pr_Name r = pr_Name rec) rs = (case fdns_held zone w (pr_Name rec) of None \<Rightarrow> [] | Some r \<Rightarrow> [r])"
    using good z fdns_filter [of zone "fdns_records w" "pr_Name rec"] by (simp add: defs fdns_good_def fdns_held_def)
  assume old: "fdns_held zone w (pr_Name rec) = Some old"
  show "\<exists>w'. run_state (dns_DeleteRecord fake_DNSProvider rec) w = (None, w') \<and> fdns_good w'
      \<and> fdns_held zone w' = (fdns_held zone w)(pr_Name rec := None)" if "pr_OwnershipTag old = pr_OwnershipTag rec"
    using good z old that by (auto simp: defs fdns_good_def fdns_held_def delete_conv' distinct_delete dnsKey_name fun_eq_iff split: if_splits)
  show "\<exists>e w'. run_state (dns_DeleteRecord fake_DNSProvider rec) w = (Some e, w') \<and> fdns_good w'
      \<and> fdns_held zone w' = fdns_held zone w" if "pr_OwnershipTag old \<noteq> pr_OwnershipTag rec"
    using good z old that by (simp add: defs fdns_held_def) (simp add: fdns_good_def)
qed simp

lemma fake_deploy_passes:
  assumes "fd_ApplyErr f = None" and "fd_ApplyErrOnRef f ''ref-v1'' = None" and "fd_ApplyErrOnRef f ''ref-v2'' = None"
    and "fd_DestroyErr f = None" and "fd_UnhealthyChecks f \<le> fd_healthChecks f (refFor contract_spec)"
  shows "fst (run_state (RunDeployProviderContract fake_DeployProvider) f)"
proof -
  have ref: "refFor contract_spec \<noteq> []"
    by (simp add: refFor_def)
  have s: "sp_PreviousRef contract_spec = []" "sp_ArtifactRef contract_spec = ''ref-v1''"
    by (simp_all add: contract_spec_def)
  show ?thesis
    using assms ref
    by (simp add: RunDeployProviderContract_def require_value_def require_NoError_def require_def update_in_place_def run_err
        fake_DeployProvider_def fd_Apply_def fd_HealthCheck_def fd_Destroy_def deploy_spec_def put_deployment_def pass_gate_def
        Let_def s update_conv')
qed

lemma RFC3339_nonempty: "RFC3339 t \<noteq> []"
  by (simp add: RFC3339_def Let_def split: prod.splits)

lemma fake_cert_passes:
  assumes "\<And>f. snd (run_state realNow f) = f" and "fc_RevokeErr f = None"
    and "\<forall>r. map_of (fc_certs f) domain = Some r \<longrightarrow> cr_Domain r = domain \<and> cr_ExpiresAt r \<noteq> []"
  shows "fst (run_state (RunCertificateProviderContract (fake_CertificateProvider realNow) domain) f)"
proof -
  obtain now where "run_state (fc_now realNow) f = (now, f)"
    using assms(1) [of f] by (cases "run_state realNow f"; cases "fc_Now f") (auto simp: fc_now_def)
  then show ?thesis
    using assms(2,3)
    by (cases "map_of (fc_certs f) domain")
      (simp_all add: RunCertificateProviderContract_def require_value_def require_NoError_def require_def run_err
        fake_CertificateProvider_def fc_EnsureCertificate_def fc_RevokeCertificate_def Let_def update_conv' RFC3339_nonempty)
qed

lemma fake_git_passes:
  assumes "fg_ParseWebhookErr f = None" and "cases \<noteq> []"
    and "fg_queued f = map (\<lambda>tc. (gc_Signature tc, gc_WantEvent tc)) cases"
  shows "fst (run_state (RunGitProviderContract fg_ParseWebhook cases invalidSignature) f)"
proof -
  have all: "fst (run_state (run_tests (map (\<lambda>tc. require_value (fg_ParseWebhook (gc_Payload tc) (gc_Signature tc)) (\<lambda>got. ret (gc_WantEvent tc = got))) cs
      @ [on_err (fg_ParseWebhook payload invalidSignature) (\<lambda>_. ret True) (\<lambda>_. ret False)])) g)"
    if "fg_ParseWebhookErr g = None" "fg_queued g = map (\<lambda>tc. (gc_Signature tc, gc_WantEvent tc)) cs" for cs g payload
    using that by (induction cs arbitrary: g) (auto simp: fg_ParseWebhook_def require_value_def run_err split: prod.splits)
  obtain tc cs where cases: "cases = tc # cs"
    using assms(2) by (cases cases) auto
  then show ?thesis
    using all [OF assms(1,3), of "gc_Payload tc"] by (simp add: RunGitProviderContract_def)
qed

text \<open>
  Every fake keeps the contract of the provider it stands for: without an error to return, the fakes
  pass the suites of \<open>test/contract\<close>. The DNS fake passes in any zone without a slash where the name of
  the suite is free, and has the records it had before; the deployment fake from any state in which
  it has no unhealthy answer left to give; the certificate fake for any domain; the Git fake
  for the events it has queued; and the notifier always.
\<close>

theorem fakes_keep_contracts:
  assumes "fdns_good d" and "slashless zone" and "fdns_held zone d (''contract.'' @ zone) = None"
    and "fd_ApplyErr y = None" and "fd_ApplyErrOnRef y ''ref-v1'' = None" and "fd_ApplyErrOnRef y ''ref-v2'' = None"
    and "fd_DestroyErr y = None" and "fd_UnhealthyChecks y \<le> fd_healthChecks y (refFor contract_spec)"
    and "\<And>f. snd (run_state realNow f) = f" and "fc_RevokeErr c = None"
    and "\<forall>r. map_of (fc_certs c) domain = Some r \<longrightarrow> cr_Domain r = domain \<and> cr_ExpiresAt r \<noteq> []"
    and "fg_ParseWebhookErr g = None" and "cases \<noteq> []" and "fg_queued g = map (\<lambda>tc. (gc_Signature tc, gc_WantEvent tc)) cases"
    and "fn_NotifyErr n = None"
  shows "(\<exists>d'. run_state (RunDNSProviderContract fake_DNSProvider zone) d = (True, d') \<and> fdns_held zone d' = fdns_held zone d)
    \<and> fst (run_state (RunDeployProviderContract fake_DeployProvider) y)
    \<and> fst (run_state (RunCertificateProviderContract (fake_CertificateProvider realNow) domain) c)
    \<and> fst (run_state (RunGitProviderContract fg_ParseWebhook cases invalidSignature) g)
    \<and> fst (run_state (RunNotifierProviderContract fake_NotifierProvider project) n)"
proof -
  have "fst (run_state (RunNotifierProviderContract fake_NotifierProvider project) n)"
    using assms(15) by (simp add: RunNotifierProviderContract_def require_NoError_def require_def fake_NotifierProvider_def fn_Notify_def)
  moreover have "\<exists>d'. run_state (RunDNSProviderContract fake_DNSProvider zone) d = (True, d') \<and> fdns_held zone d' = fdns_held zone d"
    using fake_dns.suite_passes [OF assms(1), of zone] assms(2,3) by (auto simp: contract_record_def)
  ultimately show ?thesis
    using fake_deploy_passes [OF assms(4-8)] fake_cert_passes [OF assms(9-11)] fake_git_passes [OF assms(12-14)] by blast
qed

definition ex_case :: GitProviderCase where
  "ex_case = \<lparr>gc_Name = ''push'', gc_Payload = [], gc_Signature = ''s'', gc_WantEvent = empty_Event\<rparr>"

theorem fakes_keep_contracts_witness:
  "fst (run_state (RunDNSProviderContract fake_DNSProvider ''preview.dev'') NewDNSProvider)
    \<and> fst (run_state (RunDeployProviderContract fake_DeployProvider) NewDeployProvider)
    \<and> fst (run_state (RunCertificateProviderContract (fake_CertificateProvider (ret 0)) ''b.preview.dev'') NewCertificateProvider)
    \<and> fst (run_state (RunGitProviderContract fg_ParseWebhook [ex_case] ''t'') (NewGitProvider\<lparr>fg_queued := [(''s'', empty_Event)]\<rparr>))
    \<and> fst (run_state (RunNotifierProviderContract fake_NotifierProvider ''p'') NewNotifierProvider)"
proof -
  note ok = fakes_keep_contracts [where d = NewDNSProvider and zone = "''preview.dev''" and y = NewDeployProvider
      and realNow = "ret 0" and c = NewCertificateProvider and domain = "''b.preview.dev''" and cases = "[ex_case]"
      and g = "NewGitProvider\<lparr>fg_queued := [(''s'', empty_Event)]\<rparr>" and n = NewNotifierProvider
      and project = "''p''" and invalidSignature = "''t''"]
  show ?thesis
    using ok by (simp add: fdns_good_def fdns_held_def slashless_def NewDNSProvider_def NewDeployProvider_def
        NewCertificateProvider_def NewGitProvider_def NewNotifierProvider_def ex_case_def) auto
qed

end
