(* ===== verification/Spec2Isabelle.thy ===== *)
theory Spec2Isabelle
  imports Witness_Runs Keyed_Mutex Reconciler_Theorems Durable_First Deploy_Theorems Dns_Theorems
    Cloudflare_Theorems Git_Theorems Api_Theorems Notify_Theorems Daemon_Theorems Health_Wait
    Daemon_Process Migration_Theorems Cli_Theorems Ssh_Dial Replay_Pool Admission_Ceiling
    Served_Deliveries Reaper_Runs Cli_Queries Contract_Suites
begin

text \<open>
  A verification development for Ramify, a daemon that gives every branch of a Git project a preview
  environment of its own: a deployment, a DNS record and a certificate, kept up to date by webhooks
  and removed when the branch closes or its time is over.

  \<^bold>\<open>The program and its model.\<close> \<open>cmd/ramifyd\<close> loads a configuration, builds one provider of each kind
  and runs three loops over a SQLite database: the control API (\<open>internal/api\<close>), which stores webhook
  deliveries in an inbox and serves the operators; the event worker, which replays due events; and
  the reaper, which destroys expired environments. All of them go through the reconciler
  (\<open>internal/core/reconciler.go\<close>), the only code that calls the providers.

  A Go function with effects is a value of \<open>('s, 'a) state\<close> of the library's state monad, and an error
  result is a value of the type \<open>error\<close>: \<open>error + 'a\<close> for a result or an error, \<open>error option\<close> for an
  error alone; \<open>on_err\<close> and \<open>if_err\<close> are the two forms of the test \<open>err != nil\<close>. The system state
  \<open>sys\<close> holds the world outside (any type), the database, the counters, and a ghost log of the calls
  and committed writes, newest first, which the code does not read. What lies outside the repository
  is an argument: the clock, random bytes and the SQL driver in \<open>runtime\<close>, each of which may fail at
  any call, and the clients of the cloud APIs, of the Git hosts, of the ACME CA, of SSH and of kubectl
  in the record of their provider. A property that needs a law of such a client states it as a
  hypothesis, and its witness runs it on a concrete one.

  \<^bold>\<open>Theories.\<close>
  \<^item> The language: \<open>Prelude\<close> (the monad, \<open>holds\<close> and \<open>keeps\<close>), \<open>Program_Logic\<close> (weakest preconditions),
    \<open>Total_Store\<close> (total correctness on the database, between sets of worlds),
    \<open>Go_Error\<close> (\<open>internal/core/errors.go\<close>, \<open>providerapi/errors.go\<close>), \<open>Go_Strings\<close>, \<open>Go_Text\<close>, \<open>Go_Net\<close>,
    \<open>Go_Path\<close>, \<open>Go_Json\<close>, \<open>Sha256\<close>, \<open>Glob_Match\<close>: what the code uses of Go's standard library, computed.
  \<^item> Pure parts of the core: \<open>Domain_Normalize\<close> (\<open>domain/normalize.go\<close>), \<open>Admission_Policy\<close>
    (\<open>policy/policy.go\<close>), \<open>Retry_Backoff\<close>, \<open>Event_Payload\<close> (\<open>event.go\<close>), \<open>Status_Transitions\<close>
    (\<open>store/transitions.go\<close>), \<open>Provider_Api\<close> (the interfaces of \<open>providers/providerapi\<close> as records).
  \<^item> The store: \<open>Ramify_System\<close> (the state), \<open>Sqlite_Tables\<close> (the statements on the three tables),
    \<open>Sqlite_Store\<close> (the operations of \<open>store/sqlite.go\<close>), \<open>Sqlite_Invariant\<close>, \<open>Store_Effects\<close>,
    \<open>Store_Theorems\<close>. \<open>Migrations\<close> (\<open>store/migrate.go\<close>, the embedded SQL files, and \<open>Open\<close> and \<open>Backup\<close> of
    \<open>store/sqlite.go\<close>) runs the scripts on a schema of tables, columns and constraints;
    \<open>Migration_Theorems\<close> is about any number of openings of one file.
  \<^item> The core: \<open>Reconciler_Model\<close>, \<open>Reaper_Model\<close>, \<open>Keyed_Mutex\<close>; \<open>Reconciler_Invariants\<close> states the contract
    of the store and of the reconciler as locales and proves once that every operation keeps any
    invariant that obeys it; \<open>Environment_History\<close>, \<open>Publish_Gate\<close>, \<open>Durable_First\<close> and \<open>Notify_Theorems\<close>
    interpret it; \<open>Replay_Pool\<close> is the pool of goroutines of \<open>ReplayEvents\<close>, \<open>Admission_Ceiling\<close> the limit on
    environments; \<open>Reconciler_Theorems\<close>, \<open>Apply_Theorems\<close> and \<open>Health_Wait\<close> are about
    single operations. \<open>Healthy_Runs\<close>, \<open>Served_Deliveries\<close> and \<open>Reaper_Runs\<close> show that in a world
    that works the promised end is reached.
  \<^item> The API and the processes: \<open>Http_Api\<close> (\<open>internal/api\<close>), \<open>Daemon_Loop\<close> and \<open>Daemon_Start\<close>
    (\<open>cmd/ramifyd/main.go\<close>), \<open>Cli_Client\<close> (\<open>cmd/ramify/client.go\<close>, \<open>resolve.go\<close>), \<open>Config_Model\<close>
    (\<open>config/config.go\<close>); \<open>Transition_System\<close> and \<open>System_Steps\<close> make the daemon a transition system whose
    steps are the requests, deliveries, ticks and operations in any order, with the world outside
    changing freely in between; \<open>Api_Theorems\<close>, \<open>Config_Theorems\<close>, \<open>Daemon_Theorems\<close>. \<open>Control_Socket\<close>
    (\<open>Serve\<close> and \<open>listenUnix\<close> of \<open>api/server.go\<close>, \<open>api/pidlock_unix.go\<close>) writes the start of the server as
    a program of system calls, which any number of daemons run against one lock file and one socket
    path, one call at a time, with faults and crashes anywhere. \<open>Daemon_Process\<close> is \<open>run\<close> itself: the
    start, then the API, the reaper loop and the event loop side by side until a signal.
  \<^item> The operator's side: \<open>Cli_Commands\<close> (what the commands of \<open>cmd/ramify\<close> do, on a terminal beside the
    system), \<open>Cli_Setup\<close> (\<open>init.go\<close>, \<open>doctor.go\<close>), \<open>Cli_Root\<close> (the tree of commands and flags of \<open>root.go\<close>, and
    \<open>main\<close>), \<open>Cli_Theorems\<close>; \<open>Cli_Queries\<close> runs \<open>main\<close> beside the servers of a daemon.
  \<^item> The providers: \<open>Kubernetes_Provider\<close>, \<open>Compose_Provider\<close>, \<open>Ssh_Dial\<close> (the cancellable
    dialling of \<open>compose/ssh.go\<close>) and \<open>Deploy_Theorems\<close>; \<open>Cloudflare_Provider\<close>,
    \<open>Route53_Provider\<close>, \<open>Googlecloud_Provider\<close>, \<open>Digitalocean_Provider\<close>, \<open>Cloudflare_Theorems\<close> and
    \<open>Dns_Theorems\<close>; \<open>Git_Providers\<close> and \<open>Git_Theorems\<close>; \<open>Pr_Comments\<close>; \<open>Acme_Provider\<close>, \<open>Acme_Setup\<close> and
    \<open>Acme_Theorems\<close>.
  \<^item> The tests: \<open>Fake_Providers\<close> (\<open>test/fakes\<close>, the providers in memory, each on a state of its own, and the
    gate that counts concurrent applies as a step relation) and \<open>Contract_Suites\<close> (\<open>test/contract\<close>, the
    suites as programs over a provider; the laws that make a DNS provider pass are the locale
    \<open>dns_contract\<close>, interpreted on the fake).
  \<^item> \<open>Example_World\<close> and \<open>Witness_Runs\<close>: a concrete world and two complete runs in it.

  \<^bold>\<open>What is shown.\<close> Of every run of the daemon: the database stays well formed; the statuses of an
  environment follow the lifecycle graph; nothing is published before its own deployment is healthy; a
  webhook answered with 202 is stored, and an apply or destroy stores its event before it calls a
  provider; a notification has its template; two alarms cannot ring. Of the operations: the limit on
  environments holds; teardown tries everything, a successful apply leaves the row ready, an update of a
  row is atomic, a claim is exclusive, retries are bounded and a dead letter is final; nobody waits for
  ever for the lock of an environment. In a world that works: an accepted push is served, a closed
  branch is torn down, what a host delivers is served by the next tick of the event loop, and one sweep reaps
  what is expired. Of the database file: migrations are applied once, whole and in
  order, and the schema they leave is the one the store works on. Of the API: the token guards it, a
  rejected request has no effect, the paginated listing is complete. Of the providers: signatures, the
  ownership of DNS records, quoting for the shell and for YAML, the certificates over restarts. Of the
  start: what a loaded configuration guarantees, that everything the process does from its start to its
  end is one of the runs above, that it ends by a signal and not before, and that one daemon at a time
  serves a control socket, which a crash never blocks. Of the commands: \<open>init\<close> writes what the daemon
  loads, \<open>destroy\<close> destroys what was meant and agreed to, and no other command writes. Of the tests: the
  fakes keep the contracts the suites state, and the maximum of concurrent applies is exact. Some theorems show where the code does less
  than its comments say.

  \<^bold>\<open>Bounds and fuel.\<close> \<open>rc_fuel\<close> bounds the polls of one health wait, whose loop is unbounded in the
  code; \<open>Health_Wait\<close> shows that on a clock that runs one poll more than the intervals of the readiness
  timeout is enough and any larger fuel gives the same run. A run that is out of fuel answers the error
  \<open>Diverges\<close>, which no statement takes for a success. \<open>cf_pages\<close>, \<open>r53_pages\<close> and \<open>do_pages\<close> bound the
  pages of one listing in the same way. The client's \<open>maxListPages\<close> is the code's own bound. The glob
  matcher, the JSON decoder and SHA-256 need no fuel.

  \<^bold>\<open>What the model leaves out.\<close> Logging. The wording of an error is kept up to its arguments: numbers,
  the nesting of \<open>%w\<close> and the sentinel errors are exact, the text of an error of another module is not.
  Times are instants in nanoseconds; SQLite returns those it was given. A row is a record of the
  columns, and a list of labels that is empty is not told from one that is absent. One operation is one
  step of the system: the lock of a project and branch orders the operations of one environment, and
  \<open>Keyed_Mutex\<close> proves that lock on its own; the reads that \<open>ProcessWebhookEvent\<close> and \<open>Destroy\<close> make
  before it are part of the step. \<open>ReplayEvents\<close> runs its events one after the other; \<open>Replay_Pool\<close>
  shows that its bounded goroutines do the same in some order. The context of a request is the function
  \<open>rc_ctx_Err\<close>. \<open>strings.EqualFold\<close> folds ASCII only. The chi router's matching is an argument with a
  law. A Go map is iterated in the order of a list. The SQL of the migrations is kept as statements on
  names, declarations and constraints, its column types uninterpreted. \<open>Control_Socket\<close> takes the
  listening, the shutdown and the wait of the two HTTP servers as single calls. The HTTP transport, TLS,
  the YAML codec, the text templates, the SSH handshake and the HTML of the dashboard are not modelled:
  they are calls into other modules or static text; the parser of the flags is an argument. The
  end-to-end helpers of the tests are not either.
\<close>

end
